(* ===== verification/Prelude.thy ===== *)
theory Prelude
  imports Main "HOL-Library.AList" "HOL-Library.List_Lexorder" "HOL-Library.Char_ord"
begin

text \<open>
  Shared vocabulary of the development.

  \<^item> \<open>error\<close>: the sentinel errors of the packages \<open>internaljwt\<close> and \<open>warden\<close>
    (\<open>src/internaljwt/errors.go\<close>, \<open>src/warden/types.go\<close>, \<open>src/warden/oidc.go\<close>,
    \<open>src/warden/oidc_authority.go\<close>, \<open>src/warden/casdoor_directory.go\<close>) as constructors of one
    type, together with \<open>errors.New\<close>/\<open>fmt.Errorf\<close> values and the \<open>%w\<close> wrapping that
    \<open>errors.Is\<close> looks through.
  \<^item> \<open>('s, 'a) op\<close>: a Go function that reads and writes a state \<open>'s\<close> and returns
    \<open>(value, error)\<close>; an error is a value of the result, the state changed so far is kept.
    \<open>bnd\<close> is the idiom \<open>x, err := m; if err != nil {return err}\<close>, \<open>on_err\<close> the same with a
    handler for the error.
  \<^item> Go's \<open>map[string]V\<close> as an association list with distinct keys. The list order stands for
    the (unspecified) iteration order of the Go map.
\<close>

named_theorems op_simps \<open>evaluation of the error-and-state operations\<close>
named_theorems alist_simps \<open>lookup and key facts of association lists\<close>
named_theorems go_simps \<open>evaluation rules for the Go standard library functions\<close>
named_theorems svc_defs \<open>definitions of the service operations\<close>

section \<open>Errors\<close>

datatype error =
    ErrMissingToken | ErrMalformedToken | ErrUnsupportedAlg | ErrInvalidSignature
  | ErrInvalidClaims | ErrExpired | ErrNotYetValid | ErrInsufficientScope
  | ErrNotFound | ErrDisabled | ErrUnauthorized | ErrForbidden | ErrInvalidInput
  | ErrInsufficientRole | ErrAuthorizationPending | ErrRegistrationClosed
  | ErrEmailVerificationRequired
  | ErrOIDCInvalidToken | ErrOIDCNoKey | ErrOIDCUnavailable | ErrDirectoryUnavailable
  | Errorf string
  | Wrapped string error

fun errors_Is :: "error \<Rightarrow> error \<Rightarrow> bool" where
  "errors_Is (Wrapped m e) t = (Wrapped m e = t \<or> errors_Is e t)"
| "errors_Is e t = (e = t)"

lemma errors_Is_refl [simp]: "errors_Is e e"
  by (cases e) auto

lemma errors_Is_sentinel [simp]:
  "errors_Is ErrNotFound t = (t = ErrNotFound)"
  "errors_Is ErrUnauthorized t = (t = ErrUnauthorized)"
  "errors_Is ErrDisabled t = (t = ErrDisabled)"
  by auto

type_synonym 'a res = "error + 'a"

section \<open>Operations with state and errors\<close>

type_synonym ('s, 'a) op = "'s \<Rightarrow> 'a res \<times> 's"

definition ret :: "'a \<Rightarrow> ('s, 'a) op" where
  "ret a s = (Inr a, s)"

definition fail :: "error \<Rightarrow> ('s, 'a) op" where
  "fail e s = (Inl e, s)"

definition on_err :: "('s, 'a) op \<Rightarrow> (error \<Rightarrow> ('s, 'b) op) \<Rightarrow> ('a \<Rightarrow> ('s, 'b) op) \<Rightarrow> ('s, 'b) op" where
  "on_err m h f s = (case fst (m s) of Inl e \<Rightarrow> h e (snd (m s)) | Inr a \<Rightarrow> f a (snd (m s)))"

definition bnd :: "('s, 'a) op \<Rightarrow> ('a \<Rightarrow> ('s, 'b) op) \<Rightarrow> ('s, 'b) op" where
  "bnd m f s = (case fst (m s) of Inl e \<Rightarrow> (Inl e, snd (m s)) | Inr a \<Rightarrow> f a (snd (m s)))"

definition ignore_err :: "('s, 'a) op \<Rightarrow> ('s, unit) op" where
  "ignore_err m s = (Inr (), snd (m s))"

definition lift_res :: "'a res \<Rightarrow> ('s, 'a) op" where
  "lift_res r s = (r, s)"

definition get_st :: "('s \<Rightarrow> 'a) \<Rightarrow> ('s, 'a) op" where
  "get_st f s = (Inr (f s), s)"

definition upd_st :: "('s \<Rightarrow> 's) \<Rightarrow> ('s, unit) op" where
  "upd_st f s = (Inr (), f s)"

text \<open>The body of a loop over a slice that returns at the first error.\<close>

fun for_each :: "('a \<Rightarrow> ('s, 'b) op) \<Rightarrow> 'a list \<Rightarrow> ('s, 'b list) op" where
  "for_each f [] = ret []"
| "for_each f (x # xs) = bnd (f x) (\<lambda>y. bnd (for_each f xs) (\<lambda>ys. ret (y # ys)))"

lemma op_basic [op_simps]:
  "ret a s = (Inr a, s)"
  "fail e s = (Inl e, s)"
  "ignore_err m s = (Inr (), snd (m s))"
  "lift_res r s = (r, s)"
  "get_st f s = (Inr (f s), s)"
  "upd_st g s = (Inr (), g s)"
  by (simp_all add: ret_def fail_def ignore_err_def lift_res_def get_st_def upd_st_def)

lemma bnd_Inr [op_simps]: "fst (m s) = Inr a \<Longrightarrow> bnd m f s = f a (snd (m s))"
  by (simp add: bnd_def)

lemma bnd_Inl [op_simps]: "fst (m s) = Inl e \<Longrightarrow> bnd m f s = (Inl e, snd (m s))"
  by (simp add: bnd_def)

lemma on_err_Inr [op_simps]: "fst (m s) = Inr a \<Longrightarrow> on_err m h f s = f a (snd (m s))"
  by (simp add: on_err_def)

lemma on_err_Inl [op_simps]: "fst (m s) = Inl e \<Longrightarrow> on_err m h f s = h e (snd (m s))"
  by (simp add: on_err_def)

text \<open>\<open>fmt.Errorf("...: %w", err)\<close>\<close>

definition wrapped :: "string \<Rightarrow> ('s, 'a) op \<Rightarrow> ('s, 'a) op" where
  "wrapped msg m = on_err m (\<lambda>err. fail (Wrapped msg err)) ret"

lemma wrapped_simps [op_simps]:
  "fst (m c) = Inr a \<Longrightarrow> wrapped msg m c = (Inr a, snd (m c))"
  "fst (m c) = Inl e \<Longrightarrow> wrapped msg m c = (Inl (Wrapped msg e), snd (m c))"
  by (simp_all add: wrapped_def op_simps)

text \<open>
  Only the state argument of a pending sequence is rewritten: the continuation is looked at when
  the result of the first operation is known.
\<close>

lemma bnd_weak_cong [cong]: "s = s' \<Longrightarrow> bnd m f s = bnd m f s'"
  by simp

lemma on_err_weak_cong [cong]: "s = s' \<Longrightarrow> on_err m h f s = on_err m h f s'"
  by simp

lemma bnd_eq_InrE:
  assumes "bnd m f s = (Inr b, s')"
  obtains a s1 where "m s = (Inr a, s1)" and "f a s1 = (Inr b, s')"
  using assms by (cases "m s") (auto simp: bnd_def split: sum.splits)

lemma on_err_eqE:
  assumes "on_err m h f s = r"
  obtains (err) e s1 where "m s = (Inl e, s1)" and "h e s1 = r"
    | (ok) a s1 where "m s = (Inr a, s1)" and "f a s1 = r"
  using assms by (cases "m s") (auto simp: on_err_def split: sum.splits)

text \<open>
  An invariant of the state kept by both halves is kept by the sequence.
\<close>

lemma bnd_inv:
  assumes "I s" and "\<And>s. I s \<Longrightarrow> I (snd (m s))" and "\<And>a s. I s \<Longrightarrow> I (snd (f a s))"
  shows "I (snd (bnd m f s))"
  using assms by (auto simp: bnd_def split: sum.splits)

lemma on_err_inv:
  assumes "I s" and "\<And>s. I s \<Longrightarrow> I (snd (m s))" and "\<And>e s. I s \<Longrightarrow> I (snd (h e s))"
    and "\<And>a s. I s \<Longrightarrow> I (snd (f a s))"
  shows "I (snd (on_err m h f s))"
  using assms by (auto simp: on_err_def split: sum.splits)

lemma for_each_inv:
  assumes "\<And>x s. x \<in> set xs \<Longrightarrow> I s \<Longrightarrow> I (snd (f x s))" and "I s"
  shows "I (snd (for_each f xs s))"
  using assms
proof (induction xs arbitrary: s)
  case Nil
  then show ?case by (simp add: op_simps)
next
  case (Cons x xs)
  show ?case
    unfolding for_each.simps
  proof (rule bnd_inv [where I = I])
    show "I s" by (rule Cons.prems(2))
    show "\<And>s. I s \<Longrightarrow> I (snd (f x s))" by (simp add: Cons.prems(1))
    fix a s assume "I s"
    then have "I (snd (for_each f xs s))" by (intro Cons.IH Cons.prems(1)) simp_all
    then show "I (snd (bnd (for_each f xs) (\<lambda>ys. ret (a # ys)) s))"
      by (auto simp: bnd_def op_simps split: sum.splits)
  qed
qed

section \<open>Go maps as association lists\<close>

type_synonym 'v gomap = "(string \<times> 'v) list"

definition wf_map :: "'v gomap \<Rightarrow> bool" where
  "wf_map m \<longleftrightarrow> distinct (map fst m)"

definition map_put :: "string \<Rightarrow> 'v \<Rightarrow> 'v gomap \<Rightarrow> 'v gomap" where
  "map_put k v m = AList.update k v m"

definition map_del :: "string \<Rightarrow> 'v gomap \<Rightarrow> 'v gomap" where
  "map_del k m = AList.delete k m"

text \<open>\<open>for k, v := range m {if p(k, v) {delete(m, k)}}\<close>.\<close>

definition map_del_where :: "(string \<Rightarrow> 'v \<Rightarrow> bool) \<Rightarrow> 'v gomap \<Rightarrow> 'v gomap" where
  "map_del_where p m = filter (\<lambda>(k, v). \<not> p k v) m"

text \<open>The values of a map in iteration order: \<open>for _, v := range m {out = append(out, v)}\<close>.\<close>

definition map_values :: "'v gomap \<Rightarrow> 'v list" where
  "map_values m = map snd m"

lemma map_of_map_put [alist_simps, simp]: "map_of (map_put k v m) = (map_of m)(k \<mapsto> v)"
  by (simp add: map_put_def update_conv')

lemma map_of_map_del [alist_simps, simp]: "map_of (map_del k m) = (map_of m)(k := None)"
  by (simp add: map_del_def delete_conv')

lemma wf_map_put [alist_simps, simp]: "wf_map m \<Longrightarrow> wf_map (map_put k v m)"
  by (simp add: wf_map_def map_put_def distinct_update)

lemma wf_map_del [alist_simps, simp]: "wf_map m \<Longrightarrow> wf_map (map_del k m)"
  by (simp add: wf_map_def map_del_def distinct_delete)

lemma wf_map_Nil [alist_simps, simp]: "wf_map []"
  by (simp add: wf_map_def)

lemma wf_map_del_where [alist_simps, simp]: "wf_map m \<Longrightarrow> wf_map (map_del_where p m)"
  by (auto simp: wf_map_def map_del_where_def distinct_map intro: inj_on_subset)

lemma map_of_filter_key:
  assumes "wf_map m"
  shows "map_of (filter (\<lambda>(k, v). q k v) m) k =
    (case map_of m k of None \<Rightarrow> None | Some v \<Rightarrow> if q k v then Some v else None)"
  using assms
proof (induction m)
  case Nil
  then show ?case by simp
next
  case (Cons kv m)
  obtain k' v' where kv: "kv = (k', v')" by fastforce
  with Cons.prems have "map_of m k' = None"
    by (simp add: wf_map_def map_of_eq_None_iff)
  with Cons kv show ?case
    by (auto simp: wf_map_def split: option.splits)
qed

lemma map_of_map_del_where [alist_simps]:
  assumes "wf_map m"
  shows "map_of (map_del_where p m) k =
    (case map_of m k of None \<Rightarrow> None | Some v \<Rightarrow> if p k v then None else Some v)"
  using map_of_filter_key [OF assms, of "\<lambda>k v. \<not> p k v" k]
  by (auto simp: map_del_where_def split: option.splits)

lemma set_map_values [alist_simps]: "wf_map m \<Longrightarrow> set (map_values m) = ran (map_of m)"
  by (simp add: map_values_def wf_map_def ran_distinct)

lemma find_SomeD: "find P xs = Some x \<Longrightarrow> x \<in> set xs \<and> P x"
  by (induction xs) (auto split: if_splits)

text \<open>Searching a map for a row with a property.\<close>

lemma find_row_None:
  "wf_map m \<Longrightarrow> find (\<lambda>(k, x). q x) m = None \<longleftrightarrow> (\<forall>x \<in> ran (map_of m). \<not> q x)"
  by (auto simp: find_None_iff map_values_def wf_map_def ran_distinct)

lemma find_row_Some:
  "wf_map m \<Longrightarrow> find (\<lambda>(k, x). q x) m = Some (k, x) \<Longrightarrow> map_of m k = Some x \<and> q x"
  by (auto simp: wf_map_def dest!: find_SomeD)

lemma find_value_None:
  "wf_map m \<Longrightarrow> find q (map_values m) = None \<longleftrightarrow> (\<forall>x \<in> ran (map_of m). \<not> q x)"
  by (auto simp: find_None_iff set_map_values [symmetric])

lemma find_value_Some:
  "wf_map m \<Longrightarrow> find q (map_values m) = Some x \<Longrightarrow> x \<in> ran (map_of m) \<and> q x"
  by (auto simp: set_map_values [symmetric] dest!: find_SomeD)

lemma map_values_Nil [simp]: "map_values [] = []"
  by (simp add: map_values_def)

end
