(* ===== verification/Go_Strings.thy ===== *)
theory Go_Strings
  imports Prelude
begin

text \<open>
  The functions of Go's packages \<open>strings\<close>, \<open>sort\<close> and \<open>strconv\<close> that the repository calls.

  A Go \<open>string\<close> is a sequence of bytes, and so is a HOL \<open>string\<close> (a \<open>char\<close> is a byte): \<open>len\<close> is
  \<open>length\<close>, comparison is bytewise. \<open>TrimSpace\<close> and \<open>Fields\<close> work on the UTF-8 encodings of all the
  runes \<open>unicode.IsSpace\<close> accepts. \<open>ToLower\<close>/\<open>ToUpper\<close> map the ASCII letters and those non-ASCII
  runes whose image is an ASCII letter (U+0130, U+212A; U+0131, U+017F); the remaining non-ASCII runes
  keep their bytes, where Go maps them to another non-ASCII rune (or U+FFFD): the code only compares
  the results with ASCII text.
\<close>

section \<open>Prefixes, suffixes, search\<close>

definition HasPrefix :: "string \<Rightarrow> string \<Rightarrow> bool" where
  "HasPrefix s p \<longleftrightarrow> take (length p) s = p"

definition HasSuffix :: "string \<Rightarrow> string \<Rightarrow> bool" where
  "HasSuffix s p \<longleftrightarrow> length p \<le> length s \<and> drop (length s - length p) s = p"

definition TrimPrefix :: "string \<Rightarrow> string \<Rightarrow> string" where
  "TrimPrefix s p = (if HasPrefix s p then drop (length p) s else s)"

definition TrimSuffix :: "string \<Rightarrow> string \<Rightarrow> string" where
  "TrimSuffix s p = (if HasSuffix s p then take (length s - length p) s else s)"

definition ContainsChar :: "string \<Rightarrow> char \<Rightarrow> bool" where
  "ContainsChar s c \<longleftrightarrow> c \<in> set s"

definition ContainsAny :: "string \<Rightarrow> string \<Rightarrow> bool" where
  "ContainsAny s cs \<longleftrightarrow> (\<exists>c \<in> set s. c \<in> set cs)"

definition TrimRightChar :: "string \<Rightarrow> char \<Rightarrow> string" where
  "TrimRightChar s c = rev (dropWhile (\<lambda>x. x = c) (rev s))"

definition TrimLeftChar :: "string \<Rightarrow> char \<Rightarrow> string" where
  "TrimLeftChar s c = dropWhile (\<lambda>x. x = c) s"

text \<open>\<open>strings.Split(s, sep)\<close> for a separator of one byte.\<close>

fun SplitChar :: "char \<Rightarrow> string \<Rightarrow> string list" where
  "SplitChar sep [] = [[]]"
| "SplitChar sep (c # s) =
     (if c = sep then [] # SplitChar sep s
      else (case SplitChar sep s of [] \<Rightarrow> [[c]] | w # ws \<Rightarrow> (c # w) # ws))"

text \<open>\<open>strings.ReplaceAll(s, old, new)\<close> for one-byte \<open>old\<close>.\<close>

definition ReplaceAllChar :: "char \<Rightarrow> string \<Rightarrow> string \<Rightarrow> string" where
  "ReplaceAllChar old new s = concat (map (\<lambda>c. if c = old then new else [c]) s)"

lemma HasPrefix_iff: "HasPrefix s p \<longleftrightarrow> (\<exists>t. s = p @ t)"
proof
  assume "HasPrefix s p"
  then have "s = p @ drop (length p) s"
    by (metis HasPrefix_def append_take_drop_id)
  then show "\<exists>t. s = p @ t" by blast
qed (auto simp: HasPrefix_def)

lemma HasPrefix_append [simp]: "HasPrefix (p @ t) p"
  by (auto simp: HasPrefix_iff)

lemma TrimPrefix_append [simp]: "TrimPrefix (p @ t) p = t"
  by (simp add: TrimPrefix_def)

lemma SplitChar_not_Nil [simp]: "SplitChar sep s \<noteq> []"
  by (cases s) (auto split: list.splits)

lemma SplitChar_no_sep: "sep \<notin> set s \<Longrightarrow> SplitChar sep s = [s]"
  by (induction s) auto

lemma SplitChar_append:
  "sep \<notin> set s \<Longrightarrow> SplitChar sep (s @ sep # t) = s # SplitChar sep t"
  by (induction s) auto

section \<open>White space\<close>

text \<open>The UTF-8 encodings of the runes with \<open>unicode.IsSpace\<close>.\<close>

definition space_runes :: "string list" where
  "space_runes =
    [[CHR 0x09], [CHR 0x0A], [CHR 0x0B], [CHR 0x0C], [CHR 0x0D], [CHR 0x20],
     [CHR 0xC2, CHR 0x85], [CHR 0xC2, CHR 0xA0], [CHR 0xE1, CHR 0x9A, CHR 0x80],
     [CHR 0xE2, CHR 0x80, CHR 0x80], [CHR 0xE2, CHR 0x80, CHR 0x81], [CHR 0xE2, CHR 0x80, CHR 0x82],
     [CHR 0xE2, CHR 0x80, CHR 0x83], [CHR 0xE2, CHR 0x80, CHR 0x84], [CHR 0xE2, CHR 0x80, CHR 0x85],
     [CHR 0xE2, CHR 0x80, CHR 0x86], [CHR 0xE2, CHR 0x80, CHR 0x87], [CHR 0xE2, CHR 0x80, CHR 0x88],
     [CHR 0xE2, CHR 0x80, CHR 0x89], [CHR 0xE2, CHR 0x80, CHR 0x8A], [CHR 0xE2, CHR 0x80, CHR 0xA8],
     [CHR 0xE2, CHR 0x80, CHR 0xA9], [CHR 0xE2, CHR 0x80, CHR 0xAF], [CHR 0xE2, CHR 0x81, CHR 0x9F],
     [CHR 0xE3, CHR 0x80, CHR 0x80]]"

fun strip_one :: "string list \<Rightarrow> string \<Rightarrow> string option" where
  "strip_one [] s = None"
| "strip_one (w # ws) s =
     (if w \<noteq> [] \<and> HasPrefix s w then Some (drop (length w) s) else strip_one ws s)"

lemma strip_one_shorter: "strip_one ws s = Some t \<Longrightarrow> length t < length s"
  by (induction ws) (auto simp: HasPrefix_iff split: if_splits)

lemma strip_one_append: "strip_one ws s = Some t \<Longrightarrow> strip_one ws (s @ u) \<noteq> None"
  by (induction ws) (auto simp: HasPrefix_iff split: if_splits)

lemma strip_one_None_prefix: "strip_one ws (s @ u) = None \<Longrightarrow> strip_one ws s = None"
  using strip_one_append [of ws s _ u] by (cases "strip_one ws s") auto

function trim_with :: "string list \<Rightarrow> string \<Rightarrow> string" where
  "trim_with ws s = (case strip_one ws s of None \<Rightarrow> s | Some t \<Rightarrow> trim_with ws t)"
  by pat_completeness auto
termination
  by (relation "measure (\<lambda>(ws, s). length s)") (auto dest: strip_one_shorter)

declare trim_with.simps [simp del]

lemma trim_with_None [go_simps]: "strip_one ws s = None \<Longrightarrow> trim_with ws s = s"
  by (simp add: trim_with.simps [of ws s])

lemma trim_with_Some [go_simps]: "strip_one ws s = Some t \<Longrightarrow> trim_with ws s = trim_with ws t"
  by (simp add: trim_with.simps [of ws s])

lemma trim_with_stripped: "strip_one ws (trim_with ws s) = None"
proof (induction ws s rule: trim_with.induct)
  case (1 ws s)
  then show ?case by (cases "strip_one ws s") (simp_all add: trim_with_None trim_with_Some)
qed

lemma trim_with_suffix: "\<exists>p. s = p @ trim_with ws s"
proof (induction ws s rule: trim_with.induct)
  case (1 ws s)
  show ?case
  proof (cases "strip_one ws s")
    case None
    then show ?thesis by (simp add: trim_with_None)
  next
    case (Some t)
    have "\<exists>p. s = p @ t"
      using Some by (induction ws) (auto simp: HasPrefix_iff split: if_splits)
    with 1 [OF Some] Some show ?thesis
      by (metis append.assoc trim_with_Some)
  qed
qed

text \<open>What is stripped consists of bytes of the stripped runes.\<close>

lemma trim_with_consumes: "\<exists>p. s = p @ trim_with ws s \<and> (\<forall>c \<in> set p. c \<in> \<Union> (set ` set ws))"
proof (induction ws s rule: trim_with.induct)
  case (1 ws s)
  show ?case
  proof (cases "strip_one ws s")
    case None
    then show ?thesis by (simp add: trim_with_None)
  next
    case (Some t)
    have "\<exists>w \<in> set ws. s = w @ t"
      using Some by (induction ws) (auto simp: HasPrefix_iff split: if_splits)
    then obtain w where w: "w \<in> set ws" "s = w @ t" by blast
    obtain p where "t = p @ trim_with ws t" "\<forall>c \<in> set p. c \<in> \<Union> (set ` set ws)"
      using 1 [OF Some] by blast
    with w Some show ?thesis
      by (intro exI [of _ "w @ p"]) (auto simp: trim_with_Some)
  qed
qed

definition TrimLeftSpace :: "string \<Rightarrow> string" where
  "TrimLeftSpace s = trim_with space_runes s"

definition TrimRightSpace :: "string \<Rightarrow> string" where
  "TrimRightSpace s = rev (trim_with (map rev space_runes) (rev s))"

definition TrimSpace :: "string \<Rightarrow> string" where
  "TrimSpace s = TrimRightSpace (TrimLeftSpace s)"

lemma TrimRightSpace_prefix: "\<exists>p. s = TrimRightSpace s @ p"
proof -
  obtain p where "rev s = p @ trim_with (map rev space_runes) (rev s)"
    using trim_with_suffix by blast
  then have "s = TrimRightSpace s @ rev p"
    unfolding TrimRightSpace_def by (metis rev_append rev_rev_ident)
  then show ?thesis by blast
qed

text \<open>The bytes of white space runes.\<close>

definition space_bytes :: "char set" where
  "space_bytes = \<Union> (set ` set space_runes)"

text \<open>Trimming is idempotent: neither end of the result is white space.\<close>

lemma TrimSpace_idem [simp]: "TrimSpace (TrimSpace s) = TrimSpace s"
proof -
  let ?t = "TrimSpace s"
  obtain p where "TrimLeftSpace s = ?t @ p"
    unfolding TrimSpace_def using TrimRightSpace_prefix by blast
  then have "strip_one space_runes ?t = None"
    using trim_with_stripped [of space_runes s] strip_one_None_prefix
    by (metis TrimLeftSpace_def)
  then have l: "TrimLeftSpace ?t = ?t"
    by (simp add: TrimLeftSpace_def trim_with_None)
  have "strip_one (map rev space_runes) (rev ?t) = None"
    by (simp add: TrimSpace_def TrimRightSpace_def trim_with_stripped)
  then have "TrimRightSpace ?t = ?t"
    by (simp add: TrimRightSpace_def trim_with_None)
  with l show ?thesis by (simp add: TrimSpace_def [of ?t])
qed

lemma strip_one_TrimSpace: "strip_one space_runes (TrimSpace s) = None"
  by (metis TrimLeftSpace_def TrimRightSpace_prefix TrimSpace_def strip_one_None_prefix trim_with_stripped)

text \<open>A trimmed text that goes on with bytes other than white space, and ends so, is trimmed.\<close>

lemma strip_one_extend:
  "strip_one ws x = None \<Longrightarrow> x \<noteq> [] \<Longrightarrow> c \<notin> \<Union> (set ` set ws) \<Longrightarrow> strip_one ws (x @ c # z) = None"
proof (induction ws)
  case (Cons w ws)
  have "\<not> HasPrefix (x @ c # z) w" if "w \<noteq> []"
  proof
    assume "HasPrefix (x @ c # z) w"
    then obtain t where t: "x @ c # z = w @ t" by (auto simp: HasPrefix_iff)
    then have "HasPrefix x w \<or> c \<in> set w"
      by (auto simp: append_eq_append_conv2 Cons_eq_append_conv HasPrefix_iff)
    with Cons.prems that show False by (auto split: if_splits)
  qed
  with Cons show ?case by (auto split: if_splits)
qed simp

lemma strip_one_hd: "c \<notin> \<Union> (set ` set ws) \<Longrightarrow> strip_one ws (c # s) = None"
  by (induction ws) (auto simp: HasPrefix_iff Cons_eq_append_conv)

lemma TrimSpace_extend:
  assumes "TrimSpace x = x" and "x \<noteq> []" and "c \<notin> space_bytes" and "d \<notin> space_bytes"
  shows "TrimSpace (x @ c # z @ [d]) = x @ c # z @ [d]"
proof -
  have "strip_one space_runes (x @ c # z @ [d]) = None"
    using strip_one_TrimSpace [of x] assms by (intro strip_one_extend) (auto simp: space_bytes_def)
  moreover have "strip_one (map rev space_runes) (rev (x @ c # z @ [d])) = None"
    using assms(4) strip_one_hd [of d "map rev space_runes"] by (simp add: space_bytes_def)
  ultimately show ?thesis
    by (simp add: TrimSpace_def TrimLeftSpace_def TrimRightSpace_def trim_with_None)
qed

lemma TrimSpace_Nil [simp]: "TrimSpace [] = []"
  by (simp add: TrimSpace_def TrimLeftSpace_def TrimRightSpace_def space_runes_def go_simps HasPrefix_def)

definition blank :: "string \<Rightarrow> bool" where
  "blank s \<longleftrightarrow> TrimSpace s = []"

lemma blank_TrimSpace [simp]: "blank (TrimSpace s) = blank s"
  by (simp add: blank_def)

lemma blank_Nil [simp]: "blank []"
  by (simp add: blank_def)

text \<open>A string without bytes of white space runes is left alone.\<close>

lemma trim_with_fixed: "set s \<inter> \<Union> (set ` set ws) = {} \<Longrightarrow> trim_with ws s = s"
  using trim_with_consumes [of s ws]
  by (metis Un_iff append_Nil disjoint_iff ex_in_conv set_append set_empty)

lemma TrimSpace_fixed: "set s \<inter> space_bytes = {} \<Longrightarrow> TrimSpace s = s"
  using trim_with_fixed [of s space_runes] trim_with_fixed [of "rev s" "map rev space_runes"]
  by (simp add: TrimSpace_def TrimLeftSpace_def TrimRightSpace_def space_bytes_def)

text \<open>A string with any other byte is not blank.\<close>

lemma trim_with_keeps:
  assumes "c \<in> set s" and "c \<notin> \<Union> (set ` set ws)"
  shows "c \<in> set (trim_with ws s)"
proof -
  obtain p where p: "s = p @ trim_with ws s" "\<forall>d \<in> set p. d \<in> \<Union> (set ` set ws)"
    using trim_with_consumes by blast
  have "c \<in> set (p @ trim_with ws s)" using assms(1) p(1) by simp
  with p(2) assms(2) show ?thesis by auto
qed

lemma not_blank:
  assumes "c \<in> set s" and "c \<notin> space_bytes"
  shows "\<not> blank s"
proof -
  have "c \<in> set (trim_with space_runes s)"
    using assms by (intro trim_with_keeps) (auto simp: space_bytes_def)
  then have "c \<in> set (trim_with (map rev space_runes) (rev (trim_with space_runes s)))"
    using assms by (intro trim_with_keeps) (auto simp: space_bytes_def)
  then show ?thesis by (auto simp: blank_def TrimSpace_def TrimLeftSpace_def TrimRightSpace_def)
qed

text \<open>\<open>strings.Fields\<close>: the maximal runs of bytes without white space.\<close>

function fields_from :: "string \<Rightarrow> string \<Rightarrow> string list" where
  "fields_from acc s =
     (if s = [] then (if acc = [] then [] else [rev acc])
      else (case strip_one space_runes s of
        Some t \<Rightarrow> (if acc = [] then fields_from [] t else rev acc # fields_from [] t)
      | None \<Rightarrow> fields_from (hd s # acc) (tl s)))"
  by pat_completeness auto
termination
  by (relation "measure (\<lambda>(acc, s). length s)") (auto dest: strip_one_shorter)

declare fields_from.simps [simp del]

definition Fields :: "string \<Rightarrow> string list" where
  "Fields s = fields_from [] s"

section \<open>Case conversion\<close>

definition is_upper :: "char \<Rightarrow> bool" where
  "is_upper c \<longleftrightarrow> 65 \<le> (of_char c :: nat) \<and> (of_char c :: nat) \<le> 90"

definition is_lower :: "char \<Rightarrow> bool" where
  "is_lower c \<longleftrightarrow> 97 \<le> (of_char c :: nat) \<and> (of_char c :: nat) \<le> 122"

definition lower_char :: "char \<Rightarrow> char" where
  "lower_char c = (if is_upper c then char_of (of_char c + 32 :: nat) else c)"

definition upper_char :: "char \<Rightarrow> char" where
  "upper_char c = (if is_lower c then char_of (of_char c - 32 :: nat) else c)"

function ToLower :: "string \<Rightarrow> string" where
  "ToLower s = (if s = [] then []
     else if HasPrefix s [CHR 0xC4, CHR 0xB0] then CHR ''i'' # ToLower (drop 2 s)
     else if HasPrefix s [CHR 0xE2, CHR 0x84, CHR 0xAA] then CHR ''k'' # ToLower (drop 3 s)
     else lower_char (hd s) # ToLower (tl s))"
  by pat_completeness auto
termination
  by (relation "measure length") (auto simp: HasPrefix_def)

function ToUpper :: "string \<Rightarrow> string" where
  "ToUpper s = (if s = [] then []
     else if HasPrefix s [CHR 0xC4, CHR 0xB1] then CHR ''I'' # ToUpper (drop 2 s)
     else if HasPrefix s [CHR 0xC5, CHR 0xBF] then CHR ''S'' # ToUpper (drop 2 s)
     else upper_char (hd s) # ToUpper (tl s))"
  by pat_completeness auto
termination
  by (relation "measure length") (auto simp: HasPrefix_def)

declare ToLower.simps [simp del] ToUpper.simps [simp del]

lemma ToLower_Nil [simp]: "ToLower [] = []"
  by (simp add: ToLower.simps)

lemma ToUpper_Nil [simp]: "ToUpper [] = []"
  by (simp add: ToUpper.simps)

lemma ToLower_Cons [go_simps]:
  "of_char c < (128 :: nat) \<Longrightarrow> ToLower (c # s) = lower_char c # ToLower s"
  by (subst ToLower.simps) (auto simp: HasPrefix_def)

lemma ToUpper_Cons [go_simps]:
  "of_char c < (128 :: nat) \<Longrightarrow> ToUpper (c # s) = upper_char c # ToUpper s"
  by (subst ToUpper.simps) (auto simp: HasPrefix_def)

section \<open>String sets and sorting\<close>

text \<open>
  A \<open>map[string]bool\<close> used as a set is the list of its keys. \<open>sortedKeys\<close> is
  \<open>sort.Strings\<close> of the keys.
\<close>

definition sortedKeys :: "string list \<Rightarrow> string list" where
  "sortedKeys ks = sort (remdups ks)"

definition sliceSet :: "string list \<Rightarrow> string list" where
  "sliceSet values = filter (\<lambda>v. v \<noteq> []) (map TrimSpace values)"

lemma set_sortedKeys [simp]: "set (sortedKeys ks) = set ks"
  by (simp add: sortedKeys_def)

lemma sorted_sortedKeys [simp]: "sorted (sortedKeys ks)"
  by (simp add: sortedKeys_def)

lemma distinct_sortedKeys [simp]: "distinct (sortedKeys ks)"
  by (simp add: sortedKeys_def)

lemma sortedKeys_empty_iff [simp]: "sortedKeys ks = [] \<longleftrightarrow> ks = []"
  by (metis set_empty set_sortedKeys)

lemma sortedKeys_cong: "set ks = set ks' \<Longrightarrow> sortedKeys ks = sortedKeys ks'"
  unfolding sortedKeys_def by (intro sorted_distinct_set_unique) simp_all

lemma sortedKeys_fixed: "sorted ks \<Longrightarrow> distinct ks \<Longrightarrow> sortedKeys ks = ks"
  by (simp add: sortedKeys_def sort_key_id_if_sorted distinct_remdups_id)

lemma set_sliceSet: "set (sliceSet vs) = TrimSpace ` set vs - {[]}"
  by (auto simp: sliceSet_def)

section \<open>Decimal numbers\<close>

text \<open>\<open>strconv.Itoa\<close>.\<close>

fun nat_digits :: "nat \<Rightarrow> string" where
  "nat_digits n = (if n < 10 then [char_of (48 + n)] else nat_digits (n div 10) @ [char_of (48 + n mod 10)])"

declare nat_digits.simps [simp del]

definition Itoa :: "int \<Rightarrow> string" where
  "Itoa i = (if i < 0 then CHR ''-'' # nat_digits (nat (- i)) else nat_digits (nat i))"

text \<open>\<open>%0wd\<close> for a natural number.\<close>

definition zero_pad :: "nat \<Rightarrow> string \<Rightarrow> string" where
  "zero_pad w s = replicate (w - length s) CHR ''0'' @ s"

end
