(* ===== verification/Go_Time.thy ===== *)
theory Go_Time
  imports Go_Strings
begin

text \<open>
  Go's \<open>time.Time\<close> and \<open>time.Duration\<close>. A time is its distance in nanoseconds from
  1970-01-01T00:00:00Z (every use in the repository is in UTC), a duration its length in nanoseconds.
  The zero value of \<open>time.Time\<close> is 0001-01-01T00:00:00Z, a whole year-1969 span below the epoch:
  \<open>IsZero\<close> is a comparison with it, so \<open>time.Unix(0, 0)\<close> is not zero. Times are unbounded integers
  here; Go's cover 584 million years each way. Durations are 64-bit in Go: where the code adds two of
  them the sum is written with \<open>wrap64\<close>.

  The calendar part computes the UTC year and month of a time (the layout \<open>2006-01\<close> of
  \<open>DeriveSecret\<close>) and the first instant of a month (\<open>time.Date(y, m, 1, 0, 0, 0, 0, time.UTC)\<close>),
  and shows that the month of a time is monotone and what its boundaries are.
\<close>

type_synonym time = int
type_synonym duration = int

definition zero_time :: time where
  "zero_time = - 62135596800 * 1000000000"

definition IsZero :: "time \<Rightarrow> bool" where
  "IsZero t \<longleftrightarrow> t = zero_time"

definition Before :: "time \<Rightarrow> time \<Rightarrow> bool" where
  "Before t u \<longleftrightarrow> t < u"

definition After :: "time \<Rightarrow> time \<Rightarrow> bool" where
  "After t u \<longleftrightarrow> u < t"

definition Nanosecond :: duration where "Nanosecond = 1"
definition Second :: duration where "Second = 1000000000"
definition Minute :: duration where "Minute = 60 * Second"
definition Hour :: duration where "Hour = 60 * Minute"

text \<open>\<open>t.Unix()\<close> and \<open>time.Unix(sec, 0)\<close>.\<close>

definition Unix :: "time \<Rightarrow> int" where
  "Unix t = t div Second"

definition time_Unix :: "int \<Rightarrow> time" where
  "time_Unix sec = sec * Second"

text \<open>Two's complement wrap-around of a 64-bit sum, and Go's truncated division.\<close>

definition wrap64 :: "int \<Rightarrow> int" where
  "wrap64 i = (i + 2 ^ 63) mod 2 ^ 64 - 2 ^ 63"

definition go_div :: "int \<Rightarrow> int \<Rightarrow> int" where
  "go_div a b = sgn a * sgn b * (\<bar>a\<bar> div \<bar>b\<bar>)"

lemma wrap64_id [simp]: "- (2 ^ 63) \<le> i \<Longrightarrow> i < 2 ^ 63 \<Longrightarrow> wrap64 i = i"
  by (simp add: wrap64_def)

lemma Second_pos [simp]: "0 < Second" "Second \<noteq> 0"
  by (simp_all add: Second_def)

lemma Unix_time_Unix [simp]: "Unix (time_Unix sec) = sec"
  by (simp add: Unix_def time_Unix_def)

lemma time_Unix_Unix_le: "time_Unix (Unix t) \<le> t"
  by (simp add: Unix_def time_Unix_def Second_def) 

lemma Unix_gt: "t < time_Unix (Unix t) + Second"
  by (simp add: Unix_def time_Unix_def Second_def)

lemma Unix_mono: "t \<le> u \<Longrightarrow> Unix t \<le> Unix u"
  by (simp add: Unix_def Second_def zdiv_mono1)

section \<open>The calendar\<close>

definition day_length :: duration where
  "day_length = 24 * Hour"

text \<open>Days from 0001-01-01 to the first of January of year \<open>y\<close>, and of the epoch.\<close>

definition days_before_year :: "int \<Rightarrow> int" where
  "days_before_year y = 365 * (y - 1) + (y - 1) div 4 - (y - 1) div 100 + (y - 1) div 400"

definition epoch_day :: int where
  "epoch_day = 719162"

definition is_leap :: "int \<Rightarrow> bool" where
  "is_leap y \<longleftrightarrow> y mod 4 = 0 \<and> (y mod 100 \<noteq> 0 \<or> y mod 400 = 0)"

text \<open>Days from the first of January to the first of month \<open>m\<close> (1 to 12).\<close>

definition days_before_month :: "int \<Rightarrow> int \<Rightarrow> int" where
  "days_before_month y m =
     (let l = (if is_leap y then 1 else 0) in
      if m \<le> 1 then 0 else if m = 2 then 31 else if m = 3 then 59 + l else if m = 4 then 90 + l
      else if m = 5 then 120 + l else if m = 6 then 151 + l else if m = 7 then 181 + l
      else if m = 8 then 212 + l else if m = 9 then 243 + l else if m = 10 then 273 + l
      else if m = 11 then 304 + l else 334 + l)"

definition year_of_day :: "int \<Rightarrow> int" where
  "year_of_day d =
     (let y = (400 * d) div 146097 + 1 in
      if d < days_before_year y then y - 1
      else if days_before_year (y + 1) \<le> d then y + 1 else y)"

text \<open>The last month of a list (of descending months) that has begun on day \<open>k\<close> of the year.\<close>

fun last_begun :: "int \<Rightarrow> int \<Rightarrow> int list \<Rightarrow> int" where
  "last_begun y k [] = 1"
| "last_begun y k (m # ms) = (if days_before_month y m \<le> k then m else last_begun y k ms)"

definition month_of_day :: "int \<Rightarrow> int \<Rightarrow> int" where
  "month_of_day y d = last_begun y (d - days_before_year y) [12, 11, 10, 9, 8, 7, 6, 5, 4, 3, 2]"

text \<open>A signing period: a year and a month, ordered by the calendar.\<close>

datatype period = Period (period_year: int) (period_month: int)

instantiation period :: linorder
begin

definition less_eq_period :: "period \<Rightarrow> period \<Rightarrow> bool" where
  "less_eq_period p q \<longleftrightarrow>
     period_year p < period_year q \<or> (period_year p = period_year q \<and> period_month p \<le> period_month q)"

definition less_period :: "period \<Rightarrow> period \<Rightarrow> bool" where
  "less_period p q \<longleftrightarrow>
     period_year p < period_year q \<or> (period_year p = period_year q \<and> period_month p < period_month q)"

instance
  by intro_classes (auto simp: less_eq_period_def less_period_def intro: period.expand)

end

definition day_of :: "time \<Rightarrow> int" where
  "day_of t = t div day_length + epoch_day"

definition period_of :: "time \<Rightarrow> period" where
  "period_of t = (let d = day_of t; y = year_of_day d in Period y (month_of_day y d))"

text \<open>\<open>time.Date(y, m, 1, 0, 0, 0, 0, time.UTC)\<close>.\<close>

definition period_start :: "period \<Rightarrow> time" where
  "period_start p =
     (days_before_year (period_year p) + days_before_month (period_year p) (period_month p) - epoch_day)
       * day_length"

text \<open>\<open>t.Format("2006-01")\<close>, for years of up to four digits.\<close>

definition Format_year_month :: "time \<Rightarrow> string" where
  "Format_year_month t =
     (let p = period_of t in
      zero_pad 4 (Itoa (period_year p)) @ ''-'' @ zero_pad 2 (Itoa (period_month p)))"

subsection \<open>Years\<close>

lemma div_pred:
  fixes y n :: int
  assumes "0 < n"
  shows "y div n = (y - 1) div n + (if y mod n = 0 then 1 else 0)"
proof (cases "y mod n = 0")
  case True
  then have y: "y = n * (y div n)" using mult_div_mod_eq [of n y] by simp
  have "(y - 1) div n = y div n - 1"
  proof (rule int_div_pos_eq [where r = "n - 1"])
    show "y - 1 = n * (y div n - 1) + (n - 1)"
    proof -
      have "n * (y div n - 1) = n * (y div n) - n" by (simp add: right_diff_distrib)
      with y show ?thesis by linarith
    qed
  qed (use assms in simp_all)
  with True show ?thesis by simp
next
  case False
  have "(y - 1) div n = y div n"
  proof (rule int_div_pos_eq [where r = "y mod n - 1"])
    show "y - 1 = n * (y div n) + (y mod n - 1)" using mult_div_mod_eq [of n y] by linarith
    show "0 \<le> y mod n - 1" using False pos_mod_sign [OF assms, of y] by linarith
    show "y mod n - 1 < n" using pos_mod_bound [OF assms, of y] by linarith
  qed
  with False show ?thesis by simp
qed

lemma leap_count:
  fixes a a' b b' c c' y :: int
  assumes "a = a' + (if P then 1 else 0)" "b = b' + (if Q then 1 else 0)" "c = c' + (if R then 1 else 0)"
    and "R \<Longrightarrow> Q" and "Q \<Longrightarrow> P"
  shows "365 * y + a - b + c =
    365 * (y - 1) + a' - b' + c' + (if P \<and> (\<not> Q \<or> R) then 366 else 365)"
  using assms by (cases P; cases Q; cases R) simp_all

lemma days_before_year_step:
  "days_before_year (y + 1) = days_before_year y + (if is_leap y then 366 else 365)"
proof -
  have d: "y mod 400 = 0 \<Longrightarrow> y mod 100 = 0" "y mod 100 = 0 \<Longrightarrow> y mod 4 = 0"
    unfolding mod_eq_0_iff_dvd by (rule dvd_trans, simp_all)+
  have "365 * y + y div 4 - y div 100 + y div 400 =
      365 * (y - 1) + (y - 1) div 4 - (y - 1) div 100 + (y - 1) div 400
        + (if y mod 4 = 0 \<and> (\<not> y mod 100 = 0 \<or> y mod 400 = 0) then 366 else 365)"
    by (rule leap_count [OF div_pred div_pred div_pred]) (use d in simp_all)
  then show ?thesis
    by (simp only: days_before_year_def is_leap_def add_diff_cancel_right')
qed

lemma div_bracket: "0 < n \<Longrightarrow> n * (x div n) \<le> x" "0 < n \<Longrightarrow> x < n * (x div n) + n" for n x :: int
  using pos_mod_sign [of n x] pos_mod_bound [of n x] mult_div_mod_eq [of n x] by linarith+

lemma days_before_year_bounds:
  "400 * days_before_year y \<le> 146097 * (y - 1) + 396"
  "146097 * (y - 1) - 699 \<le> 400 * days_before_year y"
  using div_bracket [of 4 "y - 1"] div_bracket [of 100 "y - 1"] div_bracket [of 400 "y - 1"]
  unfolding days_before_year_def by (simp_all add: algebra_simps)

lemma days_before_year_less: "y < z \<Longrightarrow> days_before_year y + 365 \<le> days_before_year z"
proof (induction "nat (z - y)" arbitrary: z)
  case 0
  then show ?case by simp
next
  case (Suc n)
  have s: "days_before_year z = days_before_year (z - 1) + (if is_leap (z - 1) then 366 else 365)"
    using days_before_year_step [of "z - 1"] by simp
  show ?case
  proof (cases "y = z - 1")
    case True
    with s show ?thesis by simp
  next
    case False
    with Suc.prems Suc.hyps(2) have "n = nat (z - 1 - y)" "y < z - 1" by simp_all
    from Suc.hyps(1) [OF this] s show ?thesis by simp
  qed
qed

lemma year_of_day_bounds:
  "days_before_year (year_of_day d) \<le> d" "d < days_before_year (year_of_day d + 1)"
proof -
  define y where "y = (400 * d) div 146097 + 1"
  have q: "146097 * (y - 1) \<le> 400 * d" "400 * d < 146097 * y"
    using div_bracket [of 146097 "400 * d"] unfolding y_def by (simp_all add: algebra_simps)
  have "days_before_year (y - 1) \<le> d" "d < days_before_year (y + 1 + 1)"
    using days_before_year_bounds [of "y - 1"] days_before_year_bounds [of "y + 2"] q
    by (simp_all add: algebra_simps)
  then show "days_before_year (year_of_day d) \<le> d" "d < days_before_year (year_of_day d + 1)"
    by (auto simp: year_of_day_def Let_def simp flip: y_def)
qed

lemma year_of_day_unique:
  assumes "days_before_year y \<le> d" and "d < days_before_year (y + 1)"
  shows "year_of_day d = y"
proof (rule ccontr)
  assume "year_of_day d \<noteq> y"
  then consider "year_of_day d + 1 \<le> y" | "y + 1 \<le> year_of_day d" by linarith
  then show False
  proof cases
    case 1
    then have "days_before_year (year_of_day d + 1) \<le> days_before_year y"
      using days_before_year_less [of "year_of_day d + 1" y] by (cases "year_of_day d + 1 = y") auto
    with assms(1) year_of_day_bounds(2) [of d] show False by simp
  next
    case 2
    then have "days_before_year (y + 1) \<le> days_before_year (year_of_day d)"
      using days_before_year_less [of "y + 1" "year_of_day d"] by (cases "y + 1 = year_of_day d") auto
    with assms(2) year_of_day_bounds(1) [of d] show False by simp
  qed
qed

lemma year_of_day_mono: "d \<le> e \<Longrightarrow> year_of_day d \<le> year_of_day e"
proof (rule ccontr)
  assume "d \<le> e" and "\<not> year_of_day d \<le> year_of_day e"
  then have "days_before_year (year_of_day e + 1) \<le> days_before_year (year_of_day d)"
    using days_before_year_less [of "year_of_day e + 1" "year_of_day d"]
    by (cases "year_of_day e + 1 = year_of_day d") auto
  with \<open>d \<le> e\<close> year_of_day_bounds(1) [of d] year_of_day_bounds(2) [of e] show False by simp
qed

subsection \<open>Months\<close>

lemma last_begun_in: "last_begun y k ms \<in> insert 1 (set ms)"
  by (induction ms) auto

lemma days_before_month_1 [simp]: "days_before_month y 1 = 0"
  by (simp add: days_before_month_def)

lemma last_begun_le: "0 \<le> k \<Longrightarrow> days_before_month y (last_begun y k ms) \<le> k"
  by (induction ms) auto

lemma last_begun_mono:
  assumes "k \<le> l" and "sorted_wrt (>) ms" and "\<forall>m \<in> set ms. 1 < m"
  shows "last_begun y k ms \<le> last_begun y l ms"
  using assms
proof (induction ms)
  case (Cons m ms)
  then have "last_begun y k ms \<le> m"
    using last_begun_in [of y k ms] by fastforce
  with Cons show ?case by auto
qed simp

lemma month_of_day_range: "1 \<le> month_of_day y d" "month_of_day y d \<le> 12"
  using last_begun_in [of y "d - days_before_year y" "[12, 11, 10, 9, 8, 7, 6, 5, 4, 3, 2]"]
  by (auto simp: month_of_day_def simp del: last_begun.simps)

lemma month_of_day_mono: "d \<le> e \<Longrightarrow> month_of_day y d \<le> month_of_day y e"
  unfolding month_of_day_def by (rule last_begun_mono) simp_all

text \<open>The days of year \<open>y\<close> that fall in its month \<open>m\<close> are those from the first of the month on.\<close>

lemma month_start_le:
  assumes "days_before_year y \<le> d"
  shows "days_before_year y + days_before_month y (month_of_day y d) \<le> d"
proof -
  have "days_before_month y (month_of_day y d) \<le> d - days_before_year y"
    unfolding month_of_day_def using assms by (intro last_begun_le) linarith
  then show ?thesis by linarith
qed

lemma month_cases: "1 \<le> m \<Longrightarrow> m \<le> 12 \<Longrightarrow> m \<in> {1, 2, 3, 4, 5, 6, 7, 8, 9, 10, 11, 12}" for m :: int
  by simp presburger

lemma month_of_day_start:
  assumes "1 \<le> m" and "m \<le> 12"
  shows "month_of_day y (days_before_year y + days_before_month y m) = m"
proof -
  from month_cases [OF assms] show ?thesis
    by (auto simp: month_of_day_def Let_def days_before_month_def)
qed

lemma days_before_month_range: "0 \<le> days_before_month y m" "days_before_month y m \<le> 335"
  by (simp_all add: days_before_month_def Let_def)

subsection \<open>Periods of times\<close>

lemma day_length_pos [simp]: "0 < day_length"
  by (simp add: day_length_def Hour_def Minute_def Second_def)

lemma day_of_mono: "t \<le> u \<Longrightarrow> day_of t \<le> day_of u"
  by (simp add: day_of_def zdiv_mono1)

lemma period_of_mono: "t \<le> u \<Longrightarrow> period_of t \<le> period_of u"
  using year_of_day_mono [OF day_of_mono, of t u] month_of_day_mono [OF day_of_mono, of t u]
  by (auto simp: period_of_def Let_def less_eq_period_def)

text \<open>The start of a time's month is not after it, and lies in the same month.\<close>

lemma period_start_le: "period_start (period_of t) \<le> t"
proof -
  let ?d = "day_of t" and ?y = "year_of_day (day_of t)"
  have "days_before_year ?y + days_before_month ?y (month_of_day ?y ?d) \<le> ?d"
    by (rule month_start_le) (rule year_of_day_bounds)
  then have "days_before_year ?y + days_before_month ?y (month_of_day ?y ?d) - epoch_day \<le> t div day_length"
    by (simp add: day_of_def)
  then have "period_start (period_of t) \<le> (t div day_length) * day_length"
    by (simp add: period_start_def period_of_def Let_def mult_right_mono)
  also have "\<dots> \<le> t"
    using div_mult_mod_eq [of t day_length] pos_mod_sign [OF day_length_pos, of t] by linarith
  finally show ?thesis .
qed

lemma period_of_period_start:
  assumes "1 \<le> m" and "m \<le> 12"
  shows "period_of (period_start (Period y m)) = Period y m"
proof -
  have d: "day_of (period_start (Period y m)) = days_before_year y + days_before_month y m"
    by (simp add: day_of_def period_start_def nonzero_mult_div_cancel_right [OF less_imp_neq [OF day_length_pos, symmetric]])
  have "year_of_day (days_before_year y + days_before_month y m) = y"
    using days_before_month_range [of y m] days_before_year_less [of y "y + 1"]
    by (intro year_of_day_unique) auto
  with d assms show ?thesis by (simp add: period_of_def month_of_day_start)
qed

lemma period_of_valid: "1 \<le> period_month (period_of t)" "period_month (period_of t) \<le> 12"
  by (simp_all add: period_of_def Let_def month_of_day_range)

text \<open>So a time lies before the start of a month exactly when its own month is an earlier one.\<close>

lemma before_period_start_iff: "t < period_start (period_of u) \<longleftrightarrow> period_of t < period_of u"
proof -
  have e: "period_of (period_start (period_of u)) = period_of u"
    using period_of_period_start period_of_valid [of u] by (cases "period_of u") simp
  show ?thesis
  proof
    assume a: "t < period_start (period_of u)"
    then have "period_of t \<le> period_of u"
      using period_of_mono [of t "period_start (period_of u)"] e by simp
    moreover have "period_of t \<noteq> period_of u"
      using a period_start_le [of t] by auto
    ultimately show "period_of t < period_of u" by simp
  next
    assume "period_of t < period_of u"
    then show "t < period_start (period_of u)"
      using period_of_mono [of "period_start (period_of u)" t] e by fastforce
  qed
qed

text \<open>Every month has at least 28 days.\<close>

lemma month_at_least_28:
  assumes "period_of t < period_of u"
  shows "period_start (period_of t) + 28 * day_length \<le> period_start (period_of u)"
proof -
  obtain y m z n where p: "period_of t = Period y m" "period_of u = Period z n"
    by (metis period.exhaust)
  have r: "1 \<le> m" "m \<le> 12" "1 \<le> n" "n \<le> 12"
    using period_of_valid [of t] period_of_valid [of u] p by auto
  have "days_before_year y + days_before_month y m + 28 \<le> days_before_year z + days_before_month z n"
  proof (cases "y = z")
    case True
    with assms p have "m < n" by (simp add: less_period_def)
    moreover note month_cases [OF r(1,2)] month_cases [OF r(3,4)]
    ultimately have "days_before_month z m + 28 \<le> days_before_month z n"
      by (auto simp: days_before_month_def Let_def)
    with True show ?thesis by simp
  next
    case False
    with assms p have "y < z" by (simp add: less_period_def)
    then have "days_before_year (y + 1) \<le> days_before_year z"
      using days_before_year_less [of "y + 1" z] by (cases "y + 1 = z") auto
    moreover have "days_before_month y m + 31 \<le> (if is_leap y then 366 else 365)"
      by (simp add: days_before_month_def Let_def)
    ultimately show ?thesis
      using days_before_month_range(1) [of z n] days_before_year_step [of y] by linarith
  qed
  then have "(days_before_year y + days_before_month y m - epoch_day + 28) * day_length
      \<le> (days_before_year z + days_before_month z n - epoch_day) * day_length"
    by (intro mult_right_mono) (simp_all add: less_imp_le)
  then show ?thesis by (simp add: p period_start_def distrib_right)
qed

text \<open>The last nanosecond before a month is in the month just before it.\<close>

lemma previous_period:
  assumes "period_of t < period_of u" and "period_start (period_of u) - t \<le> 28 * day_length"
  shows "period_of (period_start (period_of u) - Nanosecond) = period_of t"
proof -
  let ?v = "period_start (period_of u) - Nanosecond"
  have "t < period_start (period_of u)" using assms(1) by (simp add: before_period_start_iff)
  then have "period_of t \<le> period_of ?v"
    by (intro period_of_mono) (simp add: Nanosecond_def)
  moreover have "\<not> period_of t < period_of ?v"
  proof
    assume "period_of t < period_of ?v"
    then have "t < period_start (period_of ?v)" by (simp add: before_period_start_iff)
    moreover have "period_of ?v < period_of u"
      by (simp add: before_period_start_iff [symmetric] Nanosecond_def)
    then have "period_start (period_of ?v) + 28 * day_length \<le> period_start (period_of u)"
      by (rule month_at_least_28)
    ultimately show False using assms(2) by linarith
  qed
  ultimately show ?thesis by simp
qed

end
