(* ===== verification/Jwt_Claims.thy ===== *)
theory Jwt_Claims
  imports Go_Strings Go_Time
begin

text \<open>
  The claim model and the permission constants of the internal tokens:
  \<open>src/internaljwt/claims.go\<close> and \<open>src/internaljwt/permissions.go\<close>, and the scope
  predicates of \<open>src/internaljwt/verifier.go\<close>. A Go pointer to a struct is an option.
\<close>

section \<open>Claims\<close>

definition TypeInternalAccess :: string where "TypeInternalAccess = ''internal_access''"
definition HeaderInternalAuthorization :: string where
  "HeaderInternalAuthorization = ''X-Saker-Internal-Authorization''"
definition HeaderAuthorization :: string where "HeaderAuthorization = ''Authorization''"

record ResourceRef =
  res_Type :: string
  res_ID :: string

record ActorRef =
  actor_Type :: string
  actor_ID :: string

record DelegationRef =
  del_OnBehalfOf :: string
  del_SessionID :: string
  del_RunID :: string

record Claims =
  c_Issuer :: string
  c_Subject :: string
  c_Audience :: string
  c_ExpiresAt :: int
  c_NotBefore :: int
  c_IssuedAt :: int
  c_JWTID :: string
  c_Type :: string
  c_Version :: int
  c_PolicyVersion :: string
  c_TenantID :: string
  c_OrgID :: string
  c_PrincipalType :: string
  c_PrincipalID :: string
  c_Email :: string
  c_Name :: string
  c_Handle :: string
  c_Roles :: "string list"
  c_Scopes :: "string list"
  c_Resource :: "ResourceRef option"
  c_SessionID :: string
  c_AuthTime :: int
  c_Source :: string
  c_Actor :: "ActorRef option"
  c_Delegation :: "DelegationRef option"

record JwtPrincipal =
  jp_TenantID :: string
  jp_OrgID :: string
  jp_Type :: string
  jp_ID :: string
  jp_Roles :: "string list"
  jp_Scopes :: "string list"
  jp_ResourceType :: string
  jp_ResourceID :: string
  jp_SessionID :: string
  jp_Source :: string
  jp_JWTID :: string
  jp_Claims :: Claims

record SignInput =
  in_Issuer :: string
  in_Audience :: string
  in_TTL :: duration
  in_TenantID :: string
  in_OrgID :: string
  in_PrincipalType :: string
  in_PrincipalID :: string
  in_Email :: string
  in_Name :: string
  in_Handle :: string
  in_Roles :: "string list"
  in_Scopes :: "string list"
  in_Resource :: "ResourceRef option"
  in_SessionID :: string
  in_AuthTime :: time
  in_Source :: string
  in_Now :: time
  in_JWTID :: string
  in_Actor :: "ActorRef option"
  in_Delegation :: "DelegationRef option"
  in_PolicyVersion :: string

section \<open>Audiences, principal types and scopes\<close>

definition AudienceSkillHub :: string where "AudienceSkillHub = ''skillhub''"
definition AudienceFileHub :: string where "AudienceFileHub = ''filehub''"
definition AudienceChatHub :: string where "AudienceChatHub = ''chathub''"
definition AudienceFileStore :: string where "AudienceFileStore = ''filestore''"
definition AudienceSaker :: string where "AudienceSaker = ''saker''"
definition AudienceSakerWeb :: string where "AudienceSakerWeb = ''sakerweb''"
definition AudienceSynapse :: string where "AudienceSynapse = ''synapse''"
definition AudienceWebHub :: string where "AudienceWebHub = ''webhub''"
definition AudienceAIHub :: string where "AudienceAIHub = ''aihub''"
definition AudienceStockHub :: string where "AudienceStockHub = ''stockhub''"
definition AudienceKnowHub :: string where "AudienceKnowHub = ''knowhub''"
definition AudienceWarden :: string where "AudienceWarden = ''warden''"

definition PrincipalTypeUser :: string where "PrincipalTypeUser = ''user''"
definition PrincipalTypeAPIKey :: string where "PrincipalTypeAPIKey = ''api_key''"
definition PrincipalTypeToken :: string where "PrincipalTypeToken = ''token''"
definition PrincipalTypeServiceAccount :: string where "PrincipalTypeServiceAccount = ''service_account''"
definition PrincipalTypeAgent :: string where "PrincipalTypeAgent = ''agent''"
definition PrincipalTypeSystem :: string where "PrincipalTypeSystem = ''system''"

definition ScopeSkillHubRead :: string where "ScopeSkillHubRead = ''skillhub:read''"
definition ScopeSkillHubWrite :: string where "ScopeSkillHubWrite = ''skillhub:write''"
definition ScopeSkillHubPublish :: string where "ScopeSkillHubPublish = ''skillhub:publish''"
definition ScopeSkillHubAdmin :: string where "ScopeSkillHubAdmin = ''skillhub:admin''"
definition ScopeFileHubRead :: string where "ScopeFileHubRead = ''filehub:read''"
definition ScopeFileHubUpload :: string where "ScopeFileHubUpload = ''filehub:upload''"
definition ScopeFileHubWrite :: string where "ScopeFileHubWrite = ''filehub:write''"
definition ScopeFileHubAdmin :: string where "ScopeFileHubAdmin = ''filehub:admin''"
definition ScopeChatHubRead :: string where "ScopeChatHubRead = ''chathub:read''"
definition ScopeChatHubWrite :: string where "ScopeChatHubWrite = ''chathub:write''"
definition ScopeChatHubAdmin :: string where "ScopeChatHubAdmin = ''chathub:admin''"
definition ScopeFileStoreRead :: string where "ScopeFileStoreRead = ''filestore:read''"
definition ScopeFileStoreWrite :: string where "ScopeFileStoreWrite = ''filestore:write''"
definition ScopeFileStoreAdmin :: string where "ScopeFileStoreAdmin = ''filestore:admin''"
definition ScopeSakerRun :: string where "ScopeSakerRun = ''saker:run''"
definition ScopeSakerWebRead :: string where "ScopeSakerWebRead = ''sakerweb:read''"
definition ScopeSakerWebWrite :: string where "ScopeSakerWebWrite = ''sakerweb:write''"
definition ScopeSakerWebRun :: string where "ScopeSakerWebRun = ''sakerweb:run''"
definition ScopeSakerWebTerminal :: string where "ScopeSakerWebTerminal = ''sakerweb:terminal''"
definition ScopeSakerToolExecute :: string where "ScopeSakerToolExecute = ''saker:tool:execute''"
definition ScopeSakerToolApprove :: string where "ScopeSakerToolApprove = ''saker:tool:approve''"
definition ScopeSynapseRead :: string where "ScopeSynapseRead = ''synapse:read''"
definition ScopeSynapseWrite :: string where "ScopeSynapseWrite = ''synapse:write''"
definition ScopeSynapseAdmin :: string where "ScopeSynapseAdmin = ''synapse:admin''"
definition ScopeWebHubNotificationsWrite :: string where
  "ScopeWebHubNotificationsWrite = ''webhub:notifications:write''"
definition ScopeAIHubRead :: string where "ScopeAIHubRead = ''aihub:read''"
definition ScopeAIHubInvoke :: string where "ScopeAIHubInvoke = ''aihub:invoke''"
definition ScopeAIHubAdmin :: string where "ScopeAIHubAdmin = ''aihub:admin''"
definition ScopeStockHubRead :: string where "ScopeStockHubRead = ''stockhub:read''"
definition ScopeStockHubRetrieve :: string where "ScopeStockHubRetrieve = ''stockhub:retrieve''"
definition ScopeStockHubUpload :: string where "ScopeStockHubUpload = ''stockhub:upload''"
definition ScopeStockHubWrite :: string where "ScopeStockHubWrite = ''stockhub:write''"
definition ScopeStockHubReview :: string where "ScopeStockHubReview = ''stockhub:review''"
definition ScopeStockHubAdmin :: string where "ScopeStockHubAdmin = ''stockhub:admin''"
definition ScopeKnowHubRead :: string where "ScopeKnowHubRead = ''knowhub:read''"
definition ScopeKnowHubRetrieve :: string where "ScopeKnowHubRetrieve = ''knowhub:retrieve''"
definition ScopeKnowHubWrite :: string where "ScopeKnowHubWrite = ''knowhub:write''"
definition ScopeKnowHubAdmin :: string where "ScopeKnowHubAdmin = ''knowhub:admin''"
definition ScopeWardenRead :: string where "ScopeWardenRead = ''warden:read''"
definition ScopeWardenWrite :: string where "ScopeWardenWrite = ''warden:write''"
definition ScopeWardenAdmin :: string where "ScopeWardenAdmin = ''warden:admin''"

lemmas audience_defs = AudienceSkillHub_def AudienceFileHub_def AudienceChatHub_def
  AudienceFileStore_def AudienceSaker_def AudienceSakerWeb_def AudienceSynapse_def
  AudienceWebHub_def AudienceAIHub_def AudienceStockHub_def AudienceKnowHub_def AudienceWarden_def

lemmas scope_defs = ScopeSkillHubRead_def ScopeSkillHubWrite_def ScopeSkillHubPublish_def
  ScopeSkillHubAdmin_def ScopeFileHubRead_def ScopeFileHubUpload_def ScopeFileHubWrite_def
  ScopeFileHubAdmin_def ScopeChatHubRead_def ScopeChatHubWrite_def ScopeChatHubAdmin_def
  ScopeFileStoreRead_def ScopeFileStoreWrite_def ScopeFileStoreAdmin_def ScopeSakerRun_def
  ScopeSakerWebRead_def ScopeSakerWebWrite_def ScopeSakerWebRun_def ScopeSakerWebTerminal_def
  ScopeSakerToolExecute_def ScopeSakerToolApprove_def ScopeSynapseRead_def ScopeSynapseWrite_def
  ScopeSynapseAdmin_def ScopeWebHubNotificationsWrite_def ScopeAIHubRead_def ScopeAIHubInvoke_def
  ScopeAIHubAdmin_def ScopeStockHubRead_def ScopeStockHubRetrieve_def ScopeStockHubUpload_def
  ScopeStockHubWrite_def ScopeStockHubReview_def ScopeStockHubAdmin_def ScopeKnowHubRead_def
  ScopeKnowHubRetrieve_def ScopeKnowHubWrite_def ScopeKnowHubAdmin_def ScopeWardenRead_def
  ScopeWardenWrite_def ScopeWardenAdmin_def

definition DefaultScopesForAudience :: "string \<Rightarrow> string list" where
  "DefaultScopesForAudience audience =
    (if audience = AudienceSkillHub then [ScopeSkillHubRead, ScopeSkillHubWrite]
     else if audience = AudienceFileHub then [ScopeFileHubRead, ScopeFileHubUpload, ScopeFileHubWrite]
     else if audience = AudienceChatHub then [ScopeChatHubRead, ScopeChatHubWrite]
     else if audience = AudienceFileStore then [ScopeFileStoreRead, ScopeFileStoreWrite]
     else if audience = AudienceSaker then [ScopeSakerRun, ScopeSakerToolExecute]
     else if audience = AudienceSakerWeb then
       [ScopeSakerWebRead, ScopeSakerWebWrite, ScopeSakerWebRun, ScopeSakerWebTerminal]
     else if audience = AudienceWebHub then [ScopeWebHubNotificationsWrite]
     else if audience = AudienceAIHub then [ScopeAIHubRead, ScopeAIHubInvoke]
     else if audience = AudienceStockHub then [ScopeStockHubRead, ScopeStockHubRetrieve]
     else if audience = AudienceKnowHub then [ScopeKnowHubRead, ScopeKnowHubRetrieve]
     else if audience = AudienceWarden then [ScopeWardenRead]
     else [])"

section \<open>Scope checks\<close>

fun HasScope :: "string list \<Rightarrow> string \<Rightarrow> bool" where
  "HasScope scopes required =
    (let required = TrimSpace required in required = [] \<or> (\<exists>s \<in> set scopes. s = required))"

definition HasAnyScope :: "string list \<Rightarrow> string list \<Rightarrow> bool" where
  "HasAnyScope scopes required \<longleftrightarrow> (\<exists>s \<in> set required. HasScope scopes s)"

definition RequireScope :: "string list \<Rightarrow> string \<Rightarrow> unit res" where
  "RequireScope scopes required =
    (if HasScope scopes required then Inr () else Inl (Wrapped required ErrInsufficientScope))"

definition IsAuthError :: "error \<Rightarrow> bool" where
  "IsAuthError e \<longleftrightarrow> errors_Is e ErrMissingToken \<or> errors_Is e ErrMalformedToken
     \<or> errors_Is e ErrUnsupportedAlg \<or> errors_Is e ErrInvalidSignature \<or> errors_Is e ErrInvalidClaims
     \<or> errors_Is e ErrExpired \<or> errors_Is e ErrNotYetValid"

lemma HasScope_TrimSpace [simp]: "HasScope scopes (TrimSpace r) = HasScope scopes r"
  by (simp add: Let_def)

lemma HasScope_mono: "set scopes \<subseteq> set scopes' \<Longrightarrow> HasScope scopes r \<Longrightarrow> HasScope scopes' r"
  by (auto simp: Let_def)

declare HasScope.simps [simp del]

lemma RequireScope_error: "RequireScope scopes r = Inl e \<Longrightarrow> errors_Is e ErrInsufficientScope \<and> \<not> IsAuthError e"
  by (auto simp: RequireScope_def IsAuthError_def split: if_splits)

end
