(* ===== verification/Go_Crypto.thy ===== *)
theory Go_Crypto
  imports Go_Strings "HOL-Library.Word"
begin

text \<open>
  The encoders and the hash functions of Go's standard library that the repository uses:
  \<open>encoding/hex\<close>, \<open>encoding/base64\<close> (\<open>StdEncoding\<close>, \<open>RawStdEncoding\<close>,
  \<open>RawURLEncoding\<close>), \<open>crypto/sha256\<close> and \<open>crypto/hmac\<close> with SHA-256. A byte slice is a
  \<open>string\<close>. The decoders accept exactly what Go's do: line breaks are skipped, the unused low bits of
  the last character are ignored, padding is demanded by \<open>StdEncoding\<close> only.
\<close>

unbundle bit_operations_syntax

abbreviation byte_val :: "char \<Rightarrow> nat" where "byte_val \<equiv> of_char"
abbreviation byte :: "nat \<Rightarrow> char" where "byte \<equiv> char_of"

lemma byte_val_less [simp]: "byte_val c < 256"
  by (rule nat_of_char_less_256)

lemma byte_val_byte [simp]: "n < 256 \<Longrightarrow> byte_val (byte n) = n"
  by (simp add: of_char_of)

section \<open>Base64\<close>

definition std_alphabet :: string where
  "std_alphabet = ''ABCDEFGHIJKLMNOPQRSTUVWXYZabcdefghijklmnopqrstuvwxyz0123456789+/''"

definition url_alphabet :: string where
  "url_alphabet = ''ABCDEFGHIJKLMNOPQRSTUVWXYZabcdefghijklmnopqrstuvwxyz0123456789-_''"

fun index_of :: "'a \<Rightarrow> 'a list \<Rightarrow> nat option" where
  "index_of c [] = None"
| "index_of c (x # xs) = (if x = c then Some 0 else map_option Suc (index_of c xs))"

fun to_sextets :: "nat list \<Rightarrow> nat list" where
  "to_sextets [] = []"
| "to_sextets [a] = [a div 4, a mod 4 * 16]"
| "to_sextets [a, b] = [a div 4, a mod 4 * 16 + b div 16, b mod 16 * 4]"
| "to_sextets (a # b # c # bs) =
     a div 4 # (a mod 4 * 16 + b div 16) # (b mod 16 * 4 + c div 64) # c mod 64 # to_sextets bs"

fun from_sextets :: "nat list \<Rightarrow> nat list option" where
  "from_sextets [] = Some []"
| "from_sextets [a] = None"
| "from_sextets [a, b] = Some [a * 4 + b div 16]"
| "from_sextets [a, b, c] = Some [a * 4 + b div 16, b mod 16 * 16 + c div 4]"
| "from_sextets (a # b # c # d # xs) =
     map_option (\<lambda>bs. (a * 4 + b div 16) # (b mod 16 * 16 + c div 4) # (c mod 4 * 64 + d) # bs)
       (from_sextets xs)"

definition raw_encode :: "string \<Rightarrow> string \<Rightarrow> string" where
  "raw_encode alphabet bs = map (\<lambda>n. alphabet ! n) (to_sextets (map byte_val bs))"

definition skip_newlines :: "string \<Rightarrow> string" where
  "skip_newlines s = filter (\<lambda>c. c \<noteq> CHR 0x0A \<and> c \<noteq> CHR 0x0D) s"

definition raw_quanta :: "string \<Rightarrow> string \<Rightarrow> string option" where
  "raw_quanta alphabet s =
     (case those (map (\<lambda>c. index_of c alphabet) s) of
        None \<Rightarrow> None
      | Some xs \<Rightarrow> map_option (map byte) (from_sextets xs))"

definition raw_decode :: "string \<Rightarrow> string \<Rightarrow> string option" where
  "raw_decode alphabet s = raw_quanta alphabet (skip_newlines s)"

fun padded_quanta :: "string \<Rightarrow> string \<Rightarrow> string option" where
  "padded_quanta alphabet [] = Some []"
| "padded_quanta alphabet (a # b # c # d # s) =
     (if c = CHR ''='' then (if d = CHR ''='' \<and> s = [] then raw_quanta alphabet [a, b] else None)
      else if d = CHR ''='' then (if s = [] then raw_quanta alphabet [a, b, c] else None)
      else (case raw_quanta alphabet [a, b, c, d] of
          None \<Rightarrow> None
        | Some q \<Rightarrow> map_option (\<lambda>r. q @ r) (padded_quanta alphabet s)))"
| "padded_quanta alphabet s = None"

definition RawURLEncoding_EncodeToString :: "string \<Rightarrow> string" where
  "RawURLEncoding_EncodeToString bs = raw_encode url_alphabet bs"

definition RawURLEncoding_DecodeString :: "string \<Rightarrow> string option" where
  "RawURLEncoding_DecodeString s = raw_decode url_alphabet s"

definition RawStdEncoding_DecodeString :: "string \<Rightarrow> string option" where
  "RawStdEncoding_DecodeString s = raw_decode std_alphabet s"

definition StdEncoding_DecodeString :: "string \<Rightarrow> string option" where
  "StdEncoding_DecodeString s = padded_quanta std_alphabet (skip_newlines s)"

lemma index_of_nth: "distinct xs \<Longrightarrow> n < length xs \<Longrightarrow> index_of (xs ! n) xs = Some n"
proof (induction xs arbitrary: n)
  case (Cons x xs)
  then show ?case by (cases n) (auto simp: in_set_conv_nth)
qed simp

lemma to_sextets_bound: "\<forall>b \<in> set bs. b < 256 \<Longrightarrow> n \<in> set (to_sextets bs) \<Longrightarrow> n < 64"
proof (induction bs rule: to_sextets.induct)
  case (4 a b c bs)
  then show ?case by auto
qed auto

lemma from_to_sextets: "\<forall>b \<in> set bs. b < 256 \<Longrightarrow> from_sextets (to_sextets bs) = Some bs"
proof (induction bs rule: to_sextets.induct)
  case (4 a b c bs)
  then have bd: "a < 256" "b < 256" "c < 256" by simp_all
  then have q: "b div 16 < 16" "c div 64 < 4" by (simp_all add: less_mult_imp_div_less)
  then have z: "b div 16 div 16 = 0" "c div 64 div 4 = 0" "b div 16 mod 16 = b div 16" "c div 64 mod 4 = c div 64"
    by (simp_all only: div_less mod_less)
  have "(a div 4) * 4 + (a mod 4 * 16 + b div 16) div 16 = a"
    "(a mod 4 * 16 + b div 16) mod 16 * 16 + (b mod 16 * 4 + c div 64) div 4 = b"
    "(b mod 16 * 4 + c div 64) mod 4 * 64 + c mod 64 = c"
    by (simp_all add: z)
  with 4 show ?case by simp
next
  case (3 a b)
  then have "b div 16 < 16" by (simp add: less_mult_imp_div_less)
  then have "b div 16 div 16 = 0" "b div 16 mod 16 = b div 16" by (simp_all only: div_less mod_less)
  then show ?case by simp
qed simp_all

lemma those_map_Some:
  "(\<And>x. x \<in> set xs \<Longrightarrow> f (g x) = Some x) \<Longrightarrow> those (map (\<lambda>x. f (g x)) xs) = Some xs"
  by (induction xs) auto

lemma raw_decode_encode:
  assumes "distinct alphabet" and "length alphabet = 64" and "skip_newlines alphabet = alphabet"
  shows "raw_decode alphabet (raw_encode alphabet bs) = Some bs"
proof -
  let ?xs = "to_sextets (map byte_val bs)"
  have b: "n < 64" if "n \<in> set ?xs" for n
    using to_sextets_bound [of "map byte_val bs"] that by auto
  have nl: "skip_newlines (raw_encode alphabet bs) = raw_encode alphabet bs"
    using assms(2,3) b unfolding raw_encode_def skip_newlines_def
    by (simp add: filter_id_conv)
  have "those (map (\<lambda>n. index_of (alphabet ! n) alphabet) ?xs) = Some ?xs"
    using b assms(1,2) by (intro those_map_Some) (simp add: index_of_nth)
  then have "raw_quanta alphabet (raw_encode alphabet bs) = map_option (map byte) (from_sextets ?xs)"
    by (simp add: raw_quanta_def raw_encode_def comp_def)
  also have "\<dots> = Some bs"
    by (simp add: from_to_sextets comp_def)
  finally show ?thesis by (simp add: raw_decode_def nl)
qed

lemma url_alphabet_ok: "distinct url_alphabet" "length url_alphabet = 64"
  "skip_newlines url_alphabet = url_alphabet" "CHR ''.'' \<notin> set url_alphabet"
  by (simp_all add: url_alphabet_def skip_newlines_def)

lemma RawURL_decode_encode [simp]:
  "RawURLEncoding_DecodeString (RawURLEncoding_EncodeToString bs) = Some bs"
  unfolding RawURLEncoding_DecodeString_def RawURLEncoding_EncodeToString_def
  by (intro raw_decode_encode url_alphabet_ok)

lemma RawURL_chars: "set (RawURLEncoding_EncodeToString bs) \<subseteq> set url_alphabet"
  using to_sextets_bound [of "map byte_val bs"] url_alphabet_ok(2)
  by (auto simp: RawURLEncoding_EncodeToString_def raw_encode_def)

lemma RawURL_no_dot [simp]: "CHR ''.'' \<notin> set (RawURLEncoding_EncodeToString bs)"
  using RawURL_chars url_alphabet_ok(4) by blast

lemma RawURL_inj: "RawURLEncoding_EncodeToString a = RawURLEncoding_EncodeToString b \<longleftrightarrow> a = b"
  by (metis RawURL_decode_encode option.inject)

section \<open>Hexadecimal\<close>

definition hex_digit :: "nat \<Rightarrow> char" where
  "hex_digit n = ''0123456789abcdef'' ! n"

fun hex_EncodeToString :: "string \<Rightarrow> string" where
  "hex_EncodeToString [] = []"
| "hex_EncodeToString (c # s) = hex_digit (byte_val c div 16) # hex_digit (byte_val c mod 16) # hex_EncodeToString s"

definition hex_value :: "char \<Rightarrow> nat option" where
  "hex_value c = (case index_of c ''0123456789abcdef'' of
     Some n \<Rightarrow> Some n
   | None \<Rightarrow> (case index_of c ''ABCDEF'' of Some n \<Rightarrow> Some (n + 10) | None \<Rightarrow> None))"

fun hex_DecodeString :: "string \<Rightarrow> string option" where
  "hex_DecodeString [] = Some []"
| "hex_DecodeString [c] = None"
| "hex_DecodeString (a # b # s) =
     (case (hex_value a, hex_value b) of
        (Some x, Some y) \<Rightarrow> map_option (\<lambda>r. byte (16 * x + y) # r) (hex_DecodeString s)
      | _ \<Rightarrow> None)"

lemma hex_value_digit: "n < 16 \<Longrightarrow> hex_value (hex_digit n) = Some n"
  using index_of_nth [of "''0123456789abcdef''" n] by (simp add: hex_value_def hex_digit_def)

lemma hex_decode_encode [simp]: "hex_DecodeString (hex_EncodeToString s) = Some s"
proof (induction s)
  case (Cons c s)
  have "byte_val c div 16 < 16" using byte_val_less [of c] by (simp add: less_mult_imp_div_less)
  moreover have "16 * (byte_val c div 16) + byte_val c mod 16 = byte_val c" by simp
  ultimately show ?case by (simp add: Cons.IH hex_value_digit)
qed simp

lemma length_hex [simp]: "length (hex_EncodeToString s) = 2 * length s"
  by (induction s) auto

lemma hex_EncodeToString_inj: "hex_EncodeToString a = hex_EncodeToString b \<longleftrightarrow> a = b"
  by (metis hex_decode_encode option.inject)

section \<open>SHA-256\<close>

type_synonym u32 = "32 word"

definition sha256_K :: "u32 list" where
  "sha256_K =
    [1116352408, 1899447441, 3049323471, 3921009573, 961987163, 1508970993,
     2453635748, 2870763221, 3624381080, 310598401, 607225278, 1426881987,
     1925078388, 2162078206, 2614888103, 3248222580, 3835390401, 4022224774,
     264347078, 604807628, 770255983, 1249150122, 1555081692, 1996064986,
     2554220882, 2821834349, 2952996808, 3210313671, 3336571891, 3584528711,
     113926993, 338241895, 666307205, 773529912, 1294757372, 1396182291,
     1695183700, 1986661051, 2177026350, 2456956037, 2730485921, 2820302411,
     3259730800, 3345764771, 3516065817, 3600352804, 4094571909, 275423344,
     430227734, 506948616, 659060556, 883997877, 958139571, 1322822218,
     1537002063, 1747873779, 1955562222, 2024104815, 2227730452, 2361852424,
     2428436474, 2756734187, 3204031479, 3329325298]"

record sha_state =
  ha :: u32  hb :: u32  hc :: u32  hd' :: u32  he :: u32  hf :: u32  hg :: u32  hh :: u32

definition sha256_init :: sha_state where
  "sha256_init = \<lparr>ha = 1779033703, hb = 3144134277, hc = 1013904242, hd' = 2773480762,
     he = 1359893119, hf = 2600822924, hg = 528734635, hh = 1541459225\<rparr>"

definition sha256_round :: "sha_state \<Rightarrow> u32 \<times> u32 \<Rightarrow> sha_state" where
  "sha256_round v kw =
    (let s1 = word_rotr 6 (he v) XOR word_rotr 11 (he v) XOR word_rotr 25 (he v);
         ch = (he v AND hf v) XOR (NOT (he v) AND hg v);
         t1 = hh v + s1 + ch + fst kw + snd kw;
         s0 = word_rotr 2 (ha v) XOR word_rotr 13 (ha v) XOR word_rotr 22 (ha v);
         maj = (ha v AND hb v) XOR (ha v AND hc v) XOR (hb v AND hc v)
     in \<lparr>ha = t1 + s0 + maj, hb = ha v, hc = hb v, hd' = hc v, he = hd' v + t1, hf = he v, hg = hf v, hh = hg v\<rparr>)"

text \<open>The message schedule, kept with its latest word first while it is extended.\<close>

fun sha256_extend :: "nat \<Rightarrow> u32 list \<Rightarrow> u32 list" where
  "sha256_extend 0 w = w"
| "sha256_extend (Suc n) w =
    (let x15 = w ! 14; x2 = w ! 1;
         s0 = word_rotr 7 x15 XOR word_rotr 18 x15 XOR drop_bit 3 x15;
         s1 = word_rotr 17 x2 XOR word_rotr 19 x2 XOR drop_bit 10 x2
     in sha256_extend n ((w ! 15 + s0 + w ! 6 + s1) # w))"

definition sha256_block :: "sha_state \<Rightarrow> u32 list \<Rightarrow> sha_state" where
  "sha256_block h b =
    (let v = foldl sha256_round h (zip sha256_K (rev (sha256_extend 48 (rev b))))
     in \<lparr>ha = ha h + ha v, hb = hb h + hb v, hc = hc h + hc v, hd' = hd' h + hd' v,
         he = he h + he v, hf = hf h + hf v, hg = hg h + hg v, hh = hh h + hh v\<rparr>)"

fun be_words :: "string \<Rightarrow> u32 list" where
  "be_words (a # b # c # d # s) =
     word_of_int (((of_char a * 256 + of_char b) * 256 + of_char c) * 256 + of_char d) # be_words s"
| "be_words s = []"

fun be_bytes :: "nat \<Rightarrow> int \<Rightarrow> string" where
  "be_bytes 0 x = []"
| "be_bytes (Suc n) x = be_bytes n (x div 256) @ [char_of (x mod 256)]"

definition sha256_pad :: "string \<Rightarrow> string" where
  "sha256_pad m =
     m @ [byte 0x80] @ replicate ((119 - length m mod 64) mod 64) (byte 0) @ be_bytes 8 (8 * int (length m))"

fun sha256_blocks :: "sha_state \<Rightarrow> u32 list \<Rightarrow> sha_state" where
  "sha256_blocks h ws =
     (if length ws < 16 then h else sha256_blocks (sha256_block h (take 16 ws)) (drop 16 ws))"

declare sha256_blocks.simps [simp del]

definition sha256_Sum256 :: "string \<Rightarrow> string" where
  "sha256_Sum256 m =
    (let h = sha256_blocks sha256_init (be_words (sha256_pad m))
     in concat (map (\<lambda>w. be_bytes 4 (uint w)) [ha h, hb h, hc h, hd' h, he h, hf h, hg h, hh h]))"

lemma length_be_bytes [simp]: "length (be_bytes n x) = n"
  by (induction n arbitrary: x) auto

lemma length_sha256 [simp]: "length (sha256_Sum256 m) = 32"
  by (simp add: sha256_Sum256_def Let_def)

section \<open>HMAC-SHA-256\<close>

definition xor_byte :: "int \<Rightarrow> char \<Rightarrow> char" where
  "xor_byte k c = char_of (xor k (of_char c))"

definition hmac_key :: "string \<Rightarrow> string" where
  "hmac_key k = (let k' = (if length k > 64 then sha256_Sum256 k else k)
     in k' @ replicate (64 - length k') (byte 0))"

definition hmac_sha256 :: "string \<Rightarrow> string \<Rightarrow> string" where
  "hmac_sha256 k m =
    (let k0 = hmac_key k
     in sha256_Sum256 (map (xor_byte 0x5c) k0 @ sha256_Sum256 (map (xor_byte 0x36) k0 @ m)))"

lemma length_hmac [simp]: "length (hmac_sha256 k m) = 32"
  by (simp add: hmac_sha256_def Let_def)

end
