(* ===== verification/Jwt_Secret.thy ===== *)
theory Jwt_Secret
  imports Go_Time Go_Crypto
begin

text \<open>
  \<open>src/internaljwt/secret.go\<close>: normalising the master secret, deriving the monthly signing secret,
  and the window after a month boundary in which the previous month's secret is still accepted.
\<close>

definition decoded_secret :: "string option \<Rightarrow> string option" where
  "decoded_secret d = (case d of Some k \<Rightarrow> if 32 \<le> length k then Some k else None | None \<Rightarrow> None)"

definition NormalizeMasterSecret :: "string \<Rightarrow> string" where
  "NormalizeMasterSecret secret0 =
    (let secret = TrimSpace secret0 in
     if secret = [] then []
     else case decoded_secret (StdEncoding_DecodeString secret) of Some k \<Rightarrow> k
     | None \<Rightarrow> (case decoded_secret (RawStdEncoding_DecodeString secret) of Some k \<Rightarrow> k
     | None \<Rightarrow> (case decoded_secret (RawURLEncoding_DecodeString secret) of Some k \<Rightarrow> k
     | None \<Rightarrow> (case decoded_secret (hex_DecodeString secret) of Some k \<Rightarrow> k
     | None \<Rightarrow> secret))))"

definition DeriveSecret :: "string \<Rightarrow> time \<Rightarrow> string" where
  "DeriveSecret master now = hmac_sha256 master (''saker-jwt:'' @ Format_year_month now)"

definition previousPeriodSecret :: "string \<Rightarrow> time \<Rightarrow> string" where
  "previousPeriodSecret master now =
    (let previous = period_start (period_of now) - Nanosecond in DeriveSecret master previous)"

definition InPreviousPeriodWindow :: "time \<Rightarrow> duration \<Rightarrow> bool" where
  "InPreviousPeriodWindow now window =
    (if window \<le> 0 then False
     else let start = period_start (period_of now) in
       \<not> Before now start \<and> Before now (start + window))"

lemma InPreviousPeriodWindow_iff:
  "InPreviousPeriodWindow now window \<longleftrightarrow> 0 < window \<and> now < period_start (period_of now) + window"
  using period_start_le [of now] by (auto simp: InPreviousPeriodWindow_def Before_def Let_def)

text \<open>The derived secret depends on the month only.\<close>

lemma DeriveSecret_same_period: "period_of t = period_of u \<Longrightarrow> DeriveSecret master t = DeriveSecret master u"
  by (simp only: DeriveSecret_def Format_year_month_def)

text \<open>Up to 28 days after a time in an earlier month, that month is the previous one.\<close>

lemma previousPeriodSecret_eq:
  assumes "period_of t < period_of u" and "period_start (period_of u) - t \<le> 28 * day_length"
  shows "previousPeriodSecret master u = DeriveSecret master t"
  unfolding previousPeriodSecret_def Let_def
  by (rule DeriveSecret_same_period [OF previous_period [OF assms]])

text \<open>A key is never shortened below 32 bytes by decoding.\<close>

lemma decoded_secret_Some: "decoded_secret d = Some k \<Longrightarrow> 32 \<le> length k"
  by (auto simp: decoded_secret_def split: option.splits if_splits)

lemma NormalizeMasterSecret_length:
  "32 \<le> length (TrimSpace s) \<Longrightarrow> 32 \<le> length (NormalizeMasterSecret s)"
  by (auto simp: NormalizeMasterSecret_def Let_def dest: decoded_secret_Some split: option.splits)

end
