(* ===== verification/Jwt_Verifier.thy ===== *)
theory Jwt_Verifier
  imports Jwt_Claims Jwt_Secret
begin

text \<open>
  \<open>src/internaljwt/verifier.go\<close>: construction of a verifier, the acceptance test of a token
  (\<open>verifyClaims\<close>, \<open>verifySignature\<close>, \<open>validateRequiredClaims\<close>) and the extraction of the bearer token
  from a request.

  The JSON encoding of the two parts of a token is a record of functions (\<open>json_codec\<close>), used by
  signer and verifier: \<open>json.Marshal\<close> of the claims, \<open>json.Unmarshal\<close> into the claims and, for the
  header, into the field \<open>alg\<close>. \<open>v.now()\<close> is the argument \<open>now\<close>. A request is its
  \<open>Header.Get\<close> function (the empty string when a header is absent), a nil request \<open>None\<close>.
\<close>

record json_codec =
  marshal_claims :: "Claims \<Rightarrow> string"
  unmarshal_claims :: "string \<Rightarrow> Claims option"
  unmarshal_alg :: "string \<Rightarrow> string option"

definition signingAlgHS256 :: string where "signingAlgHS256 = ''HS256''"

record Verifier =
  v_issuer :: string
  v_audience :: string
  v_secret :: string
  v_ttl :: duration
  v_clockSkew :: duration
  v_allowFallback :: bool

record VerifierOptions =
  vo_Issuer :: string
  vo_Audience :: string
  vo_MasterSecret :: string
  vo_TTL :: duration
  vo_ClockSkew :: duration
  vo_AllowAuthorizationFallback :: bool

definition NewVerifier :: "VerifierOptions \<Rightarrow> Verifier res" where
  "NewVerifier opts =
    (let secret = NormalizeMasterSecret (vo_MasterSecret opts) in
     if length secret < 32 then Inl (Errorf ''internaljwt: master secret must be at least 32 bytes'')
     else if TrimSpace (vo_Issuer opts) = [] then Inl (Errorf ''internaljwt: issuer required'')
     else if TrimSpace (vo_Audience opts) = [] then Inl (Errorf ''internaljwt: audience required'')
     else let ttl = (if vo_TTL opts \<le> 0 then 5 * Minute else vo_TTL opts);
              clockSkew = (if vo_ClockSkew opts < 0 then 0 else vo_ClockSkew opts);
              clockSkew = (if clockSkew = 0 then 30 * Second else clockSkew)
       in Inr \<lparr>v_issuer = TrimSpace (vo_Issuer opts), v_audience = TrimSpace (vo_Audience opts),
               v_secret = secret, v_ttl = ttl, v_clockSkew = clockSkew,
               v_allowFallback = vo_AllowAuthorizationFallback opts\<rparr>)"

definition verifySignature :: "string \<Rightarrow> string \<Rightarrow> string \<Rightarrow> bool" where
  "verifySignature signingInput encodedSignature secret =
    (case RawURLEncoding_DecodeString encodedSignature of
       None \<Rightarrow> False
     | Some signature \<Rightarrow> (let expected = hmac_sha256 secret signingInput in signature = expected))"

definition validateRequiredClaims ::
  "Claims \<Rightarrow> string \<Rightarrow> string \<Rightarrow> time \<Rightarrow> duration \<Rightarrow> unit res" where
  "validateRequiredClaims c issuer audience now skew =
    (if c_Issuer c \<noteq> issuer \<or> c_Audience c \<noteq> audience \<or> c_Type c \<noteq> TypeInternalAccess
        \<or> c_Version c \<noteq> 1 then Inl ErrInvalidClaims
     else if c_ExpiresAt c \<le> 0 \<or> c_IssuedAt c \<le> 0 \<or> TrimSpace (c_JWTID c) = []
       then Inl ErrInvalidClaims
     else if TrimSpace (c_TenantID c) = [] \<or> TrimSpace (c_PrincipalType c) = []
        \<or> TrimSpace (c_PrincipalID c) = [] then Inl ErrInvalidClaims
     else if c_Subject c = [] \<or> c_Subject c \<noteq> c_PrincipalID c then Inl ErrInvalidClaims
     else if (case c_Resource c of None \<Rightarrow> False
        | Some r \<Rightarrow> TrimSpace (res_Type r) = [] \<or> TrimSpace (res_ID r) = []) then Inl ErrInvalidClaims
     else if IsZero now then Inr ()
     else if After now (time_Unix (c_ExpiresAt c) + skew) then Inl ErrExpired
     else if 0 < c_NotBefore c \<and> Before (now + skew) (time_Unix (c_NotBefore c)) then Inl ErrNotYetValid
     else if Before (now + skew) (time_Unix (c_IssuedAt c)) then Inl ErrInvalidClaims
     else Inr ())"

definition verifyClaims :: "json_codec \<Rightarrow> Verifier \<Rightarrow> time \<Rightarrow> string \<Rightarrow> Claims res" where
  "verifyClaims J v now token =
    (case SplitChar CHR ''.'' token of
       [part0, part1, part2] \<Rightarrow>
        (case RawURLEncoding_DecodeString part0 of None \<Rightarrow> Inl ErrMalformedToken
         | Some headerBytes \<Rightarrow>
        (case unmarshal_alg J headerBytes of None \<Rightarrow> Inl ErrMalformedToken
         | Some alg \<Rightarrow>
         if alg \<noteq> signingAlgHS256 then Inl ErrUnsupportedAlg
         else let signingInput = part0 @ ''.'' @ part1 in
         if \<not> verifySignature signingInput part2 (DeriveSecret (v_secret v) now)
            \<and> (\<not> InPreviousPeriodWindow now (wrap64 (v_ttl v + v_clockSkew v))
               \<or> \<not> verifySignature signingInput part2 (previousPeriodSecret (v_secret v) now))
         then Inl ErrInvalidSignature
         else case RawURLEncoding_DecodeString part1 of None \<Rightarrow> Inl ErrMalformedToken
         | Some claimsBytes \<Rightarrow>
        (case unmarshal_claims J claimsBytes of None \<Rightarrow> Inl ErrMalformedToken
         | Some claims \<Rightarrow>
        (case validateRequiredClaims claims (v_issuer v) (v_audience v) now (v_clockSkew v) of
           Inl e \<Rightarrow> Inl e
         | Inr _ \<Rightarrow> Inr claims))))
     | _ \<Rightarrow> Inl ErrMalformedToken)"

definition principal_of_claims :: "Claims \<Rightarrow> JwtPrincipal" where
  "principal_of_claims claims =
    \<lparr>jp_TenantID = c_TenantID claims, jp_OrgID = c_OrgID claims, jp_Type = c_PrincipalType claims,
     jp_ID = c_PrincipalID claims, jp_Roles = c_Roles claims, jp_Scopes = c_Scopes claims,
     jp_ResourceType = (case c_Resource claims of None \<Rightarrow> [] | Some r \<Rightarrow> res_Type r),
     jp_ResourceID = (case c_Resource claims of None \<Rightarrow> [] | Some r \<Rightarrow> res_ID r),
     jp_SessionID = c_SessionID claims, jp_Source = c_Source claims, jp_JWTID = c_JWTID claims,
     jp_Claims = claims\<rparr>"

definition Verify :: "json_codec \<Rightarrow> Verifier \<Rightarrow> time \<Rightarrow> string \<Rightarrow> JwtPrincipal res" where
  "Verify J v now token =
    (case verifyClaims J v now token of Inl e \<Rightarrow> Inl e | Inr claims \<Rightarrow> Inr (principal_of_claims claims))"

definition parseBearer :: "string \<Rightarrow> string option" where
  "parseBearer header =
    (if \<not> HasPrefix header ''Bearer '' then None
     else let token = TrimSpace (drop (length ''Bearer '') header) in
       if token \<noteq> [] then Some token else None)"

definition TokenFromRequest :: "(string \<Rightarrow> string) option \<Rightarrow> bool \<Rightarrow> string res" where
  "TokenFromRequest r allowAuthorizationFallback =
    (case r of None \<Rightarrow> Inl ErrMissingToken
     | Some get \<Rightarrow>
       (case parseBearer (get HeaderInternalAuthorization) of Some token \<Rightarrow> Inr token
        | None \<Rightarrow>
          (if allowAuthorizationFallback
           then (case parseBearer (get HeaderAuthorization) of Some token \<Rightarrow> Inr token
                 | None \<Rightarrow> Inl ErrMissingToken)
           else Inl ErrMissingToken)))"

definition VerifyRequest ::
  "json_codec \<Rightarrow> Verifier \<Rightarrow> time \<Rightarrow> (string \<Rightarrow> string) option \<Rightarrow> JwtPrincipal res" where
  "VerifyRequest J v now r =
    (case TokenFromRequest r (v_allowFallback v) of Inl e \<Rightarrow> Inl e | Inr token \<Rightarrow> Verify J v now token)"

section \<open>The acceptance test\<close>

text \<open>What the accepted claims promise: the abstract specification of \<open>validateRequiredClaims\<close>.\<close>

definition well_formed_claims :: "Claims \<Rightarrow> bool" where
  "well_formed_claims c \<longleftrightarrow> c_Type c = TypeInternalAccess \<and> c_Version c = 1
     \<and> 0 < c_ExpiresAt c \<and> 0 < c_IssuedAt c \<and> \<not> blank (c_JWTID c)
     \<and> \<not> blank (c_TenantID c) \<and> \<not> blank (c_PrincipalType c) \<and> \<not> blank (c_PrincipalID c)
     \<and> c_Subject c = c_PrincipalID c
     \<and> (\<forall>r \<in> set_option (c_Resource c). \<not> blank (res_Type r) \<and> \<not> blank (res_ID r))"

definition timely :: "Claims \<Rightarrow> time \<Rightarrow> duration \<Rightarrow> bool" where
  "timely c now skew \<longleftrightarrow> now \<le> time_Unix (c_ExpiresAt c) + skew
     \<and> (0 < c_NotBefore c \<longrightarrow> time_Unix (c_NotBefore c) \<le> now + skew)
     \<and> time_Unix (c_IssuedAt c) \<le> now + skew"

lemma validateRequiredClaims_ok_iff:
  "validateRequiredClaims c issuer audience now skew = Inr () \<longleftrightarrow>
     c_Issuer c = issuer \<and> c_Audience c = audience \<and> well_formed_claims c
     \<and> (IsZero now \<or> timely c now skew)"
  by (auto simp: validateRequiredClaims_def well_formed_claims_def timely_def blank_def
      Before_def After_def not_less split: option.splits if_splits)

lemma validateRequiredClaims_expired:
  assumes "c_Issuer c = issuer" and "c_Audience c = audience" and "well_formed_claims c"
    and "\<not> IsZero now" and "time_Unix (c_ExpiresAt c) + skew < now"
  shows "validateRequiredClaims c issuer audience now skew = Inl ErrExpired"
  using assms by (auto simp: validateRequiredClaims_def well_formed_claims_def blank_def
      After_def split: option.splits)

text \<open>A signature that verifies is the encoding of the MAC (up to skipped line breaks and unused bits).\<close>

definition signed_under :: "string \<Rightarrow> string \<Rightarrow> string \<Rightarrow> bool" where
  "signed_under secret signingInput sig \<longleftrightarrow>
     RawURLEncoding_DecodeString sig = Some (hmac_sha256 secret signingInput)"

lemma verifySignature_iff: "verifySignature si sig secret \<longleftrightarrow> signed_under secret si sig"
  by (auto simp: verifySignature_def signed_under_def Let_def split: option.splits)

definition accepted_secret :: "Verifier \<Rightarrow> time \<Rightarrow> string \<Rightarrow> bool" where
  "accepted_secret v now secret \<longleftrightarrow> secret = DeriveSecret (v_secret v) now
     \<or> (InPreviousPeriodWindow now (wrap64 (v_ttl v + v_clockSkew v))
        \<and> secret = previousPeriodSecret (v_secret v) now)"

text \<open>\<open>verifyClaims\<close> accepts a token exactly when it has this shape.\<close>

lemma verifyClaims_Inr_iff:
  "verifyClaims J v now token = Inr claims \<longleftrightarrow>
    (\<exists>h b s hd bs secret. SplitChar CHR ''.'' token = [h, b, s]
       \<and> RawURLEncoding_DecodeString h = Some hd \<and> unmarshal_alg J hd = Some signingAlgHS256
       \<and> accepted_secret v now secret \<and> signed_under secret (h @ ''.'' @ b) s
       \<and> RawURLEncoding_DecodeString b = Some bs \<and> unmarshal_claims J bs = Some claims
       \<and> validateRequiredClaims claims (v_issuer v) (v_audience v) now (v_clockSkew v) = Inr ())"
  (is "?L \<longleftrightarrow> ?R")
proof
  assume ?L
  then show ?R
    unfolding verifyClaims_def Let_def verifySignature_iff accepted_secret_def
    by (auto split: list.splits option.splits if_splits sum.splits)
next
  assume ?R
  then show ?L
    unfolding verifyClaims_def Let_def verifySignature_iff accepted_secret_def
    by (auto split: option.splits)
qed

end
