(* ===== verification/Jwt_Signer.thy ===== *)
theory Jwt_Signer
  imports Jwt_Verifier
begin

text \<open>
  \<open>src/internaljwt/signer.go\<close>: construction of a signer and \<open>Sign\<close>, with the theorems that connect it
  to the verifier. \<open>clock\<close> is the value of \<open>time.Now().UTC()\<close> and \<open>rnd\<close> the 16 bytes of
  \<open>crypto/rand\<close> that one call reads when it needs them. \<open>json.Marshal\<close> does not fail on the claims.
\<close>

record Signer =
  sg_issuer :: string
  sg_secret :: string
  sg_ttl :: duration

definition NewSigner :: "string \<Rightarrow> string \<Rightarrow> duration \<Rightarrow> Signer res" where
  "NewSigner issuer masterSecret ttl =
    (let secret = NormalizeMasterSecret masterSecret in
     if length secret < 32 then Inl (Errorf ''internaljwt: master secret must be at least 32 bytes'')
     else if TrimSpace issuer = [] then Inl (Errorf ''internaljwt: issuer required'')
     else let ttl = (if ttl \<le> 0 then 5 * Minute else ttl)
       in Inr \<lparr>sg_issuer = TrimSpace issuer, sg_secret = secret, sg_ttl = ttl\<rparr>)"

definition cleanStrings :: "string list \<Rightarrow> string list" where
  "cleanStrings values = filter (\<lambda>v. v \<noteq> []) (map TrimSpace values)"

definition randomID :: "string \<Rightarrow> string \<Rightarrow> string" where
  "randomID rnd p = p @ ''_'' @ RawURLEncoding_EncodeToString rnd"

text \<open>\<open>json.Marshal(map[string]string{"alg": "HS256", "typ": "JWT"})\<close>.\<close>

definition header_json :: string where
  \<open>header_json = ''{"alg":"HS256","typ":"JWT"}''\<close>

definition signClaims :: "json_codec \<Rightarrow> Claims \<Rightarrow> string \<Rightarrow> string" where
  "signClaims J claims secret =
    (let encodedHeader = RawURLEncoding_EncodeToString header_json;
         encodedClaims = RawURLEncoding_EncodeToString (marshal_claims J claims);
         signingInput = encodedHeader @ ''.'' @ encodedClaims;
         signature = RawURLEncoding_EncodeToString (hmac_sha256 secret signingInput)
     in signingInput @ ''.'' @ signature)"

text \<open>The time a token is issued at: \<open>in.Now\<close>, or the clock.\<close>

definition sign_time :: "time \<Rightarrow> SignInput \<Rightarrow> time" where
  "sign_time clock inp = (if IsZero (in_Now inp) then clock else in_Now inp)"

definition sign_ttl :: "Signer \<Rightarrow> SignInput \<Rightarrow> duration" where
  "sign_ttl sg inp = (if in_TTL inp \<le> 0 then sg_ttl sg else in_TTL inp)"

definition sign_claims :: "time \<Rightarrow> string \<Rightarrow> Signer \<Rightarrow> SignInput \<Rightarrow> Claims" where
  "sign_claims clock rnd sg inp =
    (let now = sign_time clock inp;
         ttl = sign_ttl sg inp;
         jti = (if TrimSpace (in_JWTID inp) = [] then randomID rnd ''jwt'' else TrimSpace (in_JWTID inp));
         issuer = (if TrimSpace (in_Issuer inp) = [] then sg_issuer sg else TrimSpace (in_Issuer inp));
         claims =
          \<lparr>c_Issuer = issuer, c_Subject = TrimSpace (in_PrincipalID inp),
           c_Audience = TrimSpace (in_Audience inp), c_ExpiresAt = Unix (now + ttl),
           c_NotBefore = Unix now, c_IssuedAt = Unix now, c_JWTID = jti, c_Type = TypeInternalAccess,
           c_Version = 1, c_PolicyVersion = TrimSpace (in_PolicyVersion inp),
           c_TenantID = TrimSpace (in_TenantID inp), c_OrgID = TrimSpace (in_OrgID inp),
           c_PrincipalType = TrimSpace (in_PrincipalType inp),
           c_PrincipalID = TrimSpace (in_PrincipalID inp), c_Email = TrimSpace (in_Email inp),
           c_Name = TrimSpace (in_Name inp), c_Handle = TrimSpace (in_Handle inp),
           c_Roles = cleanStrings (in_Roles inp), c_Scopes = cleanStrings (in_Scopes inp),
           c_Resource = in_Resource inp, c_SessionID = TrimSpace (in_SessionID inp),
           c_AuthTime = (if IsZero (in_AuthTime inp) then 0 else Unix (in_AuthTime inp)),
           c_Source = TrimSpace (in_Source inp), c_Actor = in_Actor inp,
           c_Delegation = in_Delegation inp\<rparr>
     in if c_Subject claims = [] then claims\<lparr>c_Subject := c_PrincipalID claims\<rparr> else claims)"

definition Sign :: "json_codec \<Rightarrow> time \<Rightarrow> string \<Rightarrow> Signer \<Rightarrow> SignInput \<Rightarrow> (string \<times> Claims) res" where
  "Sign J clock rnd sg inp =
    (let now = sign_time clock inp; claims = sign_claims clock rnd sg inp in
     case validateRequiredClaims claims (c_Issuer claims) (c_Audience claims) now 0 of
       Inl e \<Rightarrow> Inl e
     | Inr _ \<Rightarrow> Inr (signClaims J claims (DeriveSecret (sg_secret sg) now), claims))"

lemma cleanStrings_fixed [simp]: "cleanStrings (cleanStrings vs) = cleanStrings vs"
  by (induction vs) (auto simp: cleanStrings_def)

lemma set_cleanStrings: "set (cleanStrings vs) = TrimSpace ` set vs - {[]}"
  by (auto simp: cleanStrings_def)

section \<open>When signing succeeds\<close>

lemma randomID_not_blank: "\<not> blank (randomID rnd ''jwt'')"
  by (rule not_blank [of "CHR ''j''"]) (simp_all add: randomID_def space_bytes_def space_runes_def)

lemma sign_claims_simps [simp]:
  "c_Audience (sign_claims clock rnd sg inp) = TrimSpace (in_Audience inp)"
  "c_ExpiresAt (sign_claims clock rnd sg inp) = Unix (sign_time clock inp + sign_ttl sg inp)"
  "c_NotBefore (sign_claims clock rnd sg inp) = Unix (sign_time clock inp)"
  "c_IssuedAt (sign_claims clock rnd sg inp) = Unix (sign_time clock inp)"
  "c_Type (sign_claims clock rnd sg inp) = TypeInternalAccess"
  "c_Version (sign_claims clock rnd sg inp) = 1"
  "c_Subject (sign_claims clock rnd sg inp) = TrimSpace (in_PrincipalID inp)"
  "c_PrincipalID (sign_claims clock rnd sg inp) = TrimSpace (in_PrincipalID inp)"
  "c_PrincipalType (sign_claims clock rnd sg inp) = TrimSpace (in_PrincipalType inp)"
  "c_TenantID (sign_claims clock rnd sg inp) = TrimSpace (in_TenantID inp)"
  "c_Scopes (sign_claims clock rnd sg inp) = cleanStrings (in_Scopes inp)"
  "c_Roles (sign_claims clock rnd sg inp) = cleanStrings (in_Roles inp)"
  "c_Resource (sign_claims clock rnd sg inp) = in_Resource inp"
  "c_PolicyVersion (sign_claims clock rnd sg inp) = TrimSpace (in_PolicyVersion inp)"
  "c_SessionID (sign_claims clock rnd sg inp) = TrimSpace (in_SessionID inp)"
  "c_Source (sign_claims clock rnd sg inp) = TrimSpace (in_Source inp)"
  "c_Actor (sign_claims clock rnd sg inp) = in_Actor inp"
  "c_Delegation (sign_claims clock rnd sg inp) = in_Delegation inp"
  by (simp_all add: sign_claims_def Let_def)

lemma sign_claims_issuer:
  "c_Issuer (sign_claims clock rnd sg inp) =
    (if blank (in_Issuer inp) then sg_issuer sg else TrimSpace (in_Issuer inp))"
  by (simp add: sign_claims_def Let_def blank_def)

lemma sign_claims_jti: "\<not> blank (c_JWTID (sign_claims clock rnd sg inp))"
proof -
  have "c_JWTID (sign_claims clock rnd sg inp) =
      (if blank (in_JWTID inp) then randomID rnd ''jwt'' else TrimSpace (in_JWTID inp))"
    by (simp add: sign_claims_def Let_def blank_def)
  then show ?thesis using randomID_not_blank by (auto simp: blank_def)
qed

text \<open>A request with a time and a token identifier does not read the clock or the random source.\<close>

lemma sign_claims_given:
  "\<not> blank (in_JWTID inp) \<Longrightarrow> \<not> IsZero (in_Now inp) \<Longrightarrow>
    sign_claims clock rnd sg inp = sign_claims clock' rnd' sg inp"
  by (simp add: sign_claims_def sign_time_def blank_def)

text \<open>A request that names a tenant and a principal, and no half-filled resource.\<close>

definition signable :: "SignInput \<Rightarrow> bool" where
  "signable inp \<longleftrightarrow> \<not> blank (in_TenantID inp) \<and> \<not> blank (in_PrincipalType inp) \<and> \<not> blank (in_PrincipalID inp)
     \<and> (\<forall>r \<in> set_option (in_Resource inp). \<not> blank (res_Type r) \<and> \<not> blank (res_ID r))"

lemma Sign_Inr_iff:
  "(\<exists>r. Sign J clock rnd sg inp = Inr r) \<longleftrightarrow>
     signable inp \<and> 1 \<le> Unix (sign_time clock inp) \<and> 0 < Unix (sign_time clock inp + sign_ttl sg inp)
     \<and> (IsZero (sign_time clock inp)
        \<or> sign_time clock inp \<le> time_Unix (Unix (sign_time clock inp + sign_ttl sg inp)))"
proof -
  let ?t = "sign_time clock inp" and ?c = "sign_claims clock rnd sg inp"
  have "(\<exists>r. Sign J clock rnd sg inp = Inr r) \<longleftrightarrow>
      validateRequiredClaims ?c (c_Issuer ?c) (c_Audience ?c) ?t 0 = Inr ()"
    by (auto simp: Sign_def Let_def split: sum.splits)
  also have "\<dots> \<longleftrightarrow> well_formed_claims ?c \<and> (IsZero ?t \<or> timely ?c ?t 0)"
    by (simp add: validateRequiredClaims_ok_iff del: sign_claims_simps)
  also have "well_formed_claims ?c \<longleftrightarrow>
      signable inp \<and> 1 \<le> Unix ?t \<and> 0 < Unix (?t + sign_ttl sg inp)"
    by (auto simp: well_formed_claims_def signable_def sign_claims_jti)
  also have "timely ?c ?t 0 \<longleftrightarrow> ?t \<le> time_Unix (Unix (?t + sign_ttl sg inp))"
    using time_Unix_Unix_le [of ?t] by (auto simp: timely_def)
  finally show ?thesis by auto
qed

lemma Sign_Inr:
  assumes "Sign J clock rnd sg inp = Inr (token, claims)"
  shows "claims = sign_claims clock rnd sg inp"
    and "token = signClaims J claims (DeriveSecret (sg_secret sg) (sign_time clock inp))"
    and "well_formed_claims claims"
  using assms by (auto simp: Sign_def Let_def validateRequiredClaims_ok_iff split: sum.splits)

lemma Sign_unsignable: "\<not> signable inp \<Longrightarrow> Sign J clock rnd sg inp = Inl ErrInvalidClaims"
  by (auto simp: Sign_def Let_def validateRequiredClaims_def signable_def blank_def split: option.splits)

section \<open>Signing and verifying\<close>

text \<open>
  What the round trip needs of \<open>encoding/json\<close>: the header decodes to its algorithm, and the claims
  decode to themselves (which fails for claims whose strings are not valid UTF-8).
\<close>

definition json_round_trip :: "json_codec \<Rightarrow> Claims \<Rightarrow> bool" where
  "json_round_trip J c \<longleftrightarrow>
     unmarshal_alg J header_json = Some signingAlgHS256 \<and> unmarshal_claims J (marshal_claims J c) = Some c"

lemma SplitChar_token:
  assumes "CHR ''.'' \<notin> set a" and "CHR ''.'' \<notin> set b" and "CHR ''.'' \<notin> set c"
  shows "SplitChar CHR ''.'' ((a @ ''.'' @ b) @ ''.'' @ c) = [a, b, c]"
  using assms by (simp add: SplitChar_append SplitChar_no_sep)

lemma verifyClaims_signClaims:
  assumes "json_round_trip J claims" and "accepted_secret v now secret"
    and "validateRequiredClaims claims (v_issuer v) (v_audience v) now (v_clockSkew v) = Inr ()"
  shows "verifyClaims J v now (signClaims J claims secret) = Inr claims"
proof -
  let ?h = "RawURLEncoding_EncodeToString header_json"
  let ?b = "RawURLEncoding_EncodeToString (marshal_claims J claims)"
  let ?s = "RawURLEncoding_EncodeToString (hmac_sha256 secret (?h @ ''.'' @ ?b))"
  have "SplitChar CHR ''.'' (signClaims J claims secret) = [?h, ?b, ?s]"
    unfolding signClaims_def Let_def by (rule SplitChar_token) (rule RawURL_no_dot)+
  with assms show ?thesis
    unfolding verifyClaims_Inr_iff by (auto simp: json_round_trip_def signed_under_def)
qed

text \<open>The signing secret of time \<open>t\<close> is one the verifier tries at time \<open>u\<close>.\<close>

lemma accepted_secret_later:
  assumes "v_secret v = master" and "period_of t \<le> period_of u"
    and "u - t \<le> v_ttl v + v_clockSkew v" and "v_ttl v + v_clockSkew v \<le> 28 * day_length"
    and "period_of t < period_of u \<Longrightarrow> t < u"
  shows "accepted_secret v u (DeriveSecret master t)"
proof (cases "period_of t = period_of u")
  case True
  then show ?thesis using assms(1) by (simp add: accepted_secret_def DeriveSecret_same_period [OF True])
next
  case False
  with assms(2) have lt: "period_of t < period_of u" by simp
  have w: "wrap64 (v_ttl v + v_clockSkew v) = v_ttl v + v_clockSkew v"
    using assms(3-5) lt by (intro wrap64_id) (auto simp: day_length_def Hour_def Minute_def Second_def)
  have b: "t < period_start (period_of u)" using lt by (simp add: before_period_start_iff)
  have "InPreviousPeriodWindow u (v_ttl v + v_clockSkew v)"
    using assms(3,5) lt b by (simp add: InPreviousPeriodWindow_iff)
  moreover have "previousPeriodSecret master u = DeriveSecret master t"
    using period_start_le [of u] assms(3,4) by (intro previousPeriodSecret_eq lt) linarith
  ultimately show ?thesis by (simp add: accepted_secret_def w assms(1))
qed

lemma Verify_Sign:
  assumes "Sign J clock rnd sg inp = Inr (token, claims)" and "json_round_trip J claims"
    and "v_secret v = sg_secret sg" and "v_issuer v = c_Issuer claims" and "v_audience v = c_Audience claims"
    and "sign_ttl sg inp \<le> v_ttl v" and "v_ttl v + v_clockSkew v \<le> 28 * day_length"
    and "period_of (sign_time clock inp) \<le> period_of now"
    and "sign_time clock inp \<le> now + v_clockSkew v"
    and "now \<le> time_Unix (c_ExpiresAt claims) + v_clockSkew v"
  shows "Verify J v now token = Inr (principal_of_claims claims)"
proof -
  let ?t = "sign_time clock inp"
  have c: "claims = sign_claims clock rnd sg inp"
    and tok: "token = signClaims J claims (DeriveSecret (sg_secret sg) ?t)" and wf: "well_formed_claims claims"
    using Sign_Inr [OF assms(1)] by blast+
  have e: "now \<le> ?t + sign_ttl sg inp + v_clockSkew v"
    using assms(10) time_Unix_Unix_le [of "?t + sign_ttl sg inp"] by (simp add: c)
  have before: "?t < now" if "period_of ?t < period_of now"
    using that period_of_mono [of now ?t] by (meson leD not_le)
  have "accepted_secret v now (DeriveSecret (sg_secret sg) ?t)"
    using e assms(3,6,7,8) before by (intro accepted_secret_later) auto
  moreover have "timely claims now (v_clockSkew v)"
    using assms(9,10) time_Unix_Unix_le [of ?t] unfolding timely_def by (simp add: c)
  then have "validateRequiredClaims claims (v_issuer v) (v_audience v) now (v_clockSkew v) = Inr ()"
    using wf assms(4,5) by (simp add: validateRequiredClaims_ok_iff)
  ultimately have "verifyClaims J v now token = Inr claims"
    unfolding tok by (intro verifyClaims_signClaims assms(2))
  then show ?thesis by (simp add: Verify_def)
qed

end
