(* ===== verification/Warden_Types.thy ===== *)
theory Warden_Types
  imports Jwt_Signer
begin

text \<open>
  The data of \<open>src/warden/types.go\<close>: tenants, teams, principals, sessions, API keys, service
  accounts, device codes, login states, audit events, the requests and results of the service, and
  the \<open>Store\<close> interface as a record of operations on a store state \<open>'s\<close>. Statuses are the strings
  the code compares; Go pointers are options; \<open>time.Time\<close> is \<open>time\<close> with \<open>zero_time\<close> for the zero value.
\<close>

section \<open>Constants\<close>

definition SessionSourceWeb :: string where "SessionSourceWeb = ''web_session''"
definition SessionSourceAPIKey :: string where "SessionSourceAPIKey = ''api_key''"
definition SessionSourceServiceToken :: string where "SessionSourceServiceToken = ''service_token''"
definition SessionSourceAgent :: string where "SessionSourceAgent = ''agent_delegation''"

definition PrincipalStatusActive :: string where "PrincipalStatusActive = ''active''"
definition PrincipalStatusPending :: string where "PrincipalStatusPending = ''pending''"
definition PrincipalStatusDisabled :: string where "PrincipalStatusDisabled = ''disabled''"

definition RegistrationPolicyOpen :: string where "RegistrationPolicyOpen = ''open''"
definition RegistrationPolicyApprovalRequired :: string where
  "RegistrationPolicyApprovalRequired = ''approval_required''"
definition RegistrationPolicyClosed :: string where "RegistrationPolicyClosed = ''closed''"

lemmas status_defs =
  PrincipalStatusActive_def PrincipalStatusPending_def PrincipalStatusDisabled_def
  RegistrationPolicyOpen_def RegistrationPolicyApprovalRequired_def RegistrationPolicyClosed_def

section \<open>Entities\<close>

record Tenant =
  ten_ID :: string
  ten_CasdoorOrgName :: string
  ten_Slug :: string
  ten_DisplayName :: string
  ten_Status :: string

record Team =
  team_ID :: string
  team_TenantID :: string
  team_CasdoorGroupID :: string
  team_Name :: string
  team_DisplayName :: string
  team_ParentTeamID :: string
  team_Status :: string

record RoleGrant =
  role_Key :: string
  role_ScopeType :: string
  role_ScopeID :: string

record Principal =
  p_ID :: string
  p_TenantID :: string
  p_CasdoorUserID :: string
  p_Username :: string
  p_Email :: string
  p_DisplayName :: string
  p_Type :: string
  p_Status :: string
  p_EmailVerified :: bool
  p_Roles :: "RoleGrant list"
  p_Teams :: "Team list"

record Session =
  sess_ID :: string
  sess_PrincipalID :: string
  sess_TenantID :: string
  sess_CurrentTeamID :: string
  sess_AuthTime :: time
  sess_ExpiresAt :: time
  sess_Source :: string

record APIKey =
  key_ID :: string
  key_Name :: string
  key_TenantID :: string
  key_PrincipalType :: string
  key_PrincipalID :: string
  key_KeyHash :: string
  key_Scopes :: "string list"
  key_ExpiresAt :: time
  key_Status :: string
  key_CreatedAt :: time
  key_LastUsedAt :: time

record ServiceAccount =
  acc_ID :: string
  acc_TenantID :: string
  acc_Name :: string
  acc_Status :: string
  acc_CreatedBy :: string
  acc_CreatedAt :: time

record AgentRun =
  run_ID :: string
  run_TenantID :: string
  run_ActorPrincipalID :: string
  run_AgentPrincipalID :: string
  run_Status :: string
  run_CreatedAt :: time

record AuditEvent =
  ev_TenantID :: string
  ev_ActorType :: string
  ev_ActorID :: string
  ev_PrincipalType :: string
  ev_PrincipalID :: string
  ev_Action :: string
  ev_ResourceType :: string
  ev_ResourceID :: string
  ev_Decision :: string
  ev_JWTID :: string
  ev_CreatedAt :: time

record CasdoorUser =
  cu_ID :: string
  cu_Username :: string
  cu_Email :: string
  cu_DisplayName :: string
  cu_EmailVerified :: bool
  cu_Disabled :: bool

record CasdoorGroup =
  cg_ID :: string
  cg_Name :: string
  cg_DisplayName :: string
  cg_ParentGroupID :: string

record CasdoorDirectorySnapshot =
  snap_Tenant :: Tenant
  snap_User :: CasdoorUser
  snap_Groups :: "CasdoorGroup list"
  snap_Roles :: "string list"

record OIDCLoginState =
  oidc_State :: string
  oidc_BrowserBinding :: string
  oidc_Nonce :: string
  oidc_CodeVerifier :: string
  oidc_RedirectURL :: string
  oidc_ExpiresAt :: time

record DeviceCode =
  dev_DeviceCode :: string
  dev_UserCode :: string
  dev_PrincipalID :: string
  dev_ExpiresAt :: time
  dev_Interval :: duration
  dev_Status :: string
  dev_CreatedAt :: time

section \<open>Requests and results\<close>

record SubjectContext =
  sc_PrincipalID :: string
  sc_ExternalID :: string
  sc_Username :: string
  sc_DisplayName :: string

record TenantContext =
  tc_ID :: string
  tc_Slug :: string
  tc_DisplayName :: string

record TeamContext =
  tmc_ID :: string
  tmc_Name :: string
  tmc_DisplayName :: string

record AppContext =
  app_ID :: string
  app_Enabled :: bool

record IdentityContext_t =
  ic_Subject :: SubjectContext
  ic_CurrentTenant :: TenantContext
  ic_CurrentTeam :: "TeamContext option"
  ic_AvailableTenants :: "TenantContext list"
  ic_Teams :: "TeamContext list"
  ic_RoleKeys :: "string list"
  ic_Permissions :: "string list"
  ic_ConsoleAccess :: bool
  ic_Apps :: "AppContext list"
  ic_EmailVerified :: bool

record SwitchTenantRequest =
  swt_SessionID :: string
  swt_TenantID :: string
  swt_TeamID :: string
  swt_Now :: time

record SwitchTeamRequest =
  swm_SessionID :: string
  swm_TeamID :: string
  swm_Now :: time

record InternalJWTRequest =
  ij_SessionID :: string
  ij_APIKey :: string
  ij_ClientCredentialsToken :: string
  ij_Audience :: string
  ij_Actions :: "string list"
  ij_Resource :: "ResourceRef option"
  ij_Now :: time
  ij_JWTID :: string

record InternalJWTResult =
  ijr_Token :: string
  ijr_Claims :: Claims

record RecordAuditEventRequest =
  ra_SessionID :: string
  ra_APIKey :: string
  ra_Action :: string
  ra_Resource :: "ResourceRef option"
  ra_Decision :: string
  ra_JWTID :: string
  ra_Now :: time

record TokenValidationResult =
  tv_TenantID :: string
  tv_KeyID :: string
  tv_Scopes :: "string list"
  tv_ExpiresAt :: time
  tv_Principal :: Principal

record DelegateAgentRequest =
  da_SessionID :: string
  da_RunID :: string
  da_Audience :: string
  da_Actions :: "string list"
  da_Scopes :: "string list"
  da_Resource :: "ResourceRef option"
  da_Now :: time
  da_JWTID :: string

record CreateAPIKeyRequest =
  ck_SessionID :: string
  ck_Name :: string
  ck_Scopes :: "string list"
  ck_ExpiresAt :: time
  ck_Now :: time

record CreateServiceAccountRequest =
  cs_SessionID :: string
  cs_Name :: string
  cs_Scopes :: "string list"
  cs_ExpiresAt :: time
  cs_Now :: time

record StartOIDCLoginRequest =
  sl_BrowserBinding :: string
  sl_RedirectURL :: string
  sl_Now :: time

record StartedOIDCLogin =
  slo_AuthorizationURL :: string
  slo_State :: string
  slo_Nonce :: string
  slo_CodeChallenge :: string
  slo_CodeChallengeMethod :: string
  slo_ExpiresIn :: int

record StartDeviceAuthRequest =
  sd_Now :: time

record StartedDeviceAuth =
  sda_DeviceCode :: string
  sda_UserCode :: string
  sda_VerificationURI :: string
  sda_ExpiresIn :: int
  sda_Interval :: int

record ApproveDeviceAuthRequest =
  ad_SessionID :: string
  ad_UserCode :: string
  ad_Now :: time

record DeviceTokenRequest =
  dt_DeviceCode :: string
  dt_Now :: time

record DeviceTokenResult =
  dtr_AccessToken :: string
  dtr_TokenType :: string
  dtr_KeyID :: string
  dtr_ExpiresAt :: time

record CreatedAPIKey =
  cak_ID :: string
  cak_Token :: string
  cak_ExpiresAt :: time

record CreatedServiceAccountToken =
  csat_ServiceAccountID :: string
  csat_KeyID :: string
  csat_Token :: string
  csat_ExpiresAt :: time

record APIKeySummary =
  ks_ID :: string
  ks_Name :: string
  ks_TenantID :: string
  ks_PrincipalType :: string
  ks_PrincipalID :: string
  ks_Scopes :: "string list"
  ks_ExpiresAt :: time
  ks_Status :: string
  ks_CreatedAt :: time
  ks_LastUsedAt :: time

record ServiceAccountSummary =
  sas_ID :: string
  sas_TenantID :: string
  sas_Name :: string
  sas_Status :: string
  sas_CreatedBy :: string
  sas_CreatedAt :: time

section \<open>The store interface\<close>

text \<open>
  The last two fields are not part of the interface: the code finds out whether a store has these
  operations by an assertion to the interfaces \<open>boundOIDCStateTaker\<close> and \<open>directorySubjectLister\<close>.
\<close>

record 's Store =
  store_UpsertTenant :: "Tenant \<Rightarrow> ('s, unit) op"
  store_UpsertPrincipal :: "Principal \<Rightarrow> ('s, unit) op"
  store_UpdatePrincipalStatus :: "string \<Rightarrow> string \<Rightarrow> ('s, unit) op"
  store_GetTenant :: "string \<Rightarrow> ('s, Tenant) op"
  store_GetPrincipal :: "string \<Rightarrow> ('s, Principal) op"
  store_ListPrincipalsByCasdoorUser :: "string \<Rightarrow> ('s, Principal list) op"
  store_PutOIDCLoginState :: "OIDCLoginState \<Rightarrow> ('s, unit) op"
  store_TakeOIDCLoginState :: "string \<Rightarrow> ('s, OIDCLoginState) op"
  store_PutDeviceCode :: "DeviceCode \<Rightarrow> ('s, unit) op"
  store_GetDeviceCode :: "string \<Rightarrow> ('s, DeviceCode) op"
  store_GetDeviceCodeByUserCode :: "string \<Rightarrow> ('s, DeviceCode) op"
  store_UpdateDeviceCode :: "DeviceCode \<Rightarrow> ('s, unit) op"
  store_PutSession :: "Session \<Rightarrow> ('s, unit) op"
  store_GetSession :: "string \<Rightarrow> ('s, Session) op"
  store_UpdateSessionContext :: "string \<Rightarrow> string \<Rightarrow> string \<Rightarrow> string \<Rightarrow> ('s, unit) op"
  store_DeleteSession :: "string \<Rightarrow> ('s, unit) op"
  store_DeleteSessionsByPrincipal :: "string \<Rightarrow> ('s, unit) op"
  store_PutServiceAccount :: "ServiceAccount \<Rightarrow> ('s, unit) op"
  store_ListServiceAccounts :: "string \<Rightarrow> ('s, ServiceAccount list) op"
  store_DisableServiceAccount :: "string \<Rightarrow> string \<Rightarrow> ('s, unit) op"
  store_PutAPIKey :: "APIKey \<Rightarrow> ('s, unit) op"
  store_GetAPIKeyByHash :: "string \<Rightarrow> ('s, APIKey) op"
  store_ListAPIKeys :: "string \<Rightarrow> ('s, APIKey list) op"
  store_RevokeAPIKey :: "string \<Rightarrow> string \<Rightarrow> ('s, unit) op"
  store_TouchAPIKeyLastUsed :: "string \<Rightarrow> time \<Rightarrow> ('s, unit) op"
  store_PutAgentRun :: "AgentRun \<Rightarrow> ('s, unit) op"
  store_AppendAudit :: "AuditEvent \<Rightarrow> ('s, unit) op"
  store_TakeBoundOIDCLoginState :: "(string \<Rightarrow> string \<Rightarrow> ('s, OIDCLoginState) op) option"
  store_ListDirectorySubjects :: "(string \<Rightarrow> ('s, string list) op) option"

end
