(* ===== verification/Warden_Store.thy ===== *)
theory Warden_Store
  imports Warden_Types
begin

text \<open>
  The contract of the \<open>Store\<close> interface of \<open>src/warden/types.go\<close>: what the service relies on. The
  abstract state of a store is a \<open>StoreView\<close>, one partial map per table; each operation of the
  interface is described by its effect on the view. The laws are stated as locales, one per group of
  tables, over a store \<open>st\<close>, its invariant \<open>ok\<close> and its abstraction \<open>view\<close>; theory
  \<open>Warden_MemoryStore\<close> proves them for the in-memory store.
\<close>

record StoreView =
  vw_tenants :: "string \<rightharpoonup> Tenant"
  vw_principals :: "string \<rightharpoonup> Principal"
  vw_oidcStates :: "string \<rightharpoonup> OIDCLoginState"
  vw_deviceCodes :: "string \<rightharpoonup> DeviceCode"
  vw_sessions :: "string \<rightharpoonup> Session"
  vw_accounts :: "string \<rightharpoonup> ServiceAccount"
  vw_apiKeys :: "string \<rightharpoonup> APIKey"
  vw_agentRuns :: "string \<rightharpoonup> AgentRun"
  vw_audits :: "AuditEvent list"

text \<open>A row is stored under its own key.\<close>

definition keyed :: "('a \<Rightarrow> string) \<Rightarrow> (string \<rightharpoonup> 'a) \<Rightarrow> bool" where
  "keyed f m \<longleftrightarrow> (\<forall>k x. m k = Some x \<longrightarrow> f x = k)"

definition view_ok :: "StoreView \<Rightarrow> bool" where
  "view_ok V \<longleftrightarrow> keyed ten_ID (vw_tenants V) \<and> keyed p_ID (vw_principals V)
     \<and> keyed oidc_State (vw_oidcStates V) \<and> keyed dev_DeviceCode (vw_deviceCodes V)
     \<and> keyed sess_ID (vw_sessions V) \<and> keyed acc_ID (vw_accounts V)
     \<and> keyed key_KeyHash (vw_apiKeys V) \<and> keyed run_ID (vw_agentRuns V)"

lemma keyedD: "keyed f m \<Longrightarrow> m k = Some x \<Longrightarrow> f x = k"
  by (simp add: keyed_def)

lemma keyed_empty [simp]: "keyed f Map.empty"
  by (simp add: keyed_def)

lemma keyed_put [simp]: "keyed f m \<Longrightarrow> f x = k \<Longrightarrow> keyed f (m(k \<mapsto> x))"
  by (simp add: keyed_def)

lemma keyed_replace: "keyed f m \<Longrightarrow> m k = Some a \<Longrightarrow> f x = f a \<Longrightarrow> keyed f (m(k \<mapsto> x))"
  by (simp add: keyed_def)

lemma keyed_del [simp]: "keyed f m \<Longrightarrow> keyed f (m(k := None))"
  by (simp add: keyed_def)

lemma keyed_map_le: "keyed f m \<Longrightarrow> m' \<subseteq>\<^sub>m m \<Longrightarrow> keyed f m'"
  by (auto simp: keyed_def map_le_def dom_def)

lemma view_ok_keyed:
  assumes "view_ok V"
  shows "keyed ten_ID (vw_tenants V)" "keyed p_ID (vw_principals V)" "keyed oidc_State (vw_oidcStates V)"
    "keyed dev_DeviceCode (vw_deviceCodes V)" "keyed sess_ID (vw_sessions V)" "keyed acc_ID (vw_accounts V)"
    "keyed key_KeyHash (vw_apiKeys V)" "keyed run_ID (vw_agentRuns V)"
  using assms by (simp_all add: view_ok_def)

text \<open>Reading a row, and updating a row when it exists.\<close>

definition found :: "'a option \<Rightarrow> 'a res" where
  "found r = (case r of None \<Rightarrow> Inl ErrNotFound | Some x \<Rightarrow> Inr x)"

definition upd_at :: "(string \<rightharpoonup> 'a) \<Rightarrow> string \<Rightarrow> ('a \<Rightarrow> 'a) \<Rightarrow> (string \<rightharpoonup> 'a)" where
  "upd_at m k f = (case m k of None \<Rightarrow> m | Some x \<Rightarrow> m(k \<mapsto> f x))"

definition exists_res :: "'a option \<Rightarrow> unit res" where
  "exists_res r = (if r = None then Inl ErrNotFound else Inr ())"

lemma found_simps [simp]: "found None = Inl ErrNotFound" "found (Some x) = Inr x"
  by (simp_all add: found_def)

lemma found_Inr_iff [simp]: "found r = Inr x \<longleftrightarrow> r = Some x"
  by (cases r) simp_all

lemma found_Inl_iff: "found r = Inl e \<longleftrightarrow> r = None \<and> e = ErrNotFound"
  by (cases r) auto

lemma exists_res_simps [simp]: "exists_res None = Inl ErrNotFound" "exists_res (Some x) = Inr ()"
  by (simp_all add: exists_res_def)

lemma upd_at_None [simp]: "m k = None \<Longrightarrow> upd_at m k f = m"
  by (simp add: upd_at_def)

lemma upd_at_Some [simp]: "m k = Some x \<Longrightarrow> upd_at m k f = m(k \<mapsto> f x)"
  by (simp add: upd_at_def)

lemma upd_at_other [simp]: "k' \<noteq> k \<Longrightarrow> upd_at m k f k' = m k'"
  by (cases "m k") simp_all

lemma upd_at_same [simp]: "upd_at m k f k = map_option f (m k)"
  by (cases "m k") simp_all

lemma keyed_upd_at [simp]: "keyed g m \<Longrightarrow> (\<And>x. g (f x) = g x) \<Longrightarrow> keyed g (upd_at m k f)"
  by (cases "m k") (auto simp: keyed_def)

section \<open>The contract\<close>

text \<open>The outcome of an operation without a value: its result, and its effect on the view.\<close>

definition does :: "('s \<Rightarrow> bool) \<Rightarrow> ('s \<Rightarrow> StoreView) \<Rightarrow> ('s, 'a) op \<Rightarrow> 's \<Rightarrow> 'a res \<Rightarrow> StoreView \<Rightarrow> bool" where
  "does ok view m s r V \<longleftrightarrow> fst (m s) = r \<and> ok (snd (m s)) \<and> view (snd (m s)) = V"

lemma doesD:
  assumes "does ok view m s r V"
  shows "fst (m s) = r" "ok (snd (m s))" "view (snd (m s)) = V"
  using assms by (simp_all add: does_def)

text \<open>Tenants, principals, sessions and the audit log.\<close>

locale identity_store =
  fixes st :: "'s Store" and ok :: "'s \<Rightarrow> bool" and view :: "'s \<Rightarrow> StoreView"
  assumes view_ok: "ok s \<Longrightarrow> view_ok (view s)"
    and GetTenant: "ok s \<Longrightarrow> store_GetTenant st k s = (found (vw_tenants (view s) k), s)"
    and GetPrincipal: "ok s \<Longrightarrow> store_GetPrincipal st k s = (found (vw_principals (view s) k), s)"
    and GetSession: "ok s \<Longrightarrow> store_GetSession st k s = (found (vw_sessions (view s) k), s)"
    and ListPrincipals: "ok s \<Longrightarrow> \<exists>ps. store_ListPrincipalsByCasdoorUser st u s = (Inr ps, s)
          \<and> set ps = {p \<in> ran (vw_principals (view s)). p_CasdoorUserID p \<noteq> [] \<and> p_CasdoorUserID p = u}"
    and UpsertTenant: "ok s \<Longrightarrow> does ok view (store_UpsertTenant st t) s (Inr ())
          ((view s)\<lparr>vw_tenants := (vw_tenants (view s))(ten_ID t \<mapsto> t)\<rparr>)"
    and UpsertPrincipal: "ok s \<Longrightarrow> does ok view (store_UpsertPrincipal st p) s (Inr ())
          ((view s)\<lparr>vw_principals := (vw_principals (view s))(p_ID p \<mapsto> p)\<rparr>)"
    and UpdatePrincipalStatus: "ok s \<Longrightarrow> does ok view (store_UpdatePrincipalStatus st k status) s
          (exists_res (vw_principals (view s) k))
          ((view s)\<lparr>vw_principals := upd_at (vw_principals (view s)) k (p_Status_update (\<lambda>_. status))\<rparr>)"
    and PutSession: "ok s \<Longrightarrow> does ok view (store_PutSession st x) s (Inr ())
          ((view s)\<lparr>vw_sessions := (vw_sessions (view s))(sess_ID x \<mapsto> x)\<rparr>)"
    and UpdateSessionContext: "ok s \<Longrightarrow> does ok view (store_UpdateSessionContext st k pid tid team) s
          (exists_res (vw_sessions (view s) k))
          ((view s)\<lparr>vw_sessions := upd_at (vw_sessions (view s)) k (\<lambda>x.
             x\<lparr>sess_PrincipalID := pid, sess_TenantID := tid, sess_CurrentTeamID := team\<rparr>)\<rparr>)"
    and DeleteSession: "ok s \<Longrightarrow> does ok view (store_DeleteSession st k) s (Inr ())
          ((view s)\<lparr>vw_sessions := (vw_sessions (view s))(k := None)\<rparr>)"
    and DeleteSessionsByPrincipal: "ok s \<Longrightarrow> does ok view (store_DeleteSessionsByPrincipal st pid) s (Inr ())
          ((view s)\<lparr>vw_sessions := (\<lambda>k. case vw_sessions (view s) k of None \<Rightarrow> None
             | Some x \<Rightarrow> if sess_PrincipalID x = pid then None else Some x)\<rparr>)"
    and AppendAudit: "ok s \<Longrightarrow> does ok view (store_AppendAudit st ev) s (Inr ())
          ((view s)\<lparr>vw_audits := vw_audits (view s) @ [ev]\<rparr>)"

text \<open>API keys, service accounts and agent runs.\<close>

locale credential_store = identity_store st ok view
  for st :: "'s Store" and ok :: "'s \<Rightarrow> bool" and view :: "'s \<Rightarrow> StoreView" +
  assumes PutAPIKey: "ok s \<Longrightarrow> does ok view (store_PutAPIKey st key) s (Inr ())
          ((view s)\<lparr>vw_apiKeys := (vw_apiKeys (view s))(key_KeyHash key \<mapsto> key)\<rparr>)"
    and GetAPIKeyByHash: "ok s \<Longrightarrow> store_GetAPIKeyByHash st h s = (found (vw_apiKeys (view s) h), s)"
    and ListAPIKeys: "ok s \<Longrightarrow> \<exists>ks. store_ListAPIKeys st pid s = (Inr ks, s)
          \<and> set ks = {k \<in> ran (vw_apiKeys (view s)). key_PrincipalID k = pid}"
    and RevokeAPIKey_none: "ok s \<Longrightarrow>
          \<forall>k \<in> ran (vw_apiKeys (view s)). \<not> (key_ID k = kid \<and> key_PrincipalID k = pid) \<Longrightarrow>
          store_RevokeAPIKey st kid pid s = (Inl ErrNotFound, s)"
    and RevokeAPIKey_some: "ok s \<Longrightarrow>
          \<exists>k \<in> ran (vw_apiKeys (view s)). key_ID k = kid \<and> key_PrincipalID k = pid \<Longrightarrow>
          \<exists>h k. vw_apiKeys (view s) h = Some k \<and> key_ID k = kid \<and> key_PrincipalID k = pid
            \<and> does ok view (store_RevokeAPIKey st kid pid) s (Inr ())
                ((view s)\<lparr>vw_apiKeys := (vw_apiKeys (view s))(h \<mapsto> k\<lparr>key_Status := ''revoked''\<rparr>)\<rparr>)"
    and TouchAPIKey_none: "ok s \<Longrightarrow> \<forall>k \<in> ran (vw_apiKeys (view s)). key_ID k \<noteq> kid \<Longrightarrow>
          store_TouchAPIKeyLastUsed st kid t s = (Inl ErrNotFound, s)"
    and TouchAPIKey_some: "ok s \<Longrightarrow> \<exists>k \<in> ran (vw_apiKeys (view s)). key_ID k = kid \<Longrightarrow>
          \<exists>h k. vw_apiKeys (view s) h = Some k \<and> key_ID k = kid
            \<and> does ok view (store_TouchAPIKeyLastUsed st kid t) s (Inr ())
                ((view s)\<lparr>vw_apiKeys := (vw_apiKeys (view s))(h \<mapsto> k\<lparr>key_LastUsedAt := t\<rparr>)\<rparr>)"
    and PutServiceAccount: "ok s \<Longrightarrow> does ok view (store_PutServiceAccount st a) s (Inr ())
          ((view s)\<lparr>vw_accounts := (vw_accounts (view s))(acc_ID a \<mapsto> a)\<rparr>)"
    and ListServiceAccounts: "ok s \<Longrightarrow> \<exists>xs. store_ListServiceAccounts st tid s = (Inr xs, s)
          \<and> set xs = {a \<in> ran (vw_accounts (view s)). tid = [] \<or> acc_TenantID a = tid}"
    and DisableServiceAccount_none: "ok s \<Longrightarrow>
          (\<And>a. vw_accounts (view s) k = Some a \<Longrightarrow> acc_TenantID a \<noteq> tid) \<Longrightarrow>
          store_DisableServiceAccount st k tid s = (Inl ErrNotFound, s)"
    and DisableServiceAccount_some: "ok s \<Longrightarrow> vw_accounts (view s) k = Some a \<Longrightarrow> acc_TenantID a = tid \<Longrightarrow>
          does ok view (store_DisableServiceAccount st k tid) s (Inr ())
            ((view s)\<lparr>vw_accounts := (vw_accounts (view s))(k \<mapsto> a\<lparr>acc_Status := ''disabled''\<rparr>),
               vw_principals := upd_at (vw_principals (view s)) k (\<lambda>p.
                 if p_TenantID p = tid then p\<lparr>p_Status := ''disabled''\<rparr> else p)\<rparr>)"
    and PutAgentRun: "ok s \<Longrightarrow> does ok view (store_PutAgentRun st run) s (Inr ())
          ((view s)\<lparr>vw_agentRuns := (vw_agentRuns (view s))(run_ID run \<mapsto> run)\<rparr>)"

text \<open>Device codes and login states: rows that are consumed.\<close>

locale login_store = identity_store st ok view
  for st :: "'s Store" and ok :: "'s \<Rightarrow> bool" and view :: "'s \<Rightarrow> StoreView" +
  assumes PutDeviceCode: "ok s \<Longrightarrow> does ok view (store_PutDeviceCode st c) s (Inr ())
          ((view s)\<lparr>vw_deviceCodes := (vw_deviceCodes (view s))(dev_DeviceCode c \<mapsto> c)\<rparr>)"
    and GetDeviceCode: "ok s \<Longrightarrow> store_GetDeviceCode st k s = (found (vw_deviceCodes (view s) k), s)"
    and GetByUserCode_none: "ok s \<Longrightarrow> \<forall>c \<in> ran (vw_deviceCodes (view s)). dev_UserCode c \<noteq> u \<Longrightarrow>
          store_GetDeviceCodeByUserCode st u s = (Inl ErrNotFound, s)"
    and GetByUserCode_some: "ok s \<Longrightarrow> \<exists>c \<in> ran (vw_deviceCodes (view s)). dev_UserCode c = u \<Longrightarrow>
          \<exists>c \<in> ran (vw_deviceCodes (view s)). dev_UserCode c = u
            \<and> store_GetDeviceCodeByUserCode st u s = (Inr c, s)"
    and UpdateDeviceCode: "ok s \<Longrightarrow> does ok view (store_UpdateDeviceCode st c) s
          (exists_res (vw_deviceCodes (view s) (dev_DeviceCode c)))
          ((view s)\<lparr>vw_deviceCodes := upd_at (vw_deviceCodes (view s)) (dev_DeviceCode c) (\<lambda>_. c)\<rparr>)"
    and PutOIDCLoginState: "ok s \<Longrightarrow> does ok view (store_PutOIDCLoginState st x) s (Inr ())
          ((view s)\<lparr>vw_oidcStates := (vw_oidcStates (view s))(oidc_State x \<mapsto> x)\<rparr>)"
    and TakeOIDCLoginState: "ok s \<Longrightarrow> does ok view (store_TakeOIDCLoginState st k) s
          (found (vw_oidcStates (view s) k)) ((view s)\<lparr>vw_oidcStates := (vw_oidcStates (view s))(k := None)\<rparr>)"
    and TakeBound_other: "ok s \<Longrightarrow> store_TakeBoundOIDCLoginState st = Some take_bound \<Longrightarrow>
          (\<And>x. vw_oidcStates (view s) k = Some x \<Longrightarrow> oidc_BrowserBinding x \<noteq> b) \<Longrightarrow>
          take_bound k b s = (Inl ErrNotFound, s)"
    and TakeBound_own: "ok s \<Longrightarrow> store_TakeBoundOIDCLoginState st = Some take_bound \<Longrightarrow>
          vw_oidcStates (view s) k = Some x \<Longrightarrow> oidc_BrowserBinding x = b \<Longrightarrow>
          does ok view (take_bound k b) s (Inr x) ((view s)\<lparr>vw_oidcStates := (vw_oidcStates (view s))(k := None)\<rparr>)"

text \<open>The enumeration of the directory users of a tenant.\<close>

locale directory_store = identity_store st ok view
  for st :: "'s Store" and ok :: "'s \<Rightarrow> bool" and view :: "'s \<Rightarrow> StoreView" +
  assumes ListDirectorySubjects: "ok s \<Longrightarrow> store_ListDirectorySubjects st = Some list_subjects \<Longrightarrow> tid \<noteq> [] \<Longrightarrow>
          \<exists>us. list_subjects tid s = (Inr us, s) \<and> distinct us \<and> set us = p_CasdoorUserID `
            {p \<in> ran (vw_principals (view s)). p_TenantID p = tid \<and> p_CasdoorUserID p \<noteq> [] \<and> p_Type p = PrincipalTypeUser}"
    and ListDirectorySubjects_reads: "ok s \<Longrightarrow> store_ListDirectorySubjects st = Some list_subjects \<Longrightarrow>
          \<exists>r. list_subjects tid s = (r, s)"

end
