(* ===== verification/Warden_Policy.thy ===== *)
theory Warden_Policy
  imports Warden_Types
begin

text \<open>
  \<open>src/warden/policy.go\<close>: the roles, the policy (a map from role keys to scopes) and how role grants
  and requested actions become scopes. A Go set \<open>map[string]bool\<close> is the list of its keys
  (\<open>sortedKeys\<close>, \<open>sliceSet\<close> of theory \<open>Go_Strings\<close>); a nil \<open>roleScopes\<close> map is \<open>None\<close>.
\<close>

section \<open>Roles\<close>

definition RolePlatformOwner :: string where "RolePlatformOwner = ''platform.owner''"
definition RolePlatformAdmin :: string where "RolePlatformAdmin = ''platform.admin''"
definition RoleTenantOwner :: string where "RoleTenantOwner = ''tenant.owner''"
definition RoleTenantAdmin :: string where "RoleTenantAdmin = ''tenant.admin''"
definition RoleTenantOperator :: string where "RoleTenantOperator = ''tenant.operator''"
definition RoleTenantViewer :: string where "RoleTenantViewer = ''tenant.viewer''"
definition RoleTeamAdmin :: string where "RoleTeamAdmin = ''team.admin''"
definition RoleTeamEditor :: string where "RoleTeamEditor = ''team.editor''"
definition RoleTeamViewer :: string where "RoleTeamViewer = ''team.viewer''"
definition RoleSakerRunner :: string where "RoleSakerRunner = ''app.saker.runner''"
definition RoleSakerWebViewer :: string where "RoleSakerWebViewer = ''app.sakerweb.viewer''"
definition RoleSakerWebUser :: string where "RoleSakerWebUser = ''app.sakerweb.user''"
definition RoleSakerWebOperator :: string where "RoleSakerWebOperator = ''app.sakerweb.operator''"
definition RoleChatHubUser :: string where "RoleChatHubUser = ''app.chathub.user''"
definition RoleFileHubEditor :: string where "RoleFileHubEditor = ''app.filehub.editor''"
definition RoleSkillHubPublisher :: string where "RoleSkillHubPublisher = ''app.skillhub.publisher''"
definition RoleAIHubUser :: string where "RoleAIHubUser = ''app.aihub.user''"
definition RoleAIHubViewer :: string where "RoleAIHubViewer = ''app.aihub.viewer''"
definition RoleAIHubAdmin :: string where "RoleAIHubAdmin = ''app.aihub.admin''"
definition RoleFrontendUser :: string where "RoleFrontendUser = ''frontend.user''"

lemmas role_defs = RolePlatformOwner_def RolePlatformAdmin_def RoleTenantOwner_def RoleTenantAdmin_def
  RoleTenantOperator_def RoleTenantViewer_def RoleTeamAdmin_def RoleTeamEditor_def RoleTeamViewer_def
  RoleSakerRunner_def RoleSakerWebViewer_def RoleSakerWebUser_def RoleSakerWebOperator_def
  RoleChatHubUser_def RoleFileHubEditor_def RoleSkillHubPublisher_def RoleAIHubUser_def
  RoleAIHubViewer_def RoleAIHubAdmin_def RoleFrontendUser_def

definition knownRoleKeys :: "string list" where
  "knownRoleKeys =
    [RolePlatformOwner, RolePlatformAdmin,
     RoleTenantOwner, RoleTenantAdmin, RoleTenantOperator, RoleTenantViewer,
     RoleTeamAdmin, RoleTeamEditor, RoleTeamViewer,
     RoleSakerRunner, RoleChatHubUser, RoleFileHubEditor, RoleSkillHubPublisher,
     RoleAIHubUser, RoleAIHubViewer, RoleAIHubAdmin,
     RoleFrontendUser,
     RoleSakerWebViewer, RoleSakerWebUser, RoleSakerWebOperator]"

definition shorthandRoles :: "string gomap" where
  "shorthandRoles =
    [(''owner'', RoleTenantOwner), (''admin'', RoleTenantAdmin), (''operator'', RoleTenantOperator),
     (''viewer'', RoleTenantViewer), (''user'', RoleFrontendUser), (''moderator'', RoleSkillHubPublisher)]"

definition NormalizeRoleKey :: "string \<Rightarrow> string \<times> bool" where
  "NormalizeRoleKey role0 =
    (let role = TrimSpace role0 in
     if role = [] then ([], False)
     else if ContainsChar role CHR ''.'' then (role, role \<in> set knownRoleKeys)
     else case map_of shorthandRoles role of Some mapped \<Rightarrow> (mapped, True) | None \<Rightarrow> ([], False))"

section \<open>Policies\<close>

record Policy =
  pol_roleScopes :: "string list gomap option"

definition allScopes :: "string list" where
  "allScopes =
    [ScopeSakerWebRead, ScopeSakerWebWrite, ScopeSakerWebRun, ScopeSakerWebTerminal,
     ScopeSynapseRead, ScopeSynapseWrite, ScopeSynapseAdmin,
     ScopeSakerRun, ScopeSakerToolExecute, ScopeSakerToolApprove,
     ScopeChatHubRead, ScopeChatHubWrite, ScopeChatHubAdmin,
     ScopeFileHubRead, ScopeFileHubUpload, ScopeFileHubWrite, ScopeFileHubAdmin,
     ScopeSkillHubRead, ScopeSkillHubWrite, ScopeSkillHubPublish, ScopeSkillHubAdmin,
     ScopeFileStoreRead, ScopeFileStoreWrite, ScopeFileStoreAdmin,
     ScopeWebHubNotificationsWrite,
     ScopeAIHubRead, ScopeAIHubInvoke, ScopeAIHubAdmin,
     ScopeStockHubRead, ScopeStockHubRetrieve, ScopeStockHubUpload, ScopeStockHubWrite,
     ScopeStockHubReview, ScopeStockHubAdmin,
     ScopeWardenRead, ScopeWardenWrite, ScopeWardenAdmin]"

definition copyRoleScopes :: "string list gomap \<Rightarrow> string list gomap" where
  "copyRoleScopes m = map (\<lambda>(role, scopes). (role, sort scopes)) m"

definition DefaultRoleScopes :: "string list gomap" where
  "DefaultRoleScopes = copyRoleScopes
    [(RolePlatformOwner, allScopes),
     (RolePlatformAdmin, allScopes),
     (RoleTenantOwner, allScopes),
     (RoleTenantAdmin, allScopes),
     (RoleTenantOperator,
       [ScopeSakerWebRead, ScopeSakerWebWrite, ScopeSakerWebRun,
        ScopeSynapseRead, ScopeSynapseWrite,
        ScopeChatHubRead, ScopeChatHubWrite,
        ScopeFileHubRead, ScopeFileHubUpload, ScopeFileHubWrite,
        ScopeSkillHubRead, ScopeSkillHubWrite,
        ScopeFileStoreRead, ScopeFileStoreWrite,
        ScopeSakerRun, ScopeSakerToolExecute,
        ScopeAIHubRead, ScopeAIHubInvoke,
        ScopeStockHubRead, ScopeStockHubRetrieve, ScopeStockHubUpload, ScopeStockHubWrite,
        ScopeWardenRead, ScopeWardenWrite]),
     (RoleTenantViewer,
       [ScopeSakerWebRead, ScopeSynapseRead, ScopeChatHubRead, ScopeFileHubRead, ScopeSkillHubRead,
        ScopeFileStoreRead, ScopeAIHubRead, ScopeStockHubRead, ScopeStockHubRetrieve, ScopeWardenRead]),
     (RoleTeamAdmin, [ScopeChatHubRead, ScopeChatHubWrite, ScopeFileHubRead, ScopeFileHubUpload, ScopeFileHubWrite]),
     (RoleTeamEditor, [ScopeChatHubRead, ScopeChatHubWrite, ScopeFileHubRead, ScopeFileHubUpload]),
     (RoleTeamViewer, [ScopeChatHubRead, ScopeFileHubRead]),
     (RoleSakerRunner, [ScopeSakerRun, ScopeSakerToolExecute]),
     (RoleSakerWebViewer, [ScopeSakerWebRead]),
     (RoleSakerWebUser, [ScopeSakerWebRead, ScopeSakerWebWrite, ScopeSakerWebRun]),
     (RoleSakerWebOperator, [ScopeSakerWebRead, ScopeSakerWebWrite, ScopeSakerWebRun, ScopeSakerWebTerminal]),
     (RoleChatHubUser, [ScopeChatHubRead, ScopeChatHubWrite]),
     (RoleFileHubEditor, [ScopeFileHubRead, ScopeFileHubUpload, ScopeFileHubWrite]),
     (RoleSkillHubPublisher, [ScopeSkillHubRead, ScopeSkillHubPublish, ScopeSkillHubWrite]),
     (RoleAIHubUser, [ScopeAIHubRead, ScopeAIHubInvoke]),
     (RoleAIHubViewer, [ScopeAIHubRead]),
     (RoleAIHubAdmin, [ScopeAIHubRead, ScopeAIHubInvoke, ScopeAIHubAdmin]),
     (RoleFrontendUser, [ScopeSynapseRead, ScopeAIHubRead, ScopeAIHubInvoke, ScopeStockHubRead,
        ScopeStockHubRetrieve, ScopeWardenRead])]"

definition DefaultPolicy :: Policy where
  "DefaultPolicy = \<lparr>pol_roleScopes = Some DefaultRoleScopes\<rparr>"

fun normalize_roleScopes :: "string list gomap \<Rightarrow> string list gomap \<Rightarrow> string list gomap res" where
  "normalize_roleScopes [] normalized = Inr normalized"
| "normalize_roleScopes ((role, scopes) # rest) normalized =
    (let (key, ok) = NormalizeRoleKey role in
     if \<not> ok then Inl (Errorf ''unknown role %q'')
     else normalize_roleScopes rest (map_put key (sortedKeys (sliceSet scopes)) normalized))"

definition NewPolicy :: "string list gomap \<Rightarrow> Policy res" where
  "NewPolicy roleScopes =
    (if length roleScopes = 0 then Inr DefaultPolicy
     else case normalize_roleScopes roleScopes [] of
       Inl e \<Rightarrow> Inl e
     | Inr normalized \<Rightarrow> Inr \<lparr>pol_roleScopes = Some normalized\<rparr>)"

definition RoleScopes :: "Policy \<Rightarrow> string list gomap" where
  "RoleScopes p = (case pol_roleScopes p of None \<Rightarrow> DefaultRoleScopes | Some m \<Rightarrow> copyRoleScopes m)"

text \<open>\<open>p.roleScopes[key]\<close>: the nil slice for an absent key or a nil map.\<close>

definition scopes_of_role :: "Policy \<Rightarrow> string \<Rightarrow> string list" where
  "scopes_of_role p key =
    (case pol_roleScopes p of None \<Rightarrow> []
     | Some m \<Rightarrow> (case map_of m key of None \<Rightarrow> [] | Some scopes \<Rightarrow> scopes))"

definition ScopesForRoles :: "Policy \<Rightarrow> RoleGrant list \<Rightarrow> string list" where
  "ScopesForRoles p roles =
    sortedKeys (concat (map (\<lambda>role.
      let (key, ok) = NormalizeRoleKey (role_Key role) in if \<not> ok then [] else scopes_of_role p key) roles))"

section \<open>Actions\<close>

definition action_scope :: "string \<Rightarrow> (string list \<times> string) list \<Rightarrow> string list" where
  "action_scope action rows =
    (case find (\<lambda>(names, scope). action \<in> set names) rows of
       None \<Rightarrow> [] | Some (names, scope) \<Rightarrow> [scope])"

definition scopesForAction :: "string \<Rightarrow> string \<Rightarrow> string list" where
  "scopesForAction audience action0 =
    (let action = TrimSpace (ToLower action0) in
     if audience = AudienceChatHub then action_scope action
       [([''read'', ''list''], ScopeChatHubRead),
        ([''write'', ''run'', ''delete'', ''archive''], ScopeChatHubWrite),
        ([''admin''], ScopeChatHubAdmin)]
     else if audience = AudienceFileHub then action_scope action
       [([''read'', ''list''], ScopeFileHubRead),
        ([''upload'', ''create''], ScopeFileHubUpload),
        ([''write'', ''update'', ''delete''], ScopeFileHubWrite),
        ([''admin''], ScopeFileHubAdmin)]
     else if audience = AudienceSkillHub then action_scope action
       [([''read'', ''list''], ScopeSkillHubRead),
        ([''write'', ''update''], ScopeSkillHubWrite),
        ([''publish''], ScopeSkillHubPublish),
        ([''admin''], ScopeSkillHubAdmin)]
     else if audience = AudienceSaker then action_scope action
       [([''run''], ScopeSakerRun),
        ([''tool:execute'', ''execute''], ScopeSakerToolExecute),
        ([''tool:approve'', ''approve''], ScopeSakerToolApprove)]
     else if audience = AudienceSakerWeb then action_scope action
       [([''read'', ''list'', ''get'', ''view''], ScopeSakerWebRead),
        ([''write'', ''create'', ''update'', ''delete''], ScopeSakerWebWrite),
        ([''run''], ScopeSakerWebRun),
        ([''terminal''], ScopeSakerWebTerminal)]
     else if audience = AudienceFileStore then action_scope action
       [([''read'', ''list''], ScopeFileStoreRead),
        ([''write'', ''upload'', ''delete''], ScopeFileStoreWrite),
        ([''admin''], ScopeFileStoreAdmin)]
     else if audience = AudienceSynapse then action_scope action
       [([''read'', ''list''], ScopeSynapseRead),
        ([''write'', ''update''], ScopeSynapseWrite),
        ([''admin''], ScopeSynapseAdmin)]
     else if audience = AudienceWebHub then action_scope action
       [([''notifications:write'', ''notify'', ''write''], ScopeWebHubNotificationsWrite)]
     else if audience = AudienceAIHub then action_scope action
       [([''read'', ''list''], ScopeAIHubRead),
        ([''invoke'', ''run'', ''write'', ''update'', ''delete''], ScopeAIHubInvoke),
        ([''admin''], ScopeAIHubAdmin)]
     else if audience = AudienceStockHub then action_scope action
       [([''read'', ''list'', ''search''], ScopeStockHubRead),
        ([''retrieve''], ScopeStockHubRetrieve),
        ([''upload'', ''create''], ScopeStockHubUpload),
        ([''write'', ''update'', ''delete'', ''archive''], ScopeStockHubWrite),
        ([''review'', ''publish''], ScopeStockHubReview),
        ([''admin''], ScopeStockHubAdmin)]
     else if audience = AudienceWarden then action_scope action
       [([''read'', ''list''], ScopeWardenRead),
        ([''write'', ''update'', ''delete''], ScopeWardenWrite),
        ([''admin''], ScopeWardenAdmin)]
     else [])"

definition ScopesForActions :: "Policy \<Rightarrow> RoleGrant list \<Rightarrow> string \<Rightarrow> string list \<Rightarrow> string list" where
  "ScopesForActions p roles audience actions =
    (let allowed = sliceSet (ScopesForRoles p roles);
         requested = concat (map (scopesForAction audience) actions);
         requested = (if length requested = 0 then DefaultScopesForAudience audience else requested)
     in sortedKeys (filter (\<lambda>scope. scope \<in> set allowed) requested))"

definition AppsForScopes :: "string list \<Rightarrow> AppContext list" where
  "AppsForScopes scopes =
    (let set1 = sliceSet scopes in
     [\<lparr>app_ID = AudienceChatHub, app_Enabled =
         ScopeChatHubRead \<in> set set1 \<or> ScopeChatHubWrite \<in> set set1
         \<or> ScopeChatHubAdmin \<in> set set1\<rparr>,
      \<lparr>app_ID = AudienceFileHub, app_Enabled =
         ScopeFileHubRead \<in> set set1 \<or> ScopeFileHubUpload \<in> set set1
         \<or> ScopeFileHubWrite \<in> set set1 \<or> ScopeFileHubAdmin \<in> set set1\<rparr>,
      \<lparr>app_ID = AudienceSkillHub, app_Enabled =
         ScopeSkillHubRead \<in> set set1 \<or> ScopeSkillHubWrite \<in> set set1
         \<or> ScopeSkillHubAdmin \<in> set set1\<rparr>])"

definition ConsoleAccess :: "RoleGrant list \<Rightarrow> bool" where
  "ConsoleAccess roles = list_ex (\<lambda>role.
     let (key, ok) = NormalizeRoleKey (role_Key role) in ok \<and> key \<noteq> RoleFrontendUser) roles"

definition intersectScopes :: "string list \<Rightarrow> string list \<Rightarrow> string list" where
  "intersectScopes left right =
    (let lset = sliceSet left in sortedKeys (filter (\<lambda>scope. scope \<in> set lset) right))"

text \<open>\<open>roleKeys\<close> and \<open>canManageServiceAccounts\<close> of \<open>src/warden/service.go\<close>.\<close>

definition roleKeys :: "RoleGrant list \<Rightarrow> string list" where
  "roleKeys roles = concat (map (\<lambda>role.
     let (key, ok) = NormalizeRoleKey (role_Key role) in if ok then [key] else []) roles)"

definition canManageServiceAccounts :: "RoleGrant list \<Rightarrow> bool" where
  "canManageServiceAccounts roles = list_ex (\<lambda>role.
     let (key, ok) = NormalizeRoleKey (role_Key role) in
     ok \<and> key \<in> set [RolePlatformOwner, RolePlatformAdmin, RoleTenantOwner, RoleTenantAdmin]) roles"

section \<open>Role keys\<close>

lemma knownRoleKeys_normal:
  "list_all (\<lambda>k. NormalizeRoleKey k = (k, True)) knownRoleKeys"
  by code_simp

lemma shorthandRoles_known: "list_all (\<lambda>(k, r). r \<in> set knownRoleKeys) shorthandRoles"
  by code_simp

lemma NormalizeRoleKey_known:
  assumes "NormalizeRoleKey r = (k, True)"
  shows "k \<in> set knownRoleKeys"
proof -
  have "map_of shorthandRoles s = Some k \<Longrightarrow> k \<in> set knownRoleKeys" for s
    using shorthandRoles_known by (fastforce dest: map_of_SomeD simp: list_all_iff)
  with assms show ?thesis
    by (auto simp: NormalizeRoleKey_def Let_def split: if_splits option.splits)
qed

lemma NormalizeRoleKey_normal: "k \<in> set knownRoleKeys \<Longrightarrow> NormalizeRoleKey k = (k, True)"
  using knownRoleKeys_normal by (simp add: list_all_iff)

lemma NormalizeRoleKey_fixed: "NormalizeRoleKey r = (k, True) \<Longrightarrow> NormalizeRoleKey k = (k, True)"
  by (intro NormalizeRoleKey_normal NormalizeRoleKey_known)

lemma NormalizeRoleKey_TrimSpace [simp]: "NormalizeRoleKey (TrimSpace r) = NormalizeRoleKey r"
  by (simp add: NormalizeRoleKey_def)

text \<open>The role keys a list of grants resolves to.\<close>

lemma set_roleKeys: "set (roleKeys roles) = {k. \<exists>r \<in> set roles. NormalizeRoleKey (role_Key r) = (k, True)}"
  by (force simp: roleKeys_def case_prod_beta Let_def prod_eq_iff)

lemma ConsoleAccess_iff: "ConsoleAccess roles \<longleftrightarrow> (\<exists>k \<in> set (roleKeys roles). k \<noteq> RoleFrontendUser)"
  by (force simp: ConsoleAccess_def set_roleKeys list_ex_iff case_prod_beta Let_def prod_eq_iff)

lemma canManageServiceAccounts_iff:
  "canManageServiceAccounts roles \<longleftrightarrow>
     set (roleKeys roles) \<inter> {RolePlatformOwner, RolePlatformAdmin, RoleTenantOwner, RoleTenantAdmin} \<noteq> {}"
  by (force simp: canManageServiceAccounts_def set_roleKeys list_ex_iff case_prod_beta Let_def prod_eq_iff)

section \<open>Scopes\<close>

lemma set_ScopesForRoles: "set (ScopesForRoles p roles) = (\<Union>k \<in> set (roleKeys roles). set (scopes_of_role p k))"
  by (force simp: ScopesForRoles_def set_roleKeys case_prod_beta Let_def prod_eq_iff)

lemma ScopesForRoles_mono:
  "set (roleKeys roles) \<subseteq> set (roleKeys roles') \<Longrightarrow> set (ScopesForRoles p roles) \<subseteq> set (ScopesForRoles p roles')"
  by (auto simp: set_ScopesForRoles)

text \<open>The scopes a request names: those of its actions, or the default ones when it names none.\<close>

definition requested_scopes :: "string \<Rightarrow> string list \<Rightarrow> string set" where
  "requested_scopes audience actions =
    (let named = (\<Union>a \<in> set actions. set (scopesForAction audience a))
     in if named = {} then set (DefaultScopesForAudience audience) else named)"

lemma set_ScopesForActions:
  "set (ScopesForActions p roles audience actions) =
     requested_scopes audience actions \<inter> (TrimSpace ` set (ScopesForRoles p roles) - {[]})"
  by (auto simp: ScopesForActions_def requested_scopes_def Let_def set_sliceSet)

lemma set_intersectScopes: "set (intersectScopes l r) = set r \<inter> (TrimSpace ` set l - {[]})"
  by (auto simp: intersectScopes_def set_sliceSet)

lemma sorted_scopes [simp]:
  "sorted (ScopesForRoles p roles)" "distinct (ScopesForRoles p roles)"
  "sorted (ScopesForActions p roles audience actions)" "distinct (ScopesForActions p roles audience actions)"
  "sorted (intersectScopes l r)" "distinct (intersectScopes l r)"
  by (simp_all add: ScopesForRoles_def ScopesForActions_def intersectScopes_def Let_def)

end
