(* ===== verification/Warden_Notify.thy ===== *)
theory Warden_Notify
  imports Warden_Types
begin

text \<open>
  The pure parts of the messages of the service: email templates (\<open>src/warden/template.go\<close>), the
  address masking of the logging mailer (\<open>src/warden/mailer.go\<close>) and the texts of security events
  (\<open>src/warden/notifier.go\<close>). The data of a rendering is a Go map, so its entries are substituted in
  an arbitrary order.
\<close>

section \<open>Templates\<close>

record EmailTemplate =
  tpl_Subject :: string
  tpl_Body :: string

record Email =
  mail_To :: string
  mail_Subject :: string
  mail_Body :: string

record TemplateRegistry =
  reg_templates :: "EmailTemplate gomap"

definition NewTemplateRegistry :: TemplateRegistry where
  "NewTemplateRegistry = \<lparr>reg_templates = []\<rparr>"

text \<open>A nil registry is \<open>None\<close>.\<close>

definition Register :: "string \<Rightarrow> EmailTemplate \<Rightarrow> TemplateRegistry option \<Rightarrow> TemplateRegistry option" where
  "Register name t r =
    (case r of None \<Rightarrow> None
     | Some reg \<Rightarrow> if name = [] then r
         else Some (reg\<lparr>reg_templates := map_put name t (reg_templates reg)\<rparr>))"

definition Lookup :: "TemplateRegistry option \<Rightarrow> string \<Rightarrow> EmailTemplate option" where
  "Lookup r name = (case r of None \<Rightarrow> None | Some reg \<Rightarrow> map_of (reg_templates reg) name)"

text \<open>\<open>strings.ReplaceAll\<close> for a non-empty pattern.\<close>

function ReplaceAll :: "string \<Rightarrow> string \<Rightarrow> string \<Rightarrow> string" where
  "ReplaceAll s old new =
    (if s = [] \<or> old = [] then s
     else if HasPrefix s old then new @ ReplaceAll (drop (length old) s) old new
     else hd s # ReplaceAll (tl s) old new)"
  by pat_completeness auto
termination
  by (relation "measure (\<lambda>(s, old, new). length s)") auto

declare ReplaceAll.simps [simp del]

fun renderTemplateString :: "string \<Rightarrow> string gomap \<Rightarrow> string" where
  "renderTemplateString s [] = s"
| "renderTemplateString s ((key, val) # rest) =
    renderTemplateString (ReplaceAll s (''{{'' @ key @ ''}}'') val) rest"

definition Render :: "TemplateRegistry option \<Rightarrow> string \<Rightarrow> string gomap \<Rightarrow> Email res" where
  "Render r name data =
    (case r of None \<Rightarrow> Inl (Errorf ''template registry is nil'')
     | Some reg \<Rightarrow> (case map_of (reg_templates reg) name of
         None \<Rightarrow> Inl (Errorf ''unknown email template %q'')
       | Some t \<Rightarrow> Inr \<lparr>mail_To = [], mail_Subject = renderTemplateString (tpl_Subject t) data,
                         mail_Body = renderTemplateString (tpl_Body t) data\<rparr>))"

definition nl :: string where "nl = [CHR 0x0A]"

definition em_dash :: string where "em_dash = [CHR 0xE2, CHR 0x80, CHR 0x94]"

definition DefaultTemplateRegistry :: "TemplateRegistry option" where
  "DefaultTemplateRegistry =
    (let r = Some NewTemplateRegistry;
         r = Register ''principal.approved''
           \<lparr>tpl_Subject = ''Your Saker account has been approved'',
            tpl_Body = ''Hello {{DisplayName}},'' @ nl @ nl @
              ''Your account registration has been approved.'' @ nl @
              ''You may now sign in to the platform or contact your administrator.'' @ nl @ nl @
              em_dash @ '' Saker Warden''\<rparr> r;
         r = Register ''principal.rejected''
           \<lparr>tpl_Subject = ''Your Saker account registration was rejected'',
            tpl_Body = ''Hello {{DisplayName}},'' @ nl @ nl @
              ''Your account registration has been rejected.'' @ nl @
              ''If you believe this is a mistake, please contact your administrator.'' @ nl @ nl @
              em_dash @ '' Saker Warden''\<rparr> r;
         r = Register ''invitation.created''
           \<lparr>tpl_Subject = ''You are invited to join Saker'',
            tpl_Body = ''Hello,'' @ nl @ nl @
              ''You have been invited to join tenant {{TenantID}} on Saker.'' @ nl @
              ''Accept your invitation by visiting:'' @ nl @
              ''{{AcceptURL}}'' @ nl @ nl @
              ''This invitation expires at {{ExpiresAt}}.'' @ nl @ nl @
              em_dash @ '' Saker Warden''\<rparr> r
     in r)"

lemma ReplaceAll_Nil [simp]: "ReplaceAll [] old new = []" "ReplaceAll s [] new = s"
  by (simp_all add: ReplaceAll.simps)

lemma ReplaceAll_prefix [go_simps]:
  "old \<noteq> [] \<Longrightarrow> ReplaceAll (old @ s) old new = new @ ReplaceAll s old new"
  by (subst ReplaceAll.simps) simp

lemma ReplaceAll_absent:
  assumes "\<And>p t. s \<noteq> p @ old @ t"
  shows "ReplaceAll s old new = s"
  using assms
proof (induction s)
  case Nil
  then show ?case by simp
next
  case (Cons c s)
  have "\<not> HasPrefix (c # s) old"
    using Cons.prems [of "[]"] by (auto simp: HasPrefix_iff)
  moreover have "ReplaceAll s old new = s"
    using Cons.prems [of "c # p" for p] by (intro Cons.IH) auto
  ultimately show ?case by (subst ReplaceAll.simps) simp
qed

section \<open>Mail addresses\<close>

definition Index_char :: "string \<Rightarrow> char \<Rightarrow> int" where
  "Index_char s c = (if c \<in> set s then int (length (takeWhile (\<lambda>x. x \<noteq> c) s)) else -1)"

definition maskEmail :: "string \<Rightarrow> string" where
  "maskEmail addr =
    (let at = Index_char addr CHR ''@'' in
     if at \<le> 0 \<or> at = int (length addr) - 1 then addr
     else let local = take (nat at) addr; domain = drop (nat at) addr in
       if length local \<le> 2 then take 1 local @ ''***'' @ domain
       else [local ! 0] @ ''***'' @ [local ! (length local - 1)] @ domain)"

section \<open>Security events\<close>

record SecurityEvent =
  se_Type :: string
  se_TenantID :: string
  se_PrincipalID :: string
  se_SourceApp :: string
  se_Severity :: string
  se_Title :: string
  se_Body :: string
  se_Href :: string
  se_CreatedAt :: time

definition securitySeverityFor :: "string \<Rightarrow> string" where
  "securitySeverityFor action =
    (if action \<in> set [''principal.disable'', ''principal.reject'', ''directory.unknown_role''] then ''warning''
     else if action \<in> set [''principal.enable'', ''principal.approve''] then ''info''
     else ''info'')"

definition securityTitleFor :: "string \<Rightarrow> string \<Rightarrow> string" where
  "securityTitleFor action principalID =
    (if action = ''principal.disable'' then ''Principal disabled''
     else if action = ''principal.enable'' then ''Principal enabled''
     else if action = ''principal.approve'' then ''Principal approved''
     else if action = ''principal.reject'' then ''Principal rejected''
     else if action = ''directory.unknown_role'' then ''Unknown directory role detected''
     else ''Security event: '' @ action)"

definition securityBodyFor :: "string \<Rightarrow> string \<Rightarrow> string \<Rightarrow> string" where
  "securityBodyFor action principalID extra =
    (if action = ''principal.disable'' then
       ''Principal '' @ principalID @ '' has been disabled. Active sessions were revoked.''
     else if action = ''principal.enable'' then ''Principal '' @ principalID @ '' has been re-enabled.''
     else if action = ''principal.approve'' then
       ''Pending principal '' @ principalID @ '' has been approved and can now sign in.''
     else if action = ''principal.reject'' then
       ''Pending principal '' @ principalID @ '' has been rejected. Sessions were revoked.''
     else if action = ''directory.unknown_role'' then
       (if TrimSpace extra = [] then
          ''Directory sync encountered an unknown role for principal '' @ principalID @ ''.''
        else ''Directory sync encountered unknown role '' @ [CHR 0x22] @ extra @ [CHR 0x22] @
          '' for principal '' @ principalID @ ''. No permissions were granted.'')
     else ''Security event recorded for principal '' @ principalID @ ''.'')"

end
