(* ===== verification/Go_Net.thy ===== *)
theory Go_Net
  imports Go_Crypto
begin

text \<open>
  The parts of Go's packages \<open>net\<close> and \<open>net/netip\<close> that the repository relies on: parsing IP addresses
  (\<open>netip.ParseAddr\<close>, \<open>net.ParseIP\<close>, \<open>IP.To4\<close>), \<open>net.JoinHostPort\<close>; and \<open>strconv.Atoi\<close>, the
  inverse of \<open>Itoa\<close>. An address is the string of its bytes. Errors of the parsers are not told apart:
  the code only tests for them.
\<close>

section \<open>Cutting strings\<close>

text \<open>\<open>strings.Cut(s, c)\<close> for one byte \<open>c\<close>, and the cut at its last occurrence.\<close>

definition cut_at :: "char \<Rightarrow> string \<Rightarrow> string \<times> string" where
  "cut_at c s = (takeWhile (\<lambda>x. x \<noteq> c) s, drop 1 (dropWhile (\<lambda>x. x \<noteq> c) s))"

definition cut_last :: "char \<Rightarrow> string \<Rightarrow> (string \<times> string) option" where
  "cut_last c s = (if c \<in> set s
     then Some (rev (drop 1 (dropWhile (\<lambda>x. x \<noteq> c) (rev s))), rev (takeWhile (\<lambda>x. x \<noteq> c) (rev s)))
     else None)"

lemma cut_at_absent: "c \<notin> set s \<Longrightarrow> cut_at c s = (s, [])"
  by (induction s) (auto simp: cut_at_def)

lemma cut_at_append: "c \<notin> set s \<Longrightarrow> cut_at c (s @ c # t) = (s, t)"
  by (induction s) (auto simp: cut_at_def)

lemma cut_last_append: "c \<notin> set t \<Longrightarrow> cut_last c (s @ c # t) = Some (s, t)"
  using cut_at_append [of c "rev t" "rev s"] by (simp add: cut_last_def cut_at_def)

lemma cut_last_absent: "cut_last c s = None \<longleftrightarrow> c \<notin> set s"
  by (simp add: cut_last_def)

section \<open>Decimal numbers\<close>

definition is_digit :: "char \<Rightarrow> bool" where
  "is_digit c \<longleftrightarrow> 48 \<le> (of_char c :: nat) \<and> (of_char c :: nat) \<le> 57"

definition dec_value :: "string \<Rightarrow> nat" where
  "dec_value s = foldl (\<lambda>n c. 10 * n + (of_char c - 48)) 0 s"

definition all_digits :: "string \<Rightarrow> bool" where
  "all_digits s \<longleftrightarrow> s \<noteq> [] \<and> list_all is_digit s"

text \<open>
  \<open>v, err := strconv.Atoi(s)\<close>: the value is 0 on a syntax error, and the nearest 64-bit integer when
  the number is out of range; the second component says whether \<open>err\<close> is nil.
\<close>

definition Atoi :: "string \<Rightarrow> int \<times> bool" where
  "Atoi s =
    (let negative = HasPrefix s ''-'';
         digits = (if HasPrefix s ''-'' \<or> HasPrefix s ''+'' then drop 1 s else s);
         n = int (dec_value digits) in
     if \<not> all_digits digits then (0, False)
     else if negative then (if n > 2 ^ 63 then (- (2 ^ 63), False) else (- n, True))
     else (if n \<ge> 2 ^ 63 then (2 ^ 63 - 1, False) else (n, True)))"

lemma dec_value_snoc: "dec_value (s @ [c]) = 10 * dec_value s + (of_char c - 48)"
  by (simp add: dec_value_def)

lemma of_char_digit: "d < 10 \<Longrightarrow> of_char (char_of (48 + d) :: char) = (48 + d :: nat)"
  by simp

lemma nat_digits_digits: "list_all is_digit (nat_digits n) \<and> nat_digits n \<noteq> []"
proof (induction n rule: nat_digits.induct)
  case (1 n)
  have "n mod 10 \<le> 9" using mod_less_divisor [of 10 n] by simp
  then show ?case
    using 1 by (auto simp: nat_digits.simps [of n] is_digit_def simp del: mod_less_divisor)
qed

lemma dec_value_nat_digits [simp]: "dec_value (nat_digits n) = n"
proof (induction n rule: nat_digits.induct)
  case (1 n)
  show ?case
  proof (cases "n < 10")
    case True
    then show ?thesis by (simp add: nat_digits.simps [of n] dec_value_def)
  next
    case False
    then show ?thesis
      using 1 by (simp add: nat_digits.simps [of n] dec_value_snoc)
  qed
qed

lemma all_digits_nat_digits [simp]: "all_digits (nat_digits n)"
  by (simp add: all_digits_def nat_digits_digits)

lemma all_digits_no_sign:
  assumes "all_digits s" shows "\<not> HasPrefix s ''-''" "\<not> HasPrefix s ''+''"
  using assms by (cases s; auto simp: all_digits_def HasPrefix_def is_digit_def)+

lemma Atoi_digits: "all_digits s \<Longrightarrow>
  Atoi s = (if int (dec_value s) \<ge> 2 ^ 63 then (2 ^ 63 - 1, False) else (int (dec_value s), True))"
  using all_digits_no_sign [of s] by (simp add: Atoi_def Let_def)

text \<open>\<open>Atoi\<close> reads back what \<open>Itoa\<close> writes, for the values of Go's \<open>int\<close>.\<close>

lemma Atoi_Itoa: "- (2 ^ 63) \<le> i \<Longrightarrow> i < 2 ^ 63 \<Longrightarrow> Atoi (Itoa i) = (i, True)"
proof (cases "i < 0")
  case True
  assume "- (2 ^ 63) \<le> i"
  with True show ?thesis
    by (simp add: Itoa_def Atoi_def Let_def HasPrefix_def)
next
  case False
  assume "i < 2 ^ 63"
  with False show ?thesis
    by (simp add: Itoa_def Atoi_digits)
qed

section \<open>IP addresses\<close>

datatype netip_Addr = Addr4 (addr_bytes: string) | Addr6 (addr_bytes: string) (addr_Zone: string)

definition parse_octet :: "string \<Rightarrow> nat option" where
  "parse_octet w = (if \<not> all_digits w \<or> (1 < length w \<and> hd w = CHR ''0'') \<or> 255 < dec_value w
     then None else Some (dec_value w))"

definition parse_ipv4 :: "string \<Rightarrow> string option" where
  "parse_ipv4 s = (case map parse_octet (SplitChar CHR ''.'' s) of
      [Some a, Some b, Some c, Some d] \<Rightarrow> Some [byte a, byte b, byte c, byte d]
    | _ \<Rightarrow> None)"

definition hex_run :: "string \<Rightarrow> string" where
  "hex_run s = takeWhile (\<lambda>c. hex_value c \<noteq> None) s"

definition hex_number :: "string \<Rightarrow> nat" where
  "hex_number s = foldl (\<lambda>n c. 16 * n + the (hex_value c)) 0 s"

text \<open>
  The loop of \<open>parseIPv6\<close> over the colon-separated fields: \<open>ip\<close> is the bytes written so far, \<open>ell\<close> the
  position of the ellipsis. The result is \<open>ip\<close>, the ellipsis and the rest of the string when the loop
  is left, or \<open>None\<close> for an error.
\<close>

function ipv6_fields :: "string \<Rightarrow> nat option \<Rightarrow> string \<Rightarrow> (string \<times> nat option \<times> string) option" where
  "ipv6_fields ip ell s =
    (if 16 \<le> length ip then Some (ip, ell, s)
     else let digits = hex_run s; rest = drop (length digits) s in
       if digits = [] \<or> 4 < length digits then None
       else if HasPrefix rest ''.'' then
         (if (ell = None \<and> length ip \<noteq> 12) \<or> 16 < length ip + 4 then None
          else (case parse_ipv4 s of None \<Rightarrow> None | Some b \<Rightarrow> Some (ip @ b, ell, [])))
       else
         let n = hex_number digits; ip' = ip @ [byte (n div 256), byte (n mod 256)] in
         (case rest of
            [] \<Rightarrow> Some (ip', ell, [])
          | c # rest' \<Rightarrow>
            if c \<noteq> CHR '':'' \<or> rest' = [] then None
            else if hd rest' = CHR '':'' then
              (if ell \<noteq> None then None
               else if tl rest' = [] then Some (ip', Some (length ip'), [])
               else ipv6_fields ip' (Some (length ip')) (tl rest'))
            else ipv6_fields ip' ell rest'))"
  by pat_completeness auto
termination
proof (relation "measure (\<lambda>(ip, ell, s). length s)", goal_cases)
  case 1
  then show ?case by simp
next
  case (2 ip ell s digits rest n ip' c rest')
  have "length (drop (length digits) s) \<le> length s" by simp
  with 2 have "length (c # rest') \<le> length s" by metis
  with 2 show ?case by (cases rest') auto
next
  case (3 ip ell s digits rest n ip' c rest')
  have "length (drop (length digits) s) \<le> length s" by simp
  with 3 have "length (c # rest') \<le> length s" by metis
  with 3 show ?case by simp
qed

declare ipv6_fields.simps [simp del]

text \<open>The part of \<open>parseIPv6\<close> after the zone was split off.\<close>

definition parse_ipv6 :: "string \<Rightarrow> string option" where
  "parse_ipv6 s0 =
    (let leading = HasPrefix s0 ''::'';
         s = (if leading then drop 2 s0 else s0) in
     if leading \<and> s = [] then Some (replicate 16 (byte 0))
     else (case ipv6_fields [] (if leading then Some 0 else None) s of
        None \<Rightarrow> None
      | Some (ip, ell, rest) \<Rightarrow>
        if rest \<noteq> [] then None
        else if length ip < 16 then
          (case ell of None \<Rightarrow> None
           | Some e \<Rightarrow> Some (take e ip @ replicate (16 - length ip) (byte 0) @ drop e ip))
        else if ell \<noteq> None then None else Some ip))"

definition ParseAddr :: "string \<Rightarrow> netip_Addr option" where
  "ParseAddr s =
    (case find (\<lambda>c. c \<in> {CHR ''.'', CHR '':'', CHR ''%''}) s of
       None \<Rightarrow> None
     | Some c \<Rightarrow>
       if c = CHR ''.'' then map_option Addr4 (parse_ipv4 s)
       else if c = CHR ''%'' then None
       else let (addr, zone) = cut_at CHR ''%'' s in
         if CHR ''%'' \<in> set s \<and> zone = [] then None
         else map_option (\<lambda>b. Addr6 b zone) (parse_ipv6 addr))"

text \<open>\<open>net.ParseIP(s).To4()\<close>; \<open>None\<close> is the nil slice.\<close>

definition v4_mapped :: string where
  "v4_mapped = replicate 10 (byte 0) @ [byte 255, byte 255]"

definition ParseIP_To4 :: "string \<Rightarrow> string option" where
  "ParseIP_To4 s =
    (case ParseAddr s of
       None \<Rightarrow> None
     | Some (Addr4 b) \<Rightarrow> Some b
     | Some (Addr6 b zone) \<Rightarrow> if zone = [] \<and> HasPrefix b v4_mapped then Some (drop 12 b) else None)"

lemma parse_ipv4_length: "parse_ipv4 s = Some b \<Longrightarrow> length b = 4"
  by (auto simp: parse_ipv4_def split: list.splits option.splits)

lemma ipv6_fields_length: "ipv6_fields ip ell s = Some (ip', ell', rest) \<Longrightarrow> length ip \<le> 16 \<Longrightarrow> even (length ip)
  \<Longrightarrow> length ip' \<le> 16"
proof (induction ip ell s rule: ipv6_fields.induct)
  case (1 ip ell s)
  have less: "length ip < 16 \<Longrightarrow> length ip \<le> 14" using 1(5) by (auto elim!: evenE)
  show ?case
    using 1(3) [unfolded ipv6_fields.simps [of ip ell s]] 1(4,5) less 1(1,2) [OF _ refl refl _ _ refl refl]
    by (auto simp: Let_def parse_ipv4_length split: if_splits list.splits option.splits)
qed

lemma parse_ipv6_length: "parse_ipv6 s = Some b \<Longrightarrow> length b = 16"
  by (auto simp: parse_ipv6_def Let_def dest!: ipv6_fields_length split: if_splits option.splits)

lemma ParseAddr_length: "ParseAddr s = Some a \<Longrightarrow>
    length (addr_bytes a) = (case a of Addr4 _ \<Rightarrow> 4 | Addr6 _ _ \<Rightarrow> 16)"
  by (auto simp: ParseAddr_def Let_def parse_ipv4_length parse_ipv6_length split: option.splits if_splits prod.splits)

lemma ParseIP_To4_length: "ParseIP_To4 s = Some b \<Longrightarrow> length b = 4"
  by (auto simp: ParseIP_To4_def dest!: ParseAddr_length split: option.splits if_splits netip_Addr.splits)

definition JoinHostPort :: "string \<Rightarrow> string \<Rightarrow> string" where
  "JoinHostPort host port = (if CHR '':'' \<in> set host then ''['' @ host @ '']:'' @ port else host @ '':'' @ port)"

end
