(* ===== verification/Go_URL.thy ===== *)
theory Go_URL
  imports Go_Net
begin

text \<open>
  Go's package \<open>net/url\<close> (Go 1.26, the version of \<open>go.mod\<close>): \<open>url.Parse\<close>, the accessors of \<open>URL\<close> the
  repository uses, query strings (\<open>Values\<close>, \<open>Encode\<close>, \<open>Query\<close>), \<open>PathEscape\<close> and \<open>URL.String\<close> for
  the URLs it prints (none has user information or a fragment). An error of the parser is \<open>None\<close>: the
  code only tests for it. The facts proved are the round trips (unescaping an escaped string, parsing
  an encoded query) and what the parts of a parsed URL say about its text.
\<close>

section \<open>Escaping\<close>

datatype encoding = encodePath | encodePathSegment | encodeHost | encodeZone | encodeUserPassword
  | encodeQueryComponent | encodeFragment

definition is_alpha :: "char \<Rightarrow> bool" where
  "is_alpha c \<longleftrightarrow> is_upper c \<or> is_lower c"

text \<open>The unreserved and the reserved marks of RFC 3986.\<close>

definition url_marks :: string where "url_marks = ''-_.~''"
definition url_reserved :: string where "url_reserved = ''$&+,/:;=?@''"

definition shouldEscape :: "char \<Rightarrow> encoding \<Rightarrow> bool" where
  "shouldEscape c mode =
    (if is_alpha c \<or> is_digit c then False
     else if mode \<in> {encodeHost, encodeZone} \<and> c \<in> set ''!$&()*+,;=:[]<>\"'' \<union> {CHR 0x27} then False
     else if c \<in> set url_marks then False
     else if c \<in> set url_reserved then
       (case mode of
          encodePath \<Rightarrow> c = CHR ''?''
        | encodePathSegment \<Rightarrow> c \<in> set ''/;,?''
        | encodeUserPassword \<Rightarrow> c \<in> set ''@/?:''
        | encodeQueryComponent \<Rightarrow> True
        | encodeFragment \<Rightarrow> False
        | _ \<Rightarrow> True)
     else if mode = encodeFragment \<and> c \<in> set ''!()*'' then False
     else True)"

lemmas shouldEscape_defs = shouldEscape_def url_marks_def url_reserved_def

definition hex_upper :: "nat \<Rightarrow> char" where
  "hex_upper n = ''0123456789ABCDEF'' ! n"

definition escape_char :: "encoding \<Rightarrow> char \<Rightarrow> string" where
  "escape_char mode c =
    (if \<not> shouldEscape c mode then [c]
     else if c = CHR '' '' \<and> mode = encodeQueryComponent then ''+''
     else [CHR ''%'', hex_upper (byte_val c div 16), hex_upper (byte_val c mod 16)])"

definition escape :: "encoding \<Rightarrow> string \<Rightarrow> string" where
  "escape mode s = concat (map (escape_char mode) s)"

text \<open>Which escapes \<open>%ab\<close> are allowed, and which bytes may stand for themselves.\<close>

definition escape_allowed :: "encoding \<Rightarrow> nat \<Rightarrow> nat \<Rightarrow> bool" where
  "escape_allowed mode x y =
    (if mode = encodeHost then 8 \<le> x \<or> (x = 2 \<and> y = 5)
     else if mode = encodeZone then
       (let v = byte (16 * x + y) in (x = 2 \<and> y = 5) \<or> v = CHR '' '' \<or> \<not> shouldEscape v encodeHost)
     else True)"

definition plain_allowed :: "encoding \<Rightarrow> char \<Rightarrow> bool" where
  "plain_allowed mode c \<longleftrightarrow> \<not> (mode \<in> {encodeHost, encodeZone} \<and> byte_val c < 128 \<and> shouldEscape c mode)"

fun unescape :: "encoding \<Rightarrow> string \<Rightarrow> string option" where
  "unescape mode [] = Some []"
| "unescape mode (c # s) =
    (if c = CHR ''%'' then
       (case s of
          a # b # s' \<Rightarrow>
            (case (hex_value a, hex_value b) of
               (Some x, Some y) \<Rightarrow>
                 if escape_allowed mode x y then map_option (\<lambda>t. byte (16 * x + y) # t) (unescape mode s') else None
             | _ \<Rightarrow> None)
        | _ \<Rightarrow> None)
     else if c = CHR ''+'' \<and> mode = encodeQueryComponent then map_option (\<lambda>t. CHR '' '' # t) (unescape mode s)
     else if plain_allowed mode c then map_option (\<lambda>t. c # t) (unescape mode s)
     else None)"

lemma hex_value_upper: "n < 16 \<Longrightarrow> hex_value (hex_upper n) = Some n"
proof -
  have "list_all (\<lambda>n. hex_value (hex_upper n) = Some n) [0..<16]" by code_simp
  then show "n < 16 \<Longrightarrow> hex_value (hex_upper n) = Some n" by (simp add: list_all_iff)
qed

lemma byte_hex: "byte (16 * (byte_val c div 16) + byte_val c mod 16) = c"
  by simp

lemma byte_val_div_less: "byte_val c div 16 < 16"
  using byte_val_less [of c] by (simp add: less_mult_imp_div_less)

text \<open>Unescaping undoes escaping, in the modes without restrictions on the escapes.\<close>

lemma unescape_escape_char:
  assumes "mode \<notin> {encodeHost, encodeZone}"
  shows "unescape mode (escape_char mode c @ s) = map_option (\<lambda>t. c # t) (unescape mode s)"
proof (cases "shouldEscape c mode")
  case True
  have "c = CHR '' '' \<Longrightarrow> True" by simp
  show ?thesis
    using True assms byte_val_div_less [of c]
    by (simp add: escape_char_def hex_value_upper escape_allowed_def byte_hex del: byte_val_less)
next
  case False
  have "shouldEscape CHR ''%'' mode" "mode = encodeQueryComponent \<Longrightarrow> shouldEscape CHR ''+'' mode"
    by (cases mode; simp add: shouldEscape_defs is_alpha_def is_upper_def is_lower_def is_digit_def)+
  with False have "c \<noteq> CHR ''%''" "mode = encodeQueryComponent \<Longrightarrow> c \<noteq> CHR ''+''" by auto
  with False assms show ?thesis
    by (auto simp: escape_char_def plain_allowed_def)
qed

lemma unescape_escape [simp]: "mode \<notin> {encodeHost, encodeZone} \<Longrightarrow> unescape mode (escape mode s) = Some s"
  by (induction s) (simp_all add: escape_def unescape_escape_char)

text \<open>Every byte of an escaped string may stand for itself, is the escape sign, or (in a query) a plus.\<close>

lemma set_escape:
  "set (escape mode s) \<subseteq> {c. \<not> shouldEscape c mode} \<union> set ''%+0123456789ABCDEF''"
proof -
  have "set (escape_char mode c) \<subseteq> {c. \<not> shouldEscape c mode} \<union> set ''%+0123456789ABCDEF''" for c
  proof -
    have "hex_upper n \<in> set ''0123456789ABCDEF''" if "n < 16" for n
      unfolding hex_upper_def using that by (intro nth_mem) simp
    from this [of "byte_val c div 16"] this [of "byte_val c mod 16"] byte_val_div_less [of c]
    show ?thesis unfolding escape_char_def by auto
  qed
  then show ?thesis unfolding escape_def by (induction s) auto
qed

lemma escape_avoids:
  assumes "shouldEscape c mode" and "c \<notin> set ''%+0123456789ABCDEF''"
  shows "c \<notin> set (escape mode s)"
  using set_escape [of mode s] assms by blast

section \<open>Parsing\<close>

record URL =
  url_Scheme :: string
  url_Opaque :: string
  url_User :: "(string \<times> string option) option"
  url_Host :: string
  url_Path :: string
  url_RawPath :: string
  url_OmitHost :: bool
  url_ForceQuery :: bool
  url_RawQuery :: string
  url_Fragment :: string

definition empty_URL :: URL where
  "empty_URL = \<lparr>url_Scheme = [], url_Opaque = [], url_User = None, url_Host = [], url_Path = [], url_RawPath = [],
     url_OmitHost = False, url_ForceQuery = False, url_RawQuery = [], url_Fragment = []\<rparr>"

definition scheme_char :: "char \<Rightarrow> bool" where
  "scheme_char c \<longleftrightarrow> is_alpha c \<or> is_digit c \<or> c \<in> set ''+-.''"

definition getScheme :: "string \<Rightarrow> (string \<times> string) option" where
  "getScheme raw =
    (let pre = takeWhile scheme_char raw; rest = drop (length pre) raw in
     if raw \<noteq> [] \<and> scheme_char (hd raw) \<and> \<not> is_alpha (hd raw) then Some ([], raw)
     else if rest \<noteq> [] \<and> hd rest = CHR '':'' then (if pre = [] then None else Some (pre, tl rest))
     else Some ([], raw))"

definition validOptionalPort :: "string \<Rightarrow> bool" where
  "validOptionalPort port \<longleftrightarrow> port = [] \<or> (hd port = CHR '':'' \<and> list_all is_digit (tl port))"

text \<open>\<open>strings.Index(s, w)\<close>.\<close>

fun index_sub :: "string \<Rightarrow> string \<Rightarrow> nat option" where
  "index_sub w [] = (if w = [] then Some 0 else None)"
| "index_sub w (c # s) = (if HasPrefix (c # s) w then Some 0 else map_option Suc (index_sub w s))"

definition unescape_hostname :: "string \<Rightarrow> string option" where
  "unescape_hostname hostname =
    (case index_sub ''%25'' hostname of
       None \<Rightarrow> unescape encodeHost hostname
     | Some i \<Rightarrow>
       (case (unescape encodeHost (take i hostname), unescape encodeZone (drop i hostname)) of
          (Some a, Some b) \<Rightarrow> Some (a @ b) | _ \<Rightarrow> None))"

definition parse_ip_literal :: "string \<Rightarrow> string option" where
  "parse_ip_literal host =
    (case cut_last CHR '']'' (tl host) of
       None \<Rightarrow> None
     | Some (hostname, colonPort) \<Rightarrow>
       if \<not> validOptionalPort colonPort then None
       else (case (unescape encodeHost colonPort, unescape_hostname hostname) of
           (Some port, Some name) \<Rightarrow>
             (case ParseAddr name of
                Some (Addr6 _ _) \<Rightarrow> Some (''['' @ name @ '']'' @ port)
              | _ \<Rightarrow> None)
         | _ \<Rightarrow> None))"

definition parseHost :: "string \<Rightarrow> string \<Rightarrow> string option" where
  "parseHost scheme host =
    (if CHR ''['' \<in> set host then
       (if hd host = CHR ''['' \<and> CHR ''['' \<notin> set (tl host) then parse_ip_literal host else None)
     else if CHR '':'' \<in> set host
        \<and> \<not> validOptionalPort (if scheme \<in> {''postgres'', ''postgresql''}
              then '':'' @ snd (the (cut_last CHR '':'' host)) else '':'' @ snd (cut_at CHR '':'' host))
     then None
     else unescape encodeHost host)"

definition validUserinfo :: "string \<Rightarrow> bool" where
  "validUserinfo s \<longleftrightarrow> list_all (\<lambda>c. is_alpha c \<or> is_digit c \<or> c \<in> set ''-._:~!$&()*+,;=%@'' \<union> {CHR 0x27}) s"

definition parseUserinfo :: "string \<Rightarrow> (string \<times> string option) option" where
  "parseUserinfo userinfo =
    (if \<not> validUserinfo userinfo then None
     else if CHR '':'' \<notin> set userinfo then map_option (\<lambda>u. (u, None)) (unescape encodeUserPassword userinfo)
     else (case (unescape encodeUserPassword (fst (cut_at CHR '':'' userinfo)),
                 unescape encodeUserPassword (snd (cut_at CHR '':'' userinfo))) of
             (Some u, Some p) \<Rightarrow> Some (u, Some p) | _ \<Rightarrow> None))"

definition parseAuthority ::
  "string \<Rightarrow> string \<Rightarrow> ((string \<times> string option) option \<times> string) option" where
  "parseAuthority scheme authority =
    (case cut_last CHR ''@'' authority of
       None \<Rightarrow> map_option (\<lambda>host. (None, host)) (parseHost scheme authority)
     | Some (userinfo, h) \<Rightarrow>
       (case (parseHost scheme h, parseUserinfo userinfo) of
          (Some host, Some user) \<Rightarrow> Some (Some user, host) | _ \<Rightarrow> None))"

definition setPath :: "URL \<Rightarrow> string \<Rightarrow> URL option" where
  "setPath u p = map_option (\<lambda>path. u\<lparr>url_Path := path, url_RawPath := (if p = escape encodePath path then [] else p)\<rparr>)
     (unescape encodePath p)"

definition is_ctl :: "char \<Rightarrow> bool" where
  "is_ctl c \<longleftrightarrow> byte_val c < 32 \<or> byte_val c = 127"

text \<open>\<open>parse(rawURL, viaRequest)\<close> for \<open>viaRequest = false\<close>, in the two halves before and after the scheme and
  the query were split off.\<close>

definition parse_hierarchy :: "URL \<Rightarrow> string \<Rightarrow> URL option" where
  "parse_hierarchy u rest =
    (if HasPrefix rest ''//'' \<and> (url_Scheme u \<noteq> [] \<or> \<not> HasPrefix rest ''///'') then
       (let authority = takeWhile (\<lambda>c. c \<noteq> CHR ''/'') (drop 2 rest);
            path = dropWhile (\<lambda>c. c \<noteq> CHR ''/'') (drop 2 rest) in
        case parseAuthority (url_Scheme u) authority of
          None \<Rightarrow> None
        | Some (user, host) \<Rightarrow> setPath (u\<lparr>url_User := user, url_Host := host\<rparr>) path)
     else setPath (u\<lparr>url_OmitHost := url_Scheme u \<noteq> [] \<and> HasPrefix rest ''/''\<rparr>) rest)"

definition parse_rest :: "string \<Rightarrow> string \<Rightarrow> URL option" where
  "parse_rest scheme rest0 =
    (let force = HasSuffix rest0 ''?'' \<and> CHR ''?'' \<notin> set (butlast rest0);
         rest = fst (cut_at CHR ''?'' rest0);
         u = empty_URL\<lparr>url_Scheme := ToLower scheme, url_ForceQuery := force,
               url_RawQuery := snd (cut_at CHR ''?'' rest0)\<rparr> in
     if \<not> HasPrefix rest ''/'' \<and> scheme \<noteq> [] then Some (u\<lparr>url_Opaque := rest\<rparr>)
     else if \<not> HasPrefix rest ''/'' \<and> CHR '':'' \<in> set (fst (cut_at CHR ''/'' rest)) then None
     else parse_hierarchy u rest)"

definition parse_url :: "string \<Rightarrow> URL option" where
  "parse_url raw =
    (if \<exists>c \<in> set raw. is_ctl c then None
     else if raw = ''*'' then Some (empty_URL\<lparr>url_Path := ''*''\<rparr>)
     else (case getScheme raw of None \<Rightarrow> None | Some (scheme, rest) \<Rightarrow> parse_rest scheme rest))"

definition Parse :: "string \<Rightarrow> URL option" where
  "Parse raw =
    (let (u, frag) = cut_at CHR ''#'' raw in
     case parse_url u of
       None \<Rightarrow> None
     | Some url \<Rightarrow>
       if frag = [] then Some url
       else map_option (\<lambda>f. url\<lparr>url_Fragment := f\<rparr>) (unescape encodeFragment frag))"

definition IsAbs :: "URL \<Rightarrow> bool" where
  "IsAbs u \<longleftrightarrow> url_Scheme u \<noteq> []"

definition splitHostPort :: "string \<Rightarrow> string \<times> string" where
  "splitHostPort hostPort =
    (let (host, port) = (case cut_last CHR '':'' hostPort of
            Some (h, p) \<Rightarrow> if list_all is_digit p then (h, p) else (hostPort, [])
          | None \<Rightarrow> (hostPort, [])) in
     (if HasPrefix host ''['' \<and> HasSuffix host '']'' then butlast (tl host) else host, port))"

definition Hostname :: "URL \<Rightarrow> string" where
  "Hostname u = fst (splitHostPort (url_Host u))"

definition Port :: "URL \<Rightarrow> string" where
  "Port u = snd (splitHostPort (url_Host u))"

text \<open>A URL made of a scheme, a host name and a port is parsed into these parts.\<close>

definition plain_scheme :: "string \<Rightarrow> bool" where
  "plain_scheme s \<longleftrightarrow> s \<noteq> [] \<and> is_lower (hd s) \<and> list_all (\<lambda>c. is_lower c \<or> is_digit c \<or> c \<in> set ''+-.'') s"

definition plain_host :: "string \<Rightarrow> bool" where
  "plain_host s \<longleftrightarrow> s \<noteq> [] \<and> list_all (\<lambda>c. is_alpha c \<or> is_digit c \<or> c \<in> set ''-.'') s"

lemma of_char_eq_iff: "c = d \<longleftrightarrow> byte_val c = byte_val d"
  by (metis char_of_char)

lemma char_classes:
  "is_lower c \<Longrightarrow> \<not> is_upper c"
  "is_digit c \<Longrightarrow> \<not> is_upper c \<and> \<not> is_lower c"
  by (auto simp: is_lower_def is_upper_def is_digit_def)

lemma takeWhile_absent: "c \<notin> set s \<Longrightarrow> takeWhile (\<lambda>x. x \<noteq> c) s = s \<and> dropWhile (\<lambda>x. x \<noteq> c) s = []"
  by (induction s) auto

lemma takeWhile_append_stop: "list_all P xs \<Longrightarrow> \<not> P y \<Longrightarrow> takeWhile P (xs @ y # ys) = xs"
  by (induction xs) auto

lemma ToLower_plain: "list_all (\<lambda>c. is_lower c \<or> is_digit c \<or> c \<in> set ''+-.'') s \<Longrightarrow> ToLower s = s"
proof (induction s)
  case (Cons c s)
  then have c: "is_lower c \<or> is_digit c \<or> c \<in> set ''+-.''" and s: "ToLower s = s" by simp_all
  have "byte_val c < 128" "\<not> is_upper c"
    using c by (auto simp: is_lower_def is_digit_def is_upper_def)
  with s show ?case by (simp add: ToLower_Cons lower_char_def)
qed simp

lemma unescape_plain: "list_all (\<lambda>c. c \<noteq> CHR ''%'' \<and> c \<noteq> CHR ''+'' \<and> plain_allowed mode c) s \<Longrightarrow> unescape mode s = Some s"
  by (induction s) auto

lemma unescape_plain_append:
  "list_all (\<lambda>c. c \<noteq> CHR ''%'' \<and> c \<noteq> CHR ''+'' \<and> plain_allowed mode c) s \<Longrightarrow>
    unescape mode (s @ t) = map_option (\<lambda>u. s @ u) (unescape mode t)"
  by (cases "unescape mode t") (induction s; simp)+

lemma unescape_path_segment: "unescape encodePath s = unescape encodePathSegment s"
  by (induction encodePath s rule: unescape.induct)
    (auto simp: escape_allowed_def plain_allowed_def split: list.splits option.splits)

lemma host_port_chars:
  assumes "c \<in> set (a @ '':'' @ d)" and "plain_host a" and "all_digits d"
  shows "c \<noteq> CHR ''%'' \<and> c \<noteq> CHR ''+'' \<and> plain_allowed encodeHost c" "c \<notin> set ''/?#@[]''" "\<not> is_ctl c"
    "c = CHR '':'' \<or> is_alpha c \<or> is_digit c \<or> c \<in> set ''-.''"
proof -
  from assms show c: "c = CHR '':'' \<or> is_alpha c \<or> is_digit c \<or> c \<in> set ''-.''"
    by (auto simp: plain_host_def all_digits_def list_all_iff)
  have p: "plain_allowed encodeHost c"
    using c by (auto simp: plain_allowed_def shouldEscape_defs)
  then show "c \<noteq> CHR ''%'' \<and> c \<noteq> CHR ''+'' \<and> plain_allowed encodeHost c" "c \<notin> set ''/?#@[]''" "\<not> is_ctl c"
    using c by (auto simp: is_alpha_def is_upper_def is_lower_def is_digit_def is_ctl_def)
qed

lemma parseHost_plain:
  assumes a: "plain_host a" and d: "all_digits d"
  shows "parseHost s (a @ '':'' @ d) = Some (a @ '':'' @ d)"
proof -
  let ?h = "a @ '':'' @ d"
  have colon: "CHR '':'' \<notin> set a" "CHR '':'' \<notin> set d" "CHR ''['' \<notin> set ?h"
    using host_port_chars(2) [OF _ a d, of "CHR ''[''"] a d
    by (auto simp: plain_host_def all_digits_def list_all_iff is_alpha_def is_upper_def is_lower_def is_digit_def)
  then have cut: "cut_at CHR '':'' ?h = (a, d)" "cut_last CHR '':'' ?h = Some (a, d)"
    by (simp_all add: cut_at_append cut_last_append)
  have "unescape encodeHost ?h = Some ?h"
    using host_port_chars(1) [OF _ a d] by (intro unescape_plain) (simp add: list_all_iff)
  with cut colon d show ?thesis
    by (simp add: parseHost_def validOptionalPort_def all_digits_def)
qed

lemma takeWhile_path:
  assumes "c \<notin> set h" and "p = [] \<or> hd p = c"
  shows "takeWhile (\<lambda>x. x \<noteq> c) (h @ p) = h" "dropWhile (\<lambda>x. x \<noteq> c) (h @ p) = p"
proof -
  have "takeWhile (\<lambda>x. x \<noteq> c) (h @ p) = h \<and> dropWhile (\<lambda>x. x \<noteq> c) (h @ p) = p"
    using assms by (induction h) (cases p; auto)+
  then show "takeWhile (\<lambda>x. x \<noteq> c) (h @ p) = h" "dropWhile (\<lambda>x. x \<noteq> c) (h @ p) = p" by simp_all
qed

definition with_path :: "string \<Rightarrow> string \<Rightarrow> string \<Rightarrow> string \<Rightarrow> URL" where
  "with_path s h p q = empty_URL\<lparr>url_Scheme := s, url_Host := h, url_Path := q,
     url_RawPath := (if p = escape encodePath q then [] else p)\<rparr>"

lemma parse_rest_host:
  assumes "CHR ''?'' \<notin> set h" and "CHR ''/'' \<notin> set h" and "s \<noteq> []" and "ToLower s = s"
    and pa: "parseAuthority s h = Some (None, h)"
    and p: "p = [] \<or> hd p = CHR ''/''" "CHR ''?'' \<notin> set p" "unescape encodePath p = Some q"
  shows "parse_rest s (''//'' @ h @ p) = Some (with_path s h p q)"
proof -
  have q: "CHR ''?'' \<notin> set (''//'' @ h @ p)" using assms(1) p(2) by simp
  then have cut: "cut_at CHR ''?'' (''//'' @ h @ p) = (''//'' @ h @ p, [])" by (intro cut_at_absent)
  have force: "\<not> HasSuffix (''//'' @ h @ p) ''?''"
  proof
    assume "HasSuffix (''//'' @ h @ p) ''?''"
    then have "CHR ''?'' \<in> set (''//'' @ h @ p)" by (metis HasSuffix_def in_set_dropD list.set_intros(1))
    with q show False by simp
  qed
  note tw = takeWhile_path [OF assms(2) p(1)]
  show ?thesis
    using cut force assms by (simp add: tw parse_rest_def parse_hierarchy_def HasPrefix_def setPath_def empty_URL_def with_path_def)
qed

lemma Parse_host_port_path:
  assumes s: "plain_scheme s" and a: "plain_host a" and d: "all_digits d"
    and p: "p = [] \<or> hd p = CHR ''/''" "set p \<inter> set ''?#'' = {}" "\<not> (\<exists>c \<in> set p. is_ctl c)"
    and q: "unescape encodePath p = Some q"
  shows "Parse (s @ ''://'' @ a @ '':'' @ d @ p) = Some (with_path s (a @ '':'' @ d) p q)"
proof -
  let ?h = "a @ '':'' @ d"
  let ?raw = "s @ ''://'' @ ?h @ p"
  have sc: "c \<in> set s \<Longrightarrow> scheme_char c \<and> c \<noteq> CHR ''#'' \<and> \<not> is_ctl c" for c
    using s by (auto simp: plain_scheme_def list_all_iff scheme_char_def is_alpha_def is_lower_def is_digit_def is_ctl_def)
  note hc = host_port_chars [OF _ a d]
  have sets: "set ?raw = set s \<union> set ''://'' \<union> set ?h \<union> set p" by auto
  have "CHR ''#'' \<notin> set ?h" using hc(2) [of "CHR ''#''"] by fastforce
  then have "CHR ''#'' \<notin> set ?raw" unfolding sets using sc p(2) by auto
  then have frag: "cut_at CHR ''#'' ?raw = (?raw, [])" by (rule cut_at_absent)
  have ctl: "\<not> (\<exists>c \<in> set ?raw. is_ctl c)"
  proof -
    have "\<not> is_ctl c" if "c \<in> set ''://''" for c using that by (auto simp: is_ctl_def)
    then show ?thesis unfolding sets using sc hc(3) p(3) by blast
  qed
  have "takeWhile scheme_char ?raw = s"
    using sc by (simp add: takeWhile_append_stop list_all_iff scheme_char_def is_alpha_def is_upper_def is_lower_def is_digit_def)
  moreover have "s \<noteq> []" "is_alpha (hd s)" using s by (simp_all add: plain_scheme_def is_alpha_def)
  ultimately have scheme: "getScheme ?raw = Some (s, ''//'' @ ?h @ p)"
    by (simp add: getScheme_def Let_def)
  have hq: "CHR ''?'' \<notin> set ?h" "CHR ''/'' \<notin> set ?h" "CHR ''@'' \<notin> set ?h"
    using hc(2) by fastforce+
  have "parseAuthority s ?h = Some (None, ?h)"
    using hq(3) parseHost_plain [OF a d] by (simp add: parseAuthority_def cut_last_def)
  then have "parse_rest s (''//'' @ ?h @ p) = Some (with_path s ?h p q)"
    using hq s \<open>s \<noteq> []\<close> ToLower_plain p q by (intro parse_rest_host) (auto simp: plain_scheme_def)
  moreover have "?raw \<noteq> ''*''" by simp
  ultimately show ?thesis
    using frag ctl scheme by (simp add: Parse_def parse_url_def)
qed

lemma Parse_host_port:
  assumes "plain_scheme s" and "plain_host a" and "all_digits d"
  shows "Parse (s @ ''://'' @ a @ '':'' @ d) = Some (empty_URL\<lparr>url_Scheme := s, url_Host := a @ '':'' @ d\<rparr>)"
  using Parse_host_port_path [OF assms, of "[]" "[]"] by (simp add: with_path_def empty_URL_def)

text \<open>Control characters are always escaped, outside the host.\<close>

lemma marks_no_ctl: "c \<in> set url_marks \<Longrightarrow> \<not> is_ctl c" "c \<in> set url_reserved \<Longrightarrow> \<not> is_ctl c"
  "c \<in> set ''!()*'' \<Longrightarrow> \<not> is_ctl c" "is_alpha c \<Longrightarrow> \<not> is_ctl c" "is_digit c \<Longrightarrow> \<not> is_ctl c"
  by (auto simp: url_marks_def url_reserved_def is_ctl_def is_alpha_def is_upper_def is_lower_def is_digit_def)

lemma shouldEscape_ctl:
  assumes "is_ctl c" and "mode \<notin> {encodeHost, encodeZone}"
  shows "shouldEscape c mode"
proof -
  have "c \<notin> set url_marks" "c \<notin> set url_reserved" "c \<notin> set ''!()*''" "\<not> is_alpha c" "\<not> is_digit c"
    using marks_no_ctl [of c] assms(1) by blast+
  with assms(2) show ?thesis unfolding shouldEscape_def by presburger
qed

section \<open>Query strings\<close>

definition QueryEscape :: "string \<Rightarrow> string" where
  "QueryEscape s = escape encodeQueryComponent s"

definition PathEscape :: "string \<Rightarrow> string" where
  "PathEscape s = escape encodePathSegment s"

fun strings_Join :: "string \<Rightarrow> string list \<Rightarrow> string" where
  "strings_Join sep [] = []"
| "strings_Join sep [x] = x"
| "strings_Join sep (x # xs) = x @ sep @ strings_Join sep xs"

text \<open>
  A query as the list of its pairs: \<open>url.Values\<close> maps a key to the list of its values, which is
  \<open>query_values\<close>. \<open>Encode\<close> sorts by key; it is only applied to values with one string per key.
\<close>

definition query_pair :: "string \<times> string \<Rightarrow> string" where
  "query_pair kv = QueryEscape (fst kv) @ ''='' @ QueryEscape (snd kv)"

definition Values_Encode :: "string gomap \<Rightarrow> string" where
  "Values_Encode vs = strings_Join ''&'' (map query_pair (sort_key fst vs))"

definition parse_pair :: "string \<Rightarrow> (string \<times> string) option" where
  "parse_pair w =
    (if CHR '';'' \<in> set w \<or> w = [] then None
     else (case (unescape encodeQueryComponent (fst (cut_at CHR ''='' w)),
                 unescape encodeQueryComponent (snd (cut_at CHR ''='' w))) of
             (Some k, Some v) \<Rightarrow> Some (k, v) | _ \<Rightarrow> None))"

definition parseQuery :: "string \<Rightarrow> (string \<times> string) list" where
  "parseQuery q = List.map_filter parse_pair (SplitChar CHR ''&'' q)"

definition query_values :: "(string \<times> string) list \<Rightarrow> string \<Rightarrow> string list" where
  "query_values ps k = map snd (filter (\<lambda>kv. fst kv = k) ps)"

definition query_Get :: "(string \<times> string) list \<Rightarrow> string \<Rightarrow> string" where
  "query_Get ps k = (case query_values ps k of [] \<Rightarrow> [] | v # _ \<Rightarrow> v)"

definition query_Has :: "(string \<times> string) list \<Rightarrow> string \<Rightarrow> bool" where
  "query_Has ps k \<longleftrightarrow> query_values ps k \<noteq> []"

lemma query_escape_avoids: "c \<in> set ''&;='' \<Longrightarrow> c \<notin> set (QueryEscape s)"
  unfolding QueryEscape_def
  by (rule escape_avoids)
    (auto simp: shouldEscape_defs is_alpha_def is_upper_def is_lower_def is_digit_def)

lemma parse_pair_query_pair [simp]: "parse_pair (query_pair kv) = Some kv"
proof -
  have "cut_at CHR ''='' (query_pair kv) = (QueryEscape (fst kv), QueryEscape (snd kv))"
    using query_escape_avoids [of "CHR ''=''" "fst kv"] cut_at_append by (simp add: query_pair_def)
  moreover have "CHR '';'' \<notin> set (query_pair kv)"
    using query_escape_avoids [of "CHR '';''"] by (simp add: query_pair_def)
  ultimately show ?thesis
    by (simp add: parse_pair_def QueryEscape_def query_pair_def)
qed

lemma SplitChar_Join:
  assumes "\<And>x. x \<in> set xs \<Longrightarrow> c \<notin> set x" and "xs \<noteq> []"
  shows "SplitChar c (strings_Join [c] xs) = xs"
  using assms
proof (induction "[c]" xs rule: strings_Join.induct)
  case (3 x y ys)
  then show ?case by (simp add: SplitChar_append)
qed (simp_all add: SplitChar_no_sep)

text \<open>A query that was encoded is parsed back to its pairs.\<close>

lemma parseQuery_Encode: "parseQuery (Values_Encode vs) = sort_key fst vs"
proof (cases "vs = []")
  case True
  then show ?thesis by (simp add: Values_Encode_def parseQuery_def List.map_filter_def parse_pair_def)
next
  case False
  have "CHR ''&'' \<notin> set (query_pair kv)" for kv
    using query_escape_avoids [of "CHR ''&''"] by (simp add: query_pair_def)
  then have "SplitChar CHR ''&'' (Values_Encode vs) = map query_pair (sort_key fst vs)"
    unfolding Values_Encode_def using False
    by (intro SplitChar_Join) (auto, metis length_0_conv length_sort)
  then show ?thesis by (simp add: parseQuery_def List.map_filter_def comp_def)
qed

section \<open>Printing\<close>

definition validEncoded :: "string \<Rightarrow> encoding \<Rightarrow> bool" where
  "validEncoded s mode \<longleftrightarrow>
     list_all (\<lambda>c. c \<in> set ''!$&()*+,;=:@[]%'' \<union> {CHR 0x27} \<or> \<not> shouldEscape c mode) s"

definition EscapedPath :: "URL \<Rightarrow> string" where
  "EscapedPath u =
    (if url_RawPath u \<noteq> [] \<and> validEncoded (url_RawPath u) encodePath
        \<and> unescape encodePath (url_RawPath u) = Some (url_Path u) then url_RawPath u
     else if url_Path u = ''*'' then ''*''
     else escape encodePath (url_Path u))"

definition URL_String :: "URL \<Rightarrow> string" where
  "URL_String u =
    (let scheme = (if url_Scheme u \<noteq> [] then url_Scheme u @ '':'' else []);
         host = (if url_Scheme u = [] \<and> url_Host u = [] then []
                 else if url_OmitHost u \<and> url_Host u = [] then []
                 else (if url_Host u \<noteq> [] \<or> url_Path u \<noteq> [] then ''//'' else []) @ escape encodeHost (url_Host u));
         path = EscapedPath u;
         slash = (if path \<noteq> [] \<and> hd path \<noteq> CHR ''/'' \<and> url_Host u \<noteq> [] then ''/'' else []);
         dot = (if scheme @ host @ slash = [] \<and> CHR '':'' \<in> set (fst (cut_at CHR ''/'' path)) then ''./'' else [])
     in (if url_Opaque u \<noteq> [] then scheme @ url_Opaque u else scheme @ host @ slash @ dot @ path)
        @ (if url_ForceQuery u \<or> url_RawQuery u \<noteq> [] then ''?'' @ url_RawQuery u else []))"

end
