(* ===== verification/Warden_OIDC.thy ===== *)
theory Warden_OIDC
  imports Warden_Types Go_URL
begin

text \<open>
  The relying party of the external identity provider: \<open>src/warden/oidc.go\<close> (ID tokens) and
  \<open>src/warden/oidc_client.go\<close> (configuration, discovery, code exchange).

  The libraries are parameters (\<open>OIDCLibrary\<close>): \<open>go-oidc\<close> checks the signature of an ID token and the
  claims it knows (issuer, audience, expiry) and returns its payload; \<open>oauth2\<close> exchanges a code. What
  the code relies on is written where it is used: nothing is assumed of them here, \<open>validateClaims\<close> checks
  every claim again. \<open>encoding/json\<close> delivers the decoded payload, the member \<open>aud\<close> undecoded
  (\<open>json.RawMessage\<close>). The \<open>n\<close>-th call of a library has the outcome \<open>n\<close>.
\<close>

section \<open>Endpoints\<close>

definition invalid_endpoint :: error where
  "invalid_endpoint = Errorf ''invalid OIDC endpoint URL''"

definition insecure_endpoint :: error where
  "insecure_endpoint = Errorf ''OIDC endpoints require HTTPS (HTTP loopback is allowed)''"

definition oidcEndpoint :: "string \<Rightarrow> URL res" where
  "oidcEndpoint raw =
    (case Parse raw of
       None \<Rightarrow> Inl invalid_endpoint
     | Some u \<Rightarrow>
       if url_Host u = [] \<or> url_User u \<noteq> None \<or> url_Fragment u \<noteq> [] \<or> url_RawQuery u \<noteq> [] \<or> url_Opaque u \<noteq> []
       then Inl invalid_endpoint
       else let loopback = Hostname u = ''localhost'' \<or> Hostname u = ''127.0.0.1'' \<or> Hostname u = ''::1'' in
         if url_Scheme u \<noteq> ''https'' \<and> (url_Scheme u \<noteq> ''http'' \<or> \<not> loopback) then Inl insecure_endpoint
         else Inr u)"

text \<open>\<open>http.Client\<close>, as far as it is configured here.\<close>

datatype redirect_policy = FollowRedirects | UseLastResponse

record HTTPClient =
  hc_Timeout :: duration
  hc_CheckRedirect :: redirect_policy

definition boundedOIDCClient :: "HTTPClient option \<Rightarrow> HTTPClient" where
  "boundedOIDCClient source =
    (let client = (case source of None \<Rightarrow> \<lparr>hc_Timeout = 0, hc_CheckRedirect = FollowRedirects\<rparr> | Some c \<Rightarrow> c);
         client = (if hc_Timeout client \<le> 0 \<or> 15 * Second < hc_Timeout client
                   then client\<lparr>hc_Timeout := 15 * Second\<rparr> else client)
     in client\<lparr>hc_CheckRedirect := UseLastResponse\<rparr>)"

section \<open>Claims\<close>

record OIDCClaims =
  oc_Issuer :: string
  oc_Subject :: string
  oc_Audience :: "string list"
  oc_ExpiresAt :: int
  oc_NotBefore :: int
  oc_IssuedAt :: int
  oc_Nonce :: string
  oc_AuthorizedParty :: string
  oc_Email :: string
  oc_Name :: string
  oc_PreferredName :: string
  oc_TenantID :: string
  oc_Scope :: string

text \<open>The raw member \<open>aud\<close>; an element of an array that is \<open>null\<close> decodes to the empty string.\<close>

datatype json_aud = AudAbsent | AudNull | AudString string | AudStrings "string list" | AudOther

definition unmarshal_string :: "json_aud \<Rightarrow> string option" where
  "unmarshal_string aud = (case aud of AudNull \<Rightarrow> Some [] | AudString s \<Rightarrow> Some s | _ \<Rightarrow> None)"

definition unmarshal_strings :: "json_aud \<Rightarrow> string list option" where
  "unmarshal_strings aud = (case aud of AudNull \<Rightarrow> Some [] | AudStrings ss \<Rightarrow> Some ss | _ \<Rightarrow> None)"

text \<open>\<open>OIDCClaims.UnmarshalJSON\<close>, applied to the decoded members and the raw audience (\<open>None\<close>: a JSON error).\<close>

definition OIDCClaims_UnmarshalJSON :: "(OIDCClaims \<times> json_aud) option \<Rightarrow> OIDCClaims res" where
  "OIDCClaims_UnmarshalJSON aux =
    (case aux of
       None \<Rightarrow> Inl (Errorf ''json'')
     | Some (c, aud) \<Rightarrow>
       if unmarshal_string aud \<noteq> None \<and> unmarshal_string aud \<noteq> Some []
       then Inr (c\<lparr>oc_Audience := [the (unmarshal_string aud)]\<rparr>)
       else (case unmarshal_strings aud of
          None \<Rightarrow> Inl ErrOIDCInvalidToken
        | Some ss \<Rightarrow>
          if length ss = 0 then Inl ErrOIDCInvalidToken
          else if \<exists>audience \<in> set ss. TrimSpace audience = [] then Inl ErrOIDCInvalidToken
          else Inr (c\<lparr>oc_Audience := ss\<rparr>)))"

section \<open>The verifier\<close>

text \<open>\<open>oidc.IDTokenVerifier\<close>: what it was built from.\<close>

record IDTokenVerifier =
  iv_Issuer :: string
  iv_ClientID :: string
  iv_JWKSURL :: string

record OIDCVerifier =
  ov_Issuer :: string
  ov_ClientID :: string
  ov_JWKSURL :: string
  ov_Client :: "HTTPClient option"
  ov_Now :: "(nat \<Rightarrow> time) option"
  ov_AuthorizationURL :: string
  ov_RedirectURL :: string
  ov_ProviderHint :: string
  ov_RequireResponseIssuer :: bool
  ov_verifier :: "IDTokenVerifier option"

text \<open>\<open>oidc.IDToken\<close>.\<close>

record IDToken =
  idt_AccessTokenHash :: string
  idt_VerifyAccessToken :: "string \<Rightarrow> bool"
  idt_Claims :: "(OIDCClaims \<times> json_aud) option"

record OIDCTokenSet =
  ts_IDToken :: string
  ts_AccessToken :: string
  ts_RefreshToken :: string
  ts_TokenType :: string
  ts_ExpiresIn :: int

text \<open>\<open>oauth2.Config\<close> and \<open>oauth2.Token\<close>; \<open>ot_IDToken\<close> is the member \<open>id_token\<close> of the response when it is a string.\<close>

datatype auth_style = AuthStyleInHeader | AuthStyleInParams

record oauth2_Config =
  oa_ClientID :: string
  oa_ClientSecret :: string
  oa_RedirectURL :: string
  oa_AuthURL :: string
  oa_TokenURL :: string
  oa_AuthStyle :: auth_style
  oa_Scopes :: "string list"

record OAuthToken =
  ot_AccessToken :: string
  ot_TokenType :: string
  ot_IDToken :: "string option"

record OIDCLibrary =
  lib_Verify :: "nat \<Rightarrow> IDTokenVerifier \<Rightarrow> string \<Rightarrow> IDToken option"
  lib_Exchange :: "nat \<Rightarrow> oauth2_Config \<Rightarrow> string \<Rightarrow> string \<Rightarrow> OAuthToken option"

definition externalTokenVerifier :: "string \<Rightarrow> string \<Rightarrow> string \<Rightarrow> IDTokenVerifier" where
  "externalTokenVerifier issuer clientID jwksURL = \<lparr>iv_Issuer = issuer, iv_ClientID = clientID, iv_JWKSURL = jwksURL\<rparr>"

definition validateClaims :: "OIDCVerifier \<Rightarrow> time \<Rightarrow> OIDCClaims \<Rightarrow> string \<Rightarrow> unit res" where
  "validateClaims v now claims expectedNonce =
    (if oc_Issuer claims \<noteq> ov_Issuer v \<or> TrimSpace (oc_Subject claims) = [] \<or> ov_ClientID v \<notin> set (oc_Audience claims)
     then Inl ErrOIDCInvalidToken
     else if (1 < length (oc_Audience claims) \<and> oc_AuthorizedParty claims \<noteq> ov_ClientID v)
        \<or> (oc_AuthorizedParty claims \<noteq> [] \<and> oc_AuthorizedParty claims \<noteq> ov_ClientID v)
     then Inl ErrOIDCInvalidToken
     else if expectedNonce \<noteq> [] \<and> oc_Nonce claims \<noteq> expectedNonce then Inl ErrOIDCInvalidToken
     else if oc_ExpiresAt claims \<le> 0 \<or> \<not> Before now (time_Unix (oc_ExpiresAt claims))
        \<or> Unix now < oc_NotBefore claims \<or> Unix (now + 30 * Second) < oc_IssuedAt claims
     then Inl ErrOIDCInvalidToken
     else Inr ())"

text \<open>\<open>verify\<close>: \<open>n\<close> is the number of the library call, \<open>now\<close> the time \<open>validateClaims\<close> reads.\<close>

definition oidc_verify :: "OIDCLibrary \<Rightarrow> nat \<Rightarrow> time \<Rightarrow> OIDCVerifier \<Rightarrow> string \<Rightarrow> string \<Rightarrow> (IDToken \<times> OIDCClaims) res" where
  "oidc_verify lib n now v raw expectedNonce =
    (if 65536 < length raw \<or> TrimSpace (ov_Issuer v) = [] \<or> TrimSpace (ov_ClientID v) = [] then Inl ErrOIDCInvalidToken
     else
       (case (case ov_verifier v of
                Some verifier \<Rightarrow> Some verifier
              | None \<Rightarrow>
                (case oidcEndpoint (ov_JWKSURL v) of
                   Inl _ \<Rightarrow> None
                 | Inr _ \<Rightarrow> Some (externalTokenVerifier (ov_Issuer v) (ov_ClientID v) (ov_JWKSURL v)))) of
          None \<Rightarrow> Inl ErrOIDCNoKey
        | Some verifier \<Rightarrow>
          (case lib_Verify lib n verifier raw of
             None \<Rightarrow> Inl ErrOIDCInvalidToken
           | Some token \<Rightarrow>
             (case OIDCClaims_UnmarshalJSON (idt_Claims token) of
                Inl _ \<Rightarrow> Inl ErrOIDCInvalidToken
              | Inr claims \<Rightarrow>
                (case validateClaims v now claims expectedNonce of
                   Inl e \<Rightarrow> Inl e
                 | Inr _ \<Rightarrow> Inr (token, claims))))))"

definition oidc_VerifyIDToken :: "OIDCLibrary \<Rightarrow> nat \<Rightarrow> time \<Rightarrow> OIDCVerifier \<Rightarrow> string \<Rightarrow> string \<Rightarrow> OIDCClaims res" where
  "oidc_VerifyIDToken lib n now v raw expectedNonce =
    (case oidc_verify lib n now v raw expectedNonce of Inl e \<Rightarrow> Inl e | Inr (_, claims) \<Rightarrow> Inr claims)"

definition oidc_VerifyTokenSet :: "OIDCLibrary \<Rightarrow> nat \<Rightarrow> time \<Rightarrow> OIDCVerifier \<Rightarrow> OIDCTokenSet \<Rightarrow> string \<Rightarrow> OIDCClaims res" where
  "oidc_VerifyTokenSet lib n now v tokens expectedNonce =
    (case oidc_verify lib n now v (ts_IDToken tokens) expectedNonce of
       Inl e \<Rightarrow> Inl e
     | Inr (token, claims) \<Rightarrow>
       if idt_AccessTokenHash token \<noteq> []
         \<and> (ts_AccessToken tokens = [] \<or> \<not> idt_VerifyAccessToken token (ts_AccessToken tokens))
       then Inl ErrOIDCInvalidToken
       else Inr claims)"

section \<open>The client\<close>

record OIDCClientConfig =
  occ_Issuer :: string
  occ_DiscoveryURL :: string
  occ_ClientID :: string
  occ_ClientSecret :: string
  occ_RedirectURL :: string
  occ_ProviderHint :: string
  occ_AuthorizationURL :: string
  occ_TokenURL :: string
  occ_JWKSURL :: string
  occ_Client :: "HTTPClient option"
  occ_Now :: "(nat \<Rightarrow> time) option"

record OIDCClient =
  ocl_Verifier :: "OIDCVerifier option"
  ocl_oauth :: oauth2_Config
  ocl_client :: HTTPClient

definition first_error :: "error option list \<Rightarrow> error option" where
  "first_error es = (case filter (\<lambda>e. e \<noteq> None) es of [] \<Rightarrow> None | e # _ \<Rightarrow> e)"

definition endpoint_error :: "string \<Rightarrow> error option" where
  "endpoint_error raw = (case oidcEndpoint raw of Inl e \<Rightarrow> Some e | Inr _ \<Rightarrow> None)"

definition explicit_endpoints :: "OIDCClientConfig \<Rightarrow> bool" where
  "explicit_endpoints cfg \<longleftrightarrow> occ_AuthorizationURL cfg \<noteq> [] \<or> occ_TokenURL cfg \<noteq> [] \<or> occ_JWKSURL cfg \<noteq> []"

definition OIDCClientConfig_Validate :: "OIDCClientConfig \<Rightarrow> unit res" where
  "OIDCClientConfig_Validate cfg =
    (if occ_ClientID cfg = [] \<or> occ_ClientSecret cfg = [] then Inl (Errorf ''OIDC client ID and secret are required'')
     else (case first_error (map endpoint_error [occ_Issuer cfg, occ_RedirectURL cfg]) of
        Some e \<Rightarrow> Inl e
      | None \<Rightarrow>
        if explicit_endpoints cfg \<and> (occ_DiscoveryURL cfg \<noteq> [] \<or> occ_AuthorizationURL cfg = [] \<or> occ_TokenURL cfg = []
             \<or> occ_JWKSURL cfg = [])
        then Inl (Errorf ''OIDC requires discovery or all explicit endpoints, not a mixture'')
        else (case first_error (map (\<lambda>raw. if raw \<noteq> [] then endpoint_error raw else None)
              [occ_DiscoveryURL cfg, occ_AuthorizationURL cfg, occ_TokenURL cfg, occ_JWKSURL cfg]) of
            Some e \<Rightarrow> Inl e | None \<Rightarrow> Inr ())))"

text \<open>
  The answer to the discovery request (\<open>None\<close>: the request failed): its status, and the decoded document
  (\<open>None\<close>: not JSON). \<open>fetch\<close> is the HTTP client.
\<close>

record OIDCMetadata =
  md_Issuer :: string
  md_AuthURL :: string
  md_TokenURL :: string
  md_JWKSURL :: string
  md_AuthMethods :: "string list"
  md_ResponseIssuer :: bool

type_synonym discovery = "HTTPClient \<Rightarrow> string \<Rightarrow> (int \<times> OIDCMetadata option) option"

definition discover :: "discovery \<Rightarrow> HTTPClient \<Rightarrow> OIDCClientConfig
    \<Rightarrow> (string \<times> string \<times> string \<times> bool \<times> auth_style) res" where
  "discover fetch client cfg =
    (let discoveryURL = (if occ_DiscoveryURL cfg = []
           then TrimRightChar (occ_Issuer cfg) CHR ''/'' @ ''/.well-known/openid-configuration'' else occ_DiscoveryURL cfg) in
     case oidcEndpoint discoveryURL of
       Inl e \<Rightarrow> Inl e
     | Inr _ \<Rightarrow>
       (case fetch client discoveryURL of
          None \<Rightarrow> Inl (Errorf ''OIDC discovery request failed'')
        | Some (status, doc) \<Rightarrow>
          if status \<noteq> 200 then Inl (Errorf (''OIDC discovery returned HTTP '' @ Itoa status))
          else (case doc of
             None \<Rightarrow> Inl (Errorf ''invalid OIDC discovery document'')
           | Some m \<Rightarrow>
             if md_Issuer m \<noteq> occ_Issuer cfg then Inl (Errorf ''OIDC discovery issuer mismatch'')
             else let basic = ''client_secret_basic'' \<in> set (md_AuthMethods m);
                      post = ''client_secret_post'' \<in> set (md_AuthMethods m) in
               if 0 < length (md_AuthMethods m) \<and> \<not> basic \<and> \<not> post
               then Inl (Errorf ''OIDC discovery has no supported confidential-client authentication method'')
               else Inr (md_AuthURL m, md_TokenURL m, md_JWKSURL m, md_ResponseIssuer m,
                 (if 0 < length (md_AuthMethods m) \<and> \<not> basic then AuthStyleInParams else AuthStyleInHeader)))))"

definition NewOIDCClient :: "discovery \<Rightarrow> OIDCClientConfig \<Rightarrow> OIDCClient res" where
  "NewOIDCClient fetch cfg =
    (case OIDCClientConfig_Validate cfg of
       Inl e \<Rightarrow> Inl e
     | Inr _ \<Rightarrow>
       let client = boundedOIDCClient (occ_Client cfg) in
       (case (if explicit_endpoints cfg
              then Inr (occ_AuthorizationURL cfg, occ_TokenURL cfg, occ_JWKSURL cfg, False, AuthStyleInHeader)
              else discover fetch client cfg) of
          Inl e \<Rightarrow> Inl e
        | Inr (authURL, tokenURL, jwksURL, requireIssuer, authStyle) \<Rightarrow>
          (case first_error (map endpoint_error [authURL, tokenURL, jwksURL]) of
             Some e \<Rightarrow> Inl e
           | None \<Rightarrow>
             Inr \<lparr>ocl_Verifier = Some \<lparr>ov_Issuer = occ_Issuer cfg, ov_ClientID = occ_ClientID cfg, ov_JWKSURL = jwksURL,
                   ov_Client = Some client, ov_Now = occ_Now cfg, ov_AuthorizationURL = authURL,
                   ov_RedirectURL = occ_RedirectURL cfg, ov_ProviderHint = occ_ProviderHint cfg,
                   ov_RequireResponseIssuer = requireIssuer,
                   ov_verifier = Some (externalTokenVerifier (occ_Issuer cfg) (occ_ClientID cfg) jwksURL)\<rparr>,
                 ocl_oauth = \<lparr>oa_ClientID = occ_ClientID cfg, oa_ClientSecret = occ_ClientSecret cfg,
                   oa_RedirectURL = occ_RedirectURL cfg, oa_AuthURL = authURL, oa_TokenURL = tokenURL,
                   oa_AuthStyle = authStyle, oa_Scopes = [''openid'', ''profile'', ''email'']\<rparr>,
                 ocl_client = client\<rparr>)))"

definition ExchangeCode :: "OIDCLibrary \<Rightarrow> nat \<Rightarrow> OIDCClient \<Rightarrow> string \<Rightarrow> string \<Rightarrow> OIDCTokenSet res" where
  "ExchangeCode lib n c code verifier =
    (if TrimSpace code = [] \<or> verifier = [] then Inl ErrInvalidInput
     else (case lib_Exchange lib n (ocl_oauth c) code verifier of
        None \<Rightarrow> Inl ErrUnauthorized
      | Some token \<Rightarrow>
        (case ot_IDToken token of
           None \<Rightarrow> Inl ErrUnauthorized
         | Some idToken \<Rightarrow>
           if idToken = [] \<or> ot_AccessToken token = [] \<or> ToLower (ot_TokenType token) \<noteq> ''bearer'' then Inl ErrUnauthorized
           else Inr \<lparr>ts_IDToken = idToken, ts_AccessToken = ot_AccessToken token, ts_RefreshToken = [],
             ts_TokenType = ot_TokenType token, ts_ExpiresIn = 0\<rparr>)))"

end
