(* ===== verification/Warden_CasdoorDirectory.thy ===== *)
theory Warden_CasdoorDirectory
  imports Warden_OIDC Warden_Policy
begin

text \<open>
  The directory that the Casdoor server keeps: \<open>src/warden/casdoor_directory.go\<close>, except for the
  reconciliation, which runs on a service (theory \<open>Warden_Reconcile\<close>). The answers of the server are a
  parameter: \<open>fetch k\<close> answers the \<open>k\<close>-th request of one lookup.
\<close>

section \<open>Configuration\<close>

record CasdoorTenantMapping =
  tm_Organization :: string
  tm_TenantID :: string
  tm_TenantSlug :: string
  tm_DisplayName :: string
  tm_RequiredGroups :: "string list"
  tm_DefaultRoles :: "string list"
  tm_RoleMappings :: "string list gomap"

record CasdoorDirectoryConfig =
  cdc_BaseURL :: string
  cdc_ClientID :: string
  cdc_ClientSecret :: string
  cdc_Mappings :: "CasdoorTenantMapping list"
  cdc_Client :: "HTTPClient option"

text \<open>\<open>cds_service\<close> says whether the source is bound to a service.\<close>

record CasdoorDirectorySource =
  cds_baseURL :: string
  cds_clientID :: string
  cds_clientSecret :: string
  cds_mappings :: "CasdoorTenantMapping list"
  cds_client :: HTTPClient
  cds_service :: bool

definition mapping_defaults :: "CasdoorTenantMapping \<Rightarrow> CasdoorTenantMapping" where
  "mapping_defaults mapping0 =
    (let mapping = (if tm_TenantSlug mapping0 = [] then mapping0\<lparr>tm_TenantSlug := tm_TenantID mapping0\<rparr> else mapping0);
         mapping = (if tm_DisplayName mapping = [] then mapping\<lparr>tm_DisplayName := tm_TenantSlug mapping\<rparr> else mapping)
     in mapping)"

text \<open>The checks of one mapping; \<open>seen\<close> are the tenants of the mappings before it.\<close>

definition check_mapping :: "string list \<Rightarrow> CasdoorTenantMapping \<Rightarrow> CasdoorTenantMapping res" where
  "check_mapping seen mapping0 =
    (if TrimSpace (tm_Organization mapping0) = [] \<or> ContainsAny (tm_Organization mapping0) [CHR ''/'', CHR 0x5C]
        \<or> TrimSpace (tm_TenantID mapping0) = [] \<or> tm_TenantID mapping0 \<in> set seen
     then Inl ErrInvalidInput
     else let mapping = mapping_defaults mapping0;
              qualified = (\<lambda>name. HasPrefix name (tm_Organization mapping @ ''/''));
              allRoles = tm_DefaultRoles mapping @ concat (map snd (tm_RoleMappings mapping)) in
       if \<exists>external \<in> set (map fst (tm_RoleMappings mapping)). \<not> qualified external then Inl ErrInvalidInput
       else if \<exists>group \<in> set (tm_RequiredGroups mapping). \<not> qualified group then Inl ErrInvalidInput
       else (case find (\<lambda>role. \<not> snd (NormalizeRoleKey role)) allRoles of
          Some role \<Rightarrow> Inl (Errorf ''unknown Warden directory role %q'')
        | None \<Rightarrow> Inr mapping))"

fun check_mappings :: "string list \<Rightarrow> CasdoorTenantMapping list \<Rightarrow> CasdoorTenantMapping list res" where
  "check_mappings seen [] = Inr []"
| "check_mappings seen (mapping # rest) =
    (case check_mapping seen mapping of
       Inl e \<Rightarrow> Inl e
     | Inr m \<Rightarrow>
       (case check_mappings (tm_TenantID mapping # seen) rest of Inl e \<Rightarrow> Inl e | Inr ms \<Rightarrow> Inr (m # ms)))"

definition NewCasdoorDirectorySource :: "CasdoorDirectoryConfig \<Rightarrow> CasdoorDirectorySource res" where
  "NewCasdoorDirectorySource cfg =
    (case oidcEndpoint (cdc_BaseURL cfg) of
       Inl e \<Rightarrow> Inl e
     | Inr _ \<Rightarrow>
       if cdc_ClientID cfg = [] \<or> cdc_ClientSecret cfg = [] \<or> length (cdc_Mappings cfg) = 0 then Inl ErrInvalidInput
       else (case check_mappings [] (cdc_Mappings cfg) of
          Inl e \<Rightarrow> Inl e
        | Inr mappings \<Rightarrow>
          let client = boundedOIDCClient (cdc_Client cfg);
              client = (if 3 * Second < hc_Timeout client then client\<lparr>hc_Timeout := 3 * Second\<rparr> else client)
          in Inr \<lparr>cds_baseURL = TrimRightChar (cdc_BaseURL cfg) CHR ''/'', cds_clientID = cdc_ClientID cfg,
               cds_clientSecret = cdc_ClientSecret cfg, cds_mappings = mappings, cds_client = client,
               cds_service = False\<rparr>))"

section \<open>Lookups\<close>

record CasdoorUserRole =
  cur_Owner :: string
  cur_Name :: string
  cur_Enabled :: bool

record casdoorDirectoryUser =
  cdu_ID :: string
  cdu_Owner :: string
  cdu_Name :: string
  cdu_Email :: string
  cdu_DisplayName :: string
  cdu_EmailVerified :: bool
  cdu_Forbidden :: bool
  cdu_Deleted :: bool
  cdu_DeletedTime :: string
  cdu_Groups :: "string list"
  cdu_Roles :: "CasdoorUserRole list"

text \<open>
  A request is its method, its URL and the pair of the basic authorization; an answer its status and its
  decoded body, the member \<open>status\<close> and the member \<open>data\<close> (\<open>None\<close>: a failed request, a body that is not JSON).
\<close>

type_synonym directory_request = "string \<times> string \<times> string \<times> string"

type_synonym directory_answer = "int \<times> (string \<times> casdoorDirectoryUser option) option"

type_synonym directory_fetch = "nat \<Rightarrow> HTTPClient \<Rightarrow> directory_request \<Rightarrow> directory_answer option"

definition getUser :: "directory_fetch \<Rightarrow> nat \<Rightarrow> CasdoorDirectorySource \<Rightarrow> string \<Rightarrow> string
    \<Rightarrow> casdoorDirectoryUser option res" where
  "getUser fetch k d organization subject =
    (case Parse (cds_baseURL d @ ''/api/get-user'') of
       None \<Rightarrow> Inl ErrDirectoryUnavailable
     | Some u \<Rightarrow>
       let u = u\<lparr>url_RawQuery := Values_Encode [(''owner'', organization), (''userId'', subject)]\<rparr> in
       (case Parse (URL_String u) of
          None \<Rightarrow> Inl ErrDirectoryUnavailable
        | Some _ \<Rightarrow>
          (case fetch k (cds_client d) (''GET'', URL_String u, cds_clientID d, cds_clientSecret d) of
             None \<Rightarrow> Inl ErrDirectoryUnavailable
           | Some (status, body) \<Rightarrow>
             if status \<noteq> 200 then Inl ErrDirectoryUnavailable
             else (case body of
                None \<Rightarrow> Inl ErrDirectoryUnavailable
              | Some (envStatus, data) \<Rightarrow>
                if envStatus \<noteq> ''ok'' then Inl ErrDirectoryUnavailable
                else (case data of
                   None \<Rightarrow> Inr None
                 | Some user \<Rightarrow>
                   if cdu_ID user \<noteq> subject \<or> cdu_Owner user \<noteq> organization then Inl ErrDirectoryUnavailable
                   else Inr (Some user))))))"

text \<open>The roles and groups of a user under a mapping; a role that is not mapped grants nothing.\<close>

definition mapped_roles :: "CasdoorTenantMapping \<Rightarrow> casdoorDirectoryUser \<Rightarrow> string list" where
  "mapped_roles mapping user =
    tm_DefaultRoles mapping @
    concat (map (\<lambda>role. if cur_Enabled role \<and> cur_Owner role = tm_Organization mapping
        then (case map_of (tm_RoleMappings mapping) (cur_Owner role @ ''/'' @ cur_Name role) of
                None \<Rightarrow> [] | Some grants \<Rightarrow> grants)
        else []) (cdu_Roles user))"

definition mapped_groups :: "CasdoorTenantMapping \<Rightarrow> casdoorDirectoryUser \<Rightarrow> CasdoorGroup list" where
  "mapped_groups mapping user =
    map (\<lambda>group. \<lparr>cg_ID = group, cg_Name = TrimPrefix group (tm_Organization mapping @ ''/''),
        cg_DisplayName = TrimPrefix group (tm_Organization mapping @ ''/''), cg_ParentGroupID = []\<rparr>)
      (filter (\<lambda>group. HasPrefix group (tm_Organization mapping @ ''/'')) (cdu_Groups user))"

definition user_snapshot :: "CasdoorTenantMapping \<Rightarrow> casdoorDirectoryUser \<Rightarrow> CasdoorDirectorySnapshot" where
  "user_snapshot mapping user =
    \<lparr>snap_Tenant = \<lparr>ten_ID = tm_TenantID mapping, ten_CasdoorOrgName = tm_Organization mapping,
       ten_Slug = tm_TenantSlug mapping, ten_DisplayName = tm_DisplayName mapping, ten_Status = ''active''\<rparr>,
     snap_User = \<lparr>cu_ID = cdu_ID user, cu_Username = cdu_Name user, cu_Email = cdu_Email user,
       cu_DisplayName = cdu_DisplayName user, cu_EmailVerified = cdu_EmailVerified user,
       cu_Disabled = (cdu_Forbidden user \<or> cdu_Deleted user \<or> cdu_DeletedTime user \<noteq> [])\<rparr>,
     snap_Groups = mapped_groups mapping user, snap_Roles = mapped_roles mapping user\<rparr>"

text \<open>
  The loop over the mappings; \<open>users\<close> are the users of the organizations asked so far, \<open>k\<close> is the number of
  requests made.
\<close>

definition cached_user :: "directory_fetch \<Rightarrow> CasdoorDirectorySource \<Rightarrow> string \<Rightarrow> nat \<Rightarrow> casdoorDirectoryUser option gomap
    \<Rightarrow> string \<Rightarrow> (casdoorDirectoryUser option \<times> nat \<times> casdoorDirectoryUser option gomap) res" where
  "cached_user fetch d subject k users organization =
    (case map_of users organization of
       Some user \<Rightarrow> Inr (user, k, users)
     | None \<Rightarrow>
       (case getUser fetch k d organization subject of
          Inl e \<Rightarrow> Inl e
        | Inr user \<Rightarrow> Inr (user, Suc k, map_put organization user users)))"

definition is_member :: "CasdoorTenantMapping \<Rightarrow> casdoorDirectoryUser \<Rightarrow> bool" where
  "is_member mapping user \<longleftrightarrow> (\<forall>group \<in> set (tm_RequiredGroups mapping). group \<in> set (cdu_Groups user))"

fun sync_mappings :: "directory_fetch \<Rightarrow> CasdoorDirectorySource \<Rightarrow> string \<Rightarrow> nat \<Rightarrow> casdoorDirectoryUser option gomap
    \<Rightarrow> CasdoorTenantMapping list \<Rightarrow> CasdoorDirectorySnapshot list res" where
  "sync_mappings fetch d subject k users [] = Inr []"
| "sync_mappings fetch d subject k users (mapping # rest) =
    (case cached_user fetch d subject k users (tm_Organization mapping) of
       Inl e \<Rightarrow> Inl e
     | Inr (found_user, k, users) \<Rightarrow>
       (case sync_mappings fetch d subject k users rest of
          Inl e \<Rightarrow> Inl e
        | Inr snapshots \<Rightarrow>
          (case found_user of
             None \<Rightarrow> Inr snapshots
           | Some user \<Rightarrow> if is_member mapping user then Inr (user_snapshot mapping user # snapshots) else Inr snapshots)))"

definition casdoor_SyncUser :: "directory_fetch \<Rightarrow> CasdoorDirectorySource \<Rightarrow> string \<Rightarrow> CasdoorDirectorySnapshot list res" where
  "casdoor_SyncUser fetch d subject =
    (if TrimSpace subject = [] then Inl ErrInvalidInput
     else sync_mappings fetch d subject 0 [] (cds_mappings d))"

section \<open>What a lookup answers\<close>

lemma getUser_own: "getUser fetch k d organization subject = Inr (Some user) \<Longrightarrow>
    cdu_ID user = subject \<and> cdu_Owner user = organization"
  by (auto simp: getUser_def Let_def split: option.splits if_splits prod.splits)

text \<open>The cache holds the users of the organizations, under their organization.\<close>

definition own_users :: "string \<Rightarrow> casdoorDirectoryUser option gomap \<Rightarrow> bool" where
  "own_users subject users \<longleftrightarrow>
    (\<forall>org user. map_of users org = Some (Some user) \<longrightarrow> cdu_ID user = subject \<and> cdu_Owner user = org)"

lemma cached_user_own:
  assumes "cached_user fetch d subject k users org = Inr (u, k', users')" and "own_users subject users"
  shows "own_users subject users'" and "u = Some user \<Longrightarrow> cdu_ID user = subject \<and> cdu_Owner user = org"
  using assms getUser_own [of fetch k d org subject]
  by (auto simp: cached_user_def own_users_def alist_simps split: option.splits sum.splits if_splits)

lemma sync_mappings_sound:
  assumes "sync_mappings fetch d subject k users ms = Inr snaps" and "own_users subject users" and "snap \<in> set snaps"
  shows "\<exists>mapping \<in> set ms. \<exists>user. snap = user_snapshot mapping user \<and> cdu_ID user = subject
    \<and> cdu_Owner user = tm_Organization mapping \<and> is_member mapping user"
  using assms
proof (induction ms arbitrary: k users snaps)
  case (Cons mapping rest)
  obtain u k' users' where c: "cached_user fetch d subject k users (tm_Organization mapping) = Inr (u, k', users')"
    using Cons.prems(1) by (auto split: sum.splits)
  obtain tail where t: "sync_mappings fetch d subject k' users' rest = Inr tail"
    using Cons.prems(1) c by (auto split: sum.splits)
  note own = cached_user_own [OF c Cons.prems(2)]
  have "snap \<in> set tail \<or> (\<exists>user. u = Some user \<and> is_member mapping user \<and> snap = user_snapshot mapping user)"
    using Cons.prems(1,3) c t by (auto split: option.splits if_splits)
  then show ?case using Cons.IH [OF t own(1)] own(2) by auto
qed simp

end
