(* ===== verification/Warden_World.thy ===== *)
theory Warden_World
  imports Warden_Store Warden_Policy Warden_Notify Warden_CasdoorDirectory
begin

text \<open>
  The state of \<open>Service\<close> (\<open>src/warden/service.go\<close>) and the operations all its methods share: the
  store, the clock, random strings, the audit log, security notifications
  (\<open>src/warden/notifier.go\<close>), the policy settings and the identity provider
  (\<open>src/warden/oidc_authority.go\<close>).

  \<^item> \<open>Service\<close> holds what \<open>NewService\<close> fixes; \<open>'s World\<close> what changes: the store state, the policy
    settings and what was handed to the notifier and the mailer (both run in goroutines whose errors
    are dropped).
  \<^item> \<open>time.Now()\<close> and \<open>crypto/rand\<close> are the sequences \<open>svc_clock\<close> and \<open>svc_rand\<close>; \<open>w_clock\<close>, \<open>w_draws\<close>,
    \<open>w_lookups\<close> and \<open>w_oidcCalls\<close> count the readings of the clock, of the random source and of the directory,
    and the calls of the identity provider's libraries.
  \<^item> A method takes the store as its first argument, so that it runs on any implementation of
    the interface.
\<close>

section \<open>Configuration and state\<close>

text \<open>
  \<open>OIDCTokenExchanger\<close>: the client of this package, or one that the application supplies.
\<close>

datatype exchanger = Client OIDCClient | ExternalExchanger "nat \<Rightarrow> string \<Rightarrow> string \<Rightarrow> OIDCTokenSet res"

text \<open>
  \<open>DirectorySource\<close>. The \<open>n\<close>-th call of \<open>SyncUser\<close> answers \<open>ds_SyncUser n\<close>. A source of this package is found by
  a type assertion (\<open>ds_Casdoor\<close>); of any other source, \<open>Reconcile\<close> answers \<open>ds_Reconcile n\<close>.
\<close>

record DirectorySource =
  ds_SyncUser :: "nat \<Rightarrow> string \<Rightarrow> CasdoorDirectorySnapshot list res"
  ds_Casdoor :: "CasdoorDirectorySource option"
  ds_Reconcile :: "nat \<Rightarrow> unit res"

definition casdoor_source :: "(nat \<Rightarrow> directory_fetch) \<Rightarrow> CasdoorDirectorySource \<Rightarrow> DirectorySource" where
  "casdoor_source fetch d = \<lparr>ds_SyncUser = (\<lambda>n. casdoor_SyncUser (fetch n) d), ds_Casdoor = Some d,
     ds_Reconcile = (\<lambda>_. Inr ())\<rparr>"

text \<open>
  The factory of the identity provider's client: \<open>None\<close> is an error or a \<open>nil\<close> client. The mailer and
  the notifier are always there (\<open>NoopMailer\<close>, \<open>NoopSecurityNotifier\<close>).
\<close>

record Config =
  cfg_Issuer :: string
  cfg_MasterSecret :: string
  cfg_InternalTTL :: duration
  cfg_AgentTTL :: duration
  cfg_SessionTTL :: duration
  cfg_APIKeyPrefix :: string
  cfg_Policy :: Policy
  cfg_PolicyVersion :: string
  cfg_OIDCVerifier :: "OIDCVerifier option"
  cfg_OIDCTokenExchanger :: "exchanger option"
  cfg_OIDCFactory :: "(nat \<Rightarrow> OIDCClient option) option"
  cfg_OIDCRedirectURL :: string
  cfg_DirectorySource :: "DirectorySource option"
  cfg_DirectoryRefreshOnSession :: bool
  cfg_RegistrationPolicy :: string
  cfg_EmailVerificationRequired :: bool
  cfg_Templates :: "TemplateRegistry option"

text \<open>What the program runs in: the JSON codec, the libraries of the identity provider, clock and random source.\<close>

record Environment =
  env_json :: json_codec
  env_idp :: OIDCLibrary
  env_clock :: "nat \<Rightarrow> time"
  env_rand :: "nat \<Rightarrow> nat \<Rightarrow> char"

record Service =
  svc_cfg :: Config
  svc_signer :: Signer
  svc_json :: json_codec
  svc_directory :: "DirectorySource option"
  svc_oidc :: "OIDCVerifier option"
  svc_exchanger :: "exchanger option"
  svc_idp :: OIDCLibrary
  svc_mailer :: bool
  svc_templates :: "TemplateRegistry option"
  svc_clock :: "nat \<Rightarrow> time"
  svc_rand :: "nat \<Rightarrow> nat \<Rightarrow> char"

text \<open>\<open>w_oidcClient\<close> and \<open>w_oidcRetryAfter\<close>: the client that the factory made, and when it may be called again.\<close>

record 's World =
  w_store :: 's
  w_policy :: Policy
  w_policyVersion :: string
  w_registrationPolicy :: string
  w_notifier :: bool
  w_notified :: "SecurityEvent list"
  w_mails :: "Email list"
  w_oidcClient :: "OIDCClient option"
  w_oidcRetryAfter :: time
  w_clock :: nat
  w_draws :: nat
  w_lookups :: nat
  w_oidcCalls :: nat

section \<open>Store, clock and randomness\<close>

definition on_store :: "('s, 'a) op \<Rightarrow> ('s World, 'a) op" where
  "on_store m w = (fst (m (w_store w)), w\<lparr>w_store := snd (m (w_store w))\<rparr>)"

definition time_Now :: "Service \<Rightarrow> ('s World, time) op" where
  "time_Now svc w = (Inr (svc_clock svc (w_clock w)), w\<lparr>w_clock := Suc (w_clock w)\<rparr>)"

definition normalizeNow :: "Service \<Rightarrow> time \<Rightarrow> ('s World, time) op" where
  "normalizeNow svc now = (if IsZero now then time_Now svc else ret now)"

definition random_bytes :: "Service \<Rightarrow> nat \<Rightarrow> string" where
  "random_bytes svc n = map (svc_rand svc n) [0..<16]"

definition randomString :: "Service \<Rightarrow> ('s World, string) op" where
  "randomString svc w =
    (Inr (RawURLEncoding_EncodeToString (random_bytes svc (w_draws w))), w\<lparr>w_draws := Suc (w_draws w)\<rparr>)"

definition HashAPIKey :: "string \<Rightarrow> string" where
  "HashAPIKey token = (let sum = sha256_Sum256 (TrimSpace token) in hex_EncodeToString sum)"

definition codeChallengeS256 :: "string \<Rightarrow> string" where
  "codeChallengeS256 verifier = (let sum = sha256_Sum256 verifier in RawURLEncoding_EncodeToString sum)"

definition StableProjectionID :: "string \<Rightarrow> string list \<Rightarrow> string" where
  "StableProjectionID pre parts =
    (let sum = sha256_Sum256 (concat (map (\<lambda>part. TrimSpace part @ [CHR 0x00]) parts))
     in pre @ ''_'' @ hex_EncodeToString (take 12 sum))"

section \<open>Audit and notifications\<close>

definition audit_entry :: "Principal \<Rightarrow> string \<Rightarrow> ResourceRef option \<Rightarrow> string \<Rightarrow> string
    \<Rightarrow> ActorRef option \<Rightarrow> time \<Rightarrow> AuditEvent" where
  "audit_entry prin action resource decision jwtID actor createdAt =
    \<lparr>ev_TenantID = p_TenantID prin,
     ev_ActorType = (case actor of None \<Rightarrow> [] | Some a \<Rightarrow> actor_Type a),
     ev_ActorID = (case actor of None \<Rightarrow> [] | Some a \<Rightarrow> actor_ID a),
     ev_PrincipalType = p_Type prin, ev_PrincipalID = p_ID prin, ev_Action = action,
     ev_ResourceType = (case resource of None \<Rightarrow> [] | Some r \<Rightarrow> res_Type r),
     ev_ResourceID = (case resource of None \<Rightarrow> [] | Some r \<Rightarrow> res_ID r),
     ev_Decision = decision, ev_JWTID = jwtID, ev_CreatedAt = createdAt\<rparr>"

definition auditWithActor :: "'s Store \<Rightarrow> Service \<Rightarrow> Principal \<Rightarrow> string \<Rightarrow> ResourceRef option \<Rightarrow> string
    \<Rightarrow> string \<Rightarrow> ActorRef option \<Rightarrow> ('s World, unit) op" where
  "auditWithActor st svc prin action resource decision jwtID actor =
    bnd (time_Now svc) (\<lambda>createdAt. ignore_err (on_store (store_AppendAudit st
      (audit_entry prin action resource decision jwtID actor createdAt))))"

definition audit :: "'s Store \<Rightarrow> Service \<Rightarrow> Principal \<Rightarrow> string \<Rightarrow> ResourceRef option \<Rightarrow> string
    \<Rightarrow> string \<Rightarrow> ('s World, unit) op" where
  "audit st svc prin action resource decision jwtID =
    auditWithActor st svc prin action resource decision jwtID None"

definition notifySecurity :: "Service \<Rightarrow> SecurityEvent \<Rightarrow> ('s World, unit) op" where
  "notifySecurity svc event =
    bnd (get_st w_notifier) (\<lambda>notifier.
      if \<not> notifier then ret ()
      else if TrimSpace (se_Type event) = [] then ret ()
      else bnd (if IsZero (se_CreatedAt event) then time_Now svc else ret (se_CreatedAt event)) (\<lambda>createdAt.
        let event = event\<lparr>se_CreatedAt := createdAt\<rparr>;
            event = (if TrimSpace (se_Severity event) = []
                     then event\<lparr>se_Severity := securitySeverityFor (se_Type event)\<rparr> else event)
        in upd_st (\<lambda>w. w\<lparr>w_notified := w_notified w @ [event]\<rparr>)))"

section \<open>Policy settings\<close>

definition Service_Policy :: "'s World \<Rightarrow> Policy" where
  "Service_Policy w =
    (if pol_roleScopes (w_policy w) = None then DefaultPolicy
     else \<lparr>pol_roleScopes = Some (RoleScopes (w_policy w))\<rparr>)"

definition scopesForRoles :: "RoleGrant list \<Rightarrow> ('s World, string list) op" where
  "scopesForRoles roles = get_st (\<lambda>w. ScopesForRoles (Service_Policy w) roles)"

definition scopesForActions :: "RoleGrant list \<Rightarrow> string \<Rightarrow> string list \<Rightarrow> ('s World, string list) op" where
  "scopesForActions roles audience actions = get_st (\<lambda>w. ScopesForActions (Service_Policy w) roles audience actions)"

definition normalizeRegistrationPolicy :: "string \<Rightarrow> string" where
  "normalizeRegistrationPolicy val =
    (let v = ToLower (TrimSpace val) in
     if v \<in> set [RegistrationPolicyApprovalRequired, ''approval-required'', ''approvalrequired'']
     then RegistrationPolicyApprovalRequired
     else if v = RegistrationPolicyClosed then RegistrationPolicyClosed
     else RegistrationPolicyOpen)"

definition UpdatePolicy :: "Policy \<Rightarrow> 's World \<Rightarrow> 's World" where
  "UpdatePolicy policy w =
    (let policy = (if pol_roleScopes policy = None then DefaultPolicy else policy)
     in w\<lparr>w_policy := policy, w_policyVersion := TrimSpace (w_policyVersion w)\<rparr>)"

definition UpdatePolicyVersion :: "string \<Rightarrow> 's World \<Rightarrow> 's World" where
  "UpdatePolicyVersion version w = w\<lparr>w_policyVersion := TrimSpace version\<rparr>"

definition UpdateRegistrationPolicy :: "string \<Rightarrow> 's World \<Rightarrow> 's World" where
  "UpdateRegistrationPolicy policy w = w\<lparr>w_registrationPolicy := normalizeRegistrationPolicy policy\<rparr>"

definition SetSecurityNotifier :: "'s World \<Rightarrow> 's World" where
  "SetSecurityNotifier w = w\<lparr>w_notifier := True\<rparr>"

definition firstNonEmpty :: "string list \<Rightarrow> string" where
  "firstNonEmpty values = (case find (\<lambda>v. TrimSpace v \<noteq> []) values of None \<Rightarrow> [] | Some v \<Rightarrow> v)"

section \<open>Construction\<close>

text \<open>The defaults of \<open>NewService\<close> (before the signer is built).\<close>

definition config_defaults :: "Config \<Rightarrow> Config" where
  "config_defaults cfg =
    (let cfg = (if TrimSpace (cfg_Issuer cfg) = [] then cfg\<lparr>cfg_Issuer := ''warden''\<rparr> else cfg);
         cfg = (if cfg_InternalTTL cfg \<le> 0 then cfg\<lparr>cfg_InternalTTL := 5 * Minute\<rparr> else cfg);
         cfg = (if cfg_AgentTTL cfg \<le> 0 \<or> cfg_InternalTTL cfg < cfg_AgentTTL cfg
                then let cfg = cfg\<lparr>cfg_AgentTTL := cfg_InternalTTL cfg div 2\<rparr>
                     in if cfg_AgentTTL cfg \<le> 0 then cfg\<lparr>cfg_AgentTTL := Minute\<rparr> else cfg
                else cfg);
         cfg = (if cfg_SessionTTL cfg \<le> 0 then cfg\<lparr>cfg_SessionTTL := 24 * Hour\<rparr> else cfg);
         cfg = (if cfg_APIKeyPrefix cfg = [] then cfg\<lparr>cfg_APIKeyPrefix := ''sak''\<rparr> else cfg);
         cfg = (if TrimSpace (cfg_RegistrationPolicy cfg) = []
                then cfg\<lparr>cfg_RegistrationPolicy := RegistrationPolicyOpen\<rparr> else cfg)
     in cfg)"

text \<open>
  The checks of \<open>NewService\<close> before them and the rest of it after; \<open>s\<close> is the state of the given store. A
  source of this package is bound to the service, unless it is bound to another one.
\<close>

definition check_factory :: "Config \<Rightarrow> unit res" where
  "check_factory cfg =
    (case cfg_OIDCFactory cfg of
       None \<Rightarrow> Inr ()
     | Some _ \<Rightarrow>
       if cfg_OIDCVerifier cfg \<noteq> None \<or> cfg_OIDCTokenExchanger cfg \<noteq> None
       then Inl (Errorf ''OIDC factory cannot coexist with a second verifier or exchanger'')
       else (case oidcEndpoint (cfg_OIDCRedirectURL cfg) of Inl e \<Rightarrow> Inl e | Inr _ \<Rightarrow> Inr ()))"

definition source_bind :: "'s Store \<Rightarrow> DirectorySource option \<Rightarrow> DirectorySource option res" where
  "source_bind st source =
    (case source of
       None \<Rightarrow> Inr None
     | Some src \<Rightarrow>
       (case ds_Casdoor src of
          None \<Rightarrow> Inr (Some src)
        | Some d \<Rightarrow>
          if cds_service d then Inl (Errorf ''casdoor directory cannot be shared by separate Warden services'')
          else if store_ListDirectorySubjects st = None
          then Inl (Errorf ''directory projection store cannot enumerate subjects'')
          else Inr (Some (src\<lparr>ds_Casdoor := Some (d\<lparr>cds_service := True\<rparr>)\<rparr>))))"

definition NewService :: "Config \<Rightarrow> Environment \<Rightarrow> 's Store \<Rightarrow> 's \<Rightarrow> (Service \<times> 's World) res" where
  "NewService cfg0 env st s =
    (case check_factory cfg0 of
       Inl e \<Rightarrow> Inl e
     | Inr _ \<Rightarrow>
       let cfg = config_defaults cfg0 in
       (case NewSigner (cfg_Issuer cfg) (cfg_MasterSecret cfg) (cfg_InternalTTL cfg) of
          Inl e \<Rightarrow> Inl e
        | Inr signer \<Rightarrow>
          let policy = (if pol_roleScopes (cfg_Policy cfg) = None then DefaultPolicy else cfg_Policy cfg);
              templates = (if cfg_Templates cfg = None then DefaultTemplateRegistry else cfg_Templates cfg) in
          if cfg_DirectoryRefreshOnSession cfg \<and> cfg_DirectorySource cfg = None
          then Inl (Errorf ''directory refresh requires a directory source'')
          else (case source_bind st (cfg_DirectorySource cfg) of
             Inl e \<Rightarrow> Inl e
           | Inr directory \<Rightarrow>
             Inr (\<lparr>svc_cfg = cfg, svc_signer = signer, svc_json = env_json env, svc_directory = directory,
                   svc_oidc = cfg_OIDCVerifier cfg, svc_exchanger = cfg_OIDCTokenExchanger cfg, svc_idp = env_idp env,
                   svc_mailer = True, svc_templates = templates, svc_clock = env_clock env, svc_rand = env_rand env\<rparr>,
                  \<lparr>w_store = s, w_policy = policy, w_policyVersion = TrimSpace (cfg_PolicyVersion cfg),
                   w_registrationPolicy = normalizeRegistrationPolicy (cfg_RegistrationPolicy cfg),
                   w_notifier = True, w_notified = [], w_mails = [], w_oidcClient = None,
                   w_oidcRetryAfter = zero_time, w_clock = 0, w_draws = 0, w_lookups = 0, w_oidcCalls = 0\<rparr>))))"

section \<open>The identity provider\<close>

text \<open>The number of the next call of one of the identity provider's libraries.\<close>

definition oidc_call :: "('s World, nat) op" where
  "oidc_call w = (Inr (w_oidcCalls w), w\<lparr>w_oidcCalls := Suc (w_oidcCalls w)\<rparr>)"

text \<open>
  \<open>resolveOIDC\<close> (\<open>src/warden/oidc_authority.go\<close>), in a context that is not cancelled; the gate admits one
  caller at a time.
\<close>

definition resolveOIDC :: "Service \<Rightarrow> ('s World, OIDCVerifier option \<times> exchanger option) op" where
  "resolveOIDC svc =
    (case cfg_OIDCFactory (svc_cfg svc) of
       None \<Rightarrow> ret (svc_oidc svc, svc_exchanger svc)
     | Some factory \<Rightarrow>
       bnd (get_st w_oidcClient) (\<lambda>cached. case cached of
          Some client \<Rightarrow> ret (ocl_Verifier client, Some (Client client))
        | None \<Rightarrow>
          bnd (time_Now svc) (\<lambda>now.
          bnd (get_st w_oidcRetryAfter) (\<lambda>retryAfter.
            if Before now retryAfter then fail ErrOIDCUnavailable
            else bnd oidc_call (\<lambda>n.
              let usable = (case factory n of None \<Rightarrow> None
                   | Some client \<Rightarrow> (case ocl_Verifier client of None \<Rightarrow> None
                     | Some v \<Rightarrow> if ov_RedirectURL v = cfg_OIDCRedirectURL (svc_cfg svc) then Some client else None)) in
              case usable of
                None \<Rightarrow>
                  bnd (time_Now svc) (\<lambda>t.
                  bnd (upd_st (\<lambda>w. w\<lparr>w_oidcRetryAfter := t + 2 * Second\<rparr>)) (\<lambda>_. fail ErrOIDCUnavailable))
              | Some client \<Rightarrow>
                  bnd (upd_st (\<lambda>w. w\<lparr>w_oidcClient := Some client\<rparr>)) (\<lambda>_.
                  ret (ocl_Verifier client, Some (Client client))))))))"

text \<open>
  The verifier in the running service: the time of its own clock, if it has one. The reading of the clock is
  counted also when the token is refused before the time is looked at.
\<close>

definition oidc_Now :: "Service \<Rightarrow> OIDCVerifier \<Rightarrow> ('s World, time) op" where
  "oidc_Now svc v = bnd (time_Now svc) (\<lambda>now. get_st (\<lambda>w. case ov_Now v of None \<Rightarrow> now | Some f \<Rightarrow> f (w_clock w)))"

definition VerifyIDToken :: "Service \<Rightarrow> OIDCVerifier \<Rightarrow> string \<Rightarrow> string \<Rightarrow> ('s World, OIDCClaims) op" where
  "VerifyIDToken svc v raw expectedNonce =
    bnd (oidc_Now svc v) (\<lambda>now. bnd oidc_call (\<lambda>n.
    lift_res (oidc_VerifyIDToken (svc_idp svc) n now v raw expectedNonce)))"

definition VerifyTokenSet :: "Service \<Rightarrow> OIDCVerifier \<Rightarrow> OIDCTokenSet \<Rightarrow> string \<Rightarrow> ('s World, OIDCClaims) op" where
  "VerifyTokenSet svc v tokens expectedNonce =
    bnd (oidc_Now svc v) (\<lambda>now. bnd oidc_call (\<lambda>n.
    lift_res (oidc_VerifyTokenSet (svc_idp svc) n now v tokens expectedNonce)))"

definition exchange_code :: "Service \<Rightarrow> exchanger \<Rightarrow> string \<Rightarrow> string \<Rightarrow> ('s World, OIDCTokenSet) op" where
  "exchange_code svc exchanger code verifier =
    bnd oidc_call (\<lambda>n. lift_res
      (case exchanger of Client c \<Rightarrow> ExchangeCode (svc_idp svc) n c code verifier
       | ExternalExchanger f \<Rightarrow> f n code verifier))"

end
