(* ===== verification/Warden_Directory.thy ===== *)
theory Warden_Directory
  imports Warden_World
begin

text \<open>
  \<open>src/warden/directory.go\<close>: the projection of directory snapshots into tenants and principals, and
  the refresh of one principal against the directory.
\<close>

section \<open>Projection of roles and groups\<close>

fun normalized_roles_from :: "string list \<Rightarrow> string list \<Rightarrow> RoleGrant list" where
  "normalized_roles_from seen [] = []"
| "normalized_roles_from seen (role # rest) =
    (let (key, ok) = NormalizeRoleKey role in
     if \<not> ok \<or> key \<in> set seen then normalized_roles_from seen rest
     else \<lparr>role_Key = key, role_ScopeType = [], role_ScopeID = []\<rparr> # normalized_roles_from (key # seen) rest)"

definition normalizedDirectoryRoles :: "string list \<Rightarrow> RoleGrant list" where
  "normalizedDirectoryRoles roles =
    (let out = normalized_roles_from [] roles in
     if length out = 0 then out @ [\<lparr>role_Key = RoleFrontendUser, role_ScopeType = [], role_ScopeID = []\<rparr>]
     else out)"

fun unknown_roles_from :: "string list \<Rightarrow> string list \<Rightarrow> string list" where
  "unknown_roles_from seen [] = []"
| "unknown_roles_from seen (role # rest) =
    (let trimmed = TrimSpace role in
     if trimmed = [] then unknown_roles_from seen rest
     else if snd (NormalizeRoleKey trimmed) then unknown_roles_from seen rest
     else if trimmed \<in> set seen then unknown_roles_from seen rest
     else trimmed # unknown_roles_from (trimmed # seen) rest)"

definition unknownDirectoryRoles :: "string list \<Rightarrow> string list" where
  "unknownDirectoryRoles roles = unknown_roles_from [] roles"

definition parentTeamID :: "string \<Rightarrow> string \<Rightarrow> string" where
  "parentTeamID tenantID parentGroupID =
    (if TrimSpace parentGroupID = [] then [] else StableProjectionID ''team'' [tenantID, parentGroupID])"

definition directoryTeams :: "string \<Rightarrow> CasdoorGroup list \<Rightarrow> Team list" where
  "directoryTeams tenantID groups =
    map (\<lambda>group. \<lparr>team_ID = StableProjectionID ''team'' [tenantID, cg_ID group], team_TenantID = tenantID,
        team_CasdoorGroupID = cg_ID group, team_Name = cg_Name group, team_DisplayName = cg_DisplayName group,
        team_ParentTeamID = parentTeamID tenantID (cg_ParentGroupID group), team_Status = ''active''\<rparr>)
      (filter (\<lambda>group. TrimSpace (cg_ID group) \<noteq> []) groups)"

section \<open>Synchronising one snapshot\<close>

text \<open>The principal a snapshot projects to, before the status of an existing principal is looked at.\<close>

definition directory_principal :: "string \<Rightarrow> CasdoorDirectorySnapshot \<Rightarrow> Principal" where
  "directory_principal tenantID snapshot =
    (let user = snap_User snapshot in
     \<lparr>p_ID = StableProjectionID ''principal'' [tenantID, cu_ID user], p_TenantID = tenantID,
      p_CasdoorUserID = cu_ID user, p_Username = cu_Username user, p_Email = cu_Email user,
      p_DisplayName = cu_DisplayName user, p_Type = PrincipalTypeUser, p_Status = PrincipalStatusActive,
      p_EmailVerified = cu_EmailVerified user, p_Roles = normalizedDirectoryRoles (snap_Roles snapshot),
      p_Teams = directoryTeams tenantID (snap_Groups snapshot)\<rparr>)"

definition report_unknown_role :: "'s Store \<Rightarrow> Service \<Rightarrow> Principal \<Rightarrow> string \<Rightarrow> ('s World, unit) op" where
  "report_unknown_role st svc prin role =
    bnd (audit st svc prin ''directory.unknown_role'' (Some \<lparr>res_Type = ''role'', res_ID = role\<rparr>) ''deny'' [])
     (\<lambda>_. notifySecurity svc
       \<lparr>se_Type = ''directory.unknown_role'', se_TenantID = p_TenantID prin, se_PrincipalID = p_ID prin,
        se_SourceApp = ''warden'', se_Severity = [],
        se_Title = securityTitleFor ''directory.unknown_role'' (p_ID prin),
        se_Body = securityBodyFor ''directory.unknown_role'' (p_ID prin) role,
        se_Href = [], se_CreatedAt = zero_time\<rparr>)"

text \<open>The status a synchronised principal gets: \<open>existing\<close> is the principal already stored, if any.\<close>

definition synced_status :: "string \<Rightarrow> Principal option \<Rightarrow> bool \<Rightarrow> string" where
  "synced_status registrationPolicy existing user_disabled =
    (let existingExists = (case existing of None \<Rightarrow> False | Some e \<Rightarrow> p_ID e \<noteq> []);
         status = (case existing of Some e \<Rightarrow> if p_ID e \<noteq> [] then p_Status e else PrincipalStatusActive
                   | None \<Rightarrow> PrincipalStatusActive)
     in if user_disabled then PrincipalStatusDisabled
        else if \<not> existingExists
          \<and> registrationPolicy \<in> set [RegistrationPolicyApprovalRequired, RegistrationPolicyClosed]
        then PrincipalStatusPending
        else status)"

definition sync_principal ::
  "'s Store \<Rightarrow> Service \<Rightarrow> Principal \<Rightarrow> bool \<Rightarrow> Principal option \<Rightarrow> ('s World, Principal) op" where
  "sync_principal st svc prin user_disabled existing =
    bnd (get_st w_registrationPolicy) (\<lambda>policy.
      let prin = prin\<lparr>p_Status := synced_status policy existing user_disabled\<rparr> in
      bnd (on_store (store_UpsertPrincipal st prin)) (\<lambda>_.
      bnd (if p_Status prin = PrincipalStatusDisabled
           then on_store (store_DeleteSessionsByPrincipal st (p_ID prin)) else ret ()) (\<lambda>_.
      bnd (audit st svc prin ''directory.sync'' None ''allow'' []) (\<lambda>_.
      ret prin))))"

definition sync_in_tenant ::
  "'s Store \<Rightarrow> Service \<Rightarrow> CasdoorDirectorySnapshot \<Rightarrow> Tenant \<Rightarrow> ('s World, Principal) op" where
  "sync_in_tenant st svc snapshot tenant0 =
    (let tenant = (if ten_Status tenant0 = [] then tenant0\<lparr>ten_Status := ''active''\<rparr> else tenant0);
         prin = directory_principal (ten_ID tenant) snapshot;
         user_disabled = cu_Disabled (snap_User snapshot) in
     bnd (on_store (store_UpsertTenant st tenant)) (\<lambda>_.
     bnd (for_each (report_unknown_role st svc prin) (unknownDirectoryRoles (snap_Roles snapshot))) (\<lambda>_.
     on_err (on_store (store_GetPrincipal st (p_ID prin)))
       (\<lambda>err. if \<not> errors_Is err ErrNotFound then fail err
              else sync_principal st svc prin user_disabled None)
       (\<lambda>existing. sync_principal st svc prin user_disabled (Some existing)))))"

definition SyncDirectorySnapshot :: "'s Store \<Rightarrow> Service \<Rightarrow> CasdoorDirectorySnapshot \<Rightarrow> ('s World, Principal) op" where
  "SyncDirectorySnapshot st svc snapshot =
    (if TrimSpace (ten_ID (snap_Tenant snapshot)) = [] then fail ErrInvalidInput
     else if TrimSpace (cu_ID (snap_User snapshot)) = [] then fail ErrInvalidInput
     else let tenant = snap_Tenant snapshot in
       on_err (on_store (store_GetTenant st (ten_ID tenant)))
        (\<lambda>err. if \<not> errors_Is err ErrNotFound then fail err else sync_in_tenant st svc snapshot tenant)
        (\<lambda>existingTenant.
          let tenant = (if ten_Status existingTenant = PrincipalStatusDisabled
                        then tenant\<lparr>ten_Status := PrincipalStatusDisabled\<rparr> else tenant) in
          if ten_CasdoorOrgName existingTenant \<noteq> []
             \<and> ten_CasdoorOrgName existingTenant \<noteq> ten_CasdoorOrgName tenant
          then fail ErrInvalidInput
          else sync_in_tenant st svc snapshot tenant))"

section \<open>Synchronising and refreshing a user\<close>

definition directory_lookup :: "DirectorySource \<Rightarrow> string \<Rightarrow> ('s World, CasdoorDirectorySnapshot list) op" where
  "directory_lookup source casdoorUserID w =
    (ds_SyncUser source (w_lookups w) casdoorUserID, w\<lparr>w_lookups := Suc (w_lookups w)\<rparr>)"

definition SyncDirectoryUser ::
  "'s Store \<Rightarrow> Service \<Rightarrow> DirectorySource option \<Rightarrow> string \<Rightarrow> ('s World, Principal list) op" where
  "SyncDirectoryUser st svc source casdoorUserID =
    (case source of None \<Rightarrow> fail ErrInvalidInput
     | Some src \<Rightarrow>
       if TrimSpace casdoorUserID = [] then fail ErrInvalidInput
       else bnd (directory_lookup src casdoorUserID) (\<lambda>snapshots.
         if \<exists>snapshot \<in> set snapshots. cu_ID (snap_User snapshot) \<noteq> casdoorUserID then fail ErrUnauthorized
         else for_each (SyncDirectorySnapshot st svc) snapshots))"

definition revokeDirectoryPrincipal :: "'s Store \<Rightarrow> Service \<Rightarrow> Principal \<Rightarrow> ('s World, 'a) op" where
  "revokeDirectoryPrincipal st svc prin =
    bnd (on_store (store_UpdatePrincipalStatus st (p_ID prin) PrincipalStatusDisabled)) (\<lambda>_.
    bnd (on_store (store_DeleteSessionsByPrincipal st (p_ID prin))) (\<lambda>_.
    bnd (audit st svc prin ''directory.membership_revoked'' None ''deny'' []) (\<lambda>_.
    fail ErrUnauthorized)))"

definition refreshDirectoryPrincipal :: "'s Store \<Rightarrow> Service \<Rightarrow> Principal \<Rightarrow> ('s World, Principal) op" where
  "refreshDirectoryPrincipal st svc prin =
    bnd (SyncDirectoryUser st svc (svc_directory svc) (p_CasdoorUserID prin)) (\<lambda>principals.
      case find (\<lambda>refreshed. p_ID refreshed = p_ID prin) principals of
        Some refreshed \<Rightarrow> ret refreshed
      | None \<Rightarrow> revokeDirectoryPrincipal st svc prin)"

end
