(* ===== verification/Warden_Sessions.thy ===== *)
theory Warden_Sessions
  imports Warden_Directory
begin

text \<open>
  The sessions of \<open>src/warden/service.go\<close>: creation and validation, the identity context, switching
  tenant and team; and \<open>src/warden/principal_admin.go\<close>, whose operations start from a validated
  session.
\<close>

section \<open>Sessions\<close>

definition CreateSession :: "'s Store \<Rightarrow> Service \<Rightarrow> string \<Rightarrow> time \<Rightarrow> ('s World, Session) op" where
  "CreateSession st svc principalID now0 =
    bnd (normalizeNow svc now0) (\<lambda>now.
    bnd (on_store (store_GetPrincipal st principalID)) (\<lambda>prin.
    bnd (on_store (store_GetTenant st (p_TenantID prin))) (\<lambda>tenant.
      if ten_Status tenant = PrincipalStatusDisabled then fail ErrDisabled
      else if p_Status prin = ''disabled'' then fail ErrDisabled
      else if p_Status prin = ''pending'' then fail ErrAuthorizationPending
      else bnd (randomString svc) (\<lambda>rnd.
        let session = \<lparr>sess_ID = ''sess_'' @ rnd, sess_PrincipalID = p_ID prin,
              sess_TenantID = p_TenantID prin, sess_CurrentTeamID = [], sess_AuthTime = now,
              sess_ExpiresAt = now + cfg_SessionTTL (svc_cfg svc), sess_Source = SessionSourceWeb\<rparr> in
        bnd (on_store (store_PutSession st session)) (\<lambda>_. ret session)))))"

definition expired :: "time \<Rightarrow> time \<Rightarrow> bool" where
  "expired expiresAt now \<longleftrightarrow> \<not> IsZero expiresAt \<and> \<not> Before now expiresAt"

definition check_status :: "Session \<Rightarrow> Principal \<Rightarrow> ('s World, Session \<times> Principal) op" where
  "check_status session prin =
    (if p_Status prin = ''disabled'' then fail ErrDisabled
     else if p_Status prin = ''pending'' then fail ErrAuthorizationPending
     else ret (session, prin))"

definition ValidateSession :: "'s Store \<Rightarrow> Service \<Rightarrow> string \<Rightarrow> time \<Rightarrow> ('s World, Session \<times> Principal) op" where
  "ValidateSession st svc sessionID now0 =
    bnd (normalizeNow svc now0) (\<lambda>now.
    on_err (on_store (store_GetSession st (TrimSpace sessionID))) (\<lambda>_. fail ErrUnauthorized) (\<lambda>session.
      if expired (sess_ExpiresAt session) now
      then bnd (ignore_err (on_store (store_DeleteSession st (sess_ID session)))) (\<lambda>_. fail ErrUnauthorized)
      else on_err (on_store (store_GetTenant st (sess_TenantID session))) (\<lambda>_. fail ErrUnauthorized) (\<lambda>tenant.
        if ten_Status tenant = PrincipalStatusDisabled then fail ErrUnauthorized
        else on_err (on_store (store_GetPrincipal st (sess_PrincipalID session))) (\<lambda>_. fail ErrUnauthorized) (\<lambda>prin.
          if p_TenantID prin \<noteq> sess_TenantID session then fail ErrUnauthorized
          else if cfg_DirectoryRefreshOnSession (svc_cfg svc) \<and> p_CasdoorUserID prin \<noteq> []
          then on_err (refreshDirectoryPrincipal st svc prin)
            (\<lambda>err. if errors_Is err ErrDirectoryUnavailable then fail ErrDirectoryUnavailable
                   else fail ErrUnauthorized)
            (\<lambda>refreshed. check_status session refreshed)
          else check_status session prin))))"

section \<open>Identity context\<close>

fun available_from ::
  "'s Store \<Rightarrow> string list \<Rightarrow> Principal list \<Rightarrow> ('s World, TenantContext list) op" where
  "available_from st seen [] = ret []"
| "available_from st seen (candidate # rest) =
    (if p_Status candidate = ''disabled'' \<or> p_TenantID candidate \<in> set seen then available_from st seen rest
     else bnd (on_store (store_GetTenant st (p_TenantID candidate))) (\<lambda>tenant.
       bnd (available_from st (p_TenantID candidate # seen) rest) (\<lambda>out.
       ret (\<lparr>tc_ID = ten_ID tenant, tc_Slug = ten_Slug tenant, tc_DisplayName = ten_DisplayName tenant\<rparr> # out))))"

definition availableTenants :: "'s Store \<Rightarrow> Principal \<Rightarrow> ('s World, TenantContext list) op" where
  "availableTenants st prin =
    bnd (if p_CasdoorUserID prin \<noteq> []
         then bnd (on_store (store_ListPrincipalsByCasdoorUser st (p_CasdoorUserID prin))) (\<lambda>loaded.
           ret (if 0 < length loaded then loaded else [prin]))
         else ret [prin])
     (\<lambda>principals. available_from st [] principals)"

definition team_context :: "Team \<Rightarrow> TeamContext" where
  "team_context team = \<lparr>tmc_ID = team_ID team, tmc_Name = team_Name team, tmc_DisplayName = team_DisplayName team\<rparr>"

text \<open>The last team whose ID is the session's current team.\<close>

definition current_team :: "Principal \<Rightarrow> Session \<Rightarrow> TeamContext option" where
  "current_team prin session =
    map_option team_context (find (\<lambda>team. team_ID team = sess_CurrentTeamID session) (rev (p_Teams prin)))"

definition IdentityContext :: "'s Store \<Rightarrow> Service \<Rightarrow> string \<Rightarrow> time \<Rightarrow> ('s World, IdentityContext_t) op" where
  "IdentityContext st svc sessionID now =
    bnd (ValidateSession st svc sessionID now) (\<lambda>(session, prin).
    bnd (on_store (store_GetTenant st (sess_TenantID session))) (\<lambda>tenant.
    bnd (scopesForRoles (p_Roles prin)) (\<lambda>scopes.
    bnd (availableTenants st prin) (\<lambda>tenants.
    ret \<lparr>ic_Subject = \<lparr>sc_PrincipalID = p_ID prin, sc_ExternalID = p_CasdoorUserID prin,
            sc_Username = p_Username prin, sc_DisplayName = p_DisplayName prin\<rparr>,
         ic_CurrentTenant = \<lparr>tc_ID = ten_ID tenant, tc_Slug = ten_Slug tenant,
            tc_DisplayName = ten_DisplayName tenant\<rparr>,
         ic_CurrentTeam = current_team prin session, ic_AvailableTenants = tenants,
         ic_Teams = map team_context (p_Teams prin), ic_RoleKeys = roleKeys (p_Roles prin),
         ic_Permissions = scopes, ic_ConsoleAccess = ConsoleAccess (p_Roles prin),
         ic_Apps = AppsForScopes scopes, ic_EmailVerified = p_EmailVerified prin\<rparr>))))"

definition validateTeamSelection :: "Principal \<Rightarrow> string \<Rightarrow> string res" where
  "validateTeamSelection prin teamID0 =
    (let teamID = TrimSpace teamID0 in
     if teamID = [] then Inr []
     else if \<exists>team \<in> set (p_Teams prin). team_ID team = teamID \<and> team_TenantID team = p_TenantID prin
               \<and> team_Status team \<noteq> ''disabled''
     then Inr teamID else Inl ErrForbidden)"

definition SwitchTenant :: "'s Store \<Rightarrow> Service \<Rightarrow> SwitchTenantRequest \<Rightarrow> ('s World, IdentityContext_t) op" where
  "SwitchTenant st svc req =
    bnd (ValidateSession st svc (swt_SessionID req) (swt_Now req)) (\<lambda>(session, prin).
      let targetTenantID = TrimSpace (swt_TenantID req) in
      if targetTenantID = [] then fail ErrInvalidInput
      else bnd (if targetTenantID \<noteq> sess_TenantID session
                then if p_CasdoorUserID prin = [] then fail ErrForbidden
                  else bnd (on_store (store_ListPrincipalsByCasdoorUser st (p_CasdoorUserID prin))) (\<lambda>principals.
                    case find (\<lambda>candidate. p_TenantID candidate = targetTenantID \<and> p_Status candidate \<noteq> ''disabled'')
                           principals of
                      Some candidate \<Rightarrow> ret candidate
                    | None \<Rightarrow> fail ErrForbidden)
                else ret prin) (\<lambda>targetPrincipal.
        bnd (lift_res (validateTeamSelection targetPrincipal (swt_TeamID req))) (\<lambda>teamID.
        bnd (on_store (store_UpdateSessionContext st (sess_ID session) (p_ID targetPrincipal)
               (p_TenantID targetPrincipal) teamID)) (\<lambda>_.
        IdentityContext st svc (sess_ID session) (swt_Now req)))))"

definition SwitchTeam :: "'s Store \<Rightarrow> Service \<Rightarrow> SwitchTeamRequest \<Rightarrow> ('s World, IdentityContext_t) op" where
  "SwitchTeam st svc req =
    bnd (ValidateSession st svc (swm_SessionID req) (swm_Now req)) (\<lambda>(session, prin).
    bnd (lift_res (validateTeamSelection prin (swm_TeamID req))) (\<lambda>teamID.
    bnd (on_store (store_UpdateSessionContext st (sess_ID session) (p_ID prin) (sess_TenantID session) teamID)) (\<lambda>_.
    IdentityContext st svc (sess_ID session) (swm_Now req))))"

section \<open>Administration of principals\<close>

definition requirePrincipalAdmin :: "'s Store \<Rightarrow> Service \<Rightarrow> string \<Rightarrow> time \<Rightarrow> ('s World, Principal) op" where
  "requirePrincipalAdmin st svc sessionID now =
    bnd (ValidateSession st svc sessionID now) (\<lambda>(session, prin).
      if \<not> canManageServiceAccounts (p_Roles prin) then fail ErrForbidden else ret prin)"

definition defaultDisplayName :: "Principal \<Rightarrow> string" where
  "defaultDisplayName p =
    (if TrimSpace (p_DisplayName p) \<noteq> [] then p_DisplayName p
     else if TrimSpace (p_Username p) \<noteq> [] then p_Username p
     else p_ID p)"

definition notifyPrincipalDecision :: "Service \<Rightarrow> Principal \<Rightarrow> string \<Rightarrow> ('s World, unit) op" where
  "notifyPrincipalDecision svc prin decision =
    (let email = TrimSpace (p_Email prin) in
     if email = [] \<or> \<not> svc_mailer svc then ret ()
     else let templateName = ''principal.'' @ decision in
       (case Render (svc_templates svc) templateName [(''DisplayName'', defaultDisplayName prin)] of
          Inl err \<Rightarrow> ret ()
        | Inr msg \<Rightarrow> upd_st (\<lambda>w. w\<lparr>w_mails := w_mails w @ [msg\<lparr>mail_To := email\<rparr>]\<rparr>)))"

definition admin_event :: "string \<Rightarrow> Principal \<Rightarrow> string \<Rightarrow> SecurityEvent" where
  "admin_event type actor principalID =
    \<lparr>se_Type = type, se_TenantID = p_TenantID actor, se_PrincipalID = principalID, se_SourceApp = ''warden'',
     se_Severity = [], se_Title = securityTitleFor type principalID,
     se_Body = securityBodyFor type principalID [], se_Href = [], se_CreatedAt = zero_time\<rparr>"

definition DisablePrincipal :: "'s Store \<Rightarrow> Service \<Rightarrow> string \<Rightarrow> string \<Rightarrow> time \<Rightarrow> ('s World, Principal) op" where
  "DisablePrincipal st svc sessionID principalID now =
    bnd (requirePrincipalAdmin st svc sessionID now) (\<lambda>actor.
      if TrimSpace principalID = [] then fail ErrInvalidInput
      else on_err (on_store (store_UpdatePrincipalStatus st principalID PrincipalStatusDisabled))
        (\<lambda>err. if errors_Is err ErrNotFound then fail ErrNotFound else fail err) (\<lambda>_.
      bnd (on_store (store_DeleteSessionsByPrincipal st principalID)) (\<lambda>_.
      bnd (on_store (store_GetPrincipal st principalID)) (\<lambda>updated.
      bnd (audit st svc actor ''principal.disable''
             (Some \<lparr>res_Type = ''principal'', res_ID = principalID\<rparr>) ''allow'' []) (\<lambda>_.
      bnd (notifySecurity svc (admin_event ''principal.disable'' actor principalID)) (\<lambda>_.
      ret updated))))))"

definition EnablePrincipal :: "'s Store \<Rightarrow> Service \<Rightarrow> string \<Rightarrow> string \<Rightarrow> time \<Rightarrow> ('s World, Principal) op" where
  "EnablePrincipal st svc sessionID principalID now =
    bnd (requirePrincipalAdmin st svc sessionID now) (\<lambda>actor.
      if TrimSpace principalID = [] then fail ErrInvalidInput
      else on_err (on_store (store_UpdatePrincipalStatus st principalID PrincipalStatusActive))
        (\<lambda>err. if errors_Is err ErrNotFound then fail ErrNotFound else fail err) (\<lambda>_.
      bnd (on_store (store_GetPrincipal st principalID)) (\<lambda>updated.
      bnd (audit st svc actor ''principal.enable''
             (Some \<lparr>res_Type = ''principal'', res_ID = principalID\<rparr>) ''allow'' []) (\<lambda>_.
      ret updated))))"

definition ApprovePrincipal :: "'s Store \<Rightarrow> Service \<Rightarrow> string \<Rightarrow> string \<Rightarrow> time \<Rightarrow> ('s World, Principal) op" where
  "ApprovePrincipal st svc sessionID principalID now =
    bnd (requirePrincipalAdmin st svc sessionID now) (\<lambda>actor.
      if TrimSpace principalID = [] then fail ErrInvalidInput
      else bnd (on_store (store_GetPrincipal st principalID)) (\<lambda>current.
      if p_Status current \<noteq> PrincipalStatusPending then fail ErrForbidden
      else bnd (on_store (store_UpdatePrincipalStatus st principalID PrincipalStatusActive)) (\<lambda>_.
      bnd (on_store (store_GetPrincipal st principalID)) (\<lambda>updated.
      bnd (audit st svc actor ''principal.approve''
             (Some \<lparr>res_Type = ''principal'', res_ID = principalID\<rparr>) ''allow'' []) (\<lambda>_.
      bnd (notifyPrincipalDecision svc updated ''approved'') (\<lambda>_.
      bnd (notifySecurity svc (admin_event ''principal.approve'' actor principalID)) (\<lambda>_.
      ret updated)))))))"

definition RejectPrincipal :: "'s Store \<Rightarrow> Service \<Rightarrow> string \<Rightarrow> string \<Rightarrow> time \<Rightarrow> ('s World, Principal) op" where
  "RejectPrincipal st svc sessionID principalID now =
    bnd (requirePrincipalAdmin st svc sessionID now) (\<lambda>actor.
      if TrimSpace principalID = [] then fail ErrInvalidInput
      else bnd (on_store (store_GetPrincipal st principalID)) (\<lambda>current.
      if p_Status current \<noteq> PrincipalStatusPending then fail ErrForbidden
      else bnd (on_store (store_UpdatePrincipalStatus st principalID PrincipalStatusDisabled)) (\<lambda>_.
      bnd (on_store (store_DeleteSessionsByPrincipal st principalID)) (\<lambda>_.
      bnd (on_store (store_GetPrincipal st principalID)) (\<lambda>updated.
      bnd (audit st svc actor ''principal.reject''
             (Some \<lparr>res_Type = ''principal'', res_ID = principalID\<rparr>) ''allow'' []) (\<lambda>_.
      bnd (notifyPrincipalDecision svc updated ''rejected'') (\<lambda>_.
      bnd (notifySecurity svc (admin_event ''principal.reject'' actor principalID)) (\<lambda>_.
      ret updated))))))))"

end
