(* ===== verification/Warden_Credentials.thy ===== *)
theory Warden_Credentials
  imports Warden_Sessions
begin

text \<open>
  The credentials of \<open>src/warden/service.go\<close>: API keys, service accounts, the device authorization
  flow, audit events reported by applications, and the internal tokens issued for sessions, API keys,
  client credentials and delegated agents.
\<close>

section \<open>API keys\<close>

definition ValidateAPIKey :: "'s Store \<Rightarrow> Service \<Rightarrow> string \<Rightarrow> time \<Rightarrow> ('s World, APIKey \<times> Principal) op" where
  "ValidateAPIKey st svc token now0 =
    on_err (on_store (store_GetAPIKeyByHash st (HashAPIKey token))) (\<lambda>_. fail ErrUnauthorized) (\<lambda>key.
    bnd (normalizeNow svc now0) (\<lambda>now.
      if key_Status key \<noteq> ''active'' \<or> expired (key_ExpiresAt key) now then fail ErrUnauthorized
      else on_err (on_store (store_GetPrincipal st (key_PrincipalID key))) (\<lambda>_. fail ErrUnauthorized) (\<lambda>prin.
        if p_Status prin = ''disabled'' then fail ErrDisabled
        else bnd (on_store (store_TouchAPIKeyLastUsed st (key_ID key) now)) (\<lambda>_.
          ret (key\<lparr>key_LastUsedAt := now\<rparr>, prin)))))"

definition ValidateToken :: "'s Store \<Rightarrow> Service \<Rightarrow> string \<Rightarrow> time \<Rightarrow> ('s World, TokenValidationResult) op" where
  "ValidateToken st svc token now =
    bnd (ValidateAPIKey st svc token now) (\<lambda>(key, prin).
      ret \<lparr>tv_TenantID = key_TenantID key, tv_KeyID = key_ID key, tv_Scopes = key_Scopes key,
           tv_ExpiresAt = key_ExpiresAt key, tv_Principal = prin\<rparr>)"

definition CreateAPIKey :: "'s Store \<Rightarrow> Service \<Rightarrow> CreateAPIKeyRequest \<Rightarrow> ('s World, CreatedAPIKey) op" where
  "CreateAPIKey st svc req =
    bnd (ValidateSession st svc (ck_SessionID req) (ck_Now req)) (\<lambda>(session, prin).
    bnd (scopesForRoles (p_Roles prin)) (\<lambda>granted.
      let allowed = sliceSet granted in
      if \<exists>scope \<in> set (ck_Scopes req). scope \<notin> set allowed then fail ErrForbidden
      else bnd (normalizeNow svc (ck_Now req)) (\<lambda>now.
        bnd (randomString svc) (\<lambda>r1. bnd (randomString svc) (\<lambda>r2. bnd (randomString svc) (\<lambda>r3.
          let token = cfg_APIKeyPrefix (svc_cfg svc) @ ''_'' @ r1 @ r2;
              key = \<lparr>key_ID = ''key_'' @ r3, key_Name = TrimSpace (ck_Name req),
                key_TenantID = sess_TenantID session, key_PrincipalType = p_Type prin,
                key_PrincipalID = p_ID prin, key_KeyHash = HashAPIKey token, key_Scopes = ck_Scopes req,
                key_ExpiresAt = ck_ExpiresAt req, key_Status = ''active'', key_CreatedAt = now,
                key_LastUsedAt = zero_time\<rparr> in
          bnd (on_store (store_PutAPIKey st key)) (\<lambda>_.
          bnd (audit st svc prin ''api_key.create'' None ''allow'' []) (\<lambda>_.
          ret \<lparr>cak_ID = key_ID key, cak_Token = token, cak_ExpiresAt = key_ExpiresAt key\<rparr>))))))))"

definition key_summary :: "APIKey \<Rightarrow> APIKeySummary" where
  "key_summary key =
    \<lparr>ks_ID = key_ID key, ks_Name = key_Name key, ks_TenantID = key_TenantID key,
     ks_PrincipalType = key_PrincipalType key, ks_PrincipalID = key_PrincipalID key,
     ks_Scopes = key_Scopes key, ks_ExpiresAt = key_ExpiresAt key, ks_Status = key_Status key,
     ks_CreatedAt = key_CreatedAt key, ks_LastUsedAt = key_LastUsedAt key\<rparr>"

definition ListAPIKeys :: "'s Store \<Rightarrow> Service \<Rightarrow> string \<Rightarrow> time \<Rightarrow> ('s World, APIKeySummary list) op" where
  "ListAPIKeys st svc sessionID now =
    bnd (ValidateSession st svc sessionID now) (\<lambda>(session, prin).
    bnd (on_store (store_ListAPIKeys st (p_ID prin))) (\<lambda>keys. ret (map key_summary keys)))"

definition RevokeAPIKey :: "'s Store \<Rightarrow> Service \<Rightarrow> string \<Rightarrow> string \<Rightarrow> time \<Rightarrow> ('s World, unit) op" where
  "RevokeAPIKey st svc sessionID keyID now =
    bnd (ValidateSession st svc sessionID now) (\<lambda>(session, prin).
      if TrimSpace keyID = [] then fail ErrInvalidInput
      else on_err (on_store (store_RevokeAPIKey st keyID (p_ID prin)))
        (\<lambda>err. if errors_Is err ErrNotFound then fail ErrForbidden else fail err) (\<lambda>_.
      audit st svc prin ''api_key.revoke'' (Some \<lparr>res_Type = ''api_key'', res_ID = keyID\<rparr>) ''allow'' []))"

section \<open>Service accounts\<close>

definition tenant_admin_role :: RoleGrant where
  "tenant_admin_role = \<lparr>role_Key = RoleTenantAdmin, role_ScopeType = [], role_ScopeID = []\<rparr>"

definition CreateServiceAccountToken ::
  "'s Store \<Rightarrow> Service \<Rightarrow> CreateServiceAccountRequest \<Rightarrow> ('s World, CreatedServiceAccountToken) op" where
  "CreateServiceAccountToken st svc req =
    bnd (ValidateSession st svc (cs_SessionID req) (cs_Now req)) (\<lambda>(session, creator).
      if \<not> canManageServiceAccounts (p_Roles creator) then fail ErrForbidden
      else let name = TrimSpace (cs_Name req) in
      if name = [] then fail ErrInvalidInput
      else bnd (scopesForRoles (p_Roles creator)) (\<lambda>granted.
        let allowed = sliceSet granted in
        if \<exists>scope \<in> set (cs_Scopes req). scope \<notin> set allowed then fail ErrForbidden
        else bnd (normalizeNow svc (cs_Now req)) (\<lambda>now.
          bnd (randomString svc) (\<lambda>r1. bnd (randomString svc) (\<lambda>r2. bnd (randomString svc) (\<lambda>r3.
          bnd (randomString svc) (\<lambda>r4.
            let accountID = ''svc_'' @ r1;
                account = \<lparr>acc_ID = accountID, acc_TenantID = sess_TenantID session, acc_Name = name,
                  acc_Status = ''active'', acc_CreatedBy = p_ID creator, acc_CreatedAt = now\<rparr>;
                prin = \<lparr>p_ID = accountID, p_TenantID = sess_TenantID session, p_CasdoorUserID = [],
                  p_Username = name, p_Email = [], p_DisplayName = name,
                  p_Type = PrincipalTypeServiceAccount, p_Status = ''active'', p_EmailVerified = False,
                  p_Roles = [tenant_admin_role], p_Teams = []\<rparr>;
                token = cfg_APIKeyPrefix (svc_cfg svc) @ ''_svc_'' @ r2 @ r3;
                key = \<lparr>key_ID = ''key_'' @ r4, key_Name = [], key_TenantID = sess_TenantID session,
                  key_PrincipalType = PrincipalTypeServiceAccount, key_PrincipalID = accountID,
                  key_KeyHash = HashAPIKey token, key_Scopes = cs_Scopes req,
                  key_ExpiresAt = cs_ExpiresAt req, key_Status = ''active'', key_CreatedAt = now,
                  key_LastUsedAt = zero_time\<rparr> in
            bnd (on_store (store_UpsertPrincipal st prin)) (\<lambda>_.
            bnd (on_store (store_PutServiceAccount st account)) (\<lambda>_.
            bnd (on_store (store_PutAPIKey st key)) (\<lambda>_.
            bnd (audit st svc creator ''service_account.create_token''
                   (Some \<lparr>res_Type = ''service_account'', res_ID = accountID\<rparr>) ''allow'' []) (\<lambda>_.
            ret \<lparr>csat_ServiceAccountID = accountID, csat_KeyID = key_ID key, csat_Token = token,
                 csat_ExpiresAt = key_ExpiresAt key\<rparr>)))))))))))"

definition account_summary :: "ServiceAccount \<Rightarrow> ServiceAccountSummary" where
  "account_summary account =
    \<lparr>sas_ID = acc_ID account, sas_TenantID = acc_TenantID account, sas_Name = acc_Name account,
     sas_Status = acc_Status account, sas_CreatedBy = acc_CreatedBy account,
     sas_CreatedAt = acc_CreatedAt account\<rparr>"

definition ListServiceAccounts ::
  "'s Store \<Rightarrow> Service \<Rightarrow> string \<Rightarrow> time \<Rightarrow> ('s World, ServiceAccountSummary list) op" where
  "ListServiceAccounts st svc sessionID now =
    bnd (ValidateSession st svc sessionID now) (\<lambda>(session, prin).
      if \<not> canManageServiceAccounts (p_Roles prin) then fail ErrForbidden
      else bnd (on_store (store_ListServiceAccounts st (sess_TenantID session))) (\<lambda>accounts.
        ret (map account_summary accounts)))"

definition DisableServiceAccount ::
  "'s Store \<Rightarrow> Service \<Rightarrow> string \<Rightarrow> string \<Rightarrow> time \<Rightarrow> ('s World, unit) op" where
  "DisableServiceAccount st svc sessionID accountID now =
    bnd (ValidateSession st svc sessionID now) (\<lambda>(session, prin).
      if \<not> canManageServiceAccounts (p_Roles prin) then fail ErrForbidden
      else if TrimSpace accountID = [] then fail ErrInvalidInput
      else on_err (on_store (store_DisableServiceAccount st accountID (sess_TenantID session)))
        (\<lambda>err. if errors_Is err ErrNotFound then fail ErrForbidden else fail err) (\<lambda>_.
      audit st svc prin ''service_account.disable''
        (Some \<lparr>res_Type = ''service_account'', res_ID = accountID\<rparr>) ''allow'' []))"

section \<open>Audit events of applications\<close>

definition RecordAuditEvent :: "'s Store \<Rightarrow> Service \<Rightarrow> RecordAuditEventRequest \<Rightarrow> ('s World, unit) op" where
  "RecordAuditEvent st svc req =
    (let action = TrimSpace (ra_Action req); decision = TrimSpace (ra_Decision req) in
     if action = [] \<or> decision = [] then fail ErrInvalidInput
     else bnd (if TrimSpace (ra_SessionID req) \<noteq> []
               then bnd (ValidateSession st svc (ra_SessionID req) (ra_Now req)) (\<lambda>(_, prin). ret prin)
               else if TrimSpace (ra_APIKey req) \<noteq> []
               then bnd (ValidateAPIKey st svc (ra_APIKey req) (ra_Now req)) (\<lambda>(_, prin). ret prin)
               else fail ErrUnauthorized) (\<lambda>prin.
       bnd (normalizeNow svc (ra_Now req)) (\<lambda>createdAt.
       on_store (store_AppendAudit st
         \<lparr>ev_TenantID = p_TenantID prin, ev_ActorType = [], ev_ActorID = [],
          ev_PrincipalType = p_Type prin, ev_PrincipalID = p_ID prin, ev_Action = action,
          ev_ResourceType = (case ra_Resource req of None \<Rightarrow> [] | Some r \<Rightarrow> TrimSpace (res_Type r)),
          ev_ResourceID = (case ra_Resource req of None \<Rightarrow> [] | Some r \<Rightarrow> TrimSpace (res_ID r)),
          ev_Decision = decision, ev_JWTID = TrimSpace (ra_JWTID req), ev_CreatedAt = createdAt\<rparr>))))"

section \<open>Device authorization\<close>

definition StartDeviceAuth :: "'s Store \<Rightarrow> Service \<Rightarrow> StartDeviceAuthRequest \<Rightarrow> ('s World, StartedDeviceAuth) op" where
  "StartDeviceAuth st svc req =
    bnd (normalizeNow svc (sd_Now req)) (\<lambda>now.
    bnd (randomString svc) (\<lambda>r1. bnd (randomString svc) (\<lambda>r2. bnd (randomString svc) (\<lambda>r3.
      let deviceCode = ''dev_'' @ r1 @ r2;
          userCode = ToUpper (ReplaceAllChar CHR ''_'' ''A'' (take 9 r3));
          interval = 5 * Second;
          expiresAt = now + 15 * Minute;
          code = \<lparr>dev_DeviceCode = deviceCode, dev_UserCode = userCode, dev_PrincipalID = [],
            dev_ExpiresAt = expiresAt, dev_Interval = interval, dev_Status = ''pending'', dev_CreatedAt = now\<rparr> in
      bnd (on_store (store_PutDeviceCode st code)) (\<lambda>_.
      ret \<lparr>sda_DeviceCode = deviceCode, sda_UserCode = userCode, sda_VerificationURI = ''/auth/device'',
           sda_ExpiresIn = go_div (expiresAt - now) Second, sda_Interval = go_div interval Second\<rparr>)))))"

definition ApproveDeviceAuth :: "'s Store \<Rightarrow> Service \<Rightarrow> ApproveDeviceAuthRequest \<Rightarrow> ('s World, unit) op" where
  "ApproveDeviceAuth st svc req =
    bnd (ValidateSession st svc (ad_SessionID req) (ad_Now req)) (\<lambda>(session, prin).
      let userCode = ToUpper (TrimSpace (ad_UserCode req)) in
      if userCode = [] then fail ErrInvalidInput
      else on_err (on_store (store_GetDeviceCodeByUserCode st userCode)) (\<lambda>_. fail ErrUnauthorized) (\<lambda>code.
      bnd (normalizeNow svc (ad_Now req)) (\<lambda>now.
        if expired (dev_ExpiresAt code) now then fail ErrUnauthorized
        else if dev_Status code \<noteq> ''pending'' then fail ErrForbidden
        else bnd (on_store (store_UpdateDeviceCode st
               (code\<lparr>dev_PrincipalID := p_ID prin, dev_Status := ''approved''\<rparr>))) (\<lambda>_.
          audit st svc prin ''device.approve'' None ''allow'' []))))"

definition ExchangeDeviceToken :: "'s Store \<Rightarrow> Service \<Rightarrow> DeviceTokenRequest \<Rightarrow> ('s World, DeviceTokenResult) op" where
  "ExchangeDeviceToken st svc req =
    (let deviceCode = TrimSpace (dt_DeviceCode req) in
     if deviceCode = [] then fail ErrInvalidInput
     else on_err (on_store (store_GetDeviceCode st deviceCode)) (\<lambda>_. fail ErrUnauthorized) (\<lambda>code.
     bnd (normalizeNow svc (dt_Now req)) (\<lambda>now.
       if expired (dev_ExpiresAt code) now then fail ErrUnauthorized
       else if dev_Status code = ''pending'' then fail ErrAuthorizationPending
       else if dev_Status code \<noteq> ''approved'' then fail ErrUnauthorized
       else on_err (on_store (store_GetPrincipal st (dev_PrincipalID code))) (\<lambda>_. fail ErrUnauthorized) (\<lambda>prin.
         if p_Status prin = ''disabled'' then fail ErrDisabled
         else bnd (randomString svc) (\<lambda>r1. bnd (randomString svc) (\<lambda>r2. bnd (randomString svc) (\<lambda>r3.
         bnd (scopesForRoles (p_Roles prin)) (\<lambda>scopes.
           let token = cfg_APIKeyPrefix (svc_cfg svc) @ ''_dev_'' @ r1 @ r2;
               expiresAt = now + 30 * 24 * Hour;
               key = \<lparr>key_ID = ''key_'' @ r3, key_Name = [], key_TenantID = p_TenantID prin,
                 key_PrincipalType = p_Type prin, key_PrincipalID = p_ID prin,
                 key_KeyHash = HashAPIKey token, key_Scopes = scopes, key_ExpiresAt = expiresAt,
                 key_Status = ''active'', key_CreatedAt = now, key_LastUsedAt = zero_time\<rparr> in
           bnd (on_store (store_PutAPIKey st key)) (\<lambda>_.
           bnd (on_store (store_UpdateDeviceCode st (code\<lparr>dev_Status := ''consumed''\<rparr>))) (\<lambda>_.
           bnd (audit st svc prin ''device.token'' None ''allow'' []) (\<lambda>_.
           ret \<lparr>dtr_AccessToken = token, dtr_TokenType = ''Bearer'', dtr_KeyID = key_ID key,
                dtr_ExpiresAt = expiresAt\<rparr>)))))))))))"

section \<open>Internal tokens\<close>

text \<open>
  One call of the signer in the running service: it reads the clock when the input has no time, and
  the random source when it has no token ID.
\<close>

definition signer_Sign :: "Service \<Rightarrow> SignInput \<Rightarrow> ('s World, string \<times> Claims) op" where
  "signer_Sign svc inp =
    bnd (if IsZero (in_Now inp) then time_Now svc else ret zero_time) (\<lambda>clock.
    bnd (if TrimSpace (in_JWTID inp) = []
         then bnd (get_st w_draws) (\<lambda>n. bnd (randomString svc) (\<lambda>_. ret (random_bytes svc n))) else ret []) (\<lambda>rnd.
    lift_res (Sign (svc_json svc) clock rnd (svc_signer svc) inp)))"

definition sign :: "'s Store \<Rightarrow> Service \<Rightarrow> Principal \<Rightarrow> Session \<Rightarrow> string \<Rightarrow> string list \<Rightarrow> ResourceRef option
    \<Rightarrow> string \<Rightarrow> string \<Rightarrow> time \<Rightarrow> ActorRef option \<Rightarrow> DelegationRef option \<Rightarrow> duration
    \<Rightarrow> ('s World, InternalJWTResult) op" where
  "sign st svc prin session audience scopes resource source jwtID now actor delegation ttl =
    bnd (get_st w_policyVersion) (\<lambda>policyVersion.
    bnd (signer_Sign svc
      \<lparr>in_Issuer = [], in_Audience = audience, in_TTL = ttl, in_TenantID = sess_TenantID session, in_OrgID = [],
       in_PrincipalType = p_Type prin, in_PrincipalID = p_ID prin, in_Email = p_Email prin,
       in_Name = p_DisplayName prin, in_Handle = p_Username prin, in_Roles = roleKeys (p_Roles prin),
       in_Scopes = scopes, in_Resource = resource, in_SessionID = sess_ID session,
       in_AuthTime = sess_AuthTime session, in_Source = source, in_Now = now, in_JWTID = jwtID,
       in_Actor = actor, in_Delegation = delegation, in_PolicyVersion = policyVersion\<rparr>) (\<lambda>(token, claims).
    bnd (auditWithActor st svc prin ''internal_jwt.sign'' resource ''allow'' (c_JWTID claims) actor) (\<lambda>_.
    ret \<lparr>ijr_Token = token, ijr_Claims = claims\<rparr>)))"

definition SignSystemInternalJWT :: "Service \<Rightarrow> string \<Rightarrow> string list \<Rightarrow> time \<Rightarrow> ('s World, string) op" where
  "SignSystemInternalJWT svc audience scopes now =
    bnd (get_st w_policyVersion) (\<lambda>policyVersion.
    bnd (signer_Sign svc
      \<lparr>in_Issuer = [], in_Audience = audience, in_TTL = 0, in_TenantID = [], in_OrgID = [],
       in_PrincipalType = [], in_PrincipalID = ''warden-system'', in_Email = [], in_Name = [],
       in_Handle = [], in_Roles = [], in_Scopes = scopes, in_Resource = None, in_SessionID = [],
       in_AuthTime = zero_time, in_Source = ''warden'', in_Now = now, in_JWTID = [],
       in_Actor = None, in_Delegation = None, in_PolicyVersion = policyVersion\<rparr>) (\<lambda>(token, claims).
    ret token))"

definition signInternalJWTForAPIKey ::
  "'s Store \<Rightarrow> Service \<Rightarrow> InternalJWTRequest \<Rightarrow> ('s World, InternalJWTResult) op" where
  "signInternalJWTForAPIKey st svc req =
    bnd (ValidateAPIKey st svc (ij_APIKey req) (ij_Now req)) (\<lambda>(key, prin).
    bnd (scopesForActions (p_Roles prin) (ij_Audience req) (ij_Actions req)) (\<lambda>requested.
      let scopes = intersectScopes (key_Scopes key) requested in
      if length scopes = 0
      then bnd (audit st svc prin ''internal_jwt.sign'' (ij_Resource req) ''deny'' []) (\<lambda>_. fail ErrForbidden)
      else let session = \<lparr>sess_ID = key_ID key, sess_PrincipalID = p_ID prin, sess_TenantID = key_TenantID key,
             sess_CurrentTeamID = [], sess_AuthTime = key_CreatedAt key, sess_ExpiresAt = key_ExpiresAt key,
             sess_Source = SessionSourceAPIKey\<rparr> in
        sign st svc prin session (ij_Audience req) scopes (ij_Resource req) SessionSourceAPIKey
          (ij_JWTID req) (ij_Now req) None None (cfg_InternalTTL (svc_cfg svc))))"

definition service_principal :: "OIDCClaims \<Rightarrow> string \<Rightarrow> Principal" where
  "service_principal claims tenantID =
    (let name = (if oc_PreferredName claims = [] then oc_Subject claims else oc_PreferredName claims) in
     \<lparr>p_ID = StableProjectionID ''svc'' [tenantID, oc_Subject claims], p_TenantID = tenantID,
      p_CasdoorUserID = oc_Subject claims, p_Username = name, p_Email = [],
      p_DisplayName = firstNonEmpty [oc_Name claims, name], p_Type = PrincipalTypeServiceAccount,
      p_Status = ''active'', p_EmailVerified = False, p_Roles = [tenant_admin_role], p_Teams = []\<rparr>)"

definition signInternalJWTForClientCredentials ::
  "'s Store \<Rightarrow> Service \<Rightarrow> InternalJWTRequest \<Rightarrow> ('s World, InternalJWTResult) op" where
  "signInternalJWTForClientCredentials st svc req =
    bnd (resolveOIDC svc) (\<lambda>(resolved, _). case resolved of None \<Rightarrow> fail ErrInvalidInput
     | Some authority \<Rightarrow>
       bnd (VerifyIDToken svc authority (ij_ClientCredentialsToken req) []) (\<lambda>claims.
       let tenantID = TrimSpace (oc_TenantID claims) in
       if tenantID = [] then fail ErrUnauthorized
       else let scopesFromToken = Fields (oc_Scope claims) in
       if length scopesFromToken = 0 then fail ErrForbidden
       else bnd (normalizeNow svc (ij_Now req)) (\<lambda>now.
       bnd (on_err (on_store (store_GetTenant st tenantID))
         (\<lambda>tenantErr. if \<not> errors_Is tenantErr ErrNotFound then fail tenantErr
            else on_store (store_UpsertTenant st
              \<lparr>ten_ID = tenantID, ten_CasdoorOrgName = [], ten_Slug = tenantID, ten_DisplayName = tenantID,
               ten_Status = ''active''\<rparr>))
         (\<lambda>existingTenant. if ten_Status existingTenant = PrincipalStatusDisabled then fail ErrDisabled
            else ret ())) (\<lambda>_.
       let prin = service_principal claims tenantID in
       bnd (on_store (store_UpsertPrincipal st prin)) (\<lambda>_.
       bnd (on_store (store_PutServiceAccount st
         \<lparr>acc_ID = p_ID prin, acc_TenantID = tenantID, acc_Name = p_DisplayName prin, acc_Status = ''active'',
          acc_CreatedBy = ''casdoor'', acc_CreatedAt = now\<rparr>)) (\<lambda>_.
       bnd (scopesForActions (p_Roles prin) (ij_Audience req) (ij_Actions req)) (\<lambda>requested.
       let scopes = intersectScopes scopesFromToken requested in
       if length scopes = 0
       then bnd (audit st svc prin ''internal_jwt.sign'' (ij_Resource req) ''deny'' []) (\<lambda>_. fail ErrForbidden)
       else let session = \<lparr>sess_ID = ''client_credentials:'' @ oc_Subject claims, sess_PrincipalID = p_ID prin,
              sess_TenantID = tenantID, sess_CurrentTeamID = [], sess_AuthTime = now,
              sess_ExpiresAt = time_Unix (oc_ExpiresAt claims), sess_Source = SessionSourceServiceToken\<rparr> in
         sign st svc prin session (ij_Audience req) scopes (ij_Resource req) SessionSourceServiceToken
           (ij_JWTID req) (ij_Now req) None None (cfg_InternalTTL (svc_cfg svc)))))))))"

definition SignInternalJWT :: "'s Store \<Rightarrow> Service \<Rightarrow> InternalJWTRequest \<Rightarrow> ('s World, InternalJWTResult) op" where
  "SignInternalJWT st svc req =
    (if TrimSpace (ij_ClientCredentialsToken req) \<noteq> [] then signInternalJWTForClientCredentials st svc req
     else if TrimSpace (ij_SessionID req) = [] \<and> TrimSpace (ij_APIKey req) \<noteq> []
     then signInternalJWTForAPIKey st svc req
     else bnd (ValidateSession st svc (ij_SessionID req) (ij_Now req)) (\<lambda>(session, prin).
       bnd (scopesForActions (p_Roles prin) (ij_Audience req) (ij_Actions req)) (\<lambda>scopes.
         if length scopes = 0
         then bnd (audit st svc prin ''internal_jwt.sign'' (ij_Resource req) ''deny'' []) (\<lambda>_. fail ErrForbidden)
         else sign st svc prin session (ij_Audience req) scopes (ij_Resource req) SessionSourceWeb
           (ij_JWTID req) (ij_Now req) None None (cfg_InternalTTL (svc_cfg svc)))))"

definition DelegateAgent :: "'s Store \<Rightarrow> Service \<Rightarrow> DelegateAgentRequest \<Rightarrow> ('s World, InternalJWTResult) op" where
  "DelegateAgent st svc req =
    bnd (ValidateSession st svc (da_SessionID req) (da_Now req)) (\<lambda>(session, actor).
    bnd (scopesForActions (p_Roles actor) (da_Audience req) (da_Actions req)) (\<lambda>actorScopes.
      let delegatedScopes = (if length (da_Scopes req) = 0 then actorScopes else da_Scopes req);
          scopes = intersectScopes actorScopes delegatedScopes;
          actorRef = \<lparr>actor_Type = p_Type actor, actor_ID = p_ID actor\<rparr> in
      if length scopes = 0
      then bnd (auditWithActor st svc actor ''agent.delegate'' (da_Resource req) ''deny'' [] (Some actorRef))
        (\<lambda>_. fail ErrForbidden)
      else bnd (if TrimSpace (da_RunID req) = []
                then bnd (randomString svc) (\<lambda>r. ret (''run_'' @ r)) else ret (TrimSpace (da_RunID req))) (\<lambda>runID.
        let agentID = ''agent_'' @ runID;
            agent = \<lparr>p_ID = agentID, p_TenantID = p_TenantID actor, p_CasdoorUserID = [], p_Username = [],
              p_Email = [], p_DisplayName = [], p_Type = PrincipalTypeAgent, p_Status = ''active'',
              p_EmailVerified = False,
              p_Roles = [\<lparr>role_Key = RoleSakerRunner, role_ScopeType = [], role_ScopeID = []\<rparr>], p_Teams = []\<rparr> in
        bnd (on_store (store_UpsertPrincipal st agent)) (\<lambda>_.
        bnd (normalizeNow svc (da_Now req)) (\<lambda>createdAt.
        bnd (on_store (store_PutAgentRun st
          \<lparr>run_ID = runID, run_TenantID = p_TenantID actor, run_ActorPrincipalID = p_ID actor,
           run_AgentPrincipalID = agentID, run_Status = ''running'', run_CreatedAt = createdAt\<rparr>)) (\<lambda>_.
        sign st svc agent session (da_Audience req) scopes (da_Resource req) SessionSourceAgent
          (da_JWTID req) (da_Now req) (Some actorRef)
          (Some \<lparr>del_OnBehalfOf = p_ID actor, del_SessionID = sess_ID session, del_RunID = runID\<rparr>)
          (cfg_AgentTTL (svc_cfg svc))))))))"

end
