(* ===== verification/Warden_Login.thy ===== *)
theory Warden_Login
  imports Warden_Sessions
begin

text \<open>
  The login at the identity provider, \<open>src/warden/service.go\<close>: \<open>StartOIDCLogin\<close> stores a login state and
  sends the browser to the provider, \<open>completeOIDCCallback\<close> takes the state out of the store, exchanges
  the code, verifies the tokens, projects the user from the directory and creates a session. Also the
  reconciliation of the directory (\<open>src/warden/casdoor_directory.go\<close>, \<open>src/warden/directory.go\<close>).
\<close>

section \<open>Login states\<close>

definition oidcBindingHash :: "string \<Rightarrow> string" where
  "oidcBindingHash raw = (if raw = [] then [] else let hash = sha256_Sum256 raw in hex_EncodeToString hash)"

definition validOIDCReturnTo :: "string \<Rightarrow> bool" where
  "validOIDCReturnTo raw =
    (if raw = [] then True
     else case Parse raw of
       None \<Rightarrow> False
     | Some u \<Rightarrow> url_Scheme u = [] \<and> url_Host u = [] \<and> HasPrefix raw ''/'' \<and> \<not> HasPrefix (url_Path u) ''//''
         \<and> \<not> ContainsAny (raw @ url_Path u) [CHR 0x5C, CHR 0x0D, CHR 0x0A])"

definition PutOIDCLoginState :: "'s Store \<Rightarrow> Service \<Rightarrow> OIDCLoginState \<Rightarrow> ('s World, unit) op" where
  "PutOIDCLoginState st svc state =
    (if TrimSpace (oidc_State state) = [] \<or> TrimSpace (oidc_Nonce state) = [] \<or> TrimSpace (oidc_CodeVerifier state) = []
     then fail ErrInvalidInput
     else bnd (if IsZero (oidc_ExpiresAt state)
               then bnd (time_Now svc) (\<lambda>now. ret (state\<lparr>oidc_ExpiresAt := now + 10 * Minute\<rparr>)) else ret state) (\<lambda>state.
       on_store (store_PutOIDCLoginState st state)))"

text \<open>The parameters of the authorization request, set one after the other.\<close>

definition authorization_query :: "OIDCVerifier \<Rightarrow> string \<Rightarrow> string \<Rightarrow> string \<Rightarrow> string gomap \<Rightarrow> string gomap" where
  "authorization_query authority state nonce challenge q0 =
    (let q = map_put ''client_id'' (ov_ClientID authority) q0;
         q = map_put ''response_type'' ''code'' q;
         q = (if ov_RedirectURL authority \<noteq> [] then map_put ''redirect_uri'' (ov_RedirectURL authority) q else q);
         q = (if ov_ProviderHint authority \<noteq> [] then map_put ''provider_hint'' (ov_ProviderHint authority) q else q);
         q = map_put ''scope'' ''openid profile email'' q;
         q = map_put ''state'' state q;
         q = map_put ''nonce'' nonce q;
         q = map_put ''code_challenge'' challenge q
     in map_put ''code_challenge_method'' ''S256'' q)"

definition StartOIDCLogin :: "'s Store \<Rightarrow> Service \<Rightarrow> StartOIDCLoginRequest \<Rightarrow> ('s World, StartedOIDCLogin) op" where
  "StartOIDCLogin st svc req =
    (if sl_BrowserBinding req \<noteq> [] \<and> store_TakeBoundOIDCLoginState st = None then fail ErrInvalidInput
     else bnd (resolveOIDC svc) (\<lambda>(resolved, _). case resolved of
       None \<Rightarrow> fail ErrInvalidInput
     | Some authority \<Rightarrow>
       if TrimSpace (ov_Issuer authority) = [] \<or> TrimSpace (ov_ClientID authority) = [] then fail ErrInvalidInput
       else if \<not> validOIDCReturnTo (sl_RedirectURL req) then fail ErrInvalidInput
       else let authorizationURL = (if ov_AuthorizationURL authority = []
              then TrimRightChar (ov_Issuer authority) CHR ''/'' @ ''/login/oauth/authorize'' else ov_AuthorizationURL authority) in
       (case oidcEndpoint authorizationURL of
          Inl _ \<Rightarrow> fail ErrInvalidInput
        | Inr authURL \<Rightarrow>
          bnd (normalizeNow svc (sl_Now req)) (\<lambda>now.
          bnd (randomString svc) (\<lambda>r1.
          bnd (randomString svc) (\<lambda>r2.
          bnd (randomString svc) (\<lambda>r3.
          bnd (randomString svc) (\<lambda>r4.
            let state = ''oidc_'' @ r1; nonce = ''nonce_'' @ r2; verifier = r3 @ r4;
                challenge = codeChallengeS256 verifier; expiresAt = now + 10 * Minute in
            bnd (on_store (store_PutOIDCLoginState st
              \<lparr>oidc_State = state, oidc_BrowserBinding = oidcBindingHash (sl_BrowserBinding req), oidc_Nonce = nonce,
               oidc_CodeVerifier = verifier, oidc_RedirectURL = sl_RedirectURL req, oidc_ExpiresAt = expiresAt\<rparr>)) (\<lambda>_.
            let q = authorization_query authority state nonce challenge (parseQuery (url_RawQuery authURL)) in
            ret \<lparr>slo_AuthorizationURL = URL_String (authURL\<lparr>url_RawQuery := Values_Encode q\<rparr>),
                 slo_State = state, slo_Nonce = nonce, slo_CodeChallenge = challenge,
                 slo_CodeChallengeMethod = ''S256'', slo_ExpiresIn = (expiresAt - now) div Second\<rparr>)))))))))"

section \<open>The callback\<close>

definition take_login_state :: "'s Store \<Rightarrow> string \<Rightarrow> string \<Rightarrow> bool \<Rightarrow> ('s World, OIDCLoginState) op" where
  "take_login_state st stateValue browserBinding requireBinding =
    (case store_TakeBoundOIDCLoginState st of
       Some take_bound \<Rightarrow> on_err (on_store (take_bound stateValue (oidcBindingHash browserBinding))) (\<lambda>_. fail ErrUnauthorized) ret
     | None \<Rightarrow>
       if requireBinding then fail ErrInvalidInput
       else on_err (on_store (store_TakeOIDCLoginState st stateValue)) (\<lambda>_. fail ErrUnauthorized) ret)"

definition completeOIDCCallback :: "'s Store \<Rightarrow> Service \<Rightarrow> string \<Rightarrow> string \<Rightarrow> string \<Rightarrow> bool \<Rightarrow> time
    \<Rightarrow> ('s World, Session \<times> IdentityContext_t \<times> string) op" where
  "completeOIDCCallback st svc code0 stateValue0 browserBinding requireBinding now0 =
    bnd (resolveOIDC svc) (\<lambda>(resolved, exchanger). case (resolved, exchanger, svc_directory svc) of
      (Some authority, Some exchanger, Some directory) \<Rightarrow>
        let code = TrimSpace code0; stateValue = TrimSpace stateValue0 in
        if code = [] \<or> stateValue = [] then fail ErrInvalidInput
        else bnd (take_login_state st stateValue browserBinding requireBinding) (\<lambda>state.
          if (requireBinding \<and> (browserBinding = [] \<or> oidc_BrowserBinding state = []))
            \<or> oidc_BrowserBinding state \<noteq> oidcBindingHash browserBinding then fail ErrUnauthorized
          else bnd (normalizeNow svc now0) (\<lambda>now.
          if expired (oidc_ExpiresAt state) now then fail ErrUnauthorized
          else bnd (exchange_code svc exchanger code (oidc_CodeVerifier state)) (\<lambda>tokens.
          bnd (VerifyTokenSet svc authority tokens (oidc_Nonce state)) (\<lambda>claims.
          bnd (SyncDirectoryUser st svc (Some directory) (oc_Subject claims)) (\<lambda>principals.
          case principals of
            [] \<Rightarrow> fail ErrUnauthorized
          | prin # _ \<Rightarrow>
            bnd (CreateSession st svc (p_ID prin) now) (\<lambda>session.
            bnd (IdentityContext st svc (sess_ID session) now) (\<lambda>identity.
            ret (session, identity, oidc_RedirectURL state))))))))
    | _ \<Rightarrow> fail ErrInvalidInput)"

definition CompleteOIDCCallback :: "'s Store \<Rightarrow> Service \<Rightarrow> string \<Rightarrow> string \<Rightarrow> time
    \<Rightarrow> ('s World, Session \<times> IdentityContext_t \<times> string) op" where
  "CompleteOIDCCallback st svc code stateValue now = completeOIDCCallback st svc code stateValue [] False now"

definition CompleteBoundOIDCCallback :: "'s Store \<Rightarrow> Service \<Rightarrow> string \<Rightarrow> string \<Rightarrow> string \<Rightarrow> time
    \<Rightarrow> ('s World, Session \<times> IdentityContext_t \<times> string) op" where
  "CompleteBoundOIDCCallback st svc code stateValue browserBinding now =
    completeOIDCCallback st svc code stateValue browserBinding True now"

section \<open>Reconciliation of the directory\<close>

text \<open>
  \<open>known\<close>: the principals stored for each subject of the mapped tenants, before anything is refreshed. The
  order of the list stands for the iteration order of the map.
\<close>

fun known_subjects :: "'s Store \<Rightarrow> Principal list gomap \<Rightarrow> string list \<Rightarrow> ('s World, Principal list gomap) op" where
  "known_subjects st known [] = ret known"
| "known_subjects st known (subject # rest) =
    (if map_of known subject \<noteq> None then known_subjects st known rest
     else bnd (on_store (store_ListPrincipalsByCasdoorUser st subject)) (\<lambda>principals.
       known_subjects st (map_put subject principals known) rest))"

fun known_principals :: "'s Store \<Rightarrow> (string \<Rightarrow> ('s, string list) op) \<Rightarrow> Principal list gomap
    \<Rightarrow> CasdoorTenantMapping list \<Rightarrow> ('s World, Principal list gomap) op" where
  "known_principals st list_subjects known [] = ret known"
| "known_principals st list_subjects known (mapping # rest) =
    bnd (on_store (list_subjects (tm_TenantID mapping))) (\<lambda>subjects.
    bnd (known_subjects st known subjects) (\<lambda>known.
    known_principals st list_subjects known rest))"

text \<open>A principal of a mapped tenant that the directory no longer knows is revoked.\<close>

definition revoke_absent :: "'s Store \<Rightarrow> Service \<Rightarrow> CasdoorDirectorySource \<Rightarrow> Principal list \<Rightarrow> Principal \<Rightarrow> ('s World, unit) op" where
  "revoke_absent st svc d current prin =
    (let managed = (\<exists>mapping \<in> set (cds_mappings d). tm_TenantID mapping = p_TenantID prin);
         present = (\<exists>candidate \<in> set current. p_ID candidate = p_ID prin) in
     if managed \<and> \<not> present
     then on_err (revokeDirectoryPrincipal st svc prin)
       (\<lambda>err. if errors_Is err ErrUnauthorized then ret () else fail err) (\<lambda>(_ :: unit). ret ())
     else ret ())"

definition reconcile_subject :: "'s Store \<Rightarrow> Service \<Rightarrow> DirectorySource \<Rightarrow> CasdoorDirectorySource
    \<Rightarrow> string \<times> Principal list \<Rightarrow> ('s World, unit list) op" where
  "reconcile_subject st svc source d known =
    bnd (SyncDirectoryUser st svc (Some source) (fst known)) (\<lambda>current.
    for_each (revoke_absent st svc d current) (snd known))"

definition casdoor_Reconcile :: "'s Store \<Rightarrow> Service \<Rightarrow> DirectorySource \<Rightarrow> CasdoorDirectorySource \<Rightarrow> ('s World, unit) op" where
  "casdoor_Reconcile st svc source d =
    (if \<not> cds_service d then fail ErrInvalidInput
     else case store_ListDirectorySubjects st of
       None \<Rightarrow> fail ErrInvalidInput
     | Some list_subjects \<Rightarrow>
       bnd (known_principals st list_subjects [] (cds_mappings d)) (\<lambda>known.
       bnd (for_each (reconcile_subject st svc source d) known) (\<lambda>_. ret ())))"

definition ReconcileDirectory :: "'s Store \<Rightarrow> Service \<Rightarrow> ('s World, unit) op" where
  "ReconcileDirectory st svc =
    (case svc_directory svc of
       None \<Rightarrow> fail ErrInvalidInput
     | Some source \<Rightarrow>
       (case ds_Casdoor source of
          Some d \<Rightarrow> casdoor_Reconcile st svc source d
        | None \<Rightarrow> bnd (get_st w_lookups) (\<lambda>n. bnd (upd_st (\<lambda>w. w\<lparr>w_lookups := Suc (w_lookups w)\<rparr>)) (\<lambda>_.
            lift_res (ds_Reconcile source n)))))"

definition ReconcileDirectoryIfAvailable :: "'s Store \<Rightarrow> Service \<Rightarrow> ('s World, unit) op" where
  "ReconcileDirectoryIfAvailable st svc =
    (case svc_directory svc of None \<Rightarrow> ret () | Some _ \<Rightarrow> ReconcileDirectory st svc)"

definition HasDirectorySource :: "Service \<Rightarrow> bool" where
  "HasDirectorySource svc \<longleftrightarrow> svc_directory svc \<noteq> None"

end
