(* ===== verification/Warden_MemoryStore.thy ===== *)
theory Warden_MemoryStore
  imports Warden_Store
begin

text \<open>
  \<open>src/warden/memory_store.go\<close>: the in-memory implementation of the store. Every method holds the
  mutex for its whole body, so each is one atomic function of the state. The order of an association
  list is the iteration order of the Go map; \<open>sort.Slice\<close>, which is not stable, is a stable sort of
  that arbitrary order. A \<open>context.Context\<close> that is looked at is the sequence of the values its
  \<open>Err()\<close> returns.
\<close>

record MemoryStore =
  ms_tenants :: "Tenant gomap"
  ms_principals :: "Principal gomap"
  ms_oidcStates :: "OIDCLoginState gomap"
  ms_deviceCodes :: "DeviceCode gomap"
  ms_sessions :: "Session gomap"
  ms_accounts :: "ServiceAccount gomap"
  ms_apiKeys :: "APIKey gomap"
  ms_agentRuns :: "AgentRun gomap"
  ms_audits :: "AuditEvent list"

definition NewMemoryStore :: MemoryStore where
  "NewMemoryStore = \<lparr>ms_tenants = [], ms_principals = [], ms_oidcStates = [], ms_deviceCodes = [],
     ms_sessions = [], ms_accounts = [], ms_apiKeys = [], ms_agentRuns = [], ms_audits = []\<rparr>"

section \<open>Tenants and principals\<close>

definition mem_UpsertTenant :: "Tenant \<Rightarrow> (MemoryStore, unit) op" where
  "mem_UpsertTenant tenant s = (Inr (), s\<lparr>ms_tenants := map_put (ten_ID tenant) tenant (ms_tenants s)\<rparr>)"

definition mem_UpsertPrincipal :: "Principal \<Rightarrow> (MemoryStore, unit) op" where
  "mem_UpsertPrincipal prin s =
    (Inr (), s\<lparr>ms_principals := map_put (p_ID prin) prin (ms_principals s)\<rparr>)"

definition mem_UpdatePrincipalStatus :: "string \<Rightarrow> string \<Rightarrow> (MemoryStore, unit) op" where
  "mem_UpdatePrincipalStatus principalID status s =
    (case map_of (ms_principals s) principalID of None \<Rightarrow> (Inl ErrNotFound, s)
     | Some prin \<Rightarrow> (Inr (), s\<lparr>ms_principals :=
         map_put principalID (prin\<lparr>p_Status := status\<rparr>) (ms_principals s)\<rparr>))"

definition mem_GetTenant :: "string \<Rightarrow> (MemoryStore, Tenant) op" where
  "mem_GetTenant tenantID s =
    (case map_of (ms_tenants s) tenantID of None \<Rightarrow> (Inl ErrNotFound, s) | Some tenant \<Rightarrow> (Inr tenant, s))"

definition mem_GetPrincipal :: "string \<Rightarrow> (MemoryStore, Principal) op" where
  "mem_GetPrincipal principalID s =
    (case map_of (ms_principals s) principalID of None \<Rightarrow> (Inl ErrNotFound, s)
     | Some prin \<Rightarrow> (Inr prin, s))"

definition mem_ListPrincipalsByCasdoorUser :: "string \<Rightarrow> (MemoryStore, Principal list) op" where
  "mem_ListPrincipalsByCasdoorUser casdoorUserID s =
    (Inr (filter (\<lambda>p. p_CasdoorUserID p \<noteq> [] \<and> p_CasdoorUserID p = casdoorUserID)
       (map_values (ms_principals s))), s)"

text \<open>\<open>ctx k\<close> is the value of the \<open>k\<close>-th call of \<open>ctx.Err()\<close>.\<close>

fun directory_subjects ::
  "(nat \<Rightarrow> error option) \<Rightarrow> string \<Rightarrow> nat \<Rightarrow> Principal list \<Rightarrow> string list \<Rightarrow> string list res" where
  "directory_subjects ctx tenantID k [] seen = Inr (sortedKeys seen)"
| "directory_subjects ctx tenantID k (p # ps) seen =
    (case ctx k of Some err \<Rightarrow> Inl err
     | None \<Rightarrow> directory_subjects ctx tenantID (Suc k) ps
         (if p_TenantID p = tenantID \<and> p_CasdoorUserID p \<noteq> [] \<and> p_Type p = PrincipalTypeUser
          then p_CasdoorUserID p # seen else seen))"

definition mem_ListDirectorySubjects ::
  "(nat \<Rightarrow> error option) \<Rightarrow> string \<Rightarrow> (MemoryStore, string list) op" where
  "mem_ListDirectorySubjects ctx tenantID s =
    (case ctx 0 of Some err \<Rightarrow> (Inl err, s)
     | None \<Rightarrow> if tenantID = [] then (Inl ErrInvalidInput, s)
       else (directory_subjects ctx tenantID 1 (map_values (ms_principals s)) [], s))"

section \<open>Login states and device codes\<close>

definition mem_PutOIDCLoginState :: "OIDCLoginState \<Rightarrow> (MemoryStore, unit) op" where
  "mem_PutOIDCLoginState state s =
    (Inr (), s\<lparr>ms_oidcStates := map_put (oidc_State state) state (ms_oidcStates s)\<rparr>)"

definition mem_TakeOIDCLoginState :: "string \<Rightarrow> (MemoryStore, OIDCLoginState) op" where
  "mem_TakeOIDCLoginState stateValue s =
    (case map_of (ms_oidcStates s) stateValue of None \<Rightarrow> (Inl ErrNotFound, s)
     | Some state \<Rightarrow> (Inr state, s\<lparr>ms_oidcStates := map_del stateValue (ms_oidcStates s)\<rparr>))"

definition mem_TakeBoundOIDCLoginState ::
  "(nat \<Rightarrow> error option) \<Rightarrow> string \<Rightarrow> string \<Rightarrow> (MemoryStore, OIDCLoginState) op" where
  "mem_TakeBoundOIDCLoginState ctx stateValue bindingHash s =
    (case ctx 0 of Some err \<Rightarrow> (Inl err, s)
     | None \<Rightarrow> (case map_of (ms_oidcStates s) stateValue of None \<Rightarrow> (Inl ErrNotFound, s)
       | Some state \<Rightarrow>
         if oidc_BrowserBinding state \<noteq> bindingHash then (Inl ErrNotFound, s)
         else (Inr state, s\<lparr>ms_oidcStates := map_del stateValue (ms_oidcStates s)\<rparr>)))"

definition mem_PutDeviceCode :: "DeviceCode \<Rightarrow> (MemoryStore, unit) op" where
  "mem_PutDeviceCode code s =
    (Inr (), s\<lparr>ms_deviceCodes := map_put (dev_DeviceCode code) code (ms_deviceCodes s)\<rparr>)"

definition mem_GetDeviceCode :: "string \<Rightarrow> (MemoryStore, DeviceCode) op" where
  "mem_GetDeviceCode deviceCode s =
    (case map_of (ms_deviceCodes s) deviceCode of None \<Rightarrow> (Inl ErrNotFound, s) | Some code \<Rightarrow> (Inr code, s))"

definition mem_GetDeviceCodeByUserCode :: "string \<Rightarrow> (MemoryStore, DeviceCode) op" where
  "mem_GetDeviceCodeByUserCode userCode s =
    (case find (\<lambda>code. dev_UserCode code = userCode) (map_values (ms_deviceCodes s)) of
       None \<Rightarrow> (Inl ErrNotFound, s) | Some code \<Rightarrow> (Inr code, s))"

definition mem_UpdateDeviceCode :: "DeviceCode \<Rightarrow> (MemoryStore, unit) op" where
  "mem_UpdateDeviceCode code s =
    (case map_of (ms_deviceCodes s) (dev_DeviceCode code) of None \<Rightarrow> (Inl ErrNotFound, s)
     | Some _ \<Rightarrow> (Inr (), s\<lparr>ms_deviceCodes := map_put (dev_DeviceCode code) code (ms_deviceCodes s)\<rparr>))"

section \<open>Sessions\<close>

definition mem_PutSession :: "Session \<Rightarrow> (MemoryStore, unit) op" where
  "mem_PutSession session s =
    (Inr (), s\<lparr>ms_sessions := map_put (sess_ID session) session (ms_sessions s)\<rparr>)"

definition mem_GetSession :: "string \<Rightarrow> (MemoryStore, Session) op" where
  "mem_GetSession sessionID s =
    (case map_of (ms_sessions s) sessionID of None \<Rightarrow> (Inl ErrNotFound, s) | Some session \<Rightarrow> (Inr session, s))"

definition mem_UpdateSessionContext :: "string \<Rightarrow> string \<Rightarrow> string \<Rightarrow> string \<Rightarrow> (MemoryStore, unit) op" where
  "mem_UpdateSessionContext sessionID principalID tenantID teamID s =
    (case map_of (ms_sessions s) sessionID of None \<Rightarrow> (Inl ErrNotFound, s)
     | Some session \<Rightarrow> (Inr (), s\<lparr>ms_sessions := map_put sessionID
         (session\<lparr>sess_PrincipalID := principalID, sess_TenantID := tenantID,
                  sess_CurrentTeamID := teamID\<rparr>) (ms_sessions s)\<rparr>))"

definition mem_DeleteSession :: "string \<Rightarrow> (MemoryStore, unit) op" where
  "mem_DeleteSession sessionID s = (Inr (), s\<lparr>ms_sessions := map_del sessionID (ms_sessions s)\<rparr>)"

definition mem_DeleteSessionsByPrincipal :: "string \<Rightarrow> (MemoryStore, unit) op" where
  "mem_DeleteSessionsByPrincipal principalID s =
    (Inr (), s\<lparr>ms_sessions :=
       map_del_where (\<lambda>sessionID session. sess_PrincipalID session = principalID) (ms_sessions s)\<rparr>)"

section \<open>Service accounts and API keys\<close>

definition mem_PutServiceAccount :: "ServiceAccount \<Rightarrow> (MemoryStore, unit) op" where
  "mem_PutServiceAccount account s =
    (Inr (), s\<lparr>ms_accounts := map_put (acc_ID account) account (ms_accounts s)\<rparr>)"

definition mem_ListServiceAccounts :: "string \<Rightarrow> (MemoryStore, ServiceAccount list) op" where
  "mem_ListServiceAccounts tenantID s =
    (Inr (sort_key (\<lambda>a. - acc_CreatedAt a)
       (filter (\<lambda>a. tenantID = [] \<or> acc_TenantID a = tenantID) (map_values (ms_accounts s)))), s)"

definition mem_DisableServiceAccount :: "string \<Rightarrow> string \<Rightarrow> (MemoryStore, unit) op" where
  "mem_DisableServiceAccount accountID tenantID s =
    (case map_of (ms_accounts s) accountID of None \<Rightarrow> (Inl ErrNotFound, s)
     | Some account \<Rightarrow>
       if acc_TenantID account \<noteq> tenantID then (Inl ErrNotFound, s)
       else let s = s\<lparr>ms_accounts := map_put accountID (account\<lparr>acc_Status := ''disabled''\<rparr>) (ms_accounts s)\<rparr>
         in (case map_of (ms_principals s) accountID of None \<Rightarrow> (Inr (), s)
             | Some prin \<Rightarrow>
               if p_TenantID prin = tenantID
               then (Inr (), s\<lparr>ms_principals :=
                      map_put accountID (prin\<lparr>p_Status := ''disabled''\<rparr>) (ms_principals s)\<rparr>)
               else (Inr (), s)))"

definition mem_PutAPIKey :: "APIKey \<Rightarrow> (MemoryStore, unit) op" where
  "mem_PutAPIKey key s = (Inr (), s\<lparr>ms_apiKeys := map_put (key_KeyHash key) key (ms_apiKeys s)\<rparr>)"

definition mem_GetAPIKeyByHash :: "string \<Rightarrow> (MemoryStore, APIKey) op" where
  "mem_GetAPIKeyByHash keyHash s =
    (case map_of (ms_apiKeys s) keyHash of None \<Rightarrow> (Inl ErrNotFound, s) | Some key \<Rightarrow> (Inr key, s))"

definition mem_ListAPIKeys :: "string \<Rightarrow> (MemoryStore, APIKey list) op" where
  "mem_ListAPIKeys principalID s =
    (Inr (filter (\<lambda>key. key_PrincipalID key = principalID) (map_values (ms_apiKeys s))), s)"

definition mem_RevokeAPIKey :: "string \<Rightarrow> string \<Rightarrow> (MemoryStore, unit) op" where
  "mem_RevokeAPIKey keyID principalID s =
    (case find (\<lambda>(hash, key). key_ID key = keyID \<and> key_PrincipalID key = principalID) (ms_apiKeys s) of
       None \<Rightarrow> (Inl ErrNotFound, s)
     | Some (hash, key) \<Rightarrow>
         (Inr (), s\<lparr>ms_apiKeys := map_put hash (key\<lparr>key_Status := ''revoked''\<rparr>) (ms_apiKeys s)\<rparr>))"

definition mem_TouchAPIKeyLastUsed :: "string \<Rightarrow> time \<Rightarrow> (MemoryStore, unit) op" where
  "mem_TouchAPIKeyLastUsed keyID lastUsedAt s =
    (case find (\<lambda>(hash, key). key_ID key = keyID) (ms_apiKeys s) of
       None \<Rightarrow> (Inl ErrNotFound, s)
     | Some (hash, key) \<Rightarrow>
         (Inr (), s\<lparr>ms_apiKeys := map_put hash (key\<lparr>key_LastUsedAt := lastUsedAt\<rparr>) (ms_apiKeys s)\<rparr>))"

section \<open>Agent runs, audit log and lists\<close>

definition mem_PutAgentRun :: "AgentRun \<Rightarrow> (MemoryStore, unit) op" where
  "mem_PutAgentRun run s = (Inr (), s\<lparr>ms_agentRuns := map_put (run_ID run) run (ms_agentRuns s)\<rparr>)"

definition mem_AppendAudit :: "AuditEvent \<Rightarrow> (MemoryStore, unit) op" where
  "mem_AppendAudit event s = (Inr (), s\<lparr>ms_audits := ms_audits s @ [event]\<rparr>)"

definition mem_AuditEvents :: "MemoryStore \<Rightarrow> AuditEvent list" where
  "mem_AuditEvents s = ms_audits s"

definition limitSlice :: "'a list \<Rightarrow> int \<Rightarrow> 'a list" where
  "limitSlice values limit0 =
    (let limit = (if limit0 \<le> 0 \<or> 500 < limit0 then 100 else limit0) in
     if int (length values) \<le> limit then values else take (nat limit) values)"

definition mem_ListTenants :: "int \<Rightarrow> (MemoryStore, Tenant list) op" where
  "mem_ListTenants limit s = (Inr (limitSlice (sort_key ten_ID (map_values (ms_tenants s))) limit), s)"

definition mem_ListPrincipals :: "string \<Rightarrow> int \<Rightarrow> (MemoryStore, Principal list) op" where
  "mem_ListPrincipals tenantID limit s =
    (Inr (limitSlice (sort_key p_ID (filter (\<lambda>p. \<not> (tenantID \<noteq> [] \<and> p_TenantID p \<noteq> tenantID))
       (map_values (ms_principals s)))) limit), s)"

definition mem_ListSessions :: "string \<Rightarrow> int \<Rightarrow> (MemoryStore, Session list) op" where
  "mem_ListSessions tenantID limit s =
    (Inr (limitSlice (sort_key (\<lambda>x. - sess_AuthTime x) (filter (\<lambda>x. \<not> (tenantID \<noteq> [] \<and> sess_TenantID x \<noteq> tenantID))
       (map_values (ms_sessions s)))) limit), s)"

definition mem_ListAgentRuns :: "string \<Rightarrow> int \<Rightarrow> (MemoryStore, AgentRun list) op" where
  "mem_ListAgentRuns tenantID limit s =
    (Inr (limitSlice (sort_key (\<lambda>x. - run_CreatedAt x) (filter (\<lambda>x. \<not> (tenantID \<noteq> [] \<and> run_TenantID x \<noteq> tenantID))
       (map_values (ms_agentRuns s)))) limit), s)"

definition mem_ListAuditEvents :: "string \<Rightarrow> int \<Rightarrow> (MemoryStore, AuditEvent list) op" where
  "mem_ListAuditEvents tenantID limit s =
    (Inr (limitSlice (sort_key (\<lambda>x. - ev_CreatedAt x) (filter (\<lambda>x. \<not> (tenantID \<noteq> [] \<and> ev_TenantID x \<noteq> tenantID))
       (ms_audits s))) limit), s)"

section \<open>The store as an implementation of the interface\<close>

text \<open>The context of the two operations that look at it is not cancelled.\<close>

definition memory_store :: "MemoryStore Store" where
  "memory_store =
    \<lparr>store_UpsertTenant = mem_UpsertTenant, store_UpsertPrincipal = mem_UpsertPrincipal,
     store_UpdatePrincipalStatus = mem_UpdatePrincipalStatus, store_GetTenant = mem_GetTenant,
     store_GetPrincipal = mem_GetPrincipal,
     store_ListPrincipalsByCasdoorUser = mem_ListPrincipalsByCasdoorUser,
     store_PutOIDCLoginState = mem_PutOIDCLoginState, store_TakeOIDCLoginState = mem_TakeOIDCLoginState,
     store_PutDeviceCode = mem_PutDeviceCode, store_GetDeviceCode = mem_GetDeviceCode,
     store_GetDeviceCodeByUserCode = mem_GetDeviceCodeByUserCode,
     store_UpdateDeviceCode = mem_UpdateDeviceCode,
     store_PutSession = mem_PutSession, store_GetSession = mem_GetSession,
     store_UpdateSessionContext = mem_UpdateSessionContext, store_DeleteSession = mem_DeleteSession,
     store_DeleteSessionsByPrincipal = mem_DeleteSessionsByPrincipal,
     store_PutServiceAccount = mem_PutServiceAccount, store_ListServiceAccounts = mem_ListServiceAccounts,
     store_DisableServiceAccount = mem_DisableServiceAccount,
     store_PutAPIKey = mem_PutAPIKey, store_GetAPIKeyByHash = mem_GetAPIKeyByHash,
     store_ListAPIKeys = mem_ListAPIKeys, store_RevokeAPIKey = mem_RevokeAPIKey,
     store_TouchAPIKeyLastUsed = mem_TouchAPIKeyLastUsed, store_PutAgentRun = mem_PutAgentRun,
     store_AppendAudit = mem_AppendAudit,
     store_TakeBoundOIDCLoginState = Some (mem_TakeBoundOIDCLoginState (\<lambda>_. None)),
     store_ListDirectorySubjects = Some (mem_ListDirectorySubjects (\<lambda>_. None))\<rparr>"

section \<open>The contract\<close>

definition mem_view :: "MemoryStore \<Rightarrow> StoreView" where
  "mem_view s = \<lparr>vw_tenants = map_of (ms_tenants s), vw_principals = map_of (ms_principals s),
     vw_oidcStates = map_of (ms_oidcStates s), vw_deviceCodes = map_of (ms_deviceCodes s),
     vw_sessions = map_of (ms_sessions s), vw_accounts = map_of (ms_accounts s),
     vw_apiKeys = map_of (ms_apiKeys s), vw_agentRuns = map_of (ms_agentRuns s),
     vw_audits = ms_audits s\<rparr>"

text \<open>The invariant: the keys of each map are distinct and every row is stored under its key.\<close>

definition mem_wf :: "MemoryStore \<Rightarrow> bool" where
  "mem_wf s \<longleftrightarrow> wf_map (ms_tenants s) \<and> wf_map (ms_principals s) \<and> wf_map (ms_oidcStates s)
     \<and> wf_map (ms_deviceCodes s) \<and> wf_map (ms_sessions s) \<and> wf_map (ms_accounts s)
     \<and> wf_map (ms_apiKeys s) \<and> wf_map (ms_agentRuns s) \<and> view_ok (mem_view s)"

lemma mem_wf_New [simp]: "mem_wf NewMemoryStore"
  by (simp add: mem_wf_def NewMemoryStore_def mem_view_def view_ok_def keyed_def)

lemmas mem_contract = mem_wf_def mem_view_def view_ok_def does_def

lemma map_of_del_where:
  "wf_map m \<Longrightarrow> map_of (map_del_where (\<lambda>k x. q x) m) =
     (\<lambda>k. case map_of m k of None \<Rightarrow> None | Some x \<Rightarrow> if q x then None else Some x)"
  by (rule ext) (simp add: map_of_map_del_where)

lemma mem_store_simps:
  "store_UpsertTenant memory_store = mem_UpsertTenant" "store_UpsertPrincipal memory_store = mem_UpsertPrincipal"
  "store_UpdatePrincipalStatus memory_store = mem_UpdatePrincipalStatus"
  "store_GetTenant memory_store = mem_GetTenant" "store_GetPrincipal memory_store = mem_GetPrincipal"
  "store_ListPrincipalsByCasdoorUser memory_store = mem_ListPrincipalsByCasdoorUser"
  "store_PutOIDCLoginState memory_store = mem_PutOIDCLoginState"
  "store_TakeOIDCLoginState memory_store = mem_TakeOIDCLoginState"
  "store_PutDeviceCode memory_store = mem_PutDeviceCode" "store_GetDeviceCode memory_store = mem_GetDeviceCode"
  "store_GetDeviceCodeByUserCode memory_store = mem_GetDeviceCodeByUserCode"
  "store_UpdateDeviceCode memory_store = mem_UpdateDeviceCode"
  "store_PutSession memory_store = mem_PutSession" "store_GetSession memory_store = mem_GetSession"
  "store_UpdateSessionContext memory_store = mem_UpdateSessionContext"
  "store_DeleteSession memory_store = mem_DeleteSession"
  "store_DeleteSessionsByPrincipal memory_store = mem_DeleteSessionsByPrincipal"
  "store_PutServiceAccount memory_store = mem_PutServiceAccount"
  "store_ListServiceAccounts memory_store = mem_ListServiceAccounts"
  "store_DisableServiceAccount memory_store = mem_DisableServiceAccount"
  "store_PutAPIKey memory_store = mem_PutAPIKey" "store_GetAPIKeyByHash memory_store = mem_GetAPIKeyByHash"
  "store_ListAPIKeys memory_store = mem_ListAPIKeys" "store_RevokeAPIKey memory_store = mem_RevokeAPIKey"
  "store_TouchAPIKeyLastUsed memory_store = mem_TouchAPIKeyLastUsed"
  "store_PutAgentRun memory_store = mem_PutAgentRun" "store_AppendAudit memory_store = mem_AppendAudit"
  "store_TakeBoundOIDCLoginState memory_store = Some (mem_TakeBoundOIDCLoginState (\<lambda>_. None))"
  "store_ListDirectorySubjects memory_store = Some (mem_ListDirectorySubjects (\<lambda>_. None))"
  by (simp_all add: memory_store_def)

lemma mem_UpdatePrincipalStatus_does:
  assumes "mem_wf s"
  shows "does mem_wf mem_view (mem_UpdatePrincipalStatus k status) s (exists_res (vw_principals (mem_view s) k))
    ((mem_view s)\<lparr>vw_principals := upd_at (vw_principals (mem_view s)) k (p_Status_update (\<lambda>_. status))\<rparr>)"
  using assms
  by (cases "map_of (ms_principals s) k") (auto simp: mem_contract mem_UpdatePrincipalStatus_def intro: keyed_replace)

lemma mem_UpdateSessionContext_does:
  assumes "mem_wf s"
  shows "does mem_wf mem_view (mem_UpdateSessionContext k pid tid team) s (exists_res (vw_sessions (mem_view s) k))
    ((mem_view s)\<lparr>vw_sessions := upd_at (vw_sessions (mem_view s)) k (\<lambda>x.
       x\<lparr>sess_PrincipalID := pid, sess_TenantID := tid, sess_CurrentTeamID := team\<rparr>)\<rparr>)"
  using assms
  by (cases "map_of (ms_sessions s) k") (auto simp: mem_contract mem_UpdateSessionContext_def intro: keyed_replace)

lemma mem_DeleteSessionsByPrincipal_does:
  assumes "mem_wf s"
  shows "does mem_wf mem_view (mem_DeleteSessionsByPrincipal pid) s (Inr ())
    ((mem_view s)\<lparr>vw_sessions := (\<lambda>k. case vw_sessions (mem_view s) k of None \<Rightarrow> None
       | Some x \<Rightarrow> if sess_PrincipalID x = pid then None else Some x)\<rparr>)"
proof -
  have "map_of (map_del_where (\<lambda>k x. sess_PrincipalID x = pid) (ms_sessions s)) =
      (\<lambda>k. case map_of (ms_sessions s) k of None \<Rightarrow> None | Some x \<Rightarrow> if sess_PrincipalID x = pid then None else Some x)"
    using assms by (intro map_of_del_where) (simp add: mem_wf_def)
  with assms show ?thesis
    by (auto simp: mem_contract mem_DeleteSessionsByPrincipal_def keyed_def split: option.splits if_splits)
qed

interpretation mem_id: identity_store memory_store mem_wf mem_view
proof
  fix s assume ok: "mem_wf s"
  show "view_ok (mem_view s)" using ok by (simp add: mem_wf_def)
  show "store_GetTenant memory_store k s = (found (vw_tenants (mem_view s) k), s)" for k
    by (simp add: mem_store_simps mem_GetTenant_def mem_view_def split: option.splits)
  show "store_GetPrincipal memory_store k s = (found (vw_principals (mem_view s) k), s)" for k
    by (simp add: mem_store_simps mem_GetPrincipal_def mem_view_def split: option.splits)
  show "store_GetSession memory_store k s = (found (vw_sessions (mem_view s) k), s)" for k
    by (simp add: mem_store_simps mem_GetSession_def mem_view_def split: option.splits)
  show "\<exists>ps. store_ListPrincipalsByCasdoorUser memory_store u s = (Inr ps, s)
      \<and> set ps = {p \<in> ran (vw_principals (mem_view s)). p_CasdoorUserID p \<noteq> [] \<and> p_CasdoorUserID p = u}" for u
    using ok by (auto simp: mem_store_simps mem_ListPrincipalsByCasdoorUser_def mem_wf_def mem_view_def set_map_values)
  show "does mem_wf mem_view (store_UpsertTenant memory_store t) s (Inr ())
      ((mem_view s)\<lparr>vw_tenants := (vw_tenants (mem_view s))(ten_ID t \<mapsto> t)\<rparr>)" for t
    using ok by (simp add: mem_store_simps mem_contract mem_UpsertTenant_def)
  show "does mem_wf mem_view (store_UpsertPrincipal memory_store p) s (Inr ())
      ((mem_view s)\<lparr>vw_principals := (vw_principals (mem_view s))(p_ID p \<mapsto> p)\<rparr>)" for p
    using ok by (simp add: mem_store_simps mem_contract mem_UpsertPrincipal_def)
  show "does mem_wf mem_view (store_PutSession memory_store x) s (Inr ())
      ((mem_view s)\<lparr>vw_sessions := (vw_sessions (mem_view s))(sess_ID x \<mapsto> x)\<rparr>)" for x
    using ok by (simp add: mem_store_simps mem_contract mem_PutSession_def)
  show "does mem_wf mem_view (store_DeleteSession memory_store k) s (Inr ())
      ((mem_view s)\<lparr>vw_sessions := (vw_sessions (mem_view s))(k := None)\<rparr>)" for k
    using ok by (simp add: mem_store_simps mem_contract mem_DeleteSession_def)
  show "does mem_wf mem_view (store_AppendAudit memory_store ev) s (Inr ())
      ((mem_view s)\<lparr>vw_audits := vw_audits (mem_view s) @ [ev]\<rparr>)" for ev
    using ok by (simp add: mem_store_simps mem_contract mem_AppendAudit_def)
qed (simp_all add: mem_store_simps mem_UpdatePrincipalStatus_does mem_UpdateSessionContext_does
    mem_DeleteSessionsByPrincipal_does)

lemma mem_RevokeAPIKey_does:
  assumes ok: "mem_wf s" and ex: "\<exists>k \<in> ran (vw_apiKeys (mem_view s)). key_ID k = kid \<and> key_PrincipalID k = pid"
  shows "\<exists>h k. vw_apiKeys (mem_view s) h = Some k \<and> key_ID k = kid \<and> key_PrincipalID k = pid
    \<and> does mem_wf mem_view (mem_RevokeAPIKey kid pid) s (Inr ())
        ((mem_view s)\<lparr>vw_apiKeys := (vw_apiKeys (mem_view s))(h \<mapsto> k\<lparr>key_Status := ''revoked''\<rparr>)\<rparr>)"
proof -
  have w: "wf_map (ms_apiKeys s)" using ok by (simp add: mem_wf_def)
  obtain h k where f: "find (\<lambda>(h, k). key_ID k = kid \<and> key_PrincipalID k = pid) (ms_apiKeys s) = Some (h, k)"
    using ex find_row_None [OF w, of "\<lambda>k. key_ID k = kid \<and> key_PrincipalID k = pid"]
    by (auto simp: mem_view_def)
  note row = find_row_Some [OF w f]
  have "does mem_wf mem_view (mem_RevokeAPIKey kid pid) s (Inr ())
      ((mem_view s)\<lparr>vw_apiKeys := (vw_apiKeys (mem_view s))(h \<mapsto> k\<lparr>key_Status := ''revoked''\<rparr>)\<rparr>)"
    using ok row by (auto simp: mem_contract mem_RevokeAPIKey_def f intro: keyed_replace)
  with row show ?thesis by (auto simp: mem_view_def)
qed

lemma mem_TouchAPIKey_does:
  assumes ok: "mem_wf s" and ex: "\<exists>k \<in> ran (vw_apiKeys (mem_view s)). key_ID k = kid"
  shows "\<exists>h k. vw_apiKeys (mem_view s) h = Some k \<and> key_ID k = kid
    \<and> does mem_wf mem_view (mem_TouchAPIKeyLastUsed kid t) s (Inr ())
        ((mem_view s)\<lparr>vw_apiKeys := (vw_apiKeys (mem_view s))(h \<mapsto> k\<lparr>key_LastUsedAt := t\<rparr>)\<rparr>)"
proof -
  have w: "wf_map (ms_apiKeys s)" using ok by (simp add: mem_wf_def)
  obtain h k where f: "find (\<lambda>(h, k). key_ID k = kid) (ms_apiKeys s) = Some (h, k)"
    using ex find_row_None [OF w, of "\<lambda>k. key_ID k = kid"] by (auto simp: mem_view_def)
  note row = find_row_Some [OF w f]
  have "does mem_wf mem_view (mem_TouchAPIKeyLastUsed kid t) s (Inr ())
      ((mem_view s)\<lparr>vw_apiKeys := (vw_apiKeys (mem_view s))(h \<mapsto> k\<lparr>key_LastUsedAt := t\<rparr>)\<rparr>)"
    using ok row by (auto simp: mem_contract mem_TouchAPIKeyLastUsed_def f intro: keyed_replace)
  with row show ?thesis by (auto simp: mem_view_def)
qed

lemma mem_DisableServiceAccount_does:
  assumes ok: "mem_wf s" and a: "vw_accounts (mem_view s) k = Some a" "acc_TenantID a = tid"
  shows "does mem_wf mem_view (mem_DisableServiceAccount k tid) s (Inr ())
    ((mem_view s)\<lparr>vw_accounts := (vw_accounts (mem_view s))(k \<mapsto> a\<lparr>acc_Status := ''disabled''\<rparr>),
       vw_principals := upd_at (vw_principals (mem_view s)) k (\<lambda>p.
         if p_TenantID p = tid then p\<lparr>p_Status := ''disabled''\<rparr> else p)\<rparr>)"
proof (cases "map_of (ms_principals s) k")
  case None
  with assms show ?thesis
    by (auto simp: mem_contract mem_DisableServiceAccount_def Let_def intro: keyed_replace)
next
  case (Some p)
  with assms show ?thesis
    by (cases "p_TenantID p = tid")
      (auto simp: mem_contract mem_DisableServiceAccount_def Let_def fun_upd_idem intro: keyed_replace)
qed

interpretation mem_cred: credential_store memory_store mem_wf mem_view
proof
  fix s assume ok: "mem_wf s"
  then have w: "wf_map (ms_apiKeys s)" "wf_map (ms_accounts s)" by (simp_all add: mem_wf_def)
  show "store_GetAPIKeyByHash memory_store h s = (found (vw_apiKeys (mem_view s) h), s)" for h
    by (simp add: mem_store_simps mem_GetAPIKeyByHash_def mem_view_def split: option.splits)
  show "\<exists>ks. store_ListAPIKeys memory_store pid s = (Inr ks, s)
      \<and> set ks = {k \<in> ran (vw_apiKeys (mem_view s)). key_PrincipalID k = pid}" for pid
    using w by (auto simp: mem_store_simps mem_ListAPIKeys_def mem_view_def set_map_values)
  show "\<exists>xs. store_ListServiceAccounts memory_store tid s = (Inr xs, s)
      \<and> set xs = {a \<in> ran (vw_accounts (mem_view s)). tid = [] \<or> acc_TenantID a = tid}" for tid
    using w by (auto simp: mem_store_simps mem_ListServiceAccounts_def mem_view_def set_map_values)
  show "does mem_wf mem_view (store_PutAPIKey memory_store key) s (Inr ())
      ((mem_view s)\<lparr>vw_apiKeys := (vw_apiKeys (mem_view s))(key_KeyHash key \<mapsto> key)\<rparr>)" for key
    using ok by (simp add: mem_store_simps mem_contract mem_PutAPIKey_def)
  show "does mem_wf mem_view (store_PutServiceAccount memory_store a) s (Inr ())
      ((mem_view s)\<lparr>vw_accounts := (vw_accounts (mem_view s))(acc_ID a \<mapsto> a)\<rparr>)" for a
    using ok by (simp add: mem_store_simps mem_contract mem_PutServiceAccount_def)
  show "does mem_wf mem_view (store_PutAgentRun memory_store run) s (Inr ())
      ((mem_view s)\<lparr>vw_agentRuns := (vw_agentRuns (mem_view s))(run_ID run \<mapsto> run)\<rparr>)" for run
    using ok by (simp add: mem_store_simps mem_contract mem_PutAgentRun_def)
  show "store_RevokeAPIKey memory_store kid pid s = (Inl ErrNotFound, s)"
    if "\<forall>k \<in> ran (vw_apiKeys (mem_view s)). \<not> (key_ID k = kid \<and> key_PrincipalID k = pid)" for kid pid
    using that find_row_None [OF w(1), of "\<lambda>k. key_ID k = kid \<and> key_PrincipalID k = pid"]
    by (simp add: mem_store_simps mem_RevokeAPIKey_def mem_view_def)
  show "store_TouchAPIKeyLastUsed memory_store kid t s = (Inl ErrNotFound, s)"
    if "\<forall>k \<in> ran (vw_apiKeys (mem_view s)). key_ID k \<noteq> kid" for kid t
    using that find_row_None [OF w(1), of "\<lambda>k. key_ID k = kid"]
    by (simp add: mem_store_simps mem_TouchAPIKeyLastUsed_def mem_view_def)
  show "store_DisableServiceAccount memory_store k tid s = (Inl ErrNotFound, s)"
    if "\<And>a. vw_accounts (mem_view s) k = Some a \<Longrightarrow> acc_TenantID a \<noteq> tid" for k tid
    using that by (cases "map_of (ms_accounts s) k") (auto simp: mem_store_simps mem_DisableServiceAccount_def mem_view_def)
qed (simp_all add: mem_store_simps mem_RevokeAPIKey_does mem_TouchAPIKey_does mem_DisableServiceAccount_does)

interpretation mem_login: login_store memory_store mem_wf mem_view
proof
  fix s assume ok: "mem_wf s"
  then have w: "wf_map (ms_deviceCodes s)" by (simp add: mem_wf_def)
  show "store_GetDeviceCode memory_store k s = (found (vw_deviceCodes (mem_view s) k), s)" for k
    by (simp add: mem_store_simps mem_GetDeviceCode_def mem_view_def split: option.splits)
  show "does mem_wf mem_view (store_PutDeviceCode memory_store c) s (Inr ())
      ((mem_view s)\<lparr>vw_deviceCodes := (vw_deviceCodes (mem_view s))(dev_DeviceCode c \<mapsto> c)\<rparr>)" for c
    using ok by (simp add: mem_store_simps mem_contract mem_PutDeviceCode_def)
  show "does mem_wf mem_view (store_PutOIDCLoginState memory_store x) s (Inr ())
      ((mem_view s)\<lparr>vw_oidcStates := (vw_oidcStates (mem_view s))(oidc_State x \<mapsto> x)\<rparr>)" for x
    using ok by (simp add: mem_store_simps mem_contract mem_PutOIDCLoginState_def)
  show "store_GetDeviceCodeByUserCode memory_store u s = (Inl ErrNotFound, s)"
    if "\<forall>c \<in> ran (vw_deviceCodes (mem_view s)). dev_UserCode c \<noteq> u" for u
    using that find_value_None [OF w, of "\<lambda>c. dev_UserCode c = u"]
    by (simp add: mem_store_simps mem_GetDeviceCodeByUserCode_def mem_view_def)
  show "\<exists>c \<in> ran (vw_deviceCodes (mem_view s)). dev_UserCode c = u
      \<and> store_GetDeviceCodeByUserCode memory_store u s = (Inr c, s)"
    if ex: "\<exists>c \<in> ran (vw_deviceCodes (mem_view s)). dev_UserCode c = u" for u
  proof -
    obtain c where f: "find (\<lambda>c. dev_UserCode c = u) (map_values (ms_deviceCodes s)) = Some c"
      using ex find_value_None [OF w, of "\<lambda>c. dev_UserCode c = u"] by (auto simp: mem_view_def)
    then show ?thesis
      using find_value_Some [OF w f]
      by (auto simp: mem_store_simps mem_GetDeviceCodeByUserCode_def mem_view_def)
  qed
  show "does mem_wf mem_view (store_UpdateDeviceCode memory_store c) s
      (exists_res (vw_deviceCodes (mem_view s) (dev_DeviceCode c)))
      ((mem_view s)\<lparr>vw_deviceCodes := upd_at (vw_deviceCodes (mem_view s)) (dev_DeviceCode c) (\<lambda>_. c)\<rparr>)" for c
    using ok by (cases "map_of (ms_deviceCodes s) (dev_DeviceCode c)")
      (auto simp: mem_store_simps mem_contract mem_UpdateDeviceCode_def)
  show "does mem_wf mem_view (store_TakeOIDCLoginState memory_store k) s
      (found (vw_oidcStates (mem_view s) k)) ((mem_view s)\<lparr>vw_oidcStates := (vw_oidcStates (mem_view s))(k := None)\<rparr>)" for k
    using ok by (cases "map_of (ms_oidcStates s) k")
      (auto simp: mem_store_simps mem_contract mem_TakeOIDCLoginState_def fun_upd_idem)
  show "take_bound k b s = (Inl ErrNotFound, s)"
    if "store_TakeBoundOIDCLoginState memory_store = Some take_bound"
      and "\<And>x. vw_oidcStates (mem_view s) k = Some x \<Longrightarrow> oidc_BrowserBinding x \<noteq> b" for take_bound k b
    using that by (auto simp: mem_store_simps mem_TakeBoundOIDCLoginState_def mem_view_def split: option.splits)
  show "does mem_wf mem_view (take_bound k b) s (Inr x)
      ((mem_view s)\<lparr>vw_oidcStates := (vw_oidcStates (mem_view s))(k := None)\<rparr>)"
    if "store_TakeBoundOIDCLoginState memory_store = Some take_bound"
      and "vw_oidcStates (mem_view s) k = Some x" and "oidc_BrowserBinding x = b" for take_bound k b x
    using that ok by (auto simp: mem_store_simps mem_contract mem_TakeBoundOIDCLoginState_def)
qed

lemma directory_subjects_not_cancelled:
  "\<exists>us. directory_subjects (\<lambda>_. None) tid n ps seen = Inr us \<and> distinct us \<and> set us = set seen \<union>
     p_CasdoorUserID ` {p \<in> set ps. p_TenantID p = tid \<and> p_CasdoorUserID p \<noteq> [] \<and> p_Type p = PrincipalTypeUser}"
proof (induction ps arbitrary: n seen)
  case Nil
  then show ?case by (simp add: sortedKeys_def)
next
  case (Cons p ps)
  show ?case
    using Cons [of "Suc n" "if p_TenantID p = tid \<and> p_CasdoorUserID p \<noteq> [] \<and> p_Type p = PrincipalTypeUser
          then p_CasdoorUserID p # seen else seen"]
    by (auto split: if_splits)
qed

interpretation mem_directory: directory_store memory_store mem_wf mem_view
proof
  fix s assume ok: "mem_wf s"
  then have w: "wf_map (ms_principals s)" by (simp add: mem_wf_def)
  show "\<exists>us. list_subjects tid s = (Inr us, s) \<and> distinct us \<and> set us = p_CasdoorUserID `
      {p \<in> ran (vw_principals (mem_view s)). p_TenantID p = tid \<and> p_CasdoorUserID p \<noteq> [] \<and> p_Type p = PrincipalTypeUser}"
    if "store_ListDirectorySubjects memory_store = Some list_subjects" and "tid \<noteq> []" for list_subjects tid
    using that directory_subjects_not_cancelled [of tid 1 "map_values (ms_principals s)" "[]"]
    by (auto simp: mem_store_simps mem_ListDirectorySubjects_def mem_view_def set_map_values [OF w])
  show "\<exists>r. list_subjects tid s = (r, s)"
    if "store_ListDirectorySubjects memory_store = Some list_subjects" for list_subjects tid
    using that by (auto simp: mem_store_simps mem_ListDirectorySubjects_def)
qed

end
