(* ===== verification/Warden_Reasoning.thy ===== *)
theory Warden_Reasoning
  imports Warden_World Warden_MemoryStore
begin

text \<open>
  How the service operations are reasoned about. The first part evaluates an operation step by step:
  every store operation of the contract, lifted to the service state, has its result and its effect on
  the view as a rewrite rule (\<open>store_simps\<close>). The second part is for facts about every
  operation: \<open>steps R m\<close> says that \<open>m\<close> relates its initial and its final state by \<open>R\<close>, and is
  composed along the structure of the code (\<open>steps_intro\<close>).
\<close>

named_theorems store_simps \<open>results and effects of store operations in the service state\<close>
named_theorems steps_intro \<open>composition of state relations\<close>

section \<open>Evaluation\<close>

lemma on_store_fields [simp]:
  "w_policy (snd (on_store m w)) = w_policy w"
  "w_policyVersion (snd (on_store m w)) = w_policyVersion w"
  "w_registrationPolicy (snd (on_store m w)) = w_registrationPolicy w"
  "w_notifier (snd (on_store m w)) = w_notifier w"
  "w_notified (snd (on_store m w)) = w_notified w"
  "w_mails (snd (on_store m w)) = w_mails w"
  "w_clock (snd (on_store m w)) = w_clock w"
  "w_draws (snd (on_store m w)) = w_draws w"
  "w_lookups (snd (on_store m w)) = w_lookups w"
  by (simp_all add: on_store_def)

lemma on_store_result [simp]:
  "fst (on_store m w) = fst (m (w_store w))"
  "w_store (snd (on_store m w)) = snd (m (w_store w))"
  by (simp_all add: on_store_def)

lemma on_store_read: "m (w_store w) = (r, w_store w) \<Longrightarrow> on_store m w = (r, w)"
  by (simp add: on_store_def)

text \<open>The time an operation works with: its argument, or the clock.\<close>

definition eff_now :: "Service \<Rightarrow> 's World \<Rightarrow> time \<Rightarrow> time" where
  "eff_now svc w now = (if IsZero now then svc_clock svc (w_clock w) else now)"

lemma eff_now_given [simp]: "\<not> IsZero now \<Longrightarrow> eff_now svc w now = now"
  by (simp add: eff_now_def)

lemma normalizeNow_eval [op_simps]:
  "fst (normalizeNow svc now w) = Inr (eff_now svc w now)"
  "w_store (snd (normalizeNow svc now w)) = w_store w"
  "w_policy (snd (normalizeNow svc now w)) = w_policy w"
  "w_policyVersion (snd (normalizeNow svc now w)) = w_policyVersion w"
  "w_registrationPolicy (snd (normalizeNow svc now w)) = w_registrationPolicy w"
  "w_draws (snd (normalizeNow svc now w)) = w_draws w"
  by (simp_all add: normalizeNow_def time_Now_def eff_now_def op_simps)

lemma normalizeNow_given [op_simps]: "\<not> IsZero now \<Longrightarrow> normalizeNow svc now w = (Inr now, w)"
  by (simp add: normalizeNow_def op_simps)

definition rand_at :: "Service \<Rightarrow> nat \<Rightarrow> string" where
  "rand_at svc n = RawURLEncoding_EncodeToString (random_bytes svc n)"

lemma randomString_eval [op_simps]:
  "randomString svc w = (Inr (rand_at svc (w_draws w)), w\<lparr>w_draws := Suc (w_draws w)\<rparr>)"
  by (simp add: randomString_def rand_at_def)

lemma time_Now_eval [op_simps]:
  "time_Now svc w = (Inr (svc_clock svc (w_clock w)), w\<lparr>w_clock := Suc (w_clock w)\<rparr>)"
  by (simp add: time_Now_def)

lemma Service_Policy_cong: "w_policy w = w_policy w' \<Longrightarrow> Service_Policy w = Service_Policy w'"
  by (simp add: Service_Policy_def)

lemma scopes_eval [op_simps]:
  "scopesForRoles roles w = (Inr (ScopesForRoles (Service_Policy w) roles), w)"
  "scopesForActions roles audience actions w = (Inr (ScopesForActions (Service_Policy w) roles audience actions), w)"
  by (simp_all add: scopesForRoles_def scopesForActions_def op_simps)

text \<open>The values an operation can return on the way.\<close>

lemma bnd_InrE:
  assumes "fst (bnd m f w) = Inr b"
  obtains a where "fst (m w) = Inr a" and "fst (f a (snd (m w))) = Inr b"
    and "snd (bnd m f w) = snd (f a (snd (m w)))"
  using assms by (auto simp: bnd_def split: sum.splits)

lemma on_err_InrE:
  assumes "fst (on_err m h f w) = Inr b"
  obtains (ok) a where "fst (m w) = Inr a" and "fst (f a (snd (m w))) = Inr b"
      and "snd (on_err m h f w) = snd (f a (snd (m w)))"
    | (err) e where "fst (m w) = Inl e" and "fst (h e (snd (m w))) = Inr b"
      and "snd (on_err m h f w) = snd (h e (snd (m w)))"
  using assms by (auto simp: on_err_def split: sum.splits)

context identity_store
begin

lemma read_simps [store_simps]:
  assumes "ok (w_store w)"
  shows "on_store (store_GetTenant st k) w = (found (vw_tenants (view (w_store w)) k), w)"
    and "on_store (store_GetPrincipal st k) w = (found (vw_principals (view (w_store w)) k), w)"
    and "on_store (store_GetSession st k) w = (found (vw_sessions (view (w_store w)) k), w)"
  using assms by (simp_all add: on_store_read GetTenant GetPrincipal GetSession)

lemmas does_laws = UpsertTenant UpsertPrincipal UpdatePrincipalStatus PutSession UpdateSessionContext
  DeleteSession DeleteSessionsByPrincipal AppendAudit

lemmas write_simps [store_simps] = does_laws [THEN doesD(1)] does_laws [THEN doesD(2)] does_laws [THEN doesD(3)]

text \<open>An audit entry is appended; nothing else of the store changes.\<close>

lemma auditWithActor_simps [store_simps]:
  assumes "ok (w_store w)"
  shows "fst (auditWithActor st svc p action resource decision jwtID actor w) = Inr ()"
    and "ok (w_store (snd (auditWithActor st svc p action resource decision jwtID actor w)))"
    and "view (w_store (snd (auditWithActor st svc p action resource decision jwtID actor w))) =
      (view (w_store w))\<lparr>vw_audits := vw_audits (view (w_store w)) @
        [audit_entry p action resource decision jwtID actor (svc_clock svc (w_clock w))]\<rparr>"
  using assms by (simp_all add: auditWithActor_def op_simps write_simps)

lemma audit_simps [store_simps]:
  assumes "ok (w_store w)"
  shows "fst (audit st svc p action resource decision jwtID w) = Inr ()"
    and "ok (w_store (snd (audit st svc p action resource decision jwtID w)))"
    and "view (w_store (snd (audit st svc p action resource decision jwtID w))) =
      (view (w_store w))\<lparr>vw_audits := vw_audits (view (w_store w)) @
        [audit_entry p action resource decision jwtID None (svc_clock svc (w_clock w))]\<rparr>"
  using assms by (simp_all add: audit_def auditWithActor_simps)

end

text \<open>Notifications and mails leave the store alone and do not fail.\<close>

lemma notifySecurity_simps [op_simps]:
  "fst (notifySecurity svc event w) = Inr ()"
  "w_store (snd (notifySecurity svc event w)) = w_store w"
  "w_policy (snd (notifySecurity svc event w)) = w_policy w"
  by (simp_all add: notifySecurity_def op_simps Let_def bnd_def)

section \<open>State relations\<close>

definition steps :: "('w \<Rightarrow> 'w \<Rightarrow> bool) \<Rightarrow> ('w, 'a) op \<Rightarrow> bool" where
  "steps R m \<longleftrightarrow> (\<forall>w. R w (snd (m w)))"

lemma stepsD: "steps R m \<Longrightarrow> R w (snd (m w))"
  by (simp add: steps_def)

lemma steps_pure [steps_intro]:
  assumes "reflp R"
  shows "steps R (ret a)" "steps R (fail e)" "steps R (get_st g)" "steps R (lift_res r)"
  using reflpD [OF assms] by (simp_all add: steps_def op_simps)

lemma steps_scopes [steps_intro]:
  assumes "reflp R"
  shows "steps R (scopesForRoles roles)" "steps R (scopesForActions roles audience actions)"
  using reflpD [OF assms] by (simp_all add: steps_def op_simps)

lemma steps_bnd [steps_intro]:
  assumes "transp R" and "steps R m" and "\<And>a. steps R (f a)"
  shows "steps R (bnd m f)"
  unfolding steps_def
proof
  fix w
  have "R w (snd (m w))" "\<And>a w. R w (snd (f a w))" using assms by (simp_all add: steps_def)
  with transpD [OF assms(1)] show "R w (snd (bnd m f w))"
    by (auto simp: bnd_def split: sum.splits)
qed

lemma steps_on_err [steps_intro]:
  assumes "transp R" and "steps R m" and "\<And>e. steps R (h e)" and "\<And>a. steps R (f a)"
  shows "steps R (on_err m h f)"
  unfolding steps_def
proof
  fix w
  have "R w (snd (m w))" "\<And>e w. R w (snd (h e w))" "\<And>a w. R w (snd (f a w))"
    using assms by (simp_all add: steps_def)
  with transpD [OF assms(1)] show "R w (snd (on_err m h f w))"
    by (auto simp: on_err_def split: sum.splits)
qed

lemma steps_ignore_err [steps_intro]: "steps R m \<Longrightarrow> steps R (ignore_err m)"
  by (simp add: steps_def op_simps)

lemma steps_for_each [steps_intro]:
  assumes "reflp R" and "transp R" and "\<And>x. steps R (f x)"
  shows "steps R (for_each f xs)"
  using assms by (induction xs) (auto intro!: steps_intro)

lemma steps_cases [steps_intro]:
  "\<lbrakk>c \<Longrightarrow> steps R m; \<not> c \<Longrightarrow> steps R m'\<rbrakk> \<Longrightarrow> steps R (if c then m else m')"
  "\<lbrakk>steps R m; \<And>x. steps R (f x)\<rbrakk> \<Longrightarrow> steps R (case r of None \<Rightarrow> m | Some x \<Rightarrow> f x)"
  "\<lbrakk>\<And>a b. steps R (g a b)\<rbrakk> \<Longrightarrow> steps R (case p of (a, b) \<Rightarrow> g a b)"
  by (auto split: option.splits prod.splits)

text \<open>The identity provider is asked without the store.\<close>

definition same_data :: "'s World \<Rightarrow> 's World \<Rightarrow> bool" where
  "same_data w w' \<longleftrightarrow> w_store w' = w_store w \<and> w_policy w' = w_policy w \<and> w_draws w' = w_draws w"

lemma same_data_relation: "reflp same_data" "transp same_data"
  by (auto simp: reflp_def transp_def same_data_def)

lemma same_data_oidc:
  "steps same_data (time_Now svc)" "steps same_data oidc_call" "steps same_data (resolveOIDC svc)"
  "steps same_data (VerifyIDToken svc v raw n)" "steps same_data (VerifyTokenSet svc v ts n)"
  "steps same_data (exchange_code svc x code verifier)"
proof -
  show now: "steps same_data (time_Now svc)" and call: "steps same_data oidc_call"
    by (simp_all add: steps_def same_data_def op_simps oidc_call_def)
  have upd: "steps same_data (upd_st (\<lambda>w. w\<lparr>w_oidcRetryAfter := t\<rparr>))"
    "steps same_data (upd_st (\<lambda>w. w\<lparr>w_oidcClient := c\<rparr>))" for t c
    by (simp_all add: steps_def same_data_def op_simps)
  show "steps same_data (resolveOIDC svc)"
    unfolding resolveOIDC_def Let_def by (intro steps_intro same_data_relation now call upd)
  show "steps same_data (VerifyIDToken svc v raw n)" "steps same_data (VerifyTokenSet svc v ts n)"
    "steps same_data (exchange_code svc x code verifier)"
    unfolding VerifyIDToken_def VerifyTokenSet_def exchange_code_def oidc_Now_def
    by (intro steps_intro same_data_relation now call)+
qed

lemmas same_data_stepD = same_data_oidc [THEN stepsD, unfolded same_data_def]

lemmas oidc_data [op_simps] = same_data_stepD [THEN conjunct1] same_data_stepD [THEN conjunct2, THEN conjunct1]
  same_data_stepD [THEN conjunct2, THEN conjunct2]

text \<open>
  A relation that is kept by the clock, the random source, the directory, the notifications and every
  operation of the store but the writes of device codes and new login states is kept by every method of the service
  but those that write them (\<open>service_core\<close>); \<open>device_writer\<close> and \<open>login_writer\<close> add the one and the other, and a
  relation with both is kept by all methods (\<open>service_relation\<close>). The lemmas of the components are proved in
  these locales.
\<close>

locale service_core =
  fixes st :: "'s Store" and R :: "'s World \<Rightarrow> 's World \<Rightarrow> bool"
  assumes R_refl: "reflp R" and R_trans: "transp R"
    and R_local: "w_store w' = w_store w \<Longrightarrow> w_policy w' = w_policy w \<Longrightarrow> R w w'"
    and R_UpsertTenant: "steps R (on_store (store_UpsertTenant st t))"
    and R_UpsertPrincipal: "steps R (on_store (store_UpsertPrincipal st p))"
    and R_UpdatePrincipalStatus: "steps R (on_store (store_UpdatePrincipalStatus st k status))"
    and R_GetTenant: "steps R (on_store (store_GetTenant st k))"
    and R_GetPrincipal: "steps R (on_store (store_GetPrincipal st k))"
    and R_ListPrincipals: "steps R (on_store (store_ListPrincipalsByCasdoorUser st k))"
    and R_PutSession: "steps R (on_store (store_PutSession st x))"
    and R_GetSession: "steps R (on_store (store_GetSession st k))"
    and R_UpdateSessionContext: "steps R (on_store (store_UpdateSessionContext st k pid tid team))"
    and R_DeleteSession: "steps R (on_store (store_DeleteSession st k))"
    and R_DeleteSessionsByPrincipal: "steps R (on_store (store_DeleteSessionsByPrincipal st k))"
    and R_PutServiceAccount: "steps R (on_store (store_PutServiceAccount st acc))"
    and R_ListServiceAccounts: "steps R (on_store (store_ListServiceAccounts st tid))"
    and R_DisableServiceAccount: "steps R (on_store (store_DisableServiceAccount st k tid))"
    and R_PutAPIKey: "steps R (on_store (store_PutAPIKey st key))"
    and R_GetAPIKeyByHash: "steps R (on_store (store_GetAPIKeyByHash st k))"
    and R_ListAPIKeys: "steps R (on_store (store_ListAPIKeys st k))"
    and R_RevokeAPIKey: "steps R (on_store (store_RevokeAPIKey st k pid))"
    and R_TouchAPIKey: "steps R (on_store (store_TouchAPIKeyLastUsed st k now))"
    and R_PutAgentRun: "steps R (on_store (store_PutAgentRun st run))"
    and R_AppendAudit: "steps R (on_store (store_AppendAudit st ev))"
    and R_GetDeviceCode: "steps R (on_store (store_GetDeviceCode st k))"
    and R_GetByUserCode: "steps R (on_store (store_GetDeviceCodeByUserCode st k))"
    and R_TakeOIDCLoginState: "steps R (on_store (store_TakeOIDCLoginState st k))"
    and R_TakeBound: "store_TakeBoundOIDCLoginState st = Some take_bound \<Longrightarrow> steps R (on_store (take_bound k b))"
    and R_ListSubjects: "store_ListDirectorySubjects st = Some list_subjects \<Longrightarrow> steps R (on_store (list_subjects tid))"
begin

lemmas R_store = R_UpsertTenant R_UpsertPrincipal R_UpdatePrincipalStatus R_GetTenant R_GetPrincipal
  R_ListPrincipals R_PutSession R_GetSession R_UpdateSessionContext R_DeleteSession
  R_DeleteSessionsByPrincipal R_PutServiceAccount R_ListServiceAccounts R_DisableServiceAccount
  R_PutAPIKey R_GetAPIKeyByHash R_ListAPIKeys R_RevokeAPIKey R_TouchAPIKey R_PutAgentRun R_AppendAudit
  R_GetDeviceCode R_GetByUserCode R_TakeOIDCLoginState

lemma R_effects:
  "steps R (time_Now svc)" "steps R (normalizeNow svc now)" "steps R (randomString svc)"
  "steps R (notifySecurity svc event)" "steps R (resolveOIDC svc)" "steps R (VerifyIDToken svc v raw nonce)"
  "steps R (VerifyTokenSet svc v ts nonce)" "steps R (exchange_code svc x code verifier)"
  by (auto simp: steps_def op_simps intro!: R_local)

lemma R_upd: "(\<And>w. w_store (g w) = w_store w) \<Longrightarrow> (\<And>w. w_policy (g w) = w_policy w) \<Longrightarrow> steps R (upd_st g)"
  by (auto simp: steps_def op_simps intro!: R_local)

lemmas R_rules = R_refl R_trans R_store R_effects steps_intro R_upd

lemma R_audit: "steps R (auditWithActor st svc p action resource decision jwtID actor)"
  "steps R (audit st svc p action resource decision jwtID)"
  by (auto simp: auditWithActor_def audit_def intro!: R_rules)

end

locale login_writer = service_core st R
  for st :: "'s Store" and R :: "'s World \<Rightarrow> 's World \<Rightarrow> bool" +
  assumes R_PutOIDCLoginState: "steps R (on_store (store_PutOIDCLoginState st x))"

locale device_writer = service_core st R
  for st :: "'s Store" and R :: "'s World \<Rightarrow> 's World \<Rightarrow> bool" +
  assumes R_PutDeviceCode: "steps R (on_store (store_PutDeviceCode st c))"
    and R_UpdateDeviceCode: "steps R (on_store (store_UpdateDeviceCode st c))"

locale service_relation = login_writer st R + device_writer st R
  for st :: "'s Store" and R :: "'s World \<Rightarrow> 's World \<Rightarrow> bool"

end
