(* ===== verification/Warden_Steps.thy ===== *)
theory Warden_Steps
  imports Warden_Credentials Warden_Login Warden_Reasoning Warden_MemoryStore "HOL-Library.Sublist"
begin

text \<open>
  Facts about every operation of the service at once. In \<open>service_core\<close> and \<open>service_relation\<close> each method is shown to
  keep any relation that its primitive operations keep; the relation of this theory is \<open>kept view_extends\<close>: the
  invariant of the store is kept, the audit log is only appended to, and no tenant, principal, service
  account, API key, device code or agent run is ever removed. \<open>service_step\<close> is the transition relation of
  the running service, one rule per method.
\<close>

context service_core
begin

lemma R_directory:
  "steps R (directory_lookup src u)"
  by (auto simp: steps_def directory_lookup_def intro!: R_local)

lemma R_sync_principal: "steps R (sync_principal st svc p d e)"
  unfolding sync_principal_def Let_def by (intro R_rules R_audit)

lemma R_sync_in_tenant: "steps R (sync_in_tenant st svc snap t)"
  unfolding sync_in_tenant_def report_unknown_role_def Let_def
  by (intro R_rules R_audit R_sync_principal)

lemma R_SyncDirectorySnapshot: "steps R (SyncDirectorySnapshot st svc snap)"
  unfolding SyncDirectorySnapshot_def Let_def by (intro R_rules R_sync_in_tenant)

lemma R_SyncDirectoryUser: "steps R (SyncDirectoryUser st svc src u)"
  unfolding SyncDirectoryUser_def by (intro R_rules R_directory R_SyncDirectorySnapshot)

lemma R_refresh: "steps R (refreshDirectoryPrincipal st svc p)"
  unfolding refreshDirectoryPrincipal_def revokeDirectoryPrincipal_def
  by (intro R_rules R_audit R_SyncDirectoryUser)

lemma R_CreateSession: "steps R (CreateSession st svc k now)"
  unfolding CreateSession_def Let_def by (intro R_rules)

lemma R_ValidateSession: "steps R (ValidateSession st svc k now)"
  unfolding ValidateSession_def check_status_def by (intro R_rules R_refresh)

lemma R_availableTenants: "steps R (availableTenants st p)"
proof -
  have "steps R (available_from st seen ps)" for seen ps
    by (induction ps arbitrary: seen) (auto intro!: R_rules)
  then show ?thesis unfolding availableTenants_def by (intro R_rules)
qed

lemma R_IdentityContext: "steps R (IdentityContext st svc k now)"
  unfolding IdentityContext_def by (intro R_rules R_ValidateSession R_availableTenants)

lemma R_switch: "steps R (SwitchTenant st svc rt)" "steps R (SwitchTeam st svc rm)"
  unfolding SwitchTenant_def SwitchTeam_def Let_def
  by (intro R_rules R_ValidateSession R_IdentityContext)+

lemma R_requirePrincipalAdmin: "steps R (requirePrincipalAdmin st svc k now)"
  unfolding requirePrincipalAdmin_def by (intro R_rules R_ValidateSession)

lemma R_notifyPrincipalDecision: "steps R (notifyPrincipalDecision svc p d)"
  unfolding notifyPrincipalDecision_def Let_def
  by (auto intro!: R_rules split: sum.splits)

lemma R_admin:
  "steps R (DisablePrincipal st svc k pid now)" "steps R (EnablePrincipal st svc k pid now)"
  "steps R (ApprovePrincipal st svc k pid now)" "steps R (RejectPrincipal st svc k pid now)"
  unfolding DisablePrincipal_def EnablePrincipal_def ApprovePrincipal_def RejectPrincipal_def
  by (intro R_rules R_audit R_requirePrincipalAdmin R_notifyPrincipalDecision)+

lemma R_ValidateAPIKey: "steps R (ValidateAPIKey st svc token now)"
  unfolding ValidateAPIKey_def by (intro R_rules)

lemma R_ValidateToken: "steps R (ValidateToken st svc token now)"
  unfolding ValidateToken_def by (intro R_rules R_ValidateAPIKey)

lemma R_keys:
  "steps R (CreateAPIKey st svc rk)" "steps R (ListAPIKeys st svc k now)" "steps R (RevokeAPIKey st svc k kid now)"
  unfolding CreateAPIKey_def ListAPIKeys_def RevokeAPIKey_def Let_def
  by (intro R_rules R_audit R_ValidateSession)+

lemma R_accounts:
  "steps R (CreateServiceAccountToken st svc ra)" "steps R (ListServiceAccounts st svc k now)"
  "steps R (DisableServiceAccount st svc k aid now)"
  unfolding CreateServiceAccountToken_def ListServiceAccounts_def DisableServiceAccount_def Let_def
  by (intro R_rules R_audit R_ValidateSession)+

lemma R_RecordAuditEvent: "steps R (RecordAuditEvent st svc req)"
  unfolding RecordAuditEvent_def Let_def by (intro R_rules R_ValidateSession R_ValidateAPIKey)

lemma R_signer: "steps R (signer_Sign svc inp)"
  unfolding signer_Sign_def by (intro R_rules)

lemma R_sign: "steps R (sign st svc p s a scopes resource source jti now actor d ttl)"
  unfolding sign_def by (intro R_rules R_audit R_signer)

lemma R_SignSystem: "steps R (SignSystemInternalJWT svc a scopes now)"
  unfolding SignSystemInternalJWT_def by (intro R_rules R_signer)

lemma R_SignInternalJWT: "steps R (SignInternalJWT st svc req)"
  unfolding SignInternalJWT_def signInternalJWTForAPIKey_def signInternalJWTForClientCredentials_def Let_def
  by (intro R_rules R_audit R_sign R_ValidateSession R_ValidateAPIKey)

lemma R_DelegateAgent: "steps R (DelegateAgent st svc req)"
  unfolding DelegateAgent_def Let_def by (intro R_rules R_audit R_sign R_ValidateSession)

lemma R_take_login_state: "steps R (take_login_state st k b requireBinding)"
  unfolding take_login_state_def by (auto intro!: R_rules R_TakeBound split: option.splits)

lemma R_callback:
  "steps R (completeOIDCCallback st svc code k b requireBinding now)" "steps R (CompleteOIDCCallback st svc code k now)"
  "steps R (CompleteBoundOIDCCallback st svc code k b now)"
proof -
  show *: "steps R (completeOIDCCallback st svc code k b requireBinding now)" for b requireBinding
    unfolding completeOIDCCallback_def Let_def
    by (intro R_rules R_take_login_state R_SyncDirectoryUser R_CreateSession R_IdentityContext) (auto split: option.splits list.splits
        intro!: R_rules R_take_login_state R_SyncDirectoryUser R_CreateSession R_IdentityContext)
  show "steps R (CompleteOIDCCallback st svc code k now)" "steps R (CompleteBoundOIDCCallback st svc code k b now)"
    unfolding CompleteOIDCCallback_def CompleteBoundOIDCCallback_def by (rule *)+
qed

lemma R_reconcile: "steps R (ReconcileDirectory st svc)" "steps R (ReconcileDirectoryIfAvailable st svc)"
proof -
  have subjects: "steps R (known_subjects st known us)" for known us
    by (induction us arbitrary: known) (auto intro!: R_rules)
  have known: "steps R (known_principals st list_subjects known ms)"
    if "store_ListDirectorySubjects st = Some list_subjects" for list_subjects known ms
    using that by (induction ms arbitrary: known) (auto intro!: R_rules R_ListSubjects subjects)
  have revoke: "steps R (revoke_absent st svc d current p)" for d current p
    unfolding revoke_absent_def revokeDirectoryPrincipal_def Let_def by (intro R_rules R_audit)
  have subject: "steps R (reconcile_subject st svc source d kn)" for source d kn
    unfolding reconcile_subject_def by (intro R_rules R_SyncDirectoryUser revoke)
  show "steps R (ReconcileDirectory st svc)"
    unfolding ReconcileDirectory_def casdoor_Reconcile_def
    by (auto intro!: R_rules known subject split: option.splits)
  then show "steps R (ReconcileDirectoryIfAvailable st svc)"
    unfolding ReconcileDirectoryIfAvailable_def by (auto intro!: R_rules split: option.splits)
qed

lemmas R_methods = R_SyncDirectorySnapshot R_SyncDirectoryUser R_CreateSession R_ValidateSession R_IdentityContext
  R_switch R_admin R_ValidateAPIKey R_ValidateToken R_keys R_accounts R_RecordAuditEvent R_SignInternalJWT
  R_DelegateAgent R_SignSystem R_callback(2,3) R_reconcile R_DeleteSession R_GetTenant R_effects(3,5)

end

context login_writer
begin

lemma R_login: "steps R (PutOIDCLoginState st svc x)" "steps R (StartOIDCLogin st svc rl)"
  unfolding PutOIDCLoginState_def StartOIDCLogin_def Let_def
  by (intro R_rules R_PutOIDCLoginState | auto split: sum.splits intro!: R_rules R_PutOIDCLoginState)+

end

context device_writer
begin

lemma R_device:
  "steps R (StartDeviceAuth st svc rs)" "steps R (ApproveDeviceAuth st svc rp)" "steps R (ExchangeDeviceToken st svc re)"
  unfolding StartDeviceAuth_def ApproveDeviceAuth_def ExchangeDeviceToken_def Let_def
  by (intro R_rules R_PutDeviceCode R_UpdateDeviceCode R_audit R_ValidateSession)+

lemmas R_calls = R_methods R_device

end

section \<open>The store only grows\<close>

definition view_extends :: "StoreView \<Rightarrow> StoreView \<Rightarrow> bool" where
  "view_extends V V' \<longleftrightarrow> prefix (vw_audits V) (vw_audits V')
     \<and> dom (vw_tenants V) \<subseteq> dom (vw_tenants V') \<and> dom (vw_principals V) \<subseteq> dom (vw_principals V')
     \<and> dom (vw_accounts V) \<subseteq> dom (vw_accounts V') \<and> dom (vw_apiKeys V) \<subseteq> dom (vw_apiKeys V')
     \<and> dom (vw_deviceCodes V) \<subseteq> dom (vw_deviceCodes V') \<and> dom (vw_agentRuns V) \<subseteq> dom (vw_agentRuns V')"

text \<open>The same, with the device codes unchanged.\<close>

definition quietly :: "StoreView \<Rightarrow> StoreView \<Rightarrow> bool" where
  "quietly V V' \<longleftrightarrow> view_extends V V' \<and> vw_deviceCodes V' = vw_deviceCodes V"

text \<open>The invariant of the store is kept, and its views are related by \<open>P\<close>.\<close>

definition kept :: "(StoreView \<Rightarrow> StoreView \<Rightarrow> bool) \<Rightarrow> ('s \<Rightarrow> bool) \<Rightarrow> ('s \<Rightarrow> StoreView) \<Rightarrow> 's World \<Rightarrow> 's World \<Rightarrow> bool" where
  "kept P ok view w w' \<longleftrightarrow>
     (ok (w_store w) \<longrightarrow> ok (w_store w') \<and> P (view (w_store w)) (view (w_store w')))"

lemma view_extends_refl [simp]: "view_extends V V"
  by (simp add: view_extends_def)

lemma view_extends_trans: "view_extends U V \<Longrightarrow> view_extends V W \<Longrightarrow> view_extends U W"
  unfolding view_extends_def by (meson prefix_order.trans subset_trans)

lemma quietly_refl [simp]: "quietly V V"
  by (simp add: quietly_def)

lemma relations_refl: "reflp view_extends" "reflp quietly"
  by (simp_all add: reflp_def)

lemma relations_trans: "transp view_extends" "transp quietly"
  unfolding transp_def quietly_def by (metis view_extends_trans)+

lemma kept_refl [simp]: "reflp P \<Longrightarrow> kept P ok view w w"
  by (simp add: kept_def reflpD)

lemma kept_reflp: "reflp P \<Longrightarrow> reflp (kept P ok view)"
  by (simp add: reflp_def [of "kept P ok view"])

lemma kept_transp: "transp P \<Longrightarrow> transp (kept P ok view)"
  unfolding transp_def kept_def by blast

lemma kept_same_store: "reflp P \<Longrightarrow> w_store w' = w_store w \<Longrightarrow> kept P ok view w w'"
  by (simp add: kept_def reflpD)

lemma kept_mono: "(\<And>V V'. P V V' \<Longrightarrow> Q V V') \<Longrightarrow> steps (kept P ok view) m \<Longrightarrow> steps (kept Q ok view) m"
  unfolding steps_def kept_def by blast

lemma quietly_grows: "steps (kept quietly ok view) m \<Longrightarrow> steps (kept view_extends ok view) m"
  by (erule kept_mono [rotated]) (simp add: quietly_def)

lemma dom_upd_at [simp]: "dom (upd_at m k f) = dom m"
  by (cases "m k") (auto simp: dom_def)

lemma kept_read:
  "reflp P \<Longrightarrow> (\<And>s. ok s \<Longrightarrow> \<exists>r. m s = (r, s)) \<Longrightarrow> steps (kept P ok view) (on_store m)"
  unfolding steps_def kept_def on_store_def reflp_def by fastforce

lemma kept_does:
  "(\<And>s. ok s \<Longrightarrow> \<exists>r V. does ok view m s r V \<and> P (view s) V) \<Longrightarrow> steps (kept P ok view) (on_store m)"
  unfolding steps_def kept_def on_store_def does_def by fastforce

lemma kept_by:
  assumes "\<And>s. ok s \<Longrightarrow> does ok view m s (r s) (V s)" and "\<And>s. P (view s) (V s)"
  shows "steps (kept P ok view) (on_store m)"
  using assms by (intro kept_does) blast

text \<open>The whole contract.\<close>

locale full_store = credential_store st ok view + login_store st ok view + directory_store st ok view
  for st :: "'s Store" and ok :: "'s \<Rightarrow> bool" and view :: "'s \<Rightarrow> StoreView"
begin

text \<open>Operations that may find no row: their effect in either case.\<close>

lemma effect_RevokeAPIKey:
  assumes "ok s"
  shows "\<exists>r m. does ok view (store_RevokeAPIKey st kid pid) s r ((view s)\<lparr>vw_apiKeys := m\<rparr>)
    \<and> dom (vw_apiKeys (view s)) \<subseteq> dom m"
proof (cases "\<exists>k \<in> ran (vw_apiKeys (view s)). key_ID k = kid \<and> key_PrincipalID k = pid")
  case True
  from RevokeAPIKey_some [OF assms True] show ?thesis by fastforce
next
  case False
  then have "does ok view (store_RevokeAPIKey st kid pid) s (Inl ErrNotFound) ((view s)\<lparr>vw_apiKeys := vw_apiKeys (view s)\<rparr>)"
    using assms by (simp add: does_def RevokeAPIKey_none)
  then show ?thesis by blast
qed

lemma effect_TouchAPIKey:
  assumes "ok s"
  shows "\<exists>r m. does ok view (store_TouchAPIKeyLastUsed st kid t) s r ((view s)\<lparr>vw_apiKeys := m\<rparr>)
    \<and> dom (vw_apiKeys (view s)) \<subseteq> dom m"
proof (cases "\<exists>k \<in> ran (vw_apiKeys (view s)). key_ID k = kid")
  case True
  from TouchAPIKey_some [OF assms True] show ?thesis by fastforce
next
  case False
  then have "does ok view (store_TouchAPIKeyLastUsed st kid t) s (Inl ErrNotFound) ((view s)\<lparr>vw_apiKeys := vw_apiKeys (view s)\<rparr>)"
    using assms by (simp add: does_def TouchAPIKey_none)
  then show ?thesis by blast
qed

lemma effect_DisableServiceAccount:
  assumes "ok s"
  shows "\<exists>r a p. does ok view (store_DisableServiceAccount st k tid) s r ((view s)\<lparr>vw_accounts := a, vw_principals := p\<rparr>)
    \<and> dom (vw_accounts (view s)) \<subseteq> dom a \<and> dom (vw_principals (view s)) \<subseteq> dom p"
proof (cases "\<exists>a. vw_accounts (view s) k = Some a \<and> acc_TenantID a = tid")
  case True
  then obtain a where a: "vw_accounts (view s) k = Some a" "acc_TenantID a = tid" by blast
  show ?thesis
    by (intro exI conjI, rule DisableServiceAccount_some [OF assms a]) auto
next
  case False
  then have "does ok view (store_DisableServiceAccount st k tid) s (Inl ErrNotFound)
      ((view s)\<lparr>vw_accounts := vw_accounts (view s), vw_principals := vw_principals (view s)\<rparr>)"
    using assms by (simp add: does_def DisableServiceAccount_none)
  then show ?thesis by blast
qed

lemma effect_TakeBound:
  assumes "ok s" and "store_TakeBoundOIDCLoginState st = Some take_bound"
  shows "\<exists>r m. does ok view (take_bound k b) s r ((view s)\<lparr>vw_oidcStates := m\<rparr>) \<and> m \<subseteq>\<^sub>m vw_oidcStates (view s)"
proof (cases "\<exists>x. vw_oidcStates (view s) k = Some x \<and> oidc_BrowserBinding x = b")
  case True
  then obtain x where x: "vw_oidcStates (view s) k = Some x" "oidc_BrowserBinding x = b" by blast
  show ?thesis using TakeBound_own [OF assms x] by (fastforce simp: map_le_def)
next
  case False
  then have "does ok view (take_bound k b) s (Inl ErrNotFound) ((view s)\<lparr>vw_oidcStates := vw_oidcStates (view s)\<rparr>)"
    using TakeBound_other [OF assms] assms(1) by (auto simp: does_def)
  then show ?thesis by (meson map_le_refl)
qed

lemma read_GetByUserCode:
  assumes "ok s"
  shows "\<exists>r. store_GetDeviceCodeByUserCode st u s = (r, s)"
  using GetByUserCode_some [OF assms] GetByUserCode_none [OF assms, of u] by blast

end

sublocale full_store \<subseteq> quiet: login_writer st "kept quietly ok view"
proof
  let ?R = "kept quietly ok view"
  show "reflp ?R" "transp ?R" by (simp_all add: kept_reflp kept_transp relations_refl relations_trans)
  show "?R w w'" if "w_store w' = w_store w" for w w' :: "'s World"
    using that by (rule kept_same_store [OF relations_refl(2)])
  show "steps ?R (on_store (store_GetTenant st k))" for k
    by (rule kept_read [OF relations_refl(2)]) (simp add: GetTenant)
  show "steps ?R (on_store (store_GetPrincipal st k))" for k
    by (rule kept_read [OF relations_refl(2)]) (simp add: GetPrincipal)
  show "steps ?R (on_store (store_GetSession st k))" for k
    by (rule kept_read [OF relations_refl(2)]) (simp add: GetSession)
  show "steps ?R (on_store (store_GetAPIKeyByHash st k))" for k
    by (rule kept_read [OF relations_refl(2)]) (simp add: GetAPIKeyByHash)
  show "steps ?R (on_store (store_GetDeviceCode st k))" for k
    by (rule kept_read [OF relations_refl(2)]) (simp add: GetDeviceCode)
  show "steps ?R (on_store (store_ListPrincipalsByCasdoorUser st k))" for k
    by (rule kept_read [OF relations_refl(2)]) (use ListPrincipals in blast)
  show "steps ?R (on_store (store_ListAPIKeys st k))" for k
    by (rule kept_read [OF relations_refl(2)]) (use ListAPIKeys in blast)
  show "steps ?R (on_store (store_ListServiceAccounts st k))" for k
    by (rule kept_read [OF relations_refl(2)]) (use ListServiceAccounts in blast)
  show "steps ?R (on_store (store_GetDeviceCodeByUserCode st k))" for k
    by (rule kept_read [OF relations_refl(2)]) (use read_GetByUserCode in blast)
  show "steps ?R (on_store (store_UpsertTenant st t))" for t
    by (rule kept_by, erule UpsertTenant) (auto simp: quietly_def view_extends_def)
  show "steps ?R (on_store (store_UpsertPrincipal st p))" for p
    by (rule kept_by, erule UpsertPrincipal) (auto simp: quietly_def view_extends_def)
  show "steps ?R (on_store (store_UpdatePrincipalStatus st k v))" for k v
    by (rule kept_by, erule UpdatePrincipalStatus) (auto simp: quietly_def view_extends_def)
  show "steps ?R (on_store (store_PutSession st x))" for x
    by (rule kept_by, erule PutSession) (auto simp: quietly_def view_extends_def)
  show "steps ?R (on_store (store_UpdateSessionContext st k pid tid team))" for k pid tid team
    by (rule kept_by, erule UpdateSessionContext) (auto simp: quietly_def view_extends_def)
  show "steps ?R (on_store (store_DeleteSession st k))" for k
    by (rule kept_by, erule DeleteSession) (auto simp: quietly_def view_extends_def)
  show "steps ?R (on_store (store_DeleteSessionsByPrincipal st k))" for k
    by (rule kept_by, erule DeleteSessionsByPrincipal) (auto simp: quietly_def view_extends_def)
  show "steps ?R (on_store (store_AppendAudit st ev))" for ev
    by (rule kept_by, erule AppendAudit) (auto simp: quietly_def view_extends_def)
  show "steps ?R (on_store (store_PutServiceAccount st a))" for a
    by (rule kept_by, erule PutServiceAccount) (auto simp: quietly_def view_extends_def)
  show "steps ?R (on_store (store_PutAPIKey st k))" for k
    by (rule kept_by, erule PutAPIKey) (auto simp: quietly_def view_extends_def)
  show "steps ?R (on_store (store_PutAgentRun st r))" for r
    by (rule kept_by, erule PutAgentRun) (auto simp: quietly_def view_extends_def)
  show "steps ?R (on_store (store_RevokeAPIKey st k pid))" for k pid
    by (rule kept_does, drule effect_RevokeAPIKey [of _ k pid]) (force simp: quietly_def view_extends_def)
  show "steps ?R (on_store (store_TouchAPIKeyLastUsed st k t))" for k t
    by (rule kept_does, drule effect_TouchAPIKey [of _ k t]) (force simp: quietly_def view_extends_def)
  show "steps ?R (on_store (store_DisableServiceAccount st k tid))" for k tid
    by (rule kept_does, drule effect_DisableServiceAccount [of _ k tid]) (force simp: quietly_def view_extends_def)
  show "steps ?R (on_store (store_PutOIDCLoginState st x))" for x
    by (rule kept_by, erule PutOIDCLoginState) (auto simp: quietly_def view_extends_def)
  show "steps ?R (on_store (store_TakeOIDCLoginState st k))" for k
    by (rule kept_by, erule TakeOIDCLoginState) (auto simp: quietly_def view_extends_def)
  show "steps ?R (on_store (take_bound k b))" if "store_TakeBoundOIDCLoginState st = Some take_bound" for take_bound k b
    by (rule kept_does, drule effect_TakeBound [OF _ that, of _ k b]) (force simp: quietly_def view_extends_def)
  show "steps ?R (on_store (list_subjects tid))" if "store_ListDirectorySubjects st = Some list_subjects" for list_subjects tid
    by (rule kept_read [OF relations_refl(2)]) (use ListDirectorySubjects_reads [OF _ that] in blast)
qed

sublocale full_store \<subseteq> growing: service_relation st "kept view_extends ok view"
proof
  let ?R = "kept view_extends ok view"
  show "reflp ?R" "transp ?R" by (simp_all add: kept_reflp kept_transp relations_refl relations_trans)
  show "?R w w'" if "w_store w' = w_store w" for w w' :: "'s World"
    using that by (rule kept_same_store [OF relations_refl(1)])
  show "steps ?R (on_store (store_PutDeviceCode st c))" for c
    by (rule kept_by, erule PutDeviceCode) (auto simp: view_extends_def)
  show "steps ?R (on_store (store_UpdateDeviceCode st c))" for c
    by (rule kept_by, erule UpdateDeviceCode) (auto simp: view_extends_def)
  show "steps ?R (on_store (take_bound k b))" if "store_TakeBoundOIDCLoginState st = Some take_bound" for take_bound k b
    using that by (intro quietly_grows quiet.R_TakeBound)
  show "steps ?R (on_store (list_subjects tid))" if "store_ListDirectorySubjects st = Some list_subjects" for list_subjects tid
    using that by (intro quietly_grows quiet.R_ListSubjects)
qed (rule quietly_grows, rule quiet.R_store quiet.R_PutOIDCLoginState)+

interpretation mem: full_store memory_store mem_wf mem_view
  by unfold_locales

section \<open>The running service\<close>

text \<open>A call of any method but those that store a new login state, or of the store and the random source as the
  HTTP handlers use them.\<close>

inductive service_call :: "'s Store \<Rightarrow> Service \<Rightarrow> 's World \<Rightarrow> 's World \<Rightarrow> bool" for st svc where
  sync: "service_call st svc w (snd (SyncDirectorySnapshot st svc snap w))"
| sync_user: "service_call st svc w (snd (SyncDirectoryUser st svc src u w))"
| create_session: "service_call st svc w (snd (CreateSession st svc pid now w))"
| validate_session: "service_call st svc w (snd (ValidateSession st svc k now w))"
| identity: "service_call st svc w (snd (IdentityContext st svc k now w))"
| switch_tenant: "service_call st svc w (snd (SwitchTenant st svc rt w))"
| switch_team: "service_call st svc w (snd (SwitchTeam st svc rm w))"
| disable: "service_call st svc w (snd (DisablePrincipal st svc k pid now w))"
| enable: "service_call st svc w (snd (EnablePrincipal st svc k pid now w))"
| approve: "service_call st svc w (snd (ApprovePrincipal st svc k pid now w))"
| reject: "service_call st svc w (snd (RejectPrincipal st svc k pid now w))"
| validate_key: "service_call st svc w (snd (ValidateAPIKey st svc token now w))"
| validate_token: "service_call st svc w (snd (ValidateToken st svc token now w))"
| create_key: "service_call st svc w (snd (CreateAPIKey st svc rk w))"
| list_keys: "service_call st svc w (snd (ListAPIKeys st svc k now w))"
| revoke_key: "service_call st svc w (snd (RevokeAPIKey st svc k kid now w))"
| create_account: "service_call st svc w (snd (CreateServiceAccountToken st svc ra w))"
| list_accounts: "service_call st svc w (snd (ListServiceAccounts st svc k now w))"
| disable_account: "service_call st svc w (snd (DisableServiceAccount st svc k aid now w))"
| record_audit: "service_call st svc w (snd (RecordAuditEvent st svc re w))"
| start_device: "service_call st svc w (snd (StartDeviceAuth st svc rs w))"
| approve_device: "service_call st svc w (snd (ApproveDeviceAuth st svc rp w))"
| exchange_device: "service_call st svc w (snd (ExchangeDeviceToken st svc rx w))"
| sign_internal: "service_call st svc w (snd (SignInternalJWT st svc rj w))"
| delegate: "service_call st svc w (snd (DelegateAgent st svc rd w))"
| sign_system: "service_call st svc w (snd (SignSystemInternalJWT svc aud scopes now w))"
| callback: "service_call st svc w (snd (CompleteOIDCCallback st svc code k now w))"
| bound_callback: "service_call st svc w (snd (CompleteBoundOIDCCallback st svc code k b now w))"
| reconcile: "service_call st svc w (snd (ReconcileDirectory st svc w))"
| reconcile_if: "service_call st svc w (snd (ReconcileDirectoryIfAvailable st svc w))"
| end_session: "service_call st svc w (snd (on_store (store_DeleteSession st k) w))"
| get_tenant: "service_call st svc w (snd (on_store (store_GetTenant st tid) w))"
| resolve: "service_call st svc w (snd (resolveOIDC svc w))"
| draw: "service_call st svc w (snd (randomString svc w))"
| policy: "service_call st svc w (UpdatePolicy pol w)"
| policy_version: "service_call st svc w (UpdatePolicyVersion v w)"
| registration: "service_call st svc w (UpdateRegistrationPolicy v w)"
| notifier: "service_call st svc w (SetSecurityNotifier w)"

inductive service_step :: "'s Store \<Rightarrow> Service \<Rightarrow> 's World \<Rightarrow> 's World \<Rightarrow> bool" for st svc where
  call: "service_call st svc w w' \<Longrightarrow> service_step st svc w w'"
| start_login: "service_step st svc w (snd (StartOIDCLogin st svc rl w))"
| put_login_state: "service_step st svc w (snd (PutOIDCLoginState st svc x w))"

lemma settings_store [simp]:
  "w_store (UpdatePolicy pol w) = w_store w" "w_store (UpdatePolicyVersion v w) = w_store w"
  "w_store (UpdateRegistrationPolicy v w) = w_store w" "w_store (SetSecurityNotifier w) = w_store w"
  by (simp_all add: UpdatePolicy_def UpdatePolicyVersion_def UpdateRegistrationPolicy_def SetSecurityNotifier_def Let_def)

context full_store
begin

lemma service_call_extends: "service_call st svc w w' \<Longrightarrow> kept view_extends ok view w w'"
  by (induction rule: service_call.induct)
    (rule growing.R_calls [THEN stepsD] kept_same_store [OF relations_refl(1)] settings_store)+

lemma service_step_extends: "service_step st svc w w' \<Longrightarrow> kept view_extends ok view w w'"
  by (induction rule: service_step.induct)
    (erule service_call_extends | rule growing.R_login [THEN stepsD])+

lemma service_steps_extends: "(service_step st svc)\<^sup>*\<^sup>* w w' \<Longrightarrow> kept view_extends ok view w w'"
proof (induction rule: rtranclp_induct)
  case base
  then show ?case by (simp add: relations_refl)
next
  case (step y z)
  then show ?case using service_step_extends transpD [OF kept_transp [OF relations_trans(1)]] by blast
qed

end

end
