(* ===== verification/Warden_Session_Facts.thy ===== *)
theory Warden_Session_Facts
  imports Warden_Steps
begin

text \<open>
  What the session operations of \<open>Warden_Sessions\<close> guarantee. \<open>session_valid\<close> is the abstract
  specification of a session that may be used: it is stated on the view of the store, and
  \<open>ValidateSession\<close> returns exactly the sessions that satisfy it. The lemmas are proved for any store
  with the contract of \<open>identity_store\<close>; the properties at the end are their instances for the in-memory
  store.
\<close>

section \<open>The policy and the store survive\<close>

definition same_policy :: "'s World \<Rightarrow> 's World \<Rightarrow> bool" where
  "same_policy w w' \<longleftrightarrow> w_policy w' = w_policy w"

lemma steps_same_policy: "steps same_policy (on_store m)"
  by (simp add: steps_def same_policy_def)

interpretation policy: service_relation st same_policy for st :: "'s Store"
  by unfold_locales (simp_all add: reflp_def transp_def steps_same_policy, simp_all add: same_policy_def)

lemma Service_Policy_steps: "steps same_policy m \<Longrightarrow> Service_Policy (snd (m w)) = Service_Policy w"
  by (intro Service_Policy_cong) (simp add: steps_def same_policy_def)

lemmas ValidateSession_policy [simp] = Service_Policy_steps [OF policy.R_ValidateSession]
lemmas ValidateAPIKey_policy [simp] = Service_Policy_steps [OF policy.R_ValidateAPIKey]

lemma normalizeNow_policy [simp]: "Service_Policy (snd (normalizeNow svc now w)) = Service_Policy w"
  by (intro Service_Policy_cong) (simp add: op_simps)

section \<open>Valid sessions\<close>

definition usable_session :: "StoreView \<Rightarrow> string \<Rightarrow> time \<Rightarrow> Session \<Rightarrow> Principal \<Rightarrow> bool" where
  "usable_session V sid now session p \<longleftrightarrow>
     vw_sessions V (TrimSpace sid) = Some session \<and> \<not> expired (sess_ExpiresAt session) now
     \<and> (\<exists>t. vw_tenants V (sess_TenantID session) = Some t \<and> ten_Status t \<noteq> PrincipalStatusDisabled)
     \<and> vw_principals V (sess_PrincipalID session) = Some p \<and> p_TenantID p = sess_TenantID session"

definition may_act :: "Principal \<Rightarrow> bool" where
  "may_act p \<longleftrightarrow> p_Status p \<noteq> ''disabled'' \<and> p_Status p \<noteq> ''pending''"

definition session_valid :: "StoreView \<Rightarrow> string \<Rightarrow> time \<Rightarrow> Session \<Rightarrow> Principal \<Rightarrow> bool" where
  "session_valid V sid now session p \<longleftrightarrow> usable_session V sid now session p \<and> may_act p"

lemma session_valid_updated:
  assumes "session_valid (V\<lparr>vw_sessions := m(k \<mapsto> x)\<rparr>) k now session p"
    and "TrimSpace k = k" and "vw_principals V (sess_PrincipalID x) = Some q"
  shows "session = x \<and> p = q \<and> may_act q"
  using assms by (auto simp: session_valid_def usable_session_def)

text \<open>The principal is looked up in the directory again on every use of its sessions.\<close>

definition refreshed :: "Service \<Rightarrow> Principal \<Rightarrow> bool" where
  "refreshed svc p \<longleftrightarrow> cfg_DirectoryRefreshOnSession (svc_cfg svc) \<and> p_CasdoorUserID p \<noteq> []"

lemma check_status_eval:
  "check_status session p w = (if p_Status p = ''disabled'' then (Inl ErrDisabled, w)
     else if p_Status p = ''pending'' then (Inl ErrAuthorizationPending, w) else (Inr (session, p), w))"
  by (simp add: check_status_def op_simps)

lemma refreshDirectoryPrincipal_ID:
  assumes "fst (refreshDirectoryPrincipal st svc p w) = Inr q"
  shows "p_ID q = p_ID p"
  using assms unfolding refreshDirectoryPrincipal_def
  by (elim bnd_InrE)
    (auto simp: revokeDirectoryPrincipal_def op_simps bnd_def split: option.splits sum.splits dest: find_SomeD)

context identity_store
begin

lemma ok_view: "ok (w_store w) \<Longrightarrow> view_ok (view (w_store w))"
  by (rule view_ok)

lemma session_row:
  "ok s \<Longrightarrow> vw_sessions (view s) k = Some x \<Longrightarrow> sess_ID x = k"
  using view_ok_keyed(5) [OF view_ok] by (blast dest: keyedD)

lemma principal_row:
  "ok s \<Longrightarrow> vw_principals (view s) k = Some x \<Longrightarrow> p_ID x = k"
  using view_ok_keyed(2) [OF view_ok] by (blast dest: keyedD)

text \<open>Without a refresh, \<open>ValidateSession\<close> returns the valid sessions and changes nothing of the store.\<close>

lemma ValidateSession_valid:
  assumes ok: "ok (w_store w)" and valid: "session_valid (view (w_store w)) sid (eff_now svc w now) session p"
    and "\<not> refreshed svc p"
  shows "fst (ValidateSession st svc sid now w) = Inr (session, p)"
    and "w_store (snd (ValidateSession st svc sid now w)) = w_store w"
    and "snd (ValidateSession st svc sid now w) = snd (normalizeNow svc now w)"
  using assms
  by (auto simp: ValidateSession_def session_valid_def usable_session_def may_act_def refreshed_def
      op_simps store_simps check_status_eval)

lemma ValidateSession_Inr:
  assumes ok: "ok (w_store w)" and res: "fst (ValidateSession st svc sid now w) = Inr (session, p)"
  obtains p0 where "usable_session (view (w_store w)) sid (eff_now svc w now) session p0"
    and "p_ID p = p_ID p0" and "may_act p"
    and "\<not> refreshed svc p0 \<Longrightarrow> p = p0 \<and> w_store (snd (ValidateSession st svc sid now w)) = w_store w"
proof -
  let ?w = "snd (normalizeNow svc now w)" and ?V = "view (w_store w)"
  have ok': "ok (w_store ?w)" using ok by (simp add: op_simps)
  obtain s where s: "vw_sessions ?V (TrimSpace sid) = Some s" "\<not> expired (sess_ExpiresAt s) (eff_now svc w now)"
    using res ok' by (cases "vw_sessions ?V (TrimSpace sid)")
      (auto simp: ValidateSession_def op_simps store_simps split: if_splits)
  obtain t where t: "vw_tenants ?V (sess_TenantID s) = Some t" "ten_Status t \<noteq> PrincipalStatusDisabled"
    using res ok' s by (cases "vw_tenants ?V (sess_TenantID s)")
      (auto simp: ValidateSession_def op_simps store_simps split: if_splits)
  obtain p0 where p0: "vw_principals ?V (sess_PrincipalID s) = Some p0" "p_TenantID p0 = sess_TenantID s"
    using res ok' s t by (cases "vw_principals ?V (sess_PrincipalID s)")
      (auto simp: ValidateSession_def op_simps store_simps split: if_splits)
  show thesis
  proof (cases "refreshed svc p0")
    case False
    with res ok' s t p0 have "session = s" "p = p0" "may_act p"
        "w_store (snd (ValidateSession st svc sid now w)) = w_store w"
      by (auto simp: ValidateSession_def op_simps store_simps refreshed_def may_act_def check_status_eval
          split: if_splits)
    with s t p0 False show thesis by (intro that [of p0]) (auto simp: usable_session_def)
  next
    case True
    let ?m = "refreshDirectoryPrincipal st svc p0"
    have "fst (ValidateSession st svc sid now w) =
        fst (on_err ?m (\<lambda>err. if errors_Is err ErrDirectoryUnavailable then fail ErrDirectoryUnavailable
           else fail ErrUnauthorized) (check_status s) ?w)"
      using ok' s t p0 True by (simp add: ValidateSession_def op_simps store_simps refreshed_def)
    with res obtain q where q: "fst (?m ?w) = Inr q" "fst (check_status s q (snd (?m ?w))) = Inr (session, p)"
      by (auto elim!: on_err_InrE simp: op_simps split: if_splits)
    then have "session = s" "p = q" "may_act p"
      by (auto simp: check_status_eval may_act_def split: if_splits)
    with s t p0 True refreshDirectoryPrincipal_ID [OF q(1)] show thesis
      by (intro that [of p0]) (auto simp: usable_session_def)
  qed
qed

text \<open>An expired session is refused and deleted.\<close>

lemma ValidateSession_expired:
  assumes "ok (w_store w)" and "vw_sessions (view (w_store w)) (TrimSpace sid) = Some session"
    and "expired (sess_ExpiresAt session) (eff_now svc w now)"
  shows "fst (ValidateSession st svc sid now w) = Inl ErrUnauthorized"
    and "vw_sessions (view (w_store (snd (ValidateSession st svc sid now w)))) =
      (vw_sessions (view (w_store w)))(TrimSpace sid := None)"
  using assms session_row [OF assms(1,2)]
  by (simp_all add: ValidateSession_def op_simps store_simps)

lemma ValidateSession_unknown:
  assumes "ok (w_store w)" and "vw_sessions (view (w_store w)) (TrimSpace sid) = None"
  shows "fst (ValidateSession st svc sid now w) = Inl ErrUnauthorized"
    and "w_store (snd (ValidateSession st svc sid now w)) = w_store w"
  using assms by (simp_all add: ValidateSession_def op_simps store_simps)

text \<open>Operations that begin with a validated session.\<close>

lemma with_session_InrE:
  assumes "ok (w_store w)" and "fst (bnd (ValidateSession st svc sid now) f w) = Inr b"
  obtains session p p0 where "fst (ValidateSession st svc sid now w) = Inr (session, p)"
    and "usable_session (view (w_store w)) sid (eff_now svc w now) session p0"
    and "p_ID p = p_ID p0" and "may_act p"
    and "\<not> refreshed svc p0 \<Longrightarrow> p = p0 \<and> w_store (snd (ValidateSession st svc sid now w)) = w_store w"
    and "fst (f (session, p) (snd (ValidateSession st svc sid now w))) = Inr b"
    and "snd (bnd (ValidateSession st svc sid now) f w) = snd (f (session, p) (snd (ValidateSession st svc sid now w)))"
proof -
  from assms(2) obtain a where a: "fst (ValidateSession st svc sid now w) = Inr a"
    "fst (f a (snd (ValidateSession st svc sid now w))) = Inr b"
    "snd (bnd (ValidateSession st svc sid now) f w) = snd (f a (snd (ValidateSession st svc sid now w)))"
    by (elim bnd_InrE)
  obtain session p where ap: "a = (session, p)" by (cases a)
  show thesis
    using ValidateSession_Inr [OF assms(1) a(1) [unfolded ap]] a unfolding ap by (metis that)
qed

section \<open>Creating sessions\<close>

lemma CreateSession_Inr:
  assumes ok: "ok (w_store w)" and res: "fst (CreateSession st svc pid now w) = Inr session"
  obtains p t where "vw_principals (view (w_store w)) pid = Some p" and "may_act p"
    and "vw_tenants (view (w_store w)) (p_TenantID p) = Some t" and "ten_Status t \<noteq> PrincipalStatusDisabled"
    and "session = \<lparr>sess_ID = ''sess_'' @ rand_at svc (w_draws w), sess_PrincipalID = pid,
      sess_TenantID = p_TenantID p, sess_CurrentTeamID = [], sess_AuthTime = eff_now svc w now,
      sess_ExpiresAt = eff_now svc w now + cfg_SessionTTL (svc_cfg svc), sess_Source = SessionSourceWeb\<rparr>"
    and "ok (w_store (snd (CreateSession st svc pid now w)))"
    and "view (w_store (snd (CreateSession st svc pid now w))) =
      (view (w_store w))\<lparr>vw_sessions := (vw_sessions (view (w_store w)))(sess_ID session \<mapsto> session)\<rparr>"
proof -
  let ?V = "view (w_store w)" and ?w = "snd (normalizeNow svc now w)"
  have ok': "ok (w_store ?w)" using ok by (simp add: op_simps)
  obtain p where p: "vw_principals ?V pid = Some p"
    using res ok' by (cases "vw_principals ?V pid") (auto simp: CreateSession_def op_simps store_simps)
  obtain t where t: "vw_tenants ?V (p_TenantID p) = Some t"
    using res ok' p by (cases "vw_tenants ?V (p_TenantID p)") (auto simp: CreateSession_def op_simps store_simps)
  have st: "ten_Status t \<noteq> PrincipalStatusDisabled" "may_act p"
    using res ok' p t by (auto simp: CreateSession_def op_simps store_simps may_act_def split: if_splits)
  have id: "p_ID p = pid" using principal_row [OF ok p] .
  show thesis
    using res ok' p t st id
    by (intro that [OF p _ t])
      (auto simp: CreateSession_def op_simps store_simps may_act_def Let_def)
qed

end

section \<open>Session identifiers\<close>

lemma url_alphabet_no_space: "set url_alphabet \<inter> space_bytes = {}"
  by (simp add: url_alphabet_def space_bytes_def space_runes_def)

lemma TrimSpace_id_random:
  assumes "set pre \<inter> space_bytes = {}"
  shows "TrimSpace (pre @ rand_at svc n) = pre @ rand_at svc n"
  using assms RawURL_chars [of "random_bytes svc n"] url_alphabet_no_space
  by (intro TrimSpace_fixed) (auto simp: rand_at_def)

lemma TrimSpace_session_id: "TrimSpace (''sess_'' @ rand_at svc n) = ''sess_'' @ rand_at svc n"
  by (rule TrimSpace_id_random) (simp add: space_bytes_def space_runes_def)

end
