(* ===== verification/Warden_Admin_Facts.thy ===== *)
theory Warden_Admin_Facts
  imports Warden_Session_Facts
begin

text \<open>
  What the administration of principals (\<open>src/warden/principal_admin.go\<close>) and the switch of tenant
  (\<open>src/warden/service.go\<close>) guarantee: who may call them, and what they leave in the store.
\<close>

context full_store
begin

lemma ok_after: "service_call st svc w w' \<Longrightarrow> ok (w_store w) \<Longrightarrow> ok (w_store w')"
  using service_call_extends by (simp add: kept_def)

lemma ok_ValidateSession [simp]: "ok (w_store w) \<Longrightarrow> ok (w_store (snd (ValidateSession st svc sid now w)))"
  by (rule ok_after [OF service_call.validate_session])

lemma ok_requirePrincipalAdmin [simp]:
  "ok (w_store w) \<Longrightarrow> ok (w_store (snd (requirePrincipalAdmin st svc sid now w)))"
  using growing.R_requirePrincipalAdmin [THEN stepsD, of w svc sid now] by (simp add: kept_def)

lemma requirePrincipalAdmin_Inr:
  assumes "ok (w_store w)" and "fst (requirePrincipalAdmin st svc sid now w) = Inr p"
  obtains session p0 where "usable_session (view (w_store w)) sid (eff_now svc w now) session p0"
    and "p_ID p = p_ID p0" and "may_act p" and "canManageServiceAccounts (p_Roles p)"
    and "\<not> refreshed svc p0 \<Longrightarrow> p = p0 \<and> w_store (snd (requirePrincipalAdmin st svc sid now w)) = w_store w"
  using assms unfolding requirePrincipalAdmin_def
  by (elim with_session_InrE) (auto simp: op_simps split: if_splits)

text \<open>The state after the caller has been checked.\<close>

lemma DisablePrincipal_Inr:
  assumes ok: "ok (w_store w)" and res: "fst (DisablePrincipal st svc sid pid now w) = Inr q"
  defines "w' \<equiv> snd (DisablePrincipal st svc sid pid now w)"
  obtains actor w1 where "requirePrincipalAdmin st svc sid now w = (Inr actor, w1)" and "ok (w_store w')"
    and "vw_principals (view (w_store w')) pid = Some q" and "p_Status q = ''disabled''"
    and "\<And>k s. vw_sessions (view (w_store w')) k = Some s \<Longrightarrow> sess_PrincipalID s \<noteq> pid"
proof -
  obtain actor w1 where a: "requirePrincipalAdmin st svc sid now w = (Inr actor, w1)"
    using res unfolding DisablePrincipal_def by (elim bnd_InrE) (metis prod.collapse)
  have ok1: "ok (w_store w1)" using ok_requirePrincipalAdmin [OF ok, of svc sid now] by (simp add: a)
  have b: "TrimSpace pid \<noteq> []"
    using res by (auto simp: DisablePrincipal_def op_simps a split: if_splits)
  obtain p where p: "vw_principals (view (w_store w1)) pid = Some p"
    using res ok1 b by (cases "vw_principals (view (w_store w1)) pid")
      (auto simp: DisablePrincipal_def op_simps store_simps a)
  show thesis
    using res ok1 b p
    by (intro that [OF a])
      (auto simp: DisablePrincipal_def op_simps store_simps a status_defs w'_def split: option.splits if_splits)
qed

lemma EnablePrincipal_Inr:
  assumes ok: "ok (w_store w)" and res: "fst (EnablePrincipal st svc sid pid now w) = Inr q"
  obtains actor w1 where "requirePrincipalAdmin st svc sid now w = (Inr actor, w1)"
  using res unfolding EnablePrincipal_def by (elim bnd_InrE) (metis prod.collapse)

lemma ApprovePrincipal_Inr:
  assumes ok: "ok (w_store w)" and res: "fst (ApprovePrincipal st svc sid pid now w) = Inr q"
  defines "w' \<equiv> snd (ApprovePrincipal st svc sid pid now w)"
  obtains actor w1 p where "requirePrincipalAdmin st svc sid now w = (Inr actor, w1)" and "ok (w_store w')"
    and "vw_principals (view (w_store w1)) pid = Some p" and "p_Status p = ''pending''"
    and "vw_principals (view (w_store w')) pid = Some q" and "q = p\<lparr>p_Status := ''active''\<rparr>"
proof -
  obtain actor w1 where a: "requirePrincipalAdmin st svc sid now w = (Inr actor, w1)"
    using res unfolding ApprovePrincipal_def by (elim bnd_InrE) (metis prod.collapse)
  have ok1: "ok (w_store w1)" using ok_requirePrincipalAdmin [OF ok, of svc sid now] by (simp add: a)
  have b: "TrimSpace pid \<noteq> []"
    using res by (auto simp: ApprovePrincipal_def op_simps a split: if_splits)
  obtain p where p: "vw_principals (view (w_store w1)) pid = Some p"
    using res ok1 b by (cases "vw_principals (view (w_store w1)) pid")
      (auto simp: ApprovePrincipal_def op_simps store_simps a)
  have pend: "p_Status p = ''pending''"
    using res ok1 b p by (auto simp: ApprovePrincipal_def op_simps store_simps a status_defs split: if_splits)
  show thesis
    using res ok1 b p pend
    by (intro that [OF a _ p pend])
      (auto simp: ApprovePrincipal_def op_simps store_simps a status_defs w'_def notifyPrincipalDecision_def Let_def
        split: sum.splits if_splits)
qed

end

section \<open>Identity context and tenant switch\<close>

context identity_store
begin

lemma available_from_reads: "ok (w_store w) \<Longrightarrow> snd (available_from st seen ps w) = w"
proof (induction ps arbitrary: seen)
  case Nil
  then show ?case by (simp add: op_simps)
next
  case (Cons p ps)
  show ?case
  proof (cases "vw_tenants (view (w_store w)) (p_TenantID p)")
    case None
    with Cons show ?thesis by (simp add: op_simps store_simps)
  next
    case (Some t)
    with Cons show ?thesis
      by (cases "fst (available_from st (p_TenantID p # seen) ps w)") (simp_all add: op_simps store_simps)
  qed
qed

lemma availableTenants_reads:
  assumes "ok (w_store w)"
  shows "snd (availableTenants st p w) = w"
proof -
  obtain ps where "on_store (store_ListPrincipalsByCasdoorUser st (p_CasdoorUserID p)) w = (Inr ps, w)"
    using ListPrincipals [OF assms] by (metis on_store_read)
  with assms show ?thesis
    by (simp add: availableTenants_def op_simps available_from_reads del: available_from.simps)
qed

text \<open>The identity context describes the validated session.\<close>

definition describes :: "'s World \<Rightarrow> Session \<Rightarrow> Principal \<Rightarrow> IdentityContext_t \<Rightarrow> bool" where
  "describes w session p ic \<longleftrightarrow> sc_PrincipalID (ic_Subject ic) = p_ID p
     \<and> tc_ID (ic_CurrentTenant ic) = sess_TenantID session
     \<and> ic_Permissions ic = ScopesForRoles (Service_Policy w) (p_Roles p)
     \<and> ic_RoleKeys ic = roleKeys (p_Roles p) \<and> ic_ConsoleAccess ic = ConsoleAccess (p_Roles p)"

lemma IdentityContext_Inr:
  assumes ok: "ok (w_store w)" and cfg: "\<not> cfg_DirectoryRefreshOnSession (svc_cfg svc)"
    and res: "fst (IdentityContext st svc sid now w) = Inr ic"
  obtains session p where "session_valid (view (w_store w)) sid (eff_now svc w now) session p"
    and "describes w session p ic" and "w_store (snd (IdentityContext st svc sid now w)) = w_store w"
proof -
  let ?w = "snd (ValidateSession st svc sid now w)"
  obtain session p where v: "fst (ValidateSession st svc sid now w) = Inr (session, p)"
    and valid: "session_valid (view (w_store w)) sid (eff_now svc w now) session p" and same: "w_store ?w = w_store w"
    using res cfg unfolding IdentityContext_def
    by (elim with_session_InrE [OF ok]) (auto simp: session_valid_def refreshed_def)
  obtain t where t: "vw_tenants (view (w_store w)) (sess_TenantID session) = Some t"
    using valid by (auto simp: session_valid_def usable_session_def)
  then have "ten_ID t = sess_TenantID session"
    using view_ok_keyed(1) [OF view_ok [OF ok]] by (blast dest: keyedD)
  moreover obtain ts where "fst (availableTenants st p ?w) = Inr ts"
    using res t ok same v
    by (cases "fst (availableTenants st p ?w)") (simp_all add: IdentityContext_def op_simps store_simps)
  ultimately show thesis
    using res t ok same v availableTenants_reads [of ?w p]
    by (intro that [OF valid]) (auto simp: IdentityContext_def op_simps store_simps describes_def)
qed

end

context full_store
begin

lemma SwitchTenant_Inr:
  assumes ok: "ok (w_store w)" and cfg: "\<not> cfg_DirectoryRefreshOnSession (svc_cfg svc)"
    and res: "fst (SwitchTenant st svc req w) = Inr ic"
  defines "V \<equiv> view (w_store w)" and "V' \<equiv> view (w_store (snd (SwitchTenant st svc req w)))"
  obtains session p session' p' where
    "session_valid V (swt_SessionID req) (eff_now svc w (swt_Now req)) session p"
    and "V' = V\<lparr>vw_sessions := (vw_sessions V)(sess_ID session \<mapsto> session')\<rparr>"
    and "sess_ID session' = sess_ID session" and "sess_ExpiresAt session' = sess_ExpiresAt session"
    and "sess_PrincipalID session' = p_ID p'" and "sess_TenantID session' = TrimSpace (swt_TenantID req)"
    and "vw_principals V (p_ID p') = Some p'" and "p_TenantID p' = TrimSpace (swt_TenantID req)"
    and "may_act p'" and "p' = p \<or> (p_CasdoorUserID p \<noteq> [] \<and> p_CasdoorUserID p' = p_CasdoorUserID p)"
    and "describes w session' p' ic"
proof -
  let ?w = "snd (ValidateSession st svc (swt_SessionID req) (swt_Now req) w)"
  let ?tid = "TrimSpace (swt_TenantID req)"
  obtain session p where v: "fst (ValidateSession st svc (swt_SessionID req) (swt_Now req) w) = Inr (session, p)"
    and valid: "session_valid V (swt_SessionID req) (eff_now svc w (swt_Now req)) session p"
    and same: "w_store ?w = w_store w"
    using res cfg unfolding SwitchTenant_def V_def
    by (elim with_session_InrE [OF ok]) (auto simp: session_valid_def refreshed_def)
  have sess: "vw_sessions V (TrimSpace (swt_SessionID req)) = Some session"
    and pr: "vw_principals V (sess_PrincipalID session) = Some p" "p_TenantID p = sess_TenantID session"
    using valid by (auto simp: session_valid_def usable_session_def)
  have sid: "sess_ID session = TrimSpace (swt_SessionID req)" "p_ID p = sess_PrincipalID session"
    using session_row [OF ok] principal_row [OF ok] sess pr(1) by (auto simp: V_def)
  obtain ps where raw: "store_ListPrincipalsByCasdoorUser st (p_CasdoorUserID p) (w_store ?w) = (Inr ps, w_store ?w)"
    and set_ps: "set ps = {q \<in> ran (vw_principals V). p_CasdoorUserID q \<noteq> [] \<and> p_CasdoorUserID q = p_CasdoorUserID p}"
    using ListPrincipals [OF ok, of "p_CasdoorUserID p"] unfolding same V_def by blast
  have ps: "on_store (store_ListPrincipalsByCasdoorUser st (p_CasdoorUserID p)) ?w = (Inr ps, ?w)"
    using raw by (rule on_store_read)
  have ne: "?tid \<noteq> []"
    using res by (auto simp: SwitchTenant_def op_simps v split: if_splits)
  define target where "target = (if ?tid = sess_TenantID session then Some p
    else if p_CasdoorUserID p = [] then None
    else find (\<lambda>c. p_TenantID c = ?tid \<and> p_Status c \<noteq> ''disabled'') ps)"
  obtain p' where p': "target = Some p'"
    using res ne by (cases target) (auto simp: SwitchTenant_def op_simps v ps target_def split: if_splits)
  have row: "vw_principals V (p_ID p') = Some p'" and ten: "p_TenantID p' = ?tid"
    and who: "p' = p \<or> (p_CasdoorUserID p \<noteq> [] \<and> p_CasdoorUserID p' = p_CasdoorUserID p)"
    using p' pr sid set_ps principal_row [OF ok]
    by (auto simp: target_def V_def ran_def split: if_splits dest!: find_SomeD)
  obtain team where team: "validateTeamSelection p' (swt_TeamID req) = Inr team"
    using res ne p' by (cases "validateTeamSelection p' (swt_TeamID req)")
      (auto simp: SwitchTenant_def op_simps v ps target_def split: if_splits)
  let ?m = "on_store (store_UpdateSessionContext st (sess_ID session) (p_ID p') (p_TenantID p') team)"
  let ?w2 = "snd (?m ?w)"
  let ?session = "session\<lparr>sess_PrincipalID := p_ID p', sess_TenantID := p_TenantID p', sess_CurrentTeamID := team\<rparr>"
  have ok2: "ok (w_store ?w2)" using ok same by (simp add: store_simps)
  have V2: "view (w_store ?w2) = V\<lparr>vw_sessions := (vw_sessions V)(sess_ID session \<mapsto> ?session)\<rparr>"
    using ok same sess sid by (simp add: store_simps V_def)
  have step: "SwitchTenant st svc req w = IdentityContext st svc (sess_ID session) (swt_Now req) ?w2"
    using ok same sess sid ne p'
    by (auto simp: SwitchTenant_def op_simps v ps target_def team store_simps V_def split: if_splits)
  obtain s2 p2 where s2: "session_valid (view (w_store ?w2)) (sess_ID session) (eff_now svc ?w2 (swt_Now req)) s2 p2"
    and d: "describes ?w2 s2 p2 ic"
    and eq: "w_store (snd (IdentityContext st svc (sess_ID session) (swt_Now req) ?w2)) = w_store ?w2"
    using IdentityContext_Inr [OF ok2 cfg] res unfolding step by blast
  have "s2 = ?session \<and> p2 = p' \<and> may_act p'"
    using session_valid_updated [OF s2 [unfolded V2]] row sid(1) by simp
  moreover have "Service_Policy ?w2 = Service_Policy w"
    using Service_Policy_cong [of ?w2 ?w] by simp
  ultimately show thesis
    using d eq ten row who valid V2
    by (intro that [of session p ?session p']) (auto simp: V'_def step describes_def)
qed

end

end
