(* ===== verification/Warden_Credential_Facts.thy ===== *)
theory Warden_Credential_Facts
  imports Warden_Admin_Facts
begin

text \<open>
  What the API keys and service accounts of \<open>Warden_Credentials\<close> guarantee: which keys validate, what a
  created key carries, and what revocation and disabling take away.
\<close>

section \<open>Valid keys\<close>

definition key_valid :: "StoreView \<Rightarrow> string \<Rightarrow> time \<Rightarrow> APIKey \<Rightarrow> Principal \<Rightarrow> bool" where
  "key_valid V token now key p \<longleftrightarrow> vw_apiKeys V (HashAPIKey token) = Some key
     \<and> key_Status key = ''active'' \<and> \<not> expired (key_ExpiresAt key) now
     \<and> vw_principals V (key_PrincipalID key) = Some p \<and> p_Status p \<noteq> ''disabled''"

text \<open>The keys of one principal, and identifiers that name at most one key.\<close>

definition key_ids_unique :: "StoreView \<Rightarrow> bool" where
  "key_ids_unique V \<longleftrightarrow> (\<forall>h h' k k'. vw_apiKeys V h = Some k \<longrightarrow> vw_apiKeys V h' = Some k'
     \<longrightarrow> key_ID k = key_ID k' \<longrightarrow> h = h')"

context credential_store
begin

lemma key_reads [store_simps]:
  "ok (w_store w) \<Longrightarrow> on_store (store_GetAPIKeyByHash st h) w = (found (vw_apiKeys (view (w_store w)) h), w)"
  by (simp add: on_store_read GetAPIKeyByHash)

lemmas key_laws = PutAPIKey PutServiceAccount PutAgentRun

lemmas key_writes [store_simps] = key_laws [THEN doesD(1)] key_laws [THEN doesD(2)] key_laws [THEN doesD(3)]

lemma touch_existing:
  assumes "ok (w_store w)" and "vw_apiKeys (view (w_store w)) h = Some key"
  shows "fst (on_store (store_TouchAPIKeyLastUsed st (key_ID key) t) w) = Inr ()"
proof -
  have "\<exists>k \<in> ran (vw_apiKeys (view (w_store w))). key_ID k = key_ID key"
    using assms(2) by (auto intro: ranI)
  from TouchAPIKey_some [OF assms(1) this, of t] show ?thesis by (auto simp: does_def)
qed

lemma ValidateAPIKey_iff:
  assumes "ok (w_store w)"
  shows "fst (ValidateAPIKey st svc token now w) = Inr (k, p) \<longleftrightarrow>
    (\<exists>key. key_valid (view (w_store w)) token (eff_now svc w now) key p
       \<and> k = key\<lparr>key_LastUsedAt := eff_now svc w now\<rparr>)"
proof (cases "vw_apiKeys (view (w_store w)) (HashAPIKey token)")
  case None
  with assms show ?thesis by (simp add: ValidateAPIKey_def op_simps store_simps key_valid_def)
next
  case (Some key)
  let ?w = "snd (normalizeNow svc now w)"
  have ok': "ok (w_store ?w)" using assms by (simp add: op_simps)
  have t: "fst (store_TouchAPIKeyLastUsed st (key_ID key) (eff_now svc w now) (w_store w)) = Inr ()"
    using touch_existing [OF assms Some] by simp
  show ?thesis
  proof (cases "key_Status key \<noteq> ''active'' \<or> expired (key_ExpiresAt key) (eff_now svc w now)")
    case True
    with Some assms show ?thesis by (auto simp: ValidateAPIKey_def op_simps store_simps key_valid_def)
  next
    case False
    with Some assms ok' t show ?thesis
      by (cases "vw_principals (view (w_store w)) (key_PrincipalID key)")
        (auto simp: ValidateAPIKey_def op_simps store_simps key_valid_def)
  qed
qed

lemma ValidateAPIKey_refused:
  assumes ok: "ok (w_store w)"
    and "\<And>key. vw_apiKeys (view (w_store w)) (HashAPIKey token) = Some key \<Longrightarrow>
           key_Status key \<noteq> ''active'' \<or> expired (key_ExpiresAt key) (eff_now svc w now)"
  shows "fst (ValidateAPIKey st svc token now w) = Inl ErrUnauthorized"
  using assms by (cases "vw_apiKeys (view (w_store w)) (HashAPIKey token)")
    (auto simp: ValidateAPIKey_def op_simps store_simps)

lemma ValidateAPIKey_disabled:
  assumes ok: "ok (w_store w)" and key: "vw_apiKeys (view (w_store w)) (HashAPIKey token) = Some key"
    and p: "vw_principals (view (w_store w)) (key_PrincipalID key) = Some p" "p_Status p = ''disabled''"
  shows "fst (ValidateAPIKey st svc token now w) \<in> {Inl ErrUnauthorized, Inl ErrDisabled}"
proof -
  have ok': "ok (w_store (snd (normalizeNow svc now w)))" using ok by (simp add: op_simps)
  with assms show ?thesis by (auto simp: ValidateAPIKey_def op_simps store_simps)
qed

end

section \<open>Creating keys\<close>

definition new_key :: "Service \<Rightarrow> 's World \<Rightarrow> CreateAPIKeyRequest \<Rightarrow> Session \<Rightarrow> Principal \<Rightarrow> APIKey" where
  "new_key svc w req session p =
    \<lparr>key_ID = ''key_'' @ rand_at svc (Suc (Suc (w_draws w))), key_Name = TrimSpace (ck_Name req),
     key_TenantID = sess_TenantID session, key_PrincipalType = p_Type p, key_PrincipalID = p_ID p,
     key_KeyHash = HashAPIKey (cfg_APIKeyPrefix (svc_cfg svc) @ ''_'' @ rand_at svc (w_draws w) @ rand_at svc (Suc (w_draws w))),
     key_Scopes = ck_Scopes req, key_ExpiresAt = ck_ExpiresAt req, key_Status = ''active'',
     key_CreatedAt = eff_now svc w (ck_Now req), key_LastUsedAt = zero_time\<rparr>"

context full_store
begin

lemma CreateAPIKey_Inr:
  assumes ok: "ok (w_store w)" and cfg: "\<not> cfg_DirectoryRefreshOnSession (svc_cfg svc)"
    and res: "fst (CreateAPIKey st svc req w) = Inr c"
  defines "V \<equiv> view (w_store w)" and "w' \<equiv> snd (CreateAPIKey st svc req w)"
  obtains session p key log where "session_valid V (ck_SessionID req) (eff_now svc w (ck_Now req)) session p"
    and "set (ck_Scopes req) \<subseteq> TrimSpace ` set (ScopesForRoles (Service_Policy w) (p_Roles p)) - {[]}"
    and "key_ID key = cak_ID c" and "key_KeyHash key = HashAPIKey (cak_Token c)"
    and "key_TenantID key = sess_TenantID session" and "key_PrincipalID key = p_ID p"
    and "key_Scopes key = ck_Scopes req" and "key_ExpiresAt key = ck_ExpiresAt req" and "key_Status key = ''active''"
    and "view (w_store w') = V\<lparr>vw_apiKeys := (vw_apiKeys V)(HashAPIKey (cak_Token c) \<mapsto> key), vw_audits := log\<rparr>"
    and "ok (w_store w')"
proof -
  let ?w = "snd (ValidateSession st svc (ck_SessionID req) (ck_Now req) w)"
  obtain session p where v: "fst (ValidateSession st svc (ck_SessionID req) (ck_Now req) w) = Inr (session, p)"
    and valid: "session_valid V (ck_SessionID req) (eff_now svc w (ck_Now req)) session p"
    and same: "w_store ?w = w_store w"
    using res cfg unfolding CreateAPIKey_def V_def
    by (elim with_session_InrE [OF ok]) (auto simp: session_valid_def refreshed_def)
  have sc: "set (ck_Scopes req) \<subseteq> set (sliceSet (ScopesForRoles (Service_Policy w) (p_Roles p)))"
    using res by (auto simp: CreateAPIKey_def op_simps v Let_def split: if_splits)
  have ok1: "ok (w_store (snd (normalizeNow svc (ck_Now req) ?w)))" using ok same by (simp add: op_simps)
  let ?key = "new_key svc (snd (normalizeNow svc (ck_Now req) ?w)) req session p
      \<lparr>key_CreatedAt := eff_now svc ?w (ck_Now req)\<rparr>"
  have ok': "ok (w_store w')"
    using ok ok_after [OF service_call.create_key] by (simp add: w'_def)
  have allowed: "(\<exists>scope \<in> set (ck_Scopes req).
      scope \<notin> set (sliceSet (ScopesForRoles (Service_Policy w) (p_Roles p)))) = False"
    using sc by auto
  have sub: "set (ck_Scopes req) \<subseteq> TrimSpace ` set (ScopesForRoles (Service_Policy w) (p_Roles p)) - {[]}"
    using sc by (simp add: set_sliceSet)
  show thesis
    using res ok1 ok same
    by (intro that [OF valid sub _ _ _ _ _ _ _ _ ok', of ?key])
      (auto simp: CreateAPIKey_def op_simps store_simps v Let_def allowed new_key_def w'_def V_def)
qed

section \<open>Revoking and disabling\<close>

lemma RevokeAPIKey_Inr:
  assumes ok: "ok (w_store w)" and cfg: "\<not> cfg_DirectoryRefreshOnSession (svc_cfg svc)"
    and res: "fst (RevokeAPIKey st svc sid kid now w) = Inr ()"
  defines "V \<equiv> view (w_store w)" and "w' \<equiv> snd (RevokeAPIKey st svc sid kid now w)"
  obtains session p h key log where "session_valid V sid (eff_now svc w now) session p"
    and "vw_apiKeys V h = Some key" and "key_ID key = kid" and "key_PrincipalID key = p_ID p"
    and "view (w_store w') = V\<lparr>vw_apiKeys := (vw_apiKeys V)(h \<mapsto> key\<lparr>key_Status := ''revoked''\<rparr>), vw_audits := log\<rparr>"
    and "ok (w_store w')"
proof -
  let ?w = "snd (ValidateSession st svc sid now w)"
  obtain session p where v: "fst (ValidateSession st svc sid now w) = Inr (session, p)"
    and valid: "session_valid V sid (eff_now svc w now) session p" and same: "w_store ?w = w_store w"
    using res cfg unfolding RevokeAPIKey_def V_def
    by (elim with_session_InrE [OF ok]) (auto simp: session_valid_def refreshed_def)
  have ne: "TrimSpace kid \<noteq> []" using res by (auto simp: RevokeAPIKey_def op_simps v split: if_splits)
  have ex: "\<exists>k \<in> ran (vw_apiKeys V). key_ID k = kid \<and> key_PrincipalID k = p_ID p"
  proof (rule ccontr)
    assume "\<not> ?thesis"
    then have "store_RevokeAPIKey st kid (p_ID p) (w_store w) = (Inl ErrNotFound, w_store w)"
      using ok by (intro RevokeAPIKey_none) (auto simp: V_def)
    with res ne show False by (simp add: RevokeAPIKey_def op_simps v same)
  qed
  obtain h key where row: "vw_apiKeys V h = Some key" "key_ID key = kid" "key_PrincipalID key = p_ID p"
    and d: "does ok view (store_RevokeAPIKey st kid (p_ID p)) (w_store w) (Inr ())
      (V\<lparr>vw_apiKeys := (vw_apiKeys V)(h \<mapsto> key\<lparr>key_Status := ''revoked''\<rparr>)\<rparr>)"
    using RevokeAPIKey_some [OF ok ex [unfolded V_def]] unfolding V_def by blast
  show thesis
    using ok same ne doesD [OF d]
    by (intro that [OF valid row]) (auto simp: RevokeAPIKey_def op_simps store_simps v w'_def)
qed

lemma DisableServiceAccount_Inr:
  assumes ok: "ok (w_store w)" and cfg: "\<not> cfg_DirectoryRefreshOnSession (svc_cfg svc)"
    and res: "fst (DisableServiceAccount st svc sid aid now w) = Inr ()"
  defines "V \<equiv> view (w_store w)" and "w' \<equiv> snd (DisableServiceAccount st svc sid aid now w)"
  obtains session p a log where "session_valid V sid (eff_now svc w now) session p"
    and "canManageServiceAccounts (p_Roles p)"
    and "vw_accounts V aid = Some a" and "acc_TenantID a = sess_TenantID session"
    and "view (w_store w') = V\<lparr>vw_accounts := (vw_accounts V)(aid \<mapsto> a\<lparr>acc_Status := ''disabled''\<rparr>),
       vw_principals := upd_at (vw_principals V) aid (\<lambda>q.
         if p_TenantID q = sess_TenantID session then q\<lparr>p_Status := ''disabled''\<rparr> else q), vw_audits := log\<rparr>"
    and "ok (w_store w')"
proof -
  let ?w = "snd (ValidateSession st svc sid now w)"
  obtain session p where v: "fst (ValidateSession st svc sid now w) = Inr (session, p)"
    and valid: "session_valid V sid (eff_now svc w now) session p" and same: "w_store ?w = w_store w"
    using res cfg unfolding DisableServiceAccount_def V_def
    by (elim with_session_InrE [OF ok]) (auto simp: session_valid_def refreshed_def)
  have ne: "TrimSpace aid \<noteq> []" "canManageServiceAccounts (p_Roles p)"
    using res by (auto simp: DisableServiceAccount_def op_simps v split: if_splits)
  have "\<exists>a. vw_accounts V aid = Some a \<and> acc_TenantID a = sess_TenantID session"
  proof (rule ccontr)
    assume "\<not> ?thesis"
    then have "store_DisableServiceAccount st aid (sess_TenantID session) (w_store w) = (Inl ErrNotFound, w_store w)"
      using ok by (intro DisableServiceAccount_none) (auto simp: V_def)
    with res ne show False by (simp add: DisableServiceAccount_def op_simps v same)
  qed
  then obtain a where a: "vw_accounts V aid = Some a" "acc_TenantID a = sess_TenantID session" by blast
  note d = doesD [OF DisableServiceAccount_some [OF ok a [unfolded V_def]]]
  show thesis
    using ok same ne d
    by (intro that [OF valid ne(2) a]) (auto simp: DisableServiceAccount_def op_simps store_simps v w'_def V_def)
qed

end

end
