(* ===== verification/Warden_Token_Facts.thy ===== *)
theory Warden_Token_Facts
  imports Warden_Credential_Facts
begin

text \<open>
  What the internal tokens of \<open>src/warden/service.go\<close> carry (\<open>sign\<close>, \<open>SignInternalJWT\<close>, \<open>DelegateAgent\<close>): for a
  session, an API key, client credentials and a delegation, whose tenant, principal and scopes the claims name.
\<close>

section \<open>One signature\<close>

text \<open>\<open>r\<close> is a token the signer of the service issues at the time \<open>now\<close> for the time \<open>ttl\<close>.\<close>

definition issued :: "Service \<Rightarrow> time \<Rightarrow> duration \<Rightarrow> InternalJWTResult \<Rightarrow> bool" where
  "issued svc now ttl r \<longleftrightarrow> (\<exists>clock rnd inp.
     Sign (svc_json svc) clock rnd (svc_signer svc) inp = Inr (ijr_Token r, ijr_Claims r)
     \<and> sign_time clock inp = now \<and> sign_ttl (svc_signer svc) inp = ttl)"

text \<open>The claims of a token signed for a principal and a session.\<close>

definition claims_for :: "Principal \<Rightarrow> Session \<Rightarrow> string \<Rightarrow> string list \<Rightarrow> string \<Rightarrow> Claims \<Rightarrow> bool" where
  "claims_for p session audience scopes source c \<longleftrightarrow>
     c_TenantID c = TrimSpace (sess_TenantID session) \<and> c_SessionID c = TrimSpace (sess_ID session)
     \<and> c_PrincipalType c = TrimSpace (p_Type p) \<and> c_PrincipalID c = TrimSpace (p_ID p)
     \<and> c_Roles c = cleanStrings (roleKeys (p_Roles p)) \<and> c_Audience c = TrimSpace audience
     \<and> c_Scopes c = cleanStrings scopes \<and> c_Source c = TrimSpace source"

lemma issued_times:
  assumes "issued svc t ttl r"
  shows "c_IssuedAt (ijr_Claims r) = Unix t" and "c_ExpiresAt (ijr_Claims r) = Unix (t + ttl)"
  using assms unfolding issued_def by (auto dest: Sign_Inr(1))

lemma signer_Sign_Inr:
  assumes "fst (signer_Sign svc inp w) = Inr (token, claims)"
  obtains clock rnd where "Sign (svc_json svc) clock rnd (svc_signer svc) inp = Inr (token, claims)"
    and "sign_time clock inp = eff_now svc w (in_Now inp)"
  using assms unfolding signer_Sign_def sign_time_def eff_now_def
  by (auto simp: op_simps split: if_splits)

lemma signer_Sign_store [op_simps]:
  "w_store (snd (signer_Sign svc inp w)) = w_store w" "w_policy (snd (signer_Sign svc inp w)) = w_policy w"
  by (auto simp: signer_Sign_def op_simps)

lemma trimmed_scopes:
  assumes "set scopes \<subseteq> TrimSpace ` S - {[]}"
  shows "set (cleanStrings scopes) = set scopes"
proof -
  have "TrimSpace ` set scopes = set scopes" using assms by force
  then show ?thesis using assms by (auto simp: set_cleanStrings)
qed

lemma issued_verifies:
  assumes "issued svc t ttl r" and "json_round_trip (svc_json svc) (ijr_Claims r)"
    and "v_secret v = sg_secret (svc_signer svc)" and "v_issuer v = c_Issuer (ijr_Claims r)"
    and "v_audience v = c_Audience (ijr_Claims r)" and "ttl \<le> v_ttl v"
    and "v_ttl v + v_clockSkew v \<le> 28 * day_length" and "period_of t \<le> period_of u"
    and "t \<le> u + v_clockSkew v" and "u \<le> time_Unix (c_ExpiresAt (ijr_Claims r)) + v_clockSkew v"
  shows "Verify (svc_json svc) v u (ijr_Token r) = Inr (principal_of_claims (ijr_Claims r))"
  using assms Verify_Sign unfolding issued_def by blast

text \<open>A principal with a tenant, a type and an identifier gets a token.\<close>

lemma sign_succeeds:
  assumes "\<not> blank (sess_TenantID session)" and "\<not> blank (p_Type p)" and "\<not> blank (p_ID p)"
    and "\<not> IsZero now" and "1 \<le> Unix now" and "Second \<le> ttl"
  shows "\<exists>r. fst (signer_Sign svc \<lparr>in_Issuer = [], in_Audience = audience, in_TTL = ttl,
    in_TenantID = sess_TenantID session, in_OrgID = [],
       in_PrincipalType = p_Type p, in_PrincipalID = p_ID p, in_Email = p_Email p,
       in_Name = p_DisplayName p, in_Handle = p_Username p, in_Roles = roleKeys (p_Roles p),
       in_Scopes = scopes, in_Resource = None, in_SessionID = sess_ID session,
       in_AuthTime = sess_AuthTime session, in_Source = source, in_Now = now, in_JWTID = jti,
       in_Actor = actor, in_Delegation = del, in_PolicyVersion = v\<rparr> w) = Inr r"
proof -
  have t: "now \<le> time_Unix (Unix (now + ttl))" using Unix_gt [of "now + ttl"] assms(6) by simp
  have "Unix now \<le> Unix (now + ttl)" using assms(6) by (simp add: Unix_def Second_def zdiv_mono1)
  with t assms have "\<exists>r. Sign (svc_json svc) c rnd (svc_signer svc)
      \<lparr>in_Issuer = [], in_Audience = audience, in_TTL = ttl,
    in_TenantID = sess_TenantID session, in_OrgID = [],
       in_PrincipalType = p_Type p, in_PrincipalID = p_ID p, in_Email = p_Email p,
       in_Name = p_DisplayName p, in_Handle = p_Username p, in_Roles = roleKeys (p_Roles p),
       in_Scopes = scopes, in_Resource = None, in_SessionID = sess_ID session,
       in_AuthTime = sess_AuthTime session, in_Source = source, in_Now = now, in_JWTID = jti,
       in_Actor = actor, in_Delegation = del, in_PolicyVersion = v\<rparr> = Inr r" for c rnd
    unfolding Sign_Inr_iff by (auto simp: sign_time_def sign_ttl_def signable_def Second_def)
  then show ?thesis using assms(4) by (simp add: signer_Sign_def op_simps)
qed

context full_store
begin

lemma sign_Inr:
  assumes ok: "ok (w_store w)"
    and res: "fst (sign st svc p session audience scopes resource source jti now actor del ttl w) = Inr r"
  shows "claims_for p session audience scopes source (ijr_Claims r)"
    and "c_Actor (ijr_Claims r) = actor" and "c_Delegation (ijr_Claims r) = del"
    and "c_Resource (ijr_Claims r) = resource"
    and "issued svc (eff_now svc w now) (if ttl \<le> 0 then sg_ttl (svc_signer svc) else ttl) r"
    and "c_Issuer (ijr_Claims r) = sg_issuer (svc_signer svc)"
proof -
  define inp where "inp = \<lparr>in_Issuer = [], in_Audience = audience, in_TTL = ttl, in_TenantID = sess_TenantID session,
       in_OrgID = [], in_PrincipalType = p_Type p, in_PrincipalID = p_ID p, in_Email = p_Email p,
       in_Name = p_DisplayName p, in_Handle = p_Username p, in_Roles = roleKeys (p_Roles p),
       in_Scopes = scopes, in_Resource = resource, in_SessionID = sess_ID session,
       in_AuthTime = sess_AuthTime session, in_Source = source, in_Now = now, in_JWTID = jti,
       in_Actor = actor, in_Delegation = del, in_PolicyVersion = w_policyVersion w\<rparr>"
  obtain token claims where s: "fst (signer_Sign svc inp w) = Inr (token, claims)"
    and r: "r = \<lparr>ijr_Token = token, ijr_Claims = claims\<rparr>"
    using res ok unfolding sign_def inp_def
    by (elim bnd_InrE) (auto simp: op_simps store_simps elim!: bnd_InrE split: prod.splits)
  obtain clock rnd where sg: "Sign (svc_json svc) clock rnd (svc_signer svc) inp = Inr (token, claims)"
    and t: "sign_time clock inp = eff_now svc w now"
    by (rule signer_Sign_Inr [OF s]) (simp add: inp_def)
  have c: "claims = sign_claims clock rnd (svc_signer svc) inp" using Sign_Inr(1) [OF sg] .
  show "claims_for p session audience scopes source (ijr_Claims r)" "c_Actor (ijr_Claims r) = actor"
    "c_Delegation (ijr_Claims r) = del" "c_Resource (ijr_Claims r) = resource"
    by (simp_all add: claims_for_def r c, simp_all add: inp_def)
  show "c_Issuer (ijr_Claims r) = sg_issuer (svc_signer svc)"
    by (simp add: r c sign_claims_issuer) (simp add: inp_def)
  have "sign_ttl (svc_signer svc) inp = (if ttl \<le> 0 then sg_ttl (svc_signer svc) else ttl)"
    by (simp add: sign_ttl_def inp_def)
  with sg t show "issued svc (eff_now svc w now) (if ttl \<le> 0 then sg_ttl (svc_signer svc) else ttl) r"
    unfolding issued_def r by (metis InternalJWTResult.select_convs)
qed

lemma sign_view:
  assumes "ok (w_store w)"
  shows "\<exists>log. view (w_store (snd (sign st svc p session audience scopes resource source jti now actor del ttl w))) =
    (view (w_store w))\<lparr>vw_audits := log\<rparr>"
proof -
  obtain inp where "sign st svc p session audience scopes resource source jti now actor del ttl w =
      bnd (signer_Sign svc inp) (\<lambda>(token, claims).
        bnd (auditWithActor st svc p ''internal_jwt.sign'' resource ''allow'' (c_JWTID claims) actor)
          (\<lambda>_. ret \<lparr>ijr_Token = token, ijr_Claims = claims\<rparr>)) w"
    by (simp add: sign_def op_simps)
  moreover have "ok (w_store (snd (signer_Sign svc inp w)))" using assms by (simp add: op_simps)
  moreover have "\<exists>log. view (w_store w) = (view (w_store w))\<lparr>vw_audits := log\<rparr>"
    by (intro exI [of _ "vw_audits (view (w_store w))"]) simp
  ultimately show ?thesis
    using assms by (cases "fst (signer_Sign svc inp w)") (auto simp: op_simps store_simps)
qed

lemma sign_runs:
  assumes "ok (w_store w)"
  shows "vw_agentRuns (view (w_store (snd (sign st svc p session audience scopes resource source jti now actor del ttl w)))) =
    vw_agentRuns (view (w_store w))"
  using sign_view [OF assms, of svc p session audience scopes resource source jti now actor del ttl] by auto

lemma sign_ok:
  assumes ok: "ok (w_store w)" and "\<not> blank (sess_TenantID session)" and "\<not> blank (p_Type p)" and "\<not> blank (p_ID p)"
    and "\<not> IsZero now" and "1 \<le> Unix now" and "Second \<le> ttl"
  shows "\<exists>r. fst (sign st svc p session audience scopes None source jti now actor del ttl w) = Inr r"
proof -
  obtain r where "fst (signer_Sign svc \<lparr>in_Issuer = [], in_Audience = audience, in_TTL = ttl,
    in_TenantID = sess_TenantID session, in_OrgID = [],
       in_PrincipalType = p_Type p, in_PrincipalID = p_ID p, in_Email = p_Email p,
       in_Name = p_DisplayName p, in_Handle = p_Username p, in_Roles = roleKeys (p_Roles p),
       in_Scopes = scopes, in_Resource = None, in_SessionID = sess_ID session,
       in_AuthTime = sess_AuthTime session, in_Source = source, in_Now = now, in_JWTID = jti,
       in_Actor = actor, in_Delegation = del, in_PolicyVersion = w_policyVersion w\<rparr> w) = Inr r"
    using sign_succeeds [OF assms(2-7)] by blast
  then show ?thesis using ok by (cases r) (simp add: sign_def op_simps store_simps)
qed

lemma sign_exact:
  assumes ok: "ok (w_store w)"
    and res: "fst (sign st svc p session audience scopes resource source jti now actor del ttl w) = Inr r"
    and "\<not> blank jti" and "\<not> IsZero now"
  shows "ijr_Claims r = sign_claims now [] (svc_signer svc)
      \<lparr>in_Issuer = [], in_Audience = audience, in_TTL = ttl, in_TenantID = sess_TenantID session,
       in_OrgID = [], in_PrincipalType = p_Type p, in_PrincipalID = p_ID p, in_Email = p_Email p,
       in_Name = p_DisplayName p, in_Handle = p_Username p, in_Roles = roleKeys (p_Roles p),
       in_Scopes = scopes, in_Resource = resource, in_SessionID = sess_ID session,
       in_AuthTime = sess_AuthTime session, in_Source = source, in_Now = now, in_JWTID = jti,
       in_Actor = actor, in_Delegation = del, in_PolicyVersion = w_policyVersion w\<rparr>"
    (is "_ = sign_claims now [] _ ?inp")
proof -
  obtain token claims where s: "fst (signer_Sign svc ?inp w) = Inr (token, claims)"
    and r: "ijr_Claims r = claims"
    using res ok unfolding sign_def
    by (elim bnd_InrE) (auto simp: op_simps store_simps elim!: bnd_InrE split: prod.splits)
  show ?thesis
    by (rule signer_Sign_Inr [OF s]) (use assms(3,4) in \<open>auto simp: r dest!: Sign_Inr(1) intro!: sign_claims_given\<close>)
qed

section \<open>Tokens for sessions, keys and agents\<close>

lemma SignInternalJWT_session_Inr:
  assumes ok: "ok (w_store w)" and cfg: "\<not> cfg_DirectoryRefreshOnSession (svc_cfg svc)"
    and path: "TrimSpace (ij_ClientCredentialsToken req) = []"
      "TrimSpace (ij_SessionID req) \<noteq> [] \<or> TrimSpace (ij_APIKey req) = []"
    and res: "fst (SignInternalJWT st svc req w) = Inr r"
  defines "V \<equiv> view (w_store w)"
  obtains session p scopes where "session_valid V (ij_SessionID req) (eff_now svc w (ij_Now req)) session p"
    and "scopes = ScopesForActions (Service_Policy w) (p_Roles p) (ij_Audience req) (ij_Actions req)" "scopes \<noteq> []"
    and "claims_for p session (ij_Audience req) scopes SessionSourceWeb (ijr_Claims r)"
    and "c_Delegation (ijr_Claims r) = None" and "c_Issuer (ijr_Claims r) = sg_issuer (svc_signer svc)"
    and "\<exists>t. issued svc t (if cfg_InternalTTL (svc_cfg svc) \<le> 0 then sg_ttl (svc_signer svc) else cfg_InternalTTL (svc_cfg svc)) r
      \<and> (\<not> IsZero (ij_Now req) \<longrightarrow> t = ij_Now req)"
proof -
  let ?w = "snd (ValidateSession st svc (ij_SessionID req) (ij_Now req) w)"
  have path': "SignInternalJWT st svc req = bnd (ValidateSession st svc (ij_SessionID req) (ij_Now req)) (\<lambda>(session, prin).
       bnd (scopesForActions (p_Roles prin) (ij_Audience req) (ij_Actions req)) (\<lambda>scopes.
         if length scopes = 0
         then bnd (audit st svc prin ''internal_jwt.sign'' (ij_Resource req) ''deny'' []) (\<lambda>_. fail ErrForbidden)
         else sign st svc prin session (ij_Audience req) scopes (ij_Resource req) SessionSourceWeb
           (ij_JWTID req) (ij_Now req) None None (cfg_InternalTTL (svc_cfg svc))))"
    using path by (auto simp: SignInternalJWT_def)
  obtain session p where v: "fst (ValidateSession st svc (ij_SessionID req) (ij_Now req) w) = Inr (session, p)"
    and valid: "session_valid V (ij_SessionID req) (eff_now svc w (ij_Now req)) session p"
    and same: "w_store ?w = w_store w"
    using res cfg unfolding path' V_def
    by (elim with_session_InrE [OF ok]) (auto simp: session_valid_def refreshed_def)
  let ?scopes = "ScopesForActions (Service_Policy w) (p_Roles p) (ij_Audience req) (ij_Actions req)"
  have ok1: "ok (w_store ?w)" using ok same by simp
  have ne: "?scopes \<noteq> []" using res ok1 by (auto simp: path' op_simps store_simps v)
  have s: "fst (sign st svc p session (ij_Audience req) ?scopes (ij_Resource req) SessionSourceWeb
      (ij_JWTID req) (ij_Now req) None None (cfg_InternalTTL (svc_cfg svc)) ?w) = Inr r"
    using res ne by (simp add: path' op_simps v)
  show thesis
    by (rule that [OF valid refl ne sign_Inr(1,3,6) [OF ok1 s]]) (use sign_Inr(5) [OF ok1 s] in auto)
qed

lemma SignInternalJWT_key_Inr:
  assumes ok: "ok (w_store w)"
    and path: "TrimSpace (ij_ClientCredentialsToken req) = []" "TrimSpace (ij_SessionID req) = []"
      "TrimSpace (ij_APIKey req) \<noteq> []"
    and res: "fst (SignInternalJWT st svc req w) = Inr r"
  defines "V \<equiv> view (w_store w)"
  obtains key p scopes where "key_valid V (ij_APIKey req) (eff_now svc w (ij_Now req)) key p"
    and "scopes = intersectScopes (key_Scopes key)
      (ScopesForActions (Service_Policy w) (p_Roles p) (ij_Audience req) (ij_Actions req))" "scopes \<noteq> []"
    and "c_TenantID (ijr_Claims r) = TrimSpace (key_TenantID key)"
    and "c_PrincipalID (ijr_Claims r) = TrimSpace (p_ID p)" "c_Audience (ijr_Claims r) = TrimSpace (ij_Audience req)"
    and "c_Scopes (ijr_Claims r) = cleanStrings scopes"
proof -
  let ?m = "ValidateAPIKey st svc (ij_APIKey req) (ij_Now req)"
  let ?w = "snd (?m w)"
  have path': "SignInternalJWT st svc req = signInternalJWTForAPIKey st svc req"
    using path by (simp add: SignInternalJWT_def)
  obtain k p where v: "fst (?m w) = Inr (k, p)"
    using res unfolding path' signInternalJWTForAPIKey_def by (elim bnd_InrE) (metis prod.collapse)
  obtain key where valid: "key_valid V (ij_APIKey req) (eff_now svc w (ij_Now req)) key p"
    and k: "k = key\<lparr>key_LastUsedAt := eff_now svc w (ij_Now req)\<rparr>"
    using v ValidateAPIKey_iff [OF ok] unfolding V_def by blast
  let ?scopes = "intersectScopes (key_Scopes key)
      (ScopesForActions (Service_Policy w) (p_Roles p) (ij_Audience req) (ij_Actions req))"
  have ok1: "ok (w_store ?w)" using ok_after [OF service_call.validate_key ok] .
  have ne: "?scopes \<noteq> []" using res ok1 by (auto simp: path' signInternalJWTForAPIKey_def op_simps store_simps v k)
  let ?s = "\<lparr>sess_ID = key_ID k, sess_PrincipalID = p_ID p, sess_TenantID = key_TenantID k,
             sess_CurrentTeamID = [], sess_AuthTime = key_CreatedAt k, sess_ExpiresAt = key_ExpiresAt k,
             sess_Source = SessionSourceAPIKey\<rparr>"
  have s: "fst (sign st svc p ?s (ij_Audience req) ?scopes (ij_Resource req) SessionSourceAPIKey
      (ij_JWTID req) (ij_Now req) None None (cfg_InternalTTL (svc_cfg svc)) ?w) = Inr r"
    using res ne by (simp add: path' signInternalJWTForAPIKey_def op_simps v k Let_def)
  show thesis
    using sign_Inr(1) [OF ok1 s] by (intro that [OF valid refl ne]) (auto simp: claims_for_def k)
qed

text \<open>A request for scopes the caller does not have is denied, and the denial recorded.\<close>

lemma SignInternalJWT_denied:
  assumes ok: "ok (w_store w)"
    and path: "TrimSpace (ij_ClientCredentialsToken req) = []" "TrimSpace (ij_SessionID req) \<noteq> []"
    and valid: "session_valid (view (w_store w)) (ij_SessionID req) (eff_now svc w (ij_Now req)) session p"
    and "\<not> refreshed svc p"
    and none: "ScopesForActions (Service_Policy w) (p_Roles p) (ij_Audience req) (ij_Actions req) = []"
  shows "fst (SignInternalJWT st svc req w) = Inl ErrForbidden"
    and "\<exists>t. view (w_store (snd (SignInternalJWT st svc req w))) = (view (w_store w))\<lparr>vw_audits :=
      vw_audits (view (w_store w)) @ [audit_entry p ''internal_jwt.sign'' (ij_Resource req) ''deny'' [] None t]\<rparr>"
proof -
  note v = ValidateSession_valid [OF ok valid assms(5)]
  show "fst (SignInternalJWT st svc req w) = Inl ErrForbidden"
    using path v none ok by (simp add: SignInternalJWT_def op_simps store_simps)
  show "\<exists>t. view (w_store (snd (SignInternalJWT st svc req w))) = (view (w_store w))\<lparr>vw_audits :=
      vw_audits (view (w_store w)) @ [audit_entry p ''internal_jwt.sign'' (ij_Resource req) ''deny'' [] None t]\<rparr>"
    using path v none ok by (auto simp: SignInternalJWT_def op_simps store_simps)
qed

lemma DelegateAgent_Inr:
  assumes ok: "ok (w_store w)" and cfg: "\<not> cfg_DirectoryRefreshOnSession (svc_cfg svc)"
    and res: "fst (DelegateAgent st svc req w) = Inr r"
  defines "V \<equiv> view (w_store w)" and "V' \<equiv> view (w_store (snd (DelegateAgent st svc req w)))"
  obtains session p scopes run where "session_valid V (da_SessionID req) (eff_now svc w (da_Now req)) session p"
    and "scopes = intersectScopes (ScopesForActions (Service_Policy w) (p_Roles p) (da_Audience req) (da_Actions req))
      (if da_Scopes req = [] then ScopesForActions (Service_Policy w) (p_Roles p) (da_Audience req) (da_Actions req)
       else da_Scopes req)" "scopes \<noteq> []"
    and "c_TenantID (ijr_Claims r) = TrimSpace (sess_TenantID session)"
    and "c_PrincipalType (ijr_Claims r) = ''agent''" "c_Roles (ijr_Claims r) = [RoleSakerRunner]"
    and "c_Scopes (ijr_Claims r) = cleanStrings scopes"
    and "c_Actor (ijr_Claims r) = Some \<lparr>actor_Type = p_Type p, actor_ID = p_ID p\<rparr>"
    and "c_Delegation (ijr_Claims r) = Some \<lparr>del_OnBehalfOf = p_ID p, del_SessionID = sess_ID session, del_RunID = run\<rparr>"
    and "\<exists>t. issued svc t (if cfg_AgentTTL (svc_cfg svc) \<le> 0 then sg_ttl (svc_signer svc) else cfg_AgentTTL (svc_cfg svc)) r"
    and "\<exists>t. vw_agentRuns V' run = Some \<lparr>run_ID = run, run_TenantID = p_TenantID p, run_ActorPrincipalID = p_ID p,
      run_AgentPrincipalID = ''agent_'' @ run, run_Status = ''running'', run_CreatedAt = t\<rparr>"
proof -
  let ?w = "snd (ValidateSession st svc (da_SessionID req) (da_Now req) w)"
  obtain session p where v: "fst (ValidateSession st svc (da_SessionID req) (da_Now req) w) = Inr (session, p)"
    and valid: "session_valid V (da_SessionID req) (eff_now svc w (da_Now req)) session p"
    and same: "w_store ?w = w_store w"
    using res cfg unfolding DelegateAgent_def V_def
    by (elim with_session_InrE [OF ok]) (auto simp: session_valid_def refreshed_def)
  have ok1: "ok (w_store ?w)" using ok same by simp
  let ?sc = "ScopesForActions (Service_Policy w) (p_Roles p) (da_Audience req) (da_Actions req)"
  let ?scopes = "intersectScopes ?sc (if da_Scopes req = [] then ?sc else da_Scopes req)"
  have ne: "?scopes \<noteq> []" using res ok1 by (auto simp: DelegateAgent_def op_simps store_simps v Let_def split: if_splits)
  define run where "run = (if TrimSpace (da_RunID req) = [] then ''run_'' @ rand_at svc (w_draws ?w) else TrimSpace (da_RunID req))"
  let ?agent = "\<lparr>p_ID = ''agent_'' @ run, p_TenantID = p_TenantID p, p_CasdoorUserID = [], p_Username = [],
              p_Email = [], p_DisplayName = [], p_Type = PrincipalTypeAgent, p_Status = ''active'',
              p_EmailVerified = False,
              p_Roles = [\<lparr>role_Key = RoleSakerRunner, role_ScopeType = [], role_ScopeID = []\<rparr>], p_Teams = []\<rparr>"
  let ?sign = "sign st svc ?agent session (da_Audience req) ?scopes (da_Resource req) SessionSourceAgent
          (da_JWTID req) (da_Now req) (Some \<lparr>actor_Type = p_Type p, actor_ID = p_ID p\<rparr>)
          (Some \<lparr>del_OnBehalfOf = p_ID p, del_SessionID = sess_ID session, del_RunID = run\<rparr>)
          (cfg_AgentTTL (svc_cfg svc))"
  obtain w2 where s: "DelegateAgent st svc req w = ?sign w2" and ok2: "ok (w_store w2)"
    and run: "\<exists>t. vw_agentRuns (view (w_store w2)) run = Some \<lparr>run_ID = run, run_TenantID = p_TenantID p,
      run_ActorPrincipalID = p_ID p, run_AgentPrincipalID = ''agent_'' @ run, run_Status = ''running'', run_CreatedAt = t\<rparr>"
  proof -
    obtain w1 where m: "(if TrimSpace (da_RunID req) = []
          then bnd (randomString svc) (\<lambda>r. ret (''run_'' @ r)) else ret (TrimSpace (da_RunID req))) ?w = (Inr run, w1)"
      and w1: "w_store w1 = w_store w"
      using same by (cases "TrimSpace (da_RunID req) = []") (auto simp: run_def op_simps)
    have "ok (w_store w1)" using ok w1 by simp
    let ?w2 = "snd (on_store (store_UpsertPrincipal st ?agent) w1)"
    have ok2: "ok (w_store (snd (normalizeNow svc (da_Now req) ?w2)))" using \<open>ok (w_store w1)\<close> by (simp add: op_simps store_simps)
    show thesis
      by (rule that [of "snd (on_store (store_PutAgentRun st
          \<lparr>run_ID = run, run_TenantID = p_TenantID p, run_ActorPrincipalID = p_ID p,
           run_AgentPrincipalID = ''agent_'' @ run, run_Status = ''running'',
           run_CreatedAt = eff_now svc ?w2 (da_Now req)\<rparr>) (snd (normalizeNow svc (da_Now req) ?w2)))"])
       (use ne ok2 m \<open>ok (w_store w1)\<close> in \<open>simp_all add: DelegateAgent_def op_simps store_simps v Let_def\<close>)
  qed
  have r: "fst (?sign w2) = Inr r" using res s by simp
  have agent: "TrimSpace PrincipalTypeAgent = ''agent''"
    "cleanStrings (roleKeys [\<lparr>role_Key = RoleSakerRunner, role_ScopeType = [], role_ScopeID = []\<rparr>]) = [RoleSakerRunner]"
    by code_simp+
  note facts = sign_Inr [OF ok2 r]
  show thesis
  proof (rule that [OF valid refl ne _ _ _ _ facts(2,3)])
    show "\<exists>t. vw_agentRuns V' run = Some \<lparr>run_ID = run, run_TenantID = p_TenantID p, run_ActorPrincipalID = p_ID p,
      run_AgentPrincipalID = ''agent_'' @ run, run_Status = ''running'', run_CreatedAt = t\<rparr>"
      using run by (simp add: V'_def s sign_runs [OF ok2])
    show "\<exists>t. issued svc t (if cfg_AgentTTL (svc_cfg svc) \<le> 0 then sg_ttl (svc_signer svc) else cfg_AgentTTL (svc_cfg svc)) r"
      using facts(5) by blast
  qed (use facts(1) in \<open>simp_all add: claims_for_def agent\<close>)
qed

text \<open>Client credentials: the service account is written as an active one.\<close>

lemma client_credentials_active:
  assumes ok: "ok (w_store w)" and "TrimSpace (ij_ClientCredentialsToken req) \<noteq> []"
    and res: "fst (SignInternalJWT st svc req w) = Inr r"
  obtains authority x claims aid a q where "fst (resolveOIDC svc w) = Inr (Some authority, x)"
    and "fst (VerifyIDToken svc authority (ij_ClientCredentialsToken req) [] (snd (resolveOIDC svc w))) = Inr claims"
    and "aid = StableProjectionID ''svc'' [TrimSpace (oc_TenantID claims), oc_Subject claims]"
    and "vw_accounts (view (w_store (snd (SignInternalJWT st svc req w)))) aid = Some a" "acc_Status a = ''active''"
    and "vw_principals (view (w_store (snd (SignInternalJWT st svc req w)))) aid = Some q" "p_Status q = ''active''"
proof -
  have cc: "SignInternalJWT st svc req w = signInternalJWTForClientCredentials st svc req w"
    using assms(2) by (simp add: SignInternalJWT_def)
  define wa where "wa = snd (resolveOIDC svc w)"
  obtain v x where a0: "fst (resolveOIDC svc w) = Inr (v, x)"
    using res by (cases "fst (resolveOIDC svc w)") (auto simp: cc signInternalJWTForClientCredentials_def op_simps)
  obtain authority where a: "fst (resolveOIDC svc w) = Inr (Some authority, x)"
    using res a0 by (cases v) (auto simp: cc signInternalJWTForClientCredentials_def op_simps)
  define verify :: "('s World, OIDCClaims) op" where "verify = VerifyIDToken svc authority (ij_ClientCredentialsToken req) []"
  define w0 where "w0 = snd (verify wa)"
  have w0: "w_store w0 = w_store w" by (simp add: w0_def verify_def wa_def op_simps)
  obtain claims where c: "fst (verify wa) = Inr claims"
    using res by (cases "fst (verify wa)")
      (auto simp: cc signInternalJWTForClientCredentials_def op_simps a verify_def wa_def)
  note eval = c [unfolded verify_def] wa_def [symmetric] w0_def [unfolded verify_def, symmetric]
  let ?t = "TrimSpace (oc_TenantID claims)"
  let ?p = "service_principal claims ?t"
  have ne1: "?t \<noteq> []" using res by (auto simp: cc signInternalJWTForClientCredentials_def op_simps a eval Let_def)
  have ne2: "Fields (oc_Scope claims) \<noteq> []"
    using res ne1 by (auto simp: cc signInternalJWTForClientCredentials_def op_simps a eval Let_def)
  let ?w = "snd (normalizeNow svc (ij_Now req) w0)"
  let ?tenant = "on_err (on_store (store_GetTenant st ?t))
         (\<lambda>tenantErr. if \<not> errors_Is tenantErr ErrNotFound then fail tenantErr
            else on_store (store_UpsertTenant st
              \<lparr>ten_ID = ?t, ten_CasdoorOrgName = [], ten_Slug = ?t, ten_DisplayName = ?t, ten_Status = ''active''\<rparr>))
         (\<lambda>existingTenant. if ten_Status existingTenant = PrincipalStatusDisabled then fail ErrDisabled
            else ret ())"
  have "steps (kept view_extends ok view) ?tenant" by (intro growing.R_rules)
  moreover have "ok (w_store ?w)" using ok by (simp add: op_simps w0)
  ultimately have ok1: "ok (w_store (snd (?tenant ?w)))" unfolding steps_def kept_def by blast
  obtain rest where cr: "SignInternalJWT st svc req w = bnd ?tenant rest ?w"
    and rest: "rest = (\<lambda>_. bnd (on_store (store_UpsertPrincipal st ?p)) (\<lambda>_.
       bnd (on_store (store_PutServiceAccount st
         \<lparr>acc_ID = p_ID ?p, acc_TenantID = ?t, acc_Name = p_DisplayName ?p, acc_Status = ''active'',
          acc_CreatedBy = ''casdoor'', acc_CreatedAt = eff_now svc w0 (ij_Now req)\<rparr>)) (\<lambda>_.
       bnd (scopesForActions (p_Roles ?p) (ij_Audience req) (ij_Actions req)) (\<lambda>requested.
       let scopes = intersectScopes (Fields (oc_Scope claims)) requested in
       if length scopes = 0
       then bnd (audit st svc ?p ''internal_jwt.sign'' (ij_Resource req) ''deny'' []) (\<lambda>_. fail ErrForbidden)
       else let session = \<lparr>sess_ID = ''client_credentials:'' @ oc_Subject claims, sess_PrincipalID = p_ID ?p,
              sess_TenantID = ?t, sess_CurrentTeamID = [], sess_AuthTime = eff_now svc w0 (ij_Now req),
              sess_ExpiresAt = time_Unix (oc_ExpiresAt claims), sess_Source = SessionSourceServiceToken\<rparr> in
         sign st svc ?p session (ij_Audience req) scopes (ij_Resource req) SessionSourceServiceToken
           (ij_JWTID req) (ij_Now req) None None (cfg_InternalTTL (svc_cfg svc))))))"
    using ne1 ne2 by (simp add: cc signInternalJWTForClientCredentials_def op_simps a eval Let_def)
  define w1 where "w1 = snd (?tenant ?w)"
  have r1: "fst (rest () w1) = Inr r" and w': "snd (SignInternalJWT st svc req w) = snd (rest () w1)"
    using res unfolding cr w1_def by (elim bnd_InrE, simp)+
  note ok1 = ok1 [folded w1_def]
  let ?a = "\<lparr>acc_ID = p_ID ?p, acc_TenantID = ?t, acc_Name = p_DisplayName ?p, acc_Status = ''active'',
          acc_CreatedBy = ''casdoor'', acc_CreatedAt = eff_now svc w0 (ij_Now req)\<rparr>"
  let ?w3 = "snd (on_store (store_PutServiceAccount st ?a) (snd (on_store (store_UpsertPrincipal st ?p) w1)))"
  have ok3: "ok (w_store ?w3)" and V3: "view (w_store ?w3) = (view (w_store w1))
      \<lparr>vw_principals := (vw_principals (view (w_store w1)))(p_ID ?p \<mapsto> ?p),
       vw_accounts := (vw_accounts (view (w_store w1)))(p_ID ?p \<mapsto> ?a)\<rparr>"
    using ok1 by (simp_all add: store_simps)
  have "\<exists>log. view (w_store (snd (rest () w1))) = (view (w_store ?w3))\<lparr>vw_audits := log\<rparr>"
    using r1 ok1 ok3 sign_view [OF ok3] by (auto simp: rest op_simps store_simps Let_def split: if_splits)
  then obtain log where L: "view (w_store (snd (SignInternalJWT st svc req w))) = (view (w_store ?w3))\<lparr>vw_audits := log\<rparr>"
    unfolding w' by blast
  have acc: "vw_accounts (view (w_store (snd (SignInternalJWT st svc req w)))) (p_ID ?p) = Some ?a"
    and prin: "vw_principals (view (w_store (snd (SignInternalJWT st svc req w)))) (p_ID ?p) = Some ?p"
    unfolding L V3 by simp_all
  have p: "p_ID ?p = StableProjectionID ''svc'' [?t, oc_Subject claims]" "p_Status ?p = ''active''"
    by (simp_all add: service_principal_def Let_def)
  show thesis by (rule that [OF a c [unfolded verify_def wa_def] p(1) acc _ prin p(2)]) simp
qed

end

section \<open>System tokens\<close>

lemma SignSystemInternalJWT_fails: "fst (SignSystemInternalJWT svc audience scopes now w) = Inl ErrInvalidClaims"
proof -
  have "\<not> signable \<lparr>in_Issuer = [], in_Audience = audience, in_TTL = 0, in_TenantID = [], in_OrgID = [],
       in_PrincipalType = [], in_PrincipalID = ''warden-system'', in_Email = [], in_Name = [],
       in_Handle = [], in_Roles = [], in_Scopes = scopes, in_Resource = None, in_SessionID = [],
       in_AuthTime = zero_time, in_Source = ''warden'', in_Now = now, in_JWTID = [],
       in_Actor = None, in_Delegation = None, in_PolicyVersion = v\<rparr>" for v
    by (simp add: signable_def blank_def)
  note unsignable = Sign_unsignable [OF this]
  show ?thesis
    unfolding SignSystemInternalJWT_def
    by (auto simp: bnd_def op_simps signer_Sign_def unsignable split: sum.splits)
qed

end
