(* ===== verification/Warden_Device_Facts.thy ===== *)
theory Warden_Device_Facts
  imports Warden_Credential_Facts
begin

text \<open>
  The device authorization of \<open>src/warden/service.go\<close> (\<open>StartDeviceAuth\<close>, \<open>ApproveDeviceAuth\<close>,
  \<open>ExchangeDeviceToken\<close>) as a state machine: a code is pending, is approved once by a principal, and is
  consumed once by an exchange. \<open>device_progress\<close> is what any step of the service does to the stored codes.
\<close>

section \<open>Progress of device codes\<close>

text \<open>\<open>device_ahead c c'\<close>: the code \<open>c\<close> can become \<open>c'\<close>.\<close>

definition device_ahead :: "DeviceCode \<Rightarrow> DeviceCode \<Rightarrow> bool" where
  "device_ahead c c' \<longleftrightarrow> c' = c
     \<or> (dev_Status c = ''pending'' \<and> dev_Status c' \<in> {''approved'', ''consumed''}
        \<and> c' = c\<lparr>dev_PrincipalID := dev_PrincipalID c', dev_Status := dev_Status c'\<rparr>)
     \<or> (dev_Status c = ''approved'' \<and> c' = c\<lparr>dev_Status := ''consumed''\<rparr>)"

definition device_progress :: "StoreView \<Rightarrow> StoreView \<Rightarrow> bool" where
  "device_progress V V' \<longleftrightarrow> (\<forall>k c. vw_deviceCodes V k = Some c \<longrightarrow>
     (\<exists>c'. vw_deviceCodes V' k = Some c' \<and> device_ahead c c'))"

lemma device_ahead_refl [simp]: "device_ahead c c"
  by (simp add: device_ahead_def)

lemma device_ahead_trans: "device_ahead c d \<Longrightarrow> device_ahead d e \<Longrightarrow> device_ahead c e"
  by (cases c; cases d; cases e) (auto simp: device_ahead_def)

lemma device_ahead_consumed: "device_ahead c c' \<Longrightarrow> dev_Status c = ''consumed'' \<Longrightarrow> c' = c"
  by (auto simp: device_ahead_def)

lemma device_progress_refl: "reflp device_progress"
  by (simp add: reflp_def device_progress_def)

lemma device_progress_trans: "transp device_progress"
  unfolding transp_def device_progress_def by (meson device_ahead_trans)

lemma quietly_progress: "quietly V V' \<Longrightarrow> device_progress V V'"
  by (simp add: quietly_def device_progress_def)

lemma device_progress_put:
  assumes "vw_deviceCodes V' = (vw_deviceCodes V)(k \<mapsto> c')"
    and "\<And>c. vw_deviceCodes V k = Some c \<Longrightarrow> device_ahead c c'"
  shows "device_progress V V'"
  using assms by (simp add: device_progress_def)

lemma Service_Policy_draws [simp]: "Service_Policy (w\<lparr>w_draws := n\<rparr>) = Service_Policy w"
  by (intro Service_Policy_cong) simp

text \<open>The device code the next \<open>StartDeviceAuth\<close> draws.\<close>

definition next_device_code :: "Service \<Rightarrow> 's World \<Rightarrow> string" where
  "next_device_code svc w = ''dev_'' @ rand_at svc (w_draws w) @ rand_at svc (Suc (w_draws w))"

context full_store
begin

lemma device_reads [store_simps]:
  "ok (w_store w) \<Longrightarrow> on_store (store_GetDeviceCode st k) w = (found (vw_deviceCodes (view (w_store w)) k), w)"
  by (simp add: on_store_read GetDeviceCode)

lemmas device_laws = PutDeviceCode UpdateDeviceCode

lemmas device_writes [store_simps] = device_laws [THEN doesD(1)] device_laws [THEN doesD(2)] device_laws [THEN doesD(3)]

lemma device_row:
  "ok s \<Longrightarrow> vw_deviceCodes (view s) k = Some c \<Longrightarrow> dev_DeviceCode c = k"
  using view_ok_keyed(4) [OF view_ok] by (blast dest: keyedD)

text \<open>An exchange succeeds for an approved, unexpired code, and consumes it.\<close>

lemma ExchangeDeviceToken_Inr:
  assumes ok: "ok (w_store w)" and res: "fst (ExchangeDeviceToken st svc req w) = Inr r"
  defines "V \<equiv> view (w_store w)" and "w' \<equiv> snd (ExchangeDeviceToken st svc req w)"
    and "k \<equiv> TrimSpace (dt_DeviceCode req)" and "now \<equiv> eff_now svc w (dt_Now req)"
  obtains c p key log where "vw_deviceCodes V k = Some c" and "dev_Status c = ''approved''"
    and "\<not> expired (dev_ExpiresAt c) now"
    and "vw_principals V (dev_PrincipalID c) = Some p" and "p_Status p \<noteq> ''disabled''"
    and "key_ID key = dtr_KeyID r" and "key_KeyHash key = HashAPIKey (dtr_AccessToken r)"
    and "key_PrincipalID key = p_ID p" and "key_TenantID key = p_TenantID p"
    and "key_Scopes key = ScopesForRoles (Service_Policy w) (p_Roles p)"
    and "key_ExpiresAt key = now + 30 * 24 * Hour" and "key_Status key = ''active''"
    and "ok (w_store w')"
    and "view (w_store w') = V\<lparr>vw_apiKeys := (vw_apiKeys V)(key_KeyHash key \<mapsto> key),
       vw_deviceCodes := (vw_deviceCodes V)(k \<mapsto> c\<lparr>dev_Status := ''consumed''\<rparr>), vw_audits := log\<rparr>"
proof -
  let ?w = "snd (normalizeNow svc (dt_Now req) w)"
  have ok1: "ok (w_store ?w)" using ok by (simp add: op_simps)
  have ne: "k \<noteq> []" using res by (auto simp: ExchangeDeviceToken_def op_simps k_def split: if_splits)
  obtain c where c: "vw_deviceCodes V k = Some c"
    using res ok ne by (cases "vw_deviceCodes V k") (auto simp: ExchangeDeviceToken_def op_simps store_simps V_def k_def)
  have st: "dev_Status c = ''approved''" "\<not> expired (dev_ExpiresAt c) now"
    using res ok ne c by (auto simp: ExchangeDeviceToken_def op_simps store_simps V_def k_def now_def split: if_splits)
  obtain p where p: "vw_principals V (dev_PrincipalID c) = Some p"
    using res ok ok1 ne c st by (cases "vw_principals V (dev_PrincipalID c)")
      (auto simp: ExchangeDeviceToken_def op_simps store_simps V_def k_def now_def)
  have en: "p_Status p \<noteq> ''disabled''"
    using res ok ok1 ne c st p by (auto simp: ExchangeDeviceToken_def op_simps store_simps V_def k_def now_def)
  have code: "dev_DeviceCode c = k" using device_row ok c by (auto simp: V_def)
  show thesis
    using res ok ok1 ne c st p en code
    by (intro that [OF c st p en, where key = "\<lparr>key_ID = dtr_KeyID r, key_Name = [], key_TenantID = p_TenantID p,
         key_PrincipalType = p_Type p, key_PrincipalID = p_ID p, key_KeyHash = HashAPIKey (dtr_AccessToken r),
         key_Scopes = ScopesForRoles (Service_Policy w) (p_Roles p), key_ExpiresAt = now + 30 * 24 * Hour,
         key_Status = ''active'', key_CreatedAt = now, key_LastUsedAt = zero_time\<rparr>"])
      (auto simp: ExchangeDeviceToken_def op_simps store_simps V_def k_def now_def w'_def Let_def)
qed

lemma ExchangeDeviceToken_refused:
  assumes ok: "ok (w_store w)"
    and "\<And>c. vw_deviceCodes (view (w_store w)) (TrimSpace (dt_DeviceCode req)) = Some c \<Longrightarrow>
      dev_Status c \<noteq> ''approved'' \<and> dev_Status c \<noteq> ''pending''"
    and "TrimSpace (dt_DeviceCode req) \<noteq> []"
  shows "fst (ExchangeDeviceToken st svc req w) = Inl ErrUnauthorized"
  using assms by (cases "vw_deviceCodes (view (w_store w)) (TrimSpace (dt_DeviceCode req))")
    (auto simp: ExchangeDeviceToken_def op_simps store_simps)

text \<open>An approval succeeds for a pending, unexpired code, and binds it to the principal of the session.\<close>

lemma ApproveDeviceAuth_Inr:
  assumes ok: "ok (w_store w)" and res: "fst (ApproveDeviceAuth st svc req w) = Inr ()"
  defines "w1 \<equiv> snd (ValidateSession st svc (ad_SessionID req) (ad_Now req) w)"
    and "w' \<equiv> snd (ApproveDeviceAuth st svc req w)"
  obtains session p k c log where "fst (ValidateSession st svc (ad_SessionID req) (ad_Now req) w) = Inr (session, p)"
    and "vw_deviceCodes (view (w_store w1)) k = Some c"
    and "dev_UserCode c = ToUpper (TrimSpace (ad_UserCode req))" and "dev_Status c = ''pending''"
    and "\<not> expired (dev_ExpiresAt c) (eff_now svc w1 (ad_Now req))" and "ok (w_store w')"
    and "view (w_store w') = (view (w_store w1))\<lparr>vw_deviceCodes := (vw_deviceCodes (view (w_store w1)))
       (k \<mapsto> c\<lparr>dev_PrincipalID := p_ID p, dev_Status := ''approved''\<rparr>), vw_audits := log\<rparr>"
proof -
  let ?V = "view (w_store w1)" and ?u = "ToUpper (TrimSpace (ad_UserCode req))"
  obtain session p where v: "fst (ValidateSession st svc (ad_SessionID req) (ad_Now req) w) = Inr (session, p)"
    using res unfolding ApproveDeviceAuth_def by (elim bnd_InrE) (metis prod.collapse)
  have ok1: "ok (w_store w1)" "ok (w_store (snd (normalizeNow svc (ad_Now req) w1)))"
    using ok by (simp_all add: w1_def op_simps)
  have ne: "?u \<noteq> []" using res by (auto simp: ApproveDeviceAuth_def op_simps v split: if_splits)
  have "\<exists>c \<in> ran (vw_deviceCodes ?V). dev_UserCode c = ?u"
  proof (rule ccontr)
    assume "\<not> ?thesis"
    then have "store_GetDeviceCodeByUserCode st ?u (w_store w1) = (Inl ErrNotFound, w_store w1)"
      using ok1 by (intro GetByUserCode_none) auto
    with res ne show False by (simp add: ApproveDeviceAuth_def op_simps v on_store_def Let_def flip: w1_def)
  qed
  then obtain c where c: "c \<in> ran (vw_deviceCodes ?V)" "dev_UserCode c = ?u"
    and get: "store_GetDeviceCodeByUserCode st ?u (w_store w1) = (Inr c, w_store w1)"
    using GetByUserCode_some [OF ok1(1)] by blast
  obtain k where k: "vw_deviceCodes ?V k = Some c" using c(1) by (auto simp: ran_def)
  have code: "dev_DeviceCode c = k" using device_row ok1(1) k by blast
  have getw: "on_store (store_GetDeviceCodeByUserCode st ?u) w1 = (Inr c, w1)"
    using get by (simp add: on_store_read)
  have pend: "dev_Status c = ''pending''" "\<not> expired (dev_ExpiresAt c) (eff_now svc w1 (ad_Now req))"
    using res ne getw by (auto simp: ApproveDeviceAuth_def op_simps v Let_def simp flip: w1_def split: if_splits)
  show thesis
    using res ok1 ne getw k code pend
    by (intro that [OF v k c(2) pend])
      (auto simp: ApproveDeviceAuth_def op_simps store_simps v w'_def Let_def simp flip: w1_def)
qed

lemma ApproveDeviceAuth_Inl:
  assumes ok: "ok (w_store w)" and res: "fst (ApproveDeviceAuth st svc req w) = Inl e"
  shows "w_store (snd (ApproveDeviceAuth st svc req w)) =
    w_store (snd (ValidateSession st svc (ad_SessionID req) (ad_Now req) w))"
proof (cases "fst (ValidateSession st svc (ad_SessionID req) (ad_Now req) w)")
  case (Inl e)
  then show ?thesis by (simp add: ApproveDeviceAuth_def op_simps)
next
  case (Inr a)
  let ?w1 = "snd (ValidateSession st svc (ad_SessionID req) (ad_Now req) w)"
    and ?u = "ToUpper (TrimSpace (ad_UserCode req))"
  obtain session p where a: "a = (session, p)" by (cases a)
  have ok1: "ok (w_store ?w1)" "ok (w_store (snd (normalizeNow svc (ad_Now req) ?w1)))" using ok by (simp_all add: op_simps)
  obtain r where get: "on_store (store_GetDeviceCodeByUserCode st ?u) ?w1 = (r, ?w1)"
    using read_GetByUserCode [OF ok1(1), of ?u] by (auto simp: on_store_read)
  show ?thesis
  proof (cases r)
    case (Inl e)
    with Inr get a show ?thesis by (simp add: ApproveDeviceAuth_def op_simps Let_def)
  next
    case r: (Inr c)
    have "c \<in> ran (vw_deviceCodes (view (w_store ?w1)))"
      using get r GetByUserCode_some [OF ok1(1), of ?u] GetByUserCode_none [OF ok1(1), of ?u]
      by (cases "\<exists>c \<in> ran (vw_deviceCodes (view (w_store ?w1))). dev_UserCode c = ?u") (auto simp: on_store_def)
    then obtain k where "vw_deviceCodes (view (w_store ?w1)) k = Some c" by (auto simp: ran_def)
    moreover then have "dev_DeviceCode c = k" using device_row [OF ok1(1)] by blast
    ultimately show ?thesis
      using res Inr get a r ok1 by (auto simp: ApproveDeviceAuth_def op_simps store_simps Let_def split: if_splits)
  qed
qed

lemma ExchangeDeviceToken_Inl:
  assumes ok: "ok (w_store w)" and res: "fst (ExchangeDeviceToken st svc req w) = Inl e"
  shows "w_store (snd (ExchangeDeviceToken st svc req w)) = w_store w"
proof (cases "vw_deviceCodes (view (w_store w)) (TrimSpace (dt_DeviceCode req))")
  case None
  with ok show ?thesis
    by (cases "TrimSpace (dt_DeviceCode req) = []") (simp_all add: ExchangeDeviceToken_def op_simps store_simps)
next
  case (Some c)
  let ?w = "snd (normalizeNow svc (dt_Now req) w)"
  have ok1: "ok (w_store ?w)" using ok by (simp add: op_simps)
  have code: "dev_DeviceCode c = TrimSpace (dt_DeviceCode req)" using device_row ok Some by auto
  show ?thesis
    using res ok ok1 Some code
    by (cases "vw_principals (view (w_store w)) (dev_PrincipalID c)")
      (auto simp: ExchangeDeviceToken_def op_simps store_simps Let_def split: if_splits)
qed

text \<open>The three operations move the codes forward.\<close>

lemma ExchangeDeviceToken_progress:
  assumes "ok (w_store w)"
  shows "device_progress (view (w_store w)) (view (w_store (snd (ExchangeDeviceToken st svc req w))))"
proof (cases "fst (ExchangeDeviceToken st svc req w)")
  case (Inl e)
  then show ?thesis using ExchangeDeviceToken_Inl [OF assms] reflpD [OF device_progress_refl] by simp
next
  case (Inr r)
  show ?thesis
    by (rule ExchangeDeviceToken_Inr [OF assms Inr])
      (rule device_progress_put [where k = "TrimSpace (dt_DeviceCode req)"], auto simp: device_ahead_def)
qed

lemma ApproveDeviceAuth_progress:
  assumes "ok (w_store w)"
  shows "device_progress (view (w_store w)) (view (w_store (snd (ApproveDeviceAuth st svc req w))))"
proof -
  let ?w1 = "snd (ValidateSession st svc (ad_SessionID req) (ad_Now req) w)"
  have q: "device_progress (view (w_store w)) (view (w_store ?w1))"
    using quiet.R_ValidateSession [THEN stepsD] assms by (auto simp: kept_def quietly_progress)
  show ?thesis
  proof (cases "fst (ApproveDeviceAuth st svc req w)")
    case (Inl e)
    then show ?thesis using ApproveDeviceAuth_Inl [OF assms] q by simp
  next
    case (Inr u)
    then have res: "fst (ApproveDeviceAuth st svc req w) = Inr ()" by simp
    have "device_progress (view (w_store ?w1)) (view (w_store (snd (ApproveDeviceAuth st svc req w))))"
      by (rule ApproveDeviceAuth_Inr [OF assms res], rule device_progress_put)
        (assumption | force simp: device_ahead_def)+
    with q show ?thesis by (rule transpD [OF device_progress_trans])
  qed
qed

lemma StartDeviceAuth_progress:
  assumes "ok (w_store w)" and "vw_deviceCodes (view (w_store w)) (next_device_code svc w) = None"
  shows "device_progress (view (w_store w)) (view (w_store (snd (StartDeviceAuth st svc req w))))"
proof -
  have "ok (w_store (snd (normalizeNow svc (sd_Now req) w)))" using assms(1) by (simp add: op_simps)
  then show ?thesis
    using assms
    by (intro device_progress_put [where k = "next_device_code svc w"])
      (simp_all add: StartDeviceAuth_def op_simps store_simps Let_def next_device_code_def)
qed

end

section \<open>Runs of the service\<close>

text \<open>A step that does not draw a device code already in use.\<close>

definition service_run :: "'s Store \<Rightarrow> ('s \<Rightarrow> StoreView) \<Rightarrow> Service \<Rightarrow> 's World \<Rightarrow> 's World \<Rightarrow> bool" where
  "service_run st view svc w w' \<longleftrightarrow>
     service_step st svc w w' \<and> vw_deviceCodes (view (w_store w)) (next_device_code svc w) = None"

context full_store
begin

lemma service_run_progress:
  assumes "service_run st view svc w w'"
  shows "kept device_progress ok view w w'"
proof -
  have q: "kept device_progress ok view w v" if "kept quietly ok view w v" for v
    using that by (auto simp: kept_def quietly_progress)
  from assms have "service_step st svc w w'"
    and free: "vw_deviceCodes (view (w_store w)) (next_device_code svc w) = None"
    by (simp_all add: service_run_def)
  then consider "service_call st svc w w'" | rl where "w' = snd (StartOIDCLogin st svc rl w)"
    | x where "w' = snd (PutOIDCLoginState st svc x w)"
    by (cases rule: service_step.cases) auto
  then show ?thesis
  proof cases
    case 1
    then show ?thesis
    proof cases
      case start_device
      then show ?thesis
        using StartDeviceAuth_progress [OF _ free] ok_after [OF service_call.start_device] by (auto simp: kept_def)
    next
      case approve_device
      then show ?thesis
        using ApproveDeviceAuth_progress ok_after [OF service_call.approve_device] by (auto simp: kept_def)
    next
      case exchange_device
      then show ?thesis
        using ExchangeDeviceToken_progress ok_after [OF service_call.exchange_device] by (auto simp: kept_def)
    qed (rule q, simp only:, (rule quiet.R_methods [THEN stepsD] | rule kept_same_store [OF relations_refl(2)], rule settings_store))+
  qed (rule q, simp only:, rule quiet.R_login [THEN stepsD])+
qed

lemma service_runs_progress:
  "(service_run st view svc)\<^sup>*\<^sup>* w w' \<Longrightarrow> kept device_progress ok view w w'"
  by (induction rule: rtranclp_induct)
    (auto simp: device_progress_refl dest: service_run_progress intro: transpD [OF kept_transp [OF device_progress_trans]])

end

end
