(* ===== verification/Warden_Example.thy ===== *)
theory Warden_Example
  imports Warden_Credentials Warden_MemoryStore
begin

text \<open>
  A small running service, for the concrete instances of the properties: one tenant with an
  administrator (role \<open>tenant.admin\<close>), a pending user, a service account, one session of the
  administrator, one API key and an approved device code.
\<close>

definition ex_now :: time where "ex_now = time_Unix 1767225600"

definition ex_tenant :: Tenant where
  "ex_tenant = \<lparr>ten_ID = ''t1'', ten_CasdoorOrgName = ''org1'', ten_Slug = ''t1'', ten_DisplayName = ''Tenant'',
     ten_Status = ''active''\<rparr>"

definition ex_role :: "string \<Rightarrow> RoleGrant" where
  "ex_role k = \<lparr>role_Key = k, role_ScopeType = [], role_ScopeID = []\<rparr>"

definition ex_principal :: "string \<Rightarrow> string \<Rightarrow> string \<Rightarrow> RoleGrant list \<Rightarrow> Principal" where
  "ex_principal pid type status roles =
    \<lparr>p_ID = pid, p_TenantID = ''t1'', p_CasdoorUserID = [], p_Username = pid, p_Email = [],
     p_DisplayName = pid, p_Type = type, p_Status = status, p_EmailVerified = True, p_Roles = roles, p_Teams = []\<rparr>"

definition ex_admin :: Principal where
  "ex_admin = ex_principal ''p1'' ''user'' ''active'' [ex_role ''tenant.admin'']"

definition ex_user :: Principal where
  "ex_user = ex_principal ''p2'' ''user'' ''pending'' [ex_role ''frontend.user'']"

definition ex_robot :: Principal where
  "ex_robot = ex_principal ''svc1'' ''service_account'' ''active'' [ex_role ''tenant.admin'']"

definition ex_session :: Session where
  "ex_session = \<lparr>sess_ID = ''s1'', sess_PrincipalID = ''p1'', sess_TenantID = ''t1'', sess_CurrentTeamID = [],
     sess_AuthTime = ex_now, sess_ExpiresAt = ex_now + Hour, sess_Source = SessionSourceWeb\<rparr>"

definition ex_key :: "string \<Rightarrow> string \<Rightarrow> string \<Rightarrow> APIKey" where
  "ex_key kid token pid = \<lparr>key_ID = kid, key_Name = [], key_TenantID = ''t1'', key_PrincipalType = ''user'',
     key_PrincipalID = pid, key_KeyHash = HashAPIKey token, key_Scopes = [''chathub:read''],
     key_ExpiresAt = zero_time, key_Status = ''active'', key_CreatedAt = ex_now, key_LastUsedAt = zero_time\<rparr>"

definition ex_account :: ServiceAccount where
  "ex_account = \<lparr>acc_ID = ''svc1'', acc_TenantID = ''t1'', acc_Name = ''robot'', acc_Status = ''active'',
     acc_CreatedBy = ''p1'', acc_CreatedAt = ex_now\<rparr>"

definition ex_device :: "string \<Rightarrow> string \<Rightarrow> DeviceCode" where
  "ex_device pid status = \<lparr>dev_DeviceCode = ''dev_1'', dev_UserCode = ''ABC'', dev_PrincipalID = pid,
     dev_ExpiresAt = ex_now + Hour, dev_Interval = 5 * Second, dev_Status = status, dev_CreatedAt = ex_now\<rparr>"

text \<open>The store, whose only API key (the token \<open>tok\<close>) belongs to \<open>owner\<close>.\<close>

definition ex_store :: "string \<Rightarrow> MemoryStore" where
  "ex_store owner = \<lparr>ms_tenants = [(''t1'', ex_tenant)],
     ms_principals = [(''p1'', ex_admin), (''p2'', ex_user), (''svc1'', ex_robot)],
     ms_oidcStates = [], ms_deviceCodes = [(''dev_1'', ex_device ''p1'' ''approved'')],
     ms_sessions = [(''s1'', ex_session)], ms_accounts = [(''svc1'', ex_account)],
     ms_apiKeys = [(HashAPIKey ''tok'', ex_key ''key_1'' ''tok'' owner)],
     ms_agentRuns = [], ms_audits = []\<rparr>"

definition ex_cfg :: Config where
  "ex_cfg = \<lparr>cfg_Issuer = ''warden'', cfg_MasterSecret = replicate 32 CHR ''k'', cfg_InternalTTL = 5 * Minute,
     cfg_AgentTTL = Minute, cfg_SessionTTL = Hour, cfg_APIKeyPrefix = ''sak'', cfg_Policy = DefaultPolicy,
     cfg_PolicyVersion = ''v1'', cfg_OIDCVerifier = None,
     cfg_OIDCTokenExchanger = None, cfg_OIDCFactory = None, cfg_OIDCRedirectURL = [], cfg_DirectorySource = None,
     cfg_DirectoryRefreshOnSession = False, cfg_RegistrationPolicy = ''open'',
     cfg_EmailVerificationRequired = False, cfg_Templates = None\<rparr>"

text \<open>A codec for the token that the administrator's session asks for.\<close>

definition ex_json :: "Claims \<Rightarrow> json_codec" where
  "ex_json c = \<lparr>marshal_claims = (\<lambda>_. ''{}''), unmarshal_claims = (\<lambda>_. Some c),
     unmarshal_alg = (\<lambda>_. Some signingAlgHS256)\<rparr>"

definition ex_signer :: Signer where
  "ex_signer = \<lparr>sg_issuer = ''warden'', sg_secret = replicate 32 CHR ''k'', sg_ttl = 5 * Minute\<rparr>"

definition ex_sign_input :: SignInput where
  "ex_sign_input = \<lparr>in_Issuer = [], in_Audience = ''chathub'', in_TTL = 5 * Minute, in_TenantID = ''t1'', in_OrgID = [],
     in_PrincipalType = ''user'', in_PrincipalID = ''p1'', in_Email = [], in_Name = ''p1'', in_Handle = ''p1'',
     in_Roles = roleKeys (p_Roles ex_admin), in_Scopes = [''chathub:read''], in_Resource = None, in_SessionID = ''s1'',
     in_AuthTime = ex_now, in_Source = SessionSourceWeb, in_Now = ex_now, in_JWTID = ''jwt_1'', in_Actor = None,
     in_Delegation = None, in_PolicyVersion = ''v1''\<rparr>"

definition ex_claims :: Claims where
  "ex_claims = sign_claims ex_now [] ex_signer ex_sign_input"

definition ex_svc :: Service where
  "ex_svc = \<lparr>svc_cfg = ex_cfg,
     svc_signer = ex_signer,
     svc_json = ex_json ex_claims, svc_directory = None, svc_oidc = None, svc_exchanger = None,
     svc_idp = \<lparr>lib_Verify = (\<lambda>_ _ _. None), lib_Exchange = (\<lambda>_ _ _ _. None)\<rparr>, svc_mailer = True,
     svc_templates = DefaultTemplateRegistry, svc_clock = (\<lambda>n. ex_now + int n),
     svc_rand = (\<lambda>n i. CHR 0x2A)\<rparr>"

definition ex_world :: "string \<Rightarrow> MemoryStore World" where
  "ex_world owner = \<lparr>w_store = ex_store owner, w_policy = DefaultPolicy, w_policyVersion = ''v1'',
     w_registrationPolicy = ''open'', w_notifier = True, w_notified = [], w_mails = [],
     w_oidcClient = None, w_oidcRetryAfter = zero_time, w_clock = 0, w_draws = 0, w_lookups = 0, w_oidcCalls = 0\<rparr>"

text \<open>An identity provider, whose tokens have the claims \<open>claims\<close>; its clock is that of the service.\<close>

definition ex_oidc_verifier :: OIDCVerifier where
  "ex_oidc_verifier = \<lparr>ov_Issuer = ''https://idp'', ov_ClientID = ''warden'', ov_JWKSURL = ''https://idp/keys'', ov_Client = None,
     ov_Now = None, ov_AuthorizationURL = ''https://idp/authorize'', ov_RedirectURL = ''https://w/auth/oidc/callback'',
     ov_ProviderHint = [], ov_RequireResponseIssuer = False,
     ov_verifier = Some (externalTokenVerifier ''https://idp'' ''warden'' ''https://idp/keys'')\<rparr>"

definition ex_idp :: "OIDCClaims \<Rightarrow> OIDCLibrary" where
  "ex_idp claims = \<lparr>lib_Verify = (\<lambda>_ _ _. Some \<lparr>idt_AccessTokenHash = [], idt_VerifyAccessToken = (\<lambda>_. True),
       idt_Claims = Some (claims, AudString ''warden'')\<rparr>),
     lib_Exchange = (\<lambda>_ _ _ _. Some \<lparr>ot_AccessToken = ''at'', ot_TokenType = ''Bearer'', ot_IDToken = Some ''idt''\<rparr>)\<rparr>"

definition ex_oidc_claims :: "string \<Rightarrow> string \<Rightarrow> OIDCClaims" where
  "ex_oidc_claims subject nonce = \<lparr>oc_Issuer = ''https://idp'', oc_Subject = subject, oc_Audience = [''warden''],
     oc_ExpiresAt = 2000000000, oc_NotBefore = 0, oc_IssuedAt = 0, oc_Nonce = nonce, oc_AuthorizedParty = [],
     oc_Email = [], oc_Name = [], oc_PreferredName = [], oc_TenantID = ''t1'', oc_Scope = ''chathub:read''\<rparr>"

lemma ex_oidc_clock: "ov_Now ex_oidc_verifier = None"
  by (simp add: ex_oidc_verifier_def)

lemma ex_verify:
  assumes "TrimSpace subject \<noteq> []" and "length raw \<le> 65536" and "expected = [] \<or> expected = nonce"
    and "Unix now \<ge> 0" and "now \<le> ex_now + Hour"
  shows "oidc_verify (ex_idp (ex_oidc_claims subject nonce)) n now ex_oidc_verifier raw expected =
    Inr (\<lparr>idt_AccessTokenHash = [], idt_VerifyAccessToken = (\<lambda>_. True),
       idt_Claims = Some (ex_oidc_claims subject nonce, AudString ''warden'')\<rparr>, ex_oidc_claims subject nonce)"
proof -
  have t: "TrimSpace ''https://idp'' = ''https://idp''" "TrimSpace ''warden'' = ''warden''" by code_simp+
  have "Before now (time_Unix 2000000000)"
    using assms(5) by (simp add: Before_def time_Unix_def ex_now_def Second_def Hour_def Minute_def)
  moreover have "0 \<le> Unix (now + 30 * Second)"
    using assms(4) by (simp add: Unix_def Second_def)
  ultimately show ?thesis
    using assms t by (auto simp: oidc_verify_def ex_oidc_verifier_def ex_idp_def OIDCClaims_UnmarshalJSON_def unmarshal_string_def
        validateClaims_def ex_oidc_claims_def)
qed

lemmas ex_rows = ex_tenant_def ex_admin_def ex_user_def ex_robot_def ex_principal_def ex_session_def
  ex_key_def ex_account_def ex_device_def

lemma ex_ok: "mem_wf (w_store (ex_world k))"
  by (simp add: ex_world_def ex_store_def mem_wf_def wf_map_def mem_view_def view_ok_def keyed_def ex_rows)

lemma ex_now_given: "\<not> IsZero ex_now"
  by (simp add: ex_now_def IsZero_def zero_time_def time_Unix_def Second_def)

lemma ex_no_refresh: "\<not> cfg_DirectoryRefreshOnSession (svc_cfg ex_svc)"
  by (simp add: ex_svc_def ex_cfg_def)

end
