(* ===== verification/Warden_Properties.thy ===== *)
theory Warden_Properties
  imports Warden_Credential_Facts Warden_Example
begin

text \<open>
  The properties of sessions, administration, keys and accounts, stated for the in-memory store, each
  followed by an instance in the example service. The work is done by the lemmas of the component
  theories; a property here is their instance at the interpretations of \<open>Warden_MemoryStore\<close> and
  \<open>Warden_Steps\<close>.
\<close>

section \<open>The example service\<close>

lemma ex_lookups [simp]:
  "vw_principals (mem_view (w_store (ex_world k))) ''p1'' = Some ex_admin"
  "vw_principals (mem_view (w_store (ex_world k))) ''p2'' = Some ex_user"
  "vw_principals (mem_view (w_store (ex_world k))) ''svc1'' = Some ex_robot"
  "vw_tenants (mem_view (w_store (ex_world k))) ''t1'' = Some ex_tenant"
  "vw_sessions (mem_view (w_store (ex_world k))) ''s1'' = Some ex_session"
  "vw_accounts (mem_view (w_store (ex_world k))) ''svc1'' = Some ex_account"
  "vw_apiKeys (mem_view (w_store (ex_world k))) (HashAPIKey ''tok'') = Some (ex_key ''key_1'' ''tok'' k)"
  by (simp_all add: ex_world_def ex_store_def mem_view_def)

lemma ex_trim: "TrimSpace ''s1'' = ''s1''" "TrimSpace ''p1'' = ''p1''" "TrimSpace ''p2'' = ''p2''"
  "TrimSpace ''t1'' = ''t1''" "TrimSpace ''svc1'' = ''svc1''" "TrimSpace ''key_1'' = ''key_1''"
  by code_simp+

lemma ex_admin_roles: "roleKeys (p_Roles ex_admin) = [RoleTenantAdmin]"
  "canManageServiceAccounts (p_Roles ex_admin)"
  by code_simp+

lemma ex_session_valid: "session_valid (mem_view (w_store (ex_world k))) ''s1'' ex_now ex_session ex_admin"
  by (simp add: session_valid_def usable_session_def may_act_def ex_trim)
    (simp add: ex_rows expired_def Before_def Hour_def Minute_def Second_def PrincipalStatusDisabled_def)

lemma ex_validate:
  "fst (ValidateSession memory_store ex_svc ''s1'' ex_now (ex_world k)) = Inr (ex_session, ex_admin)"
  "w_store (snd (ValidateSession memory_store ex_svc ''s1'' ex_now (ex_world k))) = w_store (ex_world k)"
  using mem_id.ValidateSession_valid [OF ex_ok, of k "''s1''" ex_svc ex_now ex_session ex_admin]
    ex_session_valid ex_now_given ex_no_refresh
  by (simp_all add: refreshed_def)

lemma ex_statuses: "ten_Status ex_tenant \<noteq> PrincipalStatusDisabled" "p_Status ex_admin = ''active''"
  "p_TenantID ex_admin = ''t1''" "p_ID ex_admin = ''p1''" "sess_TenantID ex_session = ''t1''" "p_Status ex_user = ''pending''"
  "p_CasdoorUserID ex_admin = []" "p_Teams ex_admin = []" "sess_ID ex_session = ''s1''"
  "svc_cfg ex_svc = ex_cfg" "acc_TenantID ex_account = ''t1''" "sess_PrincipalID ex_session = ''p1''"
  "p_TenantID ex_robot = ''t1''"
  by (simp_all add: ex_rows PrincipalStatusDisabled_def ex_svc_def)

lemma ex_create: "\<exists>s. fst (CreateSession memory_store ex_svc ''p1'' ex_now (ex_world k)) = Inr s"
  using ex_ok ex_now_given
  by (simp add: CreateSession_def op_simps store_simps ex_statuses Let_def)

lemma ex_admin_ok: "fst (requirePrincipalAdmin memory_store ex_svc ''s1'' ex_now (ex_world k)) = Inr ex_admin"
  "w_store (snd (requirePrincipalAdmin memory_store ex_svc ''s1'' ex_now (ex_world k))) = w_store (ex_world k)"
  using ex_validate ex_admin_roles by (simp_all add: requirePrincipalAdmin_def op_simps)

lemma ex_disable: "\<exists>q. fst (DisablePrincipal memory_store ex_svc ''s1'' ''p2'' ex_now (ex_world k)) = Inr q"
  using ex_admin_ok ex_ok by (simp add: DisablePrincipal_def op_simps store_simps ex_trim)

lemma ex_approve: "\<exists>q. fst (ApprovePrincipal memory_store ex_svc ''s1'' ''p2'' ex_now (ex_world k)) = Inr q"
  using ex_admin_ok ex_ok
  by (simp add: ApprovePrincipal_def op_simps store_simps ex_trim ex_statuses PrincipalStatusPending_def notifyPrincipalDecision_def Let_def split: sum.splits)

definition ex_switch :: SwitchTenantRequest where
  "ex_switch = \<lparr>swt_SessionID = ''s1'', swt_TenantID = ''t1'', swt_TeamID = [], swt_Now = ex_now\<rparr>"

lemma ex_switch_ok: "\<exists>ic. fst (SwitchTenant memory_store ex_svc ex_switch (ex_world k)) = Inr ic"
proof -
  let ?w = "snd (ValidateSession memory_store ex_svc ''s1'' ex_now (ex_world k))"
  let ?m = "on_store (store_UpdateSessionContext memory_store ''s1'' ''p1'' ''t1'' [])"
  let ?w2 = "snd (?m ?w)"
  have ok2: "mem_wf (w_store ?w2)" using ex_ok ex_validate by (simp add: store_simps)
  have V2: "mem_view (w_store ?w2) = (mem_view (w_store (ex_world k)))
      \<lparr>vw_sessions := (vw_sessions (mem_view (w_store (ex_world k))))(''s1'' \<mapsto> ex_session)\<rparr>"
    using ex_ok ex_validate by (simp add: store_simps) (simp add: ex_session_def)
  have sv: "session_valid (mem_view (w_store ?w2)) ''s1'' (eff_now ex_svc ?w2 ex_now) ex_session ex_admin"
    unfolding V2 using ex_session_valid ex_now_given by (simp add: session_valid_def usable_session_def ex_trim)
  have v: "fst (ValidateSession memory_store ex_svc ''s1'' ex_now ?w2) = Inr (ex_session, ex_admin)"
    "w_store (snd (ValidateSession memory_store ex_svc ''s1'' ex_now ?w2)) = w_store ?w2"
    using mem_id.ValidateSession_valid [OF ok2 sv] ex_no_refresh by (simp_all add: refreshed_def)
  have "\<exists>ic. fst (IdentityContext memory_store ex_svc ''s1'' ex_now ?w2) = Inr ic"
    using ok2 v V2 by (simp add: IdentityContext_def op_simps store_simps ex_statuses availableTenants_def)
  then show ?thesis
    using ex_validate ex_ok
    by (simp add: SwitchTenant_def ex_switch_def op_simps ex_trim ex_statuses validateTeamSelection_def store_simps)
qed

definition ex_create_key :: CreateAPIKeyRequest where
  "ex_create_key = \<lparr>ck_SessionID = ''s1'', ck_Name = ''ci'', ck_Scopes = [''chathub:read''],
     ck_ExpiresAt = ex_now + Hour, ck_Now = ex_now\<rparr>"

lemma ex_policy: "Service_Policy (ex_world k) = \<lparr>pol_roleScopes = Some (copyRoleScopes DefaultRoleScopes)\<rparr>"
  by (simp add: Service_Policy_def ex_world_def DefaultPolicy_def RoleScopes_def)

lemma ex_scopes: "''chathub:read'' \<in>
    set (sliceSet (ScopesForRoles \<lparr>pol_roleScopes = Some (copyRoleScopes DefaultRoleScopes)\<rparr> (p_Roles ex_admin)))"
  by code_simp

lemma ex_create_key_ok: "\<exists>c. fst (CreateAPIKey memory_store ex_svc ex_create_key (ex_world k)) = Inr c"
  using ex_validate ex_ok ex_now_given ex_scopes
  by (simp add: CreateAPIKey_def ex_create_key_def op_simps store_simps Let_def ex_policy)

lemma ex_revoke_ok: "fst (RevokeAPIKey memory_store ex_svc ''s1'' ''key_1'' ex_now (ex_world ''p1'')) = Inr ()"
proof -
  have ex: "\<exists>key \<in> ran (vw_apiKeys (mem_view (w_store (ex_world ''p1'')))). key_ID key = ''key_1'' \<and> key_PrincipalID key = ''p1''"
    by (rule bexI [of _ "ex_key ''key_1'' ''tok'' ''p1''"], simp add: ex_key_def)
      (rule ranI [of _ "HashAPIKey ''tok''"], simp)
  have "fst (store_RevokeAPIKey memory_store ''key_1'' ''p1'' (w_store (ex_world ''p1''))) = Inr ()"
    "mem_wf (snd (store_RevokeAPIKey memory_store ''key_1'' ''p1'' (w_store (ex_world ''p1''))))"
    using mem_cred.RevokeAPIKey_some [OF ex_ok ex] by (auto simp: does_def)
  then show ?thesis
    using ex_validate by (simp add: RevokeAPIKey_def op_simps store_simps ex_trim ex_statuses)
qed

lemma ex_ids_unique: "key_ids_unique (mem_view (w_store (ex_world k)))"
  by (simp add: key_ids_unique_def ex_world_def ex_store_def mem_view_def)

lemma ex_disable_robot: "fst (DisableServiceAccount memory_store ex_svc ''s1'' ''svc1'' ex_now (ex_world k)) = Inr ()"
  using ex_validate ex_admin_roles doesD [OF mem_cred.DisableServiceAccount_some [OF ex_ok, of k "''svc1''" ex_account "''t1''"]]
  by (simp add: DisableServiceAccount_def op_simps store_simps ex_trim ex_statuses)

text \<open>C11: In every state the running service reaches, every table of the in-memory store has
  distinct keys and every row is stored under its own key; and between two such states the audit log is
  only appended to and no tenant, principal, service account, API key, device code or agent run
  disappears.\<close>

theorem service_keeps_store:
  assumes "mem_wf (w_store w)" and "(service_step memory_store svc)\<^sup>*\<^sup>* w w'"
  shows "mem_wf (w_store w') \<and> view_extends (mem_view (w_store w)) (mem_view (w_store w'))"
  using mem.service_steps_extends [OF assms(2)] assms(1) by (simp add: kept_def)

theorem service_keeps_store_witness:
  "mem_wf (w_store (snd (CreateSession memory_store ex_svc ''p1'' ex_now (ex_world ''p1''))))"
proof -
  have "(service_step memory_store ex_svc)\<^sup>*\<^sup>* (ex_world ''p1'')
      (snd (CreateSession memory_store ex_svc ''p1'' ex_now (ex_world ''p1'')))"
    by (rule r_into_rtranclp) (rule service_step.call [OF service_call.create_session])
  from service_keeps_store [OF ex_ok this] show ?thesis by blast
qed

section \<open>Properties of the sessions\<close>

text \<open>C10: A session that validates exists, has not expired, belongs to an existing tenant that is not
  disabled and to a stored principal of that tenant; the principal returned is that one (looked up again
  in the directory when refreshing is on), and is neither disabled nor pending.\<close>

theorem validate_session_sound:
  assumes "mem_wf (w_store w)" and "fst (ValidateSession memory_store svc sid now w) = Inr (session, p)"
  shows "sess_ID session = TrimSpace sid \<and> may_act p
    \<and> (\<exists>p0. usable_session (mem_view (w_store w)) sid (eff_now svc w now) session p0
          \<and> p_ID p = p_ID p0 \<and> (\<not> refreshed svc p0 \<longrightarrow> p = p0))"
proof -
  obtain p0 where "usable_session (mem_view (w_store w)) sid (eff_now svc w now) session p0"
    "p_ID p = p_ID p0" "may_act p" "\<not> refreshed svc p0 \<Longrightarrow> p = p0"
    by (rule mem_id.ValidateSession_Inr [OF assms]) blast
  moreover then have "sess_ID session = TrimSpace sid"
    using mem_id.session_row [OF assms(1)] by (auto simp: usable_session_def)
  ultimately show ?thesis by blast
qed

theorem validate_session_sound_witness: "may_act ex_admin \<and> sess_ID ex_session = ''s1''"
  using validate_session_sound [OF ex_ok ex_validate(1)] by (simp add: ex_trim)

text \<open>C21: A new session validates, to itself and to its principal, at every time before the session
  lifetime has passed, and at every later time it is refused and deleted.\<close>

theorem session_lifetime:
  assumes "mem_wf (w_store w)" and "\<not> IsZero now" and "\<not> IsZero t"
    and "fst (CreateSession memory_store svc pid now w) = Inr session"
    and "vw_principals (mem_view (w_store w)) pid = Some p" and "\<not> refreshed svc p"
    and "\<not> IsZero (now + cfg_SessionTTL (svc_cfg svc))"
  shows "let w1 = snd (CreateSession memory_store svc pid now w);
             r = ValidateSession memory_store svc (sess_ID session) t w1 in
    if t < now + cfg_SessionTTL (svc_cfg svc) then fst r = Inr (session, p) \<and> w_store (snd r) = w_store w1
    else fst r = Inl ErrUnauthorized \<and> vw_sessions (mem_view (w_store (snd r))) (sess_ID session) = None"
proof -
  let ?w = "snd (CreateSession memory_store svc pid now w)"
  obtain q tn where q: "vw_principals (mem_view (w_store w)) pid = Some q" "may_act q"
    and tn: "vw_tenants (mem_view (w_store w)) (p_TenantID q) = Some tn" "ten_Status tn \<noteq> PrincipalStatusDisabled"
    and session: "session = \<lparr>sess_ID = ''sess_'' @ rand_at svc (w_draws w), sess_PrincipalID = pid,
      sess_TenantID = p_TenantID q, sess_CurrentTeamID = [], sess_AuthTime = now,
      sess_ExpiresAt = now + cfg_SessionTTL (svc_cfg svc), sess_Source = SessionSourceWeb\<rparr>"
    and ok: "mem_wf (w_store ?w)"
    and view: "mem_view (w_store ?w) =
      (mem_view (w_store w))\<lparr>vw_sessions := (vw_sessions (mem_view (w_store w)))(sess_ID session \<mapsto> session)\<rparr>"
    using assms(2) by (metis eff_now_given mem_id.CreateSession_Inr [OF assms(1,4)])
  have pq: "p = q" using q(1) assms(5) by simp
  have id: "TrimSpace (sess_ID session) = sess_ID session"
    using TrimSpace_session_id [of svc "w_draws w"] by (simp add: session)
  show ?thesis
  proof (cases "t < now + cfg_SessionTTL (svc_cfg svc)")
    case True
    then have "session_valid (mem_view (w_store ?w)) (sess_ID session) (eff_now svc ?w t) session p"
      using q tn assms(3) pq id
      by (simp add: session_valid_def usable_session_def view expired_def Before_def) (simp add: session)
    from mem_id.ValidateSession_valid [OF ok this assms(6)] True show ?thesis by (simp add: Let_def)
  next
    case False
    then have e: "expired (sess_ExpiresAt session) (eff_now svc ?w t)"
      using assms(3,7) by (simp add: session expired_def Before_def)
    have s: "vw_sessions (mem_view (w_store ?w)) (TrimSpace (sess_ID session)) = Some session"
      by (simp add: view id)
    from mem_id.ValidateSession_expired [OF ok s e] False show ?thesis by (simp add: Let_def id)
  qed
qed

theorem session_lifetime_witness:
  "\<exists>session. fst (CreateSession memory_store ex_svc ''p1'' ex_now (ex_world ''p1'')) = Inr session
    \<and> fst (ValidateSession memory_store ex_svc (sess_ID session) (ex_now + Minute)
        (snd (CreateSession memory_store ex_svc ''p1'' ex_now (ex_world ''p1'')))) = Inr (session, ex_admin)
    \<and> fst (ValidateSession memory_store ex_svc (sess_ID session) (ex_now + Hour)
        (snd (CreateSession memory_store ex_svc ''p1'' ex_now (ex_world ''p1'')))) = Inl ErrUnauthorized"
proof -
  obtain session where s: "fst (CreateSession memory_store ex_svc ''p1'' ex_now (ex_world ''p1'')) = Inr session"
    using ex_create by blast
  have t: "\<not> IsZero (ex_now + Minute)" "\<not> IsZero (ex_now + Hour)"
      "\<not> IsZero (ex_now + cfg_SessionTTL (svc_cfg ex_svc))" "Minute < Hour" "cfg_SessionTTL (svc_cfg ex_svc) = Hour"
    by (simp_all add: ex_now_def IsZero_def zero_time_def time_Unix_def Second_def Minute_def Hour_def ex_svc_def ex_cfg_def)
  have r: "\<not> refreshed ex_svc ex_admin" using ex_no_refresh by (simp add: refreshed_def)
  show ?thesis
    using session_lifetime [OF ex_ok ex_now_given t(1) s ex_lookups(1) r t(3)]
      session_lifetime [OF ex_ok ex_now_given t(2) s ex_lookups(1) r t(3)] s t(4,5)
    by (auto simp: Let_def)
qed

section \<open>Properties of the administration\<close>

text \<open>Only a caller whose session validates and whose roles include a platform or tenant owner or
  administrator can disable, enable, approve or reject a principal.\<close>

theorem admin_needs_role:
  assumes "mem_wf (w_store w)" and "\<not> cfg_DirectoryRefreshOnSession (svc_cfg svc)"
    and "(\<exists>q. fst (DisablePrincipal memory_store svc sid pid now w) = Inr q)
       \<or> (\<exists>q. fst (EnablePrincipal memory_store svc sid pid now w) = Inr q)
       \<or> (\<exists>q. fst (ApprovePrincipal memory_store svc sid pid now w) = Inr q)
       \<or> (\<exists>q. fst (RejectPrincipal memory_store svc sid pid now w) = Inr q)"
  shows "\<exists>session p. session_valid (mem_view (w_store w)) sid (eff_now svc w now) session p
    \<and> set (roleKeys (p_Roles p)) \<inter> {RolePlatformOwner, RolePlatformAdmin, RoleTenantOwner, RoleTenantAdmin} \<noteq> {}"
proof -
  obtain p where p: "fst (requirePrincipalAdmin memory_store svc sid now w) = Inr p"
    using assms(3) unfolding DisablePrincipal_def EnablePrincipal_def ApprovePrincipal_def RejectPrincipal_def
    by (auto elim: bnd_InrE)
  show ?thesis
    by (rule mem.requirePrincipalAdmin_Inr [OF assms(1) p])
      (use assms(2) in \<open>auto simp: session_valid_def refreshed_def canManageServiceAccounts_iff\<close>)
qed

theorem admin_needs_role_witness:
  "\<exists>session p. session_valid (mem_view (w_store (ex_world ''p1''))) ''s1'' ex_now session p
    \<and> RoleTenantAdmin \<in> set (roleKeys (p_Roles p))"
proof -
  have "\<exists>session p. session_valid (mem_view (w_store (ex_world ''p1''))) ''s1'' (eff_now ex_svc (ex_world ''p1'') ex_now) session p
    \<and> set (roleKeys (p_Roles p)) \<inter> {RolePlatformOwner, RolePlatformAdmin, RoleTenantOwner, RoleTenantAdmin} \<noteq> {}"
    using admin_needs_role [OF ex_ok ex_no_refresh disjI1 [OF ex_disable]] .
  then obtain session p where "session_valid (mem_view (w_store (ex_world ''p1''))) ''s1'' ex_now session p"
    using ex_now_given by auto
  moreover from this have "p = ex_admin"
    using ex_session_valid [of "''p1''"] by (auto simp: session_valid_def usable_session_def)
  ultimately show ?thesis
    by (intro exI [of _ session] exI [of _ ex_admin]) (simp add: ex_admin_roles)
qed

text \<open>Disabling a principal leaves it stored with status \<open>disabled\<close>, deletes all its sessions,
  and no session can be created for it afterwards.\<close>

theorem disable_principal_revokes:
  assumes "mem_wf (w_store w)" and "fst (DisablePrincipal memory_store svc sid pid now w) = Inr q"
  shows "let w' = snd (DisablePrincipal memory_store svc sid pid now w); V' = mem_view (w_store w') in
    vw_principals V' pid = Some q \<and> p_Status q = ''disabled''
    \<and> (\<forall>k s. vw_sessions V' k = Some s \<longrightarrow> sess_PrincipalID s \<noteq> pid)
    \<and> (\<forall>t s. fst (CreateSession memory_store svc pid t w') \<noteq> Inr s)"
proof -
  let ?w = "snd (DisablePrincipal memory_store svc sid pid now w)"
  have q: "mem_wf (w_store ?w)" "vw_principals (mem_view (w_store ?w)) pid = Some q" "p_Status q = ''disabled''"
      "\<And>k s. vw_sessions (mem_view (w_store ?w)) k = Some s \<Longrightarrow> sess_PrincipalID s \<noteq> pid"
    by (rule mem.DisablePrincipal_Inr [OF assms], assumption)+
  moreover have "fst (CreateSession memory_store svc pid t ?w) \<noteq> Inr s" for t s
    using mem_id.CreateSession_Inr [OF q(1), of svc pid t s] q(2,3) by (auto simp: may_act_def)
  ultimately show ?thesis by (auto simp: Let_def)
qed

theorem disable_principal_revokes_witness:
  "let w' = snd (DisablePrincipal memory_store ex_svc ''s1'' ''p2'' ex_now (ex_world ''p1'')) in
    \<exists>q. vw_principals (mem_view (w_store w')) ''p2'' = Some q \<and> p_Status q = ''disabled''"
proof -
  obtain q where q: "fst (DisablePrincipal memory_store ex_svc ''s1'' ''p2'' ex_now (ex_world ''p1'')) = Inr q"
    using ex_disable by blast
  from disable_principal_revokes [OF ex_ok q] show ?thesis by (auto simp: Let_def)
qed

text \<open>Approval turns a pending principal into an active one and changes nothing else of it; it never
  applies to a disabled or an active principal.\<close>

theorem approve_only_pending:
  assumes "mem_wf (w_store w)" and "\<not> cfg_DirectoryRefreshOnSession (svc_cfg svc)"
    and "fst (ApprovePrincipal memory_store svc sid pid now w) = Inr q"
  shows "\<exists>p. vw_principals (mem_view (w_store w)) pid = Some p \<and> p_Status p = ''pending''
    \<and> q = p\<lparr>p_Status := ''active''\<rparr>
    \<and> vw_principals (mem_view (w_store (snd (ApprovePrincipal memory_store svc sid pid now w)))) pid = Some q"
proof -
  obtain actor w1 p where a: "requirePrincipalAdmin memory_store svc sid now w = (Inr actor, w1)"
    and p: "vw_principals (mem_view (w_store w1)) pid = Some p" "p_Status p = ''pending''"
      "vw_principals (mem_view (w_store (snd (ApprovePrincipal memory_store svc sid pid now w)))) pid = Some q"
      "q = p\<lparr>p_Status := ''active''\<rparr>"
    by (rule mem.ApprovePrincipal_Inr [OF assms(1,3)])
  have "w_store w1 = w_store w"
    by (rule mem.requirePrincipalAdmin_Inr [OF assms(1), of svc sid now actor])
      (use a assms(2) in \<open>auto simp: refreshed_def\<close>)
  with p show ?thesis by auto
qed

theorem approve_only_pending_witness:
  "fst (ApprovePrincipal memory_store ex_svc ''s1'' ''p2'' ex_now (ex_world ''p1'')) = Inr (ex_user\<lparr>p_Status := ''active''\<rparr>)"
proof -
  obtain q where q: "fst (ApprovePrincipal memory_store ex_svc ''s1'' ''p2'' ex_now (ex_world ''p1'')) = Inr q"
    using ex_approve by blast
  from approve_only_pending [OF ex_ok ex_no_refresh q] q show ?thesis by auto
qed

text \<open>A tenant switch moves the session, and only that session, to a principal of the requested
  tenant that is the same person in the directory and may act; the identity context returned describes it.\<close>

theorem switch_tenant_own_identity:
  assumes "mem_wf (w_store w)" and "\<not> cfg_DirectoryRefreshOnSession (svc_cfg svc)"
    and "fst (SwitchTenant memory_store svc req w) = Inr ic"
  shows "\<exists>session p session' p'.
    session_valid (mem_view (w_store w)) (swt_SessionID req) (eff_now svc w (swt_Now req)) session p
    \<and> mem_view (w_store (snd (SwitchTenant memory_store svc req w))) = (mem_view (w_store w))
        \<lparr>vw_sessions := (vw_sessions (mem_view (w_store w)))(sess_ID session \<mapsto> session')\<rparr>
    \<and> sess_ID session' = sess_ID session \<and> sess_ExpiresAt session' = sess_ExpiresAt session
    \<and> sess_PrincipalID session' = p_ID p' \<and> sess_TenantID session' = TrimSpace (swt_TenantID req)
    \<and> p_TenantID p' = TrimSpace (swt_TenantID req) \<and> may_act p'
    \<and> (p' = p \<or> (p_CasdoorUserID p \<noteq> [] \<and> p_CasdoorUserID p' = p_CasdoorUserID p))
    \<and> sc_PrincipalID (ic_Subject ic) = p_ID p'
    \<and> ic_Permissions ic = ScopesForRoles (Service_Policy w) (p_Roles p')"
  by (rule mem.SwitchTenant_Inr [OF assms]) (auto simp: mem_id.describes_def)

theorem switch_tenant_own_identity_witness:
  "\<exists>ic. fst (SwitchTenant memory_store ex_svc ex_switch (ex_world ''p1'')) = Inr ic
    \<and> sc_PrincipalID (ic_Subject ic) = ''p1''"
proof -
  obtain ic where ic: "fst (SwitchTenant memory_store ex_svc ex_switch (ex_world ''p1'')) = Inr ic"
    using ex_switch_ok by blast
  obtain session p p' where "session_valid (mem_view (w_store (ex_world ''p1''))) ''s1'' ex_now session p"
    "p' = p \<or> (p_CasdoorUserID p \<noteq> [] \<and> p_CasdoorUserID p' = p_CasdoorUserID p)"
    "sc_PrincipalID (ic_Subject ic) = p_ID p'"
    using switch_tenant_own_identity [OF ex_ok ex_no_refresh ic] ex_now_given by (auto simp: ex_switch_def)
  moreover from this have "p = ex_admin"
    using ex_session_valid [of "''p1''"] by (auto simp: session_valid_def usable_session_def)
  ultimately show ?thesis using ic by (auto simp: ex_statuses)
qed

section \<open>Properties of keys and accounts\<close>

text \<open>C25: An API key validates exactly when it is stored under the hash of the token, is active and not
  expired, and its principal exists and is not disabled.\<close>

theorem validate_api_key_iff:
  assumes "mem_wf (w_store w)"
  shows "fst (ValidateAPIKey memory_store svc token now w) = Inr (k, p) \<longleftrightarrow>
    (\<exists>key. key_valid (mem_view (w_store w)) token (eff_now svc w now) key p
       \<and> k = key\<lparr>key_LastUsedAt := eff_now svc w now\<rparr>)"
  by (rule mem_cred.ValidateAPIKey_iff [OF assms])

theorem validate_api_key_iff_witness:
  "fst (ValidateAPIKey memory_store ex_svc ''tok'' ex_now (ex_world ''p1'')) =
     Inr (ex_key ''key_1'' ''tok'' ''p1''\<lparr>key_LastUsedAt := ex_now\<rparr>, ex_admin)"
proof -
  have "key_valid (mem_view (w_store (ex_world ''p1''))) ''tok'' ex_now (ex_key ''key_1'' ''tok'' ''p1'') ex_admin"
    by (simp add: key_valid_def) (simp add: ex_rows expired_def IsZero_def)
  then show ?thesis
    using ex_now_given by (subst validate_api_key_iff [OF ex_ok]) auto
qed

text \<open>A created API key belongs to the caller and the tenant of the session, carries the requested
  scopes, all of which the caller's roles grant, is stored under the hash of the token returned, and no
  other key changes.\<close>

theorem created_key_confined:
  assumes "mem_wf (w_store w)" and "\<not> cfg_DirectoryRefreshOnSession (svc_cfg svc)"
    and "fst (CreateAPIKey memory_store svc req w) = Inr c"
  shows "\<exists>session p key.
    session_valid (mem_view (w_store w)) (ck_SessionID req) (eff_now svc w (ck_Now req)) session p
    \<and> vw_apiKeys (mem_view (w_store (snd (CreateAPIKey memory_store svc req w)))) =
        (vw_apiKeys (mem_view (w_store w)))(HashAPIKey (cak_Token c) \<mapsto> key)
    \<and> key_ID key = cak_ID c \<and> key_PrincipalID key = p_ID p \<and> key_TenantID key = sess_TenantID session
    \<and> key_Scopes key = ck_Scopes req \<and> key_Status key = ''active''
    \<and> set (key_Scopes key) \<subseteq> TrimSpace ` set (ScopesForRoles (Service_Policy w) (p_Roles p)) - {[]}"
proof -
  obtain session p key log where
    "session_valid (mem_view (w_store w)) (ck_SessionID req) (eff_now svc w (ck_Now req)) session p"
    "set (ck_Scopes req) \<subseteq> TrimSpace ` set (ScopesForRoles (Service_Policy w) (p_Roles p)) - {[]}"
    "key_ID key = cak_ID c" "key_TenantID key = sess_TenantID session" "key_PrincipalID key = p_ID p"
    "key_Scopes key = ck_Scopes req" "key_Status key = ''active''"
    "mem_view (w_store (snd (CreateAPIKey memory_store svc req w))) = (mem_view (w_store w))
      \<lparr>vw_apiKeys := (vw_apiKeys (mem_view (w_store w)))(HashAPIKey (cak_Token c) \<mapsto> key), vw_audits := log\<rparr>"
    by (rule mem.CreateAPIKey_Inr [OF assms]) blast
  then show ?thesis by (intro exI [of _ session] exI [of _ p] exI [of _ key]) simp
qed

theorem created_key_confined_witness:
  "\<exists>c key. fst (CreateAPIKey memory_store ex_svc ex_create_key (ex_world ''p1'')) = Inr c
    \<and> vw_apiKeys (mem_view (w_store (snd (CreateAPIKey memory_store ex_svc ex_create_key (ex_world ''p1'')))))
        (HashAPIKey (cak_Token c)) = Some key \<and> key_Scopes key = [''chathub:read'']"
proof -
  obtain c where c: "fst (CreateAPIKey memory_store ex_svc ex_create_key (ex_world ''p1'')) = Inr c"
    using ex_create_key_ok by blast
  from created_key_confined [OF ex_ok ex_no_refresh c] c show ?thesis by (auto simp: ex_create_key_def)
qed

text \<open>The token of a created API key validates, to the new key and to its creator, until the expiry
  asked for, and is refused from then on.\<close>

theorem created_key_lifetime:
  assumes "mem_wf (w_store w)" and "\<not> cfg_DirectoryRefreshOnSession (svc_cfg svc)"
    and "fst (CreateAPIKey memory_store svc req w) = Inr c" and "\<not> IsZero t"
  shows "let w1 = snd (CreateAPIKey memory_store svc req w); r = fst (ValidateAPIKey memory_store svc (cak_Token c) t w1) in
    if IsZero (ck_ExpiresAt req) \<or> t < ck_ExpiresAt req
    then (\<exists>key p. r = Inr (key, p) \<and> key_ID key = cak_ID c \<and> key_Scopes key = ck_Scopes req
        \<and> (\<exists>session. session_valid (mem_view (w_store w)) (ck_SessionID req) (eff_now svc w (ck_Now req)) session p))
    else r = Inl ErrUnauthorized"
proof -
  let ?w = "snd (CreateAPIKey memory_store svc req w)" and ?V = "mem_view (w_store w)"
  obtain session p key log where
    valid: "session_valid ?V (ck_SessionID req) (eff_now svc w (ck_Now req)) session p"
    and key: "key_ID key = cak_ID c" "key_PrincipalID key = p_ID p" "key_Scopes key = ck_Scopes req"
      "key_ExpiresAt key = ck_ExpiresAt req" "key_Status key = ''active''"
    and V': "mem_view (w_store ?w) =
      ?V\<lparr>vw_apiKeys := (vw_apiKeys ?V)(HashAPIKey (cak_Token c) \<mapsto> key), vw_audits := log\<rparr>"
    and ok: "mem_wf (w_store ?w)"
    by (rule mem.CreateAPIKey_Inr [OF assms(1-3)]) blast
  have p: "vw_principals ?V (p_ID p) = Some p" "p_Status p \<noteq> ''disabled''"
    using valid mem_id.principal_row [OF assms(1)]
    by (auto simp: session_valid_def usable_session_def may_act_def)
  show ?thesis
  proof (cases "expired (ck_ExpiresAt req) t")
    case True
    then have "fst (ValidateAPIKey memory_store svc (cak_Token c) t ?w) = Inl ErrUnauthorized"
      using key assms(4) by (intro mem_cred.ValidateAPIKey_refused [OF ok]) (simp add: V')
    with True show ?thesis by (simp add: Let_def expired_def Before_def)
  next
    case False
    then have kv: "key_valid (mem_view (w_store ?w)) (cak_Token c) (eff_now svc ?w t) key p"
      using key p assms(4) by (simp add: key_valid_def V')
    have "\<exists>k. key_valid (mem_view (w_store ?w)) (cak_Token c) (eff_now svc ?w t) k p
        \<and> key\<lparr>key_LastUsedAt := eff_now svc ?w t\<rparr> = k\<lparr>key_LastUsedAt := eff_now svc ?w t\<rparr>"
      using kv by blast
    then have "fst (ValidateAPIKey memory_store svc (cak_Token c) t ?w) =
        Inr (key\<lparr>key_LastUsedAt := eff_now svc ?w t\<rparr>, p)"
      using mem_cred.ValidateAPIKey_iff [OF ok, of svc "cak_Token c" t] by blast
    with False key valid show ?thesis by (auto simp: Let_def expired_def Before_def)
  qed
qed

theorem created_key_lifetime_witness:
  "\<exists>c. fst (CreateAPIKey memory_store ex_svc ex_create_key (ex_world ''p1'')) = Inr c
    \<and> fst (ValidateAPIKey memory_store ex_svc (cak_Token c) (ex_now + Hour)
        (snd (CreateAPIKey memory_store ex_svc ex_create_key (ex_world ''p1'')))) = Inl ErrUnauthorized"
proof -
  obtain c where c: "fst (CreateAPIKey memory_store ex_svc ex_create_key (ex_world ''p1'')) = Inr c"
    using ex_create_key_ok by blast
  have t: "\<not> IsZero (ex_now + Hour)" "ck_ExpiresAt ex_create_key = ex_now + Hour"
    by (simp_all add: ex_now_def IsZero_def zero_time_def time_Unix_def Second_def Minute_def Hour_def ex_create_key_def)
  from created_key_lifetime [OF ex_ok ex_no_refresh c t(1)] c t show ?thesis by (simp add: Let_def)
qed

text \<open>Revoking a key needs a valid session of the principal the key belongs to; afterwards every token
  of a key with that identifier is refused (when identifiers are unique), and the keys of other principals
  are untouched.\<close>

theorem revoke_api_key:
  assumes "mem_wf (w_store w)" and "\<not> cfg_DirectoryRefreshOnSession (svc_cfg svc)"
    and "key_ids_unique (mem_view (w_store w))"
    and "fst (RevokeAPIKey memory_store svc sid kid now w) = Inr ()"
  shows "let w' = snd (RevokeAPIKey memory_store svc sid kid now w) in
    \<exists>session p. session_valid (mem_view (w_store w)) sid (eff_now svc w now) session p
    \<and> (\<forall>token key t. vw_apiKeys (mem_view (w_store w)) (HashAPIKey token) = Some key \<longrightarrow> key_ID key = kid \<longrightarrow>
          key_PrincipalID key = p_ID p \<and> fst (ValidateAPIKey memory_store svc token t w') = Inl ErrUnauthorized)
    \<and> (\<forall>h key. vw_apiKeys (mem_view (w_store w)) h = Some key \<longrightarrow> key_PrincipalID key \<noteq> p_ID p \<longrightarrow>
          vw_apiKeys (mem_view (w_store w')) h = Some key)"
proof -
  let ?w = "snd (RevokeAPIKey memory_store svc sid kid now w)" and ?V = "mem_view (w_store w)"
  obtain session p h key log where valid: "session_valid ?V sid (eff_now svc w now) session p"
    and row: "vw_apiKeys ?V h = Some key" "key_ID key = kid" "key_PrincipalID key = p_ID p"
    and V': "mem_view (w_store ?w) =
      ?V\<lparr>vw_apiKeys := (vw_apiKeys ?V)(h \<mapsto> key\<lparr>key_Status := ''revoked''\<rparr>), vw_audits := log\<rparr>"
    and ok: "mem_wf (w_store ?w)"
    by (rule mem.RevokeAPIKey_Inr [OF assms(1,2,4)])
  have "k = key \<and> fst (ValidateAPIKey memory_store svc token t ?w) = Inl ErrUnauthorized"
    if k: "vw_apiKeys ?V (HashAPIKey token) = Some k" "key_ID k = kid" for token k t
  proof -
    have "HashAPIKey token = h" using assms(3) k row by (auto simp: key_ids_unique_def)
    then have "vw_apiKeys (mem_view (w_store ?w)) (HashAPIKey token) = Some (key\<lparr>key_Status := ''revoked''\<rparr>)"
      by (simp add: V')
    then have "fst (ValidateAPIKey memory_store svc token t ?w) = Inl ErrUnauthorized"
      by (intro mem_cred.ValidateAPIKey_refused [OF ok]) simp
    with \<open>HashAPIKey token = h\<close> k row show ?thesis by simp
  qed
  note keys = this
  show ?thesis
    unfolding Let_def
    by (intro exI [of _ session] exI [of _ p] conjI valid allI impI)
      (use keys row in \<open>auto simp: V'\<close>)
qed

theorem revoke_api_key_witness:
  "fst (ValidateAPIKey memory_store ex_svc ''tok'' ex_now
     (snd (RevokeAPIKey memory_store ex_svc ''s1'' ''key_1'' ex_now (ex_world ''p1'')))) = Inl ErrUnauthorized"
proof -
  have "key_ID (ex_key ''key_1'' ''tok'' ''p1'') = ''key_1''" by (simp add: ex_key_def)
  with revoke_api_key [OF ex_ok ex_no_refresh ex_ids_unique ex_revoke_ok] show ?thesis
    unfolding Let_def using ex_lookups(7) by blast
qed

text \<open>C20: Once a principal is disabled, none of its API keys validates.\<close>

theorem disabled_principal_keys_refused:
  assumes "mem_wf (w_store w)" and "fst (DisablePrincipal memory_store svc sid pid now w) = Inr q"
    and "vw_apiKeys (mem_view (w_store (snd (DisablePrincipal memory_store svc sid pid now w)))) (HashAPIKey token) = Some key"
    and "key_PrincipalID key = pid"
  shows "fst (ValidateAPIKey memory_store svc token t (snd (DisablePrincipal memory_store svc sid pid now w)))
    \<in> {Inl ErrUnauthorized, Inl ErrDisabled}"
proof -
  have "mem_wf (w_store (snd (DisablePrincipal memory_store svc sid pid now w)))"
    "vw_principals (mem_view (w_store (snd (DisablePrincipal memory_store svc sid pid now w)))) pid = Some q"
    "p_Status q = ''disabled''"
    by (rule mem.DisablePrincipal_Inr [OF assms(1,2)], assumption)+
  with assms(3,4) show ?thesis by (intro mem_cred.ValidateAPIKey_disabled) auto
qed

theorem disabled_principal_keys_refused_witness:
  "fst (ValidateAPIKey memory_store ex_svc ''tok'' ex_now
     (snd (DisablePrincipal memory_store ex_svc ''s1'' ''p2'' ex_now (ex_world ''p2'')))) \<in> {Inl ErrUnauthorized, Inl ErrDisabled}"
proof -
  obtain q where q: "fst (DisablePrincipal memory_store ex_svc ''s1'' ''p2'' ex_now (ex_world ''p2'')) = Inr q"
    using ex_disable by blast
  have "vw_apiKeys (mem_view (w_store (snd (DisablePrincipal memory_store ex_svc ''s1'' ''p2'' ex_now (ex_world ''p2'')))))
      (HashAPIKey ''tok'') = Some (ex_key ''key_1'' ''tok'' ''p2'')"
    using ex_admin_ok ex_ok by (simp add: DisablePrincipal_def op_simps store_simps ex_trim)
  from disabled_principal_keys_refused [OF ex_ok q this] show ?thesis by (simp add: ex_key_def)
qed

text \<open>Disabling a service account needs a caller with an owner or administrator role and an account of
  the caller's tenant; its keys stop validating.\<close>

theorem disabled_account_keys_refused:
  assumes "mem_wf (w_store w)" and "\<not> cfg_DirectoryRefreshOnSession (svc_cfg svc)"
    and "fst (DisableServiceAccount memory_store svc sid aid now w) = Inr ()"
    and "vw_principals (mem_view (w_store w)) aid = Some q"
    and "vw_accounts (mem_view (w_store w)) aid = Some a" and "p_TenantID q = acc_TenantID a"
    and "vw_apiKeys (mem_view (w_store w)) (HashAPIKey token) = Some key" and "key_PrincipalID key = aid"
  shows "(\<exists>session p. session_valid (mem_view (w_store w)) sid (eff_now svc w now) session p
      \<and> canManageServiceAccounts (p_Roles p) \<and> sess_TenantID session = acc_TenantID a)
    \<and> fst (ValidateAPIKey memory_store svc token t (snd (DisableServiceAccount memory_store svc sid aid now w)))
      \<in> {Inl ErrUnauthorized, Inl ErrDisabled}"
proof -
  let ?w = "snd (DisableServiceAccount memory_store svc sid aid now w)" and ?V = "mem_view (w_store w)"
  obtain session p log where valid: "session_valid ?V sid (eff_now svc w now) session p"
    and can: "canManageServiceAccounts (p_Roles p)" and ten: "acc_TenantID a = sess_TenantID session"
    and V': "mem_view (w_store ?w) = ?V\<lparr>vw_accounts := (vw_accounts ?V)(aid \<mapsto> a\<lparr>acc_Status := ''disabled''\<rparr>),
       vw_principals := upd_at (vw_principals ?V) aid (\<lambda>q.
         if p_TenantID q = sess_TenantID session then q\<lparr>p_Status := ''disabled''\<rparr> else q), vw_audits := log\<rparr>"
    and ok: "mem_wf (w_store ?w)"
    by (rule mem.DisableServiceAccount_Inr [OF assms(1-3)]) (use assms(5) in auto)
  have "fst (ValidateAPIKey memory_store svc token t ?w) \<in> {Inl ErrUnauthorized, Inl ErrDisabled}"
    by (rule mem_cred.ValidateAPIKey_disabled [OF ok, of token key "q\<lparr>p_Status := ''disabled''\<rparr>"])
      (use assms(4,6-8) ten in \<open>simp_all add: V'\<close>)
  with valid can ten show ?thesis by auto
qed

theorem disabled_account_keys_refused_witness:
  "fst (ValidateAPIKey memory_store ex_svc ''tok'' ex_now
     (snd (DisableServiceAccount memory_store ex_svc ''s1'' ''svc1'' ex_now (ex_world ''svc1'')))) \<in> {Inl ErrUnauthorized, Inl ErrDisabled}"
proof -
  have "p_TenantID ex_robot = acc_TenantID ex_account" "key_PrincipalID (ex_key ''key_1'' ''tok'' ''svc1'') = ''svc1''"
    by (simp_all add: ex_rows)
  from disabled_account_keys_refused [OF ex_ok ex_no_refresh ex_disable_robot ex_lookups(3,6) this(1) ex_lookups(7) this(2)]
  show ?thesis by blast
qed

end
