(* ===== verification/Warden_Token_Properties.thy ===== *)
theory Warden_Token_Properties
  imports Warden_Token_Facts Warden_Device_Facts Warden_Properties
begin

text \<open>
  The properties of the internal tokens and of the device authorization, stated for the in-memory store.
\<close>

section \<open>Example requests\<close>

definition ex_request :: "string \<Rightarrow> string \<Rightarrow> InternalJWTRequest" where
  "ex_request sid token = \<lparr>ij_SessionID = sid, ij_APIKey = token, ij_ClientCredentialsToken = [],
     ij_Audience = ''chathub'', ij_Actions = [''read''], ij_Resource = None, ij_Now = ex_now, ij_JWTID = ''jwt_1''\<rparr>"

lemma ex_request_path: "TrimSpace (ij_ClientCredentialsToken (ex_request sid token)) = []"
  by (simp add: ex_request_def)

lemma ex_tok: "TrimSpace ''tok'' = ''tok''" by code_simp

lemma ex_requested:
  "ScopesForActions \<lparr>pol_roleScopes = Some (copyRoleScopes DefaultRoleScopes)\<rparr> (p_Roles ex_admin) ''chathub'' [''read''] = [''chathub:read'']"
  "intersectScopes [''chathub:read''] [''chathub:read''] = [''chathub:read'']"
  by code_simp+

lemma ex_names: "\<not> blank ''t1''" "\<not> blank ''user''" "\<not> blank ''p1''" "1 \<le> Unix ex_now" "Second \<le> 5 * Minute" "Second \<le> Minute"
proof -
  show "\<not> blank ''t1''" "\<not> blank ''user''" "\<not> blank ''p1''" by code_simp+
qed (simp_all add: ex_now_def Second_def Minute_def)

lemma ex_session_token:
  "\<exists>r. fst (SignInternalJWT memory_store ex_svc (ex_request ''s1'' []) (ex_world ''p1'')) = Inr r \<and> ijr_Claims r = ex_claims"
proof -
  let ?w = "snd (ValidateSession memory_store ex_svc ''s1'' ex_now (ex_world ''p1''))"
  have w: "?w = ex_world ''p1''"
    using mem_id.ValidateSession_valid(3) [OF ex_ok, of "''p1''" "''s1''" ex_svc ex_now ex_session ex_admin]
      ex_session_valid ex_now_given ex_no_refresh by (simp add: refreshed_def op_simps)
  have n: "\<not> blank (sess_TenantID ex_session)" "\<not> blank (p_Type ex_admin)" "\<not> blank (p_ID ex_admin)"
    using ex_names by (simp_all add: ex_rows)
  let ?sign = "sign memory_store ex_svc ex_admin ex_session ''chathub'' [''chathub:read''] None SessionSourceWeb
    ''jwt_1'' ex_now None None (5 * Minute) (ex_world ''p1'')"
  obtain r where r: "fst ?sign = Inr r" using mem.sign_ok [OF ex_ok n ex_now_given ex_names(4,5)] by blast
  have "blank ''jwt_1'' \<longleftrightarrow> False" by code_simp
  then have "ijr_Claims r = ex_claims"
    using mem.sign_exact [OF ex_ok r] ex_now_given
    by (simp add: ex_claims_def ex_sign_input_def ex_svc_def) (simp add: ex_rows ex_world_def)
  moreover have "cfg_InternalTTL (svc_cfg ex_svc) = 5 * Minute" by (simp add: ex_svc_def ex_cfg_def)
  ultimately show ?thesis
    using r ex_validate ex_requested ex_trim w
    by (simp add: SignInternalJWT_def ex_request_def op_simps ex_policy)
qed

section \<open>Tokens for a session\<close>

text \<open>The scopes the policy grants to the roles of a principal.\<close>

definition granted_scopes :: "'s World \<Rightarrow> Principal \<Rightarrow> string set" where
  "granted_scopes w p = TrimSpace ` set (ScopesForRoles (Service_Policy w) (p_Roles p)) - {[]}"

lemma set_granted:
  "set (ScopesForActions (Service_Policy w) (p_Roles p) audience actions) = requested_scopes audience actions \<inter> granted_scopes w p"
  by (simp add: set_ScopesForActions granted_scopes_def)

lemma cleanStrings_granted:
  assumes "set scopes \<subseteq> granted_scopes w p"
  shows "set (cleanStrings scopes) = set scopes"
  using assms trimmed_scopes unfolding granted_scopes_def by blast

text \<open>C1: An internal token signed for a session names the tenant, the principal and the identifier of a
  session that is valid, the audience that was asked for, and exactly the scopes that both were requested
  and are granted to the roles of the principal by the current policy, at least one.\<close>

theorem session_token_confined:
  assumes "mem_wf (w_store w)" and "\<not> cfg_DirectoryRefreshOnSession (svc_cfg svc)"
    and "TrimSpace (ij_ClientCredentialsToken req) = []"
    and "TrimSpace (ij_SessionID req) \<noteq> [] \<or> TrimSpace (ij_APIKey req) = []"
    and "fst (SignInternalJWT memory_store svc req w) = Inr r"
  shows "\<exists>session p. session_valid (mem_view (w_store w)) (ij_SessionID req) (eff_now svc w (ij_Now req)) session p
    \<and> c_TenantID (ijr_Claims r) = TrimSpace (sess_TenantID session)
    \<and> c_PrincipalID (ijr_Claims r) = TrimSpace (p_ID p) \<and> c_SessionID (ijr_Claims r) = TrimSpace (sess_ID session)
    \<and> c_Audience (ijr_Claims r) = TrimSpace (ij_Audience req) \<and> c_Scopes (ijr_Claims r) \<noteq> []
    \<and> set (c_Scopes (ijr_Claims r)) = requested_scopes (ij_Audience req) (ij_Actions req) \<inter> granted_scopes w p"
proof -
  obtain session p scopes where valid: "session_valid (mem_view (w_store w)) (ij_SessionID req) (eff_now svc w (ij_Now req)) session p"
    and sc: "scopes = ScopesForActions (Service_Policy w) (p_Roles p) (ij_Audience req) (ij_Actions req)" "scopes \<noteq> []"
    and c: "claims_for p session (ij_Audience req) scopes SessionSourceWeb (ijr_Claims r)"
    by (rule mem.SignInternalJWT_session_Inr [OF assms])
  have s: "set scopes = requested_scopes (ij_Audience req) (ij_Actions req) \<inter> granted_scopes w p"
    by (simp add: sc(1) set_granted)
  have "set (c_Scopes (ijr_Claims r)) = set scopes"
    using c s cleanStrings_granted [of scopes w p] by (simp add: claims_for_def)
  moreover then have "c_Scopes (ijr_Claims r) \<noteq> []" using sc(2) by auto
  ultimately show ?thesis using valid c s by (auto simp: claims_for_def)
qed

theorem session_token_confined_witness:
  "\<exists>r. fst (SignInternalJWT memory_store ex_svc (ex_request ''s1'' []) (ex_world ''p1'')) = Inr r
    \<and> set (c_Scopes (ijr_Claims r)) \<subseteq> {''chathub:read''}"
proof -
  obtain r where r: "fst (SignInternalJWT memory_store ex_svc (ex_request ''s1'' []) (ex_world ''p1'')) = Inr r"
    using ex_session_token by blast
  have p: "TrimSpace (ij_SessionID (ex_request ''s1'' [])) \<noteq> [] \<or> TrimSpace (ij_APIKey (ex_request ''s1'' [])) = []"
    by (simp add: ex_request_def)
  have "requested_scopes ''chathub'' [''read''] = {''chathub:read''}"
    by (simp add: requested_scopes_def, code_simp)
  with session_token_confined [OF ex_ok ex_no_refresh ex_request_path p r] r show ?thesis
    by (auto simp: ex_request_def)
qed

text \<open>A session whose roles grant none of the requested scopes gets no token: the request is
  forbidden, and its denial is the only change to the store.\<close>

theorem ungranted_request_denied:
  assumes "mem_wf (w_store w)" and "TrimSpace (ij_ClientCredentialsToken req) = []" and "TrimSpace (ij_SessionID req) \<noteq> []"
    and "session_valid (mem_view (w_store w)) (ij_SessionID req) (eff_now svc w (ij_Now req)) session p"
    and "\<not> refreshed svc p"
    and "requested_scopes (ij_Audience req) (ij_Actions req) \<inter> granted_scopes w p = {}"
  shows "fst (SignInternalJWT memory_store svc req w) = Inl ErrForbidden
    \<and> (\<exists>t. mem_view (w_store (snd (SignInternalJWT memory_store svc req w))) = (mem_view (w_store w))
        \<lparr>vw_audits := vw_audits (mem_view (w_store w)) @
           [audit_entry p ''internal_jwt.sign'' (ij_Resource req) ''deny'' [] None t]\<rparr>)"
proof -
  have "ScopesForActions (Service_Policy w) (p_Roles p) (ij_Audience req) (ij_Actions req) = []"
    using set_granted [of w p "ij_Audience req" "ij_Actions req"] assms(6) by simp
  from mem.SignInternalJWT_denied [OF assms(1-5) this] show ?thesis by blast
qed

definition ex_knowhub :: InternalJWTRequest where
  "ex_knowhub = (ex_request ''s1'' [])\<lparr>ij_Audience := ''knowhub'', ij_Actions := []\<rparr>"

theorem ungranted_request_denied_witness:
  "fst (SignInternalJWT memory_store ex_svc ex_knowhub (ex_world ''p1'')) = Inl ErrForbidden"
proof -
  have "set (ScopesForActions \<lparr>pol_roleScopes = Some (copyRoleScopes DefaultRoleScopes)\<rparr> (p_Roles ex_admin) ''knowhub'' []) = {}"
    by code_simp
  then have none: "requested_scopes (ij_Audience ex_knowhub) (ij_Actions ex_knowhub) \<inter> granted_scopes (ex_world ''p1'') ex_admin = {}"
    using set_granted [of "ex_world ''p1''" ex_admin "''knowhub''" "[]"]
    by (simp add: ex_policy ex_knowhub_def)
  have v: "session_valid (mem_view (w_store (ex_world ''p1''))) (ij_SessionID ex_knowhub)
      (eff_now ex_svc (ex_world ''p1'') (ij_Now ex_knowhub)) ex_session ex_admin"
    using ex_session_valid ex_now_given by (simp add: ex_knowhub_def ex_request_def)
  have p: "TrimSpace (ij_ClientCredentialsToken ex_knowhub) = []" "TrimSpace (ij_SessionID ex_knowhub) \<noteq> []"
    using ex_trim by (simp_all add: ex_knowhub_def ex_request_def)
  have "\<not> refreshed ex_svc ex_admin" using ex_no_refresh by (simp add: refreshed_def)
  from ungranted_request_denied [OF ex_ok p v this none] show ?thesis by blast
qed

section \<open>Tokens for a key\<close>

text \<open>C9: An internal token signed for an API key names the tenant of a valid key and its owner, and exactly
  the scopes that were requested, are scopes of the key, and are still granted to the roles the owner has
  when the token is signed.\<close>

theorem key_token_confined:
  assumes "mem_wf (w_store w)" and "TrimSpace (ij_ClientCredentialsToken req) = []"
    and "TrimSpace (ij_SessionID req) = []" and "TrimSpace (ij_APIKey req) \<noteq> []"
    and "fst (SignInternalJWT memory_store svc req w) = Inr r"
  shows "\<exists>key p. key_valid (mem_view (w_store w)) (ij_APIKey req) (eff_now svc w (ij_Now req)) key p
    \<and> c_TenantID (ijr_Claims r) = TrimSpace (key_TenantID key) \<and> c_PrincipalID (ijr_Claims r) = TrimSpace (p_ID p)
    \<and> c_Scopes (ijr_Claims r) \<noteq> []
    \<and> set (c_Scopes (ijr_Claims r)) = requested_scopes (ij_Audience req) (ij_Actions req) \<inter> granted_scopes w p
        \<inter> TrimSpace ` set (key_Scopes key)"
proof -
  obtain key p scopes where valid: "key_valid (mem_view (w_store w)) (ij_APIKey req) (eff_now svc w (ij_Now req)) key p"
    and sc: "scopes = intersectScopes (key_Scopes key)
      (ScopesForActions (Service_Policy w) (p_Roles p) (ij_Audience req) (ij_Actions req))" "scopes \<noteq> []"
    and c: "c_TenantID (ijr_Claims r) = TrimSpace (key_TenantID key)" "c_PrincipalID (ijr_Claims r) = TrimSpace (p_ID p)"
      "c_Scopes (ijr_Claims r) = cleanStrings scopes"
    by (rule mem.SignInternalJWT_key_Inr [OF assms])
  have s: "set scopes = requested_scopes (ij_Audience req) (ij_Actions req) \<inter> granted_scopes w p \<inter> TrimSpace ` set (key_Scopes key)"
    by (auto simp: sc(1) set_intersectScopes set_granted) (auto simp: granted_scopes_def)
  then have "set (cleanStrings scopes) = set scopes" by (intro cleanStrings_granted) blast
  with s valid c sc(2) show ?thesis by (metis set_empty)
qed

lemma ex_key_token: "\<exists>r. fst (SignInternalJWT memory_store ex_svc (ex_request [] ''tok'') (ex_world ''p1'')) = Inr r"
proof -
  let ?m = "ValidateAPIKey memory_store ex_svc ''tok'' ex_now"
  let ?k = "(ex_key ''key_1'' ''tok'' ''p1'')\<lparr>key_LastUsedAt := ex_now\<rparr>"
  have "key_valid (mem_view (w_store (ex_world ''p1''))) ''tok'' ex_now (ex_key ''key_1'' ''tok'' ''p1'') ex_admin"
    by (simp add: key_valid_def ex_lookups) (simp add: ex_rows expired_def IsZero_def)
  then have v: "fst (?m (ex_world ''p1'')) = Inr (?k, ex_admin)"
    using mem_cred.ValidateAPIKey_iff [OF ex_ok, of ex_svc "''tok''" ex_now] ex_now_given by fastforce
  have ok1: "mem_wf (w_store (snd (?m (ex_world ''p1''))))"
    by (rule mem.ok_after [OF service_call.validate_key ex_ok])
  have n: "\<not> blank (sess_TenantID \<lparr>sess_ID = key_ID ?k, sess_PrincipalID = p_ID ex_admin, sess_TenantID = key_TenantID ?k,
             sess_CurrentTeamID = [], sess_AuthTime = key_CreatedAt ?k, sess_ExpiresAt = key_ExpiresAt ?k,
             sess_Source = SessionSourceAPIKey\<rparr>)" "\<not> blank (p_Type ex_admin)" "\<not> blank (p_ID ex_admin)"
    using ex_names by (simp_all add: ex_rows)
  note s = mem.sign_ok [OF ok1 n ex_now_given ex_names(4,5)]
  have k: "key_Scopes ?k = [''chathub:read'']" by (simp add: ex_key_def)
  have cfg: "cfg_InternalTTL (svc_cfg ex_svc) = 5 * Minute" by (simp add: ex_svc_def ex_cfg_def)
  show ?thesis
    using s v ex_requested ex_tok ex_policy
    by (simp add: SignInternalJWT_def signInternalJWTForAPIKey_def ex_request_def op_simps k cfg Let_def)
qed

theorem key_token_confined_witness:
  "\<exists>r. fst (SignInternalJWT memory_store ex_svc (ex_request [] ''tok'') (ex_world ''p1'')) = Inr r
    \<and> set (c_Scopes (ijr_Claims r)) \<subseteq> {''chathub:read''}"
proof -
  obtain r where r: "fst (SignInternalJWT memory_store ex_svc (ex_request [] ''tok'') (ex_world ''p1'')) = Inr r"
    using ex_key_token by blast
  have p: "TrimSpace (ij_SessionID (ex_request [] ''tok'')) = []" "TrimSpace (ij_APIKey (ex_request [] ''tok'')) \<noteq> []"
    using ex_tok by (simp_all add: ex_request_def)
  have "requested_scopes ''chathub'' [''read''] = {''chathub:read''}"
    by (simp add: requested_scopes_def, code_simp)
  with key_token_confined [OF ex_ok ex_request_path p r] r show ?thesis
    by (auto simp: ex_request_def)
qed

section \<open>Delegation\<close>

text \<open>C8: A delegated token is for an agent principal in the tenant of the caller's valid session; its only
  role is the runner's; its scopes are granted to the caller, requested, and among the delegated ones when
  the request lists some; it names the caller as actor and as delegator, lives for the agent lifetime, and
  its run is recorded as running for the caller.\<close>

theorem delegation_confined:
  assumes "mem_wf (w_store w)" and "\<not> cfg_DirectoryRefreshOnSession (svc_cfg svc)" and "0 < cfg_AgentTTL (svc_cfg svc)"
    and "fst (DelegateAgent memory_store svc req w) = Inr r"
  shows "\<exists>session p run. session_valid (mem_view (w_store w)) (da_SessionID req) (eff_now svc w (da_Now req)) session p
    \<and> c_TenantID (ijr_Claims r) = TrimSpace (sess_TenantID session) \<and> c_PrincipalType (ijr_Claims r) = ''agent''
    \<and> c_Roles (ijr_Claims r) = [RoleSakerRunner] \<and> c_Scopes (ijr_Claims r) \<noteq> []
    \<and> set (c_Scopes (ijr_Claims r)) \<subseteq> requested_scopes (da_Audience req) (da_Actions req) \<inter> granted_scopes w p
    \<and> (da_Scopes req \<noteq> [] \<longrightarrow> set (c_Scopes (ijr_Claims r)) \<subseteq> set (da_Scopes req))
    \<and> c_Actor (ijr_Claims r) = Some \<lparr>actor_Type = p_Type p, actor_ID = p_ID p\<rparr>
    \<and> c_Delegation (ijr_Claims r) = Some \<lparr>del_OnBehalfOf = p_ID p, del_SessionID = sess_ID session, del_RunID = run\<rparr>
    \<and> (\<exists>t. c_IssuedAt (ijr_Claims r) = Unix t \<and> c_ExpiresAt (ijr_Claims r) = Unix (t + cfg_AgentTTL (svc_cfg svc)))
    \<and> (\<exists>a. vw_agentRuns (mem_view (w_store (snd (DelegateAgent memory_store svc req w)))) run = Some a
         \<and> run_ActorPrincipalID a = p_ID p \<and> run_Status a = ''running'')"
proof -
  obtain session p scopes run where valid: "session_valid (mem_view (w_store w)) (da_SessionID req) (eff_now svc w (da_Now req)) session p"
    and sc: "scopes = intersectScopes (ScopesForActions (Service_Policy w) (p_Roles p) (da_Audience req) (da_Actions req))
      (if da_Scopes req = [] then ScopesForActions (Service_Policy w) (p_Roles p) (da_Audience req) (da_Actions req)
       else da_Scopes req)" "scopes \<noteq> []"
    and c: "c_TenantID (ijr_Claims r) = TrimSpace (sess_TenantID session)" "c_PrincipalType (ijr_Claims r) = ''agent''"
      "c_Roles (ijr_Claims r) = [RoleSakerRunner]"
      "c_Scopes (ijr_Claims r) = cleanStrings scopes" "c_Actor (ijr_Claims r) = Some \<lparr>actor_Type = p_Type p, actor_ID = p_ID p\<rparr>"
      "c_Delegation (ijr_Claims r) = Some \<lparr>del_OnBehalfOf = p_ID p, del_SessionID = sess_ID session, del_RunID = run\<rparr>"
    and t: "\<exists>t. issued svc t (if cfg_AgentTTL (svc_cfg svc) \<le> 0 then sg_ttl (svc_signer svc) else cfg_AgentTTL (svc_cfg svc)) r"
    and a: "\<exists>t. vw_agentRuns (mem_view (w_store (snd (DelegateAgent memory_store svc req w)))) run =
      Some \<lparr>run_ID = run, run_TenantID = p_TenantID p, run_ActorPrincipalID = p_ID p,
        run_AgentPrincipalID = ''agent_'' @ run, run_Status = ''running'', run_CreatedAt = t\<rparr>"
    by (rule mem.DelegateAgent_Inr [OF assms(1,2,4)])
  have g: "TrimSpace ` (X \<inter> granted_scopes w p) - {[]} = X \<inter> granted_scopes w p" for X
  proof -
    have "TrimSpace x = x \<and> x \<noteq> []" if "x \<in> granted_scopes w p" for x
      using that by (auto simp: granted_scopes_def)
    then show ?thesis by (force simp: image_iff)
  qed
  have s: "set scopes = requested_scopes (da_Audience req) (da_Actions req) \<inter> granted_scopes w p
      \<inter> (if da_Scopes req = [] then UNIV else set (da_Scopes req))"
    by (auto simp: sc(1) set_intersectScopes set_granted g)
  then have e: "set (cleanStrings scopes) = set scopes" by (intro cleanStrings_granted) blast
  have "\<exists>t. c_IssuedAt (ijr_Claims r) = Unix t \<and> c_ExpiresAt (ijr_Claims r) = Unix (t + cfg_AgentTTL (svc_cfg svc))"
    using t assms(3) by (auto dest: issued_times)
  moreover have "cleanStrings scopes \<noteq> []" using e sc(2) by auto
  ultimately show ?thesis
    using valid c a s e by (intro exI [of _ session] exI [of _ p] exI [of _ run]) auto
qed

definition ex_delegate :: DelegateAgentRequest where
  "ex_delegate = \<lparr>da_SessionID = ''s1'', da_RunID = ''run1'', da_Audience = ''chathub'', da_Actions = [''read''],
     da_Scopes = [], da_Resource = None, da_Now = ex_now, da_JWTID = []\<rparr>"

lemma ex_delegate_ok: "\<exists>r. fst (DelegateAgent memory_store ex_svc ex_delegate (ex_world ''p1'')) = Inr r"
proof -
  let ?w = "snd (ValidateSession memory_store ex_svc ''s1'' ex_now (ex_world ''p1''))"
  have ok1: "mem_wf (w_store ?w)" using ex_ok ex_validate by simp
  have n: "\<not> blank (sess_TenantID ex_session)" "\<not> blank PrincipalTypeAgent" "\<not> blank ''agent_run1''"
    using ex_names by (simp add: ex_rows) code_simp+
  have r: "TrimSpace ''run1'' = ''run1''" by code_simp
  have cfg: "cfg_AgentTTL ex_cfg = Minute" by (simp add: ex_cfg_def)
  let ?agent = "\<lparr>p_ID = ''agent_run1'', p_TenantID = ''t1'', p_CasdoorUserID = [], p_Username = [],
              p_Email = [], p_DisplayName = [], p_Type = PrincipalTypeAgent, p_Status = ''active'',
              p_EmailVerified = False,
              p_Roles = [\<lparr>role_Key = RoleSakerRunner, role_ScopeType = [], role_ScopeID = []\<rparr>], p_Teams = []\<rparr>"
  let ?w2 = "snd (on_store (store_PutAgentRun memory_store \<lparr>run_ID = ''run1'', run_TenantID = ''t1'', run_ActorPrincipalID = ''p1'',
           run_AgentPrincipalID = ''agent_run1'', run_Status = ''running'', run_CreatedAt = ex_now\<rparr>)
    (snd (on_store (store_UpsertPrincipal memory_store ?agent) ?w)))"
  have ok2: "mem_wf (w_store ?w2)" using ok1 by (simp add: store_simps)
  have n2: "\<not> blank (p_Type ?agent)" "\<not> blank (p_ID ?agent)" using n by simp_all
  note s = mem.sign_ok [OF ok2 n(1) n2 ex_now_given ex_names(4,6)]
  show ?thesis
    using s ex_validate ex_requested ok1 ex_policy ex_now_given r
    by (simp add: DelegateAgent_def ex_delegate_def op_simps store_simps cfg Let_def ex_statuses)
qed

theorem delegation_confined_witness:
  "\<exists>r. fst (DelegateAgent memory_store ex_svc ex_delegate (ex_world ''p1'')) = Inr r
    \<and> c_Roles (ijr_Claims r) = [RoleSakerRunner]"
proof -
  obtain r where r: "fst (DelegateAgent memory_store ex_svc ex_delegate (ex_world ''p1'')) = Inr r"
    using ex_delegate_ok by blast
  have "0 < cfg_AgentTTL (svc_cfg ex_svc)" by (simp add: ex_svc_def ex_cfg_def Minute_def Second_def)
  from delegation_confined [OF ex_ok ex_no_refresh this r] r show ?thesis by blast
qed

section \<open>Tokens verify\<close>


definition ex_verifier :: Verifier where
  "ex_verifier = \<lparr>v_issuer = ''warden'', v_audience = ''chathub'', v_secret = replicate 32 CHR ''k'',
     v_ttl = 5 * Minute, v_clockSkew = 30 * Second, v_allowFallback = False\<rparr>"


section \<open>System tokens and client credentials\<close>

text \<open>No system token is ever signed: the request it makes of the signer names no tenant and no
  principal type, which the signer refuses.\<close>

theorem system_token_never_signed: "fst (SignSystemInternalJWT svc audience scopes now w) = Inl ErrInvalidClaims"
  by (rule SignSystemInternalJWT_fails)

text \<open>Signing a token for client credentials makes the service account active again, and its principal,
  whatever their status was: an account that an administrator disabled is enabled by its next request.\<close>

theorem client_credentials_reactivate:
  assumes "mem_wf (w_store w)" and "TrimSpace (ij_ClientCredentialsToken req) \<noteq> []"
    and "fst (SignInternalJWT memory_store svc req w) = Inr r"
    and "fst (resolveOIDC svc w) = Inr (Some authority, x)"
    and "fst (VerifyIDToken svc authority (ij_ClientCredentialsToken req) [] (snd (resolveOIDC svc w))) = Inr claims"
    and "aid = StableProjectionID ''svc'' [TrimSpace (oc_TenantID claims), oc_Subject claims]"
    and "vw_accounts (mem_view (w_store w)) aid = Some a" and "acc_Status a = ''disabled''"
  shows "\<exists>a' q. vw_accounts (mem_view (w_store (snd (SignInternalJWT memory_store svc req w)))) aid = Some a'
    \<and> acc_Status a' = ''active''
    \<and> vw_principals (mem_view (w_store (snd (SignInternalJWT memory_store svc req w)))) aid = Some q
    \<and> p_Status q = ''active''"
  by (rule mem.client_credentials_active [OF assms(1-3)]) (use assms(4-6) in auto)

definition ex_cc_claims :: OIDCClaims where
  "ex_cc_claims = ex_oidc_claims ''robot'' []"

definition ex_cc_id :: string where
  "ex_cc_id = StableProjectionID ''svc'' [''t1'', ''robot'']"

definition ex_cc_account :: ServiceAccount where
  "ex_cc_account = \<lparr>acc_ID = ex_cc_id, acc_TenantID = ''t1'', acc_Name = ''robot'', acc_Status = ''disabled'',
     acc_CreatedBy = ''casdoor'', acc_CreatedAt = ex_now\<rparr>"

definition ex_cc_svc :: Service where
  "ex_cc_svc = ex_svc\<lparr>svc_oidc := Some ex_oidc_verifier, svc_idp := ex_idp ex_cc_claims\<rparr>"

definition ex_cc_world :: "MemoryStore World" where
  "ex_cc_world = (ex_world ''p1'')\<lparr>w_store := (ex_store ''p1'')\<lparr>ms_accounts := [(ex_cc_id, ex_cc_account)]\<rparr>\<rparr>"

definition ex_cc_request :: InternalJWTRequest where
  "ex_cc_request = (ex_request [] [])\<lparr>ij_ClientCredentialsToken := ''cc''\<rparr>"

lemma ex_cc_ok: "mem_wf (w_store ex_cc_world)"
  by (simp add: ex_cc_world_def ex_cc_account_def ex_store_def mem_wf_def wf_map_def mem_view_def view_ok_def
      keyed_def ex_rows)

lemma ex_cc_verified:
  "resolveOIDC ex_cc_svc w = (Inr (Some ex_oidc_verifier, None), w)"
  "fst (VerifyIDToken ex_cc_svc ex_oidc_verifier ''cc'' [] ex_cc_world) = Inr ex_cc_claims"
proof -
  have r: "TrimSpace ''robot'' = ''robot''" by code_simp
  show "resolveOIDC ex_cc_svc w = (Inr (Some ex_oidc_verifier, None), w)"
    by (simp add: resolveOIDC_def ex_cc_svc_def ex_svc_def ex_cfg_def op_simps)
  have "oidc_verify (ex_idp (ex_oidc_claims ''robot'' [])) 0 ex_now ex_oidc_verifier ''cc'' [] =
    Inr (\<lparr>idt_AccessTokenHash = [], idt_VerifyAccessToken = (\<lambda>_. True),
       idt_Claims = Some (ex_oidc_claims ''robot'' [], AudString ''warden'')\<rparr>, ex_oidc_claims ''robot'' [])"
    by (rule ex_verify) (simp_all add: r Unix_def ex_now_def time_Unix_def Hour_def Minute_def Second_def)
  then show "fst (VerifyIDToken ex_cc_svc ex_oidc_verifier ''cc'' [] ex_cc_world) = Inr ex_cc_claims"
    by (simp add: VerifyIDToken_def oidc_VerifyIDToken_def oidc_Now_def oidc_call_def op_simps ex_cc_svc_def
        ex_svc_def ex_cc_world_def ex_world_def ex_cc_claims_def ex_oidc_clock)
qed

lemma ex_cc_token: "\<exists>r. fst (SignInternalJWT memory_store ex_cc_svc ex_cc_request ex_cc_world) = Inr r"
proof -
  let ?p = "service_principal ex_cc_claims ''t1''"
  let ?a = "\<lparr>acc_ID = p_ID ?p, acc_TenantID = ''t1'', acc_Name = p_DisplayName ?p, acc_Status = ''active'',
          acc_CreatedBy = ''casdoor'', acc_CreatedAt = ex_now\<rparr>"
  define w1 where "w1 = snd (VerifyIDToken ex_cc_svc ex_oidc_verifier ''cc'' [] ex_cc_world)"
  have w1: "w_store w1 = w_store ex_cc_world" "w_policy w1 = w_policy ex_cc_world" by (simp_all add: w1_def op_simps)
  define w2 where "w2 = snd (on_store (store_PutServiceAccount memory_store ?a) (snd (on_store (store_UpsertPrincipal memory_store ?p) w1)))"
  have ok2: "mem_wf (w_store w2)" using ex_cc_ok by (simp add: w2_def w1 store_simps)
  have t: "vw_tenants (mem_view (w_store ex_cc_world)) ''t1'' = Some ex_tenant"
    by (simp add: ex_cc_world_def ex_store_def mem_view_def)
  have c: "TrimSpace ''cc'' = ''cc''" "Fields ''chathub:read'' = [''chathub:read'']"
    "ScopesForActions \<lparr>pol_roleScopes = Some (copyRoleScopes DefaultRoleScopes)\<rparr> [tenant_admin_role] ''chathub'' [''read''] = [''chathub:read'']"
    by code_simp+
  have fields: "p_Type ?p = PrincipalTypeServiceAccount" "p_Roles ?p = [tenant_admin_role]"
    "p_ID ?p = StableProjectionID ''svc'' [''t1'', ''robot'']"
    by (simp_all add: service_principal_def ex_cc_claims_def ex_oidc_claims_def Let_def)
  have n: "\<not> blank (sess_TenantID \<lparr>sess_ID = ''client_credentials:robot'', sess_PrincipalID = p_ID ?p,
              sess_TenantID = ''t1'', sess_CurrentTeamID = [], sess_AuthTime = ex_now,
              sess_ExpiresAt = time_Unix 2000000000, sess_Source = SessionSourceServiceToken\<rparr>)"
    "\<not> blank (p_Type ?p)" "\<not> blank (p_ID ?p)"
  proof -
    show "\<not> blank (p_Type ?p)" unfolding fields by code_simp
    show "\<not> blank (p_ID ?p)" unfolding fields
      by (rule not_blank [of "CHR ''s''"]) (simp_all add: StableProjectionID_def space_bytes_def space_runes_def)
  qed (use ex_names in simp)
  obtain r where r: "fst (sign memory_store ex_cc_svc ?p \<lparr>sess_ID = ''client_credentials:robot'', sess_PrincipalID = p_ID ?p,
              sess_TenantID = ''t1'', sess_CurrentTeamID = [], sess_AuthTime = ex_now,
              sess_ExpiresAt = time_Unix 2000000000, sess_Source = SessionSourceServiceToken\<rparr> ''chathub'' [''chathub:read'']
     None SessionSourceServiceToken ''jwt_1'' ex_now None None (5 * Minute) w2) = Inr r"
    using mem.sign_ok [OF ok2 n ex_now_given ex_names(4,5)] by blast
  have pol: "Service_Policy w2 = \<lparr>pol_roleScopes = Some (copyRoleScopes DefaultRoleScopes)\<rparr>"
    using Service_Policy_cong [of w2 "ex_world ''p1''"] by (simp add: w2_def w1 ex_cc_world_def ex_policy)
  have svc: "cfg_InternalTTL (svc_cfg ex_cc_svc) = 5 * Minute"
    by (simp_all add: ex_cc_svc_def ex_svc_def ex_cfg_def)
  have cl: "oc_TenantID ex_cc_claims = ''t1''" "oc_Scope ex_cc_claims = ''chathub:read''" "oc_Subject ex_cc_claims = ''robot''"
    "oc_ExpiresAt ex_cc_claims = 2000000000"
    by (simp_all add: ex_cc_claims_def ex_oidc_claims_def)
  show ?thesis
    using r ex_now_given ex_cc_ok ok2 t c ex_trim ex_statuses(1) pol ex_requested(2) svc cl fields(2) ex_cc_verified(2)
    by (simp add: SignInternalJWT_def signInternalJWTForClientCredentials_def ex_cc_request_def ex_request_def
        op_simps store_simps Let_def w2_def w1 ex_cc_verified(1) w1_def [symmetric])
qed

theorem client_credentials_reactivate_witness:
  "\<exists>a. vw_accounts (mem_view (w_store (snd (SignInternalJWT memory_store ex_cc_svc ex_cc_request ex_cc_world)))) ex_cc_id = Some a
    \<and> acc_Status ex_cc_account = ''disabled'' \<and> acc_Status a = ''active''"
proof -
  obtain r where r: "fst (SignInternalJWT memory_store ex_cc_svc ex_cc_request ex_cc_world) = Inr r"
    using ex_cc_token by blast
  have p: "TrimSpace (ij_ClientCredentialsToken ex_cc_request) \<noteq> []" unfolding ex_cc_request_def by (simp, code_simp)
  have "TrimSpace ''t1'' = ''t1''" using ex_trim by simp
  moreover have v: "fst (resolveOIDC ex_cc_svc ex_cc_world) = Inr (Some ex_oidc_verifier, None)"
    "fst (VerifyIDToken ex_cc_svc ex_oidc_verifier (ij_ClientCredentialsToken ex_cc_request) []
       (snd (resolveOIDC ex_cc_svc ex_cc_world))) = Inr ex_cc_claims"
    using ex_cc_verified(2) by (simp_all add: ex_cc_verified(1) ex_cc_request_def)
  ultimately have s:
    "ex_cc_id = StableProjectionID ''svc'' [TrimSpace (oc_TenantID ex_cc_claims), oc_Subject ex_cc_claims]"
    "vw_accounts (mem_view (w_store ex_cc_world)) ex_cc_id = Some ex_cc_account" "acc_Status ex_cc_account = ''disabled''"
    by (simp_all add: ex_cc_svc_def ex_cc_id_def ex_cc_claims_def ex_cc_world_def mem_view_def ex_cc_account_def
        ex_oidc_claims_def)
  from client_credentials_reactivate [OF ex_cc_ok p r v s] s(3) show ?thesis by blast
qed

end
