(* ===== verification/Warden_Device_Properties.thy ===== *)
theory Warden_Device_Properties
  imports Warden_Device_Facts Warden_Properties
begin

text \<open>
  The properties of the device authorization, stated for the in-memory store.
\<close>

lemma ex_code [simp]: "vw_deviceCodes (mem_view (w_store (ex_world k))) ''dev_1'' = Some (ex_device ''p1'' ''approved'')"
  by (simp add: ex_world_def ex_store_def mem_view_def)

definition ex_exchange :: DeviceTokenRequest where
  "ex_exchange = \<lparr>dt_DeviceCode = ''dev_1'', dt_Now = ex_now\<rparr>"

lemma ex_exchange_code: "TrimSpace (dt_DeviceCode ex_exchange) = ''dev_1''"
  unfolding ex_exchange_def by (simp, code_simp)

lemma ex_exchange_ok: "\<exists>r. fst (ExchangeDeviceToken memory_store ex_svc ex_exchange (ex_world ''p1'')) = Inr r"
proof -
  have d: "\<not> expired (dev_ExpiresAt (ex_device ''p1'' ''approved'')) ex_now" "dev_Status (ex_device ''p1'' ''approved'') = ''approved''"
    "dev_PrincipalID (ex_device ''p1'' ''approved'') = ''p1''" "dev_DeviceCode (ex_device ''p1'' ''approved'') = ''dev_1''"
    by (simp_all add: ex_device_def expired_def Before_def Hour_def Minute_def Second_def)
  have "TrimSpace ''dev_1'' = ''dev_1''" by code_simp
  then show ?thesis
    using ex_ok ex_now_given d ex_statuses(2)
    by (simp add: ExchangeDeviceToken_def ex_exchange_def op_simps store_simps Let_def)
qed

text \<open>C23: A device code is exchanged for a token only when it has been approved and has not expired, by an
  approver that is not disabled; the token then validates as that approver, with the scopes of the
  approver's roles, until thirty days have passed, and not afterwards; the code is consumed.\<close>

theorem exchanged_token_confined:
  assumes "mem_wf (w_store w)" and "fst (ExchangeDeviceToken memory_store svc req w) = Inr r"
    and "\<not> IsZero t"
  shows "\<exists>c p. vw_deviceCodes (mem_view (w_store w)) (TrimSpace (dt_DeviceCode req)) = Some c \<and> dev_Status c = ''approved''
    \<and> \<not> expired (dev_ExpiresAt c) (eff_now svc w (dt_Now req))
    \<and> vw_principals (mem_view (w_store w)) (dev_PrincipalID c) = Some p \<and> p_Status p \<noteq> ''disabled''
    \<and> vw_deviceCodes (mem_view (w_store (snd (ExchangeDeviceToken memory_store svc req w)))) (TrimSpace (dt_DeviceCode req))
        = Some (c\<lparr>dev_Status := ''consumed''\<rparr>)
    \<and> (if expired (eff_now svc w (dt_Now req) + 30 * 24 * Hour) t
       then fst (ValidateAPIKey memory_store svc (dtr_AccessToken r) t (snd (ExchangeDeviceToken memory_store svc req w)))
          = Inl ErrUnauthorized
       else \<exists>k. fst (ValidateAPIKey memory_store svc (dtr_AccessToken r) t (snd (ExchangeDeviceToken memory_store svc req w)))
          = Inr (k, p) \<and> key_Scopes k = ScopesForRoles (Service_Policy w) (p_Roles p))"
proof -
  let ?V = "mem_view (w_store w)" and ?w = "snd (ExchangeDeviceToken memory_store svc req w)"
    and ?now = "eff_now svc w (dt_Now req)"
  obtain c p key log where c: "vw_deviceCodes ?V (TrimSpace (dt_DeviceCode req)) = Some c" "dev_Status c = ''approved''"
      "\<not> expired (dev_ExpiresAt c) ?now"
    and p: "vw_principals ?V (dev_PrincipalID c) = Some p" "p_Status p \<noteq> ''disabled''"
    and key: "key_KeyHash key = HashAPIKey (dtr_AccessToken r)" "key_PrincipalID key = p_ID p"
      "key_Scopes key = ScopesForRoles (Service_Policy w) (p_Roles p)" "key_ExpiresAt key = ?now + 30 * 24 * Hour"
      "key_Status key = ''active''"
    and ok: "mem_wf (w_store ?w)"
    and V': "mem_view (w_store ?w) = ?V\<lparr>vw_apiKeys := (vw_apiKeys ?V)(key_KeyHash key \<mapsto> key),
       vw_deviceCodes := (vw_deviceCodes ?V)(TrimSpace (dt_DeviceCode req) \<mapsto> c\<lparr>dev_Status := ''consumed''\<rparr>), vw_audits := log\<rparr>"
    by (rule mem.ExchangeDeviceToken_Inr [OF assms(1,2)])
  have pid: "p_ID p = dev_PrincipalID c" using mem_id.principal_row [OF assms(1) p(1)] .
  have "fst (ValidateAPIKey memory_store svc (dtr_AccessToken r) t ?w) = Inl ErrUnauthorized" if "expired (?now + 30 * 24 * Hour) t"
    by (rule mem_cred.ValidateAPIKey_refused [OF ok]) (use that assms(3) key in \<open>auto simp: V'\<close>)
  moreover have "fst (ValidateAPIKey memory_store svc (dtr_AccessToken r) t ?w) = Inr (key\<lparr>key_LastUsedAt := t\<rparr>, p)"
    if "\<not> expired (?now + 30 * 24 * Hour) t"
    unfolding mem_cred.ValidateAPIKey_iff [OF ok]
    by (rule exI [of _ key]) (use that assms(3) key p pid in \<open>simp add: V' key_valid_def\<close>)
  ultimately show ?thesis using c p key by (intro exI [of _ c] exI [of _ p]) (auto simp: V')
qed

theorem exchanged_token_confined_witness:
  "\<exists>r k. fst (ExchangeDeviceToken memory_store ex_svc ex_exchange (ex_world ''p1'')) = Inr r
    \<and> fst (ValidateAPIKey memory_store ex_svc (dtr_AccessToken r) (ex_now + Hour)
        (snd (ExchangeDeviceToken memory_store ex_svc ex_exchange (ex_world ''p1'')))) = Inr (k, ex_admin)"
proof -
  obtain r where r: "fst (ExchangeDeviceToken memory_store ex_svc ex_exchange (ex_world ''p1'')) = Inr r"
    using ex_exchange_ok by blast
  have t: "\<not> IsZero (ex_now + Hour)" "\<not> expired (ex_now + 30 * 24 * Hour) (ex_now + Hour)" by code_simp+
  have p: "dev_PrincipalID (ex_device ''p1'' ''approved'') = ''p1''" by (simp add: ex_device_def)
  from exchanged_token_confined [OF ex_ok r t(1)] show ?thesis
    using r t(2) ex_now_given p ex_exchange_code by (auto simp: ex_exchange_def)
qed

text \<open>C22: However the service runs on, as long as it does not draw a code already in use, a stored device
  code stays stored and only moves forward: a pending code may become approved or consumed, an approved one
  keeps its approver and may become consumed, and a consumed one never changes again.\<close>

theorem device_codes_move_forward:
  assumes "mem_wf (w_store w)" and "(service_run memory_store mem_view svc)\<^sup>*\<^sup>* w w'"
    and "vw_deviceCodes (mem_view (w_store w)) k = Some c"
  shows "\<exists>c'. vw_deviceCodes (mem_view (w_store w')) k = Some c' \<and> device_ahead c c'"
  using mem.service_runs_progress [OF assms(2)] assms(1,3) by (auto simp: kept_def device_progress_def)

text \<open>C7: A device code is good for one token: once it has been exchanged, every later exchange of the same
  code is refused, however the service has run in between.\<close>

theorem device_code_single_use:
  assumes "mem_wf (w_store w)" and "fst (ExchangeDeviceToken memory_store svc req w) = Inr r"
    and "(service_run memory_store mem_view svc)\<^sup>*\<^sup>* (snd (ExchangeDeviceToken memory_store svc req w)) w'"
    and "TrimSpace (dt_DeviceCode req') = TrimSpace (dt_DeviceCode req)"
  shows "fst (ExchangeDeviceToken memory_store svc req' w') = Inl ErrUnauthorized"
proof -
  let ?k = "TrimSpace (dt_DeviceCode req)" and ?w = "snd (ExchangeDeviceToken memory_store svc req w)"
  obtain c key log where ok: "mem_wf (w_store ?w)"
    and V': "mem_view (w_store ?w) = (mem_view (w_store w))\<lparr>vw_apiKeys := (vw_apiKeys (mem_view (w_store w)))(key_KeyHash key \<mapsto> key),
       vw_deviceCodes := (vw_deviceCodes (mem_view (w_store w)))(?k \<mapsto> c\<lparr>dev_Status := ''consumed''\<rparr>), vw_audits := log\<rparr>"
    by (rule mem.ExchangeDeviceToken_Inr [OF assms(1,2)])
  have p: "mem_wf (w_store w') \<and> device_progress (mem_view (w_store ?w)) (mem_view (w_store w'))"
    using mem.service_runs_progress [OF assms(3)] ok by (simp add: kept_def)
  moreover have "vw_deviceCodes (mem_view (w_store ?w)) ?k = Some (c\<lparr>dev_Status := ''consumed''\<rparr>)" by (simp add: V')
  ultimately obtain c' where c': "vw_deviceCodes (mem_view (w_store w')) ?k = Some c'" "device_ahead (c\<lparr>dev_Status := ''consumed''\<rparr>) c'"
    unfolding device_progress_def by blast
  have "?k \<noteq> []" using assms(2) by (auto simp: ExchangeDeviceToken_def op_simps split: if_splits)
  then show ?thesis
    using p c' device_ahead_consumed [OF c'(2)] assms(4) by (intro mem.ExchangeDeviceToken_refused) auto
qed

lemma ex_next_code: "next_device_code ex_svc w \<noteq> ''dev_1''"
proof -
  have "length (rand_at ex_svc n) = 22" for n unfolding rand_at_def by (simp add: random_bytes_def ex_svc_def, code_simp)
  then have "length (next_device_code ex_svc w) = 48" by (simp add: next_device_code_def)
  then show ?thesis by auto
qed

lemma ex_run: "service_run memory_store mem_view ex_svc (ex_world ''p1'')
    (snd (ExchangeDeviceToken memory_store ex_svc ex_exchange (ex_world ''p1'')))"
  unfolding service_run_def
proof
  have "next_device_code ex_svc (ex_world ''p1'') \<noteq> ''dev_1''" by (rule ex_next_code)
  then show "vw_deviceCodes (mem_view (w_store (ex_world ''p1''))) (next_device_code ex_svc (ex_world ''p1'')) = None"
    by (simp add: mem_view_def ex_store_def ex_world_def [of "''p1''", THEN arg_cong [of _ _ w_store]])
qed (rule service_step.call [OF service_call.exchange_device])

lemma ex_runs: "(service_run memory_store mem_view ex_svc)\<^sup>*\<^sup>* (ex_world ''p1'')
    (snd (ExchangeDeviceToken memory_store ex_svc ex_exchange (ex_world ''p1'')))"
  using ex_run by (rule r_into_rtranclp)

theorem device_codes_move_forward_witness:
  "\<exists>c'. vw_deviceCodes (mem_view (w_store (snd (ExchangeDeviceToken memory_store ex_svc ex_exchange (ex_world ''p1''))))) ''dev_1'' = Some c'
    \<and> device_ahead (ex_device ''p1'' ''approved'') c'"
  by (rule device_codes_move_forward [OF ex_ok ex_runs ex_code])

theorem device_code_single_use_witness:
  "fst (ExchangeDeviceToken memory_store ex_svc ex_exchange
     (snd (ExchangeDeviceToken memory_store ex_svc ex_exchange (ex_world ''p1'')))) = Inl ErrUnauthorized"
proof -
  obtain r where r: "fst (ExchangeDeviceToken memory_store ex_svc ex_exchange (ex_world ''p1'')) = Inr r"
    using ex_exchange_ok by blast
  show ?thesis by (rule device_code_single_use [OF ex_ok r rtranclp.rtrancl_refl refl])
qed

end
