(* ===== verification/Warden_Policy_Properties.thy ===== *)
theory Warden_Policy_Properties
  imports Warden_Directory
begin

text \<open>
  The properties of the policy (\<open>src/warden/policy.go\<close>) and of the role projection of the directory.
\<close>

section \<open>Policies\<close>

text \<open>Every entry is for a known role, with its scopes sorted and without repetition.\<close>

definition known_roles :: "string list gomap \<Rightarrow> bool" where
  "known_roles m \<longleftrightarrow> wf_map m \<and> (\<forall>k ss. map_of m k = Some ss \<longrightarrow> k \<in> set knownRoleKeys \<and> sorted ss \<and> distinct ss)"

lemma known_roles_Nil: "known_roles []"
  by (simp add: known_roles_def)

lemma known_roles_put:
  assumes "known_roles m" and "k \<in> set knownRoleKeys"
  shows "known_roles (map_put k (sortedKeys ss) m)"
  unfolding known_roles_def
proof (intro conjI allI impI)
  show "wf_map (map_put k (sortedKeys ss) m)" using assms(1) by (simp add: known_roles_def)
next
  fix k' ss' assume *: "map_of (map_put k (sortedKeys ss) m) k' = Some ss'"
  have "k' \<in> set knownRoleKeys \<and> sorted ss' \<and> distinct ss'"
  proof (cases "k' = k")
    case True
    with * have "ss' = sortedKeys ss" by simp
    with True assms(2) show ?thesis by simp
  next
    case False
    with * have "map_of m k' = Some ss'" by simp
    with assms(1) show ?thesis unfolding known_roles_def by blast
  qed
  then show "k' \<in> set knownRoleKeys" "sorted ss'" "distinct ss'" by blast+
qed

lemma known_roles_entries:
  assumes "known_roles m" and "(k, ss) \<in> set m"
  shows "k \<in> set knownRoleKeys" "sorted ss" "distinct ss"
proof -
  have "map_of m k = Some ss" using assms by (simp add: known_roles_def wf_map_def)
  with assms(1) show "k \<in> set knownRoleKeys" "sorted ss" "distinct ss" unfolding known_roles_def by blast+
qed

lemma normalize_roleScopes_Inr:
  "normalize_roleScopes m acc = Inr n \<Longrightarrow> known_roles acc \<Longrightarrow> known_roles n"
proof (induction m acc rule: normalize_roleScopes.induct)
  case (1 normalized)
  then show ?case by simp
next
  case (2 role scopes rest normalized)
  obtain k b where k: "NormalizeRoleKey role = (k, b)" by (cases "NormalizeRoleKey role")
  with 2(2) have b: "b" by (auto split: if_splits)
  from 2(2) k b have r: "normalize_roleScopes rest (map_put k (sortedKeys (sliceSet scopes)) normalized) = Inr n" by simp
  have "k \<in> set knownRoleKeys" using NormalizeRoleKey_known k b by simp
  with 2(3) show ?case
    using b by (intro "2.IH" [OF k [symmetric] refl _ r] known_roles_put) simp_all
qed

lemma normalize_roleScopes_Inl:
  "(\<exists>e. normalize_roleScopes m acc = Inl e) \<longleftrightarrow> (\<exists>(role, ss) \<in> set m. \<not> snd (NormalizeRoleKey role))"
  by (induction m acc rule: normalize_roleScopes.induct) (auto simp: Let_def split: prod.splits)

text \<open>Building a policy fails exactly when a role of the map is not known; a policy that is built holds
  only known role keys, each with its scopes sorted and without repetition.\<close>

theorem new_policy_well_formed:
  "case NewPolicy m of
     Inl e \<Rightarrow> \<exists>(role, ss) \<in> set m. \<not> snd (NormalizeRoleKey role)
   | Inr p \<Rightarrow> list_all (\<lambda>(role, ss). snd (NormalizeRoleKey role)) m
       \<and> list_all (\<lambda>(k, ss). k \<in> set knownRoleKeys \<and> sorted ss \<and> distinct ss) (RoleScopes p)"
proof (cases "NewPolicy m")
  case (Inl e)
  then have "\<exists>e. normalize_roleScopes m [] = Inl e" by (auto simp: NewPolicy_def split: if_splits sum.splits)
  then show ?thesis using Inl by (simp add: normalize_roleScopes_Inl)
next
  case (Inr p)
  have d: "list_all (\<lambda>(k, ss). k \<in> set knownRoleKeys \<and> sorted ss \<and> distinct ss) (copyRoleScopes DefaultRoleScopes)"
    by code_simp
  show ?thesis
  proof (cases "m = []")
    case True
    then show ?thesis using d by (simp add: NewPolicy_def DefaultPolicy_def RoleScopes_def)
  next
    case False
    then obtain n where n: "normalize_roleScopes m [] = Inr n" and p: "p = \<lparr>pol_roleScopes = Some n\<rparr>"
      using Inr by (auto simp: NewPolicy_def split: if_splits sum.splits)
    have "list_all (\<lambda>(k, ss). k \<in> set knownRoleKeys \<and> sorted ss \<and> distinct ss) (copyRoleScopes n)"
      using known_roles_entries [OF normalize_roleScopes_Inr [OF n known_roles_Nil]]
      by (auto simp: list_all_iff copyRoleScopes_def)
    moreover have "\<not> (\<exists>(role, ss) \<in> set m. \<not> snd (NormalizeRoleKey role))"
      using normalize_roleScopes_Inl [of m "[]"] n by auto
    ultimately show ?thesis using Inr p by (auto simp: list_all_iff RoleScopes_def)
  qed
qed

text \<open>The scopes granted for a request are sorted, without repetition, and exactly those that the
  request names (through its actions, or the audience's defaults when no action is known) and that some
  role of the principal carries in the policy.\<close>

theorem scopes_for_actions_exact:
  "sorted (ScopesForActions p roles audience actions) \<and> distinct (ScopesForActions p roles audience actions)
   \<and> set (ScopesForActions p roles audience actions) =
      (let named = (\<Union>a \<in> set actions. set (scopesForAction audience a))
       in if named = {} then set (DefaultScopesForAudience audience) else named)
      \<inter> (TrimSpace ` (\<Union>k \<in> set (roleKeys roles). set (scopes_of_role p k)) - {[]})"
  using set_ScopesForActions [of p roles audience actions]
  by (simp add: requested_scopes_def set_ScopesForRoles)

text \<open>Under the default policy no role, not even the platform owner, is ever granted a scope of the
  knowledge hub, whatever the request: the policy's table of all scopes leaves that application out.\<close>

theorem knowhub_never_granted: "ScopesForActions DefaultPolicy roles ''knowhub'' actions = []"
proof -
  have all: "list_all (\<lambda>(k, ss). list_all (\<lambda>s. TrimSpace s \<notin> set (DefaultScopesForAudience ''knowhub'')) ss) DefaultRoleScopes"
    by code_simp
  have "scopesForAction ''knowhub'' a = []" for a
    by (simp add: scopesForAction_def Let_def AudienceChatHub_def AudienceFileHub_def AudienceSkillHub_def
        AudienceSaker_def AudienceSakerWeb_def AudienceFileStore_def AudienceSynapse_def AudienceWebHub_def
        AudienceAIHub_def AudienceStockHub_def AudienceWarden_def)
  then have "requested_scopes ''knowhub'' actions = set (DefaultScopesForAudience ''knowhub'')"
    by (simp add: requested_scopes_def)
  moreover have "TrimSpace s \<notin> set (DefaultScopesForAudience ''knowhub'')" if "s \<in> set (ScopesForRoles DefaultPolicy roles)" for s
  proof -
    from that obtain k ss where "map_of DefaultRoleScopes k = Some ss" "s \<in> set ss"
      unfolding set_ScopesForRoles scopes_of_role_def DefaultPolicy_def by (force split: option.splits)
    with all show ?thesis by (auto simp: list_all_iff dest!: map_of_SomeD)
  qed
  ultimately have "set (ScopesForActions DefaultPolicy roles ''knowhub'' actions) = {}"
    unfolding set_ScopesForActions by auto
  then show ?thesis by simp
qed

section \<open>Roles of a directory user\<close>

lemma normalized_roles_from_keys:
  "set (map role_Key (normalized_roles_from seen roles)) = {k. \<exists>r \<in> set roles. NormalizeRoleKey r = (k, True)} - set seen
   \<and> distinct (map role_Key (normalized_roles_from seen roles))"
proof (induction seen roles rule: normalized_roles_from.induct)
  case (1 seen)
  then show ?case by simp
next
  case (2 seen role rest)
  obtain k b where k: "NormalizeRoleKey role = (k, b)" by (cases "NormalizeRoleKey role")
  show ?case
  proof (cases "\<not> b \<or> k \<in> set seen")
    case True
    with 2(1) [OF k [symmetric] refl] k show ?thesis by auto
  next
    case False
    with 2(2) [OF k [symmetric] refl] k show ?thesis by auto
  qed
qed

text \<open>The roles of a directory user are never empty and name no role twice: they are the known role
  keys its directory roles resolve to, or the plain user role when there are none.\<close>

theorem directory_roles_exact:
  "let keys = {k. \<exists>r \<in> set roles. NormalizeRoleKey r = (k, True)}
   in distinct (map role_Key (normalizedDirectoryRoles roles))
    \<and> set (map role_Key (normalizedDirectoryRoles roles)) = (if keys = {} then {RoleFrontendUser} else keys)
    \<and> keys \<subseteq> set knownRoleKeys"
proof -
  let ?rs = "normalized_roles_from [] roles"
  have e: "?rs = [] \<longleftrightarrow> {k. \<exists>r \<in> set roles. NormalizeRoleKey r = (k, True)} = {}"
    using normalized_roles_from_keys [of "[]" roles] by (metis Diff_empty list.set(1) map_is_Nil_conv set_empty)
  show ?thesis
  proof (cases "?rs = []")
    case True
    with e show ?thesis by (simp add: normalizedDirectoryRoles_def Let_def)
  next
    case False
    with e normalized_roles_from_keys [of "[]" roles] show ?thesis
      by (auto simp: normalizedDirectoryRoles_def Let_def dest: NormalizeRoleKey_known)
  qed
qed

text \<open>Every directory role that is not known is reported, trimmed, once, and no other.\<close>

theorem unknown_roles_exact:
  "distinct (unknownDirectoryRoles roles)
   \<and> set (unknownDirectoryRoles roles) = {TrimSpace r |r. r \<in> set roles \<and> TrimSpace r \<noteq> [] \<and> \<not> snd (NormalizeRoleKey r)}"
proof -
  have "distinct (unknown_roles_from seen roles) \<and> set (unknown_roles_from seen roles) =
      {TrimSpace r |r. r \<in> set roles \<and> TrimSpace r \<noteq> [] \<and> \<not> snd (NormalizeRoleKey r)} - set seen" for seen
    by (induction seen roles rule: unknown_roles_from.induct) (auto simp: Let_def)
  then show ?thesis by (simp add: unknownDirectoryRoles_def)
qed

end
