(* ===== verification/Warden_Directory_Facts.thy ===== *)
theory Warden_Directory_Facts
  imports Warden_Admin_Facts
begin

text \<open>
  What the synchronisation with the directory (\<open>src/warden/directory.go\<close>) leaves in the store:
  \<open>SyncDirectorySnapshot\<close> writes one tenant and one principal, whose status depends on the stored one and on
  the registration policy; a user that has left the directory is disabled and loses its sessions.
\<close>

section \<open>Reports of unknown roles\<close>

text \<open>Only the audit log of the store changes, and the settings are kept.\<close>

definition only_audits :: "('s \<Rightarrow> bool) \<Rightarrow> ('s \<Rightarrow> StoreView) \<Rightarrow> 's World \<Rightarrow> 's World \<Rightarrow> bool" where
  "only_audits ok view w w' \<longleftrightarrow> w_registrationPolicy w' = w_registrationPolicy w
     \<and> (ok (w_store w) \<longrightarrow> ok (w_store w') \<and> (\<exists>log. view (w_store w') = (view (w_store w))\<lparr>vw_audits := log\<rparr>))"

definition directory_id :: "CasdoorDirectorySnapshot \<Rightarrow> string" where
  "directory_id snap = StableProjectionID ''principal'' [ten_ID (snap_Tenant snap), cu_ID (snap_User snap)]"

text \<open>The tenant a synchronisation writes: a disabled one stays disabled, and no status means active.\<close>

definition synced_tenant :: "Tenant option \<Rightarrow> Tenant \<Rightarrow> Tenant" where
  "synced_tenant old t =
    (let t = (case old of None \<Rightarrow> t | Some o1 \<Rightarrow> if ten_Status o1 = ''disabled'' then t\<lparr>ten_Status := ''disabled''\<rparr> else t)
     in if ten_Status t = [] then t\<lparr>ten_Status := ''active''\<rparr> else t)"

context full_store
begin

lemma only_audits_refl: "only_audits ok view w w"
  by (auto simp: only_audits_def intro: exI [of _ "vw_audits (view (w_store w))"])

lemma only_audits_trans: "only_audits ok view u v \<Longrightarrow> only_audits ok view v w \<Longrightarrow> only_audits ok view u w"
  by (auto simp: only_audits_def)

lemma report_unknown_role:
  assumes "ok (w_store w)"
  shows "fst (report_unknown_role st svc p role w) = Inr ()" and "only_audits ok view w (snd (report_unknown_role st svc p role w))"
proof -
  have a: "w_registrationPolicy (snd (audit st svc p action r d j w)) = w_registrationPolicy w" for action r d j
    by (simp add: audit_def auditWithActor_def op_simps time_Now_eval)
  have n: "w_registrationPolicy (snd (notifySecurity svc e v)) = w_registrationPolicy v" for e v
    by (simp add: notifySecurity_def op_simps bnd_def Let_def)
  show "fst (report_unknown_role st svc p role w) = Inr ()" "only_audits ok view w (snd (report_unknown_role st svc p role w))"
    using assms by (auto simp: report_unknown_role_def only_audits_def op_simps store_simps a n)
qed

lemma report_unknown_roles:
  assumes "ok (w_store w)"
  shows "(\<exists>us. fst (for_each (report_unknown_role st svc p) roles w) = Inr us)
    \<and> only_audits ok view w (snd (for_each (report_unknown_role st svc p) roles w))"
  using assms
proof (induction roles arbitrary: w)
  case Nil
  then show ?case by (simp add: op_simps only_audits_refl)
next
  case (Cons role roles)
  let ?w = "snd (report_unknown_role st svc p role w)"
  note r = report_unknown_role [OF Cons.prems, of svc p role]
  have "ok (w_store ?w)" using r(2) Cons.prems by (simp add: only_audits_def)
  from Cons.IH [OF this] r show ?case by (auto simp: op_simps intro: only_audits_trans)
qed

section \<open>One snapshot\<close>

text \<open>The effect of writing the principal.\<close>

lemma sync_principal_Inr:
  assumes "ok (w_store w)"
  shows "\<exists>log. let p' = p\<lparr>p_Status := synced_status (w_registrationPolicy w) e d\<rparr> in
      fst (sync_principal st svc p d e w) = Inr p'
    \<and> ok (w_store (snd (sync_principal st svc p d e w)))
    \<and> view (w_store (snd (sync_principal st svc p d e w))) = (view (w_store w))
        \<lparr>vw_principals := (vw_principals (view (w_store w)))(p_ID p \<mapsto> p'),
         vw_sessions := (if p_Status p' = ''disabled'' then (\<lambda>k. case vw_sessions (view (w_store w)) k of None \<Rightarrow> None
             | Some x \<Rightarrow> if sess_PrincipalID x = p_ID p then None else Some x) else vw_sessions (view (w_store w))),
         vw_audits := log\<rparr>"
  using assms
  by (cases "synced_status (w_registrationPolicy w) e d = ''disabled''")
    (auto simp: sync_principal_def op_simps store_simps PrincipalStatusDisabled_def Let_def)

lemma sync_in_tenant_Inr:
  fixes snap :: CasdoorDirectorySnapshot and t :: Tenant
  assumes "ok (w_store w)"
  defines "t' \<equiv> if ten_Status t = [] then t\<lparr>ten_Status := ''active''\<rparr> else t" and "p \<equiv> directory_principal (ten_ID t) snap"
    and "V \<equiv> view (w_store w)"
  shows "\<exists>log. let p' = p\<lparr>p_Status := synced_status (w_registrationPolicy w) (vw_principals V (p_ID p)) (cu_Disabled (snap_User snap))\<rparr> in
      fst (sync_in_tenant st svc snap t w) = Inr p' \<and> ok (w_store (snd (sync_in_tenant st svc snap t w)))
    \<and> view (w_store (snd (sync_in_tenant st svc snap t w))) = V
        \<lparr>vw_tenants := (vw_tenants V)(ten_ID t \<mapsto> t'), vw_principals := (vw_principals V)(p_ID p \<mapsto> p'),
         vw_sessions := (if p_Status p' = ''disabled'' then (\<lambda>k. case vw_sessions V k of None \<Rightarrow> None
             | Some x \<Rightarrow> if sess_PrincipalID x = p_ID p then None else Some x) else vw_sessions V),
         vw_audits := log\<rparr>"
proof -
  let ?w1 = "snd (on_store (store_UpsertTenant st t') w)"
  let ?reports = "for_each (report_unknown_role st svc p) (unknownDirectoryRoles (snap_Roles snap))"
  define w2 where "w2 = snd (?reports ?w1)"
  have ok1: "ok (w_store ?w1)" and V1: "view (w_store ?w1) = V\<lparr>vw_tenants := (vw_tenants V)(ten_ID t \<mapsto> t')\<rparr>"
    using assms(1) by (simp_all add: store_simps V_def t'_def)
  obtain us log2 where r: "fst (?reports ?w1) = Inr us" and ok2: "ok (w_store w2)"
    and V2: "view (w_store w2) = V\<lparr>vw_tenants := (vw_tenants V)(ten_ID t \<mapsto> t'), vw_audits := log2\<rparr>"
    and pol: "w_registrationPolicy w2 = w_registrationPolicy w"
    using report_unknown_roles [OF ok1, of svc p "unknownDirectoryRoles (snap_Roles snap)"] ok1 V1
    by (auto simp: only_audits_def w2_def)
  let ?e = "vw_principals V (p_ID p)"
  have id: "ten_ID t' = ten_ID t" by (simp add: t'_def)
  have "sync_in_tenant st svc snap t w = sync_principal st svc p (cu_Disabled (snap_User snap)) ?e w2"
    using assms(1) r ok2 V2
    by (cases ?e) (simp_all add: sync_in_tenant_def flip: t'_def, simp_all add: Let_def op_simps store_simps id p_def w2_def)
  then show ?thesis
    using sync_principal_Inr [OF ok2, where svc = svc and p = p and d = "cu_Disabled (snap_User snap)" and e = ?e] by (auto simp: V2 pol Let_def)
qed

lemma SyncDirectorySnapshot_Inr:
  assumes ok: "ok (w_store w)" and res: "fst (SyncDirectorySnapshot st svc snap w) = Inr p"
  defines "V \<equiv> view (w_store w)" and "V' \<equiv> view (w_store (snd (SyncDirectorySnapshot st svc snap w)))"
  shows "p_ID p = directory_id snap" and "vw_principals V' = (vw_principals V)(directory_id snap \<mapsto> p)"
    and "p_Status p = synced_status (w_registrationPolicy w) (vw_principals V (directory_id snap)) (cu_Disabled (snap_User snap))"
    and "vw_tenants V' = (vw_tenants V)(ten_ID (snap_Tenant snap) \<mapsto> synced_tenant (vw_tenants V (ten_ID (snap_Tenant snap))) (snap_Tenant snap))"
    and "p_Status p = ''disabled'' \<Longrightarrow> vw_sessions V' k = Some s \<Longrightarrow> sess_PrincipalID s \<noteq> directory_id snap"
    and "vw_tenants V (ten_ID (snap_Tenant snap)) = Some old \<Longrightarrow> ten_CasdoorOrgName old \<noteq> [] \<Longrightarrow>
      ten_CasdoorOrgName old = ten_CasdoorOrgName (snap_Tenant snap)"
    and "vw_sessions V' \<subseteq>\<^sub>m vw_sessions V"
proof -
  let ?t = "snap_Tenant snap"
  let ?old = "vw_tenants V (ten_ID ?t)"
  define t where "t = (case ?old of None \<Rightarrow> ?t | Some o1 \<Rightarrow> if ten_Status o1 = ''disabled'' then ?t\<lparr>ten_Status := ''disabled''\<rparr> else ?t)"
  have ids: "ten_ID t = ten_ID ?t" by (simp add: t_def split: option.split)
  have ne: "TrimSpace (ten_ID ?t) \<noteq> []" "TrimSpace (cu_ID (snap_User snap)) \<noteq> []"
    using res by (auto simp: SyncDirectorySnapshot_def op_simps split: if_splits)
  have org: "ten_CasdoorOrgName a = ten_CasdoorOrgName ?t" if "?old = Some a" "ten_CasdoorOrgName a \<noteq> []" for a
    using that res ok ne by (auto simp: SyncDirectorySnapshot_def op_simps store_simps V_def PrincipalStatusDisabled_def Let_def split: if_splits)
  then show "?old = Some old \<Longrightarrow> ten_CasdoorOrgName old \<noteq> [] \<Longrightarrow> ten_CasdoorOrgName old = ten_CasdoorOrgName ?t" .
  have e: "SyncDirectorySnapshot st svc snap w = sync_in_tenant st svc snap t w"
    using ok ne org by (cases ?old)
      (auto simp: SyncDirectorySnapshot_def op_simps store_simps V_def t_def PrincipalStatusDisabled_def Let_def)
  have id: "p_ID (directory_principal (ten_ID ?t) snap) = directory_id snap"
    by (simp add: directory_principal_def directory_id_def ids Let_def)
  have tn: "(if ten_Status t = [] then t\<lparr>ten_Status := ''active''\<rparr> else t) = synced_tenant ?old ?t"
    by (simp add: synced_tenant_def t_def Let_def)
  obtain log where "p = (directory_principal (ten_ID ?t) snap)\<lparr>p_Status :=
      synced_status (w_registrationPolicy w) (vw_principals V (directory_id snap)) (cu_Disabled (snap_User snap))\<rparr>"
    and "V' = V\<lparr>vw_tenants := (vw_tenants V)(ten_ID ?t \<mapsto> synced_tenant ?old ?t), vw_principals := (vw_principals V)(directory_id snap \<mapsto> p),
         vw_sessions := (if p_Status p = ''disabled'' then (\<lambda>k. case vw_sessions V k of None \<Rightarrow> None
             | Some x \<Rightarrow> if sess_PrincipalID x = directory_id snap then None else Some x) else vw_sessions V),
         vw_audits := log\<rparr>"
    using sync_in_tenant_Inr [OF ok, where svc = svc and snap = snap and t = t] res unfolding tn ids id V'_def e V_def [symmetric] Let_def by auto
  then show "p_ID p = directory_id snap" "vw_principals V' = (vw_principals V)(directory_id snap \<mapsto> p)"
    "p_Status p = synced_status (w_registrationPolicy w) (vw_principals V (directory_id snap)) (cu_Disabled (snap_User snap))"
    "vw_tenants V' = (vw_tenants V)(ten_ID ?t \<mapsto> synced_tenant ?old ?t)"
    "p_Status p = ''disabled'' \<Longrightarrow> vw_sessions V' k = Some s \<Longrightarrow> sess_PrincipalID s \<noteq> directory_id snap"
    "vw_sessions V' \<subseteq>\<^sub>m vw_sessions V"
    by (auto simp: id map_le_def split: option.splits if_splits)
qed

section \<open>Leaving the directory\<close>

text \<open>A user the directory no longer knows is disabled and loses its sessions.\<close>

lemma ValidateSession_left:
  assumes ok: "ok (w_store w)" and valid: "usable_session (view (w_store w)) sid (eff_now svc w now) session p"
    and cfg: "cfg_DirectoryRefreshOnSession (svc_cfg svc)" and user: "TrimSpace (p_CasdoorUserID p) \<noteq> []"
    and dir: "svc_directory svc = Some src" and "ds_SyncUser src (w_lookups w) (p_CasdoorUserID p) = Inr []"
  defines "V \<equiv> view (w_store w)" and "V' \<equiv> view (w_store (snd (ValidateSession st svc sid now w)))"
  shows "fst (ValidateSession st svc sid now w) = Inl ErrUnauthorized"
    and "vw_principals V' = (vw_principals V)(p_ID p \<mapsto> p\<lparr>p_Status := ''disabled''\<rparr>)"
    and "vw_sessions V' k = Some s \<Longrightarrow> sess_PrincipalID s \<noteq> p_ID p"
proof -
  let ?w = "snd (normalizeNow svc now w)"
  define w1 where "w1 = ?w\<lparr>w_lookups := Suc (w_lookups ?w)\<rparr>"
  have ok0: "ok (w_store ?w)" and ok1: "ok (w_store w1)" and same: "w_store ?w = w_store w" "w_store w1 = w_store w"
    using ok by (simp_all add: op_simps w1_def)
  have lk: "w_lookups ?w = w_lookups w"
    by (simp add: normalizeNow_def time_Now_def op_simps)
  have ne: "p_CasdoorUserID p \<noteq> []" using user by auto
  obtain t where row: "vw_sessions V (TrimSpace sid) = Some session" "\<not> expired (sess_ExpiresAt session) (eff_now svc w now)"
      "vw_tenants V (sess_TenantID session) = Some t" "ten_Status t \<noteq> PrincipalStatusDisabled"
      "vw_principals V (sess_PrincipalID session) = Some p" "p_TenantID p = sess_TenantID session"
    using valid by (auto simp: usable_session_def V_def)
  have pid: "sess_PrincipalID session = p_ID p" using principal_row [OF ok] row(5) by (auto simp: V_def)
  have sync: "SyncDirectoryUser st svc (svc_directory svc) (p_CasdoorUserID p) ?w = (Inr [], w1)"
    using user dir assms(6) by (simp add: SyncDirectoryUser_def directory_lookup_def op_simps lk w1_def)
  have e: "refreshDirectoryPrincipal st svc p ?w = revokeDirectoryPrincipal st svc p w1"
    by (simp add: refreshDirectoryPrincipal_def sync op_simps)
  have r: "fst (refreshDirectoryPrincipal st svc p ?w) = Inl ErrUnauthorized"
    "view (w_store (snd (refreshDirectoryPrincipal st svc p ?w))) = V\<lparr>vw_principals := (vw_principals V)(p_ID p \<mapsto> p\<lparr>p_Status := ''disabled''\<rparr>),
      vw_sessions := (\<lambda>k. case vw_sessions V k of None \<Rightarrow> None | Some x \<Rightarrow> if sess_PrincipalID x = p_ID p then None else Some x),
      vw_audits := vw_audits V @ [audit_entry p ''directory.membership_revoked'' None ''deny'' [] None (svc_clock svc (w_clock w1))]\<rparr>"
    unfolding e using ok1 row(5) same pid
    by (simp_all add: revokeDirectoryPrincipal_def op_simps store_simps V_def PrincipalStatusDisabled_def)
  have v: "fst (ValidateSession st svc sid now w) = Inl ErrUnauthorized"
    "w_store (snd (ValidateSession st svc sid now w)) = w_store (snd (refreshDirectoryPrincipal st svc p ?w))"
    using ok ok0 row same cfg ne r(1) unfolding V_def by (simp_all add: ValidateSession_def op_simps store_simps)
  show "fst (ValidateSession st svc sid now w) = Inl ErrUnauthorized" by (rule v)
  show "vw_principals V' = (vw_principals V)(p_ID p \<mapsto> p\<lparr>p_Status := ''disabled''\<rparr>)"
    by (simp add: V'_def v(2) r(2))
  show "sess_PrincipalID s \<noteq> p_ID p" if "vw_sessions V' k = Some s"
    using that by (auto simp: V'_def v(2) r(2) split: option.splits if_splits)
qed

end

end
