(* ===== verification/Warden_Directory_Properties.thy ===== *)
theory Warden_Directory_Properties
  imports Warden_Directory_Facts Warden_Properties
begin

text \<open>
  The properties of the synchronisation with the directory, stated for the in-memory store.
\<close>

definition ex_snap :: "bool \<Rightarrow> CasdoorDirectorySnapshot" where
  "ex_snap disabled = \<lparr>snap_Tenant = ex_tenant,
     snap_User = \<lparr>cu_ID = ''u9'', cu_Username = ''u9'', cu_Email = [], cu_DisplayName = ''U'',
       cu_EmailVerified = True, cu_Disabled = disabled\<rparr>,
     snap_Groups = [], snap_Roles = [''viewer'', ''nonsense'']\<rparr>"

lemma ex_sync: "\<exists>p. fst (SyncDirectorySnapshot memory_store ex_svc (ex_snap d) (ex_world ''p1'')) = Inr p"
proof -
  have t: "TrimSpace ''t1'' = ''t1''" "TrimSpace ''u9'' = ''u9''" by code_simp+
  have s: "ten_ID ex_tenant = ''t1''" "snap_Tenant (ex_snap d) = ex_tenant" "cu_ID (snap_User (ex_snap d)) = ''u9''"
    by (simp_all add: ex_snap_def ex_tenant_def)
  obtain p where "fst (sync_in_tenant memory_store ex_svc (ex_snap d) ex_tenant (ex_world ''p1'')) = Inr p"
    using mem.sync_in_tenant_Inr [OF ex_ok, where svc = ex_svc and snap = "ex_snap d" and t = ex_tenant]
    by (auto simp: Let_def)
  then show ?thesis
    using ex_ok t s ex_statuses(1) by (simp add: SyncDirectorySnapshot_def op_simps store_simps Let_def)
qed

text \<open>Synchronising a directory user stores one principal, under the identifier derived from tenant and
  user: disabled when the directory has disabled it, pending when it is new and registration needs approval
  or is closed, and otherwise with the status it had, so that a principal that was disabled or is waiting
  for approval stays so; a principal that ends up disabled has no session left.\<close>

theorem sync_status:
  assumes "mem_wf (w_store w)" and "fst (SyncDirectorySnapshot memory_store svc snap w) = Inr p"
  defines "V \<equiv> mem_view (w_store w)" and "V' \<equiv> mem_view (w_store (snd (SyncDirectorySnapshot memory_store svc snap w)))"
    and "pid \<equiv> StableProjectionID ''principal'' [ten_ID (snap_Tenant snap), cu_ID (snap_User snap)]"
  shows "vw_principals V' = (vw_principals V)(pid \<mapsto> p) \<and> p_ID p = pid
    \<and> p_Status p = (if cu_Disabled (snap_User snap) then ''disabled''
        else case vw_principals V pid of Some old \<Rightarrow> p_Status old
        | None \<Rightarrow> if w_registrationPolicy w \<in> {''approval_required'', ''closed''} then ''pending'' else ''active'')
    \<and> (p_Status p = ''disabled'' \<longrightarrow> (\<forall>s \<in> ran (vw_sessions V'). sess_PrincipalID s \<noteq> pid))"
proof -
  note f = mem.SyncDirectorySnapshot_Inr [OF assms(1,2), folded V_def V'_def]
  have pid: "directory_id snap = pid" by (simp add: directory_id_def pid_def)
  have "p_ID old = pid" if "vw_principals V pid = Some old" for old
    using that mem_id.principal_row [OF assms(1)] by (simp add: V_def)
  moreover have "pid \<noteq> []" by (simp add: pid_def StableProjectionID_def Let_def)
  ultimately have "p_Status p = (if cu_Disabled (snap_User snap) then ''disabled''
        else case vw_principals V pid of Some old \<Rightarrow> p_Status old
        | None \<Rightarrow> if w_registrationPolicy w \<in> {''approval_required'', ''closed''} then ''pending'' else ''active'')"
    using f(3) by (auto simp: pid synced_status_def Let_def status_defs RegistrationPolicyApprovalRequired_def
        RegistrationPolicyClosed_def split: option.splits)
  with f(1,2,5) show ?thesis by (auto simp: pid ran_def)
qed

theorem sync_status_witness:
  "\<exists>p. fst (SyncDirectorySnapshot memory_store ex_svc (ex_snap True) (ex_world ''p1'')) = Inr p \<and> p_Status p = ''disabled''"
proof -
  obtain p where p: "fst (SyncDirectorySnapshot memory_store ex_svc (ex_snap True) (ex_world ''p1'')) = Inr p"
    using ex_sync by blast
  with sync_status [OF ex_ok p] show ?thesis by (simp add: ex_snap_def)
qed

text \<open>A synchronisation never moves a tenant to another organisation of the directory, never enables a
  tenant that was disabled, and touches no other tenant.\<close>

theorem sync_tenant:
  assumes "mem_wf (w_store w)" and "fst (SyncDirectorySnapshot memory_store svc snap w) = Inr p"
    and "vw_tenants (mem_view (w_store w)) tid = Some old"
  shows "\<exists>new. vw_tenants (mem_view (w_store (snd (SyncDirectorySnapshot memory_store svc snap w)))) tid = Some new
    \<and> (tid \<noteq> ten_ID (snap_Tenant snap) \<longrightarrow> new = old) \<and> (ten_Status old = ''disabled'' \<longrightarrow> ten_Status new = ''disabled'')
    \<and> (ten_CasdoorOrgName old \<noteq> [] \<longrightarrow> ten_CasdoorOrgName new = ten_CasdoorOrgName old)"
proof (cases "tid = ten_ID (snap_Tenant snap)")
  case True
  note f = mem.SyncDirectorySnapshot_Inr(4,6) [OF assms(1,2)]
  have "ten_CasdoorOrgName (synced_tenant (Some old) (snap_Tenant snap)) = ten_CasdoorOrgName (snap_Tenant snap)"
    "ten_Status old = ''disabled'' \<Longrightarrow> ten_Status (synced_tenant (Some old) (snap_Tenant snap)) = ''disabled''"
    by (simp_all add: synced_tenant_def Let_def)
  with f(1) f(2) [of old] True assms(3) show ?thesis
    by (intro exI [of _ "synced_tenant (Some old) (snap_Tenant snap)"]) auto
next
  case False
  with mem.SyncDirectorySnapshot_Inr(4) [OF assms(1,2)] assms(3) show ?thesis by auto
qed

theorem sync_tenant_witness:
  "\<exists>new. vw_tenants (mem_view (w_store (snd (SyncDirectorySnapshot memory_store ex_svc (ex_snap False) (ex_world ''p1''))))) ''t1'' = Some new
    \<and> ten_CasdoorOrgName new = ''org1''"
proof -
  obtain p where p: "fst (SyncDirectorySnapshot memory_store ex_svc (ex_snap False) (ex_world ''p1'')) = Inr p"
    using ex_sync by blast
  from sync_tenant [OF ex_ok p ex_lookups(4)] show ?thesis by (auto simp: ex_tenant_def)
qed

text \<open>C26: When sessions are checked against the directory, the session of a user whom the directory no
  longer knows is refused, the user is disabled, and no session of the user is left.\<close>

theorem left_directory_revoked:
  assumes "mem_wf (w_store w)" and "usable_session (mem_view (w_store w)) sid (eff_now svc w now) session p"
    and "cfg_DirectoryRefreshOnSession (svc_cfg svc)" and "TrimSpace (p_CasdoorUserID p) \<noteq> []"
    and "svc_directory svc = Some src" and "ds_SyncUser src (w_lookups w) (p_CasdoorUserID p) = Inr []"
  defines "V' \<equiv> mem_view (w_store (snd (ValidateSession memory_store svc sid now w)))"
  shows "fst (ValidateSession memory_store svc sid now w) = Inl ErrUnauthorized
    \<and> vw_principals V' (p_ID p) = Some (p\<lparr>p_Status := ''disabled''\<rparr>)
    \<and> (\<forall>s \<in> ran (vw_sessions V'). sess_PrincipalID s \<noteq> p_ID p)"
  using mem.ValidateSession_left [OF assms(1-6), folded V'_def] by (auto simp: ran_def)

definition ex_left_user :: Principal where
  "ex_left_user = ex_admin\<lparr>p_CasdoorUserID := ''u1''\<rparr>"

definition ex_left_svc :: Service where
  "ex_left_svc = ex_svc\<lparr>svc_cfg := ex_cfg\<lparr>cfg_DirectoryRefreshOnSession := True\<rparr>,
     svc_directory := Some \<lparr>ds_SyncUser = (\<lambda>_ _. Inr []), ds_Casdoor = None, ds_Reconcile = (\<lambda>_. Inr ())\<rparr>\<rparr>"

definition ex_left_world :: "MemoryStore World" where
  "ex_left_world = (ex_world ''p1'')\<lparr>w_store := (ex_store ''p1'')\<lparr>ms_principals := [(''p1'', ex_left_user)]\<rparr>\<rparr>"

theorem left_directory_revoked_witness:
  "fst (ValidateSession memory_store ex_left_svc ''s1'' ex_now ex_left_world) = Inl ErrUnauthorized"
proof -
  have ok: "mem_wf (w_store ex_left_world)"
    by (simp add: ex_left_world_def ex_left_user_def ex_store_def mem_wf_def wf_map_def mem_view_def view_ok_def keyed_def ex_rows)
  have u: "usable_session (mem_view (w_store ex_left_world)) ''s1'' (eff_now ex_left_svc ex_left_world ex_now) ex_session ex_left_user"
    using ex_now_given
    by (simp add: usable_session_def ex_trim ex_left_world_def mem_view_def ex_store_def)
      (simp add: ex_left_user_def ex_rows expired_def Before_def Hour_def Minute_def Second_def PrincipalStatusDisabled_def)
  have "TrimSpace ''u1'' = ''u1''" by code_simp
  then show ?thesis
    using left_directory_revoked [OF ok u, of "\<lparr>ds_SyncUser = (\<lambda>_ _. Inr []), ds_Casdoor = None, ds_Reconcile = (\<lambda>_. Inr ())\<rparr>"]
    by (simp add: ex_left_svc_def ex_left_user_def)
qed

end
