(* ===== verification/Jwt_Properties.thy ===== *)
theory Jwt_Properties
  imports Jwt_Signer
begin

text \<open>
  The properties of signer and verifier together: which tokens a verifier accepts, that a signed token
  verifies to the principal it was signed for, over month boundaries too, that it stops verifying once
  it has expired, and which requests the signer signs.
\<close>

section \<open>A signer and a request\<close>

definition ex_time :: time where "ex_time = time_Unix 1767225600"

definition ex_jwt_signer :: Signer where
  "ex_jwt_signer = \<lparr>sg_issuer = ''warden'', sg_secret = replicate 32 CHR ''k'', sg_ttl = 5 * Minute\<rparr>"

definition ex_jwt_verifier :: Verifier where
  "ex_jwt_verifier = \<lparr>v_issuer = ''warden'', v_audience = ''chathub'', v_secret = replicate 32 CHR ''k'',
     v_ttl = 5 * Minute, v_clockSkew = 30 * Second, v_allowFallback = False\<rparr>"

definition ex_jwt_input :: SignInput where
  "ex_jwt_input = \<lparr>in_Issuer = [], in_Audience = ''chathub'', in_TTL = 0, in_TenantID = ''t1'', in_OrgID = [],
     in_PrincipalType = ''user'', in_PrincipalID = ''p1'', in_Email = [], in_Name = [], in_Handle = [],
     in_Roles = [''tenant.admin''], in_Scopes = [''chathub:read''], in_Resource = None, in_SessionID = ''s1'',
     in_AuthTime = ex_time, in_Source = ''web'', in_Now = ex_time, in_JWTID = ''jwt_1'', in_Actor = None,
     in_Delegation = None, in_PolicyVersion = ''v1''\<rparr>"

text \<open>A codec for the claims of one token.\<close>

definition ex_codec :: "Claims \<Rightarrow> json_codec" where
  "ex_codec c = \<lparr>marshal_claims = (\<lambda>_. ''{}''),
     unmarshal_claims = (\<lambda>s. if s = ''{}'' then Some c else None),
     unmarshal_alg = (\<lambda>h. if h = header_json then Some signingAlgHS256 else None)\<rparr>"

lemma ex_codec_round_trip: "json_round_trip (ex_codec c) c"
  by (simp add: json_round_trip_def ex_codec_def)

abbreviation ex_signed :: Claims where
  "ex_signed \<equiv> sign_claims ex_time [] ex_jwt_signer ex_jwt_input"

lemma ex_times: "sign_time ex_time ex_jwt_input = ex_time" "sign_ttl ex_jwt_signer ex_jwt_input = 5 * Minute"
  "\<not> IsZero ex_time"
  by (simp_all add: sign_time_def sign_ttl_def ex_jwt_input_def ex_jwt_signer_def IsZero_def zero_time_def ex_time_def
      time_Unix_def Second_def)

lemma ex_signable: "signable ex_jwt_input"
  by code_simp

lemma ex_Sign: "\<exists>token. Sign (ex_codec ex_signed) ex_time [] ex_jwt_signer ex_jwt_input = Inr (token, ex_signed)"
proof -
  have "1 \<le> Unix ex_time \<and> 0 < Unix (ex_time + 5 * Minute) \<and> ex_time \<le> time_Unix (Unix (ex_time + 5 * Minute))"
    by (simp add: ex_time_def time_Unix_def Unix_def Minute_def Second_def)
  then obtain token claims where s: "Sign (ex_codec ex_signed) ex_time [] ex_jwt_signer ex_jwt_input = Inr (token, claims)"
    using Sign_Inr_iff [of "ex_codec ex_signed" ex_time "[]" ex_jwt_signer ex_jwt_input] ex_signable ex_times by auto
  with Sign_Inr(1) [OF s] show ?thesis by blast
qed

lemma ex_claims_fields:
  "c_Issuer ex_signed = ''warden''" "c_Audience ex_signed = ''chathub''"
  "time_Unix (c_ExpiresAt ex_signed) = ex_time + 5 * Minute"
proof -
  show "c_Issuer ex_signed = ''warden''"
    by (simp add: sign_claims_issuer) (simp add: ex_jwt_input_def ex_jwt_signer_def blank_def)
  show "c_Audience ex_signed = ''chathub''" by (simp, simp add: ex_jwt_input_def) code_simp
  show "time_Unix (c_ExpiresAt ex_signed) = ex_time + 5 * Minute"
    by (simp add: ex_times) (simp add: ex_time_def time_Unix_def Unix_def Minute_def Second_def)
qed

lemma verifyClaims_signed:
  assumes "json_round_trip J claims" and "accepted_secret v now secret"
  shows "verifyClaims J v now (signClaims J claims secret) =
    (case validateRequiredClaims claims (v_issuer v) (v_audience v) now (v_clockSkew v) of
       Inl e \<Rightarrow> Inl e | Inr _ \<Rightarrow> Inr claims)"
proof -
  let ?h = "RawURLEncoding_EncodeToString header_json"
  let ?b = "RawURLEncoding_EncodeToString (marshal_claims J claims)"
  let ?s = "RawURLEncoding_EncodeToString (hmac_sha256 secret (?h @ ''.'' @ ?b))"
  have split: "SplitChar CHR ''.'' (signClaims J claims secret) = [?h, ?b, ?s]"
    unfolding signClaims_def Let_def by (rule SplitChar_token) (rule RawURL_no_dot)+
  have "signed_under secret (?h @ ''.'' @ ?b) ?s" by (simp add: signed_under_def)
  with assms show ?thesis
    unfolding verifyClaims_def split
    by (auto simp: json_round_trip_def verifySignature_iff accepted_secret_def Let_def)
qed

section \<open>The properties\<close>

text \<open>C2: \<open>Verify\<close> accepts a token exactly when it has three parts, its header decodes and names HS256,
  its signature is the HMAC of header and body under the secret of the current month (or of the previous
  month, within the window after the month boundary), and its body decodes to well-formed claims of the
  verifier's issuer and audience that are valid at this time up to the clock skew; the principal
  returned is the one the claims name.\<close>

theorem verify_accepts_iff:
  "Verify J v now token = Inr p \<longleftrightarrow>
    (\<exists>h b s hd bs c secret. SplitChar CHR ''.'' token = [h, b, s]
       \<and> RawURLEncoding_DecodeString h = Some hd \<and> unmarshal_alg J hd = Some ''HS256''
       \<and> (secret = DeriveSecret (v_secret v) now
          \<or> InPreviousPeriodWindow now (wrap64 (v_ttl v + v_clockSkew v)) \<and> secret = previousPeriodSecret (v_secret v) now)
       \<and> RawURLEncoding_DecodeString s = Some (hmac_sha256 secret (h @ ''.'' @ b))
       \<and> RawURLEncoding_DecodeString b = Some bs \<and> unmarshal_claims J bs = Some c \<and> p = principal_of_claims c
       \<and> c_Issuer c = v_issuer v \<and> c_Audience c = v_audience v \<and> well_formed_claims c
       \<and> (IsZero now \<or> timely c now (v_clockSkew v)))"
proof -
  have "Verify J v now token = Inr p \<longleftrightarrow> (\<exists>c. verifyClaims J v now token = Inr c \<and> p = principal_of_claims c)"
    by (auto simp: Verify_def split: sum.splits)
  then show ?thesis
    unfolding verifyClaims_Inr_iff validateRequiredClaims_ok_iff accepted_secret_def signed_under_def signingAlgHS256_def
    by (simp only:) blast
qed

text \<open>C3: A token the signer issued is accepted, and yields the principal of its claims, by every verifier
  with the same master secret, issuer and audience, from its issue time to its expiry (both widened by
  the verifier's clock skew), also across a month boundary, where the derived secret changes: as long as
  the verifier's clock is not in an earlier month than the signer's and the verifier's lifetime setting
  is at least the token's.\<close>

theorem sign_verify_round_trip:
  assumes "Sign J clock rnd sg inp = Inr (token, claims)" and "json_round_trip J claims"
    and "v_secret v = sg_secret sg" and "v_issuer v = c_Issuer claims" and "v_audience v = c_Audience claims"
    and "sign_ttl sg inp \<le> v_ttl v" and "v_ttl v + v_clockSkew v \<le> 28 * day_length"
    and "period_of (sign_time clock inp) \<le> period_of now"
    and "sign_time clock inp \<le> now + v_clockSkew v"
    and "now \<le> time_Unix (c_ExpiresAt claims) + v_clockSkew v"
  shows "Verify J v now token = Inr (principal_of_claims claims)"
  using assms by (rule Verify_Sign)

theorem sign_verify_round_trip_witness:
  "\<exists>token. Sign (ex_codec ex_signed) ex_time [] ex_jwt_signer ex_jwt_input = Inr (token, ex_signed)
    \<and> Verify (ex_codec ex_signed) ex_jwt_verifier (ex_time + Minute) token = Inr (principal_of_claims ex_signed)"
proof -
  obtain token where s: "Sign (ex_codec ex_signed) ex_time [] ex_jwt_signer ex_jwt_input = Inr (token, ex_signed)"
    using ex_Sign by blast
  have "Verify (ex_codec ex_signed) ex_jwt_verifier (ex_time + Minute) token = Inr (principal_of_claims ex_signed)"
  proof (rule sign_verify_round_trip [OF s ex_codec_round_trip])
    show "period_of (sign_time ex_time ex_jwt_input) \<le> period_of (ex_time + Minute)"
      by (rule period_of_mono) (simp add: ex_times Minute_def Second_def)
  qed (simp_all add: ex_times ex_claims_fields del: sign_claims_simps,
      simp_all add: ex_jwt_verifier_def ex_jwt_signer_def Minute_def Second_def day_length_def Hour_def)
  with s show ?thesis by blast
qed

text \<open>Once the expiry of a token lies more than the clock skew in the past, the token is refused as
  expired, by a verifier that still derives the same secret.\<close>

theorem expired_token_refused:
  assumes "Sign J clock rnd sg inp = Inr (token, claims)" and "json_round_trip J claims"
    and "v_secret v = sg_secret sg" and "v_issuer v = c_Issuer claims" and "v_audience v = c_Audience claims"
    and "period_of (sign_time clock inp) = period_of now" and "\<not> IsZero now"
    and "time_Unix (c_ExpiresAt claims) + v_clockSkew v < now"
  shows "Verify J v now token = Inl ErrExpired"
proof -
  have "accepted_secret v now (DeriveSecret (sg_secret sg) (sign_time clock inp))"
    using assms(3) by (simp add: accepted_secret_def DeriveSecret_same_period [OF assms(6)])
  then show ?thesis
    using Sign_Inr [OF assms(1)] assms
    by (simp add: Verify_def verifyClaims_signed validateRequiredClaims_expired)
qed

theorem expired_token_refused_witness:
  "\<exists>token. Sign (ex_codec ex_signed) ex_time [] ex_jwt_signer ex_jwt_input = Inr (token, ex_signed)
    \<and> Verify (ex_codec ex_signed) ex_jwt_verifier (ex_time + 6 * Minute) token = Inl ErrExpired"
proof -
  obtain token where s: "Sign (ex_codec ex_signed) ex_time [] ex_jwt_signer ex_jwt_input = Inr (token, ex_signed)"
    using ex_Sign by blast
  have "period_of ex_time = period_of (ex_time + 6 * Minute)" "\<not> IsZero (ex_time + 6 * Minute)" by code_simp+
  then have "Verify (ex_codec ex_signed) ex_jwt_verifier (ex_time + 6 * Minute) token = Inl ErrExpired"
    by (intro expired_token_refused [OF s ex_codec_round_trip])
      (simp_all add: ex_times ex_claims_fields del: sign_claims_simps,
        simp_all add: ex_jwt_verifier_def ex_jwt_signer_def Minute_def Second_def)
  with s show ?thesis by blast
qed

text \<open>The signer signs a request exactly when it names a tenant, a principal type and a principal, has
  no half-filled resource, and its issue and expiry times are after the Unix epoch and in order; the
  claims it signs then are well formed and carry the trimmed fields of the request.\<close>

theorem signer_signs_iff:
  assumes "1 \<le> Unix (sign_time clock inp)" and "Second \<le> sign_ttl sg inp"
  shows "(case Sign J clock rnd sg inp of
      Inr (token, claims) \<Rightarrow> signable inp \<and> well_formed_claims claims
        \<and> c_PrincipalID claims = TrimSpace (in_PrincipalID inp) \<and> c_TenantID claims = TrimSpace (in_TenantID inp)
        \<and> c_Audience claims = TrimSpace (in_Audience inp)
        \<and> set (c_Scopes claims) = TrimSpace ` set (in_Scopes inp) - {[]}
        \<and> c_ExpiresAt claims = Unix (sign_time clock inp + sign_ttl sg inp)
    | Inl e \<Rightarrow> \<not> signable inp \<and> e = ErrInvalidClaims)"
proof -
  let ?t = "sign_time clock inp" and ?u = "sign_time clock inp + sign_ttl sg inp"
  have u: "?t \<le> time_Unix (Unix ?u)" using Unix_gt [of ?u] assms(2) by simp
  have "Unix ?t \<le> Unix ?u" using assms(2) by (simp add: Unix_def Second_def zdiv_mono1)
  then have iff: "(\<exists>r. Sign J clock rnd sg inp = Inr r) \<longleftrightarrow> signable inp"
    unfolding Sign_Inr_iff using u assms(1) by auto
  show ?thesis
  proof (cases "Sign J clock rnd sg inp")
    case (Inl e)
    then have n: "\<not> signable inp" using iff by auto
    have "e = ErrInvalidClaims"
      using Inl n u time_Unix_Unix_le [of ?t] by (auto simp: Sign_def Let_def validateRequiredClaims_def After_def Before_def split: sum.splits if_splits option.splits)
    with n Inl show ?thesis by simp
  next
    case (Inr r)
    then obtain token claims where r: "Sign J clock rnd sg inp = Inr (token, claims)" by (cases r) auto
    then show ?thesis using iff Sign_Inr [OF r] by (auto simp: set_cleanStrings)
  qed
qed

theorem signer_signs_iff_witness:
  "\<exists>token claims. Sign (ex_codec ex_signed) ex_time [] ex_jwt_signer ex_jwt_input = Inr (token, claims)
    \<and> c_ExpiresAt claims = Unix (ex_time + 5 * Minute)"
proof -
  obtain token where s: "Sign (ex_codec ex_signed) ex_time [] ex_jwt_signer ex_jwt_input = Inr (token, ex_signed)"
    using ex_Sign by blast
  have "1 \<le> Unix (sign_time ex_time ex_jwt_input)" "Second \<le> sign_ttl ex_jwt_signer ex_jwt_input"
    by (simp_all add: ex_times, simp_all add: ex_time_def Minute_def Second_def)
  from signer_signs_iff [OF this, of "ex_codec ex_signed" "[]"] s show ?thesis by (simp add: ex_times)
qed

end
