(* ===== verification/Discovery_Instance.thy ===== *)
theory Discovery_Instance
  imports Go_URL Go_Time
begin

text \<open>
  Package \<open>discovery\<close>: the service instance (\<open>src/discovery/types.go\<close>) and \<open>Normalize\<close>
  (\<open>src/discovery/normalize.go\<close>), which every registrar applies before it announces an instance. The
  current time is an argument; it is used only when the instance was never seen.
\<close>

section \<open>Service instances\<close>

definition StatusPassing :: string where "StatusPassing = ''passing''"

record ServiceInstance =
  si_ID :: string
  si_Name :: string
  si_InstanceID :: string
  si_Scheme :: string
  si_Address :: string
  si_Port :: int
  si_BaseURL :: string
  si_Prefix :: string
  si_HealthPath :: string
  si_Audience :: string
  si_NativeRoute :: string
  si_Version :: string
  si_Status :: string
  si_Weight :: int
  si_Region :: string
  si_Zone :: string
  si_Tags :: "string list"
  si_Metadata :: "string gomap"
  si_StartedAt :: time
  si_LastSeenAt :: time
  si_TTL :: duration
  si_Source :: string

section \<open>Normalize\<close>

text \<open>The four parts of \<open>Normalize\<close>: trimming and defaults, the parts of a base URL, the base URL and the instance ID.\<close>

definition normalize_defaults :: "time \<Rightarrow> ServiceInstance \<Rightarrow> ServiceInstance" where
  "normalize_defaults now svc =
    (let scheme = TrimSpace (si_Scheme svc);
         health = (if si_HealthPath svc = [] then ''/healthz'' else si_HealthPath svc);
         lastSeen = (if IsZero (si_LastSeenAt svc) then now else si_LastSeenAt svc) in
     svc\<lparr>si_ID := TrimSpace (si_ID svc), si_Name := TrimSpace (si_Name svc),
       si_InstanceID := TrimSpace (si_InstanceID svc),
       si_Scheme := (if scheme = [] then ''http'' else scheme),
       si_Address := TrimSpace (si_Address svc),
       si_BaseURL := TrimRightChar (TrimSpace (si_BaseURL svc)) CHR ''/'',
       si_HealthPath := (if \<not> HasPrefix health ''/'' then ''/'' @ health else health),
       si_Status := (if si_Status svc = [] then StatusPassing else si_Status svc),
       si_Weight := (if si_Weight svc \<le> 0 then 100 else si_Weight svc),
       si_TTL := (if si_TTL svc \<le> 0 then 30 * Second else si_TTL svc),
       si_LastSeenAt := lastSeen,
       si_StartedAt := (if IsZero (si_StartedAt svc) then lastSeen else si_StartedAt svc)\<rparr>)"

definition normalize_from_url :: "ServiceInstance \<Rightarrow> ServiceInstance" where
  "normalize_from_url svc =
    (if si_BaseURL svc = [] then svc
     else (case Parse (si_BaseURL svc) of
       None \<Rightarrow> svc
     | Some u \<Rightarrow>
       if url_Host u = [] then svc
       else let svc = svc\<lparr>si_Scheme := url_Scheme u, si_Address := Hostname u\<rparr>
            in if Port u \<noteq> [] then svc\<lparr>si_Port := fst (Atoi (Port u))\<rparr> else svc))"

definition normalize_base_url :: "ServiceInstance \<Rightarrow> ServiceInstance" where
  "normalize_base_url svc =
    (if si_BaseURL svc = [] \<and> si_Address svc \<noteq> [] \<and> 0 < si_Port svc
     then svc\<lparr>si_BaseURL := si_Scheme svc @ ''://'' @ JoinHostPort (si_Address svc) (Itoa (si_Port svc))\<rparr>
     else svc)"

definition normalize_instance_id :: "ServiceInstance \<Rightarrow> ServiceInstance" where
  "normalize_instance_id svc =
    (if si_InstanceID svc = [] \<and> si_ID svc \<noteq> [] \<and> si_Address svc \<noteq> [] \<and> 0 < si_Port svc
     then svc\<lparr>si_InstanceID := si_ID svc @ ''-'' @ si_Address svc @ ''-'' @ Itoa (si_Port svc)\<rparr>
     else svc)"

definition Normalize :: "time \<Rightarrow> ServiceInstance \<Rightarrow> ServiceInstance res" where
  "Normalize now svc =
    Inr (normalize_instance_id (normalize_base_url (normalize_from_url (normalize_defaults now svc))))"

definition normalized :: "time \<Rightarrow> ServiceInstance \<Rightarrow> ServiceInstance" where
  "normalized now svc = normalize_instance_id (normalize_base_url (normalize_from_url (normalize_defaults now svc)))"

lemma Normalize_Inr [simp]: "Normalize now svc = Inr (normalized now svc)"
  by (simp add: Normalize_def normalized_def)

section \<open>What the parts change\<close>

lemma normalize_defaults_fields [simp]:
  "si_ID (normalize_defaults now svc) = TrimSpace (si_ID svc)"
  "si_Name (normalize_defaults now svc) = TrimSpace (si_Name svc)"
  "si_InstanceID (normalize_defaults now svc) = TrimSpace (si_InstanceID svc)"
  "si_Scheme (normalize_defaults now svc) = (if TrimSpace (si_Scheme svc) = [] then ''http'' else TrimSpace (si_Scheme svc))"
  "si_Address (normalize_defaults now svc) = TrimSpace (si_Address svc)"
  "si_Port (normalize_defaults now svc) = si_Port svc"
  "si_BaseURL (normalize_defaults now svc) = TrimRightChar (TrimSpace (si_BaseURL svc)) CHR ''/''"
  by (simp_all add: normalize_defaults_def Let_def)

lemma normalize_from_url_fields [simp]:
  "si_ID (normalize_from_url svc) = si_ID svc"
  "si_InstanceID (normalize_from_url svc) = si_InstanceID svc"
  "si_BaseURL (normalize_from_url svc) = si_BaseURL svc"
  by (simp_all add: normalize_from_url_def Let_def split: option.split)

lemma normalize_base_url_fields [simp]:
  "si_ID (normalize_base_url svc) = si_ID svc"
  "si_InstanceID (normalize_base_url svc) = si_InstanceID svc"
  "si_Scheme (normalize_base_url svc) = si_Scheme svc"
  "si_Address (normalize_base_url svc) = si_Address svc"
  "si_Port (normalize_base_url svc) = si_Port svc"
  by (simp_all add: normalize_base_url_def)

lemma normalize_instance_id_fields [simp]:
  "si_ID (normalize_instance_id svc) = si_ID svc"
  "si_Scheme (normalize_instance_id svc) = si_Scheme svc"
  "si_Address (normalize_instance_id svc) = si_Address svc"
  "si_Port (normalize_instance_id svc) = si_Port svc"
  "si_BaseURL (normalize_instance_id svc) = si_BaseURL svc"
  by (simp_all add: normalize_instance_id_def)

text \<open>
  The invariant of an announced instance: every default is in place, and an instance with an address
  and a port has a base URL and, when it has an ID, an instance ID.
\<close>

definition announced :: "ServiceInstance \<Rightarrow> bool" where
  "announced svc \<longleftrightarrow> HasPrefix (si_HealthPath svc) ''/'' \<and> si_Status svc \<noteq> [] \<and> 0 < si_Weight svc \<and> 0 < si_TTL svc
     \<and> \<not> IsZero (si_LastSeenAt svc) \<and> \<not> IsZero (si_StartedAt svc)
     \<and> (si_Address svc \<noteq> [] \<and> 0 < si_Port svc \<longrightarrow> si_BaseURL svc \<noteq> [] \<and> (si_ID svc \<noteq> [] \<longrightarrow> si_InstanceID svc \<noteq> []))"

lemma defaults_stay:
  "si_HealthPath (normalized now svc) = si_HealthPath (normalize_defaults now svc)"
  "si_Status (normalized now svc) = si_Status (normalize_defaults now svc)"
  "si_Weight (normalized now svc) = si_Weight (normalize_defaults now svc)"
  "si_TTL (normalized now svc) = si_TTL (normalize_defaults now svc)"
  "si_LastSeenAt (normalized now svc) = si_LastSeenAt (normalize_defaults now svc)"
  "si_StartedAt (normalized now svc) = si_StartedAt (normalize_defaults now svc)"
  by (simp_all add: normalized_def normalize_instance_id_def normalize_base_url_def normalize_from_url_def
      Let_def split: option.split)

lemma defaults_in_place:
  assumes "\<not> IsZero now"
  shows "HasPrefix (si_HealthPath (normalize_defaults now svc)) ''/''"
    "si_Status (normalize_defaults now svc) \<noteq> []" "0 < si_Weight (normalize_defaults now svc)"
    "0 < si_TTL (normalize_defaults now svc)" "\<not> IsZero (si_LastSeenAt (normalize_defaults now svc))"
    "\<not> IsZero (si_StartedAt (normalize_defaults now svc))"
  using assms by (auto simp: normalize_defaults_def Let_def StatusPassing_def HasPrefix_def)

lemma normalized_announced:
  assumes "\<not> IsZero now"
  shows "announced (normalized now svc)"
proof -
  have "si_BaseURL (normalized now svc) \<noteq> []"
    if "si_Address (normalized now svc) \<noteq> []" "0 < si_Port (normalized now svc)"
    using that by (auto simp: normalized_def normalize_base_url_def)
  moreover have "si_InstanceID (normalized now svc) \<noteq> []"
    if "si_Address (normalized now svc) \<noteq> []" "0 < si_Port (normalized now svc)" "si_ID (normalized now svc) \<noteq> []"
    using that by (auto simp: normalized_def normalize_instance_id_def)
  ultimately show ?thesis
    using defaults_in_place [OF assms] by (simp add: announced_def defaults_stay)
qed

section \<open>Normalizing twice\<close>

text \<open>
  An instance is normalized by \<open>Start\<close> and again by the \<open>Refresh\<close> of the registrar. The second time
  changes nothing when the base URL has no white space before the slashes that are cut, or when the
  instance is given by a scheme, a host name and a port.
\<close>

definition clean_location :: "ServiceInstance \<Rightarrow> bool" where
  "clean_location svc \<longleftrightarrow>
    (let b = TrimRightChar (TrimSpace (si_BaseURL svc)) CHR ''/''; s = TrimSpace (si_Scheme svc) in
     if b \<noteq> [] then TrimSpace b = b
     else plain_scheme (if s = [] then ''http'' else s) \<and> plain_host (TrimSpace (si_Address svc))
        \<and> 0 < si_Port svc \<and> si_Port svc < 2 ^ 63)"

lemma TrimRightChar_idem [simp]: "TrimRightChar (TrimRightChar s c) c = TrimRightChar s c"
  by (simp add: TrimRightChar_def)

lemma TrimRightChar_last: "d \<noteq> c \<Longrightarrow> TrimRightChar (s @ [d]) c = s @ [d]"
  by (simp add: TrimRightChar_def)

lemma digit_no_space: "is_digit c \<Longrightarrow> c \<notin> space_bytes \<and> c \<noteq> CHR ''/'' \<and> c \<noteq> CHR '':''"
  by (auto simp: is_digit_def space_bytes_def space_runes_def)

lemma Itoa_pos:
  assumes "0 < p"
  obtains ds d where "Itoa p = ds @ [d]" and "is_digit d" and "all_digits (Itoa p)" and "dec_value (Itoa p) = nat p"
proof -
  have I: "Itoa p = nat_digits (nat p)" using assms by (simp add: Itoa_def)
  then have "Itoa p = butlast (Itoa p) @ [last (Itoa p)]" "is_digit (last (Itoa p))"
    using nat_digits_digits [of "nat p"] by (simp_all add: list_all_iff)
  with I show thesis using that by simp
qed

lemma instance_id_trimmed:
  assumes "TrimSpace i = i" and "i \<noteq> []" and "0 < p"
  shows "TrimSpace (i @ ''-'' @ a @ ''-'' @ Itoa p) = i @ ''-'' @ a @ ''-'' @ Itoa p"
proof -
  obtain ds d where p: "Itoa p = ds @ [d]" "is_digit d" using Itoa_pos [OF assms(3)] by metis
  have "TrimSpace (i @ CHR ''-'' # (a @ ''-'' @ ds) @ [d]) = i @ CHR ''-'' # (a @ ''-'' @ ds) @ [d]"
    using assms digit_no_space [OF p(2)]
    by (intro TrimSpace_extend) (simp_all add: space_bytes_def space_runes_def)
  with p show ?thesis by simp
qed

lemma instance_id_again:
  "TrimSpace (si_InstanceID (normalized now svc)) = si_InstanceID (normalized now svc)"
  using instance_id_trimmed [of "TrimSpace (si_ID svc)"]
  by (auto simp: normalized_def normalize_instance_id_def)

text \<open>The second application changes at most the scheme and the address before it looks at the base URL.\<close>

lemma defaults_again:
  assumes now: "\<not> IsZero now" and n: "n = normalized now svc"
    and b: "TrimRightChar (TrimSpace (si_BaseURL n)) CHR ''/'' = si_BaseURL n"
  shows "normalize_defaults now' n =
    n\<lparr>si_Scheme := (if TrimSpace (si_Scheme n) = [] then ''http'' else TrimSpace (si_Scheme n)),
      si_Address := TrimSpace (si_Address n)\<rparr>"
proof -
  note a = normalized_announced [OF now, of svc, folded n, unfolded announced_def]
  have ids: "TrimSpace (si_ID n) = si_ID n" "TrimSpace (si_InstanceID n) = si_InstanceID n"
    unfolding n instance_id_again by (simp_all add: normalized_def)
  have "si_Name n = TrimSpace (si_Name svc)"
    by (simp add: n normalized_def normalize_instance_id_def normalize_base_url_def normalize_from_url_def Let_def
        split: option.split)
  then have "TrimSpace (si_Name n) = si_Name n" by simp
  with a b ids show ?thesis
    by (intro ServiceInstance.equality) (auto simp: normalize_defaults_def Let_def HasPrefix_def)
qed

lemma finish_again:
  assumes "\<not> IsZero now" and "n = normalized now svc" and "si_BaseURL n \<noteq> []"
    and "normalize_from_url (normalize_defaults now' n) = n"
  shows "normalized now' n = n"
proof -
  have "normalize_base_url n = n" using assms(3) by (simp add: normalize_base_url_def)
  moreover have "normalize_instance_id n = n"
    using normalized_announced [OF assms(1), of svc, folded assms(2)]
    by (auto simp: announced_def normalize_instance_id_def)
  ultimately show ?thesis using assms(4) by (simp add: normalized_def [of now' n])
qed

lemma normalized_from_url:
  assumes "si_BaseURL (normalize_defaults now svc) \<noteq> []"
  shows "normalized now svc = normalize_instance_id (normalize_from_url (normalize_defaults now svc))"
  using assms by (simp add: normalized_def normalize_base_url_def)

lemma plain_hosts:
  assumes "plain_host a"
  shows "CHR '':'' \<notin> set a" "\<not> HasPrefix a ''[''" "TrimSpace a = a" "a \<noteq> []"
proof -
  have c: "c \<in> set a \<Longrightarrow> c \<noteq> CHR '':'' \<and> c \<noteq> CHR ''['' \<and> c \<notin> space_bytes" for c
    using assms by (auto simp: plain_host_def list_all_iff is_alpha_def is_upper_def is_lower_def is_digit_def
        space_bytes_def space_runes_def)
  then show "CHR '':'' \<notin> set a" "\<not> HasPrefix a ''[''" by (blast, cases a) (auto simp: HasPrefix_def)
  show "TrimSpace a = a" using c by (intro TrimSpace_fixed) blast
  show "a \<noteq> []" using assms by (simp add: plain_host_def)
qed

lemma splitHostPort_plain:
  assumes "plain_host a" and "all_digits d"
  shows "splitHostPort (a @ '':'' @ d) = (a, d)"
proof -
  have "CHR '':'' \<notin> set d" using assms(2) by (auto simp: all_digits_def list_all_iff is_digit_def)
  then have "cut_last CHR '':'' (a @ '':'' @ d) = Some (a, d)" by (simp add: cut_last_append)
  with assms plain_hosts [OF assms(1)] show ?thesis by (simp add: splitHostPort_def all_digits_def)
qed

lemma built_url:
  assumes s: "plain_scheme s" and a: "plain_host a" and p: "0 < p" "p < 2 ^ 63"
  defines "u \<equiv> s @ ''://'' @ JoinHostPort a (Itoa p)"
  shows "Parse u = Some (empty_URL\<lparr>url_Scheme := s, url_Host := a @ '':'' @ Itoa p\<rparr>)"
    and "TrimRightChar (TrimSpace u) CHR ''/'' = u" and "u \<noteq> []" and "fst (Atoi (Itoa p)) = p" and "Itoa p \<noteq> []"
proof -
  obtain ds d where d: "Itoa p = ds @ [d]" "is_digit d" "all_digits (Itoa p)" using Itoa_pos [OF p(1)] by metis
  have u: "u = s @ ''://'' @ a @ '':'' @ Itoa p"
    using plain_hosts(1) [OF a] by (simp add: u_def JoinHostPort_def)
  show "Parse u = Some (empty_URL\<lparr>url_Scheme := s, url_Host := a @ '':'' @ Itoa p\<rparr>)"
    using Parse_host_port [OF s a d(3)] by (simp add: u)
  have "c \<in> set s \<Longrightarrow> c \<notin> space_bytes" for c
    using s by (auto simp: plain_scheme_def list_all_iff is_lower_def is_digit_def space_bytes_def space_runes_def)
  then have "TrimSpace s = s" by (intro TrimSpace_fixed) blast
  then have "TrimSpace (s @ CHR '':'' # (''//'' @ a @ '':'' @ ds) @ [d]) = s @ CHR '':'' # (''//'' @ a @ '':'' @ ds) @ [d]"
    using s digit_no_space [OF d(2)]
    by (intro TrimSpace_extend) (simp_all add: plain_scheme_def space_bytes_def space_runes_def)
  moreover have eq: "u = (s @ CHR '':'' # ''//'' @ a @ '':'' @ ds) @ [d]" by (simp add: u d(1))
  ultimately have "TrimSpace u = u" by simp
  then show "TrimRightChar (TrimSpace u) CHR ''/'' = u"
    using digit_no_space [OF d(2)] TrimRightChar_last [of d "CHR ''/''"] by (metis eq)
  show "u \<noteq> []" by (simp add: u)
  show "fst (Atoi (Itoa p)) = p" using p by (simp add: Atoi_Itoa)
  show "Itoa p \<noteq> []" using d(1) by simp
qed

lemma normalized_again:
  assumes now: "\<not> IsZero now" and clean: "clean_location svc"
  shows "normalized now' (normalized now svc) = normalized now svc"
proof (cases "si_BaseURL (normalize_defaults now svc) = []")
  case False
  define d where "d = normalize_defaults now svc"
  define f where "f = normalize_from_url d"
  define n where "n = normalized now svc"
  have n: "n = normalize_instance_id f"
    using False normalized_from_url by (simp add: n_def f_def d_def)
  have b: "si_BaseURL n \<noteq> []" "TrimRightChar (TrimSpace (si_BaseURL n)) CHR ''/'' = si_BaseURL n"
    using False clean by (simp_all add: n f_def d_def clean_location_def Let_def)
  note n2 = defaults_again [OF now n_def b(2)]
  have d: "si_Scheme d \<noteq> []" "TrimSpace (si_Scheme d) = si_Scheme d" "TrimSpace (si_Address d) = si_Address d"
    by (simp_all add: d_def) (simp add: TrimSpace_fixed space_bytes_def space_runes_def)
  have "normalize_from_url (normalize_defaults now' n) = n"
  proof (cases "\<exists>u. Parse (si_BaseURL d) = Some u \<and> url_Host u \<noteq> []")
    case True
    then obtain u where u: "Parse (si_BaseURL d) = Some u" "url_Host u \<noteq> []" by blast
    have "si_BaseURL d \<noteq> []" using False by (simp add: d_def)
    with u have "si_Scheme n = url_Scheme u" "si_Address n = Hostname u"
        "Port u \<noteq> [] \<Longrightarrow> si_Port n = fst (Atoi (Port u))" "si_BaseURL n = si_BaseURL d"
      by (simp_all add: n f_def normalize_from_url_def Let_def)
    with u b(1) show ?thesis unfolding n2
      by (intro ServiceInstance.equality) (simp_all add: normalize_from_url_def Let_def)
  next
    case False
    then have "f = d" by (auto simp: f_def normalize_from_url_def split: option.split)
    then have "si_Scheme n = si_Scheme d" "si_Address n = si_Address d" "si_BaseURL n = si_BaseURL d"
      by (simp_all add: n)
    with d have "normalize_defaults now' n = n" unfolding n2 by simp
    moreover have "normalize_from_url n = n"
      using False \<open>si_BaseURL n = si_BaseURL d\<close> by (auto simp: normalize_from_url_def split: option.split)
    ultimately show ?thesis by simp
  qed
  then show ?thesis using finish_again [OF now n_def b(1)] by (simp add: n_def)
next
  case True
  define s where "s = (if TrimSpace (si_Scheme svc) = [] then ''http'' else TrimSpace (si_Scheme svc))"
  define a where "a = TrimSpace (si_Address svc)"
  define p where "p = si_Port svc"
  define n where "n = normalized now svc"
  have c: "plain_scheme s" "plain_host a" "0 < p" "p < 2 ^ 63"
    using clean True by (simp_all add: clean_location_def Let_def s_def a_def p_def)
  note u = built_url [OF c]
  have n: "si_Scheme n = s" "si_Address n = a" "si_Port n = p" "si_BaseURL n = s @ ''://'' @ JoinHostPort a (Itoa p)"
    using True c plain_hosts(4) [OF c(2)]
    by (simp_all add: n_def normalized_def normalize_from_url_def normalize_base_url_def s_def a_def p_def)
  have t: "TrimSpace s = s" "TrimSpace a = a" "s \<noteq> []"
    by (simp_all add: s_def a_def) (simp add: TrimSpace_fixed space_bytes_def space_runes_def)
  have d: "normalize_defaults now' n = n"
    using defaults_again [OF now n_def] u(2) n t by (simp add: t)
  have digits: "all_digits (Itoa p)" using Itoa_pos [OF c(3)] by metis
  have "normalize_from_url n = n"
    using u(1,3,4,5) splitHostPort_plain [OF c(2) digits]
    by (intro ServiceInstance.equality) (simp_all add: normalize_from_url_def Let_def n Hostname_def Port_def)
  with d show ?thesis using finish_again [OF now n_def] u(3) n(4) by (simp add: n_def)
qed

end
