(* ===== verification/Discovery_Mdns.thy ===== *)
theory Discovery_Mdns
  imports Discovery_Instance
begin

text \<open>
  The mDNS registrar (\<open>src/discovery/mdns.go\<close>): the announcement packet as bytes, and the registrar
  as a state machine over its socket. The socket is a parameter: the outcomes of the calls that open,
  write and close it. A reader of DNS messages (RFC 1035, without name compression) is the reference
  the encoder is compared with.
\<close>

section \<open>Configuration\<close>

type_synonym u16 = "16 word"

definition typeA :: u16 where "typeA = 1"
definition typePTR :: u16 where "typePTR = 12"
definition typeTXT :: u16 where "typeTXT = 16"
definition typeSRV :: u16 where "typeSRV = 33"
definition classIN :: u16 where "classIN = 1"

record MDNSConfig =
  mc_ServiceType :: string
  mc_Domain :: string

definition mdns_defaults :: "MDNSConfig \<Rightarrow> MDNSConfig" where
  "mdns_defaults cfg =
    (let cfg = (if mc_ServiceType cfg = [] then cfg\<lparr>mc_ServiceType := ''_saker._tcp''\<rparr> else cfg)
     in if mc_Domain cfg = [] then cfg\<lparr>mc_Domain := ''local.''\<rparr> else cfg)"

section \<open>The announcement packet\<close>

definition AppendUint16 :: "string \<Rightarrow> u16 \<Rightarrow> string" where
  "AppendUint16 out x = out @ be_bytes 2 (uint x)"

definition AppendUint32 :: "string \<Rightarrow> u32 \<Rightarrow> string" where
  "AppendUint32 out x = out @ be_bytes 4 (uint x)"

definition mustName :: "string \<Rightarrow> string" where
  "mustName name =
    concat (map (\<lambda>label. byte (length (take 63 label)) # take 63 label)
      (SplitChar CHR ''.'' (TrimSuffix name ''.''))) @ [byte 0]"

definition appendRRHeader :: "string \<Rightarrow> string \<Rightarrow> u16 \<Rightarrow> u32 \<Rightarrow> nat \<Rightarrow> string" where
  "appendRRHeader out name typ ttl rdlen =
    (let out = out @ mustName name;
         out = AppendUint16 out typ;
         out = AppendUint16 out (classIN OR 0x8000);
         out = AppendUint32 out ttl
     in AppendUint16 out (of_nat rdlen))"

definition appendRRName :: "string \<Rightarrow> string \<Rightarrow> u16 \<Rightarrow> u32 \<Rightarrow> string \<Rightarrow> string" where
  "appendRRName out name typ ttl target = appendRRHeader out name typ ttl (length target) @ target"

definition appendSRV :: "string \<Rightarrow> string \<Rightarrow> u32 \<Rightarrow> int \<Rightarrow> string \<Rightarrow> string" where
  "appendSRV out name ttl port host =
    (let target = mustName host;
         rdata = replicate 4 (byte 0) @ be_bytes 2 (uint (word_of_int port :: u16)) @ target
     in appendRRHeader out name typeSRV ttl (length rdata) @ rdata)"

definition txt_rdata :: "string list \<Rightarrow> string" where
  "txt_rdata txt = concat (map (\<lambda>entry. byte (length (take 255 entry)) # take 255 entry) txt)"

definition appendTXT :: "string \<Rightarrow> string \<Rightarrow> u32 \<Rightarrow> string list \<Rightarrow> string" where
  "appendTXT out name ttl txt =
    (let rdata = txt_rdata txt in appendRRHeader out name typeTXT ttl (length rdata) @ rdata)"

definition appendA :: "string \<Rightarrow> string \<Rightarrow> u32 \<Rightarrow> string \<Rightarrow> string" where
  "appendA out name ttl ip = appendRRHeader out name typeA ttl 4 @ ip"

definition serviceFQDN :: "MDNSConfig \<Rightarrow> string" where
  "serviceFQDN cfg = TrimSuffix (mc_ServiceType cfg) ''.'' @ ''.''
     @ TrimLeftChar (TrimRightChar (TrimSuffix (mc_Domain cfg) ''.'') CHR ''.'') CHR ''.'' @ ''.''"

definition dnsInstanceName :: "MDNSConfig \<Rightarrow> ServiceInstance \<Rightarrow> string" where
  "dnsInstanceName cfg svc =
    (let name = (if si_Name svc = [] then si_ID svc else si_Name svc)
     in ReplaceAllChar CHR ''.'' ''-'' name @ ''.'' @ serviceFQDN cfg)"

definition dns_host :: "ServiceInstance \<Rightarrow> string" where
  "dns_host svc = ReplaceAllChar CHR ''.'' ''-'' (si_ID svc) @ ''.local.''"

definition serviceTXT :: "ServiceInstance \<Rightarrow> string list" where
  "serviceTXT svc =
    [''id='' @ si_ID svc, ''name='' @ si_Name svc, ''scheme='' @ si_Scheme svc, ''prefix='' @ si_Prefix svc,
     ''health='' @ si_HealthPath svc, ''audience='' @ si_Audience svc, ''native_route='' @ si_NativeRoute svc,
     ''version='' @ si_Version svc, ''status='' @ si_Status svc, ''weight='' @ Itoa (si_Weight svc)]"

definition announced_ip :: "ServiceInstance \<Rightarrow> string" where
  "announced_ip svc = (case ParseIP_To4 (si_Address svc) of
     None \<Rightarrow> [byte 127, byte 0, byte 0, byte 1] | Some ip \<Rightarrow> ip)"

definition buildAnnouncement :: "MDNSConfig \<Rightarrow> ServiceInstance \<Rightarrow> string" where
  "buildAnnouncement cfg svc =
    (let service = serviceFQDN cfg; inst = dnsInstanceName cfg svc; host = dns_host svc; ip = announced_ip svc;
         out = map byte [0, 0, 0x84, 0, 0, 0, 0, 4, 0, 0, 0, 0];
         out = appendRRName out service typePTR 120 (mustName inst);
         out = appendSRV out inst 120 (si_Port svc) host;
         out = appendTXT out inst 120 (serviceTXT svc)
     in appendA out host 120 ip)"

section \<open>A reader of DNS messages\<close>

text \<open>A domain name is its list of labels; a label has 1 to 63 bytes.\<close>

function read_name :: "string \<Rightarrow> (string list \<times> string) option" where
  "read_name s =
    (case s of
       [] \<Rightarrow> None
     | c # s' \<Rightarrow>
       if byte_val c = 0 then Some ([], s')
       else if 63 < byte_val c \<or> length s' < byte_val c then None
       else map_option (\<lambda>(ls, rest). (take (byte_val c) s' # ls, rest)) (read_name (drop (byte_val c) s')))"
  by pat_completeness auto
termination by (relation "measure length") auto

declare read_name.simps [simp del]

definition be_value :: "string \<Rightarrow> nat" where
  "be_value s = foldl (\<lambda>n c. 256 * n + byte_val c) 0 s"

record dns_rr =
  rr_name :: "string list"
  rr_type :: nat
  rr_class :: nat
  rr_ttl :: nat
  rr_data :: string

definition read_rr :: "string \<Rightarrow> (dns_rr \<times> string) option" where
  "read_rr s =
    (case read_name s of
       None \<Rightarrow> None
     | Some (name, t) \<Rightarrow>
       if length t < 10 then None
       else let n = be_value (take 2 (drop 8 t)); rest = drop 10 t in
         if length rest < n then None
         else Some (\<lparr>rr_name = name, rr_type = be_value (take 2 t), rr_class = be_value (take 2 (drop 2 t)),
                rr_ttl = be_value (take 4 (drop 4 t)), rr_data = take n rest\<rparr>, drop n rest))"

fun read_rrs :: "nat \<Rightarrow> string \<Rightarrow> (dns_rr list \<times> string) option" where
  "read_rrs 0 s = Some ([], s)"
| "read_rrs (Suc k) s = (case read_rr s of None \<Rightarrow> None
     | Some (rr, rest) \<Rightarrow> map_option (\<lambda>(rrs, rest'). (rr # rrs, rest')) (read_rrs k rest))"

text \<open>A response: its identifier, its flags and its answers, when it has no question and no further section.\<close>

definition read_response :: "string \<Rightarrow> (nat \<times> nat \<times> dns_rr list) option" where
  "read_response s =
    (if length s < 12 \<or> be_value (take 2 (drop 4 s)) \<noteq> 0 \<or> be_value (take 4 (drop 8 s)) \<noteq> 0 then None
     else (case read_rrs (be_value (take 2 (drop 6 s))) (drop 12 s) of
       Some (rrs, []) \<Rightarrow> Some (be_value (take 2 s), be_value (take 2 (drop 2 s)), rrs)
     | _ \<Rightarrow> None))"

text \<open>Character strings of a TXT record.\<close>

function read_strings :: "string \<Rightarrow> string list option" where
  "read_strings s =
    (case s of
       [] \<Rightarrow> Some []
     | c # s' \<Rightarrow> if length s' < byte_val c then None
       else map_option (\<lambda>ls. take (byte_val c) s' # ls) (read_strings (drop (byte_val c) s')))"
  by pat_completeness auto
termination by (relation "measure length") auto

declare read_strings.simps [simp del]

section \<open>Reading what was encoded\<close>

definition labels :: "string \<Rightarrow> string list" where
  "labels name = map (take 63) (SplitChar CHR ''.'' (TrimSuffix name ''.''))"

lemma mustName_labels: "mustName name = concat (map (\<lambda>l. byte (length l) # l) (labels name)) @ [byte 0]"
  by (simp add: mustName_def labels_def comp_def)

lemma read_name_labels:
  "(\<And>l. l \<in> set ls \<Longrightarrow> l \<noteq> [] \<and> length l \<le> 63) \<Longrightarrow>
   read_name (concat (map (\<lambda>l. byte (length l) # l) ls) @ byte 0 # rest) = Some (ls, rest)"
proof (induction ls)
  case Nil
  then show ?case by (simp add: read_name.simps)
next
  case (Cons l ls)
  have l: "l \<noteq> []" "length l \<le> 63" using Cons.prems [of l] by simp_all
  have "read_name (concat (map (\<lambda>l. byte (length l) # l) ls) @ byte 0 # rest) = Some (ls, rest)"
    using Cons by simp
  with l show ?case by (subst read_name.simps) simp
qed

lemma labels_short: "l \<in> set (labels name) \<Longrightarrow> length l \<le> 63"
  by (auto simp: labels_def)

lemma read_mustName:
  assumes "[] \<notin> set (labels name)"
  shows "read_name (mustName name @ rest) = Some (labels name, rest)"
  using assms labels_short [of _ name] read_name_labels [of "labels name" rest]
  by (auto simp: mustName_labels)

lemma be_value_append: "be_value (s @ t) = be_value s * 256 ^ length t + be_value t"
proof (induction t rule: rev_induct)
  case (snoc c t)
  have "be_value ((s @ t) @ [c]) = 256 * be_value (s @ t) + byte_val c" "be_value (t @ [c]) = 256 * be_value t + byte_val c"
    by (simp_all add: be_value_def)
  with snoc show ?case by (simp add: algebra_simps)
qed (simp add: be_value_def)

lemma be_value_bytes: "be_value (be_bytes n x) = nat (x mod 256 ^ n)"
proof (induction n arbitrary: x)
  case 0
  then show ?case by (simp add: be_value_def)
next
  case (Suc n)
  have "(of_char (char_of (x mod 256) :: char) :: nat) = nat (x mod 256)"
    by (metis nat_of_char of_char_of mod_mod_trivial)
  then have "be_value [char_of (x mod 256)] = nat (x mod 256)" by (simp add: be_value_def)
  moreover have "x mod 256 ^ Suc n = (x div 256) mod 256 ^ n * 256 + x mod 256"
    using zmod_zmult2_eq [of "256 ^ n" x 256] by simp
  ultimately show ?case
    using Suc [of "x div 256"] by (simp add: be_value_append nat_add_distrib nat_mult_distrib)
qed

lemma be_value_word:
  "be_value (be_bytes 2 (uint (x :: u16))) = unat x" "be_value (be_bytes 4 (uint (y :: u32))) = unat y"
  using uint_bounded [of x] uint_bounded [of y] by (simp_all add: be_value_bytes)

lemma read_rr_header:
  assumes "[] \<notin> set (labels name)" and "length rdata < 65536"
  shows "read_rr (appendRRHeader [] name ty ttl (length rdata) @ rdata @ rest) =
    Some (\<lparr>rr_name = labels name, rr_type = unat ty, rr_class = 0x8001, rr_ttl = unat ttl, rr_data = rdata\<rparr>, rest)"
proof -
  let ?t = "be_bytes 2 (uint ty) @ be_bytes 2 (uint (classIN OR 0x8000)) @ be_bytes 4 (uint ttl)
    @ be_bytes 2 (uint (of_nat (length rdata) :: u16)) @ rdata @ rest"
  have "appendRRHeader [] name ty ttl (length rdata) @ rdata @ rest = mustName name @ ?t"
    by (simp add: appendRRHeader_def AppendUint16_def AppendUint32_def Let_def)
  then have n: "read_name (appendRRHeader [] name ty ttl (length rdata) @ rdata @ rest) = Some (labels name, ?t)"
    using read_mustName [OF assms(1)] by simp
  have len: "unat (of_nat (length rdata) :: u16) = length rdata"
    using assms(2) by (simp add: unat_of_nat take_bit_nat_eq_self)
  have cls: "unat (classIN OR 0x8000) = 0x8001" by (simp add: classIN_def)
  show ?thesis
    by (simp only: read_rr_def n option.case prod.case Let_def) (simp add: be_value_word len cls del: be_bytes.simps)
qed

lemma appendRRHeader_out: "appendRRHeader out name typ ttl n = out @ appendRRHeader [] name typ ttl n"
  by (simp add: appendRRHeader_def AppendUint16_def AppendUint32_def Let_def)

lemma read_strings_Cons:
  "length w \<le> 255 \<Longrightarrow> read_strings (byte (length w) # w @ s) = map_option (\<lambda>ws. w # ws) (read_strings s)"
  by (subst read_strings.simps) simp

lemma read_txt_rdata: "read_strings (txt_rdata xs) = Some (map (take 255) xs)"
proof (induction xs)
  case Nil
  then show ?case by (simp add: txt_rdata_def read_strings.simps)
next
  case (Cons e xs)
  have "txt_rdata (e # xs) = byte (length (take 255 e)) # take 255 e @ txt_rdata xs"
    by (simp add: txt_rdata_def)
  with Cons show ?case using read_strings_Cons [of "take 255 e"] by simp
qed

section \<open>What a listener sees\<close>

record mdns_service =
  ms_service :: "string list"
  ms_instance :: "string list"
  ms_host :: "string list"
  ms_port :: nat
  ms_txt :: "string list"
  ms_ip :: string

text \<open>A response that announces one service: a pointer, its location, its attributes and the host's address.\<close>

definition read_service :: "string \<Rightarrow> mdns_service option" where
  "read_service s =
    (case read_response s of
       Some (_, flags, [ptr, srv, attrs, a]) \<Rightarrow>
         (case (read_name (rr_data ptr), read_name (drop 6 (rr_data srv)), read_strings (rr_data attrs)) of
            (Some (inst, []), Some (host, []), Some strings) \<Rightarrow>
              if flags = 0x8400 \<and> map rr_type [ptr, srv, attrs, a] = [12, 33, 16, 1]
                \<and> rr_name srv = inst \<and> rr_name attrs = inst \<and> rr_name a = host \<and> length (rr_data a) = 4
              then Some \<lparr>ms_service = rr_name ptr, ms_instance = inst, ms_host = host,
                ms_port = be_value (take 2 (drop 4 (rr_data srv))), ms_txt = strings, ms_ip = rr_data a\<rparr>
              else None
          | _ \<Rightarrow> None)
     | _ \<Rightarrow> None)"

text \<open>The names of an announcement have no empty label.\<close>

definition service_domain :: "MDNSConfig \<Rightarrow> string list" where
  "service_domain cfg = SplitChar CHR ''.'' (TrimSuffix (mc_ServiceType cfg) ''.'')
     @ SplitChar CHR ''.'' (TrimLeftChar (TrimRightChar (TrimSuffix (mc_Domain cfg) ''.'') CHR ''.'') CHR ''.'')"

definition instance_label :: "ServiceInstance \<Rightarrow> string" where
  "instance_label svc = ReplaceAllChar CHR ''.'' ''-'' (if si_Name svc = [] then si_ID svc else si_Name svc)"

lemma SplitChar_append_any: "SplitChar c (s @ c # t) = SplitChar c s @ SplitChar c t"
  by (induction s) (auto split: list.splits)

lemma TrimSuffix_dot: "TrimSuffix (s @ ''.'') ''.'' = s"
  by (simp add: TrimSuffix_def HasSuffix_def)

lemma ReplaceAllChar_absent: "c \<notin> set new \<Longrightarrow> c \<notin> set (ReplaceAllChar c new s)"
  by (auto simp: ReplaceAllChar_def)

lemma ReplaceAllChar_Nil_iff: "new \<noteq> [] \<Longrightarrow> ReplaceAllChar c new s = [] \<longleftrightarrow> s = []"
  by (cases s) (auto simp: ReplaceAllChar_def)

lemma SplitChar_prepend: "c \<notin> set x \<Longrightarrow> SplitChar c (x @ c # t) = x # SplitChar c t"
  by (rule SplitChar_append)

lemma labels_names:
  "labels (serviceFQDN cfg) = map (take 63) (service_domain cfg)"
  "labels (dnsInstanceName cfg svc) = take 63 (instance_label svc) # labels (serviceFQDN cfg)"
  "labels (dns_host svc) = [take 63 (ReplaceAllChar CHR ''.'' ''-'' (si_ID svc)), ''local'']"
proof -
  let ?A = "TrimSuffix (mc_ServiceType cfg) ''.''"
  let ?B = "TrimLeftChar (TrimRightChar (TrimSuffix (mc_Domain cfg) ''.'') CHR ''.'') CHR ''.''"
  let ?x = "instance_label svc" and ?y = "ReplaceAllChar CHR ''.'' ''-'' (si_ID svc)"
  have F: "serviceFQDN cfg = (?A @ CHR ''.'' # ?B) @ ''.''" by (simp add: serviceFQDN_def)
  have "TrimSuffix (serviceFQDN cfg) ''.'' = ?A @ CHR ''.'' # ?B" unfolding F by (rule TrimSuffix_dot)
  then show l: "labels (serviceFQDN cfg) = map (take 63) (service_domain cfg)"
    by (simp add: labels_def service_domain_def SplitChar_append_any)
  have "dnsInstanceName cfg svc = (?x @ CHR ''.'' # ?A @ CHR ''.'' # ?B) @ ''.''"
    by (simp add: dnsInstanceName_def instance_label_def F)
  then have "TrimSuffix (dnsInstanceName cfg svc) ''.'' = ?x @ CHR ''.'' # ?A @ CHR ''.'' # ?B"
    using TrimSuffix_dot by metis
  moreover have "CHR ''.'' \<notin> set ?x" by (simp add: instance_label_def ReplaceAllChar_absent)
  ultimately show "labels (dnsInstanceName cfg svc) = take 63 (instance_label svc) # labels (serviceFQDN cfg)"
    unfolding l by (simp add: labels_def service_domain_def SplitChar_append_any SplitChar_no_sep)
  have "dns_host svc = (?y @ CHR ''.'' # ''local'') @ ''.''" by (simp add: dns_host_def)
  then have "TrimSuffix (dns_host svc) ''.'' = ?y @ CHR ''.'' # ''local''" using TrimSuffix_dot by metis
  moreover have "CHR ''.'' \<notin> set ?y" by (simp add: ReplaceAllChar_absent)
  ultimately show "labels (dns_host svc) = [take 63 ?y, ''local'']"
    by (simp add: labels_def SplitChar_prepend)
qed

definition mdns_named :: "MDNSConfig \<Rightarrow> ServiceInstance \<Rightarrow> bool" where
  "mdns_named cfg svc \<longleftrightarrow> [] \<notin> set (service_domain cfg) \<and> si_ID svc \<noteq> []
     \<and> length (mustName (dnsInstanceName cfg svc)) < 65536"

lemma named_labels:
  assumes "mdns_named cfg svc"
  shows "[] \<notin> set (labels (serviceFQDN cfg))" "[] \<notin> set (labels (dnsInstanceName cfg svc))"
    "[] \<notin> set (labels (dns_host svc))"
proof -
  show s: "[] \<notin> set (labels (serviceFQDN cfg))"
    using assms by (auto simp: mdns_named_def labels_names)
  show "[] \<notin> set (labels (dnsInstanceName cfg svc))" "[] \<notin> set (labels (dns_host svc))"
    using s assms by (simp_all add: labels_names(2,3) instance_label_def mdns_named_def ReplaceAllChar_Nil_iff)
qed

lemma announcement_parts:
  "buildAnnouncement cfg svc = map byte [0, 0, 0x84, 0, 0, 0, 0, 4, 0, 0, 0, 0]
     @ (let rdata = mustName (dnsInstanceName cfg svc) in
        appendRRHeader [] (serviceFQDN cfg) typePTR 120 (length rdata) @ rdata)
     @ (let rdata = replicate 4 (byte 0) @ be_bytes 2 (uint (word_of_int (si_Port svc) :: u16)) @ mustName (dns_host svc) in
        appendRRHeader [] (dnsInstanceName cfg svc) typeSRV 120 (length rdata) @ rdata)
     @ (let rdata = txt_rdata (serviceTXT svc) in
        appendRRHeader [] (dnsInstanceName cfg svc) typeTXT 120 (length rdata) @ rdata)
     @ appendRRHeader [] (dns_host svc) typeA 120 4 @ announced_ip svc"
proof -
  note out = appendRRHeader_out [where out = "_ @ _"]
  show ?thesis
    unfolding buildAnnouncement_def appendRRName_def appendSRV_def appendTXT_def appendA_def Let_def
    by (subst appendRRHeader_out, subst (2) appendRRHeader_out, subst (3) appendRRHeader_out,
        subst (4) appendRRHeader_out) (simp del: be_bytes.simps)
qed

lemma announced_ip_length: "length (announced_ip svc) = 4"
  by (auto simp: announced_ip_def ParseIP_To4_length split: option.split)

lemma length_txt_rdata: "length (txt_rdata xs) \<le> 256 * length xs"
  by (induction xs) (auto simp: txt_rdata_def)

lemma length_mustName: "length (mustName name) = sum_list (map (\<lambda>l. Suc (length l)) (labels name)) + 1"
  by (simp add: mustName_labels length_concat comp_def)

definition seen_service :: "MDNSConfig \<Rightarrow> ServiceInstance \<Rightarrow> mdns_service" where
  "seen_service cfg svc =
    \<lparr>ms_service = labels (serviceFQDN cfg), ms_instance = labels (dnsInstanceName cfg svc), ms_host = labels (dns_host svc),
     ms_port = nat (si_Port svc mod 65536), ms_txt = map (take 255) (serviceTXT svc), ms_ip = announced_ip svc\<rparr>"

lemma be_value_port: "be_value (be_bytes 2 (uint (word_of_int p :: u16))) = nat (p mod 65536)"
  by (simp only: be_value_bytes) (simp add: uint_word_of_int)

lemma read_announcement:
  assumes named: "mdns_named cfg svc"
  shows "read_service (buildAnnouncement cfg svc) = Some (seen_service cfg svc)"
proof -
  define r1 where "r1 = mustName (dnsInstanceName cfg svc)"
  define r2 where "r2 = replicate 4 (byte 0) @ be_bytes 2 (uint (word_of_int (si_Port svc) :: u16)) @ mustName (dns_host svc)"
  define r3 where "r3 = txt_rdata (serviceTXT svc)"
  define r4 where "r4 = announced_ip svc"
  define t4 where "t4 = appendRRHeader [] (dns_host svc) typeA 120 (length r4) @ r4 @ []"
  define t3 where "t3 = appendRRHeader [] (dnsInstanceName cfg svc) typeTXT 120 (length r3) @ r3 @ t4"
  define t2 where "t2 = appendRRHeader [] (dnsInstanceName cfg svc) typeSRV 120 (length r2) @ r2 @ t3"
  define t1 where "t1 = appendRRHeader [] (serviceFQDN cfg) typePTR 120 (length r1) @ r1 @ t2"
  define hd where "hd = map byte [0, 0, 0x84, 0, 0, 0, 0, 4, 0, 0, 0, 0]"
  have r4: "length r4 = 4" by (simp add: r4_def announced_ip_length)
  have out: "buildAnnouncement cfg svc = hd @ t1"
    unfolding announcement_parts Let_def t1_def t2_def t3_def t4_def r4 hd_def
    by (simp add: r1_def r2_def r3_def r4_def)
  note n = named_labels [OF named]
  have "length (mustName (dns_host svc)) \<le> 64 + 6 + 1"
    by (simp add: length_mustName labels_names(3))
  then have len: "length r1 < 65536" "length r2 < 65536" "length r3 < 65536" "length r4 < 65536"
    using named length_txt_rdata [of "serviceTXT svc"] r4
    by (simp_all add: r1_def r2_def r3_def mdns_named_def serviceTXT_def)
  note rr = read_rr_header [where rest = t2 and ty = typePTR and ttl = "120", OF n(1) len(1), folded t1_def]
    read_rr_header [where rest = t3 and ty = typeSRV and ttl = "120", OF n(2) len(2), folded t2_def]
    read_rr_header [where rest = t4 and ty = typeTXT and ttl = "120", OF n(2) len(3), folded t3_def]
    read_rr_header [where rest = "[]" and ty = typeA and ttl = "120", OF n(3) len(4), folded t4_def]
  have four: "(4 :: nat) = Suc (Suc (Suc (Suc 0)))" by simp
  let ?rr = "\<lambda>name typ rdata. \<lparr>rr_name = labels name, rr_type = unat (typ :: u16), rr_class = 0x8001,
    rr_ttl = unat (120 :: u32), rr_data = rdata\<rparr>"
  have "read_rrs 4 t1 = Some ([?rr (serviceFQDN cfg) typePTR r1, ?rr (dnsInstanceName cfg svc) typeSRV r2,
      ?rr (dnsInstanceName cfg svc) typeTXT r3, ?rr (dns_host svc) typeA r4], [])"
    by (simp only: four read_rrs.simps rr option.case prod.case option.map)
  moreover have "length hd = 12" "be_value (take 2 hd) = 0" "be_value (take 2 (drop 2 hd)) = 0x8400"
    "be_value (take 2 (drop 4 hd)) = 0" "be_value (take 2 (drop 6 hd)) = 4" "be_value (take 4 (drop 8 hd)) = 0"
    by (simp_all add: hd_def be_value_def)
  ultimately have resp: "read_response (buildAnnouncement cfg svc) =
      Some (0, 0x8400, [?rr (serviceFQDN cfg) typePTR r1, ?rr (dnsInstanceName cfg svc) typeSRV r2,
      ?rr (dnsInstanceName cfg svc) typeTXT r3, ?rr (dns_host svc) typeA r4])"
    by (simp add: out read_response_def)
  have "read_name r1 = Some (labels (dnsInstanceName cfg svc), [])"
    "read_name (drop 6 r2) = Some (labels (dns_host svc), [])"
    using read_mustName [OF n(2), of "[]"] read_mustName [OF n(3), of "[]"] by (simp_all add: r1_def r2_def)
  moreover have "read_strings r3 = Some (map (take 255) (serviceTXT svc))"
    by (simp add: r3_def read_txt_rdata)
  moreover have "be_value (take 2 (drop 4 r2)) = nat (si_Port svc mod 65536)"
    by (simp add: r2_def be_value_port del: be_bytes.simps)
  moreover have "unat typePTR = 12" "unat typeSRV = 33" "unat typeTXT = 16" "unat typeA = 1"
    by (simp_all add: typePTR_def typeSRV_def typeTXT_def typeA_def)
  ultimately show ?thesis
    using r4 by (simp add: read_service_def resp seen_service_def r4_def)
qed

section \<open>The registrar\<close>

text \<open>
  The state of \<open>MDNSRegistrar\<close>: \<open>mr_conn\<close> says that the socket is open, \<open>mr_stop\<close> that the channel \<open>stop\<close>
  is closed, \<open>mr_loops\<close> counts the announcing goroutines, \<open>mr_sent\<close> is what was written to the
  multicast address (\<open>ResolveUDPAddr\<close> of that literal does not fail). \<open>mr_calls\<close> counts the
  calls of the network, whose outcomes are the parameter \<open>net\<close>.
\<close>

record MDNSNet =
  mn_Listen :: "nat \<Rightarrow> error option"
  mn_WriteTo :: "nat \<Rightarrow> error option"
  mn_Close :: "nat \<Rightarrow> error option"

record MDNSRegistrar =
  mr_cfg :: MDNSConfig
  mr_conn :: bool
  mr_records :: "ServiceInstance gomap"
  mr_stop :: bool
  mr_loops :: nat
  mr_sent :: "string list"
  mr_calls :: nat

definition NewMDNSRegistrar :: "MDNSConfig \<Rightarrow> MDNSRegistrar" where
  "NewMDNSRegistrar cfg = \<lparr>mr_cfg = mdns_defaults cfg, mr_conn = False, mr_records = [], mr_stop = False,
     mr_loops = 0, mr_sent = [], mr_calls = 0\<rparr>"

definition net_call :: "(nat \<Rightarrow> error option) \<Rightarrow> (MDNSRegistrar, unit) op" where
  "net_call outcome r =
    ((case outcome (mr_calls r) of None \<Rightarrow> Inr () | Some e \<Rightarrow> Inl e), r\<lparr>mr_calls := Suc (mr_calls r)\<rparr>)"

definition mdns_ensureConn :: "MDNSNet \<Rightarrow> (MDNSRegistrar, unit) op" where
  "mdns_ensureConn net =
    bnd (get_st mr_conn) (\<lambda>conn.
      if conn then ret ()
      else bnd (net_call (mn_Listen net)) (\<lambda>_.
        upd_st (\<lambda>r. r\<lparr>mr_conn := True, mr_loops := Suc (mr_loops r)\<rparr>)))"

definition mdns_announce :: "MDNSNet \<Rightarrow> string \<Rightarrow> (MDNSRegistrar, unit) op" where
  "mdns_announce net instanceID =
    bnd (get_st (\<lambda>r. (map_of (mr_records r) instanceID, mr_conn r, mr_cfg r))) (\<lambda>(svc, conn, cfg).
      case svc of
        None \<Rightarrow> ret ()
      | Some svc \<Rightarrow>
        if \<not> conn then ret ()
        else bnd (net_call (mn_WriteTo net)) (\<lambda>_.
          upd_st (\<lambda>r. r\<lparr>mr_sent := mr_sent r @ [buildAnnouncement cfg svc]\<rparr>)))"

definition mdns_announceAll :: "MDNSNet \<Rightarrow> (MDNSRegistrar, unit) op" where
  "mdns_announceAll net =
    bnd (get_st (\<lambda>r. map fst (mr_records r))) (\<lambda>ids.
    bnd (for_each (\<lambda>i. ignore_err (mdns_announce net i)) ids) (\<lambda>_. ret ()))"

definition mdns_Refresh :: "MDNSNet \<Rightarrow> time \<Rightarrow> ServiceInstance \<Rightarrow> (MDNSRegistrar, unit) op" where
  "mdns_Refresh net now svc =
    bnd (lift_res (Normalize now svc)) (\<lambda>svc.
    bnd (upd_st (\<lambda>r. r\<lparr>mr_records := map_put (si_InstanceID svc) svc (mr_records r)\<rparr>)) (\<lambda>_.
    bnd (mdns_ensureConn net) (\<lambda>_.
    mdns_announce net (si_InstanceID svc))))"

definition mdns_Register :: "MDNSNet \<Rightarrow> time \<Rightarrow> ServiceInstance \<Rightarrow> (MDNSRegistrar, unit) op" where
  "mdns_Register net now svc = mdns_Refresh net now svc"

definition mdns_Heartbeat :: "MDNSNet \<Rightarrow> string \<Rightarrow> string \<Rightarrow> (MDNSRegistrar, unit) op" where
  "mdns_Heartbeat net serviceID instanceID = bnd (mdns_announceAll net) (\<lambda>_. ret ())"

definition mdns_Deregister :: "string \<Rightarrow> (MDNSRegistrar, unit) op" where
  "mdns_Deregister instanceID = ret ()"

definition mdns_Close :: "MDNSNet \<Rightarrow> (MDNSRegistrar, unit) op" where
  "mdns_Close net =
    bnd (upd_st (\<lambda>r. r\<lparr>mr_stop := True\<rparr>)) (\<lambda>_.
    bnd (get_st mr_conn) (\<lambda>conn.
      if conn then on_err (net_call (mn_Close net))
          (\<lambda>e. bnd (upd_st (\<lambda>r. r\<lparr>mr_conn := False\<rparr>)) (\<lambda>_. fail e))
          (\<lambda>_. upd_st (\<lambda>r. r\<lparr>mr_conn := False\<rparr>))
      else ret ()))"

text \<open>One tick of the goroutine \<open>loop\<close>; it has returned when \<open>stop\<close> is closed.\<close>

definition mdns_tick :: "MDNSNet \<Rightarrow> (MDNSRegistrar, unit) op" where
  "mdns_tick net =
    bnd (get_st (\<lambda>r. mr_loops r = 0 \<or> mr_stop r)) (\<lambda>ended. if ended then ret () else mdns_announceAll net)"

inductive mdns_step :: "MDNSNet \<Rightarrow> MDNSRegistrar \<Rightarrow> MDNSRegistrar \<Rightarrow> bool" for net where
  refresh: "mdns_step net r (snd (mdns_Refresh net now svc r))"
| register: "mdns_step net r (snd (mdns_Register net now svc r))"
| heartbeat: "mdns_step net r (snd (mdns_Heartbeat net sid iid r))"
| deregister: "mdns_step net r (snd (mdns_Deregister iid r))"
| close: "mdns_step net r (snd (mdns_Close net r))"
| tick: "mdns_step net r (snd (mdns_tick net r))"

text \<open>
  What is sent is the announcement of a recorded instance, the records are keyed by their instance ID
  and normalized, and the socket, once opened, has an announcing goroutine.
\<close>

definition mdns_inv :: "MDNSRegistrar \<Rightarrow> bool" where
  "mdns_inv r \<longleftrightarrow> wf_map (mr_records r)
     \<and> (\<forall>k svc. map_of (mr_records r) k = Some svc \<longrightarrow> si_InstanceID svc = k \<and> (\<exists>now svc0. svc = normalized now svc0))
     \<and> (\<forall>p \<in> set (mr_sent r). \<exists>now svc0. p = buildAnnouncement (mr_cfg r) (normalized now svc0))
     \<and> (mr_conn r \<longrightarrow> 0 < mr_loops r)"

lemma mdns_inv_new: "mdns_inv (NewMDNSRegistrar cfg)"
  by (simp add: mdns_inv_def NewMDNSRegistrar_def)

lemma net_call_state [simp]: "snd (net_call outcome r) = r\<lparr>mr_calls := Suc (mr_calls r)\<rparr>"
  by (simp add: net_call_def)

lemma mdns_announce_state:
  obtains n where "snd (mdns_announce net i r) = r\<lparr>mr_calls := n\<rparr>"
  | n svc where "map_of (mr_records r) i = Some svc" "mr_conn r"
      "snd (mdns_announce net i r) = r\<lparr>mr_calls := n, mr_sent := mr_sent r @ [buildAnnouncement (mr_cfg r) svc]\<rparr>"
proof (cases "map_of (mr_records r) i")
  case None
  then have "snd (mdns_announce net i r) = r\<lparr>mr_calls := mr_calls r\<rparr>"
    by (simp add: mdns_announce_def op_simps)
  then show thesis by (rule that)
next
  case (Some svc)
  show thesis
  proof (cases "mr_conn r")
    case False
    with Some have "snd (mdns_announce net i r) = r\<lparr>mr_calls := mr_calls r\<rparr>"
      by (simp add: mdns_announce_def op_simps)
    then show thesis by (rule that)
  next
    case True
    show thesis
    proof (cases "fst (net_call (mn_WriteTo net) r)")
      case (Inl e)
      with Some True have "snd (mdns_announce net i r) = r\<lparr>mr_calls := Suc (mr_calls r)\<rparr>"
        by (simp add: mdns_announce_def op_simps)
      then show thesis by (rule that)
    next
      case (Inr u)
      with Some True have "snd (mdns_announce net i r) =
          r\<lparr>mr_calls := Suc (mr_calls r), mr_sent := mr_sent r @ [buildAnnouncement (mr_cfg r) svc]\<rparr>"
        by (simp add: mdns_announce_def op_simps)
      with Some True show thesis by (rule that)
    qed
  qed
qed

lemma mdns_inv_announce: "mdns_inv r \<Longrightarrow> mdns_inv (snd (mdns_announce net i r))"
proof (cases rule: mdns_announce_state [of net i r])
  case (2 n svc)
  assume inv: "mdns_inv r"
  then obtain now svc0 where "svc = normalized now svc0"
    using 2(1) unfolding mdns_inv_def by metis
  then have "\<exists>now svc0. buildAnnouncement (mr_cfg r) svc = buildAnnouncement (mr_cfg r) (normalized now svc0)" by blast
  with inv show ?thesis unfolding 2(3) mdns_inv_def by simp
qed (simp add: mdns_inv_def)

lemma mdns_inv_announceAll: "mdns_inv r \<Longrightarrow> mdns_inv (snd (mdns_announceAll net r))"
proof -
  assume "mdns_inv r"
  moreover have "mdns_inv (snd (for_each (\<lambda>i. ignore_err (mdns_announce net i)) ids r))" if "mdns_inv r" for ids r
    using that by (intro for_each_inv [where I = mdns_inv]) (simp_all add: ignore_err_def mdns_inv_announce)
  ultimately show ?thesis
    by (auto simp: mdns_announceAll_def get_st_def ret_def bnd_def split: sum.split)
qed

lemma mdns_inv_ensureConn: "mdns_inv r \<Longrightarrow> mdns_inv (snd (mdns_ensureConn net r))"
  by (auto simp: mdns_ensureConn_def op_simps bnd_def mdns_inv_def split: sum.splits)

lemma mdns_inv_record: "mdns_inv r \<Longrightarrow> svc = normalized now svc0 \<Longrightarrow>
    mdns_inv (r\<lparr>mr_records := map_put (si_InstanceID svc) svc (mr_records r)\<rparr>)"
  by (auto simp: mdns_inv_def)

lemma mdns_inv_Refresh: "mdns_inv r \<Longrightarrow> mdns_inv (snd (mdns_Refresh net now svc r))"
proof -
  assume "mdns_inv r"
  then have "mdns_inv (r\<lparr>mr_records := map_put (si_InstanceID (normalized now svc)) (normalized now svc) (mr_records r)\<rparr>)"
    by (rule mdns_inv_record) (rule refl)
  then show ?thesis
    by (auto simp: mdns_Refresh_def op_simps bnd_def mdns_inv_announce split: sum.splits dest: mdns_inv_ensureConn [of _ net])
qed

lemma mdns_inv_Close: "mdns_inv r \<Longrightarrow> mdns_inv (snd (mdns_Close net r))"
  by (auto simp: mdns_Close_def op_simps bnd_def on_err_def mdns_inv_def split: sum.splits)

lemma mdns_inv_step: "mdns_step net r r' \<Longrightarrow> mdns_inv r \<Longrightarrow> mdns_inv r'"
proof (induction rule: mdns_step.induct)
  case (heartbeat r sid iid)
  then show ?case
    using mdns_inv_announceAll by (auto simp: mdns_Heartbeat_def bnd_def op_simps split: sum.splits)
qed (simp_all add: mdns_inv_Refresh mdns_Register_def mdns_Deregister_def mdns_inv_Close mdns_tick_def
    mdns_inv_announceAll op_simps)

lemma mdns_inv_reachable: "(mdns_step net)\<^sup>*\<^sup>* (NewMDNSRegistrar cfg) r \<Longrightarrow> mdns_inv r"
  by (induction rule: rtranclp_induct) (auto intro: mdns_inv_new mdns_inv_step)

end
