(* ===== verification/Discovery_Redis.thy ===== *)
theory Discovery_Redis
  imports Discovery_Instance
begin

text \<open>
  The Redis registrar (\<open>src/discovery/redis.go\<close>): the RESP encoding of commands, the connection with
  its single retry, and the commands an instance is announced with. The network is a parameter: the
  outcomes of dialing and writing, and the reply lines. A reader of RESP arrays of bulk strings is the
  reference the encoder is compared with.
\<close>

section \<open>Configuration and keys\<close>

record RedisConfig =
  rc_Addr :: string
  rc_Password :: string
  rc_Prefix :: string
  rc_TTL :: duration

definition redis_defaults :: "RedisConfig \<Rightarrow> RedisConfig" where
  "redis_defaults cfg =
    (let cfg = (if rc_Addr cfg = [] then cfg\<lparr>rc_Addr := ''127.0.0.1:6379''\<rparr> else cfg);
         cfg = (if rc_Prefix cfg = [] then cfg\<lparr>rc_Prefix := ''saker:services''\<rparr> else cfg)
     in if rc_TTL cfg \<le> 0 then cfg\<lparr>rc_TTL := 30 * Second\<rparr> else cfg)"

definition redis_key :: "RedisConfig \<Rightarrow> string \<Rightarrow> string \<Rightarrow> string" where
  "redis_key cfg serviceID instanceID = rc_Prefix cfg @ '':'' @ serviceID @ '':'' @ instanceID"

definition redis_indexKey :: "RedisConfig \<Rightarrow> string" where
  "redis_indexKey cfg = rc_Prefix cfg @ '':index''"

definition redis_eventsKey :: "RedisConfig \<Rightarrow> string" where
  "redis_eventsKey cfg = rc_Prefix cfg @ '':events''"

text \<open>\<open>strconv.Itoa(int(ttl.Seconds()))\<close>: the truncated number of seconds.\<close>

definition ttl_seconds :: "RedisConfig \<Rightarrow> string" where
  "ttl_seconds cfg = Itoa (go_div (rc_TTL cfg) Second)"

section \<open>The encoding of a command\<close>

definition crlf :: string where "crlf = [CHR 0x0D, CHR 0x0A]"

text \<open>What the successive calls of \<open>Fprintf\<close> in \<open>writeCommand\<close> write.\<close>

definition command_header :: "string list \<Rightarrow> string" where
  "command_header args = ''*'' @ Itoa (int (length args)) @ crlf"

definition command_arg :: "string \<Rightarrow> string" where
  "command_arg arg = ''$'' @ Itoa (int (length arg)) @ crlf @ arg @ crlf"

definition command_bytes :: "string list \<Rightarrow> string" where
  "command_bytes args = command_header args @ concat (map command_arg args)"

section \<open>A reader of commands\<close>

text \<open>A decimal number, introduced by a byte and ended by a line break.\<close>

definition read_count :: "char \<Rightarrow> string \<Rightarrow> (nat \<times> string) option" where
  "read_count c s =
    (let digits = takeWhile is_digit (tl s); rest = dropWhile is_digit (tl s) in
     if s \<noteq> [] \<and> hd s = c \<and> digits \<noteq> [] \<and> HasPrefix rest crlf
     then Some (dec_value digits, drop 2 rest) else None)"

definition read_bulk :: "string \<Rightarrow> (string \<times> string) option" where
  "read_bulk s =
    (case read_count CHR ''$'' s of
       None \<Rightarrow> None
     | Some (n, rest) \<Rightarrow>
       if n \<le> length rest \<and> HasPrefix (drop n rest) crlf then Some (take n rest, drop (n + 2) rest) else None)"

fun read_bulks :: "nat \<Rightarrow> string \<Rightarrow> (string list \<times> string) option" where
  "read_bulks 0 s = Some ([], s)"
| "read_bulks (Suc k) s = (case read_bulk s of None \<Rightarrow> None
     | Some (arg, rest) \<Rightarrow> map_option (\<lambda>(args, rest'). (arg # args, rest')) (read_bulks k rest))"

definition read_command :: "string \<Rightarrow> (string list \<times> string) option" where
  "read_command s = (case read_count CHR ''*'' s of None \<Rightarrow> None | Some (n, rest) \<Rightarrow> read_bulks n rest)"

text \<open>The commands of a byte stream, in order; the stream is what Redis receives on one connection.\<close>

inductive commands :: "string \<Rightarrow> string list list \<Rightarrow> bool" where
  none: "commands [] []"
| more: "read_command s = Some (args, rest) \<Longrightarrow> commands rest cmds \<Longrightarrow> commands s (args # cmds)"

lemma takeWhile_digits_crlf:
  assumes "all_digits d"
  shows "takeWhile is_digit (d @ crlf @ s) = d" "dropWhile is_digit (d @ crlf @ s) = crlf @ s"
proof -
  have d: "\<And>x. x \<in> set d \<Longrightarrow> is_digit x" using assms by (simp add: all_digits_def list_all_iff)
  have c: "\<not> is_digit CHR 0x0D" by (simp add: is_digit_def)
  from d c show "takeWhile is_digit (d @ crlf @ s) = d" "dropWhile is_digit (d @ crlf @ s) = crlf @ s"
    by (simp_all add: crlf_def takeWhile_append dropWhile_append)
qed

lemma read_count_Itoa: "read_count c (c # Itoa (int n) @ crlf @ s) = Some (n, s)"
proof -
  have "Itoa (int n) = nat_digits n" "all_digits (nat_digits n)" by (simp_all add: Itoa_def)
  moreover have "drop 2 (crlf @ s) = s" by (simp add: crlf_def)
  ultimately show ?thesis
    using takeWhile_digits_crlf [of "nat_digits n" s] by (simp add: read_count_def Let_def all_digits_def)
qed

lemma read_bulk_arg: "read_bulk (command_arg arg @ s) = Some (arg, s)"
proof -
  have "read_count CHR ''$'' (command_arg arg @ s) = Some (length arg, arg @ crlf @ s)"
    using read_count_Itoa [of "CHR ''$''" "length arg" "arg @ crlf @ s"] by (simp add: command_arg_def)
  then show ?thesis by (simp add: read_bulk_def) (simp add: crlf_def)
qed

lemma read_bulks_args: "read_bulks (length args) (concat (map command_arg args) @ s) = Some (args, s)"
  by (induction args) (simp_all add: read_bulk_arg)

text \<open>A command is read back whatever its arguments contain.\<close>

lemma read_command_bytes: "read_command (command_bytes args @ s) = Some (args, s)"
  using read_count_Itoa [of "CHR ''*''" "length args" "concat (map command_arg args) @ s"]
  by (simp add: read_command_def command_bytes_def command_header_def read_bulks_args)

lemma commands_concat: "commands (concat (map command_bytes cmds)) cmds"
  by (induction cmds) (auto intro: commands.intros read_command_bytes)

lemma commands_unique: "commands s cmds \<Longrightarrow> commands s cmds' \<Longrightarrow> cmds = cmds'"
proof (induction arbitrary: cmds' rule: commands.induct)
  case none
  then show ?case by cases (simp_all add: read_command_def read_count_def)
next
  case (more s args rest cmds)
  from more.prems more.hyps(1) obtain cmds2 where "cmds' = args # cmds2" "commands rest cmds2"
    by cases (auto simp: read_command_def read_count_def)
  with more.IH show ?case by simp
qed

section \<open>The connection\<close>

text \<open>
  \<open>rr_sent\<close> is what was written on the current connection, \<open>rr_calls\<close> counts the calls of the network.
  A reply is the line \<open>ReadString\<close> returns. Deadlines only make the calls fail.
\<close>

record RedisNet =
  rn_Dial :: "nat \<Rightarrow> error option"
  rn_Write :: "nat \<Rightarrow> error option"
  rn_ReadLine :: "nat \<Rightarrow> string res"
  rn_Close :: "nat \<Rightarrow> error option"

record RedisRegistrar =
  rr_cfg :: RedisConfig
  rr_conn :: bool
  rr_sent :: string
  rr_calls :: nat

definition NewRedisRegistrar :: "RedisConfig \<Rightarrow> RedisRegistrar" where
  "NewRedisRegistrar cfg = \<lparr>rr_cfg = redis_defaults cfg, rr_conn = False, rr_sent = [], rr_calls = 0\<rparr>"

definition redis_call :: "(nat \<Rightarrow> 'a res) \<Rightarrow> (RedisRegistrar, 'a) op" where
  "redis_call outcome r = (outcome (rr_calls r), r\<lparr>rr_calls := Suc (rr_calls r)\<rparr>)"

definition unit_res :: "error option \<Rightarrow> unit res" where
  "unit_res e = (case e of None \<Rightarrow> Inr () | Some err \<Rightarrow> Inl err)"

definition redis_write :: "RedisNet \<Rightarrow> string \<Rightarrow> (RedisRegistrar, unit) op" where
  "redis_write net bytes =
    bnd (redis_call (\<lambda>n. unit_res (rn_Write net n))) (\<lambda>_. upd_st (\<lambda>r. r\<lparr>rr_sent := rr_sent r @ bytes\<rparr>))"

definition writeCommand :: "RedisNet \<Rightarrow> string list \<Rightarrow> (RedisRegistrar, unit) op" where
  "writeCommand net args =
    bnd (redis_write net (command_header args)) (\<lambda>_.
    bnd (for_each (\<lambda>arg. redis_write net (command_arg arg)) args) (\<lambda>_. ret ()))"

definition readSimple :: "RedisNet \<Rightarrow> (RedisRegistrar, unit) op" where
  "readSimple net =
    bnd (redis_call (rn_ReadLine net)) (\<lambda>line.
      if HasPrefix line ''-'' then fail (Errorf (''redis error: '' @ TrimSpace (tl line))) else ret ())"

definition redis_closeConn :: "RedisNet \<Rightarrow> (RedisRegistrar, unit) op" where
  "redis_closeConn net =
    bnd (get_st rr_conn) (\<lambda>conn.
      if conn then on_err (redis_call (\<lambda>n. unit_res (rn_Close net n)))
          (\<lambda>e. bnd (upd_st (\<lambda>r. r\<lparr>rr_conn := False, rr_sent := []\<rparr>)) (\<lambda>_. fail e))
          (\<lambda>_. upd_st (\<lambda>r. r\<lparr>rr_conn := False, rr_sent := []\<rparr>))
      else ret ())"

text \<open>
  \<open>ensureConnLocked\<close>: the connection is stored in the registrar only after the authentication, so a
  failure of it leaves the registrar without one (the new connection is closed).
\<close>

definition redis_auth_failed :: "RedisNet \<Rightarrow> error \<Rightarrow> (RedisRegistrar, unit) op" where
  "redis_auth_failed net e =
    bnd (ignore_err (redis_call (\<lambda>n. unit_res (rn_Close net n)))) (\<lambda>_.
    bnd (upd_st (\<lambda>r. r\<lparr>rr_sent := []\<rparr>)) (\<lambda>_. fail e))"

definition redis_ensureConn :: "RedisNet \<Rightarrow> (RedisRegistrar, unit) op" where
  "redis_ensureConn net =
    bnd (get_st (\<lambda>r. (rr_conn r, rc_Password (rr_cfg r)))) (\<lambda>(conn, password).
      if conn then ret ()
      else bnd (redis_call (\<lambda>n. unit_res (rn_Dial net n))) (\<lambda>_.
        bnd (upd_st (\<lambda>r. r\<lparr>rr_sent := []\<rparr>)) (\<lambda>_.
        bnd (if password \<noteq> [] then
               on_err (writeCommand net [''AUTH'', password]) (redis_auth_failed net) (\<lambda>_.
               on_err (readSimple net) (redis_auth_failed net) ret)
             else ret ()) (\<lambda>_.
        upd_st (\<lambda>r. r\<lparr>rr_conn := True\<rparr>)))))"

definition redis_commandLocked :: "RedisNet \<Rightarrow> string list \<Rightarrow> (RedisRegistrar, unit) op" where
  "redis_commandLocked net args =
    bnd (redis_ensureConn net) (\<lambda>_. bnd (writeCommand net args) (\<lambda>_. readSimple net))"

definition redis_command :: "RedisNet \<Rightarrow> string list \<Rightarrow> (RedisRegistrar, unit) op" where
  "redis_command net args =
    on_err (redis_commandLocked net args)
      (\<lambda>_. bnd (ignore_err (redis_closeConn net)) (\<lambda>_. redis_commandLocked net args))
      ret"

section \<open>The registrar\<close>

text \<open>\<open>marshal\<close> is \<open>json.Marshal\<close> of the instance.\<close>

definition redis_Refresh :: "RedisNet \<Rightarrow> (ServiceInstance \<Rightarrow> string res) \<Rightarrow> time \<Rightarrow> ServiceInstance \<Rightarrow> (RedisRegistrar, unit) op" where
  "redis_Refresh net marshal now svc =
    bnd (lift_res (Normalize now svc)) (\<lambda>svc.
    bnd (lift_res (marshal svc)) (\<lambda>data.
    bnd (get_st rr_cfg) (\<lambda>cfg.
    bnd (redis_command net [''SET'', redis_key cfg (si_ID svc) (si_InstanceID svc), data, ''EX'', ttl_seconds cfg]) (\<lambda>_.
    bnd (redis_command net [''SADD'', redis_indexKey cfg, si_ID svc @ '':'' @ si_InstanceID svc]) (\<lambda>_.
    redis_command net [''PUBLISH'', redis_eventsKey cfg, data])))))"

definition redis_Register :: "RedisNet \<Rightarrow> (ServiceInstance \<Rightarrow> string res) \<Rightarrow> time \<Rightarrow> ServiceInstance \<Rightarrow> (RedisRegistrar, unit) op" where
  "redis_Register net marshal now svc = redis_Refresh net marshal now svc"

definition redis_Heartbeat :: "RedisNet \<Rightarrow> string \<Rightarrow> string \<Rightarrow> (RedisRegistrar, unit) op" where
  "redis_Heartbeat net serviceID instanceID =
    bnd (get_st rr_cfg) (\<lambda>cfg. redis_command net [''EXPIRE'', redis_key cfg serviceID instanceID, ttl_seconds cfg])"

definition redis_Deregister :: "string \<Rightarrow> (RedisRegistrar, unit) op" where
  "redis_Deregister instanceID = ret ()"

definition redis_Close :: "RedisNet \<Rightarrow> (RedisRegistrar, unit) op" where
  "redis_Close net = redis_closeConn net"

inductive redis_step :: "RedisNet \<Rightarrow> (ServiceInstance \<Rightarrow> string res) \<Rightarrow> RedisRegistrar \<Rightarrow> RedisRegistrar \<Rightarrow> bool"
  for net marshal where
  refresh: "redis_step net marshal r (snd (redis_Refresh net marshal now svc r))"
| register: "redis_step net marshal r (snd (redis_Register net marshal now svc r))"
| heartbeat: "redis_step net marshal r (snd (redis_Heartbeat net sid iid r))"
| deregister: "redis_step net marshal r (snd (redis_Deregister iid r))"
| close: "redis_step net marshal r (snd (redis_Close net r))"

section \<open>What a successful command leaves behind\<close>

text \<open>A connection is clean when complete commands were written on it and nothing else.\<close>

definition redis_clean :: "RedisRegistrar \<Rightarrow> bool" where
  "redis_clean r \<longleftrightarrow> (rr_conn r \<longrightarrow> (\<exists>cmds. commands (rr_sent r) cmds \<and> rr_sent r = concat (map command_bytes cmds)))"

text \<open>The connection is open, and \<open>last\<close> is the last command written on it.\<close>

definition redis_sent_last :: "string list \<Rightarrow> RedisRegistrar \<Rightarrow> bool" where
  "redis_sent_last args r \<longleftrightarrow> rr_conn r \<and> (\<exists>cmds. commands (rr_sent r) (cmds @ [args])
     \<and> rr_sent r = concat (map command_bytes (cmds @ [args])))"

lemma redis_call_state [simp]:
  "snd (redis_call outcome r) = r\<lparr>rr_calls := Suc (rr_calls r)\<rparr>" "fst (redis_call outcome r) = outcome (rr_calls r)"
  by (simp_all add: redis_call_def)

lemma redis_write_Inr:
  "fst (redis_write net bytes r) = Inr () \<Longrightarrow> snd (redis_write net bytes r) =
    r\<lparr>rr_calls := Suc (rr_calls r), rr_sent := rr_sent r @ bytes\<rparr>"
  by (auto simp: redis_write_def op_simps bnd_def split: sum.splits)

lemma redis_writes_Inr:
  "fst (for_each (\<lambda>arg. redis_write net (command_arg arg)) args r) = Inr us \<Longrightarrow>
    \<exists>n. snd (for_each (\<lambda>arg. redis_write net (command_arg arg)) args r) =
      r\<lparr>rr_calls := n, rr_sent := rr_sent r @ concat (map command_arg args)\<rparr>"
proof (induction args arbitrary: r us)
  case Nil
  show ?case by (auto simp: op_simps intro: exI [of _ "rr_calls r"])
next
  case (Cons a args)
  let ?r = "r\<lparr>rr_calls := Suc (rr_calls r), rr_sent := rr_sent r @ command_arg a\<rparr>"
  obtain u where u: "fst (redis_write net (command_arg a) r) = Inr u" "fst (bnd (for_each (\<lambda>arg. redis_write net (command_arg arg)) args) (\<lambda>us. ret (u # us)) (snd (redis_write net (command_arg a) r))) = Inr us"
    using Cons.prems by (auto simp: bnd_def split: sum.splits)
  then have s: "snd (redis_write net (command_arg a) r) = ?r" using redis_write_Inr by simp
  then obtain vs where "fst (for_each (\<lambda>arg. redis_write net (command_arg arg)) args ?r) = Inr vs"
    using u(2) by (auto simp: bnd_def split: sum.splits)
  from Cons.IH [OF this] this u(1) s show ?case by (auto simp: op_simps)
qed

lemma writeCommand_Inr:
  assumes "fst (writeCommand net args r) = Inr ()"
  shows "\<exists>n. snd (writeCommand net args r) = r\<lparr>rr_calls := n, rr_sent := rr_sent r @ command_bytes args\<rparr>"
proof -
  let ?r = "r\<lparr>rr_calls := Suc (rr_calls r), rr_sent := rr_sent r @ command_header args\<rparr>"
  have h: "fst (redis_write net (command_header args) r) = Inr ()"
    using assms by (auto simp: writeCommand_def bnd_def split: sum.splits)
  note s = redis_write_Inr [OF h]
  obtain us where us: "fst (for_each (\<lambda>arg. redis_write net (command_arg arg)) args ?r) = Inr us"
    using assms h s by (auto simp: writeCommand_def bnd_def split: sum.splits)
  from redis_writes_Inr [OF us] h s us show ?thesis
    by (auto simp: writeCommand_def op_simps command_bytes_def)
qed

lemma readSimple_state [simp]: "snd (readSimple net r) = r\<lparr>rr_calls := Suc (rr_calls r)\<rparr>"
  by (auto simp: readSimple_def bnd_def op_simps split: sum.split)

text \<open>A connection that was just opened has at most the authentication written on it.\<close>

lemma redis_ensureConn_Inr:
  assumes clean: "redis_clean r" and res: "fst (redis_ensureConn net r) = Inr ()"
  shows "\<exists>cmds n. snd (redis_ensureConn net r) = r\<lparr>rr_conn := True, rr_calls := n, rr_sent := concat (map command_bytes cmds)\<rparr>"
proof (cases "rr_conn r")
  case True
  then obtain cmds where "rr_sent r = concat (map command_bytes cmds)" using clean by (auto simp: redis_clean_def)
  with True have "r = r\<lparr>rr_conn := True, rr_calls := rr_calls r, rr_sent := concat (map command_bytes cmds)\<rparr>" by simp
  then have "\<exists>cmds n. r = r\<lparr>rr_conn := True, rr_calls := n, rr_sent := concat (map command_bytes cmds)\<rparr>" by blast
  with True show ?thesis by (simp add: redis_ensureConn_def op_simps)
next
  case False
  let ?pw = "rc_Password (rr_cfg r)"
  let ?r = "r\<lparr>rr_calls := Suc (rr_calls r), rr_sent := []\<rparr>"
  have dial: "fst (redis_call (\<lambda>n. unit_res (rn_Dial net n)) r) = Inr ()"
    using res False by (cases "fst (redis_call (\<lambda>n. unit_res (rn_Dial net n)) r)")
      (auto simp: redis_ensureConn_def op_simps)
  show ?thesis
  proof (cases "?pw = []")
    case True
    then have "snd (redis_ensureConn net r) = r\<lparr>rr_conn := True, rr_calls := Suc (rr_calls r), rr_sent := concat (map command_bytes [])\<rparr>"
      using False dial by (simp add: redis_ensureConn_def op_simps)
    then show ?thesis by blast
  next
    case pw: False
    let ?w = "writeCommand net [''AUTH'', ?pw]"
    have eq: "redis_ensureConn net r = bnd (on_err ?w (redis_auth_failed net) (\<lambda>_.
        on_err (readSimple net) (redis_auth_failed net) ret)) (\<lambda>_. upd_st (\<lambda>r. r\<lparr>rr_conn := True\<rparr>)) ?r"
      using False dial pw by (simp add: redis_ensureConn_def op_simps)
    have failed: "fst (redis_auth_failed net e s) = Inl e" for e s
      by (simp add: redis_auth_failed_def op_simps)
    have w: "fst (?w ?r) = Inr ()"
      using res failed unfolding eq by (cases "fst (?w ?r)") (auto simp: op_simps bnd_def)
    from writeCommand_Inr [OF w] obtain n where n: "snd (?w ?r) = r\<lparr>rr_calls := n, rr_sent := command_bytes [''AUTH'', ?pw]\<rparr>"
      by auto
    have rd: "fst (readSimple net (snd (?w ?r))) = Inr ()"
      using res failed w unfolding eq by (cases "fst (readSimple net (snd (?w ?r)))") (auto simp: op_simps bnd_def)
    have "snd (redis_ensureConn net r) =
        r\<lparr>rr_conn := True, rr_calls := Suc n, rr_sent := concat (map command_bytes [[''AUTH'', ?pw]])\<rparr>"
      unfolding eq using w rd n by (simp add: op_simps)
    then show ?thesis by blast
  qed
qed

lemma redis_commandLocked_Inr:
  assumes clean: "redis_clean r" and res: "fst (redis_commandLocked net args r) = Inr ()"
  shows "redis_sent_last args (snd (redis_commandLocked net args r))"
proof -
  have e: "fst (redis_ensureConn net r) = Inr ()"
    using res by (cases "fst (redis_ensureConn net r)") (auto simp: redis_commandLocked_def op_simps)
  from redis_ensureConn_Inr [OF clean e] obtain cmds n where
    s: "snd (redis_ensureConn net r) = r\<lparr>rr_conn := True, rr_calls := n, rr_sent := concat (map command_bytes cmds)\<rparr>" (is "_ = ?r")
    by blast
  have w: "fst (writeCommand net args ?r) = Inr ()"
    using res e s by (cases "fst (writeCommand net args ?r)") (auto simp: redis_commandLocked_def op_simps)
  from writeCommand_Inr [OF w] obtain m where
    t: "snd (writeCommand net args ?r) = r\<lparr>rr_conn := True, rr_calls := m, rr_sent := concat (map command_bytes (cmds @ [args]))\<rparr>"
    by auto
  have "snd (redis_commandLocked net args r) =
      r\<lparr>rr_conn := True, rr_calls := Suc m, rr_sent := concat (map command_bytes (cmds @ [args]))\<rparr>"
    using e s w t by (simp add: redis_commandLocked_def op_simps)
  then show ?thesis
    unfolding redis_sent_last_def using commands_concat [of "cmds @ [args]"] by (intro conjI exI [of _ cmds]) simp_all
qed

lemma redis_command_Inr:
  assumes clean: "redis_clean r" and res: "fst (redis_command net args r) = Inr ()"
  shows "redis_sent_last args (snd (redis_command net args r))"
proof (cases "fst (redis_commandLocked net args r)")
  case (Inr u)
  then show ?thesis using redis_commandLocked_Inr [OF clean] by (simp add: redis_command_def op_simps)
next
  case (Inl e)
  let ?s = "snd (redis_closeConn net (snd (redis_commandLocked net args r)))"
  have "redis_clean ?s"
    by (auto simp: redis_closeConn_def op_simps bnd_def on_err_def redis_clean_def split: sum.split)
  then show ?thesis
    using redis_commandLocked_Inr [of ?s] res Inl by (simp add: redis_command_def op_simps)
qed

lemma redis_sent_last_clean: "redis_sent_last args r \<Longrightarrow> redis_clean r"
  unfolding redis_sent_last_def redis_clean_def by blast

section \<open>The invariant of the registrar\<close>

text \<open>The configuration does not change, and nothing was written without a connection.\<close>

definition redis_inv :: "RedisConfig \<Rightarrow> RedisRegistrar \<Rightarrow> bool" where
  "redis_inv cfg r \<longleftrightarrow> rr_cfg r = redis_defaults cfg \<and> (\<not> rr_conn r \<longrightarrow> rr_sent r = [])"

definition same_conn :: "RedisRegistrar \<Rightarrow> RedisRegistrar \<Rightarrow> bool" where
  "same_conn r r' \<longleftrightarrow> rr_cfg r' = rr_cfg r \<and> rr_conn r' = rr_conn r"

lemma same_conn_writes: "same_conn r (snd (for_each (\<lambda>arg. redis_write net (command_arg arg)) args r))"
proof (induction args arbitrary: r)
  case (Cons a args)
  have "same_conn r (snd (redis_write net (command_arg a) r))"
    by (simp add: redis_write_def op_simps bnd_def same_conn_def split: sum.split)
  with Cons [of "snd (redis_write net (command_arg a) r)"] show ?case
    by (auto simp: bnd_def op_simps same_conn_def split: sum.split)
qed (simp add: same_conn_def op_simps)

lemma same_conn_writeCommand: "same_conn r (snd (writeCommand net args r))"
proof -
  have "same_conn r (snd (redis_write net (command_header args) r))"
    by (simp add: redis_write_def op_simps bnd_def same_conn_def split: sum.split)
  with same_conn_writes [of "snd (redis_write net (command_header args) r)" net args] show ?thesis
    by (auto simp: writeCommand_def bnd_def op_simps same_conn_def split: sum.split)
qed

lemma redis_auth_failed_state:
  "fst (redis_auth_failed net e r) = Inl e" "same_conn r (snd (redis_auth_failed net e r))"
  "rr_sent (snd (redis_auth_failed net e r)) = []"
  by (simp_all add: redis_auth_failed_def op_simps same_conn_def)

lemma redis_auth_state:
  assumes "m = on_err (writeCommand net args) (redis_auth_failed net) (\<lambda>_. on_err (readSimple net) (redis_auth_failed net) ret)"
  shows "same_conn r (snd (m r)) \<and> (fst (m r) = Inr () \<or> rr_sent (snd (m r)) = [])"
proof -
  let ?r = "snd (writeCommand net args r)"
  have rd: "snd (readSimple net ?r) = ?r\<lparr>rr_calls := Suc (rr_calls ?r)\<rparr>" by simp
  have w: "same_conn r ?r" by (rule same_conn_writeCommand)
  show ?thesis
  proof (cases "fst (writeCommand net args r)")
    case (Inl e)
    with w show ?thesis
      using redis_auth_failed_state(2,3) [where net = net and e = e and r = ?r]
      by (simp add: assms op_simps same_conn_def)
  next
    case (Inr u)
    show ?thesis
    proof (cases "fst (readSimple net ?r)")
      case (Inl e)
      with w Inr show ?thesis
        using redis_auth_failed_state(2,3) [where net = net and e = e and r = "?r\<lparr>rr_calls := Suc (rr_calls ?r)\<rparr>"]
        by (simp add: assms op_simps same_conn_def)
    next
      case Inr': (Inr u')
      with w Inr show ?thesis by (simp add: assms op_simps same_conn_def)
    qed
  qed
qed

lemma redis_ensureConn_inv:
  assumes inv: "redis_inv cfg r"
  shows "redis_inv cfg (snd (redis_ensureConn net r))
    \<and> (fst (redis_ensureConn net r) = Inr () \<longrightarrow> rr_conn (snd (redis_ensureConn net r)))"
proof (cases "rr_conn r")
  case True
  with inv show ?thesis by (simp add: redis_ensureConn_def op_simps)
next
  case False
  let ?r = "r\<lparr>rr_calls := Suc (rr_calls r), rr_sent := []\<rparr>"
  define m where "m = on_err (writeCommand net [''AUTH'', rc_Password (rr_cfg r)]) (redis_auth_failed net) (\<lambda>_.
    on_err (readSimple net) (redis_auth_failed net) ret)"
  have auth: "same_conn ?r (snd (m ?r))" "fst (m ?r) = Inr () \<or> rr_sent (snd (m ?r)) = []"
    using redis_auth_state [OF m_def] by simp_all
  show ?thesis
  proof (cases "fst (redis_call (\<lambda>n. unit_res (rn_Dial net n)) r)")
    case (Inl e)
    with False inv show ?thesis by (simp add: redis_ensureConn_def op_simps redis_inv_def)
  next
    case (Inr u)
    then have eq: "redis_ensureConn net r = bnd (if rc_Password (rr_cfg r) \<noteq> [] then m else ret ())
        (\<lambda>_. upd_st (\<lambda>r. r\<lparr>rr_conn := True\<rparr>)) ?r"
      using False unfolding m_def by (simp add: redis_ensureConn_def op_simps)
    show ?thesis
      using inv auth False unfolding eq
      by (cases "fst (m ?r)") (auto simp: op_simps same_conn_def redis_inv_def)
  qed
qed

lemma redis_closeConn_inv: "rr_cfg r = redis_defaults cfg \<Longrightarrow> rr_conn r \<or> rr_sent r = [] \<Longrightarrow>
    redis_inv cfg (snd (redis_closeConn net r))"
  by (auto simp: redis_closeConn_def op_simps bnd_def on_err_def redis_inv_def split: sum.split)

lemma redis_commandLocked_inv:
  assumes "redis_inv cfg r"
  shows "redis_inv cfg (snd (redis_commandLocked net args r))"
proof (cases "fst (redis_ensureConn net r)")
  case (Inl e)
  then show ?thesis using redis_ensureConn_inv [OF assms, of net] by (simp add: redis_commandLocked_def op_simps)
next
  case (Inr u)
  let ?r = "snd (redis_ensureConn net r)"
  have "rr_conn ?r" "rr_cfg ?r = redis_defaults cfg"
    using redis_ensureConn_inv [OF assms, of net] Inr by (simp_all add: redis_inv_def)
  moreover have "same_conn ?r (snd (writeCommand net args ?r))" by (rule same_conn_writeCommand)
  ultimately show ?thesis
    using Inr by (cases "fst (writeCommand net args ?r)")
      (auto simp: redis_commandLocked_def op_simps same_conn_def redis_inv_def)
qed

lemma redis_command_inv: "redis_inv cfg r \<Longrightarrow> redis_inv cfg (snd (redis_command net args r))"
proof (cases "fst (redis_commandLocked net args r)")
  case (Inl e)
  assume inv: "redis_inv cfg r"
  have "redis_inv cfg (snd (redis_closeConn net (snd (redis_commandLocked net args r))))"
    using redis_commandLocked_inv [OF inv, of net args] by (intro redis_closeConn_inv) (auto simp: redis_inv_def)
  with Inl show ?thesis by (simp add: redis_command_def op_simps redis_commandLocked_inv)
next
  case (Inr u)
  assume "redis_inv cfg r"
  with Inr show ?thesis by (simp add: redis_command_def op_simps redis_commandLocked_inv)
qed

lemma redis_inv_new: "redis_inv cfg (NewRedisRegistrar cfg)"
  by (simp add: redis_inv_def NewRedisRegistrar_def)

lemma redis_inv_Refresh:
  assumes "redis_inv cfg r"
  shows "redis_inv cfg (snd (redis_Refresh net marshal now svc r))"
proof (cases "marshal (normalized now svc)")
  case (Inl e)
  with assms show ?thesis by (simp add: redis_Refresh_def op_simps)
next
  case (Inr data)
  with assms show ?thesis
    by (auto simp: redis_Refresh_def op_simps bnd_def redis_command_inv split: sum.split)
qed

lemma redis_inv_step:
  "redis_step net marshal r r' \<Longrightarrow> redis_inv cfg r \<Longrightarrow> redis_inv cfg r'"
proof (induction rule: redis_step.induct)
  case (close r)
  then show ?case using redis_closeConn_inv [of r cfg] by (auto simp: redis_Close_def redis_inv_def)
qed (simp_all add: redis_inv_Refresh redis_Register_def redis_Deregister_def redis_Heartbeat_def op_simps redis_command_inv)

end
