(* ===== verification/Discovery_Consul.thy ===== *)
theory Discovery_Consul
  imports Discovery_Instance
begin

text \<open>
  The Consul registrar (\<open>src/discovery/consul.go\<close>): the requests it makes of the agent and what it makes
  of the answers. The HTTP client and \<open>json.Marshal\<close> are parameters; a request is refused before it is
  sent when its URL cannot be parsed (\<open>http.NewRequestWithContext\<close>).
\<close>

record ConsulConfig =
  cc_Addr :: string
  cc_Token :: string

definition consul_defaults :: "ConsulConfig \<Rightarrow> ConsulConfig" where
  "consul_defaults cfg =
    (let cfg = (if cc_Addr cfg = [] then cfg\<lparr>cc_Addr := ''127.0.0.1:8500''\<rparr> else cfg)
     in if \<not> HasPrefix (cc_Addr cfg) ''http://'' \<and> \<not> HasPrefix (cc_Addr cfg) ''https://''
        then cfg\<lparr>cc_Addr := ''http://'' @ cc_Addr cfg\<rparr> else cfg)"

record consul_check =
  ck_HTTP :: string
  ck_Interval :: string
  ck_Timeout :: string

record consul_service =
  cs_ID :: string
  cs_Name :: string
  cs_Address :: string
  cs_Port :: int
  cs_Tags :: "string list"
  cs_Check :: consul_check

record ConsulRequest =
  cr_Method :: string
  cr_URL :: string
  cr_Headers :: "string gomap"
  cr_Body :: string

record ConsulClient =
  http_Do :: "nat \<Rightarrow> ConsulRequest \<Rightarrow> (int \<times> string) res"
  json_service :: "consul_service \<Rightarrow> string"

record ConsulRegistrar =
  cs_cfg :: ConsulConfig
  cs_calls :: nat

definition NewConsulRegistrar :: "ConsulConfig \<Rightarrow> ConsulRegistrar" where
  "NewConsulRegistrar cfg = \<lparr>cs_cfg = consul_defaults cfg, cs_calls = 0\<rparr>"

definition consul_request :: "ConsulConfig \<Rightarrow> string \<Rightarrow> string \<Rightarrow> string \<Rightarrow> ConsulRequest res" where
  "consul_request cfg method path body =
    (let url = TrimRightChar (cc_Addr cfg) CHR ''/'' @ path in
     case Parse url of
       None \<Rightarrow> Inl (Errorf ''parse url'')
     | Some _ \<Rightarrow>
       Inr \<lparr>cr_Method = method, cr_URL = url,
         cr_Headers = (if cc_Token cfg \<noteq> [] then [(''X-Consul-Token'', cc_Token cfg)] else [])
           @ [(''Content-Type'', ''application/json'')],
         cr_Body = body\<rparr>)"

definition consul_do :: "ConsulClient \<Rightarrow> string \<Rightarrow> ConsulRequest \<Rightarrow> (ConsulRegistrar, unit) op" where
  "consul_do client what req r =
    ((case http_Do client (cs_calls r) req of
        Inl e \<Rightarrow> Inl e
      | Inr (status, text) \<Rightarrow> if 300 \<le> status then Inl (Errorf (what @ text)) else Inr ()),
     r\<lparr>cs_calls := Suc (cs_calls r)\<rparr>)"

definition consul_body :: "ServiceInstance \<Rightarrow> consul_service" where
  "consul_body svc =
    \<lparr>cs_ID = si_InstanceID svc, cs_Name = si_ID svc, cs_Address = si_Address svc, cs_Port = si_Port svc,
     cs_Tags = [''saker'', ''prefix='' @ si_Prefix svc, ''audience='' @ si_Audience svc,
       ''native_route='' @ si_NativeRoute svc, ''scheme='' @ si_Scheme svc, ''health='' @ si_HealthPath svc,
       ''version='' @ si_Version svc],
     cs_Check = \<lparr>ck_HTTP = si_BaseURL svc @ si_HealthPath svc, ck_Interval = ''10s'', ck_Timeout = ''2s''\<rparr>\<rparr>"

definition consul_Refresh :: "ConsulClient \<Rightarrow> time \<Rightarrow> ServiceInstance \<Rightarrow> (ConsulRegistrar, unit) op" where
  "consul_Refresh client now svc =
    bnd (lift_res (Normalize now svc)) (\<lambda>svc.
    bnd (get_st cs_cfg) (\<lambda>cfg.
    bnd (lift_res (consul_request cfg ''PUT'' ''/v1/agent/service/register'' (json_service client (consul_body svc)))) (\<lambda>req.
    consul_do client ''consul register: '' req)))"

definition consul_Register :: "ConsulClient \<Rightarrow> time \<Rightarrow> ServiceInstance \<Rightarrow> (ConsulRegistrar, unit) op" where
  "consul_Register client now svc = consul_Refresh client now svc"

definition consul_Heartbeat :: "string \<Rightarrow> string \<Rightarrow> (ConsulRegistrar, unit) op" where
  "consul_Heartbeat serviceID instanceID = ret ()"

definition consul_Deregister :: "ConsulClient \<Rightarrow> string \<Rightarrow> (ConsulRegistrar, unit) op" where
  "consul_Deregister client instanceID =
    bnd (get_st cs_cfg) (\<lambda>cfg.
    bnd (lift_res (consul_request cfg ''PUT'' (''/v1/agent/service/deregister/'' @ PathEscape instanceID) [])) (\<lambda>req.
    consul_do client ''consul deregister: '' req))"

definition consul_Close :: "(ConsulRegistrar, unit) op" where
  "consul_Close = ret ()"

section \<open>The instance that is deregistered\<close>

text \<open>Whatever bytes the instance ID has, the request's path is the endpoint's with the ID as its last segment.\<close>

lemma shouldEscape_segment: "c \<in> set ''/?#'' \<or> is_ctl c \<Longrightarrow> shouldEscape c encodePathSegment"
proof (elim disjE)
  assume "is_ctl c"
  then show ?thesis by (rule shouldEscape_ctl) simp
next
  assume "c \<in> set ''/?#''"
  then consider "c = CHR ''/''" | "c = CHR ''?''" | "c = CHR ''#''" by auto
  then show ?thesis
    by cases (simp_all add: shouldEscape_defs is_alpha_def is_upper_def is_lower_def is_digit_def)
qed

lemma escaped_chars: "c \<in> set ''%+0123456789ABCDEF'' \<Longrightarrow> c \<notin> set ''/?#'' \<and> \<not> is_ctl c"
  by (auto simp: is_ctl_def)

lemma PathEscape_chars: "c \<in> set (PathEscape s) \<Longrightarrow> c \<notin> set ''/?#'' \<and> \<not> is_ctl c"
  using set_escape [of encodePathSegment s] shouldEscape_segment [of c] escaped_chars [of c]
  unfolding PathEscape_def by blast

lemma unescape_PathEscape: "unescape encodePath (PathEscape s) = Some s"
  by (simp add: unescape_path_segment PathEscape_def)

lemma consul_deregister_path:
  assumes s: "plain_scheme s" and a: "plain_host a" and d: "all_digits d"
    and addr: "TrimRightChar (cc_Addr cfg) CHR ''/'' = s @ ''://'' @ a @ '':'' @ d"
  defines "p \<equiv> ''/v1/agent/service/deregister/''"
  shows "\<exists>req u. consul_request cfg ''PUT'' (p @ PathEscape i) [] = Inr req \<and> Parse (cr_URL req) = Some u
    \<and> url_Host u = a @ '':'' @ d \<and> url_Path u = p @ i \<and> url_RawQuery u = [] \<and> url_Fragment u = []"
proof -
  let ?p = "p @ PathEscape i"
  have "list_all (\<lambda>c. c \<noteq> CHR ''%'' \<and> c \<noteq> CHR ''+'' \<and> plain_allowed encodePath c) p"
    by (simp add: p_def plain_allowed_def)
  then have q: "unescape encodePath ?p = Some (p @ i)"
    by (simp add: unescape_plain_append unescape_PathEscape)
  have "c \<notin> set ''?#'' \<and> \<not> is_ctl c" if "c \<in> set p" for c
  proof -
    have "list_all (\<lambda>c. c \<notin> set ''?#'' \<and> \<not> is_ctl c) p" by (simp add: p_def is_ctl_def)
    with that show ?thesis by (simp add: list_all_iff)
  qed
  then have "c \<notin> set ''?#'' \<and> \<not> is_ctl c" if "c \<in> set ?p" for c
    using that PathEscape_chars [of c i] by auto
  then have "set ?p \<inter> set ''?#'' = {}" "\<not> (\<exists>c \<in> set ?p. is_ctl c)" by blast+
  moreover have "hd ?p = CHR ''/''" by (simp add: p_def)
  ultimately have "Parse (s @ ''://'' @ a @ '':'' @ d @ ?p) = Some (with_path s (a @ '':'' @ d) ?p (p @ i))"
    by (intro Parse_host_port_path s a d q) auto
  then show ?thesis
    using addr by (auto simp: consul_request_def with_path_def empty_URL_def)
qed

end
