(* ===== verification/Discovery_Registration.thy ===== *)
theory Discovery_Registration
  imports Discovery_Mdns Discovery_Redis Discovery_Consul
begin

text \<open>
  The interface \<open>Registrar\<close> (\<open>src/discovery/types.go\<close>), the lifetime of one registration
  (\<open>src/discovery/registration.go\<close>) and the registrations started from the environment
  (\<open>src/discovery/env.go\<close>). The locale \<open>registrar\<close> states what an implementation promises to a
  \<open>Registration\<close>: an invariant of its own state that every operation keeps; it is interpreted on the
  three registrars.
\<close>

section \<open>The interface\<close>

record 'p Registrar =
  rg_Register :: "time \<Rightarrow> ServiceInstance \<Rightarrow> ('p, unit) op"
  rg_Heartbeat :: "string \<Rightarrow> string \<Rightarrow> ('p, unit) op"
  rg_Refresh :: "time \<Rightarrow> ServiceInstance \<Rightarrow> ('p, unit) op"
  rg_Deregister :: "string \<Rightarrow> ('p, unit) op"
  rg_Close :: "('p, unit) op"

definition mdns_registrar :: "MDNSNet \<Rightarrow> MDNSRegistrar Registrar" where
  "mdns_registrar net = \<lparr>rg_Register = mdns_Register net, rg_Heartbeat = mdns_Heartbeat net,
     rg_Refresh = mdns_Refresh net, rg_Deregister = mdns_Deregister, rg_Close = mdns_Close net\<rparr>"

definition redis_registrar :: "RedisNet \<Rightarrow> (ServiceInstance \<Rightarrow> string res) \<Rightarrow> RedisRegistrar Registrar" where
  "redis_registrar net marshal = \<lparr>rg_Register = redis_Register net marshal, rg_Heartbeat = redis_Heartbeat net,
     rg_Refresh = redis_Refresh net marshal, rg_Deregister = redis_Deregister, rg_Close = redis_Close net\<rparr>"

definition consul_registrar :: "ConsulClient \<Rightarrow> ConsulRegistrar Registrar" where
  "consul_registrar client = \<lparr>rg_Register = consul_Register client, rg_Heartbeat = consul_Heartbeat,
     rg_Refresh = consul_Refresh client, rg_Deregister = consul_Deregister client, rg_Close = consul_Close\<rparr>"

section \<open>One registration\<close>

text \<open>
  \<open>reg_looping\<close>: the heartbeat goroutine has not returned; \<open>reg_stopped\<close>: the body of \<open>Stop\<close> ran.
\<close>

record 'p Registration =
  reg_provider :: 'p
  reg_instance :: ServiceInstance
  reg_interval :: duration
  reg_looping :: bool
  reg_stopped :: bool

definition loop_interval :: "duration \<Rightarrow> duration" where
  "loop_interval ttl = (let i = go_div ttl 3 in if i \<le> 0 then 10 * Second else i)"

definition Start :: "'p Registrar \<Rightarrow> 'p \<Rightarrow> time \<Rightarrow> ServiceInstance \<Rightarrow> 'p Registration res \<times> 'p" where
  "Start rg p now inst =
    (case Normalize now inst of
       Inl e \<Rightarrow> (Inl e, p)
     | Inr svc \<Rightarrow>
       (case rg_Register rg now svc p of
          (Inl e, p') \<Rightarrow> (Inl e, p')
        | (Inr _, p') \<Rightarrow> (Inr \<lparr>reg_provider = p', reg_instance = svc, reg_interval = loop_interval (si_TTL svc),
            reg_looping = True, reg_stopped = False\<rparr>, p')))"

definition on_provider :: "('p, 'a) op \<Rightarrow> ('p Registration, 'a) op" where
  "on_provider m r = (fst (m (reg_provider r)), r\<lparr>reg_provider := snd (m (reg_provider r))\<rparr>)"

text \<open>A tick of the goroutine, the end of the context it runs in, and \<open>Stop\<close>.\<close>

definition reg_tick :: "'p Registrar \<Rightarrow> ('p Registration, unit) op" where
  "reg_tick rg =
    bnd (get_st (\<lambda>r. (reg_looping r, reg_instance r))) (\<lambda>(looping, svc).
      if looping then ignore_err (on_provider (rg_Heartbeat rg (si_ID svc) (si_InstanceID svc))) else ret ())"

definition reg_cancel :: "('p Registration, unit) op" where
  "reg_cancel = upd_st (\<lambda>r. r\<lparr>reg_looping := False\<rparr>)"

definition reg_Stop :: "'p Registrar \<Rightarrow> ('p Registration, unit) op" where
  "reg_Stop rg =
    bnd (get_st (\<lambda>r. (reg_stopped r, si_InstanceID (reg_instance r)))) (\<lambda>(stopped, instanceID).
      if stopped then ret ()
      else bnd (upd_st (\<lambda>r. r\<lparr>reg_looping := False, reg_stopped := True\<rparr>)) (\<lambda>_.
        on_err (on_provider (rg_Deregister rg instanceID))
          (\<lambda>err. bnd (ignore_err (on_provider (rg_Close rg))) (\<lambda>_. fail err))
          (\<lambda>_. on_provider (rg_Close rg))))"

inductive registration_step :: "'p Registrar \<Rightarrow> 'p Registration \<Rightarrow> 'p Registration \<Rightarrow> bool" for rg where
  tick: "registration_step rg r (snd (reg_tick rg r))"
| cancel: "registration_step rg r (snd (reg_cancel r))"
| stop: "registration_step rg r (snd (reg_Stop rg r))"

text \<open>Once stopped, a registration does not touch its provider any more.\<close>

definition reg_ended :: "'p Registration \<Rightarrow> bool" where
  "reg_ended r \<longleftrightarrow> reg_stopped r \<and> \<not> reg_looping r"

lemma reg_ended_stays:
  assumes "reg_ended r"
  shows "snd (reg_tick rg r) = r" "snd (reg_cancel r) = r" "reg_Stop rg r = (Inr (), r)"
  using assms by (simp_all add: reg_ended_def reg_tick_def reg_cancel_def reg_Stop_def op_simps)

lemma reg_Stop_ends: "(reg_stopped r \<longrightarrow> \<not> reg_looping r) \<Longrightarrow> reg_ended (snd (reg_Stop rg r))"
  by (auto simp: reg_Stop_def reg_ended_def op_simps bnd_def on_err_def on_provider_def split: sum.split)

lemma registration_step_ended: "registration_step rg r r' \<Longrightarrow> reg_ended r \<Longrightarrow> r' = r"
  by (induction rule: registration_step.induct) (simp_all add: reg_ended_stays)

lemma registration_ended_for_good: "(registration_step rg)\<^sup>*\<^sup>* r r' \<Longrightarrow> reg_ended r \<Longrightarrow> r' = r"
  by (induction rule: rtranclp_induct) (auto dest: registration_step_ended)

lemma registration_step_looping:
  "registration_step rg r r' \<Longrightarrow> (reg_stopped r \<longrightarrow> \<not> reg_looping r) \<Longrightarrow> (reg_stopped r' \<longrightarrow> \<not> reg_looping r')"
proof (induction rule: registration_step.induct)
  case (stop r)
  then show ?case using reg_Stop_ends [of r rg] by (simp add: reg_ended_def)
qed (auto simp: reg_tick_def reg_cancel_def op_simps on_provider_def)

lemma registration_looping:
  "(registration_step rg)\<^sup>*\<^sup>* r r' \<Longrightarrow> (reg_stopped r \<longrightarrow> \<not> reg_looping r) \<Longrightarrow> (reg_stopped r' \<longrightarrow> \<not> reg_looping r')"
  by (induction rule: rtranclp_induct) (auto dest: registration_step_looping)

section \<open>The contract of a registrar\<close>

locale registrar =
  fixes rg :: "'p Registrar" and inv :: "'p \<Rightarrow> bool"
  assumes Register: "inv p \<Longrightarrow> inv (snd (rg_Register rg now svc p))"
    and Heartbeat: "inv p \<Longrightarrow> inv (snd (rg_Heartbeat rg sid iid p))"
    and Refresh: "inv p \<Longrightarrow> inv (snd (rg_Refresh rg now svc p))"
    and Deregister: "inv p \<Longrightarrow> inv (snd (rg_Deregister rg iid p))"
    and Close: "inv p \<Longrightarrow> inv (snd (rg_Close rg p))"
begin

lemma Start_inv: "inv p \<Longrightarrow> fst (Start rg p now inst) = Inr reg \<Longrightarrow> inv (reg_provider reg)"
  using Register [of p now "normalized now inst"] by (auto simp: Start_def split: prod.splits sum.splits)

lemma step_inv: "registration_step rg r r' \<Longrightarrow> inv (reg_provider r) \<Longrightarrow> inv (reg_provider r')"
proof (induction rule: registration_step.induct)
  case (stop r)
  then show ?case
    by (auto simp: reg_Stop_def op_simps bnd_def on_err_def on_provider_def Deregister Close split: sum.split)
qed (auto simp: reg_tick_def reg_cancel_def op_simps on_provider_def Heartbeat)

lemma run_inv:
  assumes "inv p" and "fst (Start rg p now inst) = Inr reg" and "(registration_step rg)\<^sup>*\<^sup>* reg r"
  shows "inv (reg_provider r)"
  using assms(3) Start_inv [OF assms(1,2)] by (induction rule: rtranclp_induct) (auto dest: step_inv)

end

lemma mdns_steps_inv:
  "mdns_inv r \<Longrightarrow> mdns_inv (snd (mdns_Register net now svc r))"
  "mdns_inv r \<Longrightarrow> mdns_inv (snd (mdns_Heartbeat net sid iid r))"
  "mdns_inv r \<Longrightarrow> mdns_inv (snd (mdns_Refresh net now svc r))"
  "mdns_inv r \<Longrightarrow> mdns_inv (snd (mdns_Deregister iid r))"
  "mdns_inv r \<Longrightarrow> mdns_inv (snd (mdns_Close net r))"
  by (blast intro: mdns_inv_step mdns_step.intros)+

interpretation mdns: registrar "mdns_registrar net" mdns_inv for net
  by unfold_locales (simp_all add: mdns_registrar_def mdns_steps_inv)

lemma redis_steps_inv:
  "redis_inv cfg r \<Longrightarrow> redis_inv cfg (snd (redis_Register net marshal now svc r))"
  "redis_inv cfg r \<Longrightarrow> redis_inv cfg (snd (redis_Heartbeat net sid iid r))"
  "redis_inv cfg r \<Longrightarrow> redis_inv cfg (snd (redis_Refresh net marshal now svc r))"
  "redis_inv cfg r \<Longrightarrow> redis_inv cfg (snd (redis_Deregister iid r))"
  "redis_inv cfg r \<Longrightarrow> redis_inv cfg (snd (redis_Close net r))"
  by (blast intro: redis_inv_step redis_step.intros)+

interpretation redis: registrar "redis_registrar net marshal" "redis_inv cfg" for net marshal cfg
  by unfold_locales (simp_all add: redis_registrar_def redis_steps_inv)

text \<open>The Consul registrar keeps its configuration.\<close>

definition consul_inv :: "ConsulConfig \<Rightarrow> ConsulRegistrar \<Rightarrow> bool" where
  "consul_inv cfg r \<longleftrightarrow> cs_cfg r = consul_defaults cfg"

lemma consul_steps_inv:
  "consul_inv cfg r \<Longrightarrow> consul_inv cfg (snd (consul_Refresh client now svc r))"
  "consul_inv cfg r \<Longrightarrow> consul_inv cfg (snd (consul_Deregister client iid r))"
  by (auto simp: consul_Refresh_def consul_Deregister_def consul_do_def consul_inv_def op_simps bnd_def
      split: sum.split)

interpretation consul: registrar "consul_registrar client" "consul_inv cfg" for client cfg
  by unfold_locales (simp_all add: consul_registrar_def consul_steps_inv consul_Register_def consul_Heartbeat_def
      consul_Close_def op_simps)

section \<open>Registrations from the environment\<close>

text \<open>
  \<open>env\<close> is \<open>os.Getenv\<close>; \<open>parse\<close> is \<open>time.ParseDuration\<close>, \<open>None\<close> for its error. The registrars of the
  three kinds have states of different types: a started registration is one of three.
\<close>

type_synonym environ = "string \<Rightarrow> string"

definition envString :: "environ \<Rightarrow> string \<Rightarrow> string \<Rightarrow> string" where
  "envString env key fallback = (let v = TrimSpace (env key) in if v \<noteq> [] then v else fallback)"

definition ParseBool :: "string \<Rightarrow> bool option" where
  "ParseBool s =
    (if s \<in> set [''1'', ''t'', ''T'', ''true'', ''TRUE'', ''True''] then Some True
     else if s \<in> set [''0'', ''f'', ''F'', ''false'', ''FALSE'', ''False''] then Some False else None)"

definition envBool :: "environ \<Rightarrow> string \<Rightarrow> bool" where
  "envBool env key = (let v = TrimSpace (env key) in if v = [] then False else ParseBool v = Some True)"

definition envDuration :: "(string \<Rightarrow> duration option) \<Rightarrow> environ \<Rightarrow> string \<Rightarrow> duration \<Rightarrow> duration" where
  "envDuration parse env key fallback =
    (let v = TrimSpace (env key) in
     if v = [] then fallback else (case parse v of None \<Rightarrow> fallback | Some d \<Rightarrow> d))"

datatype provider = MDNS MDNSRegistrar | Redis RedisRegistrar | Consul ConsulRegistrar

definition providerFromEnv :: "(string \<Rightarrow> duration option) \<Rightarrow> environ \<Rightarrow> string \<Rightarrow> provider option" where
  "providerFromEnv parse env name =
    (if name = ''mdns'' then Some (MDNS (NewMDNSRegistrar
       \<lparr>mc_ServiceType = envString env ''SAKER_DISCOVERY_MDNS_SERVICE_TYPE'' ''_saker._tcp'',
        mc_Domain = envString env ''SAKER_DISCOVERY_MDNS_DOMAIN'' ''local.''\<rparr>))
     else if name = ''redis'' then Some (Redis (NewRedisRegistrar
       \<lparr>rc_Addr = envString env ''SAKER_REDIS_ADDR'' (envString env ''WEBHUB_DISCOVERY_REDIS_ADDR'' ''127.0.0.1:6379''),
        rc_Password = env ''SAKER_REDIS_PASSWORD'', rc_Prefix = envString env ''SAKER_REDIS_PREFIX'' ''saker:services'',
        rc_TTL = envDuration parse env ''SAKER_REDIS_TTL'' (30 * Second)\<rparr>))
     else if name = ''consul'' then Some (Consul (NewConsulRegistrar
       \<lparr>cc_Addr = envString env ''SAKER_CONSUL_ADDR'' (envString env ''WEBHUB_DISCOVERY_CONSUL_ADDR'' ''127.0.0.1:8500''),
        cc_Token = env ''SAKER_CONSUL_TOKEN''\<rparr>))
     else None)"

text \<open>The networks a provider runs on.\<close>

record Nets =
  nets_mdns :: MDNSNet
  nets_redis :: RedisNet
  nets_marshal :: "ServiceInstance \<Rightarrow> string res"
  nets_consul :: ConsulClient

datatype started = RegMDNS "MDNSRegistrar Registration" | RegRedis "RedisRegistrar Registration"
  | RegConsul "ConsulRegistrar Registration"

definition start_provider :: "Nets \<Rightarrow> time \<Rightarrow> ServiceInstance \<Rightarrow> provider \<Rightarrow> started res" where
  "start_provider nets now inst p =
    (case p of
       MDNS r \<Rightarrow> map_sum id RegMDNS (fst (Start (mdns_registrar (nets_mdns nets)) r now inst))
     | Redis r \<Rightarrow> map_sum id RegRedis (fst (Start (redis_registrar (nets_redis nets) (nets_marshal nets)) r now inst))
     | Consul r \<Rightarrow> map_sum id RegConsul (fst (Start (consul_registrar (nets_consul nets)) r now inst)))"

definition provider_names :: "environ \<Rightarrow> string \<Rightarrow> string list" where
  "provider_names env DefaultProviders =
    (let providers = envString env ''SAKER_DISCOVERY_PROVIDERS'' DefaultProviders;
         providers = (if providers = [] then ''mdns'' else providers)
     in filter (\<lambda>name. \<not> (name = [] \<or> name = ''static'' \<or> name = ''env''))
          (map TrimSpace (SplitChar CHR '','' providers)))"

text \<open>
  The loop of \<open>StartFromEnv\<close>: a provider that does not start is closed and skipped (\<open>_ = provider.Close()\<close>; it is not
  used again). Provider number \<open>i\<close> runs on the network \<open>nets i\<close>.
\<close>

fun start_providers :: "(nat \<Rightarrow> Nets) \<Rightarrow> time \<Rightarrow> ServiceInstance \<Rightarrow> nat \<Rightarrow> provider option list \<Rightarrow> started list" where
  "start_providers nets now inst i [] = []"
| "start_providers nets now inst i (None # ps) = start_providers nets now inst (Suc i) ps"
| "start_providers nets now inst i (Some p # ps) =
    (case start_provider (nets i) now inst p of
       Inl _ \<Rightarrow> start_providers nets now inst (Suc i) ps
     | Inr reg \<Rightarrow> reg # start_providers nets now inst (Suc i) ps)"

definition StartFromEnv :: "(string \<Rightarrow> duration option) \<Rightarrow> (nat \<Rightarrow> Nets) \<Rightarrow> environ \<Rightarrow> string \<Rightarrow> time \<Rightarrow> ServiceInstance
    \<Rightarrow> started list res" where
  "StartFromEnv parse nets env DefaultProviders now inst =
    (if \<not> envBool env ''SAKER_DISCOVERY_ENABLED'' then Inr []
     else Inr (start_providers nets now inst 0 (map (providerFromEnv parse env) (provider_names env DefaultProviders))))"

definition stop_started :: "Nets \<Rightarrow> started \<Rightarrow> unit res \<times> started" where
  "stop_started nets s =
    (case s of
       RegMDNS r \<Rightarrow> map_prod id RegMDNS (reg_Stop (mdns_registrar (nets_mdns nets)) r)
     | RegRedis r \<Rightarrow> map_prod id RegRedis (reg_Stop (redis_registrar (nets_redis nets) (nets_marshal nets)) r)
     | RegConsul r \<Rightarrow> map_prod id RegConsul (reg_Stop (consul_registrar (nets_consul nets)) r))"

text \<open>\<open>MultiRegistration.Stop\<close>: every registration is stopped, the first error is returned.\<close>

fun multi_Stop :: "(nat \<Rightarrow> Nets) \<Rightarrow> nat \<Rightarrow> started list \<Rightarrow> unit res \<times> started list" where
  "multi_Stop nets i [] = (Inr (), [])"
| "multi_Stop nets i (s # ss) =
    (let (r, s') = stop_started (nets i) s; (r', ss') = multi_Stop nets (Suc i) ss
     in ((case r of Inl e \<Rightarrow> Inl e | Inr _ \<Rightarrow> r'), s' # ss'))"

definition started_ended :: "started \<Rightarrow> bool" where
  "started_ended s = (case s of RegMDNS r \<Rightarrow> reg_ended r | RegRedis r \<Rightarrow> reg_ended r | RegConsul r \<Rightarrow> reg_ended r)"

definition started_live :: "started \<Rightarrow> bool" where
  "started_live s = (case s of RegMDNS r \<Rightarrow> reg_stopped r \<longrightarrow> \<not> reg_looping r
     | RegRedis r \<Rightarrow> reg_stopped r \<longrightarrow> \<not> reg_looping r | RegConsul r \<Rightarrow> reg_stopped r \<longrightarrow> \<not> reg_looping r)"

lemma Start_live: "fst (Start rg p now inst) = Inr r \<Longrightarrow> reg_looping r \<and> \<not> reg_stopped r \<and> 0 < reg_interval r"
  by (auto simp: Start_def loop_interval_def Let_def split: prod.splits sum.splits)

lemma stop_started_ends: "started_live s \<Longrightarrow> started_ended (snd (stop_started nets s))"
  by (auto simp: stop_started_def started_live_def started_ended_def reg_Stop_ends split: started.splits)

lemma multi_Stop_ends: "list_all started_live ss \<Longrightarrow> list_all started_ended (snd (multi_Stop nets i ss))"
proof (induction ss arbitrary: i)
  case (Cons s ss)
  then show ?case using stop_started_ends [of s "nets i"] by (simp add: Let_def case_prod_unfold)
qed simp

lemma map_sum_Inr: "map_sum f g x = Inr y \<longleftrightarrow> (\<exists>z. x = Inr z \<and> y = g z)"
  by (cases x) auto

lemma start_provider_live: "start_provider nets now inst p = Inr s \<Longrightarrow> started_live s"
  by (auto simp: start_provider_def started_live_def map_sum_Inr dest!: Start_live split: provider.splits)

lemma start_providers_live: "list_all started_live (start_providers nets now inst i ps)"
  by (induction nets now inst i ps rule: start_providers.induct)
    (auto simp: start_provider_live split: sum.split)

end
