(* ===== verification/Discovery_Properties.thy ===== *)
theory Discovery_Properties
  imports Discovery_Registration
begin

text \<open>
  The properties of package \<open>discovery\<close>: what is announced can be read back, normalizing is idempotent,
  a registration ends for good, and the connection of the Redis registrar is trustworthy after a
  successful command (and not always after a failed one).
\<close>

section \<open>mDNS\<close>

text \<open>C27: A listener that parses an announcement packet finds the four answers of the instance: the service
  points to the instance, the instance has the port (modulo 65536, the width of the field) and the host,
  the attributes are those of the instance (each cut at 255 bytes) and the host has the IPv4 address of
  the instance. The hypothesis excludes names with an empty label and instance names of 64 KB.\<close>

theorem announcement_reads_back:
  assumes "mdns_named cfg svc"
  shows "read_service (buildAnnouncement cfg svc) =
    Some \<lparr>ms_service = labels (serviceFQDN cfg), ms_instance = labels (dnsInstanceName cfg svc),
      ms_host = labels (dns_host svc), ms_port = nat (si_Port svc mod 65536),
      ms_txt = map (take 255) (serviceTXT svc), ms_ip = announced_ip svc\<rparr>"
  using read_announcement [OF assms] by (simp add: seen_service_def)

definition ex_instance :: ServiceInstance where
  "ex_instance = \<lparr>si_ID = ''api'', si_Name = [], si_InstanceID = [], si_Scheme = [], si_Address = ''10.0.0.7'',
     si_Port = 8080, si_BaseURL = [], si_Prefix = ''/api'', si_HealthPath = ''health'', si_Audience = ''webhub'',
     si_NativeRoute = [], si_Version = ''1.2'', si_Status = [], si_Weight = 0, si_Region = [], si_Zone = [],
     si_Tags = [], si_Metadata = [], si_StartedAt = zero_time, si_LastSeenAt = zero_time, si_TTL = 0, si_Source = []\<rparr>"

definition ex_mdns :: MDNSConfig where
  "ex_mdns = mdns_defaults \<lparr>mc_ServiceType = [], mc_Domain = []\<rparr>"

lemma ex_mdns_domain: "service_domain ex_mdns = [''_saker'', ''_tcp'', ''local'']"
  by (simp add: service_domain_def ex_mdns_def mdns_defaults_def TrimSuffix_def HasSuffix_def TrimRightChar_def TrimLeftChar_def)

lemma ex_mdns_named: "mdns_named ex_mdns ex_instance"
proof -
  have "labels (serviceFQDN ex_mdns) = [''_saker'', ''_tcp'', ''local'']"
    "labels (dnsInstanceName ex_mdns ex_instance) = [''api'', ''_saker'', ''_tcp'', ''local'']"
    by (simp_all add: labels_names ex_mdns_domain instance_label_def ex_instance_def ReplaceAllChar_def)
  then have "length (mustName (dnsInstanceName ex_mdns ex_instance)) < 65536"
    by (simp add: length_mustName)
  then show ?thesis by (simp add: mdns_named_def ex_mdns_domain) (simp add: ex_instance_def)
qed

theorem announcement_reads_back_witness:
  "read_service (buildAnnouncement ex_mdns ex_instance) =
    Some \<lparr>ms_service = [''_saker'', ''_tcp'', ''local''], ms_instance = [''api'', ''_saker'', ''_tcp'', ''local''],
      ms_host = [''api'', ''local''], ms_port = 8080, ms_txt = map (take 255) (serviceTXT ex_instance),
      ms_ip = [byte 10, byte 0, byte 0, byte 7]\<rparr>"
proof -
  have n: "labels (serviceFQDN ex_mdns) = [''_saker'', ''_tcp'', ''local'']"
    "labels (dnsInstanceName ex_mdns ex_instance) = [''api'', ''_saker'', ''_tcp'', ''local'']"
    "labels (dns_host ex_instance) = [''api'', ''local'']"
    by (simp_all add: labels_names ex_mdns_domain instance_label_def ex_instance_def ReplaceAllChar_def)
  have "ParseIP_To4 (si_Address ex_instance) = Some [byte 10, byte 0, byte 0, byte 7]"
    by (simp add: ex_instance_def) code_simp
  then have "announced_ip ex_instance = [byte 10, byte 0, byte 0, byte 7]"
    by (simp only: announced_ip_def option.case)
  moreover have "si_Port ex_instance = 8080" by (simp add: ex_instance_def)
  ultimately show ?thesis
    using announcement_reads_back [OF ex_mdns_named] n by simp
qed

section \<open>Normalize\<close>

text \<open>A normalized instance is announced with every default in place, and normalizing it again, as
  the registrars do, changes nothing, when its location is a scheme, host name and port or a base URL without
  white space before the slashes that are cut.\<close>

theorem normalize_idempotent:
  assumes "\<not> IsZero now" and "clean_location svc" and "Normalize now svc = Inr svc'"
  shows "Normalize now' svc' = Inr svc' \<and> announced svc'"
  using normalized_again [OF assms(1,2)] normalized_announced [OF assms(1)] assms(3) by auto

theorem normalize_idempotent_witness:
  "\<exists>svc'. Normalize 1 ex_instance = Inr svc' \<and> Normalize 2 svc' = Inr svc' \<and> announced svc'
    \<and> si_BaseURL svc' = ''http://10.0.0.7:8080''"
proof -
  have t: "TrimSpace ''10.0.0.7'' = ''10.0.0.7''"
    by (rule TrimSpace_fixed) (simp add: space_bytes_def space_runes_def)
  have "plain_scheme ''http''" "plain_host ''10.0.0.7''"
    by (simp_all add: plain_scheme_def plain_host_def is_lower_def is_alpha_def is_upper_def is_digit_def)
  then have clean: "clean_location ex_instance"
    by (simp add: clean_location_def ex_instance_def TrimRightChar_def t)
  have "\<not> IsZero 1" by (simp add: IsZero_def zero_time_def)
  from normalize_idempotent [OF this clean, of "normalized 1 ex_instance" 2]
  have "Normalize 2 (normalized 1 ex_instance) = Inr (normalized 1 ex_instance) \<and> announced (normalized 1 ex_instance)"
    by simp
  moreover have "Itoa 8080 = ''8080''" by (simp add: Itoa_def nat_digits.simps char_of_eq_iff take_bit_eq_mod)
  then have "si_BaseURL (normalized 1 ex_instance) = ''http://10.0.0.7:8080''"
    by (simp add: normalized_def normalize_base_url_def normalize_from_url_def)
      (simp add: ex_instance_def TrimRightChar_def t JoinHostPort_def)
  ultimately show ?thesis by auto
qed

section \<open>Redis\<close>

text \<open>C28: A Redis command that succeeds on a clean connection is, whatever bytes its arguments contain, exactly the
  last command Redis reads on the connection, and the connection stays clean.\<close>

theorem redis_command_delivered:
  assumes "redis_clean r" and "fst (redis_command net args r) = Inr ()"
  shows "redis_sent_last args (snd (redis_command net args r)) \<and> redis_clean (snd (redis_command net args r))"
  using redis_command_Inr [OF assms] redis_sent_last_clean by blast

text \<open>A network without failures whose replies are all the line \<open>+OK\<close>.\<close>

definition ex_redis_net :: RedisNet where
  "ex_redis_net = \<lparr>rn_Dial = (\<lambda>_. None), rn_Write = (\<lambda>_. None), rn_ReadLine = (\<lambda>_. Inr ''+OK''), rn_Close = (\<lambda>_. None)\<rparr>"

definition ex_redis :: RedisRegistrar where
  "ex_redis = NewRedisRegistrar \<lparr>rc_Addr = [], rc_Password = ''pw'', rc_Prefix = [], rc_TTL = 0\<rparr>"

lemma ex_redis_ok: "redis_clean ex_redis" "fst (redis_command ex_redis_net [''PUBLISH'', ''k'', ''a*1'' @ crlf] ex_redis) = Inr ()"
proof -
  show "redis_clean ex_redis" by (simp add: redis_clean_def ex_redis_def NewRedisRegistrar_def)
  have call: "fst (redis_call (\<lambda>n. unit_res (rn_Dial ex_redis_net n)) r) = Inr ()"
    "fst (redis_write ex_redis_net b r) = Inr ()" "fst (readSimple ex_redis_net r) = Inr ()" for r b
    by (simp_all add: ex_redis_net_def unit_res_def redis_write_def readSimple_def redis_call_def op_simps HasPrefix_def bnd_def)
  have "\<exists>us. fst (for_each (\<lambda>arg. redis_write ex_redis_net (command_arg arg)) args r) = Inr us" for args r
  proof (induction args arbitrary: r)
    case (Cons a args)
    from Cons [of "snd (redis_write ex_redis_net (command_arg a) r)"] obtain us where
      "fst (for_each (\<lambda>arg. redis_write ex_redis_net (command_arg arg)) args (snd (redis_write ex_redis_net (command_arg a) r))) = Inr us"
      by blast
    with call(2) [of "command_arg a" r] show ?case by (simp add: op_simps)
  qed (simp add: op_simps)
  then have w: "fst (writeCommand ex_redis_net args r) = Inr ()" for args r
    using call(2) by (auto simp: writeCommand_def bnd_def op_simps split: sum.split)
      (metis Inl_Inr_False)
  have e: "fst (redis_ensureConn ex_redis_net r) = Inr ()" for r
    using call w by (simp add: redis_ensureConn_def op_simps bnd_def on_err_def split: sum.split)
  show "fst (redis_command ex_redis_net [''PUBLISH'', ''k'', ''a*1'' @ crlf] ex_redis) = Inr ()"
    by (simp add: redis_command_def redis_commandLocked_def op_simps e w call)
qed

theorem redis_command_delivered_witness:
  "redis_sent_last [''PUBLISH'', ''k'', ''a*1'' @ crlf] (snd (redis_command ex_redis_net [''PUBLISH'', ''k'', ''a*1'' @ crlf] ex_redis))
   \<and> redis_clean (snd (redis_command ex_redis_net [''PUBLISH'', ''k'', ''a*1'' @ crlf] ex_redis))"
  by (rule redis_command_delivered [OF ex_redis_ok])

text \<open>A network on which the second write of a connection fails.\<close>

definition ex_broken_net :: RedisNet where
  "ex_broken_net = \<lparr>rn_Dial = (\<lambda>_. None), rn_Write = (\<lambda>n. if n = 2 \<or> n = 6 then Some (Errorf ''timeout'') else None),
     rn_ReadLine = (\<lambda>_. Inr ''+OK''), rn_Close = (\<lambda>_. None)\<rparr>"

lemma not_commands: "read_command s = None \<Longrightarrow> s \<noteq> [] \<Longrightarrow> \<not> commands s cmds"
  by (auto elim: commands.cases)

text \<open>A command that fails twice can leave its connection open with an incomplete command written on it: the
  connection is closed before the retry, but not after a failed retry, and the next command is appended to it.\<close>

theorem redis_failed_retry_keeps_connection:
  "\<exists>r'. redis_command ex_broken_net [''GET'', ''k''] (NewRedisRegistrar \<lparr>rc_Addr = [], rc_Password = [], rc_Prefix = [], rc_TTL = 0\<rparr>)
      = (Inl (Errorf ''timeout''), r') \<and> rr_conn r' \<and> rr_sent r' = command_header [''GET'', ''k'']
    \<and> (\<nexists>cmds. commands (rr_sent r') cmds)"
proof -
  define r where "r = NewRedisRegistrar \<lparr>rc_Addr = [], rc_Password = [], rc_Prefix = [], rc_TTL = 0\<rparr>"
  have r: "rr_conn r = False" "rr_calls r = 0" "rr_sent r = []" "rc_Password (rr_cfg r) = []"
    by (simp_all add: r_def NewRedisRegistrar_def redis_defaults_def)
  define a where "a = r\<lparr>rr_conn := True, rr_calls := 3, rr_sent := command_header [''GET'', ''k'']\<rparr>"
  have first: "redis_commandLocked ex_broken_net [''GET'', ''k''] r = (Inl (Errorf ''timeout''), a)"
    by (simp add: redis_commandLocked_def redis_ensureConn_def writeCommand_def redis_write_def redis_call_def bnd_def op_simps
        ex_broken_net_def unit_res_def r a_def)
  define b where "b = r\<lparr>rr_conn := False, rr_calls := 4, rr_sent := []\<rparr>"
  have closed: "redis_closeConn ex_broken_net a = (Inr (), b)"
    by (simp add: redis_closeConn_def redis_call_def op_simps bnd_def on_err_def ex_broken_net_def unit_res_def a_def b_def)
  define c where "c = r\<lparr>rr_conn := True, rr_calls := 7, rr_sent := command_header [''GET'', ''k'']\<rparr>"
  have second: "redis_commandLocked ex_broken_net [''GET'', ''k''] b = (Inl (Errorf ''timeout''), c)"
    by (simp add: redis_commandLocked_def redis_ensureConn_def writeCommand_def redis_write_def redis_call_def bnd_def op_simps
        ex_broken_net_def unit_res_def r b_def c_def)
  have "redis_command ex_broken_net [''GET'', ''k''] r = (Inl (Errorf ''timeout''), c)"
    by (simp add: redis_command_def op_simps first closed second)
  moreover have "read_command (command_header [''GET'', ''k'']) = None" by code_simp
  then have "\<nexists>cmds. commands (rr_sent c) cmds"
    using not_commands [of "rr_sent c"] by (auto simp: c_def command_header_def)
  ultimately show ?thesis by (auto simp: r_def [symmetric] c_def)
qed

section \<open>Consul\<close>

text \<open>Whatever bytes an instance ID has, deregistering it from Consul requests exactly the path of the endpoint
  followed by the ID: the ID cannot add a segment, a query or a fragment.\<close>

theorem consul_deregisters_the_instance:
  assumes "plain_scheme s" and "plain_host a" and "all_digits d"
    and "TrimRightChar (cc_Addr cfg) CHR ''/'' = s @ ''://'' @ a @ '':'' @ d"
  shows "\<exists>req u. consul_request cfg ''PUT'' (''/v1/agent/service/deregister/'' @ PathEscape i) [] = Inr req
    \<and> Parse (cr_URL req) = Some u \<and> url_Host u = a @ '':'' @ d
    \<and> url_Path u = ''/v1/agent/service/deregister/'' @ i \<and> url_RawQuery u = [] \<and> url_Fragment u = []"
  using consul_deregister_path [OF assms] by simp

theorem consul_deregisters_the_instance_witness:
  "\<exists>req u. consul_request (consul_defaults \<lparr>cc_Addr = [], cc_Token = []\<rparr>) ''PUT''
      (''/v1/agent/service/deregister/'' @ PathEscape ''a/../b?c#d'') [] = Inr req
    \<and> Parse (cr_URL req) = Some u \<and> url_Host u = ''127.0.0.1'' @ '':'' @ ''8500''
    \<and> url_Path u = ''/v1/agent/service/deregister/'' @ ''a/../b?c#d'' \<and> url_RawQuery u = [] \<and> url_Fragment u = []"
  by (rule consul_deregisters_the_instance [where s = "''http''"])
    (simp_all add: plain_scheme_def plain_host_def is_lower_def is_alpha_def is_upper_def is_digit_def all_digits_def
      consul_defaults_def HasPrefix_def TrimRightChar_def)

section \<open>Registrations\<close>


definition ex_mdns_net :: MDNSNet where
  "ex_mdns_net = \<lparr>mn_Listen = (\<lambda>_. None), mn_WriteTo = (\<lambda>_. None), mn_Close = (\<lambda>_. None)\<rparr>"

lemma ex_Start: "\<exists>reg. fst (Start (mdns_registrar ex_mdns_net) (NewMDNSRegistrar cfg) now inst) = Inr reg"
  by (auto simp: Start_def mdns_registrar_def mdns_Register_def mdns_Refresh_def mdns_ensureConn_def mdns_announce_def
      net_call_def ex_mdns_net_def NewMDNSRegistrar_def op_simps bnd_def)


text \<open>C40: Stopping the registrations of the environment stops every one of them, also when some return errors;
  discovery that is not enabled starts none.\<close>

theorem stop_stops_all:
  assumes "StartFromEnv parse nets env providers now inst = Inr regs"
  shows "list_all started_ended (snd (multi_Stop nets' 0 regs)) \<and> (\<not> envBool env ''SAKER_DISCOVERY_ENABLED'' \<longrightarrow> regs = [])"
  using assms multi_Stop_ends start_providers_live by (auto simp: StartFromEnv_def split: if_splits)

definition ex_env :: environ where
  "ex_env = (\<lambda>key. if key = ''SAKER_DISCOVERY_ENABLED'' then ''true'' else [])"

definition ex_nets :: Nets where
  "ex_nets = \<lparr>nets_mdns = ex_mdns_net, nets_redis = ex_redis_net, nets_marshal = (\<lambda>_. Inr []),
     nets_consul = \<lparr>http_Do = (\<lambda>_ _. Inr (200, [])), json_service = (\<lambda>_. [])\<rparr>\<rparr>"

lemma ex_StartFromEnv:
  "\<exists>r. StartFromEnv (\<lambda>_. None) (\<lambda>_. ex_nets) ex_env [] 1 ex_instance = Inr [RegMDNS r]"
proof -
  have t: "TrimSpace ''true'' = ''true''" "TrimSpace ''mdns'' = ''mdns''"
    by (rule TrimSpace_fixed; simp add: space_bytes_def space_runes_def)+
  have "provider_names ex_env [] = [''mdns'']"
    by (simp add: provider_names_def ex_env_def envString_def t)
  moreover obtain m where "providerFromEnv (\<lambda>_. None) ex_env ''mdns'' = Some (MDNS (NewMDNSRegistrar m))"
    by (simp add: providerFromEnv_def)
  moreover have "envBool ex_env ''SAKER_DISCOVERY_ENABLED''"
    by (simp add: envBool_def ex_env_def t ParseBool_def)
  moreover obtain r where "fst (Start (mdns_registrar ex_mdns_net) (NewMDNSRegistrar m) 1 ex_instance) = Inr r"
    using ex_Start by blast
  ultimately show ?thesis
    by (simp add: StartFromEnv_def start_provider_def ex_nets_def)
qed

theorem stop_stops_all_witness:
  "\<exists>r. StartFromEnv (\<lambda>_. None) (\<lambda>_. ex_nets) ex_env [] 1 ex_instance = Inr [RegMDNS r]
   \<and> list_all started_ended (snd (multi_Stop (\<lambda>_. ex_nets) 0 [RegMDNS r]))"
proof -
  obtain r where r: "StartFromEnv (\<lambda>_. None) (\<lambda>_. ex_nets) ex_env [] 1 ex_instance = Inr [RegMDNS r]"
    using ex_StartFromEnv by blast
  from r stop_stops_all [OF r, of "\<lambda>_. ex_nets"] show ?thesis by blast
qed

end
