(* ===== verification/Warden_Login_Facts.thy ===== *)
theory Warden_Login_Facts
  imports Warden_Directory_Facts
begin

text \<open>
  What the login at the identity provider guarantees: which ID tokens are accepted, what a started login
  stores and asks for, that a login state is consumed by the callback of the browser it was made for, and
  for whom a callback creates a session.
\<close>

section \<open>Accepted claims\<close>

definition claims_accepted :: "OIDCVerifier \<Rightarrow> time \<Rightarrow> OIDCClaims \<Rightarrow> string \<Rightarrow> bool" where
  "claims_accepted v now c nonce \<longleftrightarrow>
     oc_Issuer c = ov_Issuer v \<and> TrimSpace (oc_Subject c) \<noteq> []
     \<and> ov_ClientID v \<in> set (oc_Audience c)
     \<and> (oc_AuthorizedParty c = ov_ClientID v \<or> oc_AuthorizedParty c = [] \<and> oc_Audience c = [ov_ClientID v])
     \<and> (nonce = [] \<or> oc_Nonce c = nonce)
     \<and> 0 < oc_ExpiresAt c \<and> now < time_Unix (oc_ExpiresAt c) \<and> oc_NotBefore c \<le> Unix now
     \<and> oc_IssuedAt c \<le> Unix (now + 30 * Second)"

lemma validateClaims_iff:
  "validateClaims v now c nonce = (if claims_accepted v now c nonce then Inr () else Inl ErrOIDCInvalidToken)"
proof -
  have "oc_Audience c = [ov_ClientID v] \<longleftrightarrow> length (oc_Audience c) \<le> 1"
    if "ov_ClientID v \<in> set (oc_Audience c)"
    using that by (cases "oc_Audience c"; cases "tl (oc_Audience c)") auto
  then show ?thesis by (auto simp: validateClaims_def claims_accepted_def Before_def not_less)
qed

lemma oidc_verify_Inr:
  assumes "oidc_verify lib n now v raw nonce = Inr (token, c)"
  shows "claims_accepted v now c nonce" and "length raw \<le> 65536"
    and "\<exists>verifier. (ov_verifier v = Some verifier \<or> ov_verifier v = None
         \<and> verifier = externalTokenVerifier (ov_Issuer v) (ov_ClientID v) (ov_JWKSURL v))
       \<and> lib_Verify lib n verifier raw = Some token"
    and "OIDCClaims_UnmarshalJSON (idt_Claims token) = Inr c"
proof -
  obtain u where "validateClaims v now c nonce = Inr u" and len: "\<not> 65536 < length raw"
    and j: "OIDCClaims_UnmarshalJSON (idt_Claims token) = Inr c"
    and k: "\<exists>verifier. (ov_verifier v = Some verifier \<or> ov_verifier v = None
         \<and> verifier = externalTokenVerifier (ov_Issuer v) (ov_ClientID v) (ov_JWKSURL v))
       \<and> lib_Verify lib n verifier raw = Some token"
    using assms by (auto simp: oidc_verify_def split: if_splits option.splits sum.splits)
  then show "claims_accepted v now c nonce" by (simp add: validateClaims_iff split: if_splits)
  show "length raw \<le> 65536" using len by simp
qed (use assms in \<open>auto simp: oidc_verify_def split: if_splits option.splits sum.splits\<close>)

lemma VerifyTokenSet_Inr:
  assumes "fst (VerifyTokenSet svc v tokens nonce w) = Inr c"
  shows "\<exists>now. claims_accepted v now c nonce"
  using assms oidc_verify_Inr(1)
  by (fastforce simp: VerifyTokenSet_def oidc_Now_def oidc_call_def op_simps oidc_VerifyTokenSet_def
      split: sum.splits prod.splits if_splits)

section \<open>Login states\<close>

text \<open>Login states are only added by the start of a login.\<close>

definition states_shrink :: "StoreView \<Rightarrow> StoreView \<Rightarrow> bool" where
  "states_shrink V V' \<longleftrightarrow> vw_oidcStates V' \<subseteq>\<^sub>m vw_oidcStates V"

lemma states_shrink_relation: "reflp states_shrink" "transp states_shrink"
  by (auto simp: reflp_def transp_def states_shrink_def intro: map_le_trans)

lemma states_shrinkD: "states_shrink V V' \<Longrightarrow> vw_oidcStates V k = None \<Longrightarrow> vw_oidcStates V' k = None"
  by (metis states_shrink_def map_le_def domIff)

lemma map_le_del [simp]: "m(k := None) \<subseteq>\<^sub>m m"
  by (simp add: map_le_def)

lemma states_shrink_same [simp]: "vw_oidcStates V' = vw_oidcStates V \<Longrightarrow> states_shrink V V'"
  by (simp add: states_shrink_def)

sublocale full_store \<subseteq> logins: device_writer st "kept states_shrink ok view"
proof
  let ?R = "kept states_shrink ok view"
  note refl = states_shrink_relation(1)
  show "reflp ?R" "transp ?R" by (simp_all add: kept_reflp kept_transp states_shrink_relation)
  show "?R w w'" if "w_store w' = w_store w" for w w' :: "'s World"
    using that by (rule kept_same_store [OF refl])
  show "steps ?R (on_store (store_GetTenant st k))" for k by (rule kept_read [OF refl]) (simp add: GetTenant)
  show "steps ?R (on_store (store_GetPrincipal st k))" for k by (rule kept_read [OF refl]) (simp add: GetPrincipal)
  show "steps ?R (on_store (store_GetSession st k))" for k by (rule kept_read [OF refl]) (simp add: GetSession)
  show "steps ?R (on_store (store_GetAPIKeyByHash st k))" for k by (rule kept_read [OF refl]) (simp add: GetAPIKeyByHash)
  show "steps ?R (on_store (store_GetDeviceCode st k))" for k by (rule kept_read [OF refl]) (simp add: GetDeviceCode)
  show "steps ?R (on_store (store_ListPrincipalsByCasdoorUser st k))" for k
    by (rule kept_read [OF refl]) (use ListPrincipals in blast)
  show "steps ?R (on_store (store_ListAPIKeys st k))" for k by (rule kept_read [OF refl]) (use ListAPIKeys in blast)
  show "steps ?R (on_store (store_ListServiceAccounts st k))" for k
    by (rule kept_read [OF refl]) (use ListServiceAccounts in blast)
  show "steps ?R (on_store (store_GetDeviceCodeByUserCode st k))" for k
    by (rule kept_read [OF refl]) (use read_GetByUserCode in blast)
  show "steps ?R (on_store (list_subjects tid))" if "store_ListDirectorySubjects st = Some list_subjects" for list_subjects tid
    by (rule kept_read [OF refl]) (use ListDirectorySubjects_reads [OF _ that] in blast)
  show "steps ?R (on_store (store_RevokeAPIKey st k pid))" for k pid
    by (rule kept_does, drule effect_RevokeAPIKey [of _ k pid]) force
  show "steps ?R (on_store (store_TouchAPIKeyLastUsed st k t))" for k t
    by (rule kept_does, drule effect_TouchAPIKey [of _ k t]) force
  show "steps ?R (on_store (store_DisableServiceAccount st k tid))" for k tid
    by (rule kept_does, drule effect_DisableServiceAccount [of _ k tid]) force
  show "steps ?R (on_store (take_bound k b))" if "store_TakeBoundOIDCLoginState st = Some take_bound" for take_bound k b
    by (rule kept_does, drule effect_TakeBound [OF _ that, of _ k b]) (force simp: states_shrink_def)
  show "steps ?R (on_store (store_TakeOIDCLoginState st k))" for k
    by (rule kept_by, erule TakeOIDCLoginState) (simp add: states_shrink_def)
qed (rule kept_by, erule does_laws PutServiceAccount PutAPIKey PutAgentRun PutDeviceCode UpdateDeviceCode, simp)+

section \<open>Started logins\<close>

text \<open>
  For whom a callback creates a session: \<open>started_login V k b t x\<close> says that the store has an unexpired login
  state for \<open>k\<close> that belongs to the browser \<open>b\<close>.
\<close>

definition started_login :: "StoreView \<Rightarrow> string \<Rightarrow> string \<Rightarrow> time \<Rightarrow> OIDCLoginState \<Rightarrow> bool" where
  "started_login V k b t x \<longleftrightarrow> vw_oidcStates V (TrimSpace k) = Some x \<and> oidc_BrowserBinding x = oidcBindingHash b
     \<and> \<not> expired (oidc_ExpiresAt x) t"

lemma map_of_authorization_query:
  assumes "map_of q0 = Map.empty"
  shows "map_of (authorization_query v state nonce challenge q0) =
    [''code_challenge_method'' \<mapsto> ''S256'', ''code_challenge'' \<mapsto> challenge, ''nonce'' \<mapsto> nonce, ''state'' \<mapsto> state,
     ''scope'' \<mapsto> ''openid profile email'', ''response_type'' \<mapsto> ''code'', ''client_id'' \<mapsto> ov_ClientID v]
    (''redirect_uri'' := if ov_RedirectURL v = [] then None else Some (ov_RedirectURL v),
     ''provider_hint'' := if ov_ProviderHint v = [] then None else Some (ov_ProviderHint v))"
  using assms by (auto simp: authorization_query_def Let_def fun_eq_iff)

lemma wf_authorization_query: "wf_map q0 \<Longrightarrow> wf_map (authorization_query v state nonce challenge q0)"
  by (simp add: authorization_query_def Let_def)

section \<open>The principals of a directory user\<close>

lemma map_add_snoc: "m(k \<mapsto> y) ++ map_of xs = m ++ map_of (xs @ [(k, y)])"
  by (rule ext) (auto simp: map_add_def split: option.splits)

context full_store
begin

lemma SyncDirectorySnapshot_user:
  assumes "ok (w_store w)" and "fst (SyncDirectorySnapshot st svc snap w) = Inr p"
  shows "p_CasdoorUserID p = cu_ID (snap_User snap)" and "p_TenantID p = ten_ID (snap_Tenant snap)"
    and "p_Roles p = normalizedDirectoryRoles (snap_Roles snap)"
proof -
  obtain t where "fst (sync_in_tenant st svc snap t w) = Inr p" and "ten_ID t = ten_ID (snap_Tenant snap)"
    using assms by (cases "vw_tenants (view (w_store w)) (ten_ID (snap_Tenant snap))")
      (auto simp: SyncDirectorySnapshot_def op_simps store_simps Let_def split: if_splits)
  with sync_in_tenant_Inr [OF assms(1), where svc = svc and snap = snap and t = t]
  show "p_CasdoorUserID p = cu_ID (snap_User snap)" "p_TenantID p = ten_ID (snap_Tenant snap)"
    "p_Roles p = normalizedDirectoryRoles (snap_Roles snap)"
    by (auto simp: directory_principal_def Let_def)
qed

text \<open>After several snapshots, the principals written last are stored.\<close>

lemma SyncDirectorySnapshots_Inr:
  assumes "ok (w_store w)" and "fst (for_each (SyncDirectorySnapshot st svc) snaps w) = Inr ps"
  shows "ok (w_store (snd (for_each (SyncDirectorySnapshot st svc) snaps w)))
    \<and> vw_principals (view (w_store (snd (for_each (SyncDirectorySnapshot st svc) snaps w)))) =
        vw_principals (view (w_store w)) ++ map_of (rev (map (\<lambda>p. (p_ID p, p)) ps))
    \<and> vw_sessions (view (w_store (snd (for_each (SyncDirectorySnapshot st svc) snaps w)))) \<subseteq>\<^sub>m vw_sessions (view (w_store w))
    \<and> list_all2 (\<lambda>snap p. p_ID p = directory_id snap \<and> p_CasdoorUserID p = cu_ID (snap_User snap)
        \<and> p_TenantID p = ten_ID (snap_Tenant snap) \<and> p_Roles p = normalizedDirectoryRoles (snap_Roles snap)) snaps ps"
  using assms
proof (induction snaps arbitrary: w ps)
  case Nil
  then show ?case by (simp add: op_simps)
next
  case (Cons snap snaps)
  let ?w = "snd (SyncDirectorySnapshot st svc snap w)"
  from Cons.prems(2) obtain p ps' where p: "fst (SyncDirectorySnapshot st svc snap w) = Inr p"
    and ps': "fst (for_each (SyncDirectorySnapshot st svc) snaps ?w) = Inr ps'" and ps: "ps = p # ps'"
    by (auto elim!: bnd_InrE simp: op_simps)
  have ok: "ok (w_store ?w)" using Cons.prems(1) by (rule ok_after [OF service_call.sync])
  let ?m = "vw_principals (view (w_store w))"
  have V: "vw_principals (view (w_store ?w)) = ?m(p_ID p \<mapsto> p)" and id: "p_ID p = directory_id snap"
    using SyncDirectorySnapshot_Inr(1,2) [OF Cons.prems(1) p] by simp_all
  have m: "?m(p_ID p \<mapsto> p) ++ map_of (rev (map (\<lambda>p. (p_ID p, p)) ps')) =
      ?m ++ map_of (rev (map (\<lambda>p. (p_ID p, p)) ps))"
    unfolding ps list.map rev.simps by (rule map_add_snoc)
  have e: "snd (for_each (SyncDirectorySnapshot st svc) (snap # snaps) w) =
      snd (for_each (SyncDirectorySnapshot st svc) snaps ?w)"
    using p ps' by (simp add: op_simps)
  from Cons.IH [OF ok ps'] SyncDirectorySnapshot_user [OF Cons.prems(1) p] id show ?case
    unfolding e V m using SyncDirectorySnapshot_Inr(7) [OF Cons.prems(1) p] by (auto simp: ps intro: map_le_trans)
qed

lemma SyncDirectoryUser_Inr:
  assumes ok: "ok (w_store w)" and res: "fst (SyncDirectoryUser st svc source subject w) = Inr ps"
  obtains src snaps where "source = Some src" and "ds_SyncUser src (w_lookups w) subject = Inr snaps"
    and "ok (w_store (snd (SyncDirectoryUser st svc source subject w)))"
    and "list_all2 (\<lambda>snap p. p_ID p = directory_id snap \<and> p_CasdoorUserID p = subject
        \<and> p_TenantID p = ten_ID (snap_Tenant snap) \<and> p_Roles p = normalizedDirectoryRoles (snap_Roles snap)) snaps ps"
    and "vw_principals (view (w_store (snd (SyncDirectoryUser st svc source subject w)))) =
        vw_principals (view (w_store w)) ++ map_of (rev (map (\<lambda>p. (p_ID p, p)) ps))"
    and "vw_sessions (view (w_store (snd (SyncDirectoryUser st svc source subject w)))) \<subseteq>\<^sub>m vw_sessions (view (w_store w))"
proof -
  obtain src where src: "source = Some src"
    using res by (cases source) (auto simp: SyncDirectoryUser_def op_simps)
  have ne: "TrimSpace subject \<noteq> []"
    using res by (auto simp: SyncDirectoryUser_def op_simps src split: if_splits)
  obtain snaps where snaps: "ds_SyncUser src (w_lookups w) subject = Inr snaps"
    using res ne by (cases "ds_SyncUser src (w_lookups w) subject")
      (auto simp: SyncDirectoryUser_def op_simps src directory_lookup_def)
  let ?w = "w\<lparr>w_lookups := Suc (w_lookups w)\<rparr>"
  have own: "\<forall>snap \<in> set snaps. cu_ID (snap_User snap) = subject"
    and e: "SyncDirectoryUser st svc source subject w = for_each (SyncDirectorySnapshot st svc) snaps ?w"
    using res ne snaps by (auto simp: SyncDirectoryUser_def op_simps src directory_lookup_def split: if_splits)
  have "ok (w_store ?w)" using ok by simp
  note f = SyncDirectorySnapshots_Inr [OF this res [unfolded e], folded e]
  have "list_all2 (\<lambda>snap p. p_ID p = directory_id snap \<and> p_CasdoorUserID p = subject
      \<and> p_TenantID p = ten_ID (snap_Tenant snap) \<and> p_Roles p = normalizedDirectoryRoles (snap_Roles snap)) snaps ps"
    using f own by (simp add: list_all2_conv_all_nth)
  with f show thesis by (intro that [OF src snaps]) simp_all
qed

text \<open>The principals that a synchronisation returns are stored, with the identity of the directory user.\<close>

lemma SyncDirectoryUser_stored:
  assumes "ok (w_store w)" and "fst (SyncDirectoryUser st svc source subject w) = Inr ps" and "p \<in> set ps"
    and "vw_principals (view (w_store (snd (SyncDirectoryUser st svc source subject w)))) (p_ID p) = Some q"
  shows "q \<in> set ps" and "p_CasdoorUserID q = subject"
proof -
  obtain src snaps where l: "list_all2 (\<lambda>snap p. p_ID p = directory_id snap \<and> p_CasdoorUserID p = subject
        \<and> p_TenantID p = ten_ID (snap_Tenant snap) \<and> p_Roles p = normalizedDirectoryRoles (snap_Roles snap)) snaps ps"
    and v: "vw_principals (view (w_store (snd (SyncDirectoryUser st svc source subject w)))) =
        vw_principals (view (w_store w)) ++ map_of (rev (map (\<lambda>p. (p_ID p, p)) ps))"
    by (rule SyncDirectoryUser_Inr [OF assms(1,2)])
  have "map_of (rev (map (\<lambda>p. (p_ID p, p)) ps)) (p_ID p) \<noteq> None"
    using assms(3) by (auto simp: map_of_eq_None_iff image_image)
  then have "map_of (rev (map (\<lambda>p. (p_ID p, p)) ps)) (p_ID p) = Some q"
    using assms(4) by (auto simp: v map_add_def split: option.splits)
  then show q: "q \<in> set ps" by (auto dest: map_of_SomeD)
  then show "p_CasdoorUserID q = subject" using l by (auto simp: list_all2_conv_all_nth in_set_conv_nth)
qed

section \<open>The callback\<close>

text \<open>What a callback that ended in a session has gone through, step by step.\<close>

lemma completeOIDCCallback_InrE:
  assumes "fst (completeOIDCCallback st svc code k b bound now w) = Inr (session, identity, url)"
  obtains authority exch directory x tokens claims p ps w1 w2 w3 w4 w5 w6 w7 where
    "w1 = snd (resolveOIDC svc w)" "fst (resolveOIDC svc w) = Inr (Some authority, Some exch)"
    "svc_directory svc = Some directory" "TrimSpace code \<noteq> []" "TrimSpace k \<noteq> []"
    "w2 = snd (take_login_state st (TrimSpace k) b bound w1)" "fst (take_login_state st (TrimSpace k) b bound w1) = Inr x"
    "bound \<Longrightarrow> b \<noteq> [] \<and> oidc_BrowserBinding x \<noteq> []" "oidc_BrowserBinding x = oidcBindingHash b"
    "w3 = snd (normalizeNow svc now w2)" "\<not> expired (oidc_ExpiresAt x) (eff_now svc w2 now)"
    "w4 = snd (exchange_code svc exch (TrimSpace code) (oidc_CodeVerifier x) w3)"
    "fst (exchange_code svc exch (TrimSpace code) (oidc_CodeVerifier x) w3) = Inr tokens"
    "w5 = snd (VerifyTokenSet svc authority tokens (oidc_Nonce x) w4)"
    "fst (VerifyTokenSet svc authority tokens (oidc_Nonce x) w4) = Inr claims"
    "w6 = snd (SyncDirectoryUser st svc (Some directory) (oc_Subject claims) w5)"
    "fst (SyncDirectoryUser st svc (Some directory) (oc_Subject claims) w5) = Inr (p # ps)"
    "w7 = snd (CreateSession st svc (p_ID p) (eff_now svc w2 now) w6)"
    "fst (CreateSession st svc (p_ID p) (eff_now svc w2 now) w6) = Inr session"
    "fst (IdentityContext st svc (sess_ID session) (eff_now svc w2 now) w7) = Inr identity"
    "snd (completeOIDCCallback st svc code k b bound now w) =
       snd (IdentityContext st svc (sess_ID session) (eff_now svc w2 now) w7)"
    "url = oidc_RedirectURL x"
proof -
  note res = assms [unfolded completeOIDCCallback_def]
  obtain r where r: "fst (resolveOIDC svc w) = Inr r" using res by (rule bnd_InrE)
  obtain authority exch directory where r': "r = (Some authority, Some exch)" and dir: "svc_directory svc = Some directory"
    using res by (cases r) (auto simp: op_simps r split: option.splits)
  define w1 where "w1 = snd (resolveOIDC svc w)"
  have ne: "TrimSpace code \<noteq> []" "TrimSpace k \<noteq> []"
    using res by (auto simp: op_simps r r' dir Let_def split: if_splits)
  define rest where "rest = (\<lambda>x :: OIDCLoginState.
          if (bound \<and> (b = [] \<or> oidc_BrowserBinding x = [])) \<or> oidc_BrowserBinding x \<noteq> oidcBindingHash b
          then fail ErrUnauthorized
          else bnd (normalizeNow svc now) (\<lambda>now.
          if expired (oidc_ExpiresAt x) now then fail ErrUnauthorized
          else bnd (exchange_code svc exch (TrimSpace code) (oidc_CodeVerifier x)) (\<lambda>tokens.
          bnd (VerifyTokenSet svc authority tokens (oidc_Nonce x)) (\<lambda>claims.
          bnd (SyncDirectoryUser st svc (Some directory) (oc_Subject claims)) (\<lambda>principals.
          case principals of
            [] \<Rightarrow> fail ErrUnauthorized
          | prin # _ \<Rightarrow>
            bnd (CreateSession st svc (p_ID prin) now) (\<lambda>session.
            bnd (IdentityContext st svc (sess_ID session) now) (\<lambda>identity.
            ret (session, identity, oidc_RedirectURL x))))))))"
  have e: "completeOIDCCallback st svc code k b bound now w = bnd (take_login_state st (TrimSpace k) b bound) rest w1"
    unfolding completeOIDCCallback_def rest_def by (simp add: op_simps r r' dir Let_def ne flip: w1_def)
  obtain x where x: "fst (take_login_state st (TrimSpace k) b bound w1) = Inr x"
    and res2: "fst (rest x (snd (take_login_state st (TrimSpace k) b bound w1))) = Inr (session, identity, url)"
    and e2: "snd (completeOIDCCallback st svc code k b bound now w) = snd (rest x (snd (take_login_state st (TrimSpace k) b bound w1)))"
    using assms unfolding e by (rule bnd_InrE)
  define w2 where "w2 = snd (take_login_state st (TrimSpace k) b bound w1)"
  define t where "t = eff_now svc w2 now"
  define w3 where "w3 = snd (normalizeNow svc now w2)"
  note res2 = res2 [folded w2_def] and e2 = e2 [folded w2_def]
  have g: "bound \<Longrightarrow> b \<noteq> [] \<and> oidc_BrowserBinding x \<noteq> []" "oidc_BrowserBinding x = oidcBindingHash b"
    and t: "\<not> expired (oidc_ExpiresAt x) t"
    using res2 by (auto simp: rest_def op_simps t_def split: if_splits)
  have e3: "rest x w2 = bnd (exchange_code svc exch (TrimSpace code) (oidc_CodeVerifier x)) (\<lambda>tokens.
          bnd (VerifyTokenSet svc authority tokens (oidc_Nonce x)) (\<lambda>claims.
          bnd (SyncDirectoryUser st svc (Some directory) (oc_Subject claims)) (\<lambda>principals.
          case principals of
            [] \<Rightarrow> fail ErrUnauthorized
          | prin # _ \<Rightarrow>
            bnd (CreateSession st svc (p_ID prin) t) (\<lambda>session.
            bnd (IdentityContext st svc (sess_ID session) t) (\<lambda>identity.
            ret (session, identity, oidc_RedirectURL x)))))) w3"
    using g t by (auto simp: rest_def op_simps simp flip: t_def w3_def)
  obtain tokens where tokens: "fst (exchange_code svc exch (TrimSpace code) (oidc_CodeVerifier x) w3) = Inr tokens"
    using res2 unfolding e3 by (rule bnd_InrE)
  define w4 where "w4 = snd (exchange_code svc exch (TrimSpace code) (oidc_CodeVerifier x) w3)"
  note x4 = bnd_Inr [where m = "exchange_code svc exch (TrimSpace code) (oidc_CodeVerifier x)" and s = w3, OF tokens, folded w4_def]
  obtain claims where claims: "fst (VerifyTokenSet svc authority tokens (oidc_Nonce x) w4) = Inr claims"
    using res2 unfolding e3 x4 by (rule bnd_InrE)
  define w5 where "w5 = snd (VerifyTokenSet svc authority tokens (oidc_Nonce x) w4)"
  note x5 = bnd_Inr [where m = "VerifyTokenSet svc authority tokens (oidc_Nonce x)" and s = w4, OF claims, folded w5_def]
  obtain principals where sync: "fst (SyncDirectoryUser st svc (Some directory) (oc_Subject claims) w5) = Inr principals"
    using res2 unfolding e3 x4 x5 by (rule bnd_InrE)
  define w6 where "w6 = snd (SyncDirectoryUser st svc (Some directory) (oc_Subject claims) w5)"
  note chain = x4 x5 bnd_Inr [where m = "SyncDirectoryUser st svc (Some directory) (oc_Subject claims)" and s = w5, OF sync, folded w6_def]
  obtain p ps where ps: "principals = p # ps"
    using res2 unfolding e3 chain by (cases principals) (auto simp: op_simps)
  note res3 = res2 [unfolded e3 chain ps list.case] and e4 = e2 [unfolded e3 chain ps list.case]
  obtain s where s: "fst (CreateSession st svc (p_ID p) t w6) = Inr s"
    using res3 by (rule bnd_InrE)
  define w7 where "w7 = snd (CreateSession st svc (p_ID p) t w6)"
  note x7 = bnd_Inr [where m = "CreateSession st svc (p_ID p) t" and s = w6, OF s, folded w7_def]
  note res4 = res3 [unfolded x7] and e5 = e4 [unfolded x7]
  obtain i where i: "fst (IdentityContext st svc (sess_ID s) t w7) = Inr i"
    using res4 by (rule bnd_InrE)
  have fin: "s = session" "i = identity" "url = oidc_RedirectURL x"
    "snd (completeOIDCCallback st svc code k b bound now w) = snd (IdentityContext st svc (sess_ID session) t w7)"
    using res4 e5 unfolding bnd_Inr [where m = "IdentityContext st svc (sess_ID s) t" and s = w7, OF i] by (auto simp: op_simps)
  show thesis
    by (rule that [OF w1_def r [unfolded r'] dir ne w2_def x g w3_def t [unfolded t_def] w4_def tokens w5_def claims w6_def
          sync [unfolded ps] w7_def [unfolded t_def] s [unfolded fin(1) t_def] i [unfolded fin(1,2) t_def] fin(4) [unfolded t_def] fin(3)])
qed

text \<open>Taking a login state removes it from the store.\<close>

lemma take_login_state_Inr:
  assumes ok: "ok (w_store w)" and res: "fst (take_login_state st k b bound w) = Inr x"
  shows "vw_oidcStates (view (w_store w)) k = Some x" and "ok (w_store (snd (take_login_state st k b bound w)))"
    and "view (w_store (snd (take_login_state st k b bound w))) =
      (view (w_store w))\<lparr>vw_oidcStates := (vw_oidcStates (view (w_store w)))(k := None)\<rparr>"
proof -
  let ?m = "vw_oidcStates (view (w_store w))" and ?h = "oidcBindingHash b"
  have "?m k = Some x \<and> ok (w_store (snd (take_login_state st k b bound w)))
    \<and> view (w_store (snd (take_login_state st k b bound w))) = (view (w_store w))\<lparr>vw_oidcStates := ?m(k := None)\<rparr>"
  proof (cases "store_TakeBoundOIDCLoginState st")
    case None
    have "bound = False" using res None by (auto simp: take_login_state_def op_simps)
    then show ?thesis
      using None res TakeOIDCLoginState [OF ok, of k]
      by (cases "?m k") (auto simp: take_login_state_def does_def op_simps)
  next
    case (Some take_bound)
    show ?thesis
    proof (cases "\<exists>y. ?m k = Some y \<and> oidc_BrowserBinding y = ?h")
      case True
      then obtain y where y: "?m k = Some y" "oidc_BrowserBinding y = ?h" by blast
      show ?thesis
        using TakeBound_own [OF ok Some y] res Some y(1) by (auto simp: take_login_state_def does_def op_simps)
    next
      case False
      then have "take_bound k ?h (w_store w) = (Inl ErrNotFound, w_store w)"
        by (intro TakeBound_other [OF ok Some]) blast
      then show ?thesis using res Some by (simp add: take_login_state_def op_simps)
    qed
  qed
  then show "?m k = Some x" "ok (w_store (snd (take_login_state st k b bound w)))"
    "view (w_store (snd (take_login_state st k b bound w))) = (view (w_store w))\<lparr>vw_oidcStates := ?m(k := None)\<rparr>"
    by simp_all
qed

text \<open>A browser without the binding of the state neither gets it nor uses it up.\<close>

lemma take_login_state_foreign:
  assumes ok: "ok (w_store w)" and "store_TakeBoundOIDCLoginState st = Some take_bound"
    and "\<And>x. vw_oidcStates (view (w_store w)) k = Some x \<Longrightarrow> oidc_BrowserBinding x \<noteq> oidcBindingHash b"
  shows "fst (take_login_state st k b bound w) = Inl ErrUnauthorized"
    and "w_store (snd (take_login_state st k b bound w)) = w_store w"
  using TakeBound_other [OF assms] assms(2) by (simp_all add: take_login_state_def op_simps)

lemma callback_foreign:
  assumes ok: "ok (w_store w)" and "store_TakeBoundOIDCLoginState st = Some take_bound"
    and "\<And>x. vw_oidcStates (view (w_store w)) (TrimSpace k) = Some x \<Longrightarrow> oidc_BrowserBinding x \<noteq> oidcBindingHash b"
  shows "\<exists>e. fst (completeOIDCCallback st svc code k b bound now w) = Inl e"
    and "w_store (snd (completeOIDCCallback st svc code k b bound now w)) = w_store w"
proof -
  let ?w = "snd (resolveOIDC svc w)" and ?call = "completeOIDCCallback st svc code k b bound now w"
  have "w_store ?w = w_store w" by (simp add: op_simps)
  with take_login_state_foreign [of ?w take_bound "TrimSpace k" b bound] assms
  have t: "fst (take_login_state st (TrimSpace k) b bound ?w) = Inl ErrUnauthorized"
    "w_store (snd (take_login_state st (TrimSpace k) b bound ?w)) = w_store w" by simp_all
  have "(\<exists>e. fst ?call = Inl e) \<and> w_store (snd ?call) = w_store w"
  proof (cases "fst (resolveOIDC svc w)")
    case (Inl e)
    then show ?thesis by (simp add: completeOIDCCallback_def op_simps)
  next
    case (Inr r)
    then show ?thesis
      using t by (cases r) (auto simp: completeOIDCCallback_def op_simps Let_def split: option.splits)
  qed
  then show "\<exists>e. fst ?call = Inl e" "w_store (snd ?call) = w_store w" by blast+
qed

lemma callback_unknown:
  assumes ok: "ok (w_store w)" and none: "vw_oidcStates (view (w_store w)) (TrimSpace k) = None"
  shows "\<exists>e. fst (completeOIDCCallback st svc code k b bound now w) = Inl e"
proof (rule ccontr)
  assume "\<not> ?thesis"
  then obtain session identity url where res: "fst (completeOIDCCallback st svc code k b bound now w) = Inr (session, identity, url)"
    by (cases "fst (completeOIDCCallback st svc code k b bound now w)") auto
  show False
    using res
  proof (rule completeOIDCCallback_InrE)
    fix w1 x
    assume "w1 = snd (resolveOIDC svc w)" and "fst (take_login_state st (TrimSpace k) b bound w1) = Inr x"
    with take_login_state_Inr(1) [of w1 "TrimSpace k" b bound x] ok none show False by (simp add: op_simps)
  qed
qed

text \<open>The state of a callback that ended in a session is gone.\<close>

lemma callback_consumes:
  assumes ok: "ok (w_store w)" and res: "fst (completeOIDCCallback st svc code k b bound now w) = Inr (session, identity, url)"
  shows "vw_oidcStates (view (w_store (snd (completeOIDCCallback st svc code k b bound now w)))) (TrimSpace k) = None"
    and "ok (w_store (snd (completeOIDCCallback st svc code k b bound now w)))"
proof -
  let ?w' = "snd (completeOIDCCallback st svc code k b bound now w)"
  show ok': "ok (w_store ?w')"
    using growing.R_callback(1) [THEN stepsD, of w svc code k b bound now] ok by (simp add: kept_def)
  show "vw_oidcStates (view (w_store ?w')) (TrimSpace k) = None"
    using res
  proof (rule completeOIDCCallback_InrE)
    fix authority exch directory x tokens claims p ps w1 w2 w3 w4 w5 w6 w7
    assume w1: "w1 = snd (resolveOIDC svc w)" and w2: "w2 = snd (take_login_state st (TrimSpace k) b bound w1)"
      and x: "fst (take_login_state st (TrimSpace k) b bound w1) = Inr x"
      and w: "w3 = snd (normalizeNow svc now w2)" "w4 = snd (exchange_code svc exch (TrimSpace code) (oidc_CodeVerifier x) w3)"
        "w5 = snd (VerifyTokenSet svc authority tokens (oidc_Nonce x) w4)"
        "w6 = snd (SyncDirectoryUser st svc (Some directory) (oc_Subject claims) w5)"
        "w7 = snd (CreateSession st svc (p_ID p) (eff_now svc w2 now) w6)"
        "?w' = snd (IdentityContext st svc (sess_ID session) (eff_now svc w2 now) w7)"
    have ok1: "ok (w_store w1)" using ok by (simp add: w1 op_simps)
    note t = take_login_state_Inr [OF ok1 x, folded w2]
    note trans = transpD [OF logins.R_trans]
    have "kept states_shrink ok view w2 w3" unfolding w by (rule logins.R_effects(2) [THEN stepsD])
    also have "kept states_shrink ok view w3 w4" unfolding w(2) by (rule logins.R_effects(8) [THEN stepsD])
    also (trans) have "kept states_shrink ok view w4 w5" unfolding w(3) by (rule logins.R_effects(7) [THEN stepsD])
    also (trans) have "kept states_shrink ok view w5 w6" unfolding w(4) by (rule logins.R_SyncDirectoryUser [THEN stepsD])
    also (trans) have "kept states_shrink ok view w6 w7" unfolding w(5) by (rule logins.R_CreateSession [THEN stepsD])
    also (trans) have "kept states_shrink ok view w7 ?w'" unfolding w(6) by (rule logins.R_IdentityContext [THEN stepsD])
    finally (trans) have "kept states_shrink ok view w2 ?w'" .
    with t show ?thesis by (auto simp: kept_def intro: states_shrinkD)
  qed
qed

lemma callback_session:
  assumes ok: "ok (w_store w)" and res: "fst (completeOIDCCallback st svc code k b bound now w) = Inr (session, identity, url)"
    and cfg: "\<not> cfg_DirectoryRefreshOnSession (svc_cfg svc)" and clock: "\<not> IsZero now \<or> (\<forall>n. \<not> IsZero (svc_clock svc n))"
  defines "V' \<equiv> view (w_store (snd (completeOIDCCallback st svc code k b bound now w)))"
  obtains authority x claims q t t0 where "fst (resolveOIDC svc w) = Inr (Some authority, x)" and "\<not> IsZero now \<Longrightarrow> t0 = now"
    and "\<exists>x. started_login (view (w_store w)) k b t0 x \<and> (bound \<longrightarrow> b \<noteq> []) \<and> url = oidc_RedirectURL x
          \<and> claims_accepted authority t claims (oidc_Nonce x)"
    and "session_valid V' (sess_ID session) t0 session q" and "p_CasdoorUserID q = oc_Subject claims"
    and "sess_ID session \<noteq> []"
  using res
proof (rule completeOIDCCallback_InrE)
  fix authority exch directory x tokens claims p ps w1 w2 w3 w4 w5 w6 w7
  assume w1: "w1 = snd (resolveOIDC svc w)" and r: "fst (resolveOIDC svc w) = Inr (Some authority, Some exch)"
    and w2: "w2 = snd (take_login_state st (TrimSpace k) b bound w1)"
    and x: "fst (take_login_state st (TrimSpace k) b bound w1) = Inr x"
    and b: "bound \<Longrightarrow> b \<noteq> [] \<and> oidc_BrowserBinding x \<noteq> []" "oidc_BrowserBinding x = oidcBindingHash b"
    and t: "\<not> expired (oidc_ExpiresAt x) (eff_now svc w2 now)"
    and w: "w3 = snd (normalizeNow svc now w2)" "w4 = snd (exchange_code svc exch (TrimSpace code) (oidc_CodeVerifier x) w3)"
      "w5 = snd (VerifyTokenSet svc authority tokens (oidc_Nonce x) w4)"
      "w6 = snd (SyncDirectoryUser st svc (Some directory) (oc_Subject claims) w5)"
      "w7 = snd (CreateSession st svc (p_ID p) (eff_now svc w2 now) w6)"
    and claims: "fst (VerifyTokenSet svc authority tokens (oidc_Nonce x) w4) = Inr claims"
    and sync: "fst (SyncDirectoryUser st svc (Some directory) (oc_Subject claims) w5) = Inr (p # ps)"
    and create: "fst (CreateSession st svc (p_ID p) (eff_now svc w2 now) w6) = Inr session"
    and ident: "fst (IdentityContext st svc (sess_ID session) (eff_now svc w2 now) w7) = Inr identity"
    and fin: "snd (completeOIDCCallback st svc code k b bound now w) =
       snd (IdentityContext st svc (sess_ID session) (eff_now svc w2 now) w7)" "url = oidc_RedirectURL x"
  define t0 where "t0 = eff_now svc w2 now"
  have now: "\<not> IsZero t0" using clock by (auto simp: t0_def eff_now_def)
  have ok1: "ok (w_store w1)" and s1: "w_store w1 = w_store w" using ok by (simp_all add: w1 op_simps)
  note taken = take_login_state_Inr [OF ok1 x, folded w2]
  have ok5: "ok (w_store w5)" using taken(2) by (simp add: w op_simps)
  have ok6: "ok (w_store w6)" unfolding w(4) by (rule ok_after [OF service_call.sync_user ok5])
  have ok7: "ok (w_store w7)" unfolding w(5) by (rule ok_after [OF service_call.create_session ok6])
  obtain q tn where q: "vw_principals (view (w_store w6)) (p_ID p) = Some q" "may_act q"
    and tn: "vw_tenants (view (w_store w6)) (p_TenantID q) = Some tn" "ten_Status tn \<noteq> PrincipalStatusDisabled"
    and sess: "session = \<lparr>sess_ID = ''sess_'' @ rand_at svc (w_draws w6), sess_PrincipalID = p_ID p,
      sess_TenantID = p_TenantID q, sess_CurrentTeamID = [], sess_AuthTime = t0,
      sess_ExpiresAt = t0 + cfg_SessionTTL (svc_cfg svc), sess_Source = SessionSourceWeb\<rparr>"
    and V7: "view (w_store w7) = (view (w_store w6))\<lparr>vw_sessions := (vw_sessions (view (w_store w6)))(sess_ID session \<mapsto> session)\<rparr>"
    by (rule CreateSession_Inr [OF ok6 create [folded t0_def], folded w(5) [folded t0_def]]) (auto simp: now)
  obtain session' p' where "session_valid (view (w_store w7)) (sess_ID session) t0 session' p'"
    and V': "V' = view (w_store w7)"
    by (rule IdentityContext_Inr [OF ok7 cfg ident [folded t0_def]]) (auto simp: now [unfolded t0_def] V'_def fin(1) t0_def)
  moreover have trim: "TrimSpace (sess_ID session) = sess_ID session" using TrimSpace_session_id by (simp add: sess)
  moreover have "sess_PrincipalID session = p_ID p" by (simp add: sess)
  ultimately have "session' = session \<and> p' = q"
    using session_valid_updated [OF _ trim] q(1) unfolding V7 by metis
  with \<open>session_valid (view (w_store w7)) _ t0 session' p'\<close> have valid: "session_valid V' (sess_ID session) t0 session q"
    by (simp add: V')
  obtain t' where "claims_accepted authority t' claims (oidc_Nonce x)" using VerifyTokenSet_Inr [OF claims] by blast
  moreover have "started_login (view (w_store w)) k b t0 x"
    using taken(1) b(2) t s1 by (simp add: started_login_def t0_def)
  moreover have "sess_ID session \<noteq> []" by (simp add: sess)
  ultimately show thesis
    using b(1) fin(2) SyncDirectoryUser_stored(2) [OF ok5 sync _ q(1) [unfolded w(4)]]
    by (intro that [OF r _ _ valid]) (auto simp: t0_def)
qed

text \<open>The row a start of a login stores, and the request it sends the browser with.\<close>

lemma StartOIDCLogin_Inr:
  assumes ok: "ok (w_store w)" and res: "fst (StartOIDCLogin st svc req w) = Inr started"
  obtains authority x u q t where "fst (resolveOIDC svc w) = Inr (Some authority, x)"
    and "validOIDCReturnTo (sl_RedirectURL req)"
    and "oidcEndpoint (if ov_AuthorizationURL authority = []
            then TrimRightChar (ov_Issuer authority) CHR ''/'' @ ''/login/oauth/authorize'' else ov_AuthorizationURL authority) = Inr u"
    and "slo_State started = ''oidc_'' @ rand_at svc (w_draws w)" "slo_Nonce started = ''nonce_'' @ rand_at svc (Suc (w_draws w))"
    and "slo_CodeChallenge started =
      codeChallengeS256 (rand_at svc (Suc (Suc (w_draws w))) @ rand_at svc (Suc (Suc (Suc (w_draws w)))))"
    and "q = authorization_query authority (slo_State started) (slo_Nonce started) (slo_CodeChallenge started) []"
    and "slo_AuthorizationURL started = URL_String (u\<lparr>url_RawQuery := Values_Encode q\<rparr>)"
    and "slo_ExpiresIn started = 600" and "t = eff_now svc (snd (resolveOIDC svc w)) (sl_Now req)"
    and "ok (w_store (snd (StartOIDCLogin st svc req w)))"
    and "view (w_store (snd (StartOIDCLogin st svc req w))) = (view (w_store w))\<lparr>vw_oidcStates :=
      (vw_oidcStates (view (w_store w)))(slo_State started \<mapsto> \<lparr>oidc_State = slo_State started,
         oidc_BrowserBinding = oidcBindingHash (sl_BrowserBinding req), oidc_Nonce = slo_Nonce started,
         oidc_CodeVerifier = rand_at svc (Suc (Suc (w_draws w))) @ rand_at svc (Suc (Suc (Suc (w_draws w)))),
         oidc_RedirectURL = sl_RedirectURL req, oidc_ExpiresAt = t + 10 * Minute\<rparr>)\<rparr>"
proof -
  define w1 where "w1 = snd (resolveOIDC svc w)"
  let ?w = "snd (normalizeNow svc (sl_Now req) w1)"
  have w1: "w_store w1 = w_store w" "w_draws w1 = w_draws w" by (simp_all add: w1_def op_simps)
  have bind: "\<not> (sl_BrowserBinding req \<noteq> [] \<and> store_TakeBoundOIDCLoginState st = None)"
  proof
    assume "sl_BrowserBinding req \<noteq> [] \<and> store_TakeBoundOIDCLoginState st = None"
    with res show False by (simp add: StartOIDCLogin_def op_simps)
  qed
  obtain v x where r0: "fst (resolveOIDC svc w) = Inr (v, x)"
    using res bind by (cases "fst (resolveOIDC svc w)") (auto simp: StartOIDCLogin_def op_simps split: if_splits)
  obtain authority where r: "fst (resolveOIDC svc w) = Inr (Some authority, x)"
    using res bind r0 by (cases v) (auto simp: StartOIDCLogin_def op_simps split: if_splits)
  let ?url = "if ov_AuthorizationURL authority = []
            then TrimRightChar (ov_Issuer authority) CHR ''/'' @ ''/login/oauth/authorize'' else ov_AuthorizationURL authority"
  have ne: "TrimSpace (ov_Issuer authority) \<noteq> []" "TrimSpace (ov_ClientID authority) \<noteq> []"
    and ret: "validOIDCReturnTo (sl_RedirectURL req)"
    using res bind r by (auto simp: StartOIDCLogin_def op_simps split: if_splits)
  obtain u where u: "oidcEndpoint ?url = Inr u"
    using res bind r ne ret by (cases "oidcEndpoint ?url") (auto simp: StartOIDCLogin_def op_simps Let_def split: if_splits)
  have "url_RawQuery u = []"
    using u by (auto simp: oidcEndpoint_def Let_def split: option.splits if_splits)
  then have q: "parseQuery (url_RawQuery u) = []" by (simp add: parseQuery_def List.map_filter_def parse_pair_def)
  have okw: "ok (w_store ?w)" using ok by (simp add: op_simps w1)
  let ?d = "w_draws w"
  let ?state = "''oidc_'' @ rand_at svc ?d" and ?nonce = "''nonce_'' @ rand_at svc (Suc ?d)"
  let ?v = "rand_at svc (Suc (Suc ?d)) @ rand_at svc (Suc (Suc (Suc ?d)))"
  note if_not = if_not_P [OF bind]
  have e: "fst (StartOIDCLogin st svc req w) = Inr \<lparr>slo_AuthorizationURL =
        URL_String (u\<lparr>url_RawQuery := Values_Encode (authorization_query authority ?state ?nonce (codeChallengeS256 ?v) [])\<rparr>),
      slo_State = ?state, slo_Nonce = ?nonce, slo_CodeChallenge = codeChallengeS256 ?v, slo_CodeChallengeMethod = ''S256'',
      slo_ExpiresIn = (eff_now svc w1 (sl_Now req) + 10 * Minute - eff_now svc w1 (sl_Now req)) div Second\<rparr>
    \<and> ok (w_store (snd (StartOIDCLogin st svc req w)))
    \<and> view (w_store (snd (StartOIDCLogin st svc req w))) = (view (w_store w))\<lparr>vw_oidcStates :=
      (vw_oidcStates (view (w_store w)))(?state \<mapsto> \<lparr>oidc_State = ?state,
         oidc_BrowserBinding = oidcBindingHash (sl_BrowserBinding req), oidc_Nonce = ?nonce, oidc_CodeVerifier = ?v,
         oidc_RedirectURL = sl_RedirectURL req, oidc_ExpiresAt = eff_now svc w1 (sl_Now req) + 10 * Minute\<rparr>)\<rparr>"
    using okw PutOIDCLoginState [of "w_store ?w"]
    unfolding StartOIDCLogin_def if_not Let_def
    by (simp add: op_simps r ne ret u q w1 does_def flip: w1_def cong: if_cong)
  have "(10 * Minute) div Second = 600" by (simp add: Minute_def Second_def)
  with e res show thesis
    by (intro that [OF r ret u, where q = "authorization_query authority ?state ?nonce (codeChallengeS256 ?v) []"
        and t = "eff_now svc w1 (sl_Now req)"]) (auto simp: w1_def)
qed

lemma StartOIDCLogin_Inl:
  assumes ok: "ok (w_store w)" and res: "fst (StartOIDCLogin st svc req w) = Inl e"
  shows "w_store (snd (StartOIDCLogin st svc req w)) = w_store w"
proof (cases "sl_BrowserBinding req \<noteq> [] \<and> store_TakeBoundOIDCLoginState st = None")
  case True
  then show ?thesis by (simp add: StartOIDCLogin_def op_simps)
next
  case False
  define w1 where "w1 = snd (resolveOIDC svc w)"
  have w1: "w_store w1 = w_store w" by (simp add: w1_def op_simps)
  note f = StartOIDCLogin_def if_not_P [OF False] Let_def
  show ?thesis
  proof (cases "fst (resolveOIDC svc w)")
    case (Inl e)
    then show ?thesis unfolding f by (simp add: op_simps)
  next
    case (Inr r)
    then obtain v x where r: "fst (resolveOIDC svc w) = Inr (v, x)" by (cases r) auto
    show ?thesis
    proof (cases v)
      case None
      then show ?thesis using r unfolding f by (simp add: op_simps)
    next
      case (Some authority)
      let ?bad = "TrimSpace (ov_Issuer authority) = [] \<or> TrimSpace (ov_ClientID authority) = []
        \<or> \<not> validOIDCReturnTo (sl_RedirectURL req)"
      let ?url = "if ov_AuthorizationURL authority = []
            then TrimRightChar (ov_Issuer authority) CHR ''/'' @ ''/login/oauth/authorize'' else ov_AuthorizationURL authority"
      show ?thesis
      proof (cases "oidcEndpoint ?url")
        case (Inl e')
        then show ?thesis using r Some w1 unfolding f by (cases ?bad) (auto simp add: op_simps cong: if_cong)
      next
        case (Inr u)
        have okn: "ok (w_store (snd (normalizeNow svc (sl_Now req) w1)))" using ok by (simp add: op_simps w1)
        show ?thesis
        proof (cases ?bad)
          case True
          then show ?thesis using r Some w1 unfolding f by (auto simp add: op_simps cong: if_cong)
        next
          case False
          then have "\<exists>a. fst (StartOIDCLogin st svc req w) = Inr a"
            using r Some Inr okn PutOIDCLoginState [of "w_store (snd (normalizeNow svc (sl_Now req) w1))"]
            unfolding f by (simp add: op_simps does_def flip: w1_def cong: if_cong)
          then show ?thesis using res by simp
        qed
      qed
    qed
  qed
qed

end

section \<open>Runs\<close>

text \<open>A step of the service that does not store a login state under \<open>k\<close>.\<close>

inductive login_run :: "'s Store \<Rightarrow> Service \<Rightarrow> string \<Rightarrow> 's World \<Rightarrow> 's World \<Rightarrow> bool" for st svc k where
  call: "service_call st svc w w' \<Longrightarrow> login_run st svc k w w'"
| start: "''oidc_'' @ rand_at svc (w_draws w) \<noteq> k \<Longrightarrow> login_run st svc k w (snd (StartOIDCLogin st svc rl w))"
| put: "oidc_State x \<noteq> k \<Longrightarrow> login_run st svc k w (snd (PutOIDCLoginState st svc x w))"

context full_store
begin

lemma service_call_shrinks: "service_call st svc w w' \<Longrightarrow> kept states_shrink ok view w w'"
  by (induction rule: service_call.induct)
    (rule logins.R_calls [THEN stepsD] kept_same_store [OF states_shrink_relation(1)] settings_store)+

lemma PutOIDCLoginState_other:
  assumes "ok (w_store w)" and "oidc_State x \<noteq> k"
  shows "vw_oidcStates (view (w_store (snd (PutOIDCLoginState st svc x w)))) k = vw_oidcStates (view (w_store w)) k"
proof -
  have "vw_oidcStates (view (snd (store_PutOIDCLoginState st y (w_store w)))) k = vw_oidcStates (view (w_store w)) k"
    if "oidc_State y = oidc_State x" for y
    using assms PutOIDCLoginState [OF assms(1), of y] that by (simp add: does_def)
  then show ?thesis by (auto simp: PutOIDCLoginState_def op_simps)
qed

lemma login_run_absent:
  assumes "(login_run st svc k)\<^sup>*\<^sup>* w w'" and "ok (w_store w)" and "vw_oidcStates (view (w_store w)) k = None"
  shows "ok (w_store w') \<and> vw_oidcStates (view (w_store w')) k = None"
  using assms
proof (induction rule: rtranclp_induct)
  case (step u v)
  then have u: "ok (w_store u)" "vw_oidcStates (view (w_store u)) k = None" by simp_all
  from step.hyps(2) show ?case
  proof cases
    case call
    with service_call_shrinks [OF call] u show ?thesis by (auto simp: kept_def intro: states_shrinkD)
  next
    case (start rl)
    have "ok (w_store v)"
      using service_step_extends [OF service_step.start_login] u(1) unfolding start(1) kept_def by blast
    moreover have "vw_oidcStates (view (w_store v)) k = None"
    proof (cases "fst (StartOIDCLogin st svc rl u)")
      case (Inl e)
      then show ?thesis using StartOIDCLogin_Inl [OF u(1) Inl] u(2) by (simp add: start(1))
    next
      case (Inr started)
      show ?thesis
        by (rule StartOIDCLogin_Inr [OF u(1) Inr]) (use start u(2) in auto)
    qed
    ultimately show ?thesis by simp
  next
    case (put x)
    then show ?thesis
      using service_step_extends [OF service_step.put_login_state] u PutOIDCLoginState_other [OF u(1) put(2)]
      unfolding kept_def by auto
  qed
qed simp

end

end
