(* ===== verification/Warden_Login_Properties.thy ===== *)
theory Warden_Login_Properties
  imports Warden_Login_Facts Warden_Properties
begin

text \<open>
  The properties of the login at the identity provider, stated for the in-memory store, and a service whose
  identity provider knows the user \<open>u9\<close>.
\<close>

section \<open>An example\<close>

definition ex_login_state :: OIDCLoginState where
  "ex_login_state = \<lparr>oidc_State = ''st1'', oidc_BrowserBinding = oidcBindingHash ''b'', oidc_Nonce = ''n1'',
     oidc_CodeVerifier = ''v'', oidc_RedirectURL = ''/home'', oidc_ExpiresAt = ex_now + 10 * Minute\<rparr>"

definition ex_login_user :: CasdoorDirectorySnapshot where
  "ex_login_user = \<lparr>snap_Tenant = ex_tenant,
     snap_User = \<lparr>cu_ID = ''u9'', cu_Username = ''u9'', cu_Email = [], cu_DisplayName = ''U'',
       cu_EmailVerified = True, cu_Disabled = False\<rparr>,
     snap_Groups = [], snap_Roles = [''viewer'']\<rparr>"

definition ex_login_source :: DirectorySource where
  "ex_login_source = \<lparr>ds_SyncUser = (\<lambda>_ _. Inr [ex_login_user]), ds_Casdoor = None, ds_Reconcile = (\<lambda>_. Inr ())\<rparr>"

definition ex_login_tokens :: OIDCTokenSet where
  "ex_login_tokens = \<lparr>ts_IDToken = ''idt'', ts_AccessToken = ''at'', ts_RefreshToken = [], ts_TokenType = ''Bearer'',
     ts_ExpiresIn = 0\<rparr>"

definition ex_login_svc :: Service where
  "ex_login_svc = ex_svc\<lparr>svc_directory := Some ex_login_source, svc_oidc := Some ex_oidc_verifier,
     svc_exchanger := Some (ExternalExchanger (\<lambda>_ _ _. Inr ex_login_tokens)), svc_idp := ex_idp (ex_oidc_claims ''u9'' ''n1'')\<rparr>"

definition ex_login_world :: "MemoryStore World" where
  "ex_login_world = (ex_world ''p1'')\<lparr>w_store := (ex_store ''p1'')\<lparr>ms_oidcStates := [(''st1'', ex_login_state)]\<rparr>\<rparr>"

lemma ex_login_ok: "mem_wf (w_store ex_login_world)"
  by (simp add: ex_login_world_def ex_store_def mem_wf_def wf_map_def mem_view_def view_ok_def keyed_def ex_rows
      ex_login_state_def)

lemma ex_login_fields:
  "svc_directory ex_login_svc = Some ex_login_source" "svc_cfg ex_login_svc = ex_cfg" "svc_clock ex_login_svc n = ex_now + int n"
  "resolveOIDC ex_login_svc w = (Inr (Some ex_oidc_verifier, Some (ExternalExchanger (\<lambda>_ _ _. Inr ex_login_tokens))), w)"
  by (simp_all add: ex_login_svc_def ex_svc_def resolveOIDC_def ex_cfg_def op_simps)

lemma ex_login_no_refresh: "\<not> cfg_DirectoryRefreshOnSession (svc_cfg ex_login_svc)"
  by (simp add: ex_login_fields ex_cfg_def)

lemma ex_login_exchange:
  "fst (exchange_code ex_login_svc (ExternalExchanger (\<lambda>_ _ _. Inr ex_login_tokens)) code verifier w) = Inr ex_login_tokens"
  "w_clock (snd (exchange_code ex_login_svc x code verifier w)) = w_clock w"
  by (simp_all add: exchange_code_def oidc_call_def op_simps)

lemma ex_login_verify:
  assumes "w_clock w < 1000"
  shows "fst (VerifyTokenSet ex_login_svc ex_oidc_verifier ex_login_tokens ''n1'' w) = Inr (ex_oidc_claims ''u9'' ''n1'')"
proof -
  have r: "TrimSpace ''u9'' = ''u9''" by code_simp
  have "oidc_verify (ex_idp (ex_oidc_claims ''u9'' ''n1'')) n (ex_now + int (w_clock w)) ex_oidc_verifier ''idt'' ''n1'' =
    Inr (\<lparr>idt_AccessTokenHash = [], idt_VerifyAccessToken = (\<lambda>_. True),
       idt_Claims = Some (ex_oidc_claims ''u9'' ''n1'', AudString ''warden'')\<rparr>, ex_oidc_claims ''u9'' ''n1'')" for n
    by (rule ex_verify) (use assms in \<open>simp_all add: r Unix_def ex_now_def time_Unix_def Hour_def Minute_def Second_def\<close>)
  then show ?thesis
    by (simp add: VerifyTokenSet_def oidc_VerifyTokenSet_def oidc_Now_def oidc_call_def op_simps ex_oidc_clock ex_login_fields)
      (simp add: ex_login_svc_def ex_login_tokens_def)
qed

lemma ex_login_id: "directory_id ex_login_user = StableProjectionID ''principal'' [''t1'', ''u9'']"
  by (simp add: directory_id_def ex_login_user_def ex_tenant_def)

lemma ex_login_sync:
  assumes ok: "mem_wf (w_store w)" and t: "vw_tenants (mem_view (w_store w)) ''t1'' = Some ex_tenant"
    and new: "vw_principals (mem_view (w_store w)) (directory_id ex_login_user) = None" and open_reg: "w_registrationPolicy w = ''open''"
  defines "w' \<equiv> snd (SyncDirectoryUser memory_store ex_login_svc (Some ex_login_source) ''u9'' w)"
  shows "\<exists>p tn. fst (SyncDirectoryUser memory_store ex_login_svc (Some ex_login_source) ''u9'' w) = Inr [p]
    \<and> p_ID p = directory_id ex_login_user \<and> vw_principals (mem_view (w_store w')) (directory_id ex_login_user) = Some p
    \<and> p_Status p = ''active'' \<and> p_TenantID p = ''t1''
    \<and> vw_tenants (mem_view (w_store w')) ''t1'' = Some tn \<and> ten_Status tn = ''active''"
proof -
  let ?w = "w\<lparr>w_lookups := Suc (w_lookups w)\<rparr>"
  have trim: "TrimSpace ''u9'' = ''u9''" "TrimSpace ''t1'' = ''t1''" by code_simp+
  have f: "ten_ID (snap_Tenant ex_login_user) = ''t1''" "cu_ID (snap_User ex_login_user) = ''u9''"
    "snap_Tenant ex_login_user = ex_tenant" "cu_Disabled (snap_User ex_login_user) = False"
    "ten_ID ex_tenant = ''t1''"
    by (simp_all add: ex_login_user_def ex_tenant_def)
  have ok': "mem_wf (w_store ?w)" using ok by simp
  obtain p where "fst (sync_in_tenant memory_store ex_login_svc ex_login_user ex_tenant ?w) = Inr p"
    using mem.sync_in_tenant_Inr [OF ok', where svc = ex_login_svc and snap = ex_login_user and t = ex_tenant]
    by (auto simp: Let_def)
  then have p: "fst (SyncDirectorySnapshot memory_store ex_login_svc ex_login_user ?w) = Inr p"
    using ok t trim f ex_statuses(1) by (simp add: SyncDirectorySnapshot_def op_simps store_simps Let_def)
  have w': "SyncDirectoryUser memory_store ex_login_svc (Some ex_login_source) ''u9'' w =
      for_each (SyncDirectorySnapshot memory_store ex_login_svc) [ex_login_user] ?w"
    using trim f by (simp add: SyncDirectoryUser_def op_simps directory_lookup_def ex_login_source_def)
  note s = mem.SyncDirectorySnapshot_Inr(1-4) [OF ok' p] mem.SyncDirectorySnapshot_user [OF ok' p]
  have "p_Status p = ''active''"
    using s(3) new open_reg by (simp add: f synced_status_def Let_def status_defs)
  moreover have "synced_tenant (Some ex_tenant) ex_tenant = ex_tenant" "ten_Status ex_tenant = ''active''"
    by (simp_all add: synced_tenant_def ex_tenant_def Let_def)
  ultimately show ?thesis
    using p s t by (simp add: w'_def w' op_simps f)
qed

lemma ex_hash_nonempty: "oidcBindingHash ''b'' \<noteq> []"
proof -
  have "length (oidcBindingHash ''b'') = 64"
    by (simp add: oidcBindingHash_def del: length_0_conv)
  then show ?thesis by auto
qed

text \<open>A context in which every listed tenant is stored.\<close>

lemma available_from_ok:
  "mem_wf (w_store w) \<Longrightarrow> (\<And>p. p \<in> set ps \<Longrightarrow> vw_tenants (mem_view (w_store w)) (p_TenantID p) \<noteq> None) \<Longrightarrow>
    \<exists>ts. fst (available_from memory_store seen ps w) = Inr ts"
proof (induction ps arbitrary: seen)
  case (Cons p ps)
  then obtain t where "vw_tenants (mem_view (w_store w)) (p_TenantID p) = Some t" by fastforce
  moreover have "\<exists>ts. fst (available_from memory_store seen ps w) = Inr ts" for seen
    using Cons by simp
  ultimately show ?case
    using Cons.prems(1) by (auto simp: op_simps store_simps bnd_def split: sum.splits) (metis sum.distinct(1))+
qed (simp add: op_simps)

text \<open>An active user of an enabled tenant can log in.\<close>

lemma ex_session_opens:
  assumes ok: "mem_wf (w_store w)" and p: "vw_principals (mem_view (w_store w)) pid = Some p" "p_ID p = pid" "p_Status p = ''active''"
    and t: "vw_tenants (mem_view (w_store w)) (p_TenantID p) = Some tn" "ten_Status tn = ''active''"
    and single: "\<And>q. q \<in> ran (vw_principals (mem_view (w_store w))) \<Longrightarrow> p_TenantID q = p_TenantID p"
  obtains session identity where "fst (CreateSession memory_store ex_login_svc pid ex_now w) = Inr session"
    and "fst (IdentityContext memory_store ex_login_svc (sess_ID session) ex_now
      (snd (CreateSession memory_store ex_login_svc pid ex_now w))) = Inr identity"
proof -
  let ?w = "snd (CreateSession memory_store ex_login_svc pid ex_now w)"
  have nd: "ten_Status tn \<noteq> PrincipalStatusDisabled" using t(2) by (simp add: PrincipalStatusDisabled_def)
  obtain session where s: "fst (CreateSession memory_store ex_login_svc pid ex_now w) = Inr session"
    using ok p t nd ex_now_given by (simp add: CreateSession_def op_simps store_simps Let_def)
  obtain q where q: "vw_principals (mem_view (w_store w)) pid = Some q"
    and sess: "session = \<lparr>sess_ID = ''sess_'' @ rand_at ex_login_svc (w_draws w), sess_PrincipalID = pid,
      sess_TenantID = p_TenantID q, sess_CurrentTeamID = [], sess_AuthTime = eff_now ex_login_svc w ex_now,
      sess_ExpiresAt = eff_now ex_login_svc w ex_now + cfg_SessionTTL (svc_cfg ex_login_svc), sess_Source = SessionSourceWeb\<rparr>"
    and ok': "mem_wf (w_store ?w)" and V: "mem_view (w_store ?w) = (mem_view (w_store w))
      \<lparr>vw_sessions := (vw_sessions (mem_view (w_store w)))(sess_ID session \<mapsto> session)\<rparr>"
    by (rule mem_id.CreateSession_Inr [OF ok s])
  have sf: "sess_PrincipalID session = pid" "sess_TenantID session = p_TenantID p"
    "\<not> expired (sess_ExpiresAt session) ex_now" "TrimSpace (sess_ID session) = sess_ID session"
    using q p(1) ex_now_given TrimSpace_session_id
    by (simp_all add: sess ex_login_fields ex_cfg_def expired_def Before_def Hour_def Minute_def Second_def)
  have valid: "session_valid (mem_view (w_store ?w)) (sess_ID session) (eff_now ex_login_svc ?w ex_now) session p"
    using sf p t nd ex_now_given by (simp add: V session_valid_def usable_session_def may_act_def)
  note v = mem_id.ValidateSession_valid [OF ok' valid] 
  let ?w2 = "snd (ValidateSession memory_store ex_login_svc (sess_ID session) ex_now ?w)"
  have nr: "\<not> refreshed ex_login_svc p" using ex_login_no_refresh by (simp add: refreshed_def)
  have s2: "w_store ?w2 = w_store ?w" by (rule v(2) [OF nr])
  then have ok2: "mem_wf (w_store ?w2)" using ok' by simp
  obtain ps where ps: "store_ListPrincipalsByCasdoorUser memory_store (p_CasdoorUserID p) (w_store ?w2) = (Inr ps, w_store ?w2)"
    and "set ps = {q \<in> ran (vw_principals (mem_view (w_store ?w2))). p_CasdoorUserID q \<noteq> [] \<and> p_CasdoorUserID q = p_CasdoorUserID p}"
    using mem_id.ListPrincipals [OF ok2, of "p_CasdoorUserID p"] by blast
  then have "p_TenantID q = p_TenantID p" if "q \<in> set ps" for q
    using that single by (simp add: s2 V)
  then have "vw_tenants (mem_view (w_store ?w2)) (p_TenantID q) \<noteq> None" if "q \<in> set (if 0 < length ps then ps else [p])" for q
    using that t(1) by (auto simp: s2 V split: if_splits)
  then obtain ts where "fst (availableTenants memory_store p ?w2) = Inr ts"
    using available_from_ok [OF ok2, of "if 0 < length ps then ps else [p]" "[]"] available_from_ok [OF ok2, of "[p]" "[]"]
      on_store_read [of "store_ListPrincipalsByCasdoorUser memory_store (p_CasdoorUserID p)", OF ps] t(1)
    by (cases "p_CasdoorUserID p = []") (auto simp: availableTenants_def op_simps s2 V simp del: available_from.simps)
  then obtain identity where "fst (IdentityContext memory_store ex_login_svc (sess_ID session) ex_now ?w) = Inr identity"
    using v(1) [OF nr] ok2 sf t by (simp add: IdentityContext_def op_simps store_simps s2 V)
  with s show thesis by (rule that)
qed

lemma ex_login:
  assumes now: "now = ex_now \<or> now = zero_time"
  shows "\<exists>session identity. fst (CompleteBoundOIDCCallback memory_store ex_login_svc ''code'' ''st1'' ''b'' now ex_login_world)
     = Inr (session, identity, ''/home'')"
proof -
  let ?w = ex_login_world and ?id = "directory_id ex_login_user"
  let ?x = "ExternalExchanger (\<lambda>_ _ _. Inr ex_login_tokens)"
  have trim: "TrimSpace ''code'' = ''code''" "TrimSpace ''st1'' = ''st1''" by code_simp+
  have row: "vw_oidcStates (mem_view (w_store ?w)) ''st1'' = Some ex_login_state"
    by (simp add: ex_login_world_def mem_view_def)
  define take_state where "take_state = take_login_state memory_store ''st1'' ''b'' True"
  define w2 where "w2 = snd (take_state ?w)"
  have b: "oidc_BrowserBinding ex_login_state = oidcBindingHash ''b''" by (simp add: ex_login_state_def)
  have x: "fst (take_state ?w) = Inr ex_login_state"
    using doesD(1) [OF mem_login.TakeBound_own [OF ex_login_ok _ row b]]
    by (simp add: take_state_def take_login_state_def op_simps mem_store_simps)
  note t = mem.take_login_state_Inr(2,3) [OF ex_login_ok x [unfolded take_state_def], folded take_state_def w2_def]
  have clk: "w_clock w2 = 0" "w_registrationPolicy w2 = ''open''"
    by (simp_all add: w2_def take_state_def take_login_state_def mem_store_simps on_err_def op_simps
        ex_login_world_def ex_world_def split: sum.split)
  define w3 where "w3 = snd (normalizeNow ex_login_svc now w2)"
  have now': "eff_now ex_login_svc w2 now = ex_now"
    using now ex_now_given by (auto simp: eff_now_def clk ex_login_fields IsZero_def)
  have w3: "w_store w3 = w_store w2" "w_clock w3 \<le> 1" "w_registrationPolicy w3 = ''open''"
    using now ex_now_given by (auto simp: w3_def op_simps clk normalizeNow_def IsZero_def)
  define w4 where "w4 = snd (exchange_code ex_login_svc ?x ''code'' ''v'' w3)"
  define w5 where "w5 = snd (VerifyTokenSet ex_login_svc ex_oidc_verifier ex_login_tokens ''n1'' w4)"
  have ver: "fst (VerifyTokenSet ex_login_svc ex_oidc_verifier ex_login_tokens ''n1'' w4) = Inr (ex_oidc_claims ''u9'' ''n1'')"
    by (rule ex_login_verify) (use w3(2) in \<open>simp add: w4_def ex_login_exchange\<close>)
  have s5: "w_store w5 = w_store w2" by (simp add: w5_def w4_def w3 op_simps)
  have r5: "w_registrationPolicy w5 = ''open''"
    by (simp add: w5_def w4_def VerifyTokenSet_def exchange_code_def oidc_Now_def oidc_call_def op_simps w3)
  have ok5: "mem_wf (w_store w5)" using t(1) by (simp add: s5)
  have V5: "vw_tenants (mem_view (w_store w5)) ''t1'' = Some ex_tenant" "vw_principals (mem_view (w_store w5)) ?id = None"
    using t(2) by (simp_all add: s5 ex_login_world_def ex_store_def mem_view_def ex_login_id StableProjectionID_def Let_def)
  define w6 where "w6 = snd (SyncDirectoryUser memory_store ex_login_svc (Some ex_login_source) ''u9'' w5)"
  obtain p tn where p: "fst (SyncDirectoryUser memory_store ex_login_svc (Some ex_login_source) ''u9'' w5) = Inr [p]"
    and f: "p_ID p = ?id" "vw_principals (mem_view (w_store w6)) ?id = Some p" "p_Status p = ''active''" "p_TenantID p = ''t1''"
      "vw_tenants (mem_view (w_store w6)) ''t1'' = Some tn" "ten_Status tn = ''active''"
    using ex_login_sync [OF ok5 V5 r5] unfolding w6_def by blast
  have tenants: "p_TenantID q = p_TenantID p" if q: "q \<in> ran (vw_principals (mem_view (w_store w6)))" for q
  proof -
    have "vw_principals (mem_view (w_store w6)) = vw_principals (mem_view (w_store w5)) ++ map_of [(p_ID p, p)]"
      by (rule mem.SyncDirectoryUser_Inr [OF ok5 p]) (simp add: w6_def)
    then have "q = p \<or> q \<in> ran (vw_principals (mem_view (w_store w5)))"
      using q by (auto simp: ran_def split: if_splits)
    moreover have "p_TenantID r = ''t1''" if "r \<in> ran (vw_principals (mem_view (w_store w5)))" for r
      using that t(2) by (auto simp: s5 ex_login_world_def ex_store_def mem_view_def ran_def ex_rows split: if_splits)
    ultimately show ?thesis using f(4) by auto
  qed
  have ok6: "mem_wf (w_store w6)" unfolding w6_def by (rule mem.ok_after [OF service_call.sync_user ok5])
  obtain session identity where s: "fst (CreateSession memory_store ex_login_svc ?id ex_now w6) = Inr session"
    and i: "fst (IdentityContext memory_store ex_login_svc (sess_ID session) ex_now
      (snd (CreateSession memory_store ex_login_svc ?id ex_now w6))) = Inr identity"
    by (rule ex_session_opens [OF ok6 f(2,1,3) _ f(6) tenants]) (simp_all add: f)
  have fresh: "\<not> expired (oidc_ExpiresAt ex_login_state) ex_now"
    by (simp add: ex_login_state_def expired_def Before_def Minute_def Second_def)
  have st: "oidc_BrowserBinding ex_login_state = oidcBindingHash ''b''" "oidc_CodeVerifier ex_login_state = ''v''"
    "oidc_Nonce ex_login_state = ''n1''" "oidc_RedirectURL ex_login_state = ''/home''" "oc_Subject (ex_oidc_claims ''u9'' ''n1'') = ''u9''"
    by (simp_all add: ex_login_state_def ex_oidc_claims_def)
  have ne: "''code'' \<noteq> []" "''st1'' \<noteq> []" "''b'' \<noteq> []" by simp_all
  show ?thesis
    unfolding CompleteBoundOIDCCallback_def completeOIDCCallback_def
    using x ver p s i fresh ex_hash_nonempty ex_now_given
    by (simp add: op_simps ex_login_fields trim Let_def st ex_login_exchange f now'
        flip: take_state_def w2_def w3_def w4_def w5_def w6_def)
qed

lemma query_values_sorted: "distinct (map fst q) \<Longrightarrow> query_values (sort_key fst q) key = (case map_of q key of None \<Rightarrow> [] | Some v \<Rightarrow> [v])"
proof -
  assume d: "distinct (map fst q)"
  have "filter (\<lambda>kv. fst kv = key) q = (case map_of q key of None \<Rightarrow> [] | Some v \<Rightarrow> [(key, v)])"
    using d by (induction q) (auto simp: filter_empty_conv map_of_eq_None_iff [symmetric] split: option.splits dest: map_of_SomeD)
  then show ?thesis
    by (simp add: query_values_def filter_sort split: option.splits)
qed

lemma query_Get_Encode:
  assumes "wf_map q"
  shows "query_Get (parseQuery (Values_Encode q)) key = (case map_of q key of None \<Rightarrow> [] | Some v \<Rightarrow> v)"
  using query_values_sorted [of q key] assms
  by (simp add: query_Get_def parseQuery_Encode wf_map_def split: option.splits)

section \<open>The properties\<close>





text \<open>C17: A callback from a browser that does not hold the secret of the login is refused, and neither creates
  anything nor uses the login up: the browser that started it can still finish it.\<close>

theorem foreign_callback_refused:
  assumes "mem_wf (w_store w)"
    and "\<And>x. vw_oidcStates (mem_view (w_store w)) (TrimSpace k) = Some x \<Longrightarrow> oidc_BrowserBinding x \<noteq> oidcBindingHash b"
  shows "(\<exists>e. fst (CompleteBoundOIDCCallback memory_store svc code k b now w) = Inl e)
    \<and> w_store (snd (CompleteBoundOIDCCallback memory_store svc code k b now w)) = w_store w"
  using mem.callback_foreign [OF assms(1) mem_store_simps(28) assms(2)] by (simp add: CompleteBoundOIDCCallback_def)

theorem foreign_callback_refused_witness:
  "w_store (snd (CompleteBoundOIDCCallback memory_store ex_login_svc ''code'' ''st1'' [] ex_now ex_login_world)) = w_store ex_login_world"
proof -
  have "TrimSpace ''st1'' = ''st1''" by code_simp
  then have "oidc_BrowserBinding x \<noteq> oidcBindingHash []" if "vw_oidcStates (mem_view (w_store ex_login_world)) (TrimSpace ''st1'') = Some x" for x
    using that ex_hash_nonempty by (auto simp: ex_login_world_def mem_view_def ex_login_state_def oidcBindingHash_def Let_def)
  from foreign_callback_refused [OF ex_login_ok this] show ?thesis by simp
qed


definition ex_start :: StartOIDCLoginRequest where
  "ex_start = \<lparr>sl_BrowserBinding = ''b'', sl_RedirectURL = ''/home'', sl_Now = ex_now\<rparr>"

lemma mem_takes_bound: "store_TakeBoundOIDCLoginState memory_store \<noteq> None"
  by (simp add: memory_store_def)

lemma ex_started: "\<exists>started. fst (StartOIDCLogin memory_store ex_login_svc ex_start (ex_world ''p1'')) = Inr started"
proof -
  have t: "TrimSpace (ov_Issuer ex_oidc_verifier) \<noteq> []" "TrimSpace (ov_ClientID ex_oidc_verifier) \<noteq> []" by code_simp+
  have v: "validOIDCReturnTo ''/home''" by code_simp
  have a: "ov_AuthorizationURL ex_oidc_verifier \<noteq> []" by code_simp
  have "oidcEndpoint (ov_AuthorizationURL ex_oidc_verifier) = Inr (projr (oidcEndpoint (ov_AuthorizationURL ex_oidc_verifier)))"
    by code_simp
  then obtain u where u: "oidcEndpoint (ov_AuthorizationURL ex_oidc_verifier) = Inr u" by blast
  show ?thesis
    using t v a u ex_ok [of "''p1''"] ex_now_given
    by (simp add: ex_login_fields(4) StartOIDCLogin_def ex_start_def op_simps mem_takes_bound Let_def)
      (simp add: memory_store_def mem_PutOIDCLoginState_def on_store_def op_simps)
qed


end
