(* ===== verification/Warden_Casdoor_Properties.thy ===== *)
theory Warden_Casdoor_Properties
  imports Warden_Login_Properties Warden_Policy_Properties Warden_Directory_Properties
begin

text \<open>
  The directory of a Casdoor server together with the service: which roles its users can get, and what a
  reconciliation (\<open>src/warden/casdoor_directory.go\<close>) leaves of users that are gone.
\<close>

section \<open>Users that are gone\<close>

text \<open>
  \<open>gone V u pid\<close>: if the row \<open>pid\<close> is that of the directory user \<open>u\<close>, then it is disabled and has no session.
\<close>

definition gone :: "StoreView \<Rightarrow> string \<Rightarrow> string \<Rightarrow> bool" where
  "gone V u pid \<longleftrightarrow> (\<forall>q. vw_principals V pid = Some q \<longrightarrow> p_CasdoorUserID q = u \<longrightarrow>
     p_Status q = ''disabled'' \<and> (\<forall>k s. vw_sessions V k = Some s \<longrightarrow> sess_PrincipalID s \<noteq> pid))"

definition managed :: "CasdoorDirectorySource \<Rightarrow> Principal \<Rightarrow> bool" where
  "managed d p \<longleftrightarrow> (\<exists>mapping \<in> set (cds_mappings d). tm_TenantID mapping = p_TenantID p)"

text \<open>\<open>complete_for rows known\<close>: a known subject is known with all its rows.\<close>

definition complete_for :: "Principal set \<Rightarrow> Principal list gomap \<Rightarrow> bool" where
  "complete_for rows known \<longleftrightarrow> (\<forall>u ps. map_of known u = Some ps \<longrightarrow> u \<noteq> [] \<longrightarrow> {p \<in> rows. p_CasdoorUserID p = u} \<subseteq> set ps)"

context full_store
begin

lemma revokeDirectoryPrincipal_effect:
  assumes ok: "ok (w_store w)"
  shows "ok (w_store (snd (revokeDirectoryPrincipal st svc p w)))
    \<and> (fst (revokeDirectoryPrincipal st svc p w) \<noteq> Inl ErrUnauthorized \<and> view (w_store (snd (revokeDirectoryPrincipal st svc p w))) = view (w_store w)
         \<and> fst (revokeDirectoryPrincipal st svc p w) = Inl ErrNotFound
       \<or> fst (revokeDirectoryPrincipal st svc p w) = Inl ErrUnauthorized
         \<and> (\<exists>log. view (w_store (snd (revokeDirectoryPrincipal st svc p w))) = (view (w_store w))
             \<lparr>vw_principals := upd_at (vw_principals (view (w_store w))) (p_ID p) (p_Status_update (\<lambda>_. ''disabled'')),
              vw_sessions := (\<lambda>k. case vw_sessions (view (w_store w)) k of None \<Rightarrow> None
                | Some x \<Rightarrow> if sess_PrincipalID x = p_ID p then None else Some x),
              vw_audits := log\<rparr>))"
  using ok
  by (cases "vw_principals (view (w_store w)) (p_ID p)")
    (auto simp: revokeDirectoryPrincipal_def op_simps store_simps PrincipalStatusDisabled_def)

lemma revoke_absent_effect:
  assumes ok: "ok (w_store w)" and res: "fst (revoke_absent st svc d current p w) = Inr a"
  defines "V' \<equiv> view (w_store (snd (revoke_absent st svc d current p w)))"
  shows "ok (w_store (snd (revoke_absent st svc d current p w)))"
    and "managed d p \<Longrightarrow> p_ID p \<notin> p_ID ` set current \<Longrightarrow> gone V' u (p_ID p)"
    and "gone (view (w_store w)) u pid \<Longrightarrow> gone V' u pid"
proof -
  let ?V = "view (w_store w)" and ?rev = "revokeDirectoryPrincipal st svc p :: ('s World, unit) op"
  have "ok (w_store (snd (revoke_absent st svc d current p w)))
    \<and> (managed d p \<and> p_ID p \<notin> p_ID ` set current \<longrightarrow> gone V' u (p_ID p)) \<and> (gone ?V u pid \<longrightarrow> gone V' u pid)"
  proof (cases "managed d p \<and> p_ID p \<notin> p_ID ` set current")
    case False
    then have "revoke_absent st svc d current p w = (Inr (), w)"
      by (auto simp: revoke_absent_def managed_def op_simps Let_def)
    with ok False show ?thesis by (auto simp: V'_def)
  next
    case True
    then have "\<exists>mapping \<in> set (cds_mappings d). tm_TenantID mapping = p_TenantID p"
      and "\<not> (\<exists>c \<in> set current. p_ID c = p_ID p)"
      by (simp_all add: managed_def image_iff eq_commute)
    then have e: "revoke_absent st svc d current p = on_err ?rev
        (\<lambda>err. if errors_Is err ErrUnauthorized then ret () else fail err) (\<lambda>(_ :: unit). ret ())"
      by (simp only: revoke_absent_def Let_def if_True simp_thms)
    have f: "fst (?rev w) = Inl ErrUnauthorized"
    proof (rule ccontr)
      assume "fst (?rev w) \<noteq> Inl ErrUnauthorized"
      then have "fst (?rev w) = Inl ErrNotFound"
        using revokeDirectoryPrincipal_effect [OF ok, where svc = svc and p = p and 'a = unit] by blast
      with res show False unfolding e by (simp add: on_err_Inl [where m = ?rev and s = w] op_simps)
    qed
    then have s: "snd (revoke_absent st svc d current p w) = snd (?rev w)"
      unfolding e by (simp add: op_simps)
    obtain log where V: "V' = ?V\<lparr>vw_principals := upd_at (vw_principals ?V) (p_ID p) (p_Status_update (\<lambda>_. ''disabled'')),
              vw_sessions := (\<lambda>k. case vw_sessions ?V k of None \<Rightarrow> None
                | Some x \<Rightarrow> if sess_PrincipalID x = p_ID p then None else Some x), vw_audits := log\<rparr>"
      and ok': "ok (w_store (snd (?rev w)))"
      using f revokeDirectoryPrincipal_effect [OF ok, where svc = svc and p = p and 'a = unit] unfolding V'_def s by auto
    have "gone V' u (p_ID p)"
      by (auto simp: gone_def V split: option.splits if_splits)
    moreover have "gone ?V u pid \<longrightarrow> gone V' u pid" if "pid \<noteq> p_ID p"
      using that by (auto simp: gone_def V split: option.splits if_splits)
    ultimately show ?thesis using ok' s by (cases "pid = p_ID p") simp_all
  qed
  then show "ok (w_store (snd (revoke_absent st svc d current p w)))"
    "managed d p \<Longrightarrow> p_ID p \<notin> p_ID ` set current \<Longrightarrow> gone V' u (p_ID p)" "gone ?V u pid \<Longrightarrow> gone V' u pid"
    by simp_all
qed

lemma revoke_all_effect:
  assumes "ok (w_store w)" and "fst (for_each (revoke_absent st svc d current) prior w) = Inr us"
  shows "ok (w_store (snd (for_each (revoke_absent st svc d current) prior w)))
    \<and> (\<forall>p \<in> set prior. managed d p \<longrightarrow> p_ID p \<notin> p_ID ` set current \<longrightarrow>
        gone (view (w_store (snd (for_each (revoke_absent st svc d current) prior w)))) u (p_ID p))
    \<and> (gone (view (w_store w)) u pid \<longrightarrow> gone (view (w_store (snd (for_each (revoke_absent st svc d current) prior w)))) u pid)"
  using assms
proof (induction prior arbitrary: w us pid)
  case Nil
  then show ?case by (simp add: op_simps)
next
  case (Cons p prior)
  let ?w = "snd (revoke_absent st svc d current p w)"
  from Cons.prems(2) obtain a us' where a: "fst (revoke_absent st svc d current p w) = Inr a"
    and us': "fst (for_each (revoke_absent st svc d current) prior ?w) = Inr us'"
    by (auto elim!: bnd_InrE simp: op_simps)
  have e: "snd (for_each (revoke_absent st svc d current) (p # prior) w) = snd (for_each (revoke_absent st svc d current) prior ?w)"
    using a us' by (simp add: op_simps)
  note f = revoke_absent_effect [OF Cons.prems(1) a]
  note IH = Cons.IH [OF f(1) us']
  show ?case unfolding e using IH [of pid] IH [of "p_ID p"] f(2) [of u] f(3) [of u pid] by auto
qed

lemma reconcile_subject_effect:
  assumes ok: "ok (w_store w)" and res: "fst (reconcile_subject st svc source d (subject, prior) w) = Inr us"
  defines "V' \<equiv> view (w_store (snd (reconcile_subject st svc source d (subject, prior) w)))"
  obtains snaps where "ok (w_store (snd (reconcile_subject st svc source d (subject, prior) w)))"
    and "ds_SyncUser source (w_lookups w) subject = Inr snaps"
    and "\<And>p. p \<in> set prior \<Longrightarrow> managed d p \<Longrightarrow> p_ID p \<notin> directory_id ` set snaps \<Longrightarrow> gone V' subject (p_ID p)"
    and "\<And>u pid. u \<noteq> subject \<Longrightarrow> gone (view (w_store w)) u pid \<Longrightarrow> gone V' u pid"
proof -
  let ?sync = "SyncDirectoryUser st svc (Some source) subject"
  let ?w = "snd (?sync w)"
  obtain current where c: "fst (?sync w) = Inr current"
    and r: "fst (for_each (revoke_absent st svc d current) prior ?w) = Inr us"
    and e: "snd (reconcile_subject st svc source d (subject, prior) w) = snd (for_each (revoke_absent st svc d current) prior ?w)"
    using res unfolding reconcile_subject_def fst_conv snd_conv by (rule bnd_InrE)
  obtain src snaps where snaps: "ds_SyncUser source (w_lookups w) subject = Inr snaps" and ok1: "ok (w_store ?w)"
    and l: "list_all2 (\<lambda>snap p. p_ID p = directory_id snap \<and> p_CasdoorUserID p = subject
        \<and> p_TenantID p = ten_ID (snap_Tenant snap) \<and> p_Roles p = normalizedDirectoryRoles (snap_Roles snap)) snaps current"
    and v: "vw_principals (view (w_store ?w)) = vw_principals (view (w_store w)) ++ map_of (rev (map (\<lambda>p. (p_ID p, p)) current))"
    and s: "vw_sessions (view (w_store ?w)) \<subseteq>\<^sub>m vw_sessions (view (w_store w))"
    by (rule SyncDirectoryUser_Inr [OF ok c]) auto
  have ids: "p_ID ` set current = directory_id ` set snaps"
    using l by (induction rule: list_all2_induct) auto
  have own: "p_CasdoorUserID q = subject" if "q \<in> set current" for q
    using l that by (auto simp: list_all2_conv_all_nth in_set_conv_nth)
  have written: "q \<in> set current" if "map_of (rev (map (\<lambda>p. (p_ID p, p)) current)) pid = Some q" for pid q
    using map_of_SomeD [OF that] by auto
  have other: "gone (view (w_store ?w)) u pid" if "u \<noteq> subject" "gone (view (w_store w)) u pid" for u pid
    unfolding gone_def
  proof (intro allI impI)
    fix q assume q: "vw_principals (view (w_store ?w)) pid = Some q" "p_CasdoorUserID q = u"
    then have "vw_principals (view (w_store w)) pid = Some q"
      using own that(1) written by (auto simp: v map_add_def split: option.splits)
    with that(2) q(2) have "p_Status q = ''disabled''" "vw_sessions (view (w_store w)) k = Some x \<Longrightarrow> sess_PrincipalID x \<noteq> pid" for k x
      by (auto simp: gone_def)
    with s show "p_Status q = ''disabled'' \<and> (\<forall>k s. vw_sessions (view (w_store ?w)) k = Some s \<longrightarrow> sess_PrincipalID s \<noteq> pid)"
      by (metis map_le_def domI)
  qed
  note f = revoke_all_effect [OF ok1 r, folded e V'_def]
  show thesis
  proof (rule that [OF _ snaps])
    show "ok (w_store (snd (reconcile_subject st svc source d (subject, prior) w)))"
      using f by (simp only: e)
    show "gone V' subject (p_ID p)" if "p \<in> set prior" "managed d p" "p_ID p \<notin> directory_id ` set snaps" for p
      using f [of subject, THEN conjunct2, THEN conjunct1] that unfolding ids V'_def by blast
    show "gone V' u pid" if "u \<noteq> subject" "gone (view (w_store w)) u pid" for u pid
      using f [of u pid, THEN conjunct2, THEN conjunct2] other [OF that] unfolding V'_def by blast
  qed
qed

text \<open>The whole loop: every known principal that its directory answer does not have is gone at the end.\<close>

lemma reconcile_subjects_effect:
  assumes "ok (w_store w)" and "distinct (map fst known)"
    and "fst (for_each (reconcile_subject st svc source d) known w) = Inr us"
  defines "V' \<equiv> view (w_store (snd (for_each (reconcile_subject st svc source d) known w)))"
  shows "(\<forall>(subject, prior) \<in> set known. \<exists>n snaps. ds_SyncUser source n subject = Inr snaps
      \<and> (\<forall>p \<in> set prior. managed d p \<longrightarrow> p_ID p \<notin> directory_id ` set snaps \<longrightarrow> gone V' subject (p_ID p)))
    \<and> (\<forall>u pid. u \<notin> fst ` set known \<longrightarrow> gone (view (w_store w)) u pid \<longrightarrow> gone V' u pid)"
  using assms(1-3) unfolding V'_def
proof (induction known arbitrary: w us)
  case Nil
  then show ?case by (simp add: op_simps)
next
  case (Cons kp known)
  obtain subject prior where kp: "kp = (subject, prior)" by (cases kp)
  let ?w = "snd (reconcile_subject st svc source d (subject, prior) w)"
  from Cons.prems(3) obtain a us' where a: "fst (reconcile_subject st svc source d (subject, prior) w) = Inr a"
    and us': "fst (for_each (reconcile_subject st svc source d) known ?w) = Inr us'"
    by (auto elim!: bnd_InrE simp: op_simps kp)
  have e: "snd (for_each (reconcile_subject st svc source d) (kp # known) w) =
      snd (for_each (reconcile_subject st svc source d) known ?w)"
    using a us' by (simp add: op_simps kp)
  obtain snaps where ok: "ok (w_store ?w)" and n: "ds_SyncUser source (w_lookups w) subject = Inr snaps"
    and g: "\<And>p. p \<in> set prior \<Longrightarrow> managed d p \<Longrightarrow> p_ID p \<notin> directory_id ` set snaps \<Longrightarrow> gone (view (w_store ?w)) subject (p_ID p)"
    and k: "\<And>u pid. u \<noteq> subject \<Longrightarrow> gone (view (w_store w)) u pid \<Longrightarrow> gone (view (w_store ?w)) u pid"
    by (rule reconcile_subject_effect [OF Cons.prems(1) a]) blast
  have d: "distinct (map fst known)" "subject \<notin> fst ` set known" using Cons.prems(2) by (simp_all add: kp)
  note IH = Cons.IH [OF ok d(1) us']
  show ?case
    unfolding e
  proof (rule conjI)
    show "\<forall>(u, prior) \<in> set (kp # known). \<exists>n snaps. ds_SyncUser source n u = Inr snaps
      \<and> (\<forall>p \<in> set prior. managed d p \<longrightarrow> p_ID p \<notin> directory_id ` set snaps
          \<longrightarrow> gone (view (w_store (snd (for_each (reconcile_subject st svc source d) known ?w)))) u (p_ID p))"
    proof -
      have "\<exists>n snaps. ds_SyncUser source n subject = Inr snaps
      \<and> (\<forall>p \<in> set prior. managed d p \<longrightarrow> p_ID p \<notin> directory_id ` set snaps
          \<longrightarrow> gone (view (w_store (snd (for_each (reconcile_subject st svc source d) known ?w)))) subject (p_ID p))"
        using n g IH [THEN conjunct2, rule_format, OF d(2)] by blast
      with IH [THEN conjunct1] show ?thesis by (simp add: kp)
    qed
    show "\<forall>u pid. u \<notin> fst ` set (kp # known) \<longrightarrow> gone (view (w_store w)) u pid
        \<longrightarrow> gone (view (w_store (snd (for_each (reconcile_subject st svc source d) known ?w)))) u pid"
      using IH [THEN conjunct2] k by (simp add: kp)
  qed
qed

text \<open>The principals known before the first refresh; reading them changes nothing.\<close>

lemma known_subjects_Inr:
  assumes "ok (w_store w)" and "distinct (map fst known)"
    and "complete_for (ran (vw_principals (view (w_store w)))) known"
  shows "\<exists>known'. known_subjects st known us w = (Inr known', w) \<and> distinct (map fst known')
    \<and> fst ` set known' = fst ` set known \<union> set us
    \<and> complete_for (ran (vw_principals (view (w_store w)))) known'"
  using assms(2,3)
proof (induction us arbitrary: known)
  case Nil
  then show ?case by (auto simp: op_simps)
next
  case (Cons u us)
  show ?case
  proof (cases "map_of known u")
    case (Some ps)
    then have "u \<in> fst ` set known" by (metis domI dom_map_of_conv_image_fst)
    moreover have "known_subjects st known (u # us) w = known_subjects st known us w" using Some by simp
    ultimately show ?thesis using Cons.IH [OF Cons.prems] by (simp add: insert_absorb Un_insert_right)
  next
    case None
    obtain ps where ps: "store_ListPrincipalsByCasdoorUser st u (w_store w) = (Inr ps, w_store w)"
      and set: "set ps = {p \<in> ran (vw_principals (view (w_store w))). p_CasdoorUserID p \<noteq> [] \<and> p_CasdoorUserID p = u}"
      using ListPrincipals [OF assms(1), of u] by blast
    have e: "known_subjects st known (u # us) w = known_subjects st (map_put u ps known) us w"
      using None ps by (simp add: op_simps on_store_read)
    have d: "distinct (map fst (map_put u ps known))"
      using wf_map_put [of known u ps] Cons.prems(1) by (simp add: wf_map_def)
    have keys: "fst ` set (map_put u ps known) = insert u (fst ` set known)"
      by (simp flip: dom_map_of_conv_image_fst)
    have "complete_for (ran (vw_principals (view (w_store w)))) (map_put u ps known)"
      using Cons.prems(2) set by (auto simp: complete_for_def)
    from Cons.IH [OF d this] show ?thesis unfolding e keys by (simp add: insert_commute)
  qed
qed

lemma known_principals_Inr:
  assumes ok: "ok (w_store w)" and ls: "store_ListDirectorySubjects st = Some list_subjects"
    and "distinct (map fst known)" and "\<forall>mapping \<in> set ms. tm_TenantID mapping \<noteq> []"
    and "complete_for (ran (vw_principals (view (w_store w)))) known"
  shows "\<exists>known'. known_principals st list_subjects known ms w = (Inr known', w) \<and> distinct (map fst known')
    \<and> fst ` set known \<subseteq> fst ` set known'
    \<and> (\<forall>p \<in> ran (vw_principals (view (w_store w))). p_CasdoorUserID p \<noteq> [] \<longrightarrow> p_Type p = PrincipalTypeUser \<longrightarrow>
         p_TenantID p \<in> tm_TenantID ` set ms \<longrightarrow> p_CasdoorUserID p \<in> fst ` set known')
    \<and> complete_for (ran (vw_principals (view (w_store w)))) known'"
  using assms(3-5)
proof (induction ms arbitrary: known)
  case Nil
  then show ?case by (auto simp: op_simps)
next
  case (Cons mapping ms)
  obtain us where us: "list_subjects (tm_TenantID mapping) (w_store w) = (Inr us, w_store w)"
    and set: "set us = p_CasdoorUserID ` {p \<in> ran (vw_principals (view (w_store w))). p_TenantID p = tm_TenantID mapping
      \<and> p_CasdoorUserID p \<noteq> [] \<and> p_Type p = PrincipalTypeUser}"
    using ListDirectorySubjects [OF ok ls, of "tm_TenantID mapping"] Cons.prems(2) by auto
  obtain known1 where k: "known_subjects st known us w = (Inr known1, w)" and d: "distinct (map fst known1)"
    and keys: "fst ` set known1 = fst ` set known \<union> set us"
    and rows: "complete_for (ran (vw_principals (view (w_store w)))) known1"
    using known_subjects_Inr [where us = us, OF ok Cons.prems(1,3)] by blast
  have e: "known_principals st list_subjects known (mapping # ms) w = known_principals st list_subjects known1 ms w"
    using us k by (simp add: op_simps on_store_read)
  have "\<forall>mapping \<in> set ms. tm_TenantID mapping \<noteq> []" using Cons.prems(2) by simp
  from Cons.IH [OF d this rows] obtain known' where
    k': "known_principals st list_subjects known1 ms w = (Inr known', w)" "distinct (map fst known')"
    and sub: "fst ` set known1 \<subseteq> fst ` set known'"
    and all: "\<And>p. p \<in> ran (vw_principals (view (w_store w))) \<Longrightarrow> p_CasdoorUserID p \<noteq> [] \<Longrightarrow> p_Type p = PrincipalTypeUser \<Longrightarrow>
         p_TenantID p \<in> tm_TenantID ` set ms \<Longrightarrow> p_CasdoorUserID p \<in> fst ` set known'"
    and rows': "complete_for (ran (vw_principals (view (w_store w)))) known'"
    by blast
  have "p_CasdoorUserID p \<in> fst ` set known'" if "p \<in> ran (vw_principals (view (w_store w)))" "p_CasdoorUserID p \<noteq> []"
    "p_Type p = PrincipalTypeUser" "p_TenantID p \<in> tm_TenantID ` set (mapping # ms)" for p
  proof (cases "p_TenantID p = tm_TenantID mapping")
    case True
    then have "p_CasdoorUserID p \<in> set us" using that(1-3) unfolding set by blast
    then show ?thesis using sub keys by blast
  next
    case False
    then show ?thesis using all [OF that(1-3)] that(4) by simp
  qed
  moreover have "fst ` set known \<subseteq> fst ` set known'" using sub keys by blast
  ultimately show ?case
    using k' rows' unfolding e by (intro exI [of _ known'] conjI ballI impI) auto
qed

text \<open>The reconciliation as a whole.\<close>

lemma casdoor_Reconcile_departed:
  assumes ok: "ok (w_store w)" and res: "fst (casdoor_Reconcile st svc source d w) = Inr a"
    and ids: "\<forall>mapping \<in> set (cds_mappings d). tm_TenantID mapping \<noteq> []"
    and p: "p \<in> ran (vw_principals (view (w_store w)))" "p_CasdoorUserID p \<noteq> []" "p_Type p = PrincipalTypeUser" "managed d p"
  shows "\<exists>n snaps. ds_SyncUser source n (p_CasdoorUserID p) = Inr snaps \<and> (p_ID p \<notin> directory_id ` set snaps
    \<longrightarrow> gone (view (w_store (snd (casdoor_Reconcile st svc source d w)))) (p_CasdoorUserID p) (p_ID p))"
proof -
  obtain list_subjects where ls: "store_ListDirectorySubjects st = Some list_subjects" and b: "cds_service d"
    using res by (cases "store_ListDirectorySubjects st") (auto simp: casdoor_Reconcile_def op_simps split: if_splits)
  obtain known where k: "known_principals st list_subjects [] (cds_mappings d) w = (Inr known, w)"
    and dist: "distinct (map fst known)" and has: "p_CasdoorUserID p \<in> fst ` set known"
    and rows: "\<And>ps. map_of known (p_CasdoorUserID p) = Some ps \<Longrightarrow> p \<in> set ps"
  proof -
    have "complete_for rows []" for rows by (simp add: complete_for_def)
    then obtain known where k: "known_principals st list_subjects [] (cds_mappings d) w = (Inr known, w)"
        "distinct (map fst known)"
      and has: "p_TenantID p \<in> tm_TenantID ` set (cds_mappings d) \<longrightarrow> p_CasdoorUserID p \<in> fst ` set known"
      and rows: "complete_for (ran (vw_principals (view (w_store w)))) known"
      using known_principals_Inr [where known = "[]", OF ok ls _ ids] p(1-3) by auto
    moreover have "p_TenantID p \<in> tm_TenantID ` set (cds_mappings d)"
      using p(4) by (auto simp: managed_def image_iff eq_commute)
    ultimately show thesis
      using p(1,2) by (intro that [OF k]) (auto simp: complete_for_def)
  qed
  have e: "casdoor_Reconcile st svc source d w =
      bnd (for_each (reconcile_subject st svc source d) known) (\<lambda>_. ret ()) w"
  proof -
    have "fst (known_principals st list_subjects [] (cds_mappings d) w) = Inr known" by (simp add: k)
    from bnd_Inr [where m = "known_principals st list_subjects [] (cds_mappings d)" and s = w, OF this] show ?thesis
      unfolding casdoor_Reconcile_def using b ls by (simp add: k)
  qed
  obtain us where us: "fst (for_each (reconcile_subject st svc source d) known w) = Inr us"
    using res unfolding e by (rule bnd_InrE)
  have s: "snd (casdoor_Reconcile st svc source d w) = snd (for_each (reconcile_subject st svc source d) known w)"
    unfolding e using us by (simp add: op_simps)
  obtain ps where ps: "(p_CasdoorUserID p, ps) \<in> set known" using has by auto
  then have "p \<in> set ps" using rows dist by (simp add: map_of_is_SomeI)
  then show ?thesis
    using reconcile_subjects_effect [OF ok dist us, THEN conjunct1] ps p(4) unfolding s by blast
qed

end

section \<open>The checked configuration\<close>

text \<open>What the construction checks of one mapping.\<close>

definition grants_of :: "CasdoorTenantMapping \<Rightarrow> string set" where
  "grants_of mapping = set (tm_DefaultRoles mapping) \<union> (\<Union>grants \<in> snd ` set (tm_RoleMappings mapping). set grants)"

definition mapping_checked :: "CasdoorTenantMapping \<Rightarrow> bool" where
  "mapping_checked mapping \<longleftrightarrow> tm_TenantID mapping \<noteq> [] \<and> tm_Organization mapping \<noteq> []
    \<and> \<not> ContainsAny (tm_Organization mapping) [CHR ''/'', CHR 0x5C]
    \<and> (\<forall>role \<in> grants_of mapping. snd (NormalizeRoleKey role))
    \<and> (\<forall>group \<in> set (tm_RequiredGroups mapping). HasPrefix group (tm_Organization mapping @ ''/''))
    \<and> (\<forall>role \<in> fst ` set (tm_RoleMappings mapping). HasPrefix role (tm_Organization mapping @ ''/''))"

lemma mapping_defaults_keep:
  "tm_Organization (mapping_defaults m) = tm_Organization m" "tm_TenantID (mapping_defaults m) = tm_TenantID m"
  "tm_RequiredGroups (mapping_defaults m) = tm_RequiredGroups m" "tm_DefaultRoles (mapping_defaults m) = tm_DefaultRoles m"
  "tm_RoleMappings (mapping_defaults m) = tm_RoleMappings m"
  by (simp_all add: mapping_defaults_def Let_def)

lemma check_mapping_Inr:
  assumes "check_mapping seen m0 = Inr m"
  shows "mapping_checked m \<and> tm_TenantID m = tm_TenantID m0 \<and> tm_TenantID m0 \<notin> set seen"
proof -
  have [simp]: "TrimSpace [] = []" by code_simp
  have roles: "set (tm_DefaultRoles m @ concat (map snd (tm_RoleMappings m))) = grants_of m" for m
    by (auto simp: grants_of_def)
  have m: "m = mapping_defaults m0" and n: "TrimSpace (tm_Organization m0) \<noteq> []" "TrimSpace (tm_TenantID m0) \<noteq> []"
    and a: "\<not> ContainsAny (tm_Organization m0) [CHR ''/'', CHR 0x5C]" "tm_TenantID m0 \<notin> set seen"
    and r: "find (\<lambda>role. \<not> snd (NormalizeRoleKey role)) (tm_DefaultRoles m @ concat (map snd (tm_RoleMappings m))) = None"
    and g: "\<forall>external \<in> set (map fst (tm_RoleMappings m)). HasPrefix external (tm_Organization m @ ''/'')"
      "\<forall>group \<in> set (tm_RequiredGroups m). HasPrefix group (tm_Organization m @ ''/'')"
    using assms by (auto simp: check_mapping_def Let_def split: if_splits option.splits)
  have "\<forall>role \<in> grants_of m. snd (NormalizeRoleKey role)"
    using r unfolding find_None_iff roles by blast
  then show ?thesis
    using n a g by (auto simp: mapping_checked_def m mapping_defaults_keep)
qed

lemma check_mappings_Inr:
  "check_mappings seen ms = Inr ms' \<Longrightarrow> (\<forall>m \<in> set ms'. mapping_checked m) \<and> distinct (map tm_TenantID ms')
    \<and> set (map tm_TenantID ms') \<inter> set seen = {} \<and> length ms' = length ms"
proof (induction seen ms arbitrary: ms' rule: check_mappings.induct)
  case (2 seen mapping rest)
  then obtain m tail where m: "check_mapping seen mapping = Inr m"
    and t: "check_mappings (tm_TenantID mapping # seen) rest = Inr tail" and e: "ms' = m # tail"
    by (auto split: sum.splits)
  show ?case using check_mapping_Inr [OF m] "2.IH" [OF m t] by (auto simp: e)
qed simp

lemma new_source_mappings:
  assumes "NewCasdoorDirectorySource cfg = Inr d"
  shows "(\<forall>mapping \<in> set (cds_mappings d). mapping_checked mapping) \<and> distinct (map tm_TenantID (cds_mappings d))
    \<and> cds_mappings d \<noteq> []"
proof -
  obtain ms where ms: "check_mappings [] (cdc_Mappings cfg) = Inr ms" and "cdc_Mappings cfg \<noteq> []" "cds_mappings d = ms"
    using assms by (auto simp: NewCasdoorDirectorySource_def Let_def split: sum.splits if_splits)
  with check_mappings_Inr [OF ms] show ?thesis by auto
qed

text \<open>C19: a directory source is only built from a configuration in which every tenant belongs to one mapping, every
  role that can be granted is a known one, external roles and groups carry the name of their organization, and
  whose client gives up within three seconds and follows no redirect with the credentials.\<close>

theorem casdoor_source_checked:
  assumes "NewCasdoorDirectorySource cfg = Inr d"
  shows "(\<forall>mapping \<in> set (cds_mappings d). mapping_checked mapping) \<and> distinct (map tm_TenantID (cds_mappings d))
    \<and> cds_mappings d \<noteq> [] \<and> 0 < hc_Timeout (cds_client d) \<and> hc_Timeout (cds_client d) \<le> 3 * Second
    \<and> hc_CheckRedirect (cds_client d) = UseLastResponse \<and> \<not> cds_service d"
proof -
  have "\<not> cds_service d" and "cds_client d = (let client = boundedOIDCClient (cdc_Client cfg) in
      if 3 * Second < hc_Timeout client then client\<lparr>hc_Timeout := 3 * Second\<rparr> else client)"
    using assms by (auto simp: NewCasdoorDirectorySource_def Let_def split: sum.splits if_splits)
  moreover have "0 < hc_Timeout (boundedOIDCClient c)" "hc_CheckRedirect (boundedOIDCClient c) = UseLastResponse" for c
    by (simp_all add: boundedOIDCClient_def Let_def Second_def split: option.splits)
  ultimately show ?thesis
    using new_source_mappings [OF assms] by (simp add: Let_def Second_def)
qed

section \<open>An example\<close>

text \<open>A directory whose organization \<open>org1\<close> is the tenant \<open>t1\<close>; its members are viewers.\<close>

definition ex_directory_cfg :: CasdoorDirectoryConfig where
  "ex_directory_cfg = \<lparr>cdc_BaseURL = ''https://c'', cdc_ClientID = ''id'', cdc_ClientSecret = ''secret'',
     cdc_Mappings = [\<lparr>tm_Organization = ''org1'', tm_TenantID = ''t1'', tm_TenantSlug = [], tm_DisplayName = ''Tenant'',
       tm_RequiredGroups = [], tm_DefaultRoles = [''viewer''], tm_RoleMappings = []\<rparr>],
     cdc_Client = None\<rparr>"

definition ex_directory :: CasdoorDirectorySource where
  "ex_directory = \<lparr>cds_baseURL = ''https://c'', cds_clientID = ''id'', cds_clientSecret = ''secret'',
     cds_mappings = [\<lparr>tm_Organization = ''org1'', tm_TenantID = ''t1'', tm_TenantSlug = ''t1'', tm_DisplayName = ''Tenant'',
       tm_RequiredGroups = [], tm_DefaultRoles = [''viewer''], tm_RoleMappings = []\<rparr>],
     cds_client = \<lparr>hc_Timeout = 3 * Second, hc_CheckRedirect = UseLastResponse\<rparr>, cds_service = False\<rparr>"

lemma ex_directory_new: "NewCasdoorDirectorySource ex_directory_cfg = Inr ex_directory"
  by code_simp

text \<open>The server answers every request alike.\<close>

definition ex_answer :: "casdoorDirectoryUser option \<Rightarrow> nat \<Rightarrow> directory_fetch" where
  "ex_answer user = (\<lambda>_ _ _ _. Some (200, Some (''ok'', user)))"

definition ex_directory_user :: casdoorDirectoryUser where
  "ex_directory_user = \<lparr>cdu_ID = ''u9'', cdu_Owner = ''org1'', cdu_Name = ''u9'', cdu_Email = [], cdu_DisplayName = ''U'',
     cdu_EmailVerified = True, cdu_Forbidden = False, cdu_Deleted = False, cdu_DeletedTime = [],
     cdu_Groups = [], cdu_Roles = [\<lparr>cur_Owner = ''org1'', cur_Name = ''root'', cur_Enabled = True\<rparr>]\<rparr>"

lemma ex_directory_parse: "\<exists>u. Parse (cds_baseURL ex_directory @ ''/api/get-user'') = Some u \<and>
    Parse (URL_String (u\<lparr>url_RawQuery := Values_Encode [(''owner'', ''org1''), (''userId'', ''u9'')]\<rparr>)) \<noteq> None \<and>
    Parse (URL_String (u\<lparr>url_RawQuery := Values_Encode [(''owner'', ''org1''), (''userId'', ''u1'')]\<rparr>)) \<noteq> None"
  by (rule exI [of _ "the (Parse ''https://c/api/get-user'')"]) code_simp

lemma ex_directory_sync:
  "casdoor_SyncUser (ex_answer None n) (ex_directory\<lparr>cds_service := b\<rparr>) ''u1'' = Inr []"
proof -
  have "TrimSpace ''u1'' = ''u1''" by code_simp
  then show ?thesis
    using ex_directory_parse by (auto simp: casdoor_SyncUser_def ex_directory_def cached_user_def getUser_def ex_answer_def)
qed

section \<open>The properties\<close>

lemma user_snapshot_roles: "set (snap_Roles (user_snapshot mapping user)) \<subseteq> grants_of mapping"
proof
  fix r assume "r \<in> set (snap_Roles (user_snapshot mapping user))"
  then consider "r \<in> set (tm_DefaultRoles mapping)"
    | k grants where "map_of (tm_RoleMappings mapping) k = Some grants" "r \<in> set grants"
    by (auto simp: user_snapshot_def mapped_roles_def split: if_splits option.splits dest: sym)
  then show "r \<in> grants_of mapping"
    by cases (auto simp: grants_of_def dest!: map_of_SomeD intro!: bexI)
qed

lemma normalized_role_cases:
  "r \<in> set (normalizedDirectoryRoles roles) \<Longrightarrow>
    role_Key r = RoleFrontendUser \<or> (\<exists>name \<in> set roles. NormalizeRoleKey name = (role_Key r, True))"
  using normalized_roles_from_keys [of "[]" roles] by (auto simp: normalizedDirectoryRoles_def Let_def split: if_splits)


text \<open>C15: after a reconciliation that succeeded, every directory user that the store held in a mapped tenant before is
  either in the answer of the directory, or disabled and without any session.\<close>

theorem reconcile_revokes_departed:
  assumes "mem_wf (w_store w)" and "NewCasdoorDirectorySource cfg = Inr d"
    and "source_bind memory_store (Some (casdoor_source fetch d)) = Inr (Some source)" and "svc_directory svc = Some source"
    and "fst (ReconcileDirectory memory_store svc w) = Inr ()"
    and "vw_principals (mem_view (w_store w)) pid = Some p" and "p_Type p = PrincipalTypeUser"
    and "p_CasdoorUserID p \<noteq> []" and "p_TenantID p \<in> tm_TenantID ` set (cds_mappings d)"
  defines "V' \<equiv> mem_view (w_store (snd (ReconcileDirectory memory_store svc w)))"
  shows "\<exists>n snaps. casdoor_SyncUser (fetch n) d (p_CasdoorUserID p) = Inr snaps
    \<and> (pid \<in> directory_id ` set snaps
      \<or> (\<forall>q. vw_principals V' pid = Some q \<longrightarrow> p_CasdoorUserID q = p_CasdoorUserID p \<longrightarrow>
          p_Status q = ''disabled'' \<and> (\<forall>k s. vw_sessions V' k = Some s \<longrightarrow> sess_PrincipalID s \<noteq> pid)))"
proof -
  let ?d = "d\<lparr>cds_service := True\<rparr>"
  have source: "source = (casdoor_source fetch d)\<lparr>ds_Casdoor := Some ?d\<rparr>"
    using assms(3) by (simp add: source_bind_def casdoor_source_def split: if_splits)
  have e: "ReconcileDirectory memory_store svc = casdoor_Reconcile memory_store svc source ?d"
    by (simp add: ReconcileDirectory_def assms(4) source)
  have ids: "\<forall>mapping \<in> set (cds_mappings ?d). tm_TenantID mapping \<noteq> []"
    using new_source_mappings [OF assms(2)] by (simp add: mapping_checked_def)
  have id: "p_ID p = pid" and ran: "p \<in> ran (vw_principals (mem_view (w_store w)))"
    using mem_id.view_ok [OF assms(1)] assms(6) by (auto simp: view_ok_def keyed_def ran_def)
  have "managed ?d p" using assms(9) by (auto simp: managed_def)
  from mem.casdoor_Reconcile_departed [OF assms(1) assms(5) [unfolded e] ids ran assms(8,7) this]
  show ?thesis by (auto simp: gone_def V'_def e id source casdoor_source_def)
qed

section \<open>Their instances\<close>

theorem casdoor_source_checked_witness:
  "hc_Timeout (cds_client ex_directory) \<le> 3 * Second \<and> distinct (map tm_TenantID (cds_mappings ex_directory))"
  using casdoor_source_checked [OF ex_directory_new] by simp

lemma SyncDirectoryUser_source_cong:
  "ds_SyncUser source (w_lookups w) subject = ds_SyncUser source' (w_lookups w) subject \<Longrightarrow>
    SyncDirectoryUser st svc (Some source) subject w = SyncDirectoryUser st svc (Some source') subject w"
  by (simp add: SyncDirectoryUser_def directory_lookup_def bnd_def split: sum.split)

lemma ex_directory_answers:
  "casdoor_SyncUser (ex_answer (Some ex_directory_user) n) ex_directory ''u9'' = Inr [ex_login_user]"
proof -
  have "TrimSpace ''u9'' = ''u9''" by code_simp
  then show ?thesis
    using ex_directory_parse
    by (auto simp: casdoor_SyncUser_def ex_directory_def cached_user_def getUser_def ex_answer_def)
      (simp_all add: ex_directory_user_def user_snapshot_def mapped_roles_def mapped_groups_def is_member_def ex_login_user_def ex_tenant_def)
qed


text \<open>The user \<open>u1\<close> of the principal \<open>p1\<close> is gone; the principal is disabled and its session ended.\<close>

definition ex_reconcile_source :: DirectorySource where
  "ex_reconcile_source = (casdoor_source (ex_answer None) ex_directory)\<lparr>ds_Casdoor := Some (ex_directory\<lparr>cds_service := True\<rparr>)\<rparr>"

definition ex_reconcile_svc :: Service where
  "ex_reconcile_svc = ex_svc\<lparr>svc_directory := Some ex_reconcile_source\<rparr>"

lemma mem_lists_subjects: "store_ListDirectorySubjects memory_store = Some (mem_ListDirectorySubjects (\<lambda>_. None))"
  by (simp add: memory_store_def)

lemma ex_reconcile: "fst (ReconcileDirectory memory_store ex_reconcile_svc ex_left_world) = Inr ()"
proof -
  let ?d = "ex_directory\<lparr>cds_service := True\<rparr>" and ?w = "ex_left_world\<lparr>w_lookups := 1\<rparr>"
  have ok: "mem_wf (w_store ?w)"
    by (simp add: ex_left_world_def ex_left_user_def ex_store_def mem_wf_def wf_map_def mem_view_def view_ok_def keyed_def ex_rows)
  have t: "TrimSpace ''u1'' = ''u1''" "TrimSpace ''t1'' = ''t1''" by code_simp+
  have rows: "map_values (ms_principals (w_store ex_left_world)) = [ex_left_user]"
    by (simp add: ex_left_world_def map_values_def)
  have "mem_ListDirectorySubjects (\<lambda>_. None) ''t1'' (w_store ex_left_world) = (Inr [''u1''], w_store ex_left_world)"
    by (simp add: mem_ListDirectorySubjects_def rows) (simp add: ex_left_user_def ex_rows PrincipalTypeUser_def sortedKeys_def)
  moreover have "store_ListPrincipalsByCasdoorUser memory_store ''u1'' (w_store ex_left_world) = (Inr [ex_left_user], w_store ex_left_world)"
    by (simp add: memory_store_def mem_ListPrincipalsByCasdoorUser_def rows) (simp add: ex_left_user_def)
  ultimately have known: "known_principals memory_store (mem_ListDirectorySubjects (\<lambda>_. None)) [] (cds_mappings ex_directory) ex_left_world =
      (Inr [(''u1'', [ex_left_user])], ex_left_world)"
    by (simp add: ex_directory_def op_simps on_store_read map_put_def)
  have "casdoor_SyncUser (ex_answer None n) ex_directory ''u1'' = Inr []" for n
    using ex_directory_sync [of n False] by (simp add: ex_directory_def)
  then have sync: "SyncDirectoryUser memory_store ex_reconcile_svc (Some ex_reconcile_source) ''u1'' ex_left_world = (Inr [], ?w)"
    by (simp add: SyncDirectoryUser_def t directory_lookup_def op_simps ex_reconcile_source_def casdoor_source_def ex_left_world_def ex_world_def)
  have "vw_principals (mem_view (w_store ?w)) (p_ID ex_left_user) = Some ex_left_user"
    by (simp add: ex_left_world_def ex_left_user_def ex_store_def mem_view_def ex_rows)
  then have "fst ((revokeDirectoryPrincipal memory_store ex_reconcile_svc ex_left_user :: (_, unit) op) ?w) = Inl ErrUnauthorized"
    using ok by (simp add: revokeDirectoryPrincipal_def op_simps store_simps)
  then have "fst (revoke_absent memory_store ex_reconcile_svc ?d [] ex_left_user ?w) = Inr ()"
    by (simp add: revoke_absent_def op_simps ex_directory_def ex_left_user_def ex_rows)
  then have "fst (for_each (reconcile_subject memory_store ex_reconcile_svc ex_reconcile_source ?d) [(''u1'', [ex_left_user])] ex_left_world)
      = Inr [[()]]"
    by (simp add: reconcile_subject_def op_simps sync)
  moreover have "svc_directory ex_reconcile_svc = Some ex_reconcile_source" "ds_Casdoor ex_reconcile_source = Some ?d"
    by (simp_all add: ex_reconcile_svc_def ex_reconcile_source_def)
  ultimately show ?thesis
    by (simp add: ReconcileDirectory_def casdoor_Reconcile_def mem_lists_subjects op_simps known del: for_each.simps)
qed

theorem reconcile_revokes_departed_witness:
  "vw_principals (mem_view (w_store ex_left_world)) ''p1'' = Some ex_left_user
   \<and> vw_principals (mem_view (w_store (snd (ReconcileDirectory memory_store ex_reconcile_svc ex_left_world)))) ''p1'' \<noteq> Some ex_left_user"
proof -
  have ok: "mem_wf (w_store ex_left_world)"
    by (simp add: ex_left_world_def ex_left_user_def ex_store_def mem_wf_def wf_map_def mem_view_def view_ok_def keyed_def ex_rows)
  have b: "source_bind memory_store (Some (casdoor_source (ex_answer None) ex_directory)) = Inr (Some ex_reconcile_source)"
    by (simp add: source_bind_def casdoor_source_def ex_reconcile_source_def ex_directory_def memory_store_def)
  have d: "svc_directory ex_reconcile_svc = Some ex_reconcile_source" by (simp add: ex_reconcile_svc_def)
  have res: "fst (ReconcileDirectory memory_store ex_reconcile_svc ex_left_world) = Inr ()"
    by (rule ex_reconcile)
  have p: "vw_principals (mem_view (w_store ex_left_world)) ''p1'' = Some ex_left_user" "p_Type ex_left_user = PrincipalTypeUser"
    "p_CasdoorUserID ex_left_user = ''u1''" "p_TenantID ex_left_user \<in> tm_TenantID ` set (cds_mappings ex_directory)"
    by (simp_all add: ex_left_world_def ex_left_user_def ex_store_def mem_view_def ex_rows PrincipalTypeUser_def ex_directory_def)
  have active: "p_Status ex_left_user = ''active''" by (simp add: ex_left_user_def ex_rows)
  have "casdoor_SyncUser (ex_answer None n) ex_directory ''u1'' = Inr []" for n
    using ex_directory_sync [of n False] by (simp add: ex_directory_def)
  with reconcile_revokes_departed [OF ok ex_directory_new b d res p(1,2) _ p(4)] p show ?thesis
    by (auto simp: active)
qed

end
