(* ===== verification/Go_HTTP.thy ===== *)
theory Go_HTTP
  imports Go_URL Go_Crypto Go_Time
begin

text \<open>
  What the handlers use of \<open>net/http\<close> and \<open>path\<close>: requests and answers, cookies and redirects. A request is what
  the server hands to the handler: the path of its URL, its raw query, its headers by canonical name, the cookies
  in the order of the request, and its body; an answer is what the handler wrote.
\<close>

section \<open>Paths\<close>

text \<open>\<open>path.Clean\<close>, by the elements of the path; \<open>stack\<close> are the elements of the result, the last one first.\<close>

fun clean_elements :: "bool \<Rightarrow> string list \<Rightarrow> string list \<Rightarrow> string list" where
  "clean_elements rooted stack [] = rev stack"
| "clean_elements rooted stack (e # es) =
    (if e = [] \<or> e = ''.'' then clean_elements rooted stack es
     else if e = ''..'' then
       (case stack of
          [] \<Rightarrow> clean_elements rooted (if rooted then [] else [e]) es
        | parent # rest \<Rightarrow> clean_elements rooted (if parent = ''..'' then e # stack else rest) es)
     else clean_elements rooted (e # stack) es)"

definition path_Clean :: "string \<Rightarrow> string" where
  "path_Clean path =
    (let rooted = HasPrefix path ''/'';
         out = (if rooted then ''/'' else []) @ strings_Join ''/'' (clean_elements rooted [] (SplitChar CHR ''/'' path))
     in if out = [] then ''.'' else out)"

text \<open>The directory of \<open>path.Split\<close>: up to and including the last slash.\<close>

definition path_dir :: "string \<Rightarrow> string" where
  "path_dir path = rev (dropWhile (\<lambda>c. c \<noteq> CHR ''/'') (rev path))"

lemma clean_elements_set: "set (clean_elements rooted stack es) \<subseteq> set stack \<union> (set es - {[]})"
  by (induction rooted stack es rule: clean_elements.induct) (auto split: if_splits list.splits, (metis list.set_intros(2))?)

lemma set_SplitChar: "e \<in> set (SplitChar sep s) \<Longrightarrow> sep \<notin> set e \<and> set e \<subseteq> set s"
  by (induction s arbitrary: e) (fastforce split: list.splits if_splits)+

text \<open>A rooted path stays rooted, and its first element is not empty.\<close>

lemma path_Clean_rooted:
  assumes "HasPrefix path ''/''"
  shows "\<exists>t. path_Clean path = CHR ''/'' # t \<and> (\<forall>c. take 1 t = [c] \<longrightarrow> c \<noteq> CHR ''/'' \<and> c \<in> set path)"
proof -
  let ?es = "clean_elements True [] (SplitChar CHR ''/'' path)"
  have es: "CHR ''/'' \<notin> set e" "set e \<subseteq> set path" "e \<noteq> []" if "e \<in> set ?es" for e
    using clean_elements_set [of True "[]" "SplitChar CHR ''/'' path"] that by (auto dest: set_SplitChar)
  have "c \<noteq> CHR ''/'' \<and> c \<in> set path" if "take 1 (strings_Join ''/'' ?es) = [c]" for c
  proof (cases ?es)
    case Nil
    with that show ?thesis by simp
  next
    case (Cons e rest)
    with es obtain d e' where "e = d # e'" by (cases e) auto
    moreover from this have "take 1 (strings_Join ''/'' ?es) = [d]" using Cons by (cases rest) auto
    ultimately show ?thesis using that es [of e] Cons by auto
  qed
  then show ?thesis using assms by (auto simp: path_Clean_def Let_def)
qed

section \<open>Requests and answers\<close>

record Request =
  req_Method :: string
  req_Path :: string
  req_RawQuery :: string
  req_Header :: "string \<Rightarrow> string"
  req_Cookies :: "(string \<times> string) list"
  req_TLS :: bool
  req_Body :: string

datatype SameSite = SameSiteDefaultMode | SameSiteLaxMode

record Cookie =
  cookie_Name :: string
  cookie_Value :: string
  cookie_Path :: string
  cookie_Expires :: time
  cookie_MaxAge :: int
  cookie_HttpOnly :: bool
  cookie_Secure :: bool
  cookie_SameSite :: SameSite

text \<open>\<open>r.Cookie\<close>: the first cookie of the name; \<open>r.CookiesNamed\<close>: all of them.\<close>

definition req_Cookie :: "Request \<Rightarrow> string \<Rightarrow> string option" where
  "req_Cookie r name = map_of (req_Cookies r) name"

definition CookiesNamed :: "Request \<Rightarrow> string \<Rightarrow> string list" where
  "CookiesNamed r name = map snd (filter (\<lambda>c. fst c = name) (req_Cookies r))"

text \<open>An answer; \<open>resp_Body\<close> is the value that is encoded as JSON, or the text of a redirect.\<close>

record 'b Response =
  resp_Status :: int
  resp_Header :: "string gomap"
  resp_Cookies :: "Cookie list"
  resp_Body :: "'b option"

definition no_response :: "'b Response" where
  "no_response = \<lparr>resp_Status = 0, resp_Header = [], resp_Cookies = [], resp_Body = None\<rparr>"

definition set_header :: "string \<Rightarrow> string \<Rightarrow> 'b Response \<Rightarrow> 'b Response" where
  "set_header k v resp = resp\<lparr>resp_Header := map_put k v (resp_Header resp)\<rparr>"

definition http_SetCookie :: "Cookie \<Rightarrow> 'b Response \<Rightarrow> 'b Response" where
  "http_SetCookie c resp = resp\<lparr>resp_Cookies := resp_Cookies resp @ [c]\<rparr>"

section \<open>Redirects\<close>

definition hexEscapeNonASCII :: "string \<Rightarrow> string" where
  "hexEscapeNonASCII s = concat (map (\<lambda>c. if byte_val c \<ge> 128 then CHR ''%'' # hex_EncodeToString [c] else [c]) s)"

definition htmlEscape :: "string \<Rightarrow> string" where
  "htmlEscape s = concat (map (\<lambda>c.
     if c = CHR ''&'' then ''&amp;'' else if c = CHR ''<'' then ''&lt;'' else if c = CHR ''>'' then ''&gt;''
     else if c = CHR 0x22 then ''&#34;'' else if c = CHR 0x27 then ''&#39;'' else [c]) s)"

text \<open>The address that \<open>http.Redirect\<close> writes, for a request of the path \<open>oldpath\<close>.\<close>

definition redirect_address :: "string \<Rightarrow> string \<Rightarrow> string" where
  "redirect_address oldpath0 raw =
    (case Parse raw of
       None \<Rightarrow> raw
     | Some u \<Rightarrow>
       if url_Scheme u = [] \<and> url_Host u = [] then
         let oldpath = (if oldpath0 = [] then ''/'' else oldpath0);
             url = (if HasPrefix raw ''/'' then raw else path_dir oldpath @ raw);
             query = dropWhile (\<lambda>c. c \<noteq> CHR ''?'') url;
             url = takeWhile (\<lambda>c. c \<noteq> CHR ''?'') url;
             cleaned = path_Clean url;
             cleaned = (if HasSuffix url ''/'' \<and> \<not> HasSuffix cleaned ''/'' then cleaned @ ''/'' else cleaned)
         in cleaned @ query
       else raw)"

text \<open>The body is written for \<open>GET\<close> only, and only if no content type was set before; \<open>text\<close> makes it.\<close>

definition http_Redirect :: "(string \<Rightarrow> 'b) \<Rightarrow> Request \<Rightarrow> string \<Rightarrow> int \<Rightarrow> string \<Rightarrow> 'b Response \<Rightarrow> 'b Response" where
  "http_Redirect text r url code statusText resp =
    (let address = redirect_address (req_Path r) url;
         hadCT = map_of (resp_Header resp) ''Content-Type'' \<noteq> None;
         resp = set_header ''Location'' (hexEscapeNonASCII address) resp;
         resp = (if \<not> hadCT \<and> (req_Method r = ''GET'' \<or> req_Method r = ''HEAD'')
                 then set_header ''Content-Type'' ''text/html; charset=utf-8'' resp else resp);
         resp = resp\<lparr>resp_Status := code\<rparr>
     in if \<not> hadCT \<and> req_Method r = ''GET''
        then resp\<lparr>resp_Body := Some (text (''<a href='' @ [CHR 0x22] @ htmlEscape address @ [CHR 0x22, CHR ''>''] @ statusText
               @ ''</a>.'' @ [CHR 0x0A, CHR 0x0A]))\<rparr>
        else resp)"

text \<open>
  A local address stays local: what a browser is sent to starts with exactly one slash, and neither a second
  slash nor a backslash follows it, so that it cannot name another host.
\<close>

definition local_address :: "string \<Rightarrow> bool" where
  "local_address a \<longleftrightarrow> (\<exists>t. a = CHR ''/'' # t \<and> (\<forall>c. take 1 t = [c] \<longrightarrow> c \<noteq> CHR ''/'' \<and> c \<noteq> CHR 0x5C))"

lemma redirect_address_local:
  assumes "Parse raw = Some u" "url_Scheme u = []" "url_Host u = []" "HasPrefix raw ''/''" "CHR 0x5C \<notin> set raw"
  shows "local_address (redirect_address oldpath raw)"
proof -
  let ?url = "takeWhile (\<lambda>c. c \<noteq> CHR ''?'') raw" and ?query = "dropWhile (\<lambda>c. c \<noteq> CHR ''?'') raw"
  have p: "HasPrefix ?url ''/''" using assms(4) by (auto simp: HasPrefix_iff)
  obtain t where t: "path_Clean ?url = CHR ''/'' # t" "\<And>c. take 1 t = [c] \<Longrightarrow> c \<noteq> CHR ''/'' \<and> c \<in> set ?url"
    using path_Clean_rooted [OF p] by blast
  have q: "c = CHR ''?''" if "take 1 ?query = [c]" for c
    using that hd_dropWhile [of "\<lambda>c. c \<noteq> CHR ''?''" raw] by (cases ?query) auto
  have url: "c \<noteq> CHR 0x5C" if "c \<in> set ?url" for c
    using that assms(5) by (auto dest: set_takeWhileD)
  have slash: "HasSuffix (path_Clean ?url) ''/''" if "t = []" using that t(1) by (simp add: HasSuffix_def)
  define x where "x = (if HasSuffix ?url ''/'' \<and> \<not> HasSuffix (path_Clean ?url) ''/'' then ''/'' else [])"
  have e: "redirect_address oldpath raw = CHR ''/'' # t @ x @ ?query"
    using assms(1-4) t(1) by (simp add: redirect_address_def Let_def x_def)
  have "c \<noteq> CHR ''/'' \<and> c \<noteq> CHR 0x5C" if c: "take 1 (t @ x @ ?query) = [c]" for c
  proof (cases t)
    case Nil
    with slash have "x = []" by (simp add: x_def)
    with Nil c have "take 1 ?query = [c]" by simp
    then have "c = CHR ''?''" by (rule q)
    then show ?thesis by simp
  next
    case (Cons d t')
    with c t(2) [of d] url show ?thesis by auto
  qed
  then show ?thesis by (auto simp: local_address_def e)
qed

lemma hexEscape_local:
  assumes "local_address a"
  shows "local_address (hexEscapeNonASCII a)"
proof -
  obtain t where t: "a = CHR ''/'' # t" "\<And>c. take 1 t = [c] \<Longrightarrow> c \<noteq> CHR ''/'' \<and> c \<noteq> CHR 0x5C"
    using assms by (auto simp: local_address_def)
  have "byte_val CHR ''/'' = 47" by code_simp
  then have "hexEscapeNonASCII a = CHR ''/'' # hexEscapeNonASCII t" by (simp add: t hexEscapeNonASCII_def)
  moreover have "c \<noteq> CHR ''/'' \<and> c \<noteq> CHR 0x5C" if "take 1 (hexEscapeNonASCII t) = [c]" for c
    using that t(2) by (cases t) (auto simp: hexEscapeNonASCII_def split: if_splits)
  ultimately show ?thesis by (auto simp: local_address_def)
qed

end
