(* ===== verification/Warden_HTTP.thy ===== *)
theory Warden_HTTP
  imports Warden_Login Warden_Credentials Go_HTTP
begin

text \<open>
  The HTTP interface of the service: \<open>src/warden/http.go\<close>. A request is handled as one operation on the service
  state that ends in an answer; \<open>json.Decoder\<close> and \<open>time.Parse\<close> are a record of functions, and an answer holds
  the value that is encoded.
\<close>

section \<open>Bodies\<close>

record SessionInfo =
  sinf_valid :: bool
  sinf_session_id :: string
  sinf_tenant_id :: string
  sinf_principal :: Principal
  sinf_tenant :: Tenant
  sinf_roles :: "string list"
  sinf_permissions :: "string list"
  sinf_policy_version :: string
  sinf_expires_at :: time

datatype http_body =
    BodyError string string
  | BodyOk
  | BodyStartedLogin StartedOIDCLogin
  | BodyStartedDevice StartedDeviceAuth
  | BodyDeviceToken DeviceTokenResult
  | BodyKeys "APIKeySummary list"
  | BodyIdentity IdentityContext_t
  | BodyCreatedKey CreatedAPIKey
  | BodyAccounts "ServiceAccountSummary list"
  | BodyCreatedAccount CreatedServiceAccountToken
  | BodySession SessionInfo
  | BodyJWT InternalJWTResult
  | BodyToken TokenValidationResult
  | BodyText string

type_synonym http_response = "http_body Response"

type_synonym 's handler = "Request \<Rightarrow> ('s World, http_response) op"

text \<open>A decoder answers the text of its error, or the fields of the body.\<close>

type_synonym 'a decoder = "string \<Rightarrow> string + 'a"

record Decoders =
  dec_login :: "string decoder"
  dec_callback :: "(string \<times> string) decoder"
  dec_approve :: "string decoder"
  dec_device :: "string decoder"
  dec_tenant :: "(string \<times> string) decoder"
  dec_team :: "string decoder"
  dec_key :: "(string \<times> string list \<times> string) decoder"
  dec_session :: "string decoder"
  dec_jwt :: "InternalJWTRequest decoder"
  dec_token :: "string decoder"
  dec_delegate :: "DelegateAgentRequest decoder"
  dec_audit :: "RecordAuditEventRequest decoder"
  dec_time :: "string \<Rightarrow> time option"

record HTTPHandler =
  hh_service :: Service
  hh_internalAPIKey :: string

definition NewHTTPHandler :: "Service \<Rightarrow> HTTPHandler" where
  "NewHTTPHandler service = \<lparr>hh_service = service, hh_internalAPIKey = []\<rparr>"

definition NewHTTPHandlerWithInternalAPIKey :: "Service \<Rightarrow> string \<Rightarrow> HTTPHandler" where
  "NewHTTPHandlerWithInternalAPIKey service internalAPIKey =
    \<lparr>hh_service = service, hh_internalAPIKey = TrimSpace internalAPIKey\<rparr>"

section \<open>Guards\<close>

definition SessionCookieName :: string where "SessionCookieName = ''warden_session''"
definition CSRFCookieName :: string where "CSRFCookieName = ''warden_csrf''"
definition InternalCallerTokenHeader :: string where "InternalCallerTokenHeader = ''X-Warden-Internal-Token''"

text \<open>\<open>subtle.ConstantTimeCompare\<close> on strings of the same length is equality.\<close>

definition validInternalCaller :: "HTTPHandler \<Rightarrow> Request \<Rightarrow> bool" where
  "validInternalCaller h r =
    (let expected = TrimSpace (hh_internalAPIKey h) in
     if expected = [] then True
     else let got = TrimSpace (req_Header r InternalCallerTokenHeader);
              auth = TrimSpace (req_Header r ''Authorization'');
              got = (if got = [] then (if HasPrefix auth ''Bearer '' then TrimSpace (TrimPrefix auth ''Bearer '') else got)
                     else got) in
       if got = [] \<or> length got \<noteq> length expected then False else got = expected)"

definition sessionIDFromRequest :: "Request \<Rightarrow> string res" where
  "sessionIDFromRequest r =
    (case req_Cookie r SessionCookieName of
       Some v \<Rightarrow> if TrimSpace v \<noteq> [] then Inr (TrimSpace v)
                 else let header = TrimSpace (req_Header r ''X-Warden-Session'') in
                   if header \<noteq> [] then Inr header else Inl ErrUnauthorized
     | None \<Rightarrow> let header = TrimSpace (req_Header r ''X-Warden-Session'') in
         if header \<noteq> [] then Inr header else Inl ErrUnauthorized)"

definition requiresCSRF :: "Request \<Rightarrow> bool" where
  "requiresCSRF r =
    (if req_Method r = ''GET'' \<or> req_Method r = ''HEAD'' \<or> req_Method r = ''OPTIONS'' then False
     else if HasPrefix (req_Path r) ''/internal/'' then False
     else if req_Path r = ''/auth/oidc/callback'' then False
     else if req_Path r = ''/auth/device/approve'' then True
     else HasPrefix (req_Path r) ''/iam/'' \<or> req_Path r = ''/auth/logout'')"

definition validCSRF :: "Request \<Rightarrow> bool" where
  "validCSRF r =
    (case req_Cookie r SessionCookieName of
       None \<Rightarrow> True
     | Some _ \<Rightarrow>
       (case req_Cookie r CSRFCookieName of
          None \<Rightarrow> False
        | Some cookie \<Rightarrow>
          let header = TrimSpace (req_Header r ''X-CSRF-Token'') in header \<noteq> [] \<and> header = cookie))"

text \<open>\<open>strings.EqualFold(s, "https")\<close>: beside the letters of either case, the long s folds to \<open>s\<close>.\<close>

definition fold_https :: "string \<Rightarrow> bool" where
  "fold_https s \<longleftrightarrow> ToLower s = ''https'' \<or> (length s = 6 \<and> ToLower (take 4 s) = ''http'' \<and> drop 4 s = [CHR 0xC5, CHR 0xBF])"

definition secureCookie :: "Request \<Rightarrow> bool" where
  "secureCookie r \<longleftrightarrow> req_TLS r \<or> fold_https (TrimSpace (req_Header r ''X-Forwarded-Proto''))"

definition https_url :: "string \<Rightarrow> bool" where
  "https_url raw = (case Parse raw of None \<Rightarrow> False | Some u \<Rightarrow> url_Scheme u = ''https'')"

definition oidcSecureCookie :: "HTTPHandler \<Rightarrow> Request \<Rightarrow> bool" where
  "oidcSecureCookie h r =
    (if cfg_OIDCRedirectURL (svc_cfg (hh_service h)) \<noteq> [] then https_url (cfg_OIDCRedirectURL (svc_cfg (hh_service h)))
     else case svc_oidc (hh_service h) of
       Some v \<Rightarrow> if ov_RedirectURL v \<noteq> [] then https_url (ov_RedirectURL v) else secureCookie r
     | None \<Rightarrow> secureCookie r)"

definition oidcCookieName :: "HTTPHandler \<Rightarrow> string \<Rightarrow> Request \<Rightarrow> string" where
  "oidcCookieName h state r =
    (let hash = sha256_Sum256 state;
         prefix = (if oidcSecureCookie h r then ''__Host-'' @ ''warden_oidc_'' else ''warden_oidc_'')
     in prefix @ hex_EncodeToString hash)"

section \<open>Answers\<close>

definition writeJSON :: "int \<Rightarrow> http_body \<Rightarrow> http_response \<Rightarrow> http_response" where
  "writeJSON status body w =
    (set_header ''Content-Type'' ''application/json'' w)\<lparr>resp_Status := status, resp_Body := Some body\<rparr>"

definition writeJSONError :: "int \<Rightarrow> string \<Rightarrow> string \<Rightarrow> http_response \<Rightarrow> http_response" where
  "writeJSONError status code message = writeJSON status (BodyError code message)"

definition writeServiceError :: "error \<Rightarrow> http_response \<Rightarrow> http_response" where
  "writeServiceError err =
    (if errors_Is err ErrOIDCUnavailable \<or> errors_Is err ErrDirectoryUnavailable
     then writeJSONError 503 ''identity_unavailable'' ''identity service unavailable''
     else if errors_Is err ErrUnauthorized \<or> errors_Is err ErrDisabled \<or> errors_Is err ErrOIDCInvalidToken \<or> errors_Is err ErrOIDCNoKey
     then writeJSONError 401 ''unauthorized'' ''unauthorized''
     else if errors_Is err ErrForbidden \<or> errors_Is err ErrInsufficientRole
     then writeJSONError 403 ''forbidden'' ''forbidden''
     else if errors_Is err ErrAuthorizationPending
     then writeJSONError 202 ''authorization_pending'' ''authorization pending''
     else if errors_Is err ErrInvalidInput
     then writeJSONError 400 ''invalid_request'' ''invalid request''
     else writeJSONError 500 ''internal_error'' ''internal error'')"

text \<open>The idioms of the handlers: \<open>if err != nil { writeServiceError(w, err); return }\<close> and the like.\<close>

definition or_service_error :: "('s World, 'a) op \<Rightarrow> http_response \<Rightarrow> ('a \<Rightarrow> ('s World, http_response) op) \<Rightarrow> ('s World, http_response) op" where
  "or_service_error m w k = on_err m (\<lambda>err. ret (writeServiceError err w)) k"

definition with_session :: "Request \<Rightarrow> http_response \<Rightarrow> (string \<Rightarrow> ('s World, http_response) op) \<Rightarrow> ('s World, http_response) op" where
  "with_session r w k =
    (case sessionIDFromRequest r of Inl err \<Rightarrow> ret (writeServiceError err w) | Inr sessionID \<Rightarrow> k sessionID)"

text \<open>\<open>decodeJSON\<close> reads at most a mebibyte.\<close>

definition decodeJSON :: "'a decoder \<Rightarrow> Request \<Rightarrow> string + 'a" where
  "decodeJSON dec r = dec (take 1048576 (req_Body r))"

definition with_body :: "'a decoder \<Rightarrow> Request \<Rightarrow> http_response \<Rightarrow> ('a \<Rightarrow> ('s World, http_response) op) \<Rightarrow> ('s World, http_response) op" where
  "with_body dec r w k =
    (case decodeJSON dec r of Inl message \<Rightarrow> ret (writeJSONError 400 ''invalid_request'' message w) | Inr body \<Rightarrow> k body)"

section \<open>Login\<close>

definition no_store :: http_response where
  "no_store = set_header ''Referrer-Policy'' ''no-referrer'' (set_header ''Cache-Control'' ''no-store'' no_response)"

definition handleOIDCStart :: "'s Store \<Rightarrow> HTTPHandler \<Rightarrow> Decoders \<Rightarrow> 's handler" where
  "handleOIDCStart st h dec r =
    (let svc = hh_service h; w = no_store; query = parseQuery (req_RawQuery r);
         redirectURL = TrimSpace (query_Get query ''redirect_url'');
         value = query_Get query ''return_to'';
         redirectURL = (if value \<noteq> [] then value else redirectURL) in
     case (if req_Method r = ''POST'' then decodeJSON (dec_login dec) r else Inr redirectURL) of
       Inl message \<Rightarrow> ret (writeJSONError 400 ''invalid_request'' message w)
     | Inr redirectURL \<Rightarrow>
       bnd (randomString svc) (\<lambda>b1.
       bnd (randomString svc) (\<lambda>b2.
         let binding = b1 @ b2 in
         or_service_error (StartOIDCLogin st svc
             \<lparr>sl_BrowserBinding = binding, sl_RedirectURL = redirectURL, sl_Now = zero_time\<rparr>) w (\<lambda>started.
           let w = http_SetCookie \<lparr>cookie_Name = oidcCookieName h (slo_State started) r, cookie_Value = binding,
                 cookie_Path = ''/'', cookie_Expires = zero_time, cookie_MaxAge = slo_ExpiresIn started, cookie_HttpOnly = True,
                 cookie_Secure = oidcSecureCookie h r, cookie_SameSite = SameSiteLaxMode\<rparr> w in
           if req_Method r = ''GET'' \<and> query_Has query ''return_to''
           then ret (http_Redirect BodyText r (slo_AuthorizationURL started) 303 ''See Other'' w)
           else ret (writeJSON 200 (BodyStartedLogin started) w)))))"

definition ended_cookie :: "string \<Rightarrow> bool \<Rightarrow> Cookie" where
  "ended_cookie name secure = \<lparr>cookie_Name = name, cookie_Value = [], cookie_Path = ''/'', cookie_Expires = zero_time,
     cookie_MaxAge = -1, cookie_HttpOnly = True, cookie_Secure = secure, cookie_SameSite = SameSiteLaxMode\<rparr>"

definition session_cookie :: "string \<Rightarrow> string \<Rightarrow> time \<Rightarrow> bool \<Rightarrow> bool \<Rightarrow> Cookie" where
  "session_cookie name value expires httpOnly secure = \<lparr>cookie_Name = name, cookie_Value = value, cookie_Path = ''/'',
     cookie_Expires = expires, cookie_MaxAge = 0, cookie_HttpOnly = httpOnly, cookie_Secure = secure,
     cookie_SameSite = SameSiteLaxMode\<rparr>"

text \<open>The code and the state, from the query or else from the body of a \<open>POST\<close>.\<close>

definition callback_parameters :: "Decoders \<Rightarrow> Request \<Rightarrow> string + string \<times> string" where
  "callback_parameters dec r =
    (let query = parseQuery (req_RawQuery r);
         code = TrimSpace (query_Get query ''code'');
         state = TrimSpace (query_Get query ''state'') in
     if req_Method r = ''POST'' \<and> (code = [] \<or> state = []) then
       (case decodeJSON (dec_callback dec) r of
          Inl message \<Rightarrow> Inl message
        | Inr (bodyCode, bodyState) \<Rightarrow>
          Inr (if code = [] then bodyCode else code, if state = [] then bodyState else state))
     else Inr (code, state))"

text \<open>The second half of the callback: the login itself, for the one browser secret that came with it.\<close>

definition callback_login :: "'s Store \<Rightarrow> HTTPHandler \<Rightarrow> string \<Rightarrow> string \<Rightarrow> string \<Rightarrow> Request \<Rightarrow> http_response
    \<Rightarrow> ('s World, http_response) op" where
  "callback_login st h code state binding r w =
    (let svc = hh_service h; secure = oidcSecureCookie h r;
         w = http_SetCookie (ended_cookie (oidcCookieName h state r) secure) w in
     or_service_error (CompleteBoundOIDCCallback st svc code state binding zero_time) w (\<lambda>(session, identity, redirectURL).
       let w = http_SetCookie (session_cookie SessionCookieName (sess_ID session) (sess_ExpiresAt session) True secure) w in
       bnd (randomString svc) (\<lambda>csrf.
         let w = http_SetCookie (session_cookie CSRFCookieName csrf (sess_ExpiresAt session) False secure) w in
         if TrimSpace redirectURL \<noteq> [] then ret (http_Redirect BodyText r redirectURL 303 ''See Other'' w)
         else ret (writeJSON 200 (BodyIdentity identity) w))))"

definition handleOIDCCallback :: "'s Store \<Rightarrow> HTTPHandler \<Rightarrow> Decoders \<Rightarrow> 's handler" where
  "handleOIDCCallback st h dec r =
    (let svc = hh_service h; w = no_store; query = parseQuery (req_RawQuery r) in
     if \<exists>key \<in> set [''state'', ''code'', ''iss'']. 1 < length (query_values query key)
     then ret (writeServiceError ErrUnauthorized w)
     else case callback_parameters dec r of
       Inl message \<Rightarrow> ret (writeJSONError 400 ''invalid_request'' message w)
     | Inr (code, state) \<Rightarrow>
       (case CookiesNamed r (oidcCookieName h state r) of
          [binding] \<Rightarrow>
          if state = [] \<or> binding = [] then ret (writeServiceError ErrUnauthorized w)
          else or_service_error (resolveOIDC svc) w (\<lambda>(resolved, _). case resolved of
            None \<Rightarrow> ret (writeServiceError ErrUnauthorized w)
          | Some v \<Rightarrow>
            if (ov_RequireResponseIssuer v \<or> query_Has query ''iss'') \<and> query_Get query ''iss'' \<noteq> ov_Issuer v
            then ret (writeServiceError ErrUnauthorized w)
            else callback_login st h code state binding r w)
        | _ \<Rightarrow> ret (writeServiceError ErrUnauthorized w)))"

definition handleLogout :: "'s Store \<Rightarrow> 's handler" where
  "handleLogout st r =
    (case sessionIDFromRequest r of
       Inl _ \<Rightarrow> ret (writeJSON 200 BodyOk (http_SetCookie (ended_cookie SessionCookieName (secureCookie r)) no_response))
     | Inr sessionID \<Rightarrow>
       bnd (ignore_err (on_store (store_DeleteSession st sessionID))) (\<lambda>_.
       ret (writeJSON 200 BodyOk (http_SetCookie (ended_cookie SessionCookieName (secureCookie r)) no_response))))"

section \<open>Devices\<close>

definition handleDeviceCode :: "'s Store \<Rightarrow> HTTPHandler \<Rightarrow> 's handler" where
  "handleDeviceCode st h r =
    or_service_error (StartDeviceAuth st (hh_service h) \<lparr>sd_Now = zero_time\<rparr>) no_response (\<lambda>started.
    ret (writeJSON 200 (BodyStartedDevice started) no_response))"

definition handleDeviceApprove :: "'s Store \<Rightarrow> HTTPHandler \<Rightarrow> Decoders \<Rightarrow> 's handler" where
  "handleDeviceApprove st h dec r =
    with_session r no_response (\<lambda>sessionID.
    with_body (dec_approve dec) r no_response (\<lambda>userCode.
    or_service_error (ApproveDeviceAuth st (hh_service h) \<lparr>ad_SessionID = sessionID, ad_UserCode = userCode, ad_Now = zero_time\<rparr>)
      no_response (\<lambda>_.
    ret (writeJSON 200 BodyOk no_response))))"

definition handleDeviceToken :: "'s Store \<Rightarrow> HTTPHandler \<Rightarrow> Decoders \<Rightarrow> 's handler" where
  "handleDeviceToken st h dec r =
    with_body (dec_device dec) r no_response (\<lambda>deviceCode.
    or_service_error (ExchangeDeviceToken st (hh_service h) \<lparr>dt_DeviceCode = deviceCode, dt_Now = zero_time\<rparr>) no_response (\<lambda>result.
    ret (writeJSON 200 (BodyDeviceToken result) no_response)))"

section \<open>Identity\<close>

definition handleIdentityContext :: "'s Store \<Rightarrow> HTTPHandler \<Rightarrow> 's handler" where
  "handleIdentityContext st h r =
    with_session r no_response (\<lambda>sessionID.
    or_service_error (IdentityContext st (hh_service h) sessionID zero_time) no_response (\<lambda>identity.
    ret (writeJSON 200 (BodyIdentity identity) no_response)))"

definition handleSwitchTenant :: "'s Store \<Rightarrow> HTTPHandler \<Rightarrow> Decoders \<Rightarrow> 's handler" where
  "handleSwitchTenant st h dec r =
    with_session r no_response (\<lambda>sessionID.
    with_body (dec_tenant dec) r no_response (\<lambda>(tenantID, teamID).
    or_service_error (SwitchTenant st (hh_service h)
        \<lparr>swt_SessionID = sessionID, swt_TenantID = tenantID, swt_TeamID = teamID, swt_Now = zero_time\<rparr>) no_response (\<lambda>identity.
    ret (writeJSON 200 (BodyIdentity identity) no_response))))"

definition handleSwitchTeam :: "'s Store \<Rightarrow> HTTPHandler \<Rightarrow> Decoders \<Rightarrow> 's handler" where
  "handleSwitchTeam st h dec r =
    with_session r no_response (\<lambda>sessionID.
    with_body (dec_team dec) r no_response (\<lambda>teamID.
    or_service_error (SwitchTeam st (hh_service h) \<lparr>swm_SessionID = sessionID, swm_TeamID = teamID, swm_Now = zero_time\<rparr>)
      no_response (\<lambda>identity.
    ret (writeJSON 200 (BodyIdentity identity) no_response))))"

section \<open>Keys and accounts\<close>

definition handleListAPIKeys :: "'s Store \<Rightarrow> HTTPHandler \<Rightarrow> 's handler" where
  "handleListAPIKeys st h r =
    with_session r no_response (\<lambda>sessionID.
    or_service_error (ListAPIKeys st (hh_service h) sessionID zero_time) no_response (\<lambda>keys.
    ret (writeJSON 200 (BodyKeys keys) no_response)))"

text \<open>The expiry of a new key or account: none, or a time that parses.\<close>

definition parse_expiry :: "Decoders \<Rightarrow> string \<Rightarrow> time option" where
  "parse_expiry dec raw = (if TrimSpace raw \<noteq> [] then dec_time dec raw else Some zero_time)"

definition handleCreateAPIKey :: "'s Store \<Rightarrow> HTTPHandler \<Rightarrow> Decoders \<Rightarrow> 's handler" where
  "handleCreateAPIKey st h dec r =
    with_session r no_response (\<lambda>sessionID.
    with_body (dec_key dec) r no_response (\<lambda>(name, scopes, rawExpiry).
    case parse_expiry dec rawExpiry of
      None \<Rightarrow> ret (writeJSONError 400 ''invalid_request'' ''expires_at must be RFC3339'' no_response)
    | Some expiresAt \<Rightarrow>
      or_service_error (CreateAPIKey st (hh_service h)
          \<lparr>ck_SessionID = sessionID, ck_Name = name, ck_Scopes = scopes, ck_ExpiresAt = expiresAt, ck_Now = zero_time\<rparr>)
        no_response (\<lambda>created.
      ret (writeJSON 201 (BodyCreatedKey created) no_response))))"

definition handleRevokeAPIKey :: "'s Store \<Rightarrow> HTTPHandler \<Rightarrow> 's handler" where
  "handleRevokeAPIKey st h r =
    with_session r no_response (\<lambda>sessionID.
      let keyID = TrimSpace (TrimPrefix (req_Path r) ''/iam/api-keys/'') in
      or_service_error (RevokeAPIKey st (hh_service h) sessionID keyID zero_time) no_response (\<lambda>_.
      ret (writeJSON 200 BodyOk no_response)))"

definition handleListServiceAccounts :: "'s Store \<Rightarrow> HTTPHandler \<Rightarrow> 's handler" where
  "handleListServiceAccounts st h r =
    with_session r no_response (\<lambda>sessionID.
    or_service_error (ListServiceAccounts st (hh_service h) sessionID zero_time) no_response (\<lambda>accounts.
    ret (writeJSON 200 (BodyAccounts accounts) no_response)))"

definition handleCreateServiceAccount :: "'s Store \<Rightarrow> HTTPHandler \<Rightarrow> Decoders \<Rightarrow> 's handler" where
  "handleCreateServiceAccount st h dec r =
    with_session r no_response (\<lambda>sessionID.
    with_body (dec_key dec) r no_response (\<lambda>(name, scopes, rawExpiry).
    case parse_expiry dec rawExpiry of
      None \<Rightarrow> ret (writeJSONError 400 ''invalid_request'' ''expires_at must be RFC3339'' no_response)
    | Some expiresAt \<Rightarrow>
      or_service_error (CreateServiceAccountToken st (hh_service h)
          \<lparr>cs_SessionID = sessionID, cs_Name = name, cs_Scopes = scopes, cs_ExpiresAt = expiresAt, cs_Now = zero_time\<rparr>)
        no_response (\<lambda>created.
      ret (writeJSON 201 (BodyCreatedAccount created) no_response))))"

definition handleDisableServiceAccount :: "'s Store \<Rightarrow> HTTPHandler \<Rightarrow> 's handler" where
  "handleDisableServiceAccount st h r =
    with_session r no_response (\<lambda>sessionID.
      let accountID = TrimSpace (TrimPrefix (req_Path r) ''/iam/service-accounts/'') in
      or_service_error (DisableServiceAccount st (hh_service h) sessionID accountID zero_time) no_response (\<lambda>_.
      ret (writeJSON 200 BodyOk no_response)))"

section \<open>Other services\<close>

definition handleValidateSession :: "'s Store \<Rightarrow> HTTPHandler \<Rightarrow> Decoders \<Rightarrow> 's handler" where
  "handleValidateSession st h dec r =
    with_body (dec_session dec) r no_response (\<lambda>sessionID.
    or_service_error (ValidateSession st (hh_service h) sessionID zero_time) no_response (\<lambda>(session, prin).
    or_service_error (on_store (store_GetTenant st (sess_TenantID session))) no_response (\<lambda>tenant.
    bnd (scopesForRoles (p_Roles prin)) (\<lambda>permissions.
    bnd (get_st w_policyVersion) (\<lambda>version.
      let roles = concat (map (\<lambda>role. case NormalizeRoleKey (role_Key role) of (key, ok) \<Rightarrow> if ok then [key] else []) (p_Roles prin)) in
      ret (writeJSON 200 (BodySession \<lparr>sinf_valid = True, sinf_session_id = sess_ID session,
             sinf_tenant_id = sess_TenantID session, sinf_principal = prin, sinf_tenant = tenant, sinf_roles = roles,
             sinf_permissions = permissions, sinf_policy_version = version, sinf_expires_at = sess_ExpiresAt session\<rparr>)
           no_response))))))"

definition handleInternalJWT :: "'s Store \<Rightarrow> HTTPHandler \<Rightarrow> Decoders \<Rightarrow> 's handler" where
  "handleInternalJWT st h dec r =
    with_body (dec_jwt dec) r no_response (\<lambda>body.
    or_service_error (SignInternalJWT st (hh_service h) body) no_response (\<lambda>result.
    ret (writeJSON 200 (BodyJWT result) no_response)))"

definition handleValidateToken :: "'s Store \<Rightarrow> HTTPHandler \<Rightarrow> Decoders \<Rightarrow> 's handler" where
  "handleValidateToken st h dec r =
    with_body (dec_token dec) r no_response (\<lambda>apiKey.
    or_service_error (ValidateToken st (hh_service h) apiKey zero_time) no_response (\<lambda>result.
    ret (writeJSON 200 (BodyToken result) no_response)))"

definition handleDelegateAgent :: "'s Store \<Rightarrow> HTTPHandler \<Rightarrow> Decoders \<Rightarrow> 's handler" where
  "handleDelegateAgent st h dec r =
    with_body (dec_delegate dec) r no_response (\<lambda>body.
    or_service_error (DelegateAgent st (hh_service h) body) no_response (\<lambda>result.
    ret (writeJSON 200 (BodyJWT result) no_response)))"

definition handleRecordAuditEvent :: "'s Store \<Rightarrow> HTTPHandler \<Rightarrow> Decoders \<Rightarrow> 's handler" where
  "handleRecordAuditEvent st h dec r =
    with_body (dec_audit dec) r no_response (\<lambda>body.
    or_service_error (RecordAuditEvent st (hh_service h) body) no_response (\<lambda>_.
    ret (writeJSON 201 BodyOk no_response)))"

definition handleDirectorySync :: "'s Store \<Rightarrow> HTTPHandler \<Rightarrow> 's handler" where
  "handleDirectorySync st h r =
    or_service_error (ReconcileDirectory st (hh_service h)) no_response (\<lambda>_.
    ret (writeJSON 200 BodyOk no_response))"

section \<open>Dispatch\<close>

definition route :: "'s Store \<Rightarrow> HTTPHandler \<Rightarrow> Decoders \<Rightarrow> 's handler" where
  "route st h dec r =
    (let method = req_Method r; path = req_Path r; get_or_post = (method = ''GET'' \<or> method = ''POST'') in
     if get_or_post \<and> path = ''/auth/oidc/callback'' then handleOIDCCallback st h dec r
     else if get_or_post \<and> path = ''/auth/oidc/start'' then handleOIDCStart st h dec r
     else if method = ''POST'' \<and> path = ''/auth/device/code'' then handleDeviceCode st h r
     else if method = ''POST'' \<and> path = ''/auth/device/approve'' then handleDeviceApprove st h dec r
     else if method = ''POST'' \<and> path = ''/auth/device/token'' then handleDeviceToken st h dec r
     else if method = ''GET'' \<and> path = ''/iam/context'' then handleIdentityContext st h r
     else if method = ''GET'' \<and> path = ''/iam/api-keys'' then handleListAPIKeys st h r
     else if method = ''POST'' \<and> path = ''/iam/api-keys'' then handleCreateAPIKey st h dec r
     else if method = ''DELETE'' \<and> HasPrefix path ''/iam/api-keys/'' then handleRevokeAPIKey st h r
     else if method = ''GET'' \<and> path = ''/iam/service-accounts'' then handleListServiceAccounts st h r
     else if method = ''POST'' \<and> path = ''/iam/service-accounts'' then handleCreateServiceAccount st h dec r
     else if method = ''DELETE'' \<and> HasPrefix path ''/iam/service-accounts/'' then handleDisableServiceAccount st h r
     else if method = ''POST'' \<and> path = ''/iam/tenants/switch'' then handleSwitchTenant st h dec r
     else if method = ''POST'' \<and> path = ''/iam/teams/switch'' then handleSwitchTeam st h dec r
     else if method = ''POST'' \<and> path = ''/auth/logout'' then handleLogout st r
     else if method = ''POST'' \<and> path = ''/internal/session/validate'' then handleValidateSession st h dec r
     else if method = ''POST'' \<and> path = ''/internal/internal-jwts'' then handleInternalJWT st h dec r
     else if method = ''POST'' \<and> path = ''/internal/tokens/validate'' then handleValidateToken st h dec r
     else if method = ''POST'' \<and> path = ''/internal/agent/delegate'' then handleDelegateAgent st h dec r
     else if method = ''POST'' \<and> path = ''/internal/audit-events'' then handleRecordAuditEvent st h dec r
     else if get_or_post \<and> path = ''/internal/directory/sync'' then handleDirectorySync st h r
     else ret (writeJSONError 404 ''not_found'' ''not found'' no_response))"

definition ServeHTTP :: "'s Store \<Rightarrow> HTTPHandler \<Rightarrow> Decoders \<Rightarrow> 's handler" where
  "ServeHTTP st h dec r =
    (if HasPrefix (req_Path r) ''/internal/'' \<and> \<not> validInternalCaller h r
     then ret (writeJSONError 401 ''unauthorized'' ''unauthorized'' no_response)
     else if requiresCSRF r \<and> \<not> validCSRF r
     then ret (writeJSONError 403 ''csrf_rejected'' ''csrf rejected'' no_response)
     else route st h dec r)"

end
