(* ===== verification/Warden_HTTP_Facts.thy ===== *)
theory Warden_HTTP_Facts
  imports Warden_HTTP Warden_Login_Facts
begin

text \<open>
  The handlers as steps of the service, and what their guards let through.
\<close>

section \<open>Handlers are steps of the service\<close>

text \<open>What a request can do: calls of the service, and starts of a login.\<close>

inductive served_step :: "'s Store \<Rightarrow> Service \<Rightarrow> 's World \<Rightarrow> 's World \<Rightarrow> bool" for st svc where
  call: "service_call st svc w w' \<Longrightarrow> served_step st svc w w'"
| start: "served_step st svc w (snd (StartOIDCLogin st svc rl w))"

abbreviation served :: "'s Store \<Rightarrow> Service \<Rightarrow> 's World \<Rightarrow> 's World \<Rightarrow> bool" where
  "served st svc \<equiv> (served_step st svc)\<^sup>*\<^sup>*"

lemma served_relation: "reflp (served st svc)" "transp (served st svc)"
  by (simp_all add: reflp_def transp_def) (meson rtranclp_trans)

lemma served_service: "served st svc w w' \<Longrightarrow> (service_step st svc)\<^sup>*\<^sup>* w w'"
  by (induction rule: rtranclp_induct)
    (auto elim!: served_step.cases intro: rtranclp.rtrancl_into_rtrancl service_step.intros)

lemma served_call: "(\<And>w. service_call st svc w (snd (m w))) \<Longrightarrow> steps (served st svc) m"
  by (simp add: steps_def r_into_rtranclp served_step.call)

lemma served_start: "steps (served st svc) (StartOIDCLogin st svc rl)"
  by (simp add: steps_def r_into_rtranclp served_step.start)

lemma served_calls:
  "steps (served st svc) (StartDeviceAuth st svc rs)" "steps (served st svc) (ApproveDeviceAuth st svc rp)"
  "steps (served st svc) (ExchangeDeviceToken st svc rx)" "steps (served st svc) (IdentityContext st svc k now)"
  "steps (served st svc) (SwitchTenant st svc rt)" "steps (served st svc) (SwitchTeam st svc rm)"
  "steps (served st svc) (ListAPIKeys st svc k now)" "steps (served st svc) (CreateAPIKey st svc rk)"
  "steps (served st svc) (RevokeAPIKey st svc k kid now)" "steps (served st svc) (ListServiceAccounts st svc k now)"
  "steps (served st svc) (CreateServiceAccountToken st svc ra)" "steps (served st svc) (DisableServiceAccount st svc k aid now)"
  "steps (served st svc) (ValidateSession st svc k now)" "steps (served st svc) (SignInternalJWT st svc rj)"
  "steps (served st svc) (ValidateToken st svc token now)" "steps (served st svc) (DelegateAgent st svc rd)"
  "steps (served st svc) (RecordAuditEvent st svc re)" "steps (served st svc) (ReconcileDirectory st svc)"
  "steps (served st svc) (CompleteBoundOIDCCallback st svc code k b now)" "steps (served st svc) (resolveOIDC svc)"
  "steps (served st svc) (randomString svc)" "steps (served st svc) (on_store (store_DeleteSession st k))"
  "steps (served st svc) (on_store (store_GetTenant st tid))"
  by (rule served_call, rule service_call.intros)+

text \<open>\<open>answers R m\<close>: the operation ends in an answer, and relates the states by \<open>R\<close>.\<close>

definition answers :: "('w \<Rightarrow> 'w \<Rightarrow> bool) \<Rightarrow> ('w, 'a) op \<Rightarrow> bool" where
  "answers R m \<longleftrightarrow> (\<forall>w. R w (snd (m w)) \<and> (\<exists>a. fst (m w) = Inr a))"

lemma answers_ret: "reflp R \<Longrightarrow> answers R (ret a)"
  by (simp add: answers_def op_simps reflpD)

lemma answers_or_service_error:
  assumes "reflp R" and "transp R" and "steps R m" and "\<And>a. answers R (k a)"
  shows "answers R (or_service_error m resp k)"
proof -
  have k: "R w (snd (m w))" "\<And>a w. R w (snd (k a w)) \<and> (\<exists>b. fst (k a w) = Inr b)" for w
    using assms by (simp_all add: steps_def answers_def)
  then have "R w (snd (k a (snd (m w))))" for a w
    using transpD [OF assms(2), of w "snd (m w)"] by blast
  with k show ?thesis
    by (auto simp: answers_def or_service_error_def on_err_def op_simps split: sum.splits)
qed

lemma answers_bnd:
  assumes "transp R" and "steps R m" and "\<And>w. \<exists>a. fst (m w) = Inr a" and "\<And>a. answers R (k a)"
  shows "answers R (bnd m k)"
proof -
  have k: "R w (snd (m w))" "\<And>a w. R w (snd (k a w)) \<and> (\<exists>b. fst (k a w) = Inr b)" for w
    using assms by (simp_all add: steps_def answers_def)
  then have "R w (snd (k a (snd (m w))))" for a w
    using transpD [OF assms(1), of w "snd (m w)"] by blast
  moreover have "fst (m w) \<noteq> Inl e" for w e using assms(3) [of w] by auto
  ultimately show ?thesis
    using k by (auto simp: answers_def bnd_def split: sum.splits)
qed

lemma answers_cases:
  "\<lbrakk>c \<Longrightarrow> answers R m; \<not> c \<Longrightarrow> answers R m'\<rbrakk> \<Longrightarrow> answers R (if c then m else m')"
  "\<lbrakk>answers R m; \<And>x. answers R (f x)\<rbrakk> \<Longrightarrow> answers R (case r of None \<Rightarrow> m | Some x \<Rightarrow> f x)"
  "\<lbrakk>\<And>a b. answers R (g a b)\<rbrakk> \<Longrightarrow> answers R (case p of (a, b) \<Rightarrow> g a b)"
  "\<lbrakk>\<And>e. answers R (h e); \<And>a. answers R (k' a)\<rbrakk> \<Longrightarrow> answers R (case s of Inl e \<Rightarrow> h e | Inr a \<Rightarrow> k' a)"
  "\<lbrakk>answers R m; \<And>x xs. answers R (l x xs)\<rbrakk> \<Longrightarrow> answers R (case xss of [] \<Rightarrow> m | x # xs \<Rightarrow> l x xs)"
  by (auto split: option.splits prod.splits sum.splits list.splits)


lemma answers_requests:
  assumes "reflp R"
  shows "(\<And>sid. answers R (k sid)) \<Longrightarrow> answers R (with_session r resp k)"
    and "(\<And>body. answers R (k' body)) \<Longrightarrow> answers R (with_body dec r resp k')"
  using answers_ret [OF assms] by (auto simp: with_session_def with_body_def intro!: answers_cases)

lemma answers_pure:
  "reflp R \<Longrightarrow> transp R \<Longrightarrow> (\<And>a. answers R (k a)) \<Longrightarrow> answers R (bnd (get_st g) k)"
  "reflp R \<Longrightarrow> transp R \<Longrightarrow> (\<And>a. answers R (k' a)) \<Longrightarrow> answers R (bnd (scopesForRoles roles) k')"
  by (auto intro!: answers_bnd steps_intro simp: op_simps)

lemma answers_draw:
  "(\<And>a. answers (served st svc) (k a)) \<Longrightarrow> answers (served st svc) (bnd (randomString svc) k)"
  by (intro answers_bnd served_relation served_calls) (simp_all add: op_simps)

lemma answers_ignore:
  "(\<And>a. answers (served st svc) k) \<Longrightarrow> answers (served st svc) (bnd (ignore_err (on_store (store_DeleteSession st sid))) (\<lambda>_. k))"
  by (intro answers_bnd served_relation steps_ignore_err served_calls) (simp_all add: op_simps)

lemmas answers_rules = answers_cases answers_requests answers_ret answers_or_service_error answers_pure answers_draw
  answers_ignore served_relation served_calls served_start

lemma answers_handlers:
  "answers (served st (hh_service h)) (handleOIDCStart st h dec r)"
  "answers (served st (hh_service h)) (handleOIDCCallback st h dec r)"
  "answers (served st (hh_service h)) (handleLogout st r)"
  "answers (served st (hh_service h)) (handleDeviceCode st h r)"
  "answers (served st (hh_service h)) (handleDeviceApprove st h dec r)"
  "answers (served st (hh_service h)) (handleDeviceToken st h dec r)"
  "answers (served st (hh_service h)) (handleIdentityContext st h r)"
  "answers (served st (hh_service h)) (handleSwitchTenant st h dec r)"
  "answers (served st (hh_service h)) (handleSwitchTeam st h dec r)"
  "answers (served st (hh_service h)) (handleListAPIKeys st h r)"
  "answers (served st (hh_service h)) (handleCreateAPIKey st h dec r)"
  "answers (served st (hh_service h)) (handleRevokeAPIKey st h r)"
  "answers (served st (hh_service h)) (handleListServiceAccounts st h r)"
  "answers (served st (hh_service h)) (handleCreateServiceAccount st h dec r)"
  "answers (served st (hh_service h)) (handleDisableServiceAccount st h r)"
  "answers (served st (hh_service h)) (handleValidateSession st h dec r)"
  "answers (served st (hh_service h)) (handleInternalJWT st h dec r)"
  "answers (served st (hh_service h)) (handleValidateToken st h dec r)"
  "answers (served st (hh_service h)) (handleDelegateAgent st h dec r)"
  "answers (served st (hh_service h)) (handleRecordAuditEvent st h dec r)"
  "answers (served st (hh_service h)) (handleDirectorySync st h r)"
  unfolding handleOIDCStart_def handleOIDCCallback_def callback_login_def handleLogout_def handleDeviceCode_def handleDeviceApprove_def
    handleDeviceToken_def handleIdentityContext_def handleSwitchTenant_def handleSwitchTeam_def handleListAPIKeys_def
    handleCreateAPIKey_def handleRevokeAPIKey_def handleListServiceAccounts_def handleCreateServiceAccount_def
    handleDisableServiceAccount_def handleValidateSession_def handleInternalJWT_def handleValidateToken_def
    handleDelegateAgent_def handleRecordAuditEvent_def handleDirectorySync_def Let_def
  by (intro answers_rules)+

lemma ServeHTTP_answers: "answers (served st (hh_service h)) (ServeHTTP st h dec r)"
  unfolding ServeHTTP_def route_def Let_def
  by (intro answers_cases(1) answers_handlers answers_ret served_relation)

section \<open>What the answers hold\<close>

lemma answer_fields [simp]:
  "resp_Cookies no_response = []" "resp_Cookies (set_header k v resp) = resp_Cookies resp"
  "resp_Cookies (writeJSON status body w) = resp_Cookies w" "resp_Status (writeJSON status body w) = status"
  "resp_Cookies (writeJSONError status code msg w) = resp_Cookies w" "resp_Status (writeJSONError status code msg w) = status"
  "resp_Cookies (writeServiceError e w) = resp_Cookies w"
  "resp_Cookies (http_SetCookie c w) = resp_Cookies w @ [c]"
  "resp_Cookies (http_Redirect text r url n txt resp) = resp_Cookies resp" "resp_Cookies no_store = []"
  by (simp_all add: no_response_def set_header_def writeJSON_def writeJSONError_def writeServiceError_def http_SetCookie_def
      http_Redirect_def no_store_def Let_def)

definition location :: "'b Response \<Rightarrow> string option" where
  "location resp = map_of (resp_Header resp) ''Location''"

lemma location_fields [simp]:
  "location no_response = None" "k \<noteq> ''Location'' \<Longrightarrow> location (set_header k v resp) = location resp"
  "location (writeJSON status body w) = location w" "location (writeJSONError status code msg w) = location w"
  "location (writeServiceError e w) = location w" "location (http_SetCookie c w) = location w"
  "location (http_Redirect text r url n txt w) = Some (hexEscapeNonASCII (redirect_address (req_Path r) url))"
  "location no_store = None"
proof -
  show 1: "k \<noteq> ''Location'' \<Longrightarrow> location (set_header k v resp) = location resp" for k v and resp :: "'c Response"
    by (simp add: location_def set_header_def)
  show "location no_response = None" "location (http_SetCookie c w) = location w"
    by (simp_all add: location_def no_response_def http_SetCookie_def)
  then show "location no_store = None" by (simp add: no_store_def 1)
  have 2: "location (w'\<lparr>resp_Status := x, resp_Body := y\<rparr>) = location w'" "location (w'\<lparr>resp_Status := x\<rparr>) = location w'"
    "location (w'\<lparr>resp_Body := y\<rparr>) = location w'" for w' :: "'c Response" and x y
    by (simp_all add: location_def)
  show 3: "location (writeJSON status body w) = location w" for status body w
    by (simp add: writeJSON_def 1 2)
  then show "location (writeJSONError status code msg w) = location w" "location (writeServiceError e w) = location w"
    by (simp_all add: writeJSONError_def writeServiceError_def)
  show "location (http_Redirect text r url n txt w) = Some (hexEscapeNonASCII (redirect_address (req_Path r) url))"
    by (simp add: http_Redirect_def Let_def 1 2) (simp add: location_def set_header_def)
qed

text \<open>\<open>yields P m\<close>: every answer of the operation satisfies \<open>P\<close>.\<close>

definition yields :: "('a \<Rightarrow> bool) \<Rightarrow> ('w, 'a) op \<Rightarrow> bool" where
  "yields P m \<longleftrightarrow> (\<forall>w a. fst (m w) = Inr a \<longrightarrow> P a)"

lemma yieldsD: "yields P m \<Longrightarrow> fst (m w) = Inr a \<Longrightarrow> P a"
  by (simp add: yields_def)

lemma yields_basic:
  "P a \<Longrightarrow> yields P (ret a)"
  "(\<And>e. P (writeServiceError e resp)) \<Longrightarrow> (\<And>a. yields P (k a)) \<Longrightarrow> yields P (or_service_error m resp k)"
  "(\<And>a. yields P (k' a)) \<Longrightarrow> yields P (bnd m' k')"
  by (auto simp: yields_def op_simps or_service_error_def on_err_def bnd_def split: sum.splits)

lemma yields_cases:
  "\<lbrakk>c \<Longrightarrow> yields P m; \<not> c \<Longrightarrow> yields P m'\<rbrakk> \<Longrightarrow> yields P (if c then m else m')"
  "\<lbrakk>yields P m; \<And>x. yields P (f x)\<rbrakk> \<Longrightarrow> yields P (case r of None \<Rightarrow> m | Some x \<Rightarrow> f x)"
  "\<lbrakk>\<And>a b. yields P (g a b)\<rbrakk> \<Longrightarrow> yields P (case p of (a, b) \<Rightarrow> g a b)"
  "\<lbrakk>\<And>e. yields P (h e); \<And>a. yields P (k' a)\<rbrakk> \<Longrightarrow> yields P (case s of Inl e \<Rightarrow> h e | Inr a \<Rightarrow> k' a)"
  by (auto split: option.splits prod.splits sum.splits)

lemma yields_requests:
  "(\<And>e. P (writeServiceError e resp)) \<Longrightarrow> (\<And>sid. yields P (k sid)) \<Longrightarrow> yields P (with_session r resp k)"
  "(\<And>msg. P (writeJSONError 400 ''invalid_request'' msg resp)) \<Longrightarrow> (\<And>body. yields P (k' body)) \<Longrightarrow> yields P (with_body dec r resp k')"
  by (auto simp: with_session_def with_body_def intro!: yields_cases yields_basic)

lemmas yields_rules = yields_cases yields_requests yields_basic

text \<open>The names of the login cookies are not that of the session cookie.\<close>

lemma oidcCookieName_other: "oidcCookieName h k r \<noteq> SessionCookieName" "oidcCookieName h k r \<noteq> CSRFCookieName"
  by (auto simp: oidcCookieName_def SessionCookieName_def CSRFCookieName_def Let_def)

definition no_session_cookie :: "'b Response \<Rightarrow> bool" where
  "no_session_cookie resp \<longleftrightarrow> (\<forall>c \<in> set (resp_Cookies resp). cookie_Name c = SessionCookieName \<longrightarrow> cookie_Value c = [])"

lemma no_session_cookie_handlers:
  "yields no_session_cookie (handleOIDCStart st h dec r)" "yields no_session_cookie (handleLogout st r)"
  "yields no_session_cookie (handleDeviceCode st h r)" "yields no_session_cookie (handleDeviceApprove st h dec r)"
  "yields no_session_cookie (handleDeviceToken st h dec r)" "yields no_session_cookie (handleIdentityContext st h r)"
  "yields no_session_cookie (handleSwitchTenant st h dec r)" "yields no_session_cookie (handleSwitchTeam st h dec r)"
  "yields no_session_cookie (handleListAPIKeys st h r)" "yields no_session_cookie (handleCreateAPIKey st h dec r)"
  "yields no_session_cookie (handleRevokeAPIKey st h r)" "yields no_session_cookie (handleListServiceAccounts st h r)"
  "yields no_session_cookie (handleCreateServiceAccount st h dec r)" "yields no_session_cookie (handleDisableServiceAccount st h r)"
  "yields no_session_cookie (handleValidateSession st h dec r)" "yields no_session_cookie (handleInternalJWT st h dec r)"
  "yields no_session_cookie (handleValidateToken st h dec r)" "yields no_session_cookie (handleDelegateAgent st h dec r)"
  "yields no_session_cookie (handleRecordAuditEvent st h dec r)" "yields no_session_cookie (handleDirectorySync st h r)"
  unfolding handleOIDCStart_def handleLogout_def handleDeviceCode_def handleDeviceApprove_def
    handleDeviceToken_def handleIdentityContext_def handleSwitchTenant_def handleSwitchTeam_def handleListAPIKeys_def
    handleCreateAPIKey_def handleRevokeAPIKey_def handleListServiceAccounts_def handleCreateServiceAccount_def
    handleDisableServiceAccount_def handleValidateSession_def handleInternalJWT_def handleValidateToken_def
    handleDelegateAgent_def handleRecordAuditEvent_def handleDirectorySync_def Let_def
  by (intro yields_rules; simp add: no_session_cookie_def oidcCookieName_other ended_cookie_def)+

definition is_callback :: "Request \<Rightarrow> bool" where
  "is_callback r \<longleftrightarrow> (req_Method r = ''GET'' \<or> req_Method r = ''POST'') \<and> req_Path r = ''/auth/oidc/callback''"

lemma ServeHTTP_callback: "is_callback r \<Longrightarrow> ServeHTTP st h dec r = handleOIDCCallback st h dec r"
  by (auto simp: is_callback_def ServeHTTP_def route_def requiresCSRF_def HasPrefix_iff Let_def)

lemma ServeHTTP_no_session_cookie:
  assumes "\<not> is_callback r"
  shows "yields no_session_cookie (ServeHTTP st h dec r)"
  unfolding ServeHTTP_def route_def Let_def
  by (intro yields_cases(1) no_session_cookie_handlers yields_basic(1))
    (use assms in \<open>simp_all add: no_session_cookie_def is_callback_def\<close>)

text \<open>The callback: an answer with a session, or one without.\<close>

definition refusal :: "'b Response \<Rightarrow> bool" where
  "refusal resp \<longleftrightarrow> no_session_cookie resp \<and> location resp = None"

lemma refusals [simp]:
  "refusal (writeServiceError e no_store)" "refusal (writeJSONError n code msg no_store)"
  "refusal (writeServiceError e (http_SetCookie (ended_cookie (oidcCookieName h k r) b) no_store))"
  by (simp_all add: refusal_def no_session_cookie_def ended_cookie_def oidcCookieName_other)

lemma callback_login_cases:
  assumes res: "fst (callback_login st h code state binding r no_store w) = Inr resp"
  obtains (refused) "refusal resp"
  | (login) session identity url where
      "fst (CompleteBoundOIDCCallback st (hh_service h) code state binding zero_time w) = Inr (session, identity, url)"
      "w_store (snd (callback_login st h code state binding r no_store w)) =
         w_store (snd (CompleteBoundOIDCCallback st (hh_service h) code state binding zero_time w))"
      "\<And>c. c \<in> set (resp_Cookies resp) \<Longrightarrow> cookie_Name c = SessionCookieName \<Longrightarrow> cookie_Value c = [] \<or> cookie_Value c = sess_ID session"
      "location resp = (if TrimSpace url = [] then None else Some (hexEscapeNonASCII (redirect_address (req_Path r) url)))"
proof -
  let ?cb = "CompleteBoundOIDCCallback st (hh_service h) code state binding zero_time"
  show thesis
  proof (cases "fst (?cb w)")
    case (Inl e)
    with res show thesis by (intro refused) (auto simp: callback_login_def Let_def or_service_error_def op_simps)
  next
    case (Inr a)
    then obtain session identity url where cb: "fst (?cb w) = Inr (session, identity, url)" by (cases a) auto
    have other: "CSRFCookieName \<noteq> SessionCookieName" by (simp add: SessionCookieName_def CSRFCookieName_def)
    show thesis
    proof (rule login [OF cb])
      show "w_store (snd (callback_login st h code state binding r no_store w)) = w_store (snd (?cb w))"
        using cb by (simp add: callback_login_def Let_def or_service_error_def op_simps)
      show "cookie_Value c = [] \<or> cookie_Value c = sess_ID session"
        if "c \<in> set (resp_Cookies resp)" "cookie_Name c = SessionCookieName" for c
        using res cb that other by (auto simp: callback_login_def Let_def or_service_error_def op_simps session_cookie_def
            ended_cookie_def split: if_splits)
      show "location resp = (if TrimSpace url = [] then None else Some (hexEscapeNonASCII (redirect_address (req_Path r) url)))"
        using res cb by (auto simp: callback_login_def Let_def or_service_error_def op_simps split: if_splits)
    qed
  qed
qed

lemma handleOIDCCallback_cases:
  assumes res: "fst (handleOIDCCallback st h dec r w) = Inr resp"
  obtains (refused) "refusal resp"
  | (login) code state binding w1 where
      "w1 = snd (resolveOIDC (hh_service h) w)" "binding \<noteq> []" "CookiesNamed r (oidcCookieName h state r) = [binding]"
      "handleOIDCCallback st h dec r w = callback_login st h code state binding r no_store w1"
proof (cases "\<exists>key \<in> set [''state'', ''code'', ''iss'']. 1 < length (query_values (parseQuery (req_RawQuery r)) key)")
  case True
  from res show thesis
    unfolding handleOIDCCallback_def Let_def if_P [OF True] by (intro refused) (auto simp: op_simps)
next
  case unique: False
  note f = handleOIDCCallback_def Let_def if_not_P [OF unique]
  show thesis
  proof (cases "callback_parameters dec r")
    case (Inl msg)
    from res show thesis unfolding f Inl by (intro refused) (auto simp: op_simps)
  next
    case (Inr cs)
    then obtain code state where cs: "callback_parameters dec r = Inr (code, state)" by (cases cs) auto
    show thesis
    proof (cases "\<exists>binding. CookiesNamed r (oidcCookieName h state r) = [binding] \<and> state \<noteq> [] \<and> binding \<noteq> []")
      case False
      from res False show thesis unfolding f cs by (intro refused) (auto simp: op_simps split: list.splits if_splits)
    next
      case True
      then obtain binding where b: "CookiesNamed r (oidcCookieName h state r) = [binding]" "state \<noteq> []" "binding \<noteq> []"
        by blast
      have "refusal resp \<or> handleOIDCCallback st h dec r w =
          callback_login st h code state binding r no_store (snd (resolveOIDC (hh_service h) w))"
        using res b unfolding f cs
        by (cases "fst (resolveOIDC (hh_service h) w)") (auto simp: or_service_error_def op_simps split: option.splits if_splits)
      with b show thesis by (elim disjE) (auto intro: refused login)
    qed
  qed
qed

section \<open>Login states of a server\<close>

text \<open>Every login state of a server leads back to a local address.\<close>

definition states_local :: "StoreView \<Rightarrow> bool" where
  "states_local V \<longleftrightarrow> (\<forall>x \<in> ran (vw_oidcStates V). validOIDCReturnTo (oidc_RedirectURL x))"

lemma states_local_shrink: "states_local V \<Longrightarrow> states_shrink V V' \<Longrightarrow> states_local V'"
  by (auto simp: states_local_def states_shrink_def ran_def map_le_def domI) (metis domI)

context full_store
begin

lemma served_states_local:
  assumes "served st svc w w'" and "ok (w_store w)" and "states_local (view (w_store w))"
  shows "ok (w_store w') \<and> states_local (view (w_store w'))"
  using assms
proof (induction rule: rtranclp_induct)
  case (step u v)
  then have u: "ok (w_store u)" "states_local (view (w_store u))" by simp_all
  from step.hyps(2) show ?case
  proof cases
    case call
    with service_call_shrinks [OF call] u show ?thesis by (auto simp: kept_def intro: states_local_shrink)
  next
    case (start rl)
    show ?thesis
    proof (cases "fst (StartOIDCLogin st svc rl u)")
      case (Inl e)
      then show ?thesis using StartOIDCLogin_Inl [OF u(1) Inl] u by (simp add: start)
    next
      case (Inr started)
      show ?thesis
        by (rule StartOIDCLogin_Inr [OF u(1) Inr]) (use u(2) in \<open>auto simp: start states_local_def ran_def split: if_splits\<close>)
    qed
  qed
qed simp

lemma callback_url:
  assumes ok: "ok (w_store w)" and "fst (completeOIDCCallback st svc code k b bound now w) = Inr (session, identity, url)"
  shows "\<exists>x. vw_oidcStates (view (w_store w)) (TrimSpace k) = Some x \<and> url = oidc_RedirectURL x"
  using assms(2)
proof (rule completeOIDCCallback_InrE)
  fix x w1
  assume w1: "w1 = snd (resolveOIDC svc w)" and x: "fst (take_login_state st (TrimSpace k) b bound w1) = Inr x"
    and url: "url = oidc_RedirectURL x"
  have s: "w_store w1 = w_store w" by (simp add: w1 op_simps)
  with ok take_login_state_Inr(1) [OF _ x] url show ?thesis by auto
qed

end

lemma validOIDCReturnTo_local:
  assumes "validOIDCReturnTo raw" and "TrimSpace raw \<noteq> []"
  shows "local_address (redirect_address path raw)"
proof -
  have "raw \<noteq> []" using assms(2) by auto
  then obtain u where "Parse raw = Some u" "url_Scheme u = []" "url_Host u = []" "HasPrefix raw ''/''" "CHR 0x5C \<notin> set raw"
    using assms(1) by (auto simp: validOIDCReturnTo_def ContainsAny_def split: option.splits)
  then show ?thesis by (rule redirect_address_local)
qed

end
