(* ===== verification/Warden_HTTP_Properties.thy ===== *)
theory Warden_HTTP_Properties
  imports Warden_HTTP_Facts Warden_Login_Properties Warden_Token_Properties
begin

text \<open>
  The properties of the HTTP interface, for the in-memory store where they depend on it.
\<close>

section \<open>Runs of the server\<close>

inductive http_step :: "'s Store \<Rightarrow> HTTPHandler \<Rightarrow> Decoders \<Rightarrow> 's World \<Rightarrow> 's World \<Rightarrow> bool" for st h dec where
  request: "http_step st h dec w (snd (ServeHTTP st h dec r w))"

lemma http_run_served:
  assumes "(http_step st h dec)\<^sup>*\<^sup>* w w'"
  shows "served st (hh_service h) w w'"
  using assms
proof (induction rule: rtranclp_induct)
  case (step u v)
  from step.hyps(2) have "served st (hh_service h) u v"
    by cases (simp add: ServeHTTP_answers [unfolded answers_def])
  with step.IH show ?case by simp
qed simp


section \<open>Guards\<close>

text \<open>C24: a request that changes something for the session of its cookie is refused without an effect, unless it
  repeats the CSRF cookie in its header.\<close>

theorem csrf_rejected:
  assumes "req_Method r \<notin> set [''GET'', ''HEAD'', ''OPTIONS'']"
    and "HasPrefix (req_Path r) ''/iam/'' \<or> req_Path r = ''/auth/logout'' \<or> req_Path r = ''/auth/device/approve''"
    and "req_Cookie r SessionCookieName \<noteq> None"
    and "TrimSpace (req_Header r ''X-CSRF-Token'') = [] \<or> req_Cookie r CSRFCookieName \<noteq> Some (TrimSpace (req_Header r ''X-CSRF-Token''))"
  shows "\<exists>resp. ServeHTTP st h dec r w = (Inr resp, w) \<and> resp_Status resp = 403 \<and> resp_Cookies resp = []"
proof -
  have p: "\<not> HasPrefix (req_Path r) ''/internal/''" "req_Path r \<noteq> ''/auth/oidc/callback''"
    using assms(2) by (auto simp: HasPrefix_iff)
  have "requiresCSRF r" using assms(1,2) p by (auto simp: requiresCSRF_def)
  moreover have "\<not> validCSRF r" using assms(3,4) by (auto simp: validCSRF_def Let_def split: option.splits)
  ultimately show ?thesis using p by (simp add: ServeHTTP_def op_simps)
qed

text \<open>With an internal key, a request to an internal endpoint gets through exactly with the key, in its own
  header or as a bearer token; any other is refused without an effect.\<close>

theorem internal_key_required:
  assumes "TrimSpace (hh_internalAPIKey h) = key" and "key \<noteq> []" and "HasPrefix (req_Path r) ''/internal/''"
  defines "own \<equiv> TrimSpace (req_Header r InternalCallerTokenHeader)" and "auth \<equiv> TrimSpace (req_Header r ''Authorization'')"
  shows "if own = key \<or> own = [] \<and> HasPrefix auth ''Bearer '' \<and> TrimSpace (TrimPrefix auth ''Bearer '') = key
    then ServeHTTP st h dec r w = route st h dec r w
    else (\<exists>resp. ServeHTTP st h dec r w = (Inr resp, w) \<and> resp_Status resp = 401)"
proof -
  have "\<not> requiresCSRF r" using assms(3) by (simp add: requiresCSRF_def)
  moreover have "validInternalCaller h r \<longleftrightarrow> own = key \<or> own = [] \<and> HasPrefix auth ''Bearer '' \<and> TrimSpace (TrimPrefix auth ''Bearer '') = key"
    using assms(1,2) by (auto simp: validInternalCaller_def own_def auth_def Let_def)
  ultimately show ?thesis using assms(3) by (simp add: ServeHTTP_def op_simps)
qed

text \<open>Without a session, neither in the cookie nor in the header, nothing under \<open>/iam/\<close> has an effect.\<close>

theorem iam_needs_session:
  assumes "HasPrefix (req_Path r) ''/iam/''" and "sessionIDFromRequest r = Inl e"
  shows "\<exists>resp. ServeHTTP st h dec r w = (Inr resp, w) \<and> resp_Status resp \<in> {401, 403, 404}"
proof -
  obtain t where t: "req_Path r = ''/iam/'' @ t" using assms(1) by (auto simp: HasPrefix_iff)
  have p: "\<not> HasPrefix (req_Path r) ''/internal/''" by (auto simp: t HasPrefix_iff)
  have e: "e = ErrUnauthorized"
    using assms(2) by (auto simp: sessionIDFromRequest_def Let_def split: option.splits if_splits)
  have s: "with_session r no_response k w = (Inr (writeServiceError ErrUnauthorized no_response), w)"
    for k :: "string \<Rightarrow> ('s World, http_response) op" and w
    by (simp add: with_session_def assms(2) e op_simps)
  have "\<exists>resp. route st h dec r w = (Inr resp, w) \<and> resp_Status resp \<in> {401, 403, 404}"
    by (simp add: route_def Let_def handleIdentityContext_def handleListAPIKeys_def handleCreateAPIKey_def handleRevokeAPIKey_def
        handleListServiceAccounts_def handleCreateServiceAccount_def handleDisableServiceAccount_def handleSwitchTenant_def
        handleSwitchTeam_def s op_simps writeServiceError_def t)
  then show ?thesis using p by (simp add: ServeHTTP_def op_simps)
qed

section \<open>The login\<close>

text \<open>C6: however a server that started without foreign login states has run, the answer to a callback only ever sends
  the browser to an address of the same server: the address starts with one slash and no second one, and no
  backslash, follows.\<close>

theorem callback_redirect_local:
  assumes "mem_wf (w_store w0)" and "states_local (mem_view (w_store w0))"
    and "(http_step memory_store h dec)\<^sup>*\<^sup>* w0 w" and "req_Path r = ''/auth/oidc/callback''"
    and "fst (ServeHTTP memory_store h dec r w) = Inr resp" and "location resp = Some a"
  shows "local_address a"
proof -
  let ?svc = "hh_service h"
  have w: "mem_wf (w_store w)" "states_local (mem_view (w_store w))"
    using mem.served_states_local [OF http_run_served [OF assms(3)] assms(1,2)] by blast+
  have "fst (handleOIDCCallback memory_store h dec r w) = Inr resp"
    using assms(4-6) by (auto simp: ServeHTTP_def route_def requiresCSRF_def HasPrefix_iff op_simps Let_def split: if_splits)
  then show ?thesis
  proof (cases rule: handleOIDCCallback_cases)
    case refused
    with assms(6) show ?thesis by (simp add: refusal_def)
  next
    case (login code state binding w1)
    have w1: "w_store w1 = w_store w" by (simp add: login(1) op_simps)
    have "fst (callback_login memory_store h code state binding r no_store w1) = Inr resp"
      using \<open>fst (handleOIDCCallback _ _ _ _ _) = _\<close> login(4) by simp
    then show ?thesis
    proof (cases rule: callback_login_cases)
      case refused
      with assms(6) show ?thesis by (simp add: refusal_def)
    next
      case (login session identity url)
      obtain x where "vw_oidcStates (mem_view (w_store w1)) (TrimSpace state) = Some x" "url = oidc_RedirectURL x"
        using mem.callback_url [OF _ login(1) [unfolded CompleteBoundOIDCCallback_def]] w(1) w1 by auto
      then have "validOIDCReturnTo url" using w(2) w1 by (auto simp: states_local_def ran_def)
      with login(4) assms(6) show ?thesis by (auto intro!: hexEscape_local validOIDCReturnTo_local split: if_splits)
    qed
  qed
qed

text \<open>C5: the only answer that hands out a session is that to a callback which came with the one secret of the
  browser that started this login; the cookie names a session that is valid, for the user of the token.\<close>

theorem session_cookie_sound:
  assumes "mem_wf (w_store w)" and "\<not> cfg_DirectoryRefreshOnSession (svc_cfg (hh_service h))"
    and "\<forall>n. \<not> IsZero (svc_clock (hh_service h) n)" and "fst (ServeHTTP memory_store h dec r w) = Inr resp"
    and "c \<in> set (resp_Cookies resp)" and "cookie_Name c = SessionCookieName" and "cookie_Value c \<noteq> []"
  shows "req_Path r = ''/auth/oidc/callback''
    \<and> (\<exists>state binding x t session q. CookiesNamed r (oidcCookieName h state r) = [binding] \<and> binding \<noteq> []
      \<and> started_login (mem_view (w_store w)) state binding t x
      \<and> session_valid (mem_view (w_store (snd (ServeHTTP memory_store h dec r w)))) (cookie_Value c) t session q)"
proof -
  let ?svc = "hh_service h"
  have has: "\<not> no_session_cookie resp" using assms(5-7) by (auto simp: no_session_cookie_def)
  have "is_callback r" using has ServeHTTP_no_session_cookie [THEN yieldsD, OF _ assms(4)] by blast
  then have cb: "req_Path r = ''/auth/oidc/callback''"
      "ServeHTTP memory_store h dec r w = handleOIDCCallback memory_store h dec r w"
    by (simp_all add: ServeHTTP_callback) (simp add: is_callback_def)
  then have res: "fst (handleOIDCCallback memory_store h dec r w) = Inr resp" using assms(4) by simp
  then show ?thesis
  proof (cases rule: handleOIDCCallback_cases)
    case refused
    with has show ?thesis by (simp add: refusal_def)
  next
    case first: (login code state binding w1)
    have w1: "w_store w1 = w_store w" by (simp add: first(1) op_simps)
    have "fst (callback_login memory_store h code state binding r no_store w1) = Inr resp"
      using res first(4) by simp
    then show ?thesis
    proof (cases rule: callback_login_cases)
      case refused
      with has show ?thesis by (simp add: refusal_def)
    next
      case (login session identity url)
      note cbk = login(1) [unfolded CompleteBoundOIDCCallback_def]
      have ok1: "mem_wf (w_store w1)" using assms(1) w1 by simp
      obtain x t q where "started_login (mem_view (w_store w1)) state binding t x"
        and "session_valid (mem_view (w_store (snd (completeOIDCCallback memory_store ?svc code state binding True zero_time w1))))
            (sess_ID session) t session q"
        by (rule mem.callback_session [OF ok1 cbk assms(2) disjI2 [OF assms(3)]]) blast
      moreover have "cookie_Value c = sess_ID session" using login(3) assms(5-7) by blast
      moreover have "w_store (snd (ServeHTTP memory_store h dec r w)) =
          w_store (snd (completeOIDCCallback memory_store ?svc code state binding True zero_time w1))"
        using cb(2) first(4) login(2) by (simp add: CompleteBoundOIDCCallback_def)
      ultimately show ?thesis using cb(1) first(2,3) w1 by metis
    qed
  qed
qed

section \<open>Their instances\<close>

definition ex_request_to :: "string \<Rightarrow> string \<Rightarrow> (string \<times> string) list \<Rightarrow> Request" where
  "ex_request_to method path cookies = \<lparr>req_Method = method, req_Path = path, req_RawQuery = [], req_Header = (\<lambda>_. []),
     req_Cookies = cookies, req_TLS = False, req_Body = []\<rparr>"

definition ex_handler :: HTTPHandler where
  "ex_handler = NewHTTPHandlerWithInternalAPIKey ex_login_svc ''key''"

text \<open>No request of the examples has a body.\<close>

definition ex_decoders :: Decoders where
  "ex_decoders = \<lparr>dec_login = (\<lambda>_. Inl ''EOF''), dec_callback = (\<lambda>_. Inl ''EOF''), dec_approve = (\<lambda>_. Inl ''EOF''),
     dec_device = (\<lambda>_. Inl ''EOF''), dec_tenant = (\<lambda>_. Inl ''EOF''), dec_team = (\<lambda>_. Inl ''EOF''), dec_key = (\<lambda>_. Inl ''EOF''),
     dec_session = (\<lambda>_. Inl ''EOF''), dec_jwt = (\<lambda>_. Inl ''EOF''), dec_token = (\<lambda>_. Inl ''EOF''),
     dec_delegate = (\<lambda>_. Inl ''EOF''), dec_audit = (\<lambda>_. Inl ''EOF''), dec_time = (\<lambda>_. None)\<rparr>"

theorem csrf_rejected_witness:
  "\<exists>resp. ServeHTTP memory_store ex_handler ex_decoders (ex_request_to ''POST'' ''/auth/logout'' [(''warden_session'', ''s1'')]) (ex_world ''p1'')
    = (Inr resp, ex_world ''p1'') \<and> resp_Status resp = 403"
  using csrf_rejected [of "ex_request_to ''POST'' ''/auth/logout'' [(''warden_session'', ''s1'')]" memory_store ex_handler ex_decoders "ex_world ''p1''"]
  by (auto simp: ex_request_to_def req_Cookie_def SessionCookieName_def CSRFCookieName_def)

theorem internal_key_required_witness:
  "\<exists>resp. ServeHTTP memory_store ex_handler ex_decoders (ex_request_to ''POST'' ''/internal/internal-jwts'' []) (ex_world ''p1'')
    = (Inr resp, ex_world ''p1'') \<and> resp_Status resp = 401"
proof -
  have k: "TrimSpace (hh_internalAPIKey ex_handler) = ''key''" by code_simp
  have p: "HasPrefix (req_Path (ex_request_to ''POST'' ''/internal/internal-jwts'' [])) ''/internal/''"
    by (simp add: ex_request_to_def HasPrefix_iff)
  show ?thesis
    using internal_key_required [OF k _ p, of memory_store ex_decoders "ex_world ''p1''"] by (simp add: ex_request_to_def HasPrefix_iff)
qed

theorem iam_needs_session_witness:
  "\<exists>resp. ServeHTTP memory_store ex_handler ex_decoders (ex_request_to ''GET'' ''/iam/context'' []) (ex_world ''p1'')
    = (Inr resp, ex_world ''p1'') \<and> resp_Status resp \<in> {401, 403, 404}"
proof -
  have "HasPrefix (req_Path (ex_request_to ''GET'' ''/iam/context'' [])) ''/iam/''"
    by (simp add: ex_request_to_def HasPrefix_iff)
  moreover have "sessionIDFromRequest (ex_request_to ''GET'' ''/iam/context'' []) = Inl ErrUnauthorized"
    by (simp add: sessionIDFromRequest_def ex_request_to_def req_Cookie_def Let_def)
  ultimately show ?thesis by (rule iam_needs_session)
qed

text \<open>The callback of the login \<open>st1\<close>, in the browser that started it.\<close>

definition ex_callback :: Request where
  "ex_callback = (ex_request_to ''GET'' ''/auth/oidc/callback''
      [(''__Host-warden_oidc_'' @ hex_EncodeToString (sha256_Sum256 ''st1''), ''b'')])
    \<lparr>req_RawQuery := ''code=code&state=st1''\<rparr>"

lemma ex_clock: "\<not> IsZero (svc_clock ex_login_svc n)"
  by (simp add: ex_login_fields IsZero_def ex_now_def time_Unix_def Second_def zero_time_def)

lemma ex_callback_answer:
  "\<exists>resp c. fst (ServeHTTP memory_store ex_handler ex_decoders ex_callback ex_login_world) = Inr resp
    \<and> location resp = Some ''/home'' \<and> c \<in> set (resp_Cookies resp) \<and> cookie_Name c = SessionCookieName \<and> cookie_Value c \<noteq> []"
proof -
  have svc: "hh_service ex_handler = ex_login_svc"
    by (simp add: ex_handler_def NewHTTPHandlerWithInternalAPIKey_def)
  have q: "parseQuery ''code=code&state=st1'' = [(''code'', ''code''), (''state'', ''st1'')]" by code_simp
  have trim: "TrimSpace ''code'' = ''code''" "TrimSpace ''st1'' = ''st1''" "TrimSpace ''/home'' = ''/home''" by code_simp+
  have secure: "oidcSecureCookie ex_handler ex_callback"
  proof -
    have "https_url ''https://w/auth/oidc/callback''" by code_simp
    then show ?thesis
      by (simp add: oidcSecureCookie_def svc ex_login_fields ex_cfg_def) (simp add: ex_login_svc_def ex_oidc_verifier_def)
  qed
  have cookie: "CookiesNamed ex_callback (oidcCookieName ex_handler ''st1'' ex_callback) = [''b'']"
    by (simp add: CookiesNamed_def oidcCookieName_def secure Let_def) (simp add: ex_callback_def ex_request_to_def)
  have par: "callback_parameters ex_decoders ex_callback = Inr (''code'', ''st1'')"
    by (simp add: callback_parameters_def ex_callback_def ex_request_to_def q query_Get_def query_values_def trim)
  have v: "\<not> ov_RequireResponseIssuer ex_oidc_verifier" by (simp add: ex_oidc_verifier_def)
  have query: "parseQuery (req_RawQuery ex_callback) = [(''code'', ''code''), (''state'', ''st1'')]" "req_Path ex_callback = ''/auth/oidc/callback''"
    by (simp_all add: ex_callback_def ex_request_to_def q)
  have e: "ServeHTTP memory_store ex_handler ex_decoders ex_callback ex_login_world =
      callback_login memory_store ex_handler ''code'' ''st1'' ''b'' ex_callback no_store ex_login_world"
  proof -
    have "is_callback ex_callback" by (simp add: is_callback_def ex_callback_def ex_request_to_def)
    then show ?thesis
      by (simp add: ServeHTTP_callback handleOIDCCallback_def query query_values_def query_Has_def par cookie Let_def svc
          or_service_error_def on_err_Inr [where m = "resolveOIDC ex_login_svc"] ex_login_fields(4) v)
  qed
  obtain session identity where cb: "fst (CompleteBoundOIDCCallback memory_store ex_login_svc ''code'' ''st1'' ''b'' zero_time ex_login_world)
      = Inr (session, identity, ''/home'')"
    using ex_login [OF disjI2 [OF refl]] by blast
  have home: "hexEscapeNonASCII (redirect_address ''/auth/oidc/callback'' ''/home'') = ''/home''" by code_simp
  have clock: "\<forall>n. \<not> IsZero (svc_clock ex_login_svc n)"
    by (simp add: ex_clock)
  have "sess_ID session \<noteq> []"
    by (rule mem.callback_session [OF ex_login_ok cb [unfolded CompleteBoundOIDCCallback_def] ex_login_no_refresh disjI2 [OF clock]])
  then show ?thesis
    unfolding e using cb
    by (simp add: callback_login_def Let_def svc or_service_error_def op_simps trim home query)
      (rule exI [of _ "session_cookie SessionCookieName (sess_ID session) (sess_ExpiresAt session) True (oidcSecureCookie ex_handler ex_callback)"],
        simp add: session_cookie_def)
qed

text \<open>The browser gets a session and is sent to \<open>/home\<close>.\<close>

theorem session_cookie_sound_witness:
  "\<exists>resp sid t session q. fst (ServeHTTP memory_store ex_handler ex_decoders ex_callback ex_login_world) = Inr resp
    \<and> session_valid (mem_view (w_store (snd (ServeHTTP memory_store ex_handler ex_decoders ex_callback ex_login_world)))) sid t session q"
proof -
  obtain resp c where r: "fst (ServeHTTP memory_store ex_handler ex_decoders ex_callback ex_login_world) = Inr resp"
    and c: "c \<in> set (resp_Cookies resp)" "cookie_Name c = SessionCookieName" "cookie_Value c \<noteq> []"
    using ex_callback_answer by (elim exE conjE)
  have svc: "hh_service ex_handler = ex_login_svc"
    by (simp add: ex_handler_def NewHTTPHandlerWithInternalAPIKey_def)
  have "\<forall>n. \<not> IsZero (svc_clock ex_login_svc n)"
    by (simp add: ex_clock)
  from session_cookie_sound [OF ex_login_ok _ _ r c] this r ex_login_no_refresh show ?thesis by (auto simp: svc)
qed

theorem callback_redirect_local_witness:
  "local_address ''/home'' \<and> (\<exists>resp. fst (ServeHTTP memory_store ex_handler ex_decoders ex_callback ex_login_world) = Inr resp)"
proof -
  obtain resp where r: "fst (ServeHTTP memory_store ex_handler ex_decoders ex_callback ex_login_world) = Inr resp"
    "location resp = Some ''/home''"
    using ex_callback_answer by (elim exE conjE)
  have "validOIDCReturnTo ''/home''" by code_simp
  then have "states_local (mem_view (w_store ex_login_world))"
    by (auto simp: states_local_def ex_login_world_def mem_view_def ex_login_state_def ran_def split: if_splits)
  moreover have "req_Path ex_callback = ''/auth/oidc/callback''" by (simp add: ex_callback_def ex_request_to_def)
  ultimately show ?thesis
    using callback_redirect_local [OF ex_login_ok _ rtranclp.rtrancl_refl _ r(1,2)] r(1) by blast
qed

section \<open>The time of a request\<close>

text \<open>The service of the example, two hours later: the session has expired.\<close>

definition ex_late_svc :: Service where
  "ex_late_svc = ex_svc\<lparr>svc_clock := (\<lambda>n. ex_now + 2 * Hour)\<rparr>"

lemma ex_late_fields:
  "svc_cfg ex_late_svc = ex_cfg" "svc_signer ex_late_svc = ex_signer" "\<not> cfg_DirectoryRefreshOnSession (svc_cfg ex_late_svc)"
  "eff_now ex_late_svc w zero_time = ex_now + 2 * Hour"
  by (simp_all add: ex_late_svc_def ex_svc_def ex_cfg_def eff_now_def IsZero_def)

lemma ex_late_token: "\<exists>r. fst (SignInternalJWT memory_store ex_late_svc (ex_request ''s1'' []) (ex_world ''p1'')) = Inr r"
proof -
  note v = mem_id.ValidateSession_valid [OF ex_ok, of "''p1''" "''s1''" ex_late_svc ex_now ex_session ex_admin]
  have valid: "session_valid (mem_view (w_store (ex_world ''p1''))) ''s1'' (eff_now ex_late_svc (ex_world ''p1'') ex_now) ex_session ex_admin"
    using ex_session_valid ex_now_given by simp
  have nr: "\<not> refreshed ex_late_svc ex_admin" using ex_late_fields(3) by (simp add: refreshed_def)
  have w: "snd (ValidateSession memory_store ex_late_svc ''s1'' ex_now (ex_world ''p1'')) = ex_world ''p1''"
    using v(3) [OF valid nr] ex_now_given by (simp add: op_simps)
  have n: "\<not> blank (sess_TenantID ex_session)" "\<not> blank (p_Type ex_admin)" "\<not> blank (p_ID ex_admin)"
    using ex_names by (simp_all add: ex_rows)
  obtain r where r: "fst (sign memory_store ex_late_svc ex_admin ex_session ''chathub'' [''chathub:read''] None SessionSourceWeb
    ''jwt_1'' ex_now None None (5 * Minute) (ex_world ''p1'')) = Inr r"
    using mem.sign_ok [OF ex_ok n ex_now_given ex_names(4,5)] by blast
  have "cfg_InternalTTL (svc_cfg ex_late_svc) = 5 * Minute" by (simp add: ex_late_fields ex_cfg_def)
  then show ?thesis
    using r v(1) [OF valid nr] ex_requested ex_trim w
    by (simp add: SignInternalJWT_def ex_request_def op_simps ex_policy)
qed

text \<open>the time at which a session or a key is checked is a member of the request: two hours after the session
  \<open>s1\<close> should have ended, a request that carries an earlier time still gets a token for it, one without a time is
  refused.\<close>

theorem request_time_trusted:
  "let serve = \<lambda>req. ServeHTTP memory_store (NewHTTPHandler ex_late_svc) (dec\<lparr>dec_jwt := (\<lambda>_. Inr req)\<rparr>)
         (ex_request_to ''POST'' ''/internal/internal-jwts'' []) (ex_world ''p1'')
   in (\<exists>resp jwt. fst (serve (ex_request ''s1'' [])) = Inr resp \<and> resp_Status resp = 200 \<and> resp_Body resp = Some (BodyJWT jwt))
    \<and> (\<exists>resp. fst (serve ((ex_request ''s1'' [])\<lparr>ij_Now := zero_time\<rparr>)) = Inr resp \<and> resp_Status resp = 401)"
proof -
  have serve: "ServeHTTP memory_store (NewHTTPHandler ex_late_svc) (dec\<lparr>dec_jwt := (\<lambda>_. Inr req)\<rparr>)
         (ex_request_to ''POST'' ''/internal/internal-jwts'' []) w =
      or_service_error (SignInternalJWT memory_store ex_late_svc req) no_response (\<lambda>result.
        ret (writeJSON 200 (BodyJWT result) no_response)) w" for req w
  proof -
    have "TrimSpace [] = []" by code_simp
    then show ?thesis
      by (simp add: ServeHTTP_def route_def ex_request_to_def NewHTTPHandler_def validInternalCaller_def requiresCSRF_def HasPrefix_iff
          Let_def handleInternalJWT_def with_body_def decodeJSON_def)
  qed
  let ?old = "(ex_request ''s1'' [])\<lparr>ij_Now := zero_time\<rparr>"
  have "expired (sess_ExpiresAt ex_session) (eff_now ex_late_svc (ex_world ''p1'') zero_time)"
    unfolding ex_late_fields(4)
    by (simp add: ex_session_def expired_def Before_def IsZero_def zero_time_def ex_now_def time_Unix_def Hour_def Minute_def Second_def)
  then have "fst (ValidateSession memory_store ex_late_svc ''s1'' zero_time (ex_world ''p1'')) = Inl ErrUnauthorized"
    using mem_id.ValidateSession_expired(1) [OF ex_ok, of "''p1''" "''s1''" ex_session ex_late_svc zero_time] ex_trim by simp
  then have "fst (SignInternalJWT memory_store ex_late_svc ?old (ex_world ''p1'')) = Inl ErrUnauthorized"
    using ex_trim by (simp add: SignInternalJWT_def ex_request_def op_simps)
  moreover obtain jwt where "fst (SignInternalJWT memory_store ex_late_svc (ex_request ''s1'' []) (ex_world ''p1'')) = Inr jwt"
    using ex_late_token by blast
  ultimately show ?thesis
    by (simp add: serve or_service_error_def op_simps writeServiceError_def) (simp add: writeJSON_def)
qed

end
