(* ===== verification/Warden_Reconciler.thy ===== *)
theory Warden_Reconciler
  imports Warden_Steps Warden_Example
begin

text \<open>
  The periodic reconciliation of the directory: \<open>src/warden/reconciler.go\<close>. \<open>Start\<close> launches a goroutine that
  reconciles at every tick until its context ends, \<open>Stop\<close> ends it and waits. The goroutines are rows of
  \<open>rc_loops\<close>; their steps, the ticks, the ends of contexts and the calls of \<open>Start\<close> and \<open>Stop\<close> interleave in any order.
\<close>

section \<open>State\<close>

text \<open>\<open>rec_cancel\<close> and \<open>rec_done\<close> hold the number of the goroutine that they cancel and wait for.\<close>

record DirectoryReconciler =
  rec_service :: "Service option"
  rec_interval :: duration
  rec_cancel :: "nat option"
  rec_done :: "nat option"

text \<open>A goroutine: whether its context is done, whether a tick waits in the channel of its ticker, and whether it has
  returned and closed \<open>done\<close>.\<close>

record rec_loop =
  lp_ctx_done :: bool
  lp_tick :: bool
  lp_closed :: bool

record 's Reconciling =
  rc_rec :: DirectoryReconciler
  rc_loops :: "rec_loop list"
  rc_world :: "'s World"

definition NewDirectoryReconciler :: "Service option \<Rightarrow> duration \<Rightarrow> DirectoryReconciler" where
  "NewDirectoryReconciler service interval0 =
    (let interval = (if interval0 \<le> 0 then 10 * Minute else interval0)
     in \<lparr>rec_service = service, rec_interval = interval, rec_cancel = None, rec_done = None\<rparr>)"

section \<open>Operations\<close>

definition rec_Start :: "'s Reconciling \<Rightarrow> 's Reconciling" where
  "rec_Start s =
    (let r = rc_rec s in
     if rec_service r = None then s
     else if rec_cancel r \<noteq> None then s
     else let run = length (rc_loops s) in
       s\<lparr>rc_rec := r\<lparr>rec_cancel := Some run, rec_done := Some run\<rparr>,
         rc_loops := rc_loops s @ [\<lparr>lp_ctx_done = False, lp_tick = False, lp_closed = False\<rparr>]\<rparr>)"

definition ctx_cancel :: "nat \<Rightarrow> 's Reconciling \<Rightarrow> 's Reconciling" where
  "ctx_cancel n s = s\<lparr>rc_loops := (rc_loops s)[n := (rc_loops s ! n)\<lparr>lp_ctx_done := True\<rparr>]\<rparr>"

text \<open>\<open>Stop\<close> up to its \<open>select\<close>, with the channel it waits for: \<open>None\<close> when it returns at once.\<close>

definition rec_Stop :: "'s Reconciling \<Rightarrow> nat option \<times> 's Reconciling" where
  "rec_Stop s =
    (let cancel = rec_cancel (rc_rec s); done = rec_done (rc_rec s);
         s = s\<lparr>rc_rec := (rc_rec s)\<lparr>rec_cancel := None, rec_done := None\<rparr>\<rparr> in
     case cancel of None \<Rightarrow> (None, s) | Some run \<Rightarrow> (done, ctx_cancel run s))"

text \<open>The cases of the \<open>select\<close> of the loop: the context is done, or there is a tick. When both are ready, either can happen.\<close>

definition loop_return :: "nat \<Rightarrow> 's Reconciling \<Rightarrow> 's Reconciling option" where
  "loop_return n s =
    (if n < length (rc_loops s) \<and> \<not> lp_closed (rc_loops s ! n) \<and> lp_ctx_done (rc_loops s ! n)
     then Some (s\<lparr>rc_loops := (rc_loops s)[n := (rc_loops s ! n)\<lparr>lp_closed := True\<rparr>]\<rparr>)
     else None)"

definition loop_pass :: "'s Store \<Rightarrow> nat \<Rightarrow> 's Reconciling \<Rightarrow> 's Reconciling option" where
  "loop_pass st n s =
    (if n < length (rc_loops s) \<and> \<not> lp_closed (rc_loops s ! n) \<and> lp_tick (rc_loops s ! n)
     then case rec_service (rc_rec s) of
         None \<Rightarrow> None
       | Some svc \<Rightarrow> Some (s\<lparr>rc_loops := (rc_loops s)[n := (rc_loops s ! n)\<lparr>lp_tick := False\<rparr>],
           rc_world := snd (ignore_err (ReconcileDirectory st svc) (rc_world s))\<rparr>)
     else None)"

section \<open>Runs\<close>

datatype rec_action = CallStart | CallStop | ParentDone nat | Tick nat | Return nat | Pass nat | ServiceCall

inductive rec_step :: "'s Store \<Rightarrow> rec_action \<Rightarrow> 's Reconciling \<Rightarrow> 's Reconciling \<Rightarrow> bool" for st where
  call_start: "rec_step st CallStart s (rec_Start s)"
| call_stop: "rec_step st CallStop s (snd (rec_Stop s))"
| parent_done: "n < length (rc_loops s) \<Longrightarrow> rec_step st (ParentDone n) s (ctx_cancel n s)"
| tick: "n < length (rc_loops s) \<Longrightarrow> \<not> lp_closed (rc_loops s ! n)
    \<Longrightarrow> rec_step st (Tick n) s (s\<lparr>rc_loops := (rc_loops s)[n := (rc_loops s ! n)\<lparr>lp_tick := True\<rparr>]\<rparr>)"
| return: "loop_return n s = Some s' \<Longrightarrow> rec_step st (Return n) s s'"
| pass: "loop_pass st n s = Some s' \<Longrightarrow> rec_step st (Pass n) s s'"
| service: "rec_service (rc_rec s) = Some svc \<Longrightarrow> service_step st svc (rc_world s) w
    \<Longrightarrow> rec_step st ServiceCall s (s\<lparr>rc_world := w\<rparr>)"

inductive_cases rec_step_elims: "rec_step st CallStop s s'" "rec_step st (Return n) s s'" "rec_step st (Pass n) s s'"

text \<open>A run: the actions and the state they lead to.\<close>

inductive rec_run :: "'s Store \<Rightarrow> 's Reconciling \<Rightarrow> rec_action list \<Rightarrow> 's Reconciling \<Rightarrow> bool" for st s0 where
  nil: "rec_run st s0 [] s0"
| snoc: "rec_run st s0 as s \<Longrightarrow> rec_step st a s s' \<Longrightarrow> rec_run st s0 (as @ [a]) s'"

definition fresh_reconciling :: "Service option \<Rightarrow> duration \<Rightarrow> 's World \<Rightarrow> 's Reconciling" where
  "fresh_reconciling svc interval w = \<lparr>rc_rec = NewDirectoryReconciler svc interval, rc_loops = [], rc_world = w\<rparr>"

section \<open>The invariant\<close>

lemma nth_updated: "n < length xs \<Longrightarrow> xs[i := v] ! n = (if i = n then v else xs ! n)"
  by simp

text \<open>The reconciler waits for the goroutine that it cancels, and every other goroutine has a context that is done.\<close>

definition loops_ok :: "nat option \<Rightarrow> rec_loop list \<Rightarrow> bool" where
  "loops_ok c loops \<longleftrightarrow> (\<forall>n < length loops. (lp_ctx_done (loops ! n) \<or> c = Some n)
     \<and> (lp_closed (loops ! n) \<longrightarrow> lp_ctx_done (loops ! n)))"

definition rec_inv :: "'s Reconciling \<Rightarrow> bool" where
  "rec_inv s \<longleftrightarrow> rec_done (rc_rec s) = rec_cancel (rc_rec s) \<and> rec_interval (rc_rec s) > 0
     \<and> (case rec_cancel (rc_rec s) of None \<Rightarrow> True | Some n \<Rightarrow> n < length (rc_loops s))
     \<and> loops_ok (rec_cancel (rc_rec s)) (rc_loops s)"

lemma loops_okD: "loops_ok c loops \<Longrightarrow> n < length loops \<Longrightarrow> lp_ctx_done (loops ! n) \<or> c = Some n"
  by (simp add: loops_ok_def)

lemma loops_ok_update:
  assumes "loops_ok c loops" and "lp_ctx_done (loops ! i) \<longrightarrow> lp_ctx_done v"
    and "lp_closed v \<longrightarrow> lp_ctx_done v"
  shows "loops_ok c (loops[i := v])"
  using assms by (auto simp: loops_ok_def nth_updated)

lemma loops_ok_stop:
  assumes "loops_ok (Some i) loops" and "lp_ctx_done v"
  shows "loops_ok None (loops[i := v])"
  using assms by (auto simp: loops_ok_def nth_updated)

lemma loops_ok_start:
  assumes "loops_ok None loops" and "\<not> lp_closed v"
  shows "loops_ok (Some (length loops)) (loops @ [v])"
  using assms by (simp add: loops_ok_def nth_append)

lemma rec_inv_fresh: "rec_inv (fresh_reconciling svc interval w)"
  by (simp add: rec_inv_def loops_ok_def fresh_reconciling_def NewDirectoryReconciler_def Let_def Minute_def Second_def)

lemma rec_inv_step:
  assumes "rec_step st a s s'" and "rec_inv s"
  shows "rec_inv s'"
proof -
  from assms(2) have ok: "loops_ok (rec_cancel (rc_rec s)) (rc_loops s)" by (simp add: rec_inv_def)
  then have closed: "lp_closed (rc_loops s ! n) \<Longrightarrow> n < length (rc_loops s) \<Longrightarrow> lp_ctx_done (rc_loops s ! n)" for n
    by (simp add: loops_ok_def)
  from assms show ?thesis
  proof cases
    case call_start
    then show ?thesis using assms(2) ok
      by (cases "rec_cancel (rc_rec s)") (auto simp: rec_inv_def rec_Start_def Let_def loops_ok_start)
  next
    case call_stop
    then show ?thesis using assms(2) ok
      by (cases "rec_cancel (rc_rec s)") (auto simp: rec_inv_def rec_Stop_def ctx_cancel_def Let_def loops_ok_stop)
  next
    case (parent_done n)
    then show ?thesis using assms(2) loops_ok_update [OF ok, of n] by (simp add: rec_inv_def ctx_cancel_def split: option.splits)
  next
    case (tick n)
    then show ?thesis using assms(2) loops_ok_update [OF ok, of n] by (simp add: rec_inv_def split: option.splits)
  next
    case (return n)
    then show ?thesis using assms(2) loops_ok_update [OF ok, of n]
      by (auto simp: rec_inv_def loop_return_def split: if_splits option.splits)
  next
    case (pass n)
    then show ?thesis using assms(2) loops_ok_update [OF ok, of n] closed [of n]
      by (auto simp: rec_inv_def loop_pass_def split: if_splits option.splits)
  next
    case (service svc w)
    then show ?thesis using assms(2) by (simp add: rec_inv_def split: option.splits)
  qed
qed

lemma rec_inv_run: "rec_run st s0 as s \<Longrightarrow> rec_inv s0 \<Longrightarrow> rec_inv s"
  by (induction rule: rec_run.induct) (auto intro: rec_inv_step)

text \<open>What no step undoes: a goroutine that exists, its context that is done, and its return.\<close>

lemma loop_stays:
  assumes "rec_step st a s s'" and "n < length (rc_loops s)"
  shows "n < length (rc_loops s')" "lp_ctx_done (rc_loops s ! n) \<Longrightarrow> lp_ctx_done (rc_loops s' ! n)"
    "lp_closed (rc_loops s ! n) \<Longrightarrow> lp_closed (rc_loops s' ! n)"
  using assms
  by (induction rule: rec_step.induct)
    (auto simp: rec_Start_def rec_Stop_def ctx_cancel_def loop_return_def loop_pass_def Let_def nth_append nth_updated
      split: if_splits option.splits)

lemma service_stays: "rec_step st a s s' \<Longrightarrow> rec_service (rc_rec s') = rec_service (rc_rec s)"
  by (induction rule: rec_step.induct)
    (auto simp: rec_Start_def rec_Stop_def ctx_cancel_def loop_return_def loop_pass_def Let_def split: if_splits option.splits)

section \<open>What the goroutines do\<close>

lemma Pass_open: "rec_step st (Pass n) s s' \<Longrightarrow> n < length (rc_loops s) \<and> \<not> lp_closed (rc_loops s ! n)"
  by (erule rec_step_elims) (simp add: loop_pass_def split: if_splits)

lemma Return_closes: "rec_step st (Return n) s s' \<Longrightarrow> n < length (rc_loops s') \<and> lp_closed (rc_loops s' ! n)"
  by (erule rec_step_elims) (auto simp: loop_return_def split: if_splits)

text \<open>The world only changes by what the service does.\<close>

lemma world_step:
  assumes "rec_step st a s s'" and "rec_service (rc_rec s) = Some svc"
  shows "(service_step st svc)\<^sup>*\<^sup>* (rc_world s) (rc_world s')"
  using assms
proof cases
  case (pass n)
  have "service_step st svc (rc_world s) (snd (ReconcileDirectory st svc (rc_world s)))"
    by (intro service_step.call service_call.reconcile)
  then show ?thesis using assms(2) pass by (auto simp: loop_pass_def op_simps split: if_splits)
qed (auto simp: rec_Start_def rec_Stop_def ctx_cancel_def loop_return_def Let_def split: if_splits option.splits)

lemma service_run: "rec_run st s0 as s \<Longrightarrow> rec_service (rc_rec s) = rec_service (rc_rec s0)"
  by (induction rule: rec_run.induct) (auto dest: service_stays)

text \<open>A reconciler runs at most one goroutine whose context is not done, the one that \<open>Stop\<close> cancels and waits
  for; after \<open>Stop\<close> there is none.\<close>

theorem one_loop_at_a_time:
  assumes "rec_run st (fresh_reconciling svc interval w) as s" and "n < length (rc_loops s)"
  shows "lp_ctx_done (rc_loops (snd (rec_Stop s)) ! n) \<and> (lp_ctx_done (rc_loops s ! n)
    \<or> fst (rec_Stop s) = Some n \<and> (\<forall>m < length (rc_loops s). lp_ctx_done (rc_loops s ! m) \<or> m = n))"
proof -
  have inv: "rec_inv s" by (rule rec_inv_run [OF assms(1) rec_inv_fresh])
  then have ok: "\<And>n. n < length (rc_loops s) \<Longrightarrow> lp_ctx_done (rc_loops s ! n) \<or> rec_cancel (rc_rec s) = Some n"
    and d: "rec_done (rc_rec s) = rec_cancel (rc_rec s)"
    by (simp_all add: rec_inv_def loops_okD)
  have before: "lp_ctx_done (rc_loops s ! n)
    \<or> fst (rec_Stop s) = Some n \<and> (\<forall>m < length (rc_loops s). lp_ctx_done (rc_loops s ! m) \<or> m = n)"
  proof (cases "lp_ctx_done (rc_loops s ! n)")
    case False
    then have "rec_cancel (rc_rec s) = Some n" using ok [OF assms(2)] by simp
    moreover have "lp_ctx_done (rc_loops s ! m) \<or> m = n" if "m < length (rc_loops s)" for m
      using ok [OF that] \<open>rec_cancel (rc_rec s) = Some n\<close> by auto
    ultimately show ?thesis using d by (simp add: rec_Stop_def Let_def)
  qed simp
  have "rec_inv (snd (rec_Stop s))" by (rule rec_inv_step [OF rec_step.call_stop inv])
  moreover have "rec_cancel (rc_rec (snd (rec_Stop s))) = None" "length (rc_loops (snd (rec_Stop s))) = length (rc_loops s)"
    by (simp_all add: rec_Stop_def ctx_cancel_def Let_def split: option.split)
  ultimately show ?thesis
    using before loops_okD [of None "rc_loops (snd (rec_Stop s))" n] assms(2) by (simp add: rec_inv_def)
qed

text \<open>Whatever the reconciler and the callers of the service do, in any order, the state of the service goes
  through a run of the service.\<close>

theorem reconciler_refines_service:
  assumes "rec_run st (fresh_reconciling (Some svc) interval w) as s"
  shows "(service_step st svc)\<^sup>*\<^sup>* w (rc_world s)"
  using assms
proof (induction rule: rec_run.induct)
  case nil
  show ?case by (simp add: fresh_reconciling_def)
next
  case (snoc as s a s')
  have "rec_service (rc_rec s) = Some svc"
    using service_run [OF snoc.hyps(1)] by (simp add: fresh_reconciling_def NewDirectoryReconciler_def Let_def)
  from world_step [OF snoc.hyps(2) this] snoc.IH show ?case by simp
qed

text \<open>C30: \<open>Stop\<close> returns. If the \<open>select\<close> of a goroutine does not pass over its context forever, then the goroutine that
  \<open>Stop\<close> waits for closes its channel, and never reconciles again.\<close>

theorem stop_returns:
  assumes "\<sigma> 0 = fresh_reconciling svc interval w" and "\<forall>i. rec_step st (act i) (\<sigma> i) (\<sigma> (Suc i))"
    and "\<forall>n i. (\<forall>j \<ge> i. loop_return n (\<sigma> j) \<noteq> None) \<longrightarrow> (\<exists>j \<ge> i. act j = Return n)"
    and "act i = CallStop" and "fst (rec_Stop (\<sigma> i)) = Some n"
  shows "\<exists>j > i. \<forall>k \<ge> j. lp_closed (rc_loops (\<sigma> k) ! n) \<and> act k \<noteq> Pass n"
proof -
  have run: "rec_run st (\<sigma> 0) (map act [0..<k]) (\<sigma> k)" for k
    by (induction k) (use assms(2) in \<open>auto intro: rec_run.intros\<close>)
  have inv: "rec_inv (\<sigma> k)" for k
    by (rule rec_inv_run [OF run]) (simp only: assms(1) rec_inv_fresh)
  have stays: "n < length (rc_loops (\<sigma> k)) \<and> (P (rc_loops (\<sigma> j) ! n) \<longrightarrow> P (rc_loops (\<sigma> k) ! n))"
    if "j \<le> k" "n < length (rc_loops (\<sigma> j))" "P = lp_ctx_done \<or> P = lp_closed" for j k P
    using that(1)
  proof (induction rule: dec_induct)
    case (step k)
    then show ?case using loop_stays [of st "act k" "\<sigma> k" "\<sigma> (Suc k)" n] assms(2) that(3) by auto
  qed (use that in simp)
  have n: "n < length (rc_loops (\<sigma> i))" and c: "rec_cancel (rc_rec (\<sigma> i)) = Some n"
    using inv [of i] assms(5) by (auto simp: rec_inv_def rec_Stop_def Let_def split: option.splits)
  have "\<sigma> (Suc i) = snd (rec_Stop (\<sigma> i))"
    using assms(2) [rule_format, of i] assms(4) by (auto elim: rec_step_elims)
  then have s: "n < length (rc_loops (\<sigma> (Suc i)))" "lp_ctx_done (rc_loops (\<sigma> (Suc i)) ! n)"
    using n c by (simp_all add: rec_Stop_def ctx_cancel_def Let_def)
  have "\<exists>j \<ge> Suc i. lp_closed (rc_loops (\<sigma> j) ! n)"
  proof (rule ccontr)
    assume never: "\<not> ?thesis"
    then have "\<forall>j \<ge> Suc i. loop_return n (\<sigma> j) \<noteq> None"
      using stays [OF _ s(1), of _ lp_ctx_done] s(2) by (auto simp: loop_return_def)
    with assms(3) obtain j where j: "j \<ge> Suc i" "act j = Return n" by blast
    then have "lp_closed (rc_loops (\<sigma> (Suc j)) ! n)"
      using Return_closes [of st n "\<sigma> j" "\<sigma> (Suc j)"] assms(2) by (metis)
    with never j(1) show False by (meson le_SucI)
  qed
  then obtain j where j: "j \<ge> Suc i" "lp_closed (rc_loops (\<sigma> j) ! n)" by blast
  have nj: "n < length (rc_loops (\<sigma> j))" using stays [OF j(1) s(1), of lp_closed] by simp
  have "lp_closed (rc_loops (\<sigma> k) ! n) \<and> act k \<noteq> Pass n" if "k \<ge> j" for k
  proof -
    have cl: "lp_closed (rc_loops (\<sigma> k) ! n)" using stays [OF that nj, of lp_closed] j(2) by simp
    moreover have "act k \<noteq> Pass n" using assms(2) [rule_format, of k] cl Pass_open by metis
    ultimately show ?thesis ..
  qed
  with j(1) show ?thesis by (intro exI [of _ j]) simp
qed

text \<open>C39: when the context given to \<open>Start\<close> ends, the goroutine returns but the reconciler still counts as started:
  until a \<open>Stop\<close>, every further \<open>Start\<close> does nothing and nothing is reconciled.\<close>

theorem ended_context_blocks_start:
  assumes "rec_run st (fresh_reconciling (Some svc) interval w) as s" and "rec_cancel (rc_rec s) = Some n"
    and "\<forall>m < length (rc_loops s). lp_closed (rc_loops s ! m)" and "rec_run st s bs s'" and "CallStop \<notin> set bs"
  shows "rec_Start s' = s' \<and> loop_pass st m s' = None"
proof -
  have "rec_cancel (rc_rec s') = Some n \<and> rec_service (rc_rec s') = Some svc
    \<and> (\<forall>m < length (rc_loops s'). lp_closed (rc_loops s' ! m))"
    using assms(4,5)
  proof (induction rule: rec_run.induct)
    case nil
    then show ?case
      using assms(2,3) service_run [OF assms(1)] by (simp add: fresh_reconciling_def NewDirectoryReconciler_def Let_def)
  next
    case (snoc bs s a s')
    then have IH: "rec_cancel (rc_rec s) = Some n" "rec_service (rc_rec s) = Some svc"
      "\<And>m. m < length (rc_loops s) \<Longrightarrow> lp_closed (rc_loops s ! m)" and a: "a \<noteq> CallStop" by auto
    from snoc.hyps(2) show ?case
      using IH a by cases (auto simp: rec_Start_def ctx_cancel_def loop_return_def loop_pass_def Let_def nth_updated split: if_splits)
  qed
  then show ?thesis by (auto simp: rec_Start_def Let_def loop_pass_def)
qed

section \<open>An example\<close>

text \<open>A reconciler that is started, stopped, and whose goroutine then returns; after that \<open>Stop\<close> is called again and again.\<close>

definition ex_action :: "nat \<Rightarrow> rec_action" where
  "ex_action k = (if k = 0 then CallStart else if k = 2 then Return 0 else CallStop)"

definition ex_rec :: "rec_loop list \<Rightarrow> nat option \<Rightarrow> MemoryStore Reconciling" where
  "ex_rec loops run = \<lparr>rc_rec = \<lparr>rec_service = Some ex_svc, rec_interval = 10 * Minute, rec_cancel = run, rec_done = run\<rparr>,
     rc_loops = loops, rc_world = ex_world ''p1''\<rparr>"

definition ex_loop :: "bool \<Rightarrow> bool \<Rightarrow> rec_loop" where
  "ex_loop ended closed = \<lparr>lp_ctx_done = ended, lp_tick = False, lp_closed = closed\<rparr>"

definition ex_states :: "nat \<Rightarrow> MemoryStore Reconciling" where
  "ex_states k = (if k = 0 then ex_rec [] None else if k = 1 then ex_rec [ex_loop False False] (Some 0)
     else ex_rec [ex_loop True (k > 2)] None)"

lemma ex_rec_fresh: "fresh_reconciling (Some ex_svc) 0 (ex_world ''p1'') = ex_rec [] None"
  by (simp add: fresh_reconciling_def NewDirectoryReconciler_def ex_rec_def)

lemma ex_rec_ops:
  "rec_Start (ex_rec [] None) = ex_rec [ex_loop False False] (Some 0)"
  "rec_Stop (ex_rec [ex_loop False False] (Some 0)) = (Some 0, ex_rec [ex_loop True False] None)"
  "rec_Stop (ex_rec loops None) = (None, ex_rec loops None)"
  "loop_return 0 (ex_rec [ex_loop True False] run) = Some (ex_rec [ex_loop True True] run)"
  "ctx_cancel 0 (ex_rec [ex_loop False False] run) = ex_rec [ex_loop True False] run"
  by (simp_all add: rec_Start_def rec_Stop_def loop_return_def ctx_cancel_def ex_rec_def ex_loop_def Let_def)

lemma ex_rec_step: "rec_step memory_store (ex_action k) (ex_states k) (ex_states (Suc k))"
proof -
  consider "k = 0" | "k = 1" | "k = 2" | "k > 2" by linarith
  then show ?thesis
  proof cases
    case 1
    then show ?thesis using rec_step.call_start [of memory_store "ex_rec [] None"]
      by (simp add: ex_action_def ex_states_def ex_rec_ops)
  next
    case 2
    then show ?thesis using rec_step.call_stop [of memory_store "ex_rec [ex_loop False False] (Some 0)"]
      by (simp add: ex_action_def ex_states_def ex_rec_ops)
  next
    case 3
    then show ?thesis using rec_step.return [OF ex_rec_ops(4), of memory_store None]
      by (simp add: ex_action_def ex_states_def)
  next
    case 4
    then show ?thesis using rec_step.call_stop [of memory_store "ex_rec [ex_loop True True] None"]
      by (simp add: ex_action_def ex_states_def ex_rec_ops)
  qed
qed

theorem stop_returns_witness:
  "\<exists>j > 1. \<forall>k \<ge> j. lp_closed (rc_loops (ex_states k) ! 0) \<and> ex_action k \<noteq> Pass 0"
proof (rule stop_returns [where svc = "Some ex_svc" and interval = 0 and w = "ex_world ''p1''" and st = memory_store])
  show "ex_states 0 = fresh_reconciling (Some ex_svc) 0 (ex_world ''p1'')" by (simp add: ex_states_def ex_rec_fresh)
  show "\<forall>i. rec_step memory_store (ex_action i) (ex_states i) (ex_states (Suc i))" by (simp add: ex_rec_step)
  show "\<forall>n i. (\<forall>j \<ge> i. loop_return n (ex_states j) \<noteq> None) \<longrightarrow> (\<exists>j \<ge> i. ex_action j = Return n)"
  proof (intro allI impI)
    fix n i :: nat
    assume "\<forall>j \<ge> i. loop_return n (ex_states j) \<noteq> None"
    then have "loop_return n (ex_states (i + 3)) \<noteq> None" by simp
    then show "\<exists>j \<ge> i. ex_action j = Return n"
      by (simp add: loop_return_def ex_states_def ex_rec_def ex_loop_def split: if_splits)
  qed
  show "ex_action 1 = CallStop" by (simp add: ex_action_def)
  show "fst (rec_Stop (ex_states 1)) = Some 0" by (simp add: ex_states_def ex_rec_ops)
qed

lemma ex_rec_runs:
  "rec_run memory_store (ex_rec [] None) [CallStart] (ex_rec [ex_loop False False] (Some 0))"
  "rec_run memory_store (ex_rec [] None) [CallStart, ParentDone 0, Return 0] (ex_rec [ex_loop True True] (Some 0))"
proof -
  let ?r = "ex_rec [ex_loop False False] (Some 0)" and ?st = memory_store
  have start: "rec_step ?st CallStart (ex_rec [] None) ?r"
    using rec_step.call_start [of ?st "ex_rec [] None"] by (simp add: ex_rec_ops)
  from rec_run.snoc [OF rec_run.nil start] show r1: "rec_run ?st (ex_rec [] None) [CallStart] ?r" by simp
  have ended: "rec_step ?st (ParentDone 0) ?r (ex_rec [ex_loop True False] (Some 0))"
    using rec_step.parent_done [of 0 ?r ?st] by (simp add: ex_rec_ops) (simp add: ex_rec_def)
  from rec_run.snoc [OF rec_run.snoc [OF r1 ended] rec_step.return [OF ex_rec_ops(4)]]
  show "rec_run ?st (ex_rec [] None) [CallStart, ParentDone 0, Return 0] (ex_rec [ex_loop True True] (Some 0))" by simp
qed

theorem one_loop_at_a_time_witness:
  "lp_ctx_done (rc_loops (snd (rec_Stop (ex_rec [ex_loop False False] (Some 0)))) ! 0)"
proof -
  have run: "rec_run memory_store (fresh_reconciling (Some ex_svc) 0 (ex_world ''p1'')) [CallStart] (ex_rec [ex_loop False False] (Some 0))"
    by (simp only: ex_rec_fresh ex_rec_runs)
  show ?thesis by (rule one_loop_at_a_time [OF run, THEN conjunct1]) (simp add: ex_rec_def)
qed

theorem reconciler_refines_service_witness:
  "(service_step memory_store ex_svc)\<^sup>*\<^sup>* (ex_world ''p1'') (rc_world (ex_rec [ex_loop True True] (Some 0)))"
  by (rule reconciler_refines_service [OF ex_rec_runs(2) [folded ex_rec_fresh]])

theorem ended_context_blocks_start_witness:
  "rec_Start (ex_rec [ex_loop True True] (Some 0)) = ex_rec [ex_loop True True] (Some 0)"
proof (rule ended_context_blocks_start [OF ex_rec_runs(2) [folded ex_rec_fresh] _ _ rec_run.nil, THEN conjunct1])
qed (simp_all add: ex_rec_def ex_loop_def)

end
