(* ===== verification/Webhub_Notify.thy ===== *)
theory Webhub_Notify
  imports Go_URL Go_Time
begin

text \<open>
  The notification client: \<open>src/webhub/notify/client.go\<close>. It exchanges its API key for an internal token, keeps
  that until shortly before it expires, and posts events with it. The HTTP client, \<open>encoding/json\<close> and the clock are
  parameters; the \<open>k\<close>-th request gets the answer \<open>env_do k\<close>.
\<close>

section \<open>Configuration\<close>

record NotifyEvent =
  ev_Type :: string
  ev_Title :: string
  ev_Body :: string
  ev_TenantID :: string
  ev_SourceApp :: string
  ev_Severity :: string
  ev_Href :: string
  ev_RecipientType :: string
  ev_RecipientID :: string

record NotifyConfig =
  nc_Enabled :: bool
  nc_WebHubURL :: string
  nc_WardenURL :: string
  nc_APIKey :: string
  nc_Audience :: string
  nc_Scopes :: "string list"
  nc_HTTPTimeout :: duration
  nc_TokenSafetyMargin :: duration

text \<open>\<open>cl_timeout\<close> is the timeout of the HTTP client, zero for \<open>http.DefaultClient\<close>; \<open>cl_reads\<close> and \<open>cl_requests\<close>
  count the readings of the clock and the requests.\<close>

record Client =
  cl_cfg :: NotifyConfig
  cl_timeout :: duration
  cl_cachedToken :: string
  cl_cachedExpiry :: time
  cl_reads :: nat
  cl_requests :: nat

definition new_client :: "NotifyConfig \<Rightarrow> duration \<Rightarrow> Client" where
  "new_client cfg timeout = \<lparr>cl_cfg = cfg, cl_timeout = timeout, cl_cachedToken = [], cl_cachedExpiry = zero_time,
     cl_reads = 0, cl_requests = 0\<rparr>"

definition notify_defaults :: "NotifyConfig \<Rightarrow> NotifyConfig" where
  "notify_defaults cfg0 =
    (let cfg = (if TrimSpace (nc_Audience cfg0) = [] then cfg0\<lparr>nc_Audience := ''webhub''\<rparr> else cfg0);
         cfg = (if length (nc_Scopes cfg) = 0 then cfg\<lparr>nc_Scopes := [''webhub:notifications:write'']\<rparr> else cfg);
         cfg = (if nc_HTTPTimeout cfg \<le> 0 then cfg\<lparr>nc_HTTPTimeout := 5 * Second\<rparr> else cfg);
         cfg = (if nc_TokenSafetyMargin cfg \<le> 0 then cfg\<lparr>nc_TokenSafetyMargin := 30 * Second\<rparr> else cfg)
     in cfg)"

definition NewClient :: "NotifyConfig \<Rightarrow> Client res" where
  "NewClient cfg =
    (if \<not> nc_Enabled cfg then Inr (new_client cfg 0)
     else if TrimSpace (nc_WebHubURL cfg) = [] then Inl (Errorf ''notify: webhub_url is required when enabled'')
     else if TrimSpace (nc_WardenURL cfg) = [] then Inl (Errorf ''notify: warden_url is required when enabled'')
     else if TrimSpace (nc_APIKey cfg) = [] then Inl (Errorf ''notify: api_key is required when enabled'')
     else Inr (new_client (notify_defaults cfg) (nc_HTTPTimeout (notify_defaults cfg))))"

section \<open>Requests\<close>

text \<open>A request: its URL, the headers and the body; all are \<open>POST\<close>.\<close>

record notify_request =
  nr_URL :: string
  nr_Header :: "(string \<times> string) list"
  nr_Body :: string

text \<open>
  The environment. An answer is an error, or a status and the bytes of the body that could be read;
  \<open>env_unmarshal\<close> gives the members \<open>token\<close> and \<open>expires_at\<close>, the latter zero if it is missing.
\<close>

record NotifyEnv =
  env_now :: "nat \<Rightarrow> time"
  env_do :: "nat \<Rightarrow> duration \<Rightarrow> notify_request \<Rightarrow> string + int \<times> string"
  env_marshal_request :: "string \<times> string \<times> string list \<Rightarrow> string res"
  env_marshal_event :: "NotifyEvent \<Rightarrow> string res"
  env_unmarshal :: "string \<Rightarrow> (string \<times> int) res"

definition read_clock :: "NotifyEnv \<Rightarrow> (Client, time) op" where
  "read_clock env c = (Inr (env_now env (cl_reads c)), c\<lparr>cl_reads := Suc (cl_reads c)\<rparr>)"

definition http_Do :: "NotifyEnv \<Rightarrow> notify_request \<Rightarrow> (Client, int \<times> string) op" where
  "http_Do env req c =
    (case env_do env (cl_requests c) (cl_timeout c) req of Inl msg \<Rightarrow> Inl (Errorf msg) | Inr answer \<Rightarrow> Inr answer,
     c\<lparr>cl_requests := Suc (cl_requests c)\<rparr>)"

text \<open>\<open>http.NewRequestWithContext\<close> fails when the URL does not parse.\<close>

definition new_request :: "string \<Rightarrow> (string \<times> string) list \<Rightarrow> string \<Rightarrow> notify_request res" where
  "new_request url header body =
    (case Parse url of None \<Rightarrow> Inl (Errorf ''parse url'')
     | Some _ \<Rightarrow> Inr \<lparr>nr_URL = url, nr_Header = header, nr_Body = body\<rparr>)"

fun scopesToActions :: "string list \<Rightarrow> string list" where
  "scopesToActions [] = []"
| "scopesToActions (s0 # rest) =
    (let s = TrimSpace s0 in
     if s = [] then scopesToActions rest
     else (if CHR '':'' \<in> set s then rev (takeWhile (\<lambda>c. c \<noteq> CHR '':'') (rev s)) else s) # scopesToActions rest)"

definition notify_signInternalJWT :: "NotifyEnv \<Rightarrow> (Client, string \<times> time) op" where
  "notify_signInternalJWT env =
    bnd (get_st cl_cfg) (\<lambda>cfg.
    bnd (wrapped ''marshal token request''
      (lift_res (env_marshal_request env (nc_APIKey cfg, nc_Audience cfg, scopesToActions (nc_Scopes cfg))))) (\<lambda>body.
    let endpoint = TrimRightChar (nc_WardenURL cfg) CHR ''/'' @ ''/v1/internal-jwts'' in
    bnd (lift_res (new_request endpoint [(''Content-Type'', ''application/json'')] body)) (\<lambda>req.
    bnd (wrapped ''warden token request'' (http_Do env req)) (\<lambda>(status, respBody).
      if status \<ge> 400 then fail (Errorf (''warden token http '' @ Itoa status @ '': '' @ TrimSpace respBody))
      else bnd (wrapped ''decode token response'' (lift_res (env_unmarshal env respBody))) (\<lambda>(token, expiresAt).
        if TrimSpace token = [] then fail (Errorf ''warden returned empty token'')
        else let expiry = time_Unix expiresAt in
          if IsZero expiry then bnd (read_clock env) (\<lambda>now. ret (token, now + 2 * Minute))
          else ret (token, expiry))))))"

definition notify_token :: "NotifyEnv \<Rightarrow> (Client, string) op" where
  "notify_token env =
    bnd (get_st id) (\<lambda>c.
    bnd (if cl_cachedToken c \<noteq> [] then read_clock env else ret zero_time) (\<lambda>now.
      if cl_cachedToken c \<noteq> [] \<and> Before (now + nc_TokenSafetyMargin (cl_cfg c)) (cl_cachedExpiry c)
      then ret (cl_cachedToken c)
      else bnd (notify_signInternalJWT env) (\<lambda>(token, expiry).
        bnd (upd_st (\<lambda>c. c\<lparr>cl_cachedToken := token, cl_cachedExpiry := expiry\<rparr>)) (\<lambda>_. ret token))))"

definition notify_post :: "NotifyEnv \<Rightarrow> NotifyConfig \<Rightarrow> NotifyEvent \<Rightarrow> string \<Rightarrow> (Client, unit) op" where
  "notify_post env cfg event token =
    bnd (wrapped ''notify: marshal'' (lift_res (env_marshal_event env event))) (\<lambda>payload.
    bnd (wrapped ''notify: build request'' (lift_res (new_request (nc_WebHubURL cfg)
      [(''Content-Type'', ''application/json''), (''X-Saker-Internal-Authorization'', ''Bearer '' @ token)] payload))) (\<lambda>req.
    bnd (wrapped ''notify: post'' (http_Do env req)) (\<lambda>(status, body).
      if status \<ge> 400 then fail (Errorf (''notify: webhub responded '' @ Itoa status @ '': '' @ TrimSpace body))
      else ret ())))"

definition Notify :: "NotifyEnv \<Rightarrow> NotifyEvent \<Rightarrow> (Client, unit) op" where
  "Notify env event =
    bnd (get_st cl_cfg) (\<lambda>cfg.
      if \<not> nc_Enabled cfg then ret ()
      else if TrimSpace (ev_Title event) = [] then fail (Errorf ''notify: title is required'')
      else bnd (wrapped ''notify: get token'' (notify_token env)) (notify_post env cfg event))"

section \<open>Tokens\<close>

text \<open>The token request, and when the kept token is used.\<close>

definition reusable :: "NotifyEnv \<Rightarrow> Client \<Rightarrow> bool" where
  "reusable env c \<longleftrightarrow> cl_cachedToken c \<noteq> []
     \<and> Before (env_now env (cl_reads c) + nc_TokenSafetyMargin (cl_cfg c)) (cl_cachedExpiry c)"

lemma signInternalJWT_cases:
  obtains (failed) e where "fst (notify_signInternalJWT env c) = Inl e"
      "cl_cachedToken (snd (notify_signInternalJWT env c)) = cl_cachedToken c"
      "cl_cachedExpiry (snd (notify_signInternalJWT env c)) = cl_cachedExpiry c"
      "cl_cfg (snd (notify_signInternalJWT env c)) = cl_cfg c"
  | (signed) req status body t e now where "env_do env (cl_requests c) (cl_timeout c) req = Inr (status, body)" "status < 400"
      "env_unmarshal env body = Inr (t, e)" "TrimSpace t \<noteq> []"
      "fst (notify_signInternalJWT env c) = Inr (t, if IsZero (time_Unix e) then now + 2 * Minute else time_Unix e)"
      "cl_requests (snd (notify_signInternalJWT env c)) = Suc (cl_requests c)"
      "cl_cfg (snd (notify_signInternalJWT env c)) = cl_cfg c"
proof -
  let ?cfg = "cl_cfg c" and ?m = "notify_signInternalJWT env" and ?c = "c\<lparr>cl_requests := Suc (cl_requests c)\<rparr>"
  let ?body = "env_marshal_request env (nc_APIKey ?cfg, nc_Audience ?cfg, scopesToActions (nc_Scopes ?cfg))"
  let ?req = "\<lambda>body. new_request (TrimRightChar (nc_WardenURL ?cfg) CHR ''/'' @ ''/v1/internal-jwts'') [(''Content-Type'', ''application/json'')] body"
  note d = notify_signInternalJWT_def Let_def
  show thesis
  proof (cases ?body)
    case (Inl e)
    then show thesis by (intro failed) (simp_all add: d op_simps)
  next
    case body: (Inr b)
    show thesis
    proof (cases "?req b")
      case (Inl e)
      with body show thesis by (intro failed) (simp_all add: d op_simps)
    next
      case req: (Inr r)
      show thesis
      proof (cases "env_do env (cl_requests c) (cl_timeout c) r")
        case (Inl msg)
        with body req show thesis by (intro failed) (simp_all add: d op_simps http_Do_def)
      next
        case (Inr answer)
        then obtain status rb where a: "env_do env (cl_requests c) (cl_timeout c) r = Inr (status, rb)" by (cases answer) auto
        show thesis
        proof (cases "status < 400 \<and> (\<exists>t e. env_unmarshal env rb = Inr (t, e) \<and> TrimSpace t \<noteq> [])")
          case False
          then have "(\<exists>e. fst (?m c) = Inl e) \<and> cl_cachedToken (snd (?m c)) = cl_cachedToken c
              \<and> cl_cachedExpiry (snd (?m c)) = cl_cachedExpiry c \<and> cl_cfg (snd (?m c)) = ?cfg"
            using body req a by (cases "env_unmarshal env rb") (auto simp: d op_simps http_Do_def not_less)
          then show thesis by (elim conjE exE) (rule failed)
        next
          case True
          then obtain t e where u: "status < 400" "env_unmarshal env rb = Inr (t, e)" "TrimSpace t \<noteq> []" by blast
          show thesis
            by (rule signed [OF a u, of "env_now env (cl_reads c)"])
              (use body req a u in \<open>simp_all add: d op_simps http_Do_def read_clock_def\<close>)
        qed
      qed
    qed
  qed
qed

lemma notify_token_cases:
  obtains (kept) "reusable env c" "fst (notify_token env c) = Inr (cl_cachedToken c)"
      "snd (notify_token env c) = c\<lparr>cl_reads := Suc (cl_reads c)\<rparr>"
  | (failed) e where "\<not> reusable env c" "fst (notify_token env c) = Inl e"
      "cl_cachedToken (snd (notify_token env c)) = cl_cachedToken c"
      "cl_cachedExpiry (snd (notify_token env c)) = cl_cachedExpiry c" "cl_cfg (snd (notify_token env c)) = cl_cfg c"
  | (signed) req status body t e now where "\<not> reusable env c" "env_do env (cl_requests c) (cl_timeout c) req = Inr (status, body)"
      "status < 400" "env_unmarshal env body = Inr (t, e)" "TrimSpace t \<noteq> []" "fst (notify_token env c) = Inr t"
      "cl_cachedToken (snd (notify_token env c)) = t"
      "cl_cachedExpiry (snd (notify_token env c)) = (if IsZero (time_Unix e) then now + 2 * Minute else time_Unix e)"
      "cl_requests (snd (notify_token env c)) = Suc (cl_requests c)" "cl_cfg (snd (notify_token env c)) = cl_cfg c"
proof (cases "reusable env c")
  case True
  then show thesis by (intro kept) (simp_all add: notify_token_def reusable_def op_simps read_clock_def)
next
  case False
  define c' where "c' = (if cl_cachedToken c \<noteq> [] then c\<lparr>cl_reads := Suc (cl_reads c)\<rparr> else c)"
  have e: "notify_token env c = bnd (notify_signInternalJWT env) (\<lambda>(token, expiry).
      bnd (upd_st (\<lambda>c. c\<lparr>cl_cachedToken := token, cl_cachedExpiry := expiry\<rparr>)) (\<lambda>_. ret token)) c'"
    using False by (auto simp: notify_token_def reusable_def op_simps read_clock_def c'_def)
  have c': "cl_cachedToken c' = cl_cachedToken c" "cl_cachedExpiry c' = cl_cachedExpiry c" "cl_cfg c' = cl_cfg c"
    "cl_requests c' = cl_requests c" "cl_timeout c' = cl_timeout c" by (simp_all add: c'_def)
  show thesis
  proof (cases rule: signInternalJWT_cases [where env = env and c = c'])
    case (failed e)
    then show thesis using False c' by (intro that(2)) (simp_all add: \<open>notify_token env c = _\<close> op_simps)
  next
    case (signed req status body t e now)
    then show thesis using False c' by (intro that(3)) (simp_all add: \<open>notify_token env c = _\<close> op_simps)
  qed
qed

text \<open>C38: A token is used again only if, by the clock, it stays valid longer than the safety margin; otherwise the
  token that is used is the one that the service just answered, and not blank.\<close>

theorem notify_token_fresh:
  assumes "fst (notify_token env c) = Inr t"
  shows "t = cl_cachedToken c \<and> t \<noteq> [] \<and> cl_requests (snd (notify_token env c)) = cl_requests c
      \<and> env_now env (cl_reads c) + nc_TokenSafetyMargin (cl_cfg c) < cl_cachedExpiry c
    \<or> (\<exists>req status body e. env_do env (cl_requests c) (cl_timeout c) req = Inr (status, body) \<and> status < 400
        \<and> env_unmarshal env body = Inr (t, e) \<and> TrimSpace t \<noteq> [] \<and> cl_requests (snd (notify_token env c)) = Suc (cl_requests c))"
proof (cases rule: notify_token_cases [where env = env and c = c])
  case kept
  then show ?thesis using assms by (simp add: reusable_def Before_def)
next
  case (failed e)
  then show ?thesis using assms by simp
next
  case (signed req status body t' e now)
  then show ?thesis using assms by auto
qed

section \<open>Runs\<close>

inductive notify_step :: "NotifyEnv \<Rightarrow> Client \<Rightarrow> Client \<Rightarrow> bool" for env where
  notify: "notify_step env c (snd (Notify env event c))"

text \<open>Only the exchange of the token changes what is kept.\<close>

lemma Notify_keeps:
  defines "keeps \<equiv> \<lambda>c c'. cl_cachedToken c' = cl_cachedToken c \<and> cl_cachedExpiry c' = cl_cachedExpiry c \<and> cl_cfg c' = cl_cfg c"
  shows "keeps c (snd (Notify env event c)) \<or> keeps (snd (notify_token env c)) (snd (Notify env event c))"
proof -
  have post: "keeps d (snd (notify_post env cfg event token d))" for cfg token d
  proof (cases "env_marshal_event env event")
    case (Inl e)
    then show ?thesis by (simp add: keeps_def notify_post_def op_simps)
  next
    case payload: (Inr payload)
    define r where "r = new_request (nc_WebHubURL cfg)
      [(''Content-Type'', ''application/json''), (''X-Saker-Internal-Authorization'', ''Bearer '' @ token)] payload"
    show ?thesis
    proof (cases r)
      case (Inl e)
      with payload show ?thesis unfolding notify_post_def r_def by (simp add: keeps_def op_simps del: append_Cons append_Nil)
    next
      case (Inr req)
      with payload show ?thesis unfolding notify_post_def r_def
        by (cases "fst (http_Do env req d)") (auto simp: keeps_def op_simps simp del: append_Cons append_Nil, simp_all add: http_Do_def)
    qed
  qed
  have refl: "keeps c c" by (simp add: keeps_def)
  show ?thesis
  proof (cases "nc_Enabled (cl_cfg c) \<and> TrimSpace (ev_Title event) \<noteq> []")
    case False
    with refl show ?thesis by (auto simp: Notify_def op_simps)
  next
    case enabled: True
    show ?thesis
    proof (cases "fst (notify_token env c)")
      case (Inl e)
      with enabled have "snd (Notify env event c) = snd (notify_token env c)" by (simp add: Notify_def op_simps)
      then show ?thesis by (simp add: keeps_def)
    next
      case (Inr token)
      with enabled have "Notify env event c = notify_post env (cl_cfg c) event token (snd (notify_token env c))"
        by (simp add: Notify_def op_simps)
      then show ?thesis using post [of "snd (notify_token env c)"] by simp
    qed
  qed
qed

text \<open>The service answers a token request without \<open>expires_at\<close>, which decodes to zero; then the client never uses
  a token twice, although the expiry it falls back to is meant to be two minutes: every token that is used is
  requested anew.\<close>

theorem notify_expiry_missing:
  assumes "\<forall>body t e. env_unmarshal env body = Inr (t, e) \<longrightarrow> e = 0" and "\<forall>n. time_Unix 0 \<le> env_now env n"
    and "NewClient cfg = Inr c0" and "nc_Enabled cfg" and "(notify_step env)\<^sup>*\<^sup>* c0 c" and "fst (notify_token env c) = Inr t"
  shows "cl_requests (snd (notify_token env c)) = Suc (cl_requests c)"
proof -
  have m: "nc_TokenSafetyMargin (cl_cfg c0) > 0" and z: "cl_cachedExpiry c0 = zero_time"
    using assms(3,4) by (auto simp: NewClient_def new_client_def notify_defaults_def Let_def Second_def split: if_splits)
  have token: "cl_cachedExpiry (snd (notify_token env c)) \<le> time_Unix 0 \<and> cl_cfg (snd (notify_token env c)) = cl_cfg c"
    if "cl_cachedExpiry c \<le> time_Unix 0" for c
  proof (cases rule: notify_token_cases [where env = env and c = c])
    case kept
    then show ?thesis using that by simp
  next
    case (failed e)
    then show ?thesis using that by simp
  next
    case (signed req status body t e now)
    moreover have "e = 0" using assms(1) signed(4) by blast
    moreover have "\<not> IsZero (time_Unix 0)" by (simp add: IsZero_def zero_time_def time_Unix_def Second_def)
    ultimately show ?thesis by simp
  qed
  have "cl_cachedExpiry c \<le> time_Unix 0 \<and> cl_cfg c = cl_cfg c0"
    using assms(5)
  proof (induction rule: rtranclp_induct)
    case base
    then show ?case using z by (simp add: zero_time_def time_Unix_def Second_def)
  next
    case (step c c')
    from step.hyps(2) obtain event where c': "c' = snd (Notify env event c)" by cases
    from step.IH token [of c] Notify_keeps [where c = c and env = env and event = event] show ?case by (auto simp: c')
  qed
  with m assms(2) have "\<not> reusable env c" by (auto simp: reusable_def Before_def not_less dest!: spec [of _ "cl_reads c"])
  with assms(6) show ?thesis by (cases rule: notify_token_cases [where env = env and c = c]) auto
qed

section \<open>An example\<close>

text \<open>The clock is seconds after the epoch; every request is answered by a token that has the number of the request as
  its length, and \<open>expires_at\<close> is \<open>e\<close>.\<close>

definition ex_env :: "int \<Rightarrow> NotifyEnv" where
  "ex_env e = \<lparr>env_now = (\<lambda>n. time_Unix (int n)), env_do = (\<lambda>k _ _. Inr (200, replicate (Suc k) CHR ''t'')),
     env_marshal_request = (\<lambda>_. Inr ''{}''), env_marshal_event = (\<lambda>_. Inr ''{}''), env_unmarshal = (\<lambda>body. Inr (body, e))\<rparr>"

definition ex_config :: NotifyConfig where
  "ex_config = \<lparr>nc_Enabled = True, nc_WebHubURL = ''http://h/v1/n'', nc_WardenURL = ''http://w/'', nc_APIKey = ''k'',
     nc_Audience = [], nc_Scopes = [], nc_HTTPTimeout = 0, nc_TokenSafetyMargin = 0\<rparr>"

definition ex_event :: NotifyEvent where
  "ex_event = \<lparr>ev_Type = [], ev_Title = ''x'', ev_Body = [], ev_TenantID = [], ev_SourceApp = [], ev_Severity = [], ev_Href = [],
     ev_RecipientType = [], ev_RecipientID = []\<rparr>"

definition ex_client :: "nat \<Rightarrow> int \<Rightarrow> Client" where
  "ex_client n e = ((snd \<circ> Notify (ex_env e) ex_event) ^^ n) (new_client (notify_defaults ex_config) (5 * Second))"

lemma ex_client_steps: "(notify_step (ex_env e))\<^sup>*\<^sup>* (ex_client 0 e) (ex_client n e)"
  by (induction n) (auto simp: ex_client_def intro: notify_step.notify rtranclp.rtrancl_into_rtrancl)

lemma ex_NewClient: "NewClient ex_config = Inr (ex_client 0 e)"
proof -
  have t: "TrimSpace ''k'' \<noteq> []" "TrimSpace ''http://w/'' \<noteq> []" "TrimSpace ''http://h/v1/n'' \<noteq> []" "TrimSpace [] = []"
    by code_simp+
  show ?thesis by (simp add: NewClient_def ex_client_def ex_config_def notify_defaults_def Let_def t)
qed

text \<open>With \<open>expires_at\<close> the token is used again; without, each notification requests a token.\<close>

theorem notify_token_fresh_witness:
  "cl_requests (ex_client 1 1000) = 2 \<and> fst (notify_token (ex_env 1000) (ex_client 1 1000)) = Inr ''t''
   \<and> cl_requests (snd (notify_token (ex_env 1000) (ex_client 1 1000))) = 2"
proof -
  have t: "fst (notify_token (ex_env 1000) (ex_client 1 1000)) = Inr ''t''" by code_simp
  have r: "cl_requests (ex_client 1 1000) = 2" by code_simp
  have "cl_cachedToken (ex_client 1 1000) = ''t'' \<and> env_do (ex_env 1000) 2 d q \<noteq> Inr (s, ''t'')" for d q s
    by (simp add: ex_env_def) code_simp
  with notify_token_fresh [OF t] t r show ?thesis by (auto simp: ex_env_def)
qed

theorem notify_expiry_missing_witness:
  "cl_requests (ex_client 1 0) = 2 \<and> cl_requests (snd (notify_token (ex_env 0) (ex_client 1 0))) = 3"
proof -
  have t: "fst (notify_token (ex_env 0) (ex_client 1 0)) = Inr ''ttt''" by code_simp
  have r: "cl_requests (ex_client 1 0) = 2" by code_simp
  have "cl_requests (snd (notify_token (ex_env 0) (ex_client 1 0))) = Suc (cl_requests (ex_client 1 0))"
  proof (rule notify_expiry_missing [OF _ _ ex_NewClient _ ex_client_steps t])
    show "\<forall>body t e. env_unmarshal (ex_env 0) body = Inr (t, e) \<longrightarrow> e = 0" by (simp add: ex_env_def)
    show "\<forall>n. time_Unix 0 \<le> env_now (ex_env 0) n" by (simp add: ex_env_def time_Unix_def Second_def)
    show "nc_Enabled ex_config" by (simp add: ex_config_def)
  qed
  with r show ?thesis by simp
qed

end
