(* ===== verification/Gorm_Database.thy ===== *)
theory Gorm_Database
  imports Go_Time "HOL-Library.Multiset"
begin

text \<open>
  What \<open>src/warden/gorm_store.go\<close> uses of GORM and of the database behind it: the statements on one table, as a record
  of operations on a database \<open>'d\<close>. Their documented behaviour is the locale \<open>gorm_table\<close>, over the rows \<open>content\<close>
  that a database holds; a condition is a predicate on rows. \<open>rel_table\<close> is a database that keeps lists of rows.
\<close>

section \<open>Statements\<close>

text \<open>\<open>tab_First\<close> gives no row where GORM returns \<open>ErrRecordNotFound\<close>; \<open>tab_Delete\<close> and \<open>tab_Updates\<close> give \<open>RowsAffected\<close>.
  The second argument of \<open>tab_Find\<close> is the order: which rows may stand before which.\<close>

record ('d, 'm) gtable =
  tab_Save :: "'m \<Rightarrow> ('d, unit) op"
  tab_Create :: "'m \<Rightarrow> ('d, unit) op"
  tab_First :: "('m \<Rightarrow> bool) \<Rightarrow> ('d, 'm option) op"
  tab_Find :: "('m \<Rightarrow> bool) \<Rightarrow> ('m \<Rightarrow> 'm \<Rightarrow> bool) \<Rightarrow> int option \<Rightarrow> ('d, 'm list) op"
  tab_Delete :: "('m \<Rightarrow> bool) \<Rightarrow> ('d, nat) op"
  tab_Updates :: "('m \<Rightarrow> bool) \<Rightarrow> ('m \<Rightarrow> 'm) \<Rightarrow> ('d, nat) op"

definition gorm_ErrRecordNotFound :: error where
  "gorm_ErrRecordNotFound = Errorf ''record not found''"

definition gorm_First :: "('d, 'm) gtable \<Rightarrow> ('m \<Rightarrow> bool) \<Rightarrow> ('d, 'm) op" where
  "gorm_First t P = bnd (tab_First t P) (\<lambda>r. case r of None \<Rightarrow> fail gorm_ErrRecordNotFound | Some m \<Rightarrow> ret m)"

section \<open>Their effect\<close>

text \<open>\<open>INSERT ... ON CONFLICT DO UPDATE\<close> on the primary key.\<close>

definition save_row :: "('m \<Rightarrow> 'k) \<Rightarrow> 'm \<Rightarrow> 'm list \<Rightarrow> 'm list" where
  "save_row key m rows =
    (if key m \<in> key ` set rows then map (\<lambda>x. if key x = key m then m else x) rows else rows @ [m])"

definition change_rows :: "('m \<Rightarrow> bool) \<Rightarrow> ('m \<Rightarrow> 'm) \<Rightarrow> 'm list \<Rightarrow> 'm list" where
  "change_rows P f rows = map (\<lambda>m. if P m then f m else m) rows"

definition answers :: "('m \<Rightarrow> bool) \<Rightarrow> ('m \<Rightarrow> 'm \<Rightarrow> bool) \<Rightarrow> int option \<Rightarrow> 'm list \<Rightarrow> 'm list \<Rightarrow> bool" where
  "answers P ord limit rows r \<longleftrightarrow> sorted_wrt ord r \<and>
    (case limit of None \<Rightarrow> mset r = filter_mset P (mset rows)
     | Some n \<Rightarrow> int (length r) \<le> n \<and> (\<exists>rest. mset r + mset rest = filter_mset P (mset rows)
         \<and> (\<forall>y \<in> set rest. int (length r) = n \<and> (\<forall>x \<in> set r. ord x y))))"

definition total_order :: "('m \<Rightarrow> 'm \<Rightarrow> bool) \<Rightarrow> bool" where
  "total_order ord \<longleftrightarrow> (\<forall>a b. ord a b \<or> ord b a) \<and> (\<forall>a b c. ord a b \<longrightarrow> ord b c \<longrightarrow> ord a c)"

text \<open>An error of the database itself, which the store never confuses with a missing row.\<close>

fun db_error :: "error \<Rightarrow> bool" where
  "db_error (Errorf msg) = (msg \<noteq> ''record not found'')"
| "db_error _ = False"

text \<open>
  A statement that fails has no effect; while the database is \<open>up\<close> it only fails when it would violate a constraint
  (\<open>valid\<close>), and it stays up.
\<close>

definition runs :: "('d \<Rightarrow> 't) \<Rightarrow> ('d \<Rightarrow> bool) \<Rightarrow> ('d, 'a) op \<Rightarrow> 'd \<Rightarrow> bool \<Rightarrow> ('a \<Rightarrow> 't \<Rightarrow> bool) \<Rightarrow> bool" where
  "runs content up m d valid P \<longleftrightarrow> (up d \<longrightarrow> up (snd (m d))) \<and>
    (case fst (m d) of
       Inl e \<Rightarrow> db_error e \<and> content (snd (m d)) = content d \<and> \<not> (up d \<and> valid)
     | Inr a \<Rightarrow> valid \<and> P a (content (snd (m d))))"

lemma runs_ok:
  assumes "runs content up m d valid P" and "up d" and "valid"
  obtains a where "fst (m d) = Inr a" "up (snd (m d))" "P a (content (snd (m d)))"
  using assms by (auto simp: runs_def split: sum.splits)

lemma runs_cases:
  assumes "runs content up m d valid P"
  obtains (failed) e where "fst (m d) = Inl e" "db_error e" "content (snd (m d)) = content d"
  | (ran) a where "fst (m d) = Inr a" "valid" "P a (content (snd (m d)))"
  using assms by (auto simp: runs_def split: sum.splits)

lemma runs_up: "runs content up m d valid P \<Longrightarrow> up d \<Longrightarrow> up (snd (m d))"
  by (simp add: runs_def)

text \<open>
  The laws of a table with rows \<open>get\<close>: \<open>stamp\<close> is the column \<open>updated_at\<close>, which GORM sets itself; \<open>complete\<close> says that no
  column that has a default is left blank, and that the primary key is given; \<open>unique\<close> are the other unique columns.
\<close>

locale gorm_table =
  fixes content :: "'d \<Rightarrow> 't" and up :: "'d \<Rightarrow> bool" and get :: "'t \<Rightarrow> 'm list" and put :: "('m list \<Rightarrow> 'm list) \<Rightarrow> 't \<Rightarrow> 't"
    and key :: "'m \<Rightarrow> 'k" and stamp :: "time \<Rightarrow> 'm \<Rightarrow> 'm" and complete :: "'m \<Rightarrow> bool" and unique :: "'m list \<Rightarrow> bool"
    and t :: "('d, 'm) gtable"
  assumes get_put: "get (put g T) = g (get T)" and put_same: "g (get T) = get T \<Longrightarrow> put g T = T"
    and Save: "complete m \<Longrightarrow> runs content up (tab_Save t m) d (unique (save_row key m (get (content d))))
        (\<lambda>_ T. \<exists>now. T = put (save_row key (stamp now m)) (content d))"
    and Create: "complete m \<Longrightarrow> runs content up (tab_Create t m) d
        (key m \<notin> key ` set (get (content d)) \<and> unique (get (content d) @ [m]))
        (\<lambda>_ T. T = put (\<lambda>rows. rows @ [m]) (content d))"
    and First: "runs content up (tab_First t P) d True
        (\<lambda>r T. T = content d \<and> (case r of None \<Rightarrow> \<forall>m \<in> set (get (content d)). \<not> P m | Some m \<Rightarrow> m \<in> set (get (content d)) \<and> P m))"
    and Find: "total_order ord \<Longrightarrow> (\<And>n. limit = Some n \<Longrightarrow> n \<ge> 0) \<Longrightarrow> runs content up (tab_Find t P ord limit) d True
        (\<lambda>r T. T = content d \<and> answers P ord limit (get (content d)) r)"
    and Delete: "runs content up (tab_Delete t P) d True
        (\<lambda>n T. n = length (filter P (get (content d))) \<and> T = put (filter (\<lambda>m. \<not> P m)) (content d))"
    and Updates: "(\<And>m. key (f m) = key m) \<Longrightarrow> runs content up (tab_Updates t P f) d (unique (change_rows P f (get (content d))))
        (\<lambda>n T. n = length (filter P (get (content d))) \<and> (\<exists>now. T = put (change_rows P (\<lambda>m. stamp now (f m))) (content d)))"
begin

lemma gorm_First_cases:
  obtains (failed) e where "fst (gorm_First t P d) = Inl e" "db_error e" "content (snd (gorm_First t P d)) = content d"
      "\<not> up d"
  | (missing) "fst (gorm_First t P d) = Inl gorm_ErrRecordNotFound" "\<forall>m \<in> set (get (content d)). \<not> P m"
      "content (snd (gorm_First t P d)) = content d" "up d \<longrightarrow> up (snd (gorm_First t P d))"
  | (row) m where "fst (gorm_First t P d) = Inr m" "m \<in> set (get (content d))" "P m"
      "content (snd (gorm_First t P d)) = content d" "up d \<longrightarrow> up (snd (gorm_First t P d))"
proof (cases "fst (tab_First t P d)")
  case (Inl e)
  with First [of P d] show thesis by (intro failed) (auto simp: runs_def gorm_First_def op_simps)
next
  case (Inr r)
  then show thesis using First [of P d] missing row
    by (cases r) (auto simp: runs_def gorm_First_def op_simps)
qed

text \<open>The statements while the database is up.\<close>

lemma Save_up:
  assumes "up d" and "complete m" and "unique (save_row key m (get (content d)))"
  obtains d' now where "tab_Save t m d = (Inr (), d')" "up d'" "content d' = put (save_row key (stamp now m)) (content d)"
proof -
  obtain a where a: "fst (tab_Save t m d) = Inr a" "up (snd (tab_Save t m d))"
      "\<exists>now. content (snd (tab_Save t m d)) = put (save_row key (stamp now m)) (content d)"
    by (rule runs_ok [OF Save [OF assms(2)] assms(1) assms(3)])
  then obtain now where now: "content (snd (tab_Save t m d)) = put (save_row key (stamp now m)) (content d)" by blast
  have "tab_Save t m d = (Inr (), snd (tab_Save t m d))" using a(1) by (cases "tab_Save t m d") simp
  then show thesis using a(2) now by (rule that)
qed

lemma Create_up:
  assumes "up d" and "complete m" and "key m \<notin> key ` set (get (content d))" and "unique (get (content d) @ [m])"
  obtains d' where "tab_Create t m d = (Inr (), d')" "up d'" "content d' = put (\<lambda>rows. rows @ [m]) (content d)"
proof -
  obtain a where a: "fst (tab_Create t m d) = Inr a" "up (snd (tab_Create t m d))"
      "content (snd (tab_Create t m d)) = put (\<lambda>rows. rows @ [m]) (content d)"
    by (rule runs_ok [OF Create [OF assms(2)] assms(1)]) (use assms(3,4) in simp_all)
  have "tab_Create t m d = (Inr (), snd (tab_Create t m d))" using a(1) by (cases "tab_Create t m d") simp
  then show thesis using a(2,3) by (rule that)
qed

lemma Delete_up:
  assumes "up d"
  obtains d' where "tab_Delete t P d = (Inr (length (filter P (get (content d)))), d')" "up d'"
    "content d' = put (filter (\<lambda>m. \<not> P m)) (content d)"
proof -
  obtain a where a: "fst (tab_Delete t P d) = Inr a" "up (snd (tab_Delete t P d))"
      "a = length (filter P (get (content d))) \<and> content (snd (tab_Delete t P d)) = put (filter (\<lambda>m. \<not> P m)) (content d)"
    by (rule runs_ok [OF Delete assms]) simp
  have "tab_Delete t P d = (Inr (length (filter P (get (content d)))), snd (tab_Delete t P d))"
    using a(1,3) by (cases "tab_Delete t P d") simp
  then show thesis using a(2) a(3) [THEN conjunct2] by (rule that)
qed

lemma Find_up:
  assumes "up d" and "total_order ord" and "\<And>n. limit = Some n \<Longrightarrow> n \<ge> 0"
  obtains d' r where "tab_Find t P ord limit d = (Inr r, d')" "up d'" "content d' = content d"
    "answers P ord limit (get (content d)) r"
proof -
  obtain r where r: "fst (tab_Find t P ord limit d) = Inr r" "up (snd (tab_Find t P ord limit d))"
      "content (snd (tab_Find t P ord limit d)) = content d \<and> answers P ord limit (get (content d)) r"
    by (rule runs_ok [OF Find [OF assms(2,3)] assms(1)]) simp_all
  have "tab_Find t P ord limit d = (Inr r, snd (tab_Find t P ord limit d))" using r(1) by (cases "tab_Find t P ord limit d") simp
  then show thesis using r(2) r(3) [THEN conjunct1] r(3) [THEN conjunct2] by (rule that)
qed

lemma Updates_up:
  assumes "up d" and "\<And>m. key (f m) = key m" and "unique (change_rows P f (get (content d)))"
  obtains d' now where "tab_Updates t P f d = (Inr (length (filter P (get (content d)))), d')" "up d'"
    "content d' = put (change_rows P (\<lambda>m. stamp now (f m))) (content d)"
proof -
  obtain a where a: "fst (tab_Updates t P f d) = Inr a" "up (snd (tab_Updates t P f d))"
      "a = length (filter P (get (content d)))
        \<and> (\<exists>now. content (snd (tab_Updates t P f d)) = put (change_rows P (\<lambda>m. stamp now (f m))) (content d))"
    by (rule runs_ok [OF Updates [OF assms(2)] assms(1) assms(3)])
  then obtain now where "content (snd (tab_Updates t P f d)) = put (change_rows P (\<lambda>m. stamp now (f m))) (content d)" by blast
  moreover have "tab_Updates t P f d = (Inr (length (filter P (get (content d)))), snd (tab_Updates t P f d))"
    using a(1,3) by (cases "tab_Updates t P f d") simp
  ultimately show thesis using a(2) by (intro that)
qed

lemma First_up:
  assumes "up d"
  obtains (none) d' where "gorm_First t P d = (Inl gorm_ErrRecordNotFound, d')" "\<forall>m \<in> set (get (content d)). \<not> P m"
      "content d' = content d" "up d'"
  | (row) m d' where "gorm_First t P d = (Inr m, d')" "m \<in> set (get (content d))" "P m" "content d' = content d" "up d'"
proof (cases rule: gorm_First_cases [of P d])
  case (failed e)
  with assms show thesis by simp
next
  case missing
  show thesis by (rule none [of "snd (gorm_First t P d)"]) (use missing assms in \<open>simp_all add: prod_eq_iff\<close>)
next
  case (row m)
  show thesis by (rule that(2) [of m "snd (gorm_First t P d)"]) (use row assms in \<open>simp_all add: prod_eq_iff\<close>)
qed

end

section \<open>A relational database\<close>

fun insert_by :: "('m \<Rightarrow> 'm \<Rightarrow> bool) \<Rightarrow> 'm \<Rightarrow> 'm list \<Rightarrow> 'm list" where
  "insert_by ord x [] = [x]"
| "insert_by ord x (y # ys) = (if ord x y then x # y # ys else y # insert_by ord x ys)"

definition sort_by :: "('m \<Rightarrow> 'm \<Rightarrow> bool) \<Rightarrow> 'm list \<Rightarrow> 'm list" where
  "sort_by ord xs = foldr (insert_by ord) xs []"

lemma mset_insert_by [simp]: "mset (insert_by ord x ys) = add_mset x (mset ys)"
  by (induction ys) auto

lemma mset_sort_by [simp]: "mset (sort_by ord xs) = mset xs"
  by (induction xs) (simp_all add: sort_by_def)

lemma set_insert_by [simp]: "set (insert_by ord x ys) = insert x (set ys)"
  by (induction ys) auto

lemma sorted_insert_by:
  assumes "total_order ord" and "sorted_wrt ord ys"
  shows "sorted_wrt ord (insert_by ord x ys)"
  using assms(2)
proof (induction ys)
  case (Cons y ys)
  have t: "ord a b \<or> ord b a" "ord a b \<Longrightarrow> ord b c \<Longrightarrow> ord a c" for a b c
    using assms(1) unfolding total_order_def by blast+
  show ?case using Cons t(1) [of x y] by (auto intro: t(2))
qed simp

lemma sorted_sort_by: "total_order ord \<Longrightarrow> sorted_wrt ord (sort_by ord xs)"
  by (induction xs) (simp_all add: sort_by_def sorted_insert_by)

definition page_of :: "int option \<Rightarrow> 'm list \<Rightarrow> 'm list" where
  "page_of limit rows = (case limit of None \<Rightarrow> rows | Some n \<Rightarrow> take (nat n) rows)"

lemma page_answers:
  assumes "total_order ord" and "\<And>n. limit = Some n \<Longrightarrow> n \<ge> 0"
  shows "answers P ord limit rows (page_of limit (sort_by ord (filter P rows)))"
proof (cases limit)
  case None
  then show ?thesis by (simp add: answers_def page_of_def sorted_sort_by assms)
next
  case (Some n)
  let ?s = "sort_by ord (filter P rows)"
  have s: "sorted_wrt ord (take (nat n) ?s @ drop (nat n) ?s)" by (simp add: sorted_sort_by assms)
  have m: "mset (take (nat n) ?s) + mset (drop (nat n) ?s) = filter_mset P (mset rows)"
    by (simp flip: mset_append)
  have "\<forall>y \<in> set (drop (nat n) ?s). int (length (take (nat n) ?s)) = n \<and> (\<forall>x \<in> set (take (nat n) ?s). ord x y)"
    using s assms(2) [OF Some] by (cases "nat n \<le> length ?s") (auto simp only: sorted_wrt_append length_take min_def, auto)
  moreover have "int (length (take (nat n) ?s)) \<le> n" using assms(2) [OF Some] by simp
  ultimately show ?thesis using s m Some
    by (auto simp only: answers_def page_of_def sorted_wrt_append option.case intro!: exI [of _ "drop (nat n) ?s"])
qed


text \<open>A table of a database that keeps its content as it is.\<close>

definition rel_table :: "('t \<Rightarrow> 'm list) \<Rightarrow> (('m list \<Rightarrow> 'm list) \<Rightarrow> 't \<Rightarrow> 't) \<Rightarrow> ('m \<Rightarrow> 'k) \<Rightarrow> (time \<Rightarrow> 'm \<Rightarrow> 'm)
    \<Rightarrow> ('m list \<Rightarrow> bool) \<Rightarrow> ('t, 'm) gtable" where
  "rel_table get put key stamp unique =
    \<lparr>tab_Save = (\<lambda>m T. if unique (save_row key m (get T)) then (Inr (), put (save_row key (stamp 0 m)) T)
       else (Inl (Errorf ''constraint failed''), T)),
     tab_Create = (\<lambda>m T. if key m \<notin> key ` set (get T) \<and> unique (get T @ [m]) then (Inr (), put (\<lambda>rows. rows @ [m]) T)
       else (Inl (Errorf ''constraint failed''), T)),
     tab_First = (\<lambda>P T. (Inr (find P (get T)), T)),
     tab_Find = (\<lambda>P ord limit T. (Inr (page_of limit (sort_by ord (filter P (get T)))), T)),
     tab_Delete = (\<lambda>P T. (Inr (length (filter P (get T))), put (filter (\<lambda>m. \<not> P m)) T)),
     tab_Updates = (\<lambda>P f T. if unique (change_rows P f (get T))
       then (Inr (length (filter P (get T))), put (change_rows P (\<lambda>m. stamp 0 (f m))) T)
       else (Inl (Errorf ''constraint failed''), T))\<rparr>"

lemma rel_table_laws:
  assumes "\<And>f T. get (put f T) = f (get T)" and "\<And>f T. f (get T) = get T \<Longrightarrow> put f T = T"
  shows "gorm_table (\<lambda>T. T) (\<lambda>_. True) get put key stamp complete unique (rel_table get put key stamp unique)"
proof
  show "runs (\<lambda>T. T) (\<lambda>_. True) (tab_First (rel_table get put key stamp unique) P) d True
      (\<lambda>r T. T = d \<and> (case r of None \<Rightarrow> \<forall>m \<in> set (get d). \<not> P m | Some m \<Rightarrow> m \<in> set (get d) \<and> P m))" for P d
    by (auto simp: runs_def rel_table_def find_None_iff find_Some_iff split: option.split)
qed (auto simp: assms runs_def rel_table_def page_answers)

end
