(* ===== verification/Warden_GORMStore.thy ===== *)
theory Warden_GORMStore
  imports Warden_Types Gorm_Database
begin

text \<open>
  \<open>src/warden/gorm_store.go\<close>: the store in a relational database. The rows are records with the source's fields; a
  pointer to a time is an option, \<open>.UTC()\<close> is the identity on instants. GORM and the database are the parameter
  \<open>gorm_DB\<close>: the twelve tables, the two queries that are not on one table, transactions and the clock.
\<close>

section \<open>Rows\<close>

record tenantModel =
  tnm_ID :: string
  tnm_CasdoorOrgName :: string
  tnm_Slug :: string
  tnm_DisplayName :: string
  tnm_Status :: string
  tnm_Plan :: string
  tnm_Quota :: string
  tnm_CreatedAt :: time
  tnm_UpdatedAt :: time

record principalModel =
  pm_ID :: string
  pm_TenantID :: string
  pm_CasdoorUserID :: string
  pm_Username :: string
  pm_Email :: string
  pm_DisplayName :: string
  pm_Type :: string
  pm_Status :: string
  pm_EmailVerified :: bool
  pm_CreatedAt :: time
  pm_UpdatedAt :: time

record teamModel =
  tem_ID :: string
  tem_TenantID :: string
  tem_CasdoorGroupID :: string
  tem_Name :: string
  tem_DisplayName :: string
  tem_ParentTeamID :: string
  tem_Status :: string
  tem_CreatedAt :: time
  tem_UpdatedAt :: time

record principalTeamModel =
  ptm_PrincipalID :: string
  ptm_TeamID :: string
  ptm_IsPrimary :: bool
  ptm_CreatedAt :: time

record principalRoleModel =
  prm_PrincipalID :: string
  prm_RoleKey :: string
  prm_ScopeType :: string
  prm_ScopeID :: string
  prm_CreatedAt :: time

record serviceAccountModel =
  sam_ID :: string
  sam_TenantID :: string
  sam_Name :: string
  sam_Status :: string
  sam_CreatedBy :: string
  sam_CreatedAt :: time
  sam_UpdatedAt :: time

record oidcLoginStateModel =
  olm_State :: string
  olm_BrowserBinding :: string
  olm_Nonce :: string
  olm_CodeVerifier :: string
  olm_RedirectURL :: string
  olm_ExpiresAt :: "time option"
  olm_CreatedAt :: time

record deviceCodeModel =
  dcm_DeviceCode :: string
  dcm_UserCode :: string
  dcm_PrincipalID :: string
  dcm_ExpiresAt :: "time option"
  dcm_IntervalSec :: int
  dcm_Status :: string
  dcm_CreatedAt :: time
  dcm_UpdatedAt :: time

record apiKeyModel =
  akm_ID :: string
  akm_Name :: string
  akm_TenantID :: string
  akm_PrincipalType :: string
  akm_PrincipalID :: string
  akm_KeyHash :: string
  akm_Scopes :: "string list"
  akm_ExpiresAt :: "time option"
  akm_Status :: string
  akm_CreatedAt :: time
  akm_LastUsedAt :: "time option"

record sessionModel =
  sem_ID :: string
  sem_PrincipalID :: string
  sem_TenantID :: string
  sem_CurrentTeamID :: string
  sem_AuthTime :: time
  sem_ExpiresAt :: "time option"
  sem_Source :: string
  sem_UserAgentHash :: string
  sem_CreatedAt :: time
  sem_UpdatedAt :: time

record agentRunModel =
  arm_ID :: string
  arm_TenantID :: string
  arm_ActorPrincipalID :: string
  arm_AgentPrincipalID :: string
  arm_Status :: string
  arm_CreatedAt :: time
  arm_UpdatedAt :: time

record auditLogModel =
  alm_ID :: nat
  alm_TenantID :: string
  alm_ActorType :: string
  alm_ActorID :: string
  alm_PrincipalType :: string
  alm_PrincipalID :: string
  alm_Action :: string
  alm_ResourceType :: string
  alm_ResourceID :: string
  alm_Decision :: string
  alm_JWTID :: string
  alm_CreatedAt :: time

section \<open>The column of scopes\<close>

datatype sql_value = SqlNull | SqlString string | SqlBytes string | SqlOther string

definition stringList_Value :: "(string list \<Rightarrow> string res) \<Rightarrow> string list option \<Rightarrow> sql_value res" where
  "stringList_Value marshal l =
    (case l of None \<Rightarrow> Inr (SqlString ''[]'')
     | Some scopes \<Rightarrow> (case marshal scopes of Inl err \<Rightarrow> Inl err | Inr b \<Rightarrow> Inr (SqlString b)))"

definition stringList_Scan :: "(string \<Rightarrow> string list option res) \<Rightarrow> sql_value \<Rightarrow> string list option res" where
  "stringList_Scan unmarshal value =
    (let scan = (\<lambda>raw. if length raw = 0 then Inr None
       else (case unmarshal raw of Inl err \<Rightarrow> Inl (Wrapped ''scan stringList'' err) | Inr out \<Rightarrow> Inr out)) in
     case value of
       SqlNull \<Rightarrow> Inr None
     | SqlString v \<Rightarrow> scan v
     | SqlBytes v \<Rightarrow> scan v
     | SqlOther type \<Rightarrow> Inl (Errorf (''scan stringList: unsupported type '' @ type)))"

section \<open>The database\<close>

text \<open>
  \<open>db_JoinTeams P ord\<close>: the teams of the pairs of a team and a membership that satisfy \<open>P\<close>; \<open>db_Pluck P f ord\<close>: the
  distinct values of the column \<open>f\<close> of principals; \<open>db_collate\<close>: the order of text in this database.
\<close>

record 'd gorm_DB =
  db_tenants :: "('d, tenantModel) gtable"
  db_principals :: "('d, principalModel) gtable"
  db_teams :: "('d, teamModel) gtable"
  db_principal_teams :: "('d, principalTeamModel) gtable"
  db_principal_roles :: "('d, principalRoleModel) gtable"
  db_service_accounts :: "('d, serviceAccountModel) gtable"
  db_oidc_login_states :: "('d, oidcLoginStateModel) gtable"
  db_device_codes :: "('d, deviceCodeModel) gtable"
  db_api_keys :: "('d, apiKeyModel) gtable"
  db_sessions :: "('d, sessionModel) gtable"
  db_agent_runs :: "('d, agentRunModel) gtable"
  db_audit_logs :: "('d, auditLogModel) gtable"
  db_JoinTeams :: "(teamModel \<times> principalTeamModel \<Rightarrow> bool)
    \<Rightarrow> (teamModel \<times> principalTeamModel \<Rightarrow> teamModel \<times> principalTeamModel \<Rightarrow> bool) \<Rightarrow> ('d, teamModel list) op"
  db_Pluck :: "(principalModel \<Rightarrow> bool) \<Rightarrow> (principalModel \<Rightarrow> string) \<Rightarrow> (string \<Rightarrow> string \<Rightarrow> bool) \<Rightarrow> ('d, string list) op"
  db_collate :: "string \<Rightarrow> string \<Rightarrow> bool"
  db_Transaction :: "('d, oidcLoginStateModel option) op \<Rightarrow> ('d, oidcLoginStateModel option) op"
  db_Now :: "('d, time) op"

record 'd GORMStore =
  gs_db :: "'d gorm_DB"

definition NewGORMStore :: "'d gorm_DB option \<Rightarrow> 'd GORMStore res" where
  "NewGORMStore db = (case db of None \<Rightarrow> Inl ErrInvalidInput | Some db \<Rightarrow> Inr \<lparr>gs_db = db\<rparr>)"

section \<open>Conversions\<close>

definition defaultString :: "string \<Rightarrow> string \<Rightarrow> string" where
  "defaultString value fallback = (if TrimSpace value = [] then fallback else value)"

definition defaultTime :: "'d gorm_DB \<Rightarrow> time \<Rightarrow> ('d, time) op" where
  "defaultTime db value = (if IsZero value then db_Now db else ret value)"

definition timePtrOrNil :: "time \<Rightarrow> time option" where
  "timePtrOrNil value = (if IsZero value then None else Some value)"

definition timeValue :: "time option \<Rightarrow> time" where
  "timeValue value = (case value of None \<Rightarrow> zero_time | Some v \<Rightarrow> v)"

definition tenantFromModel :: "tenantModel \<Rightarrow> Tenant" where
  "tenantFromModel model = \<lparr>ten_ID = tnm_ID model, ten_CasdoorOrgName = tnm_CasdoorOrgName model, ten_Slug = tnm_Slug model,
     ten_DisplayName = tnm_DisplayName model, ten_Status = tnm_Status model\<rparr>"

definition roleFromModel :: "principalRoleModel \<Rightarrow> RoleGrant" where
  "roleFromModel role = \<lparr>role_Key = prm_RoleKey role, role_ScopeType = prm_ScopeType role, role_ScopeID = prm_ScopeID role\<rparr>"

definition teamFromModel :: "teamModel \<Rightarrow> Team" where
  "teamFromModel team = \<lparr>team_ID = tem_ID team, team_TenantID = tem_TenantID team, team_CasdoorGroupID = tem_CasdoorGroupID team,
     team_Name = tem_Name team, team_DisplayName = tem_DisplayName team, team_ParentTeamID = tem_ParentTeamID team,
     team_Status = tem_Status team\<rparr>"

definition principalFromModels :: "principalModel \<Rightarrow> principalRoleModel list \<Rightarrow> teamModel list \<Rightarrow> Principal" where
  "principalFromModels prin roles teams =
    \<lparr>p_ID = pm_ID prin, p_TenantID = pm_TenantID prin, p_CasdoorUserID = pm_CasdoorUserID prin,
     p_Username = pm_Username prin, p_Email = pm_Email prin, p_DisplayName = pm_DisplayName prin,
     p_Type = pm_Type prin, p_Status = pm_Status prin, p_EmailVerified = pm_EmailVerified prin,
     p_Roles = map roleFromModel roles, p_Teams = map teamFromModel teams\<rparr>"

definition deviceCodeFromModel :: "deviceCodeModel \<Rightarrow> DeviceCode" where
  "deviceCodeFromModel model = \<lparr>dev_DeviceCode = dcm_DeviceCode model, dev_UserCode = dcm_UserCode model,
     dev_PrincipalID = dcm_PrincipalID model, dev_ExpiresAt = timeValue (dcm_ExpiresAt model),
     dev_Interval = dcm_IntervalSec model * Second, dev_Status = dcm_Status model, dev_CreatedAt = dcm_CreatedAt model\<rparr>"

definition sessionFromGORMModel :: "sessionModel \<Rightarrow> Session" where
  "sessionFromGORMModel model = \<lparr>sess_ID = sem_ID model, sess_PrincipalID = sem_PrincipalID model, sess_TenantID = sem_TenantID model,
     sess_CurrentTeamID = sem_CurrentTeamID model, sess_AuthTime = sem_AuthTime model,
     sess_ExpiresAt = timeValue (sem_ExpiresAt model), sess_Source = sem_Source model\<rparr>"

definition apiKeyFromModel :: "apiKeyModel \<Rightarrow> APIKey" where
  "apiKeyFromModel model = \<lparr>key_ID = akm_ID model, key_Name = akm_Name model, key_TenantID = akm_TenantID model,
     key_PrincipalType = akm_PrincipalType model, key_PrincipalID = akm_PrincipalID model, key_KeyHash = akm_KeyHash model,
     key_Scopes = akm_Scopes model, key_ExpiresAt = timeValue (akm_ExpiresAt model), key_Status = akm_Status model,
     key_CreatedAt = akm_CreatedAt model, key_LastUsedAt = timeValue (akm_LastUsedAt model)\<rparr>"

definition serviceAccountFromModel :: "serviceAccountModel \<Rightarrow> ServiceAccount" where
  "serviceAccountFromModel model = \<lparr>acc_ID = sam_ID model, acc_TenantID = sam_TenantID model, acc_Name = sam_Name model,
     acc_Status = sam_Status model, acc_CreatedBy = sam_CreatedBy model, acc_CreatedAt = sam_CreatedAt model\<rparr>"

definition agentRunFromModel :: "agentRunModel \<Rightarrow> AgentRun" where
  "agentRunFromModel model = \<lparr>run_ID = arm_ID model, run_TenantID = arm_TenantID model, run_ActorPrincipalID = arm_ActorPrincipalID model,
     run_AgentPrincipalID = arm_AgentPrincipalID model, run_Status = arm_Status model, run_CreatedAt = arm_CreatedAt model\<rparr>"

definition auditFromModel :: "auditLogModel \<Rightarrow> AuditEvent" where
  "auditFromModel model = \<lparr>ev_TenantID = alm_TenantID model, ev_ActorType = alm_ActorType model, ev_ActorID = alm_ActorID model,
     ev_PrincipalType = alm_PrincipalType model, ev_PrincipalID = alm_PrincipalID model, ev_Action = alm_Action model,
     ev_ResourceType = alm_ResourceType model, ev_ResourceID = alm_ResourceID model, ev_Decision = alm_Decision model,
     ev_JWTID = alm_JWTID model, ev_CreatedAt = alm_CreatedAt model\<rparr>"

definition oidcStateFromModel :: "oidcLoginStateModel \<Rightarrow> OIDCLoginState" where
  "oidcStateFromModel state = \<lparr>oidc_State = olm_State state, oidc_BrowserBinding = olm_BrowserBinding state,
     oidc_Nonce = olm_Nonce state, oidc_CodeVerifier = olm_CodeVerifier state, oidc_RedirectURL = olm_RedirectURL state,
     oidc_ExpiresAt = timeValue (olm_ExpiresAt state)\<rparr>"

text \<open>\<open>errors.Is(err, gorm.ErrRecordNotFound)\<close>; an update of no row.\<close>

definition not_found :: "string \<Rightarrow> ('d, 'a) op \<Rightarrow> ('d, 'a) op" where
  "not_found msg m = on_err m (\<lambda>err. if errors_Is err gorm_ErrRecordNotFound then fail ErrNotFound else fail (Wrapped msg err)) ret"

definition affected :: "string \<Rightarrow> ('d, nat) op \<Rightarrow> ('d, unit) op" where
  "affected msg m = bnd (wrapped msg m) (\<lambda>n. if n = 0 then fail ErrNotFound else ret ())"

definition any_order :: "'m \<Rightarrow> 'm \<Rightarrow> bool" where
  "any_order a b = True"

definition newest_first :: "('m \<Rightarrow> time) \<Rightarrow> 'm \<Rightarrow> 'm \<Rightarrow> bool" where
  "newest_first f a b \<longleftrightarrow> f a \<ge> f b"

section \<open>Tenants and principals\<close>

definition tenant_model :: "Tenant \<Rightarrow> time \<Rightarrow> tenantModel" where
  "tenant_model tenant now = \<lparr>tnm_ID = ten_ID tenant, tnm_CasdoorOrgName = ten_CasdoorOrgName tenant, tnm_Slug = ten_Slug tenant,
     tnm_DisplayName = ten_DisplayName tenant, tnm_Status = defaultString (ten_Status tenant) ''active'',
     tnm_Plan = [], tnm_Quota = [], tnm_CreatedAt = now, tnm_UpdatedAt = now\<rparr>"

definition gorm_UpsertTenant :: "'d GORMStore \<Rightarrow> Tenant \<Rightarrow> ('d, unit) op" where
  "gorm_UpsertTenant s tenant =
    bnd (db_Now (gs_db s)) (\<lambda>now. wrapped ''upsert tenant'' (tab_Save (db_tenants (gs_db s)) (tenant_model tenant now)))"

definition principal_model :: "Principal \<Rightarrow> time \<Rightarrow> principalModel" where
  "principal_model prin now = \<lparr>pm_ID = p_ID prin, pm_TenantID = p_TenantID prin, pm_CasdoorUserID = p_CasdoorUserID prin,
     pm_Username = p_Username prin, pm_Email = p_Email prin, pm_DisplayName = p_DisplayName prin,
     pm_Type = defaultString (p_Type prin) PrincipalTypeUser, pm_Status = defaultString (p_Status prin) ''active'',
     pm_EmailVerified = p_EmailVerified prin, pm_CreatedAt = now, pm_UpdatedAt = now\<rparr>"

definition role_model :: "string \<Rightarrow> time \<Rightarrow> RoleGrant \<Rightarrow> principalRoleModel" where
  "role_model principalID now role = \<lparr>prm_PrincipalID = principalID, prm_RoleKey = role_Key role, prm_ScopeType = role_ScopeType role,
     prm_ScopeID = role_ScopeID role, prm_CreatedAt = now\<rparr>"

definition team_model :: "string \<Rightarrow> time \<Rightarrow> Team \<Rightarrow> teamModel" where
  "team_model tenantID now team = \<lparr>tem_ID = team_ID team, tem_TenantID = defaultString (team_TenantID team) tenantID,
     tem_CasdoorGroupID = team_CasdoorGroupID team, tem_Name = team_Name team, tem_DisplayName = team_DisplayName team,
     tem_ParentTeamID = team_ParentTeamID team, tem_Status = defaultString (team_Status team) ''active'',
     tem_CreatedAt = now, tem_UpdatedAt = now\<rparr>"

definition create_role :: "'d gorm_DB \<Rightarrow> string \<Rightarrow> time \<Rightarrow> RoleGrant \<Rightarrow> ('d, unit) op" where
  "create_role db principalID now role =
    (if TrimSpace (role_Key role) = [] then ret ()
     else wrapped ''create principal role'' (tab_Create (db_principal_roles db) (role_model principalID now role)))"

definition save_team :: "'d gorm_DB \<Rightarrow> Principal \<Rightarrow> time \<Rightarrow> nat \<times> Team \<Rightarrow> ('d, unit) op" where
  "save_team db prin now = (\<lambda>(i, team).
    if TrimSpace (team_ID team) = [] then ret ()
    else bnd (wrapped ''upsert principal team'' (tab_Save (db_teams db) (team_model (p_TenantID prin) now team))) (\<lambda>_.
      wrapped ''create principal team link'' (tab_Create (db_principal_teams db)
        \<lparr>ptm_PrincipalID = p_ID prin, ptm_TeamID = team_ID team, ptm_IsPrimary = (i = 0), ptm_CreatedAt = now\<rparr>)))"

definition gorm_UpsertPrincipal :: "'d GORMStore \<Rightarrow> Principal \<Rightarrow> ('d, unit) op" where
  "gorm_UpsertPrincipal s prin =
    bnd (db_Now (gs_db s)) (\<lambda>now. let tx = gs_db s in
    bnd (db_Transaction (gs_db s) (
      bnd (wrapped ''upsert principal'' (tab_Save (db_principals tx) (principal_model prin now))) (\<lambda>_.
      bnd (wrapped ''replace principal roles'' (tab_Delete (db_principal_roles tx) (\<lambda>m. prm_PrincipalID m = p_ID prin))) (\<lambda>_.
      bnd (for_each (create_role tx (p_ID prin) now) (p_Roles prin)) (\<lambda>_.
      bnd (wrapped ''replace principal teams'' (tab_Delete (db_principal_teams tx) (\<lambda>m. ptm_PrincipalID m = p_ID prin))) (\<lambda>_.
      bnd (for_each (save_team tx prin now) (enumerate 0 (p_Teams prin))) (\<lambda>_. ret None))))))) (\<lambda>_. ret ()))"

definition gorm_UpdatePrincipalStatus :: "'d GORMStore \<Rightarrow> string \<Rightarrow> string \<Rightarrow> ('d, unit) op" where
  "gorm_UpdatePrincipalStatus s principalID status =
    affected ''update principal status''
      (tab_Updates (db_principals (gs_db s)) (\<lambda>m. pm_ID m = principalID) (\<lambda>m. m\<lparr>pm_Status := status\<rparr>))"

definition gorm_GetTenant :: "'d GORMStore \<Rightarrow> string \<Rightarrow> ('d, Tenant) op" where
  "gorm_GetTenant s tenantID =
    bnd (not_found ''get tenant'' (gorm_First (db_tenants (gs_db s)) (\<lambda>m. tnm_ID m = tenantID))) (\<lambda>model. ret (tenantFromModel model))"

text \<open>\<open>principal_teams.is_primary DESC, teams.name ASC\<close>\<close>

definition first_primary :: "(string \<Rightarrow> string \<Rightarrow> bool) \<Rightarrow> teamModel \<times> principalTeamModel \<Rightarrow> teamModel \<times> principalTeamModel \<Rightarrow> bool" where
  "first_primary collate = (\<lambda>(team, link) (team', link'). ptm_IsPrimary link \<and> \<not> ptm_IsPrimary link'
     \<or> ptm_IsPrimary link = ptm_IsPrimary link' \<and> collate (tem_Name team) (tem_Name team'))"

definition gorm_GetPrincipal :: "'d GORMStore \<Rightarrow> string \<Rightarrow> ('d, Principal) op" where
  "gorm_GetPrincipal s principalID = (let db = gs_db s in
    bnd (not_found ''get principal'' (gorm_First (db_principals db) (\<lambda>m. pm_ID m = principalID))) (\<lambda>prin.
    bnd (wrapped ''get principal roles'' (tab_Find (db_principal_roles db) (\<lambda>m. prm_PrincipalID m = principalID) any_order None)) (\<lambda>roleModels.
    bnd (wrapped ''get principal teams'' (db_JoinTeams db
        (\<lambda>(team, link). ptm_TeamID link = tem_ID team \<and> ptm_PrincipalID link = principalID)
        (first_primary (db_collate db)))) (\<lambda>teamModels.
    ret (principalFromModels prin roleModels teamModels)))))"

definition gorm_ListPrincipalsByCasdoorUser :: "'d GORMStore \<Rightarrow> string \<Rightarrow> ('d, Principal list) op" where
  "gorm_ListPrincipalsByCasdoorUser s casdoorUserID0 = (let db = gs_db s; casdoorUserID = TrimSpace casdoorUserID0 in
    if casdoorUserID = [] then ret []
    else bnd (wrapped ''list principals by casdoor user'' (tab_Find (db_principals db)
        (\<lambda>m. pm_CasdoorUserID m = casdoorUserID) (\<lambda>a b. db_collate db (pm_TenantID a) (pm_TenantID b)) None)) (\<lambda>principals.
      for_each (\<lambda>prin. gorm_GetPrincipal s (pm_ID prin)) principals))"

section \<open>Lists\<close>

text \<open>The common part of the lists of the administration interface: the limit, the tenant, and the order.\<close>

definition list_limit :: "int \<Rightarrow> int" where
  "list_limit limit = (if limit \<le> 0 \<or> limit > 500 then 100 else limit)"

definition of_tenant :: "('m \<Rightarrow> string) \<Rightarrow> string \<Rightarrow> 'm \<Rightarrow> bool" where
  "of_tenant f tenantID m \<longleftrightarrow> TrimSpace tenantID \<noteq> [] \<longrightarrow> f m = TrimSpace tenantID"

definition gorm_ListTenants :: "'d GORMStore \<Rightarrow> int \<Rightarrow> ('d, Tenant list) op" where
  "gorm_ListTenants s limit =
    bnd (wrapped ''list tenants'' (tab_Find (db_tenants (gs_db s)) (\<lambda>_. True) (newest_first tnm_CreatedAt) (Some (list_limit limit))))
      (\<lambda>models. ret (map tenantFromModel models))"

definition gorm_ListPrincipals :: "'d GORMStore \<Rightarrow> string \<Rightarrow> int \<Rightarrow> ('d, Principal list) op" where
  "gorm_ListPrincipals s tenantID limit =
    bnd (wrapped ''list principals'' (tab_Find (db_principals (gs_db s)) (of_tenant pm_TenantID tenantID)
        (newest_first pm_CreatedAt) (Some (list_limit limit))))
      (\<lambda>models. ret (map (\<lambda>model. principalFromModels model [] []) models))"

definition gorm_ListDirectorySubjects :: "'d GORMStore \<Rightarrow> string \<Rightarrow> ('d, string list) op" where
  "gorm_ListDirectorySubjects s tenantID =
    (if TrimSpace tenantID = [] then fail ErrInvalidInput
     else wrapped ''list directory subjects'' (db_Pluck (gs_db s)
       (\<lambda>m. pm_TenantID m = tenantID \<and> pm_CasdoorUserID m \<noteq> [] \<and> pm_Type m = PrincipalTypeUser)
       pm_CasdoorUserID (db_collate (gs_db s))))"

definition gorm_ListSessions :: "'d GORMStore \<Rightarrow> string \<Rightarrow> int \<Rightarrow> ('d, Session list) op" where
  "gorm_ListSessions s tenantID limit =
    bnd (wrapped ''list sessions'' (tab_Find (db_sessions (gs_db s)) (of_tenant sem_TenantID tenantID)
        (newest_first sem_CreatedAt) (Some (list_limit limit))))
      (\<lambda>models. ret (map sessionFromGORMModel models))"

definition gorm_ListAgentRuns :: "'d GORMStore \<Rightarrow> string \<Rightarrow> int \<Rightarrow> ('d, AgentRun list) op" where
  "gorm_ListAgentRuns s tenantID limit =
    bnd (wrapped ''list agent runs'' (tab_Find (db_agent_runs (gs_db s)) (of_tenant arm_TenantID tenantID)
        (newest_first arm_CreatedAt) (Some (list_limit limit))))
      (\<lambda>models. ret (map agentRunFromModel models))"

definition gorm_ListAuditEvents :: "'d GORMStore \<Rightarrow> string \<Rightarrow> int \<Rightarrow> ('d, AuditEvent list) op" where
  "gorm_ListAuditEvents s tenantID limit =
    bnd (wrapped ''list audit events'' (tab_Find (db_audit_logs (gs_db s)) (of_tenant alm_TenantID tenantID)
        (newest_first alm_CreatedAt) (Some (list_limit limit))))
      (\<lambda>models. ret (map auditFromModel models))"

section \<open>Login states and device codes\<close>

definition gorm_PutOIDCLoginState :: "'d GORMStore \<Rightarrow> OIDCLoginState \<Rightarrow> ('d, unit) op" where
  "gorm_PutOIDCLoginState s state =
    bnd (db_Now (gs_db s)) (\<lambda>now. wrapped ''put oidc login state'' (tab_Save (db_oidc_login_states (gs_db s))
      \<lparr>olm_State = oidc_State state, olm_BrowserBinding = oidc_BrowserBinding state, olm_Nonce = oidc_Nonce state,
       olm_CodeVerifier = oidc_CodeVerifier state, olm_RedirectURL = oidc_RedirectURL state,
       olm_ExpiresAt = timePtrOrNil (oidc_ExpiresAt state), olm_CreatedAt = now\<rparr>))"

text \<open>\<open>COALESCE(browser_binding, '')\<close>: a missing binding is read as the empty string.\<close>

definition login_state_row :: "string \<Rightarrow> string option \<Rightarrow> oidcLoginStateModel \<Rightarrow> bool" where
  "login_state_row stateValue bindingHash m \<longleftrightarrow> olm_State m = stateValue
     \<and> (case bindingHash of None \<Rightarrow> True | Some hash \<Rightarrow> olm_BrowserBinding m = hash)"

definition gorm_takeOIDCLoginState :: "'d GORMStore \<Rightarrow> string \<Rightarrow> string option \<Rightarrow> ('d, OIDCLoginState) op" where
  "gorm_takeOIDCLoginState s stateValue bindingHash = (let tx = db_oidc_login_states (gs_db s) in
    bnd (not_found ''take oidc login state'' (db_Transaction (gs_db s) (
      bnd (gorm_First tx (login_state_row stateValue bindingHash)) (\<lambda>state.
      bnd (tab_Delete tx (login_state_row stateValue bindingHash)) (\<lambda>n.
      if n \<noteq> 1 then fail gorm_ErrRecordNotFound else ret (Some state)))))) (\<lambda>state.
    case state of None \<Rightarrow> fail ErrNotFound | Some state \<Rightarrow> ret (oidcStateFromModel state)))"

definition gorm_TakeOIDCLoginState :: "'d GORMStore \<Rightarrow> string \<Rightarrow> ('d, OIDCLoginState) op" where
  "gorm_TakeOIDCLoginState s stateValue = gorm_takeOIDCLoginState s stateValue None"

definition gorm_TakeBoundOIDCLoginState :: "'d GORMStore \<Rightarrow> string \<Rightarrow> string \<Rightarrow> ('d, OIDCLoginState) op" where
  "gorm_TakeBoundOIDCLoginState s stateValue bindingHash = gorm_takeOIDCLoginState s stateValue (Some bindingHash)"

text \<open>\<open>int(d / time.Second)\<close>, which truncates.\<close>

definition interval_seconds :: "duration \<Rightarrow> int" where
  "interval_seconds d = (if d \<ge> 0 then d div Second else - ((- d) div Second))"

definition gorm_PutDeviceCode :: "'d GORMStore \<Rightarrow> DeviceCode \<Rightarrow> ('d, unit) op" where
  "gorm_PutDeviceCode s code =
    bnd (db_Now (gs_db s)) (\<lambda>now.
    bnd (defaultTime (gs_db s) (dev_CreatedAt code)) (\<lambda>createdAt.
    let model = \<lparr>dcm_DeviceCode = dev_DeviceCode code, dcm_UserCode = dev_UserCode code, dcm_PrincipalID = dev_PrincipalID code,
          dcm_ExpiresAt = timePtrOrNil (dev_ExpiresAt code), dcm_IntervalSec = interval_seconds (dev_Interval code),
          dcm_Status = defaultString (dev_Status code) ''pending'', dcm_CreatedAt = createdAt, dcm_UpdatedAt = now\<rparr>;
        model = (if dcm_IntervalSec model \<le> 0 then model\<lparr>dcm_IntervalSec := 5\<rparr> else model)
    in wrapped ''put device code'' (tab_Save (db_device_codes (gs_db s)) model)))"

definition gorm_GetDeviceCode :: "'d GORMStore \<Rightarrow> string \<Rightarrow> ('d, DeviceCode) op" where
  "gorm_GetDeviceCode s deviceCode =
    bnd (not_found ''get device code'' (gorm_First (db_device_codes (gs_db s)) (\<lambda>m. dcm_DeviceCode m = deviceCode)))
      (\<lambda>model. ret (deviceCodeFromModel model))"

definition gorm_GetDeviceCodeByUserCode :: "'d GORMStore \<Rightarrow> string \<Rightarrow> ('d, DeviceCode) op" where
  "gorm_GetDeviceCodeByUserCode s userCode =
    bnd (not_found ''get device code by user code'' (gorm_First (db_device_codes (gs_db s)) (\<lambda>m. dcm_UserCode m = userCode)))
      (\<lambda>model. ret (deviceCodeFromModel model))"

definition gorm_UpdateDeviceCode :: "'d GORMStore \<Rightarrow> DeviceCode \<Rightarrow> ('d, unit) op" where
  "gorm_UpdateDeviceCode s code =
    bnd (db_Now (gs_db s)) (\<lambda>now.
    affected ''update device code'' (tab_Updates (db_device_codes (gs_db s)) (\<lambda>m. dcm_DeviceCode m = dev_DeviceCode code)
      (\<lambda>m. m\<lparr>dcm_PrincipalID := dev_PrincipalID code, dcm_ExpiresAt := timePtrOrNil (dev_ExpiresAt code),
         dcm_IntervalSec := interval_seconds (dev_Interval code), dcm_Status := dev_Status code, dcm_UpdatedAt := now\<rparr>)))"

section \<open>Sessions\<close>

definition gorm_PutSession :: "'d GORMStore \<Rightarrow> Session \<Rightarrow> ('d, unit) op" where
  "gorm_PutSession s session =
    bnd (db_Now (gs_db s)) (\<lambda>now. wrapped ''put session'' (tab_Save (db_sessions (gs_db s))
      \<lparr>sem_ID = sess_ID session, sem_PrincipalID = sess_PrincipalID session, sem_TenantID = sess_TenantID session,
       sem_CurrentTeamID = sess_CurrentTeamID session, sem_AuthTime = sess_AuthTime session,
       sem_ExpiresAt = timePtrOrNil (sess_ExpiresAt session), sem_Source = sess_Source session, sem_UserAgentHash = [],
       sem_CreatedAt = now, sem_UpdatedAt = now\<rparr>))"

definition gorm_GetSession :: "'d GORMStore \<Rightarrow> string \<Rightarrow> ('d, Session) op" where
  "gorm_GetSession s sessionID =
    bnd (not_found ''get session'' (gorm_First (db_sessions (gs_db s)) (\<lambda>m. sem_ID m = sessionID)))
      (\<lambda>model. ret (sessionFromGORMModel model))"

definition gorm_UpdateSessionContext :: "'d GORMStore \<Rightarrow> string \<Rightarrow> string \<Rightarrow> string \<Rightarrow> string \<Rightarrow> ('d, unit) op" where
  "gorm_UpdateSessionContext s sessionID principalID tenantID teamID =
    bnd (db_Now (gs_db s)) (\<lambda>now.
    affected ''update session context'' (tab_Updates (db_sessions (gs_db s)) (\<lambda>m. sem_ID m = sessionID)
      (\<lambda>m. m\<lparr>sem_PrincipalID := principalID, sem_TenantID := tenantID, sem_CurrentTeamID := teamID, sem_UpdatedAt := now\<rparr>)))"

definition gorm_DeleteSession :: "'d GORMStore \<Rightarrow> string \<Rightarrow> ('d, unit) op" where
  "gorm_DeleteSession s sessionID =
    bnd (wrapped ''delete session'' (tab_Delete (db_sessions (gs_db s)) (\<lambda>m. sem_ID m = sessionID))) (\<lambda>_. ret ())"

definition gorm_DeleteSessionsByPrincipal :: "'d GORMStore \<Rightarrow> string \<Rightarrow> ('d, unit) op" where
  "gorm_DeleteSessionsByPrincipal s principalID =
    bnd (wrapped ''delete sessions by principal'' (tab_Delete (db_sessions (gs_db s)) (\<lambda>m. sem_PrincipalID m = principalID))) (\<lambda>_. ret ())"

section \<open>Service accounts and API keys\<close>

definition gorm_PutServiceAccount :: "'d GORMStore \<Rightarrow> ServiceAccount \<Rightarrow> ('d, unit) op" where
  "gorm_PutServiceAccount s account =
    bnd (db_Now (gs_db s)) (\<lambda>now.
    bnd (defaultTime (gs_db s) (acc_CreatedAt account)) (\<lambda>createdAt.
    wrapped ''put service account'' (tab_Save (db_service_accounts (gs_db s))
      \<lparr>sam_ID = acc_ID account, sam_TenantID = acc_TenantID account, sam_Name = acc_Name account,
       sam_Status = defaultString (acc_Status account) ''active'', sam_CreatedBy = acc_CreatedBy account,
       sam_CreatedAt = createdAt, sam_UpdatedAt = now\<rparr>)))"

definition gorm_ListServiceAccounts :: "'d GORMStore \<Rightarrow> string \<Rightarrow> ('d, ServiceAccount list) op" where
  "gorm_ListServiceAccounts s tenantID =
    bnd (wrapped ''list service accounts'' (tab_Find (db_service_accounts (gs_db s)) (of_tenant sam_TenantID tenantID)
        (newest_first sam_CreatedAt) None))
      (\<lambda>models. ret (map serviceAccountFromModel models))"

definition gorm_DisableServiceAccount :: "'d GORMStore \<Rightarrow> string \<Rightarrow> string \<Rightarrow> ('d, unit) op" where
  "gorm_DisableServiceAccount s accountID tenantID =
    bnd (db_Now (gs_db s)) (\<lambda>now.
    bnd (affected ''disable service account'' (tab_Updates (db_service_accounts (gs_db s))
      (\<lambda>m. sam_ID m = accountID \<and> sam_TenantID m = tenantID) (\<lambda>m. m\<lparr>sam_Status := ''disabled'', sam_UpdatedAt := now\<rparr>))) (\<lambda>_.
    bnd (db_Now (gs_db s)) (\<lambda>now.
    bnd (wrapped ''disable service account principal'' (tab_Updates (db_principals (gs_db s))
      (\<lambda>m. pm_ID m = accountID \<and> pm_TenantID m = tenantID) (\<lambda>m. m\<lparr>pm_Status := ''disabled'', pm_UpdatedAt := now\<rparr>))) (\<lambda>_. ret ()))))"

definition gorm_PutAPIKey :: "'d GORMStore \<Rightarrow> APIKey \<Rightarrow> ('d, unit) op" where
  "gorm_PutAPIKey s key =
    bnd (defaultTime (gs_db s) (key_CreatedAt key)) (\<lambda>createdAt.
    wrapped ''put api key'' (tab_Save (db_api_keys (gs_db s))
      \<lparr>akm_ID = key_ID key, akm_Name = key_Name key, akm_TenantID = key_TenantID key, akm_PrincipalType = key_PrincipalType key,
       akm_PrincipalID = key_PrincipalID key, akm_KeyHash = key_KeyHash key, akm_Scopes = key_Scopes key,
       akm_ExpiresAt = timePtrOrNil (key_ExpiresAt key), akm_Status = defaultString (key_Status key) ''active'',
       akm_CreatedAt = createdAt, akm_LastUsedAt = timePtrOrNil (key_LastUsedAt key)\<rparr>))"

definition gorm_GetAPIKeyByHash :: "'d GORMStore \<Rightarrow> string \<Rightarrow> ('d, APIKey) op" where
  "gorm_GetAPIKeyByHash s keyHash =
    bnd (not_found ''get api key'' (gorm_First (db_api_keys (gs_db s)) (\<lambda>m. akm_KeyHash m = keyHash))) (\<lambda>model. ret (apiKeyFromModel model))"

definition gorm_ListAPIKeys :: "'d GORMStore \<Rightarrow> string \<Rightarrow> ('d, APIKey list) op" where
  "gorm_ListAPIKeys s principalID =
    bnd (wrapped ''list api keys'' (tab_Find (db_api_keys (gs_db s)) (\<lambda>m. akm_PrincipalID m = principalID)
        (newest_first akm_CreatedAt) None))
      (\<lambda>models. ret (map apiKeyFromModel models))"

definition gorm_RevokeAPIKey :: "'d GORMStore \<Rightarrow> string \<Rightarrow> string \<Rightarrow> ('d, unit) op" where
  "gorm_RevokeAPIKey s keyID principalID =
    affected ''revoke api key'' (tab_Updates (db_api_keys (gs_db s))
      (\<lambda>m. akm_ID m = keyID \<and> akm_PrincipalID m = principalID) (\<lambda>m. m\<lparr>akm_Status := ''revoked''\<rparr>))"

definition gorm_TouchAPIKeyLastUsed :: "'d GORMStore \<Rightarrow> string \<Rightarrow> time \<Rightarrow> ('d, unit) op" where
  "gorm_TouchAPIKeyLastUsed s keyID lastUsedAt0 =
    bnd (if IsZero lastUsedAt0 then db_Now (gs_db s) else ret lastUsedAt0) (\<lambda>lastUsedAt.
    affected ''touch api key last used'' (tab_Updates (db_api_keys (gs_db s)) (\<lambda>m. akm_ID m = keyID)
      (\<lambda>m. m\<lparr>akm_LastUsedAt := Some lastUsedAt\<rparr>)))"

section \<open>Agent runs and the audit log\<close>

definition gorm_PutAgentRun :: "'d GORMStore \<Rightarrow> AgentRun \<Rightarrow> ('d, unit) op" where
  "gorm_PutAgentRun s run =
    bnd (db_Now (gs_db s)) (\<lambda>now.
    bnd (defaultTime (gs_db s) (run_CreatedAt run)) (\<lambda>createdAt.
    wrapped ''put agent run'' (tab_Save (db_agent_runs (gs_db s))
      \<lparr>arm_ID = run_ID run, arm_TenantID = run_TenantID run, arm_ActorPrincipalID = run_ActorPrincipalID run,
       arm_AgentPrincipalID = run_AgentPrincipalID run, arm_Status = defaultString (run_Status run) ''running'',
       arm_CreatedAt = createdAt, arm_UpdatedAt = now\<rparr>)))"

definition gorm_AppendAudit :: "'d GORMStore \<Rightarrow> AuditEvent \<Rightarrow> ('d, unit) op" where
  "gorm_AppendAudit s event =
    bnd (defaultTime (gs_db s) (ev_CreatedAt event)) (\<lambda>createdAt.
    wrapped ''append audit'' (tab_Create (db_audit_logs (gs_db s))
      \<lparr>alm_ID = 0, alm_TenantID = ev_TenantID event, alm_ActorType = ev_ActorType event, alm_ActorID = ev_ActorID event,
       alm_PrincipalType = ev_PrincipalType event, alm_PrincipalID = ev_PrincipalID event, alm_Action = ev_Action event,
       alm_ResourceType = ev_ResourceType event, alm_ResourceID = ev_ResourceID event, alm_Decision = ev_Decision event,
       alm_JWTID = ev_JWTID event, alm_CreatedAt = createdAt\<rparr>))"

section \<open>The store as an implementation of the interface\<close>

definition gorm_store :: "'d GORMStore \<Rightarrow> 'd Store" where
  "gorm_store s =
    \<lparr>store_UpsertTenant = gorm_UpsertTenant s, store_UpsertPrincipal = gorm_UpsertPrincipal s,
     store_UpdatePrincipalStatus = gorm_UpdatePrincipalStatus s, store_GetTenant = gorm_GetTenant s,
     store_GetPrincipal = gorm_GetPrincipal s,
     store_ListPrincipalsByCasdoorUser = gorm_ListPrincipalsByCasdoorUser s,
     store_PutOIDCLoginState = gorm_PutOIDCLoginState s, store_TakeOIDCLoginState = gorm_TakeOIDCLoginState s,
     store_PutDeviceCode = gorm_PutDeviceCode s, store_GetDeviceCode = gorm_GetDeviceCode s,
     store_GetDeviceCodeByUserCode = gorm_GetDeviceCodeByUserCode s,
     store_UpdateDeviceCode = gorm_UpdateDeviceCode s,
     store_PutSession = gorm_PutSession s, store_GetSession = gorm_GetSession s,
     store_UpdateSessionContext = gorm_UpdateSessionContext s, store_DeleteSession = gorm_DeleteSession s,
     store_DeleteSessionsByPrincipal = gorm_DeleteSessionsByPrincipal s,
     store_PutServiceAccount = gorm_PutServiceAccount s, store_ListServiceAccounts = gorm_ListServiceAccounts s,
     store_DisableServiceAccount = gorm_DisableServiceAccount s,
     store_PutAPIKey = gorm_PutAPIKey s, store_GetAPIKeyByHash = gorm_GetAPIKeyByHash s,
     store_ListAPIKeys = gorm_ListAPIKeys s, store_RevokeAPIKey = gorm_RevokeAPIKey s,
     store_TouchAPIKeyLastUsed = gorm_TouchAPIKeyLastUsed s, store_PutAgentRun = gorm_PutAgentRun s,
     store_AppendAudit = gorm_AppendAudit s,
     store_TakeBoundOIDCLoginState = Some (gorm_TakeBoundOIDCLoginState s),
     store_ListDirectorySubjects = Some (gorm_ListDirectorySubjects s)\<rparr>"

end
