(* ===== verification/Gorm_Rows.thy ===== *)
theory Gorm_Rows
  imports Warden_Store Gorm_Database
begin

text \<open>
  Tables against partial maps: \<open>rel_rows key conv rows M\<close> says that the rows, converted by \<open>conv\<close>, are the map \<open>M\<close> of
  the store contract. One lemma for each kind of statement.
\<close>

definition row_at :: "('m \<Rightarrow> 'k) \<Rightarrow> 'k \<Rightarrow> 'm list \<Rightarrow> 'm option" where
  "row_at key k rows = find (\<lambda>m. key m = k) rows"

definition rel_rows :: "('m \<Rightarrow> 'k) \<Rightarrow> ('m \<Rightarrow> 'a) \<Rightarrow> 'm list \<Rightarrow> ('k \<rightharpoonup> 'a) \<Rightarrow> bool" where
  "rel_rows key conv rows M \<longleftrightarrow> distinct (map key rows) \<and> (\<lambda>k. map_option conv (row_at key k rows)) = M"

lemma row_at_simps [simp]:
  "row_at key k [] = None"
  "row_at key k (m # rows) = (if key m = k then Some m else row_at key k rows)"
  by (simp_all add: row_at_def)

lemma row_at_None: "row_at key k rows = None \<longleftrightarrow> k \<notin> key ` set rows"
  by (induction rows) auto

lemma row_at_Some: "distinct (map key rows) \<Longrightarrow> row_at key k rows = Some m \<longleftrightarrow> m \<in> set rows \<and> key m = k"
  by (induction rows) (auto simp: rev_image_eqI)

lemma row_at_append: "row_at key k (rows @ [m]) = (case row_at key k rows of None \<Rightarrow> if key m = k then Some m else None | Some x \<Rightarrow> Some x)"
  by (induction rows) auto

lemma row_at_save: "row_at key k (save_row key m rows) = (if k = key m then Some m else row_at key k rows)"
proof (cases "key m \<in> key ` set rows")
  case True
  then have e: "save_row key m rows = map (\<lambda>x. if key x = key m then m else x) rows" by (simp add: save_row_def)
  have "row_at key k (map (\<lambda>x. if key x = key m then m else x) rows) =
      (if k = key m then if key m \<in> key ` set rows then Some m else None else row_at key k rows)"
    by (induction rows) auto
  with True e show ?thesis by simp
next
  case False
  then have "row_at key (key m) rows = None" by (simp add: row_at_None)
  with False show ?thesis by (cases "row_at key k rows") (auto simp: save_row_def row_at_append)
qed

lemma map_key_save: "map key (save_row key m rows) = (if key m \<in> key ` set rows then map key rows else map key rows @ [key m])"
  by (auto simp: save_row_def comp_def)

lemma keys_save: "key ` set (save_row key m rows) = insert (key m) (key ` set rows)"
  using arg_cong [OF map_key_save, of set key m rows] by (simp add: insert_absorb split: if_splits)

lemma distinct_save: "distinct (map key rows) \<Longrightarrow> distinct (map key (save_row key m rows))"
  by (auto simp: map_key_save)

lemma distinct_save_column:
  assumes "distinct (map key rows)" and "distinct (map f rows)" and "\<And>m'. m' \<in> set rows \<Longrightarrow> f m' = f m \<Longrightarrow> key m' = key m"
  shows "distinct (map f (save_row key m rows))"
proof (cases "key m \<in> key ` set rows")
  case True
  then have "save_row key m rows = map (\<lambda>x. if key x = key m then m else x) rows" by (simp add: save_row_def)
  moreover have "inj_on (\<lambda>x. f (if key x = key m then m else x)) (set rows)"
  proof (rule inj_onI)
    fix x y
    assume x: "x \<in> set rows" and y: "y \<in> set rows"
      and e: "f (if key x = key m then m else x) = f (if key y = key m then m else y)"
    have k: "inj_on key (set rows)" "inj_on f (set rows)" using assms(1,2) by (simp_all add: distinct_map)
    consider "key x = key m" "key y = key m" | "key x = key m" "key y \<noteq> key m" | "key x \<noteq> key m" "key y = key m"
      | "key x \<noteq> key m" "key y \<noteq> key m" by blast
    then show "x = y"
    proof cases
      case 1
      then have "key x = key y" by simp
      then show ?thesis by (rule inj_onD [OF k(1) _ x y])
    next
      case 2
      then show ?thesis using e assms(3) [OF y] by simp
    next
      case 3
      then show ?thesis using e assms(3) [OF x] by simp
    next
      case 4
      then have "f x = f y" using e by simp
      then show ?thesis by (rule inj_onD [OF k(2) _ x y])
    qed
  qed
  ultimately show ?thesis using assms(2) by (simp add: distinct_map comp_def)
next
  case False
  then have "f m \<notin> f ` set rows"
  proof (intro notI)
    assume "f m \<in> f ` set rows"
    then obtain m' where m': "m' \<in> set rows" "f m' = f m" by auto
    have "key m' \<in> key ` set rows" using m'(1) by (rule imageI)
    with False assms(3) [OF m'] show False by simp
  qed
  with False show ?thesis using assms(2) by (simp add: save_row_def)
qed

lemma set_save: "x \<in> set (save_row key m rows) \<Longrightarrow> x = m \<or> x \<in> set rows"
  by (auto simp: save_row_def split: if_splits)

lemma row_at_change:
  assumes "\<And>m. key (f m) = key m"
  shows "row_at key k (change_rows P f rows) = map_option (\<lambda>m. if P m then f m else m) (row_at key k rows)"
  by (induction rows) (auto simp: change_rows_def assms)

lemma map_change: "(\<And>m. g (f m) = g m) \<Longrightarrow> map g (change_rows P f rows) = map g rows"
  by (simp add: change_rows_def)

lemma set_change: "x \<in> set (change_rows P f rows) \<Longrightarrow> \<exists>y \<in> set rows. x = (if P y then f y else y)"
  by (auto simp: change_rows_def)

lemma change_rows_none: "\<forall>m \<in> set rows. \<not> P m \<Longrightarrow> change_rows P f rows = rows"
  by (simp add: change_rows_def map_idI)

lemma distinct_map_filter_rows: "distinct (map key rows) \<Longrightarrow> distinct (map key (filter P rows))"
  by (induction rows) auto

lemma row_at_filter:
  "distinct (map key rows) \<Longrightarrow> row_at key k (filter P rows) = (case row_at key k rows of None \<Rightarrow> None | Some m \<Rightarrow> if P m then Some m else None)"
proof (induction rows)
  case (Cons m rows)
  then have "key m = k \<Longrightarrow> row_at key k rows = None" by (auto simp: row_at_None)
  with Cons show ?case by (cases "key m = k") auto
qed simp

section \<open>The relation\<close>

lemma rel_rowsD:
  assumes "rel_rows key conv rows M"
  shows "distinct (map key rows)" "map_option conv (row_at key k rows) = M k"
  using assms by (auto simp: rel_rows_def)

lemma rel_rows_map: "rel_rows key conv rows M \<Longrightarrow> M = (\<lambda>k. map_option conv (row_at key k rows))"
  by (simp add: rel_rows_def)

lemma rel_rows_empty: "rel_rows key conv [] (\<lambda>_. None)"
  by (simp add: rel_rows_def)

lemma rel_rows_save:
  assumes "rel_rows key conv rows M" and "conv m = x" and "key m = k"
  shows "rel_rows key conv (save_row key m rows) (M(k \<mapsto> x))"
  using assms by (auto simp: rel_rows_def row_at_save distinct_save)

lemma rel_rows_filter:
  assumes "rel_rows key conv rows M" and "\<And>m. P m \<longleftrightarrow> \<not> Q (conv m)"
  shows "rel_rows key conv (filter P rows) (\<lambda>k. case M k of None \<Rightarrow> None | Some x \<Rightarrow> if Q x then None else Some x)"
  using rel_rowsD(1) [OF assms(1)] unfolding rel_rows_map [OF assms(1)] rel_rows_def
  by (auto simp: distinct_map_filter_rows row_at_filter fun_eq_iff assms(2) split: option.split)

lemma rel_rows_remove:
  assumes "rel_rows key conv rows M"
  shows "rel_rows key conv (filter (\<lambda>m. key m \<noteq> k) rows) (M(k := None))"
proof -
  have "row_at key k rows = Some m \<Longrightarrow> key m = k" for k m by (induction rows) (auto split: if_splits)
  then show ?thesis
    using rel_rowsD(1) [OF assms] unfolding rel_rows_map [OF assms] rel_rows_def
    by (auto simp: distinct_map_filter_rows row_at_filter fun_eq_iff split: option.split)
qed

lemma rel_rows_change:
  assumes "rel_rows key conv rows M" and "\<And>m. key (f m) = key m"
    and "\<And>m. m \<in> set rows \<Longrightarrow> conv (if P m then f m else m) = (if Q (conv m) then g (conv m) else conv m)"
  shows "rel_rows key conv (change_rows P f rows) (\<lambda>k. map_option (\<lambda>x. if Q x then g x else x) (M k))"
proof -
  have "map_option conv (map_option (\<lambda>m. if P m then f m else m) (row_at key k rows)) =
      map_option (\<lambda>x. if Q x then g x else x) (map_option conv (row_at key k rows))" for k
  proof (cases "row_at key k rows")
    case (Some m)
    then have "m \<in> set rows" using row_at_Some [OF rel_rowsD(1) [OF assms(1)]] by blast
    from assms(3) [OF this] Some show ?thesis by (simp del: if_split)
  qed simp
  then show ?thesis
    using rel_rowsD(1) [OF assms(1)] unfolding rel_rows_map [OF assms(1)] rel_rows_def
    by (simp add: map_change assms(2) row_at_change [of key f, OF assms(2)])
qed

lemma rel_rows_change_at:
  assumes "rel_rows key conv rows M" and "\<And>m. key (f m) = key m"
    and "\<And>m. m \<in> set rows \<Longrightarrow> key m = k \<Longrightarrow> conv (f m) = g (conv m)"
  shows "rel_rows key conv (change_rows (\<lambda>m. key m = k) f rows) (upd_at M k g)"
proof -
  have "map_option conv (row_at key k' (change_rows (\<lambda>m. key m = k) f rows)) = upd_at M k g k'" for k'
  proof (cases "row_at key k' rows")
    case None
    then have "M k' = None" using rel_rowsD(2) [OF assms(1), of k'] by simp
    with None show ?thesis by (cases "k' = k") (simp_all add: row_at_change [of key f, OF assms(2)])
  next
    case (Some m)
    then have m: "m \<in> set rows" "key m = k'" using row_at_Some [OF rel_rowsD(1) [OF assms(1)]] by blast+
    have "M k' = Some (conv m)" using rel_rowsD(2) [OF assms(1), of k'] Some by simp
    with Some m assms(3) [OF m(1)] show ?thesis by (cases "k' = k") (simp_all add: row_at_change [of key f, OF assms(2)])
  qed
  then show ?thesis using rel_rowsD(1) [OF assms(1)] assms(2) by (simp add: rel_rows_def map_change)
qed

lemma rel_rows_find:
  assumes "rel_rows key conv rows M" and "m \<in> set rows" and "key m = k"
  shows "M k = Some (conv m)"
  using assms row_at_Some [of key rows k m] by (auto simp: rel_rows_def)

lemma rel_rows_none:
  assumes "rel_rows key conv rows M" and "\<forall>m \<in> set rows. key m \<noteq> k"
  shows "M k = None"
  using assms by (auto simp: rel_rows_def row_at_None)

lemma rel_rows_some:
  assumes "rel_rows key conv rows M" and "M k = Some x"
  obtains m where "m \<in> set rows" "key m = k" "conv m = x"
  using assms row_at_Some [of key rows k] by (auto simp: rel_rows_def)

lemma rel_rows_ran:
  assumes "rel_rows key conv rows M"
  shows "ran M = conv ` set rows"
proof -
  have d: "distinct (map key rows)" and M: "M = (\<lambda>k. map_option conv (row_at key k rows))"
    using assms by (auto simp: rel_rows_def)
  show ?thesis
  proof
    show "ran M \<subseteq> conv ` set rows" using row_at_Some [OF d] by (auto simp: M ran_def)
    show "conv ` set rows \<subseteq> ran M"
    proof
      fix x assume "x \<in> conv ` set rows"
      then obtain m where "m \<in> set rows" "x = conv m" by blast
      then have "M (key m) = Some x" using row_at_Some [OF d, of "key m" m] by (simp add: M)
      then show "x \<in> ran M" by (rule ranI)
    qed
  qed
qed

lemma rel_rows_cong: "rel_rows key conv rows M \<Longrightarrow> M = M' \<Longrightarrow> rel_rows key conv rows M'"
  by simp

end
