(* ===== verification/Warden_GORM_Facts.thy ===== *)
theory Warden_GORM_Facts
  imports Warden_GORMStore Gorm_Rows
begin

text \<open>
  The store in a database against the contract of a store. \<open>Tables\<close> is what a database holds; \<open>gorm_database\<close> are the
  documented laws of GORM and of the database (times keep their instants, as in SQLite, and the columns of text take any length);
  \<open>related\<close> relates the rows to the abstract view of theory \<open>Warden_Store\<close>, and every operation keeps it when its
  arguments are in the normal form that the database stores unchanged.
\<close>

section \<open>The database\<close>

record Tables =
  tb_tenants :: "tenantModel list"
  tb_principals :: "principalModel list"
  tb_teams :: "teamModel list"
  tb_principal_teams :: "principalTeamModel list"
  tb_principal_roles :: "principalRoleModel list"
  tb_service_accounts :: "serviceAccountModel list"
  tb_oidc_login_states :: "oidcLoginStateModel list"
  tb_device_codes :: "deviceCodeModel list"
  tb_api_keys :: "apiKeyModel list"
  tb_sessions :: "sessionModel list"
  tb_agent_runs :: "agentRunModel list"
  tb_audit_logs :: "auditLogModel list"

abbreviation link_key :: "principalTeamModel \<Rightarrow> string \<times> string" where
  "link_key m \<equiv> (ptm_PrincipalID m, ptm_TeamID m)"

abbreviation grant_key :: "principalRoleModel \<Rightarrow> string \<times> string \<times> string \<times> string" where
  "grant_key m \<equiv> (prm_PrincipalID m, prm_RoleKey m, prm_ScopeType m, prm_ScopeID m)"

locale gorm_database =
  fixes gs :: "'d GORMStore" and content :: "'d \<Rightarrow> Tables" and up :: "'d \<Rightarrow> bool"
  assumes tenants: "gorm_table content up tb_tenants tb_tenants_update tnm_ID (\<lambda>now m. m\<lparr>tnm_UpdatedAt := now\<rparr>)
      (\<lambda>m. tnm_ID m \<noteq> [] \<and> tnm_Status m \<noteq> []) (\<lambda>rows. distinct (map tnm_Slug rows)) (db_tenants (gs_db gs))"
    and principals: "gorm_table content up tb_principals tb_principals_update pm_ID (\<lambda>now m. m\<lparr>pm_UpdatedAt := now\<rparr>)
      (\<lambda>m. pm_ID m \<noteq> [] \<and> pm_Status m \<noteq> []) (\<lambda>_. True) (db_principals (gs_db gs))"
    and teams: "gorm_table content up tb_teams tb_teams_update tem_ID (\<lambda>now m. m\<lparr>tem_UpdatedAt := now\<rparr>)
      (\<lambda>m. tem_ID m \<noteq> [] \<and> tem_Status m \<noteq> []) (\<lambda>_. True) (db_teams (gs_db gs))"
    and principal_teams: "gorm_table content up tb_principal_teams tb_principal_teams_update link_key (\<lambda>now m. m)
      (\<lambda>m. True) (\<lambda>_. True) (db_principal_teams (gs_db gs))"
    and principal_roles: "gorm_table content up tb_principal_roles tb_principal_roles_update grant_key (\<lambda>now m. m)
      (\<lambda>m. True) (\<lambda>_. True) (db_principal_roles (gs_db gs))"
    and service_accounts: "gorm_table content up tb_service_accounts tb_service_accounts_update sam_ID (\<lambda>now m. m\<lparr>sam_UpdatedAt := now\<rparr>)
      (\<lambda>m. sam_ID m \<noteq> [] \<and> sam_Status m \<noteq> []) (\<lambda>_. True) (db_service_accounts (gs_db gs))"
    and oidc_login_states: "gorm_table content up tb_oidc_login_states tb_oidc_login_states_update olm_State (\<lambda>now m. m)
      (\<lambda>m. olm_State m \<noteq> []) (\<lambda>_. True) (db_oidc_login_states (gs_db gs))"
    and device_codes: "gorm_table content up tb_device_codes tb_device_codes_update dcm_DeviceCode (\<lambda>now m. m\<lparr>dcm_UpdatedAt := now\<rparr>)
      (\<lambda>m. dcm_DeviceCode m \<noteq> [] \<and> dcm_IntervalSec m \<noteq> 0) (\<lambda>rows. distinct (map dcm_UserCode rows)) (db_device_codes (gs_db gs))"
    and api_keys: "gorm_table content up tb_api_keys tb_api_keys_update akm_ID (\<lambda>now m. m)
      (\<lambda>m. akm_ID m \<noteq> [] \<and> akm_Status m \<noteq> []) (\<lambda>rows. distinct (map akm_KeyHash rows)) (db_api_keys (gs_db gs))"
    and sessions: "gorm_table content up tb_sessions tb_sessions_update sem_ID (\<lambda>now m. m\<lparr>sem_UpdatedAt := now\<rparr>)
      (\<lambda>m. sem_ID m \<noteq> []) (\<lambda>_. True) (db_sessions (gs_db gs))"
    and agent_runs: "gorm_table content up tb_agent_runs tb_agent_runs_update arm_ID (\<lambda>now m. m\<lparr>arm_UpdatedAt := now\<rparr>)
      (\<lambda>m. arm_ID m \<noteq> [] \<and> arm_Status m \<noteq> []) (\<lambda>_. True) (db_agent_runs (gs_db gs))"
    and audit_create: "alm_ID m = 0 \<Longrightarrow> runs content up (tab_Create (db_audit_logs (gs_db gs)) m) d True
      (\<lambda>_ T. \<exists>n. T = tb_audit_logs_update (\<lambda>rows. rows @ [m\<lparr>alm_ID := n\<rparr>]) (content d))"
    and audit_find: "total_order ordl \<Longrightarrow> (\<And>n. limit = Some n \<Longrightarrow> n \<ge> 0) \<Longrightarrow>
      runs content up (tab_Find (db_audit_logs (gs_db gs)) Pl ordl limit) d True
        (\<lambda>r T. T = content d \<and> answers Pl ordl limit (tb_audit_logs (content d)) r)"
    and collate: "total_order (db_collate (gs_db gs))"
    and pluck: "runs content up (db_Pluck (gs_db gs) Pp column collation) d True
      (\<lambda>r T. T = content d \<and> distinct r \<and> set r = column ` {m \<in> set (tb_principals (content d)). Pp m})"
    and join: "total_order ordj \<Longrightarrow> runs content up (db_JoinTeams (gs_db gs) Pj ordj) d True
      (\<lambda>r T. T = content d \<and> (\<exists>pairs. sorted_wrt ordj pairs \<and> r = map fst pairs \<and>
         mset pairs = filter_mset Pj (mset (List.product (tb_teams (content d)) (tb_principal_teams (content d))))))"
    and transaction: "(up d \<longrightarrow> up (snd (db_Transaction (gs_db gs) body d)))
      \<and> ((\<not> up d \<and> (\<exists>e. fst (db_Transaction (gs_db gs) body d) = Inl e \<and> db_error e)
           \<and> content (snd (db_Transaction (gs_db gs) body d)) = content d)
        \<or> (\<exists>d0. content d0 = content d \<and> (up d \<longrightarrow> up d0) \<and> fst (db_Transaction (gs_db gs) body d) = fst (body d0)
           \<and> content (snd (db_Transaction (gs_db gs) body d)) = (if isl (fst (body d0)) then content d else content (snd (body d0)))))"
    and now: "\<exists>t d'. db_Now (gs_db gs) d = (Inr t, d') \<and> \<not> IsZero t \<and> content d' = content d \<and> (up d \<longrightarrow> up d')"

text \<open>The tables of a database.\<close>

sublocale gorm_database \<subseteq> tab_tenants: gorm_table content up tb_tenants tb_tenants_update tnm_ID "(\<lambda>now m. m\<lparr>tnm_UpdatedAt := now\<rparr>)"
      "(\<lambda>m. tnm_ID m \<noteq> [] \<and> tnm_Status m \<noteq> [])" "(\<lambda>rows. distinct (map tnm_Slug rows))" "(db_tenants (gs_db gs))"
  by (rule tenants)

sublocale gorm_database \<subseteq> tab_principals: gorm_table content up tb_principals tb_principals_update pm_ID "(\<lambda>now m. m\<lparr>pm_UpdatedAt := now\<rparr>)"
      "(\<lambda>m. pm_ID m \<noteq> [] \<and> pm_Status m \<noteq> [])" "(\<lambda>_. True)" "(db_principals (gs_db gs))"
  by (rule principals)

sublocale gorm_database \<subseteq> tab_teams: gorm_table content up tb_teams tb_teams_update tem_ID "(\<lambda>now m. m\<lparr>tem_UpdatedAt := now\<rparr>)"
      "(\<lambda>m. tem_ID m \<noteq> [] \<and> tem_Status m \<noteq> [])" "(\<lambda>_. True)" "(db_teams (gs_db gs))"
  by (rule teams)

sublocale gorm_database \<subseteq> tab_principal_teams: gorm_table content up tb_principal_teams tb_principal_teams_update link_key "(\<lambda>now m. m)"
      "(\<lambda>m. True)" "(\<lambda>_. True)" "(db_principal_teams (gs_db gs))"
  by (rule principal_teams)

sublocale gorm_database \<subseteq> tab_principal_roles: gorm_table content up tb_principal_roles tb_principal_roles_update grant_key "(\<lambda>now m. m)"
      "(\<lambda>m. True)" "(\<lambda>_. True)" "(db_principal_roles (gs_db gs))"
  by (rule principal_roles)

sublocale gorm_database \<subseteq> tab_service_accounts: gorm_table content up tb_service_accounts tb_service_accounts_update sam_ID "(\<lambda>now m. m\<lparr>sam_UpdatedAt := now\<rparr>)"
      "(\<lambda>m. sam_ID m \<noteq> [] \<and> sam_Status m \<noteq> [])" "(\<lambda>_. True)" "(db_service_accounts (gs_db gs))"
  by (rule service_accounts)

sublocale gorm_database \<subseteq> tab_oidc_login_states: gorm_table content up tb_oidc_login_states tb_oidc_login_states_update olm_State "(\<lambda>now m. m)"
      "(\<lambda>m. olm_State m \<noteq> [])" "(\<lambda>_. True)" "(db_oidc_login_states (gs_db gs))"
  by (rule oidc_login_states)

sublocale gorm_database \<subseteq> tab_device_codes: gorm_table content up tb_device_codes tb_device_codes_update dcm_DeviceCode "(\<lambda>now m. m\<lparr>dcm_UpdatedAt := now\<rparr>)"
      "(\<lambda>m. dcm_DeviceCode m \<noteq> [] \<and> dcm_IntervalSec m \<noteq> 0)" "(\<lambda>rows. distinct (map dcm_UserCode rows))" "(db_device_codes (gs_db gs))"
  by (rule device_codes)

sublocale gorm_database \<subseteq> tab_api_keys: gorm_table content up tb_api_keys tb_api_keys_update akm_ID "(\<lambda>now m. m)"
      "(\<lambda>m. akm_ID m \<noteq> [] \<and> akm_Status m \<noteq> [])" "(\<lambda>rows. distinct (map akm_KeyHash rows))" "(db_api_keys (gs_db gs))"
  by (rule api_keys)

sublocale gorm_database \<subseteq> tab_sessions: gorm_table content up tb_sessions tb_sessions_update sem_ID "(\<lambda>now m. m\<lparr>sem_UpdatedAt := now\<rparr>)"
      "(\<lambda>m. sem_ID m \<noteq> [])" "(\<lambda>_. True)" "(db_sessions (gs_db gs))"
  by (rule sessions)

sublocale gorm_database \<subseteq> tab_agent_runs: gorm_table content up tb_agent_runs tb_agent_runs_update arm_ID "(\<lambda>now m. m\<lparr>arm_UpdatedAt := now\<rparr>)"
      "(\<lambda>m. arm_ID m \<noteq> [] \<and> arm_Status m \<noteq> [])" "(\<lambda>_. True)" "(db_agent_runs (gs_db gs))"
  by (rule agent_runs)

section \<open>Relating the rows to the view\<close>

text \<open>Memberships of a principal: the teams, the first of which is the primary one.\<close>

definition memberships :: "Team list \<Rightarrow> (string \<times> bool) list" where
  "memberships ts = map (\<lambda>(i, t). (team_ID t, i = 0)) (enumerate (0 :: nat) ts)"

definition principal_row :: "(string \<Rightarrow> Team) \<Rightarrow> Tables \<Rightarrow> principalModel \<Rightarrow> Principal \<Rightarrow> bool" where
  "principal_row reg T m p \<longleftrightarrow> principalFromModels m [] [] = p\<lparr>p_Roles := [], p_Teams := []\<rparr>
     \<and> mset (map roleFromModel (filter (\<lambda>r. prm_PrincipalID r = p_ID p) (tb_principal_roles T))) = mset (p_Roles p)
     \<and> mset (map (\<lambda>l. (ptm_TeamID l, ptm_IsPrimary l)) (filter (\<lambda>l. ptm_PrincipalID l = p_ID p) (tb_principal_teams T)))
         = mset (memberships (p_Teams p))
     \<and> (\<forall>t \<in> set (p_Teams p). team_ID t \<in> tem_ID ` set (tb_teams T) \<and> reg (team_ID t) = t)"

definition rel_principals :: "(string \<Rightarrow> Team) \<Rightarrow> Tables \<Rightarrow> (string \<rightharpoonup> Principal) \<Rightarrow> bool" where
  "rel_principals reg T M \<longleftrightarrow> distinct (map pm_ID (tb_principals T)) \<and> distinct (map tem_ID (tb_teams T))
     \<and> (\<forall>m \<in> set (tb_teams T). teamFromModel m = reg (tem_ID m))
     \<and> (\<forall>k. rel_option (principal_row reg T) (row_at pm_ID k (tb_principals T)) (M k))"

definition related :: "(string \<Rightarrow> Team) \<Rightarrow> Tables \<Rightarrow> StoreView \<Rightarrow> bool" where
  "related reg T V \<longleftrightarrow> rel_rows tnm_ID tenantFromModel (tb_tenants T) (vw_tenants V) \<and> distinct (map tnm_Slug (tb_tenants T))
     \<and> rel_principals reg T (vw_principals V)
     \<and> rel_rows olm_State oidcStateFromModel (tb_oidc_login_states T) (vw_oidcStates V)
     \<and> rel_rows dcm_DeviceCode deviceCodeFromModel (tb_device_codes T) (vw_deviceCodes V) \<and> distinct (map dcm_UserCode (tb_device_codes T))
     \<and> rel_rows sem_ID sessionFromGORMModel (tb_sessions T) (vw_sessions V)
     \<and> rel_rows sam_ID serviceAccountFromModel (tb_service_accounts T) (vw_accounts V)
     \<and> rel_rows akm_KeyHash apiKeyFromModel (tb_api_keys T) (vw_apiKeys V) \<and> distinct (map akm_ID (tb_api_keys T))
     \<and> rel_rows arm_ID agentRunFromModel (tb_agent_runs T) (vw_agentRuns V)
     \<and> map auditFromModel (tb_audit_logs T) = vw_audits V"

text \<open>The same principal, up to the order of its roles and of the teams after the first.\<close>

definition same_principal :: "Principal \<Rightarrow> Principal \<Rightarrow> bool" where
  "same_principal p q \<longleftrightarrow> p\<lparr>p_Roles := [], p_Teams := []\<rparr> = q\<lparr>p_Roles := [], p_Teams := []\<rparr>
     \<and> mset (p_Roles p) = mset (p_Roles q) \<and> mset (p_Teams p) = mset (p_Teams q) \<and> take 1 (p_Teams p) = take 1 (p_Teams q)"

definition sim :: "('d \<Rightarrow> 's \<Rightarrow> bool) \<Rightarrow> ('d, 'a) op \<Rightarrow> ('s, 'b) op \<Rightarrow> 'd \<Rightarrow> 's \<Rightarrow> ('a \<Rightarrow> 'b \<Rightarrow> bool) \<Rightarrow> bool" where
  "sim R m m' d s A \<longleftrightarrow> R (snd (m d)) (snd (m' s)) \<and> rel_sum (=) A (fst (m d)) (fst (m' s))"

definition sim_rel :: "('t \<Rightarrow> 'v \<Rightarrow> bool) \<Rightarrow> ('d \<Rightarrow> 't) \<Rightarrow> ('d \<Rightarrow> bool) \<Rightarrow> ('s \<Rightarrow> bool) \<Rightarrow> ('s \<Rightarrow> 'v) \<Rightarrow> 'd \<Rightarrow> 's \<Rightarrow> bool" where
  "sim_rel Q content up ok view d s \<longleftrightarrow> up d \<and> ok s \<and> Q (content d) (view s)"

lemma defaultString_given: "TrimSpace v \<noteq> [] \<Longrightarrow> defaultString v f = v"
  by (simp add: defaultString_def)

lemma TrimSpace_nonempty: "TrimSpace v \<noteq> [] \<Longrightarrow> v \<noteq> []"
proof -
  have "TrimSpace [] = []" by code_simp
  then show "TrimSpace v \<noteq> [] \<Longrightarrow> v \<noteq> []" by auto
qed

lemma time_column [simp]: "timeValue (timePtrOrNil v) = v" "timeValue (Some v) = v"
  by (auto simp: timeValue_def timePtrOrNil_def IsZero_def)

lemma rel_principals_cong:
  assumes "rel_principals reg T M" and "tb_principals T' = tb_principals T" and "tb_teams T' = tb_teams T"
    and "tb_principal_teams T' = tb_principal_teams T" and "tb_principal_roles T' = tb_principal_roles T"
  shows "rel_principals reg T' M"
proof -
  have "principal_row reg T' = principal_row reg T" by (intro ext) (simp add: principal_row_def assms(2-5))
  then show ?thesis using assms by (simp add: rel_principals_def)
qed

context gorm_table
begin

lemma found_up:
  assumes "up d"
  obtains (none) d' where "not_found msg (gorm_First t P) d = (Inl ErrNotFound, d')" "\<forall>m \<in> set (get (content d)). \<not> P m"
      "content d' = content d" "up d'"
  | (row) m d' where "not_found msg (gorm_First t P) d = (Inr m, d')" "m \<in> set (get (content d))" "P m" "content d' = content d" "up d'"
  using assms
proof (cases rule: First_up [where P = P])
  case (none d')
  then show thesis by (intro that(1)) (simp_all add: not_found_def op_simps)
next
  case (row m d')
  then show thesis by (intro that(2)) (simp_all add: not_found_def op_simps)
qed

lemma affected_up:
  assumes "up d" and "\<And>m. key (f m) = key m" and "unique (change_rows P f (get (content d)))"
  obtains (none) d' where "affected msg (tab_Updates t P f) d = (Inl ErrNotFound, d')" "\<forall>m \<in> set (get (content d)). \<not> P m"
      "content d' = content d" "up d'"
  | (some) m now d' where "affected msg (tab_Updates t P f) d = (Inr (), d')" "m \<in> set (get (content d))" "P m"
      "content d' = put (change_rows P (\<lambda>m. stamp now (f m))) (content d)" "up d'"
proof -
  obtain d' now where u: "tab_Updates t P f d = (Inr (length (filter P (get (content d)))), d')" "up d'"
      "content d' = put (change_rows P (\<lambda>m. stamp now (f m))) (content d)"
    by (rule Updates_up [where P = P, OF assms])
  show thesis
  proof (cases "\<exists>m \<in> set (get (content d)). P m")
    case False
    then have "content d' = content d" using u(3) put_same change_rows_none [of "get (content d)" P] by simp
    moreover have "filter P (get (content d)) = []" using False by (simp add: filter_empty_conv)
    ultimately show thesis using False u by (intro that(1) [of d']) (simp_all add: affected_def op_simps)
  next
    case True
    then obtain m where m: "m \<in> set (get (content d))" "P m" by blast
    then have "filter P (get (content d)) \<noteq> []" by (auto simp: filter_empty_conv)
    then show thesis using m u by (intro that(2) [of d' m now]) (simp_all add: affected_def op_simps)
  qed
qed

end

lemma length_filter_eq: "distinct xs \<Longrightarrow> x \<in> set xs \<Longrightarrow> length (filter (\<lambda>y. y = x) xs) = 1"
  by (induction xs) (auto simp: filter_empty_conv)

section \<open>Principals\<close>

text \<open>The rows of the join of teams with memberships.\<close>

lemma mset_product_Cons: "mset (List.product xs (y # ys)) = image_mset (\<lambda>x. (x, y)) (mset xs) + mset (List.product xs ys)"
  by (induction xs) auto

lemma filter_key:
  "distinct (map key xs) \<Longrightarrow> filter_mset (\<lambda>x. k = key x) (mset xs) = (if k \<in> key ` set xs then {#the (row_at key k xs)#} else {#})"
  by (induction xs) (auto simp: row_at_None)

lemma mset_join:
  assumes "distinct (map key xs)"
  shows "filter_mset (\<lambda>(x, y). f y = key x \<and> Q y) (mset (List.product xs ys)) =
    image_mset (\<lambda>y. (the (row_at key (f y) xs), y)) (filter_mset (\<lambda>y. Q y \<and> f y \<in> key ` set xs) (mset ys))"
proof (induction ys)
  case Nil
  then show ?case by (induction xs) auto
next
  case (Cons y ys)
  have "filter_mset (\<lambda>(x, y). f y = key x \<and> Q y) (image_mset (\<lambda>x. (x, y)) (mset xs)) =
      image_mset (\<lambda>x. (x, y)) (filter_mset (\<lambda>x. f y = key x \<and> Q y) (mset xs))"
    by (induction xs) auto
  also have "filter_mset (\<lambda>x. f y = key x \<and> Q y) (mset xs) =
      (if Q y \<and> f y \<in> key ` set xs then {#the (row_at key (f y) xs)#} else {#})"
    using filter_key [OF assms, of "f y"] by (cases "Q y") simp_all
  finally show ?case unfolding mset_product_Cons by (simp add: Cons.IH)
qed

lemma total_first_primary: "total_order collate \<Longrightarrow> total_order (first_primary collate)"
proof -
  assume "total_order collate"
  then have c: "collate a b \<or> collate b a" "collate a b \<Longrightarrow> collate b c \<Longrightarrow> collate a c" for a b c
    unfolding total_order_def by blast+
  show ?thesis
    unfolding total_order_def first_primary_def case_prod_unfold
    by (intro conjI allI impI) (use c(1) in blast, auto intro: c(2))
qed

lemma joined_teams:
  assumes p: "principal_row reg T m p" and teams: "distinct (map tem_ID (tb_teams T))" "\<forall>m \<in> set (tb_teams T). teamFromModel m = reg (tem_ID m)"
    and pairs: "mset pairs = filter_mset (\<lambda>(team, link). ptm_TeamID link = tem_ID team \<and> ptm_PrincipalID link = p_ID p)
        (mset (List.product (tb_teams T) (tb_principal_teams T)))"
    and sorted: "sorted_wrt (first_primary collate) pairs"
  shows "mset (map teamFromModel (map fst pairs)) = mset (p_Teams p)" "take 1 (map teamFromModel (map fst pairs)) = take 1 (p_Teams p)"
proof -
  let ?L = "filter (\<lambda>l. ptm_PrincipalID l = p_ID p) (tb_principal_teams T)"
  let ?g = "\<lambda>l. (the (row_at tem_ID (ptm_TeamID l) (tb_teams T)), l)"
  have members: "image_mset (\<lambda>l. (ptm_TeamID l, ptm_IsPrimary l)) (mset ?L) = mset (memberships (p_Teams p))"
    and known: "\<And>t. t \<in> set (p_Teams p) \<Longrightarrow> team_ID t \<in> tem_ID ` set (tb_teams T) \<and> reg (team_ID t) = t"
    using p by (auto simp: principal_row_def)
  have ids: "ptm_TeamID l \<in> team_ID ` set (p_Teams p)" if "l \<in> set ?L" for l
  proof -
    have "(ptm_TeamID l, ptm_IsPrimary l) \<in># mset (memberships (p_Teams p))" unfolding members [symmetric] using that by auto
    then show ?thesis by (auto simp: memberships_def in_set_enumerate_eq)
  qed
  have "ptm_TeamID l \<in> tem_ID ` set (tb_teams T)" if l: "l \<in> set ?L" for l
  proof -
    obtain t where "t \<in> set (p_Teams p)" "ptm_TeamID l = team_ID t" using ids [OF l] by blast
    then show ?thesis using known [of t] by simp
  qed
  then have "filter_mset (\<lambda>l. ptm_PrincipalID l = p_ID p \<and> ptm_TeamID l \<in> tem_ID ` set (tb_teams T)) (mset (tb_principal_teams T)) = mset ?L"
    by (auto intro!: filter_mset_cong)
  then have pairs': "mset pairs = image_mset ?g (mset ?L)"
    using pairs mset_join [OF teams(1), of ptm_TeamID "\<lambda>l. ptm_PrincipalID l = p_ID p" "tb_principal_teams T"] by simp
  have team: "teamFromModel t = reg (ptm_TeamID l) \<and> l \<in> set ?L" if "(t, l) \<in> set pairs" for t l
  proof -
    have l: "l \<in> set ?L" "t = the (row_at tem_ID (ptm_TeamID l) (tb_teams T))"
      using that pairs' by (auto simp flip: set_mset_mset)
    then obtain m where m: "row_at tem_ID (ptm_TeamID l) (tb_teams T) = Some m"
      using ids known row_at_None [of tem_ID "ptm_TeamID l" "tb_teams T"] by fastforce
    then have "m \<in> set (tb_teams T)" "tem_ID m = ptm_TeamID l" using row_at_Some [OF teams(1)] by blast+
    then show ?thesis using teams(2) l m by simp
  qed
  have "image_mset (\<lambda>(t, l). teamFromModel t) (mset pairs) = image_mset (\<lambda>(t, l). reg (ptm_TeamID l)) (mset pairs)"
    using team by (intro image_mset_cong) auto
  also have "\<dots> = image_mset (\<lambda>l. reg (ptm_TeamID l)) (mset ?L)" unfolding pairs' by (simp add: image_mset.compositionality comp_def)
  also have "\<dots> = image_mset (\<lambda>x. reg (fst x)) (mset (memberships (p_Teams p)))"
    unfolding members [symmetric] by (simp add: image_mset.compositionality comp_def)
  also have "\<dots> = mset (map (\<lambda>(i, t). reg (team_ID t)) (enumerate (0 :: nat) (p_Teams p)))"
    by (simp add: memberships_def image_mset.compositionality comp_def case_prod_unfold flip: mset_map)
  also have "map (\<lambda>(i, t). reg (team_ID t)) (enumerate (0 :: nat) (p_Teams p)) = map snd (enumerate 0 (p_Teams p))"
    using known by (intro map_cong refl) (auto simp: in_set_enumerate_eq)
  finally show all: "mset (map teamFromModel (map fst pairs)) = mset (p_Teams p)"
    by (simp add: comp_def case_prod_unfold flip: mset_map)
  show "take 1 (map teamFromModel (map fst pairs)) = take 1 (p_Teams p)"
  proof (cases "p_Teams p")
    case Nil
    with all show ?thesis by simp
  next
    case (Cons t0 ts)
    then have "pairs \<noteq> []" using all by auto
    then obtain t l rest where hd: "pairs = (t, l) # rest" by (cases pairs) auto
    have "(team_ID t0, True) \<in># image_mset (\<lambda>l. (ptm_TeamID l, ptm_IsPrimary l)) (mset ?L)"
      unfolding members by (simp add: memberships_def Cons)
    then obtain l0 where l0: "l0 \<in> set ?L" "ptm_IsPrimary l0" by auto
    then have "?g l0 \<in># mset pairs" unfolding pairs' by auto
    then have "ptm_IsPrimary l" using sorted l0(2) by (auto simp: hd first_primary_def)
    moreover have "(ptm_TeamID l, ptm_IsPrimary l) \<in># mset (memberships (p_Teams p))"
      unfolding members [symmetric] using team [of t l] by (auto simp: hd)
    ultimately have "ptm_TeamID l = team_ID t0"
      by (auto simp: memberships_def Cons in_set_enumerate_eq)
    then show ?thesis using team [of t l] known [of t0] by (simp add: hd Cons)
  qed
qed

lemma rel_principalsD:
  assumes "rel_principals reg T M"
  shows "distinct (map pm_ID (tb_principals T))" "distinct (map tem_ID (tb_teams T))"
    "\<forall>m \<in> set (tb_teams T). teamFromModel m = reg (tem_ID m)"
    "rel_option (principal_row reg T) (row_at pm_ID k (tb_principals T)) (M k)"
  using assms by (simp_all add: rel_principals_def)

lemma principal_row_ids:
  assumes "principal_row reg T m p"
  shows "p_ID p = pm_ID m" "p_TenantID p = pm_TenantID m" "p_CasdoorUserID p = pm_CasdoorUserID m" "p_Type p = pm_Type m"
  using assms by (auto simp: principal_row_def principalFromModels_def dest: arg_cong [where f = p_ID] arg_cong [where f = p_TenantID]
      arg_cong [where f = p_CasdoorUserID] arg_cong [where f = p_Type])

lemma rel_principals_row:
  assumes "rel_principals reg T M" and "m \<in> set (tb_principals T)"
  obtains p where "M (pm_ID m) = Some p" "principal_row reg T m p"
proof -
  have "row_at pm_ID (pm_ID m) (tb_principals T) = Some m" using row_at_Some [OF rel_principalsD(1) [OF assms(1)]] assms(2) by blast
  then show thesis using rel_principalsD(4) [OF assms(1), of "pm_ID m"] that by (auto simp: option_rel_Some1)
qed

lemma rel_principals_some:
  assumes "rel_principals reg T M" and "M k = Some p"
  obtains m where "m \<in> set (tb_principals T)" "pm_ID m = k" "principal_row reg T m p"
proof -
  obtain m where "row_at pm_ID k (tb_principals T) = Some m" "principal_row reg T m p"
    using rel_principalsD(4) [OF assms(1), of k] assms(2) by (auto simp: option_rel_Some2)
  then show thesis using row_at_Some [OF rel_principalsD(1) [OF assms(1)]] that by blast
qed

lemma rel_principals_status:
  assumes "rel_principals reg T M" and "\<And>m. pm_ID (f m) = pm_ID m"
    and "\<And>m. principalFromModels (f m) [] [] = (principalFromModels m [] [])\<lparr>p_Status := status\<rparr>"
    and "\<And>m. P m \<longleftrightarrow> pm_ID m = k \<and> Q (pm_TenantID m)"
  shows "rel_principals reg (tb_principals_update (change_rows P f) T) (upd_at M k (\<lambda>p. if Q (p_TenantID p) then p\<lparr>p_Status := status\<rparr> else p))"
proof -
  let ?T = "tb_principals_update (change_rows P f) T" and ?g = "\<lambda>p. if Q (p_TenantID p) then p\<lparr>p_Status := status\<rparr> else p"
  have row: "principal_row reg ?T (if P m then f m else m) (if pm_ID m = k then ?g p else p)" if "principal_row reg T m p" for m p
    using that principal_row_ids [OF that] assms(3) [of m] assms(4) [of m] by (auto simp: principal_row_def)
  have "rel_option (principal_row reg ?T) (row_at pm_ID k' (tb_principals ?T)) (upd_at M k ?g k')" for k'
  proof (cases "row_at pm_ID k' (tb_principals T)")
    case None
    then have "M k' = None" using rel_principalsD(4) [OF assms(1), of k'] by simp
    with None show ?thesis by (cases "k' = k") (simp_all add: row_at_change [of pm_ID f, OF assms(2)])
  next
    case (Some m)
    then obtain p where p: "M k' = Some p" "principal_row reg T m p"
      using rel_principalsD(4) [OF assms(1), of k'] by (auto simp: option_rel_Some1)
    have "pm_ID m = k'" using Some row_at_Some [OF rel_principalsD(1) [OF assms(1)]] by blast
    with Some p(1) row [OF p(2)] show ?thesis
      by (cases "k' = k") (simp_all add: row_at_change [of pm_ID f, OF assms(2)])
  qed
  then show ?thesis using rel_principalsD(1-3) [OF assms(1)] assms(2) by (simp add: rel_principals_def map_change)
qed

section \<open>Simulation of the statements\<close>

lemma sim_bnd: "m d = (Inr a, d1) \<Longrightarrow> sim R (f a) m' d1 s A \<Longrightarrow> sim R (bnd m f) m' d s A"
  by (simp add: sim_def op_simps)

context gorm_table
begin

lemma sim_Save:
  assumes "up d" and "complete m" and "unique (save_row key m (get (content d)))" and "does ok view m' s (Inr ()) V"
    and "\<And>now. Q (put (save_row key (stamp now m)) (content d)) V"
  shows "sim (sim_rel Q content up ok view) (wrapped msg (tab_Save t m)) m' d s (=)"
proof -
  obtain d' now where "tab_Save t m d = (Inr (), d')" "up d'" "content d' = put (save_row key (stamp now m)) (content d)"
    by (rule Save_up [OF assms(1-3)])
  then show ?thesis using doesD [OF assms(4)] assms(5) by (simp add: sim_def op_simps sim_rel_def)
qed

lemma sim_Delete:
  assumes "up d" and "does ok view m' s (Inr ()) V" and "Q (put (filter (\<lambda>m. \<not> P m)) (content d)) V"
  shows "sim (sim_rel Q content up ok view) (bnd (wrapped msg (tab_Delete t P)) (\<lambda>_. ret ())) m' d s (=)"
proof -
  obtain d' where "tab_Delete t P d = (Inr (length (filter P (get (content d)))), d')" "up d'"
      "content d' = put (filter (\<lambda>m. \<not> P m)) (content d)"
    by (rule Delete_up [OF assms(1)])
  then show ?thesis using doesD [OF assms(2)] assms(3) by (simp add: sim_def op_simps sim_rel_def)
qed

lemma sim_found:
  assumes "sim_rel Q content up ok view d s"
    and "\<forall>m \<in> set (get (content d)). \<not> P m \<Longrightarrow> m' s = (Inl ErrNotFound, s)"
    and "\<And>m. m \<in> set (get (content d)) \<Longrightarrow> P m \<Longrightarrow> \<exists>x. m' s = (Inr x, s) \<and> A (conv m) x"
  shows "sim (sim_rel Q content up ok view) (bnd (not_found msg (gorm_First t P)) (\<lambda>m. ret (conv m))) m' d s A"
proof -
  have "up d" using assms(1) by (simp add: sim_rel_def)
  then show ?thesis
  proof (cases rule: found_up [where P = P and msg = msg])
    case (none d')
    then show ?thesis using assms(1,2) by (simp add: sim_def op_simps sim_rel_def)
  next
    case (row m d')
    with assms(3) obtain x where "m' s = (Inr x, s)" "A (conv m) x" by blast
    with row show ?thesis using assms(1) by (simp add: sim_def op_simps sim_rel_def)
  qed
qed

lemma sim_list:
  assumes "sim_rel Q content up ok view d s" and "total_order ord" and "m' s = (Inr xs, s)"
    and "set xs = conv ` {m \<in> set (get (content d)). P m}"
  shows "sim (sim_rel Q content up ok view) (bnd (wrapped msg (tab_Find t P ord None)) (\<lambda>ms. ret (map conv ms))) m' d s
    (\<lambda>ys xs. set ys = set xs)"
proof -
  obtain d' r where r: "tab_Find t P ord None d = (Inr r, d')" "up d'" "content d' = content d" "answers P ord None (get (content d)) r"
    by (rule Find_up [OF _ assms(2), of d None]) (use assms(1) in \<open>simp_all add: sim_rel_def\<close>)
  then have "mset r = mset (filter P (get (content d)))" by (simp add: answers_def)
  then have "set r = {m \<in> set (get (content d)). P m}" by (metis set_filter set_mset_mset)
  with r show ?thesis using assms(1,3,4) by (simp add: sim_def op_simps sim_rel_def)
qed

lemma sim_affected:
  assumes "up d" and "\<And>m. key (f m) = key m" and "unique (change_rows P f (get (content d)))" and "does ok view m' s r V"
    and "\<forall>m \<in> set (get (content d)). \<not> P m \<Longrightarrow> r = Inl ErrNotFound \<and> Q (content d) V"
    and "\<And>m now. m \<in> set (get (content d)) \<Longrightarrow> P m \<Longrightarrow>
      r = Inr () \<and> Q (put (change_rows P (\<lambda>m. stamp now (f m))) (content d)) V"
  shows "sim (sim_rel Q content up ok view) (affected msg (tab_Updates t P f)) m' d s (=)"
  using assms(1-3)
proof (cases rule: affected_up [where P = P and f = f and msg = msg])
  case (none d')
  then have "r = Inl ErrNotFound \<and> Q (content d) V" by (intro assms(5))
  with none doesD [OF assms(4)] show ?thesis by (simp add: sim_def sim_rel_def)
next
  case (some m now d')
  with assms(6) [of m now] doesD [OF assms(4)] show ?thesis by (simp add: sim_def sim_rel_def)
qed

end

lemma total_newest_first [simp]: "total_order (newest_first f)"
  by (auto simp: total_order_def newest_first_def)

lemma total_any_order [simp]: "total_order any_order"
  by (simp add: total_order_def any_order_def)

section \<open>Simulation of the operations\<close>

locale gorm_simulation = gorm_database gs content up + credential_store st ok view + login_store st ok view + directory_store st ok view
  for gs :: "'d GORMStore" and content :: "'d \<Rightarrow> Tables" and up :: "'d \<Rightarrow> bool"
    and st :: "'s Store" and ok :: "'s \<Rightarrow> bool" and view :: "'s \<Rightarrow> StoreView" +
  fixes reg :: "string \<Rightarrow> Team"
begin

abbreviation (input) R :: "'d \<Rightarrow> 's \<Rightarrow> bool" where
  "R \<equiv> sim_rel (related reg) content up ok view"

lemma sim_now:
  assumes "up d" and "\<And>t d1. \<not> IsZero t \<Longrightarrow> content d1 = content d \<Longrightarrow> up d1 \<Longrightarrow> sim R (f t) m' d1 s A"
  shows "sim R (bnd (db_Now (gs_db gs)) f) m' d s A"
  using now [of d] assms by (auto intro: sim_bnd)

lemma sim_given_time:
  assumes "\<not> IsZero v" and "sim R (f v) m' d s A"
  shows "sim R (bnd (defaultTime (gs_db gs) v) f) m' d s A"
  using assms by (simp add: defaultTime_def sim_bnd ret_def)

lemma relD:
  assumes "R d s"
  shows "up d" "ok s" "related reg (content d) (view s)"
  using assms by (simp_all add: sim_rel_def)

text \<open>Tenants.\<close>

lemma related_tenants:
  assumes "related reg T V" and "rel_rows tnm_ID tenantFromModel rows M" and "distinct (map tnm_Slug rows)" and "f (tb_tenants T) = rows"
  shows "related reg (tb_tenants_update f T) (V\<lparr>vw_tenants := M\<rparr>)"
  using assms by (auto simp: related_def intro: rel_principals_cong)

lemma sim_GetTenant:
  assumes "R d s"
  shows "sim R (gorm_GetTenant gs k) (store_GetTenant st k) d s (=)"
proof -
  note r = relD [OF assms]
  have rows: "rel_rows tnm_ID tenantFromModel (tb_tenants (content d)) (vw_tenants (view s))" using r(3) by (simp add: related_def)
  show ?thesis unfolding gorm_GetTenant_def
    by (rule tab_tenants.sim_found [OF assms])
      (use GetTenant [OF r(2), of k] rel_rows_none [OF rows, of k] rel_rows_find [OF rows] in auto)
qed

lemma sim_UpsertTenant:
  assumes "R d s" and "ten_ID t \<noteq> []" and "TrimSpace (ten_Status t) \<noteq> []"
    and "\<forall>k t'. vw_tenants (view s) k = Some t' \<longrightarrow> ten_Slug t' = ten_Slug t \<longrightarrow> k = ten_ID t"
  shows "sim R (gorm_UpsertTenant gs t) (store_UpsertTenant st t) d s (=)"
proof -
  note r = relD [OF assms(1)]
  from r(3) have rows: "rel_rows tnm_ID tenantFromModel (tb_tenants (content d)) (vw_tenants (view s))"
    and slugs: "distinct (map tnm_Slug (tb_tenants (content d)))" by (simp_all add: related_def)
  have slug: "tnm_Slug m = ten_Slug t \<longrightarrow> tnm_ID m = ten_ID t" if "m \<in> set (tb_tenants (content d))" for m
    using assms(4) rel_rows_find [OF rows that refl] by (auto simp: tenantFromModel_def)
  have uniq: "distinct (map tnm_Slug (save_row tnm_ID m (tb_tenants (content d))))" if "tnm_ID m = ten_ID t" "tnm_Slug m = ten_Slug t" for m
    using slugs slug rel_rowsD(1) [OF rows] that by (intro distinct_save_column) auto
  show ?thesis unfolding gorm_UpsertTenant_def
  proof (rule sim_now [OF r(1)], rule tab_tenants.sim_Save [OF _ _ _ UpsertTenant [OF r(2)]])
    fix now' now d1 assume "content d1 = content d"
    then show "related reg (tb_tenants_update (save_row tnm_ID ((tenant_model t now)\<lparr>tnm_UpdatedAt := now'\<rparr>)) (content d1))
        (view s\<lparr>vw_tenants := (vw_tenants (view s))(ten_ID t \<mapsto> t)\<rparr>)"
      using assms(3) by (auto intro!: related_tenants [OF r(3)] rel_rows_save [OF rows] uniq
          simp: tenant_model_def tenantFromModel_def defaultString_given)
  qed (use assms(2,3) TrimSpace_nonempty [OF assms(3)] uniq in \<open>simp_all add: tenant_model_def defaultString_given\<close>)
qed

text \<open>Sessions.\<close>

lemma related_sessions:
  assumes "related reg T V" and "rel_rows sem_ID sessionFromGORMModel rows M" and "f (tb_sessions T) = rows"
  shows "related reg (tb_sessions_update f T) (V\<lparr>vw_sessions := M\<rparr>)"
  using assms by (auto simp: related_def intro: rel_principals_cong)

lemma session_rows: "R d s \<Longrightarrow> rel_rows sem_ID sessionFromGORMModel (tb_sessions (content d)) (vw_sessions (view s))"
  by (simp add: sim_rel_def related_def)

lemma sim_GetSession:
  assumes "R d s"
  shows "sim R (gorm_GetSession gs k) (store_GetSession st k) d s (=)"
  unfolding gorm_GetSession_def
  by (rule tab_sessions.sim_found [OF assms])
    (use GetSession [OF relD(2) [OF assms], of k] rel_rows_none [OF session_rows [OF assms], of k]
      rel_rows_find [OF session_rows [OF assms]] in auto)

lemma sim_PutSession:
  assumes "R d s" and "sess_ID x \<noteq> []"
  shows "sim R (gorm_PutSession gs x) (store_PutSession st x) d s (=)"
  unfolding gorm_PutSession_def
proof (rule sim_now [OF relD(1) [OF assms(1)]], rule tab_sessions.sim_Save [OF _ _ _ PutSession [OF relD(2) [OF assms(1)]]])
qed (use assms(2) in \<open>auto intro!: related_sessions [OF relD(3) [OF assms(1)]] rel_rows_save [OF session_rows [OF assms(1)]]
      simp: sessionFromGORMModel_def\<close>)

lemma sim_UpdateSessionContext:
  assumes "R d s"
  shows "sim R (gorm_UpdateSessionContext gs k pid tid team) (store_UpdateSessionContext st k pid tid team) d s (=)"
proof -
  note rows = session_rows [OF assms] and does = UpdateSessionContext [OF relD(2) [OF assms], of k pid tid team]
  show ?thesis unfolding gorm_UpdateSessionContext_def
  proof (rule sim_now [OF relD(1) [OF assms]], rule tab_sessions.sim_affected [OF _ _ _ does])
    fix now d1 assume c: "content d1 = content d"
    {
      assume "\<forall>m \<in> set (tb_sessions (content d1)). sem_ID m \<noteq> k"
      then have "vw_sessions (view s) k = None" unfolding c by (rule rel_rows_none [OF rows])
      with relD(3) [OF assms] c show "exists_res (vw_sessions (view s) k) = Inl ErrNotFound
          \<and> related reg (content d1) ((view s)\<lparr>vw_sessions := upd_at (vw_sessions (view s)) k (\<lambda>x.
             x\<lparr>sess_PrincipalID := pid, sess_TenantID := tid, sess_CurrentTeamID := team\<rparr>)\<rparr>)" by simp
    next
      fix m now' assume "m \<in> set (tb_sessions (content d1))" "sem_ID m = k"
      then have "vw_sessions (view s) k \<noteq> None" using rel_rows_find [OF rows] c by simp
      then show "exists_res (vw_sessions (view s) k) = Inr ()
          \<and> related reg (tb_sessions_update (change_rows (\<lambda>m. sem_ID m = k) (\<lambda>m. (m\<lparr>sem_PrincipalID := pid, sem_TenantID := tid,
              sem_CurrentTeamID := team, sem_UpdatedAt := now\<rparr>)\<lparr>sem_UpdatedAt := now'\<rparr>)) (content d1))
            ((view s)\<lparr>vw_sessions := upd_at (vw_sessions (view s)) k (\<lambda>x.
             x\<lparr>sess_PrincipalID := pid, sess_TenantID := tid, sess_CurrentTeamID := team\<rparr>)\<rparr>)"
        using c by (auto intro!: related_sessions [OF relD(3) [OF assms]] rel_rows_change_at [OF rows]
            simp: sessionFromGORMModel_def exists_res_def)
    }
  qed simp_all
qed

lemma sim_DeleteSession:
  assumes "R d s"
  shows "sim R (gorm_DeleteSession gs k) (store_DeleteSession st k) d s (=)"
  unfolding gorm_DeleteSession_def
  by (rule tab_sessions.sim_Delete [OF relD(1) [OF assms] DeleteSession [OF relD(2) [OF assms]]],
      rule related_sessions [OF relD(3) [OF assms] _ refl], rule rel_rows_remove [OF session_rows [OF assms]])

lemma sim_DeleteSessionsByPrincipal:
  assumes "R d s"
  shows "sim R (gorm_DeleteSessionsByPrincipal gs k) (store_DeleteSessionsByPrincipal st k) d s (=)"
  unfolding gorm_DeleteSessionsByPrincipal_def
  by (rule tab_sessions.sim_Delete [OF relD(1) [OF assms] DeleteSessionsByPrincipal [OF relD(2) [OF assms]]],
      rule related_sessions [OF relD(3) [OF assms] _ refl], rule rel_rows_filter [OF session_rows [OF assms]])
    (simp add: sessionFromGORMModel_def)

text \<open>Service accounts.\<close>

lemma related_accounts:
  assumes "related reg T V" and "rel_rows sam_ID serviceAccountFromModel rows M" and "f (tb_service_accounts T) = rows"
  shows "related reg (tb_service_accounts_update f T) (V\<lparr>vw_accounts := M\<rparr>)"
  using assms by (auto simp: related_def intro: rel_principals_cong)

lemma account_rows: "R d s \<Longrightarrow> rel_rows sam_ID serviceAccountFromModel (tb_service_accounts (content d)) (vw_accounts (view s))"
  by (simp add: sim_rel_def related_def)

lemma sim_PutServiceAccount:
  assumes "R d s" and "acc_ID a \<noteq> []" and "TrimSpace (acc_Status a) \<noteq> []" and "\<not> IsZero (acc_CreatedAt a)"
  shows "sim R (gorm_PutServiceAccount gs a) (store_PutServiceAccount st a) d s (=)"
  unfolding gorm_PutServiceAccount_def
proof (rule sim_now [OF relD(1) [OF assms(1)]], rule sim_given_time [OF assms(4)],
    rule tab_service_accounts.sim_Save [OF _ _ _ PutServiceAccount [OF relD(2) [OF assms(1)]]])
qed (use assms(2,3) TrimSpace_nonempty [OF assms(3)] in
    \<open>auto intro!: related_accounts [OF relD(3) [OF assms(1)]] rel_rows_save [OF account_rows [OF assms(1)]]
      simp: serviceAccountFromModel_def defaultString_given\<close>)

lemma sim_ListServiceAccounts:
  assumes "R d s" and "TrimSpace tid = tid"
  shows "sim R (gorm_ListServiceAccounts gs tid) (store_ListServiceAccounts st tid) d s (\<lambda>xs ys. set xs = set ys)"
proof -
  obtain xs where xs: "store_ListServiceAccounts st tid s = (Inr xs, s)"
      "set xs = {a \<in> ran (vw_accounts (view s)). tid = [] \<or> acc_TenantID a = tid}"
    using ListServiceAccounts [OF relD(2) [OF assms(1)]] by blast
  have "set xs = serviceAccountFromModel ` {m \<in> set (tb_service_accounts (content d)). of_tenant sam_TenantID tid m}"
    unfolding xs(2) rel_rows_ran [OF account_rows [OF assms(1)]]
    using assms(2) by (auto simp: of_tenant_def serviceAccountFromModel_def)
  then show ?thesis unfolding gorm_ListServiceAccounts_def
    by (intro tab_service_accounts.sim_list [where m' = "store_ListServiceAccounts st tid" and xs = xs]) (simp_all add: assms(1) xs(1))
qed

text \<open>Agent runs and the audit log.\<close>

lemma sim_PutAgentRun:
  assumes "R d s" and "run_ID x \<noteq> []" and "TrimSpace (run_Status x) \<noteq> []" and "\<not> IsZero (run_CreatedAt x)"
  shows "sim R (gorm_PutAgentRun gs x) (store_PutAgentRun st x) d s (=)"
proof -
  have rows: "rel_rows arm_ID agentRunFromModel (tb_agent_runs (content d)) (vw_agentRuns (view s))"
    using relD(3) [OF assms(1)] by (simp add: related_def)
  have upd: "related reg (tb_agent_runs_update f T) (V\<lparr>vw_agentRuns := M\<rparr>)"
    if "related reg T V" "rel_rows arm_ID agentRunFromModel rows M" "f (tb_agent_runs T) = rows" for T V f M rows
    using that by (auto simp: related_def intro: rel_principals_cong)
  show ?thesis unfolding gorm_PutAgentRun_def
  proof (rule sim_now [OF relD(1) [OF assms(1)]], rule sim_given_time [OF assms(4)],
      rule tab_agent_runs.sim_Save [OF _ _ _ PutAgentRun [OF relD(2) [OF assms(1)]]])
  qed (use assms(2,3) TrimSpace_nonempty [OF assms(3)] in
      \<open>auto intro!: upd [OF relD(3) [OF assms(1)]] rel_rows_save [OF rows] simp: agentRunFromModel_def defaultString_given\<close>)
qed

lemma sim_AppendAudit:
  assumes "R d s" and "\<not> IsZero (ev_CreatedAt e)"
  shows "sim R (gorm_AppendAudit gs e) (store_AppendAudit st e) d s (=)"
  unfolding gorm_AppendAudit_def
proof (rule sim_given_time [OF assms(2)])
  let ?m = "\<lparr>alm_ID = 0, alm_TenantID = ev_TenantID e, alm_ActorType = ev_ActorType e, alm_ActorID = ev_ActorID e,
       alm_PrincipalType = ev_PrincipalType e, alm_PrincipalID = ev_PrincipalID e, alm_Action = ev_Action e,
       alm_ResourceType = ev_ResourceType e, alm_ResourceID = ev_ResourceID e, alm_Decision = ev_Decision e,
       alm_JWTID = ev_JWTID e, alm_CreatedAt = ev_CreatedAt e\<rparr>" and ?c = "tab_Create (db_audit_logs (gs_db gs))"
  have c: "runs content up (?c ?m) d True (\<lambda>_ T. \<exists>n. T = tb_audit_logs_update (\<lambda>rows. rows @ [?m\<lparr>alm_ID := n\<rparr>]) (content d))"
    by (rule audit_create) simp
  obtain a where "fst (?c ?m d) = Inr a" "up (snd (?c ?m d))"
      "\<exists>n. content (snd (?c ?m d)) = tb_audit_logs_update (\<lambda>rows. rows @ [?m\<lparr>alm_ID := n\<rparr>]) (content d)"
    by (rule runs_ok [OF c relD(1) [OF assms(1)]]) simp_all
  then show "sim R (wrapped ''append audit'' (?c ?m)) (store_AppendAudit st e) d s (=)"
    using doesD [OF AppendAudit [OF relD(2) [OF assms(1)], of e]] relD(3) [OF assms(1)]
    by (auto simp: sim_def op_simps sim_rel_def related_def auditFromModel_def intro: rel_principals_cong)
qed

text \<open>API keys.\<close>

lemma related_keys:
  assumes "related reg T V" and "rel_rows akm_KeyHash apiKeyFromModel rows M" and "distinct (map akm_ID rows)"
    and "f (tb_api_keys T) = rows"
  shows "related reg (tb_api_keys_update f T) (V\<lparr>vw_apiKeys := M\<rparr>)"
  using assms by (auto simp: related_def intro: rel_principals_cong)

lemma key_rows:
  assumes "R d s"
  shows "rel_rows akm_KeyHash apiKeyFromModel (tb_api_keys (content d)) (vw_apiKeys (view s))"
    "distinct (map akm_ID (tb_api_keys (content d)))"
  using assms by (simp_all add: sim_rel_def related_def)

lemma key_id_unique:
  assumes "R d s" and "vw_apiKeys (view s) h = Some k" and "vw_apiKeys (view s) h' = Some k'" and "key_ID k = key_ID k'"
  shows "h = h'"
proof -
  obtain m where m: "m \<in> set (tb_api_keys (content d))" "akm_KeyHash m = h" "apiKeyFromModel m = k"
    using key_rows(1) [OF assms(1)] assms(2) by (rule rel_rows_some)
  obtain m' where m': "m' \<in> set (tb_api_keys (content d))" "akm_KeyHash m' = h'" "apiKeyFromModel m' = k'"
    using key_rows(1) [OF assms(1)] assms(3) by (rule rel_rows_some)
  have "akm_ID m = akm_ID m'" using assms(4) m(3) m'(3) by (auto simp: apiKeyFromModel_def)
  then have "m = m'" using key_rows(2) [OF assms(1)] m(1) m'(1) by (auto simp: distinct_map dest: inj_onD)
  with m(2) m'(2) show ?thesis by simp
qed

lemma sim_PutAPIKey:
  assumes "R d s" and "key_ID k \<noteq> []" and "TrimSpace (key_Status k) \<noteq> []" and "\<not> IsZero (key_CreatedAt k)"
    and "\<forall>h k'. vw_apiKeys (view s) h = Some k' \<longrightarrow> (key_ID k' = key_ID k \<longleftrightarrow> h = key_KeyHash k)"
  shows "sim R (gorm_PutAPIKey gs k) (store_PutAPIKey st k) d s (=)"
proof -
  note rows = key_rows [OF assms(1)]
  have same: "akm_ID m' = key_ID k \<longleftrightarrow> akm_KeyHash m' = key_KeyHash k" if "m' \<in> set (tb_api_keys (content d))" for m'
    using assms(5) [rule_format, OF rel_rows_find [OF rows(1) that refl]] by (simp add: apiKeyFromModel_def)
  have e: "save_row akm_ID m (tb_api_keys (content d)) = save_row akm_KeyHash m (tb_api_keys (content d))"
    if "akm_ID m = key_ID k" "akm_KeyHash m = key_KeyHash k" for m
  proof -
    have "akm_ID m \<in> akm_ID ` set (tb_api_keys (content d)) \<longleftrightarrow> akm_KeyHash m \<in> akm_KeyHash ` set (tb_api_keys (content d))"
      using same that by (auto simp: image_iff) metis+
    then show ?thesis using same that by (simp add: save_row_def)
  qed
  have u: "distinct (map akm_KeyHash (save_row akm_ID m (tb_api_keys (content d))))"
    if "akm_ID m = key_ID k" "akm_KeyHash m = key_KeyHash k" for m
    unfolding e [OF that] by (rule distinct_save [OF rel_rowsD(1) [OF rows(1)]])
  show ?thesis unfolding gorm_PutAPIKey_def
  proof (rule sim_given_time [OF assms(4)], rule tab_api_keys.sim_Save [OF _ _ _ PutAPIKey [OF relD(2) [OF assms(1)]]])
    let ?m = "\<lparr>akm_ID = key_ID k, akm_Name = key_Name k, akm_TenantID = key_TenantID k, akm_PrincipalType = key_PrincipalType k,
       akm_PrincipalID = key_PrincipalID k, akm_KeyHash = key_KeyHash k, akm_Scopes = key_Scopes k,
       akm_ExpiresAt = timePtrOrNil (key_ExpiresAt k), akm_Status = defaultString (key_Status k) ''active'',
       akm_CreatedAt = key_CreatedAt k, akm_LastUsedAt = timePtrOrNil (key_LastUsedAt k)\<rparr>"
    show "related reg (tb_api_keys_update (save_row akm_ID ?m) (content d))
        ((view s)\<lparr>vw_apiKeys := (vw_apiKeys (view s))(key_KeyHash k \<mapsto> k)\<rparr>)"
    proof (rule related_keys [OF relD(3) [OF assms(1)] _ _ refl])
      show "rel_rows akm_KeyHash apiKeyFromModel (save_row akm_ID ?m (tb_api_keys (content d)))
          ((vw_apiKeys (view s))(key_KeyHash k \<mapsto> k))"
        unfolding e [of ?m, simplified] using assms(3)
        by (intro rel_rows_save [OF rows(1)]) (simp_all add: apiKeyFromModel_def defaultString_given)
    qed (rule distinct_save [OF rows(2)])
  qed (use assms(2,3) TrimSpace_nonempty [OF assms(3)] relD(1) [OF assms(1)] u in \<open>simp_all add: defaultString_given\<close>)
qed

lemma sim_GetAPIKeyByHash:
  assumes "R d s"
  shows "sim R (gorm_GetAPIKeyByHash gs h) (store_GetAPIKeyByHash st h) d s (=)"
  unfolding gorm_GetAPIKeyByHash_def
  by (rule tab_api_keys.sim_found [OF assms])
    (use GetAPIKeyByHash [OF relD(2) [OF assms], of h] rel_rows_none [OF key_rows(1) [OF assms], of h]
      rel_rows_find [OF key_rows(1) [OF assms]] in auto)

lemma sim_ListAPIKeys:
  assumes "R d s"
  shows "sim R (gorm_ListAPIKeys gs pid) (store_ListAPIKeys st pid) d s (\<lambda>xs ys. set xs = set ys)"
proof -
  obtain xs where xs: "store_ListAPIKeys st pid s = (Inr xs, s)" "set xs = {k \<in> ran (vw_apiKeys (view s)). key_PrincipalID k = pid}"
    using ListAPIKeys [OF relD(2) [OF assms(1)]] by blast
  have "set xs = apiKeyFromModel ` {m \<in> set (tb_api_keys (content d)). akm_PrincipalID m = pid}"
    unfolding xs(2) rel_rows_ran [OF key_rows(1) [OF assms(1)]] by (auto simp: apiKeyFromModel_def)
  then show ?thesis unfolding gorm_ListAPIKeys_def
    by (intro tab_api_keys.sim_list [where m' = "store_ListAPIKeys st pid" and xs = xs]) (simp_all add: assms xs(1))
qed

text \<open>The update of the one key that satisfies a condition on its ID.\<close>

lemma related_key_change:
  assumes "R d s" and "vw_apiKeys (view s) h = Some k" and "P k" and "\<And>k'. P k' \<Longrightarrow> key_ID k' = key_ID k"
    and "\<And>m. akm_KeyHash (f m) = akm_KeyHash m" and "\<And>m. akm_ID (f m) = akm_ID m"
    and "\<And>m. apiKeyFromModel (f m) = g (apiKeyFromModel m)" and "\<And>m. Q m \<longleftrightarrow> P (apiKeyFromModel m)"
  shows "related reg (tb_api_keys_update (change_rows Q f) (content d)) ((view s)\<lparr>vw_apiKeys := (vw_apiKeys (view s))(h \<mapsto> g k)\<rparr>)"
proof (rule related_keys [OF relD(3) [OF assms(1)] _ _ refl])
  have "rel_rows akm_KeyHash apiKeyFromModel (change_rows Q f (tb_api_keys (content d)))
      (\<lambda>h. map_option (\<lambda>x. if P x then g x else x) (vw_apiKeys (view s) h))"
    using assms(5,7,8) by (intro rel_rows_change [OF key_rows(1) [OF assms(1)]]) simp_all
  moreover have "(\<lambda>h. map_option (\<lambda>x. if P x then g x else x) (vw_apiKeys (view s) h)) = (vw_apiKeys (view s))(h \<mapsto> g k)"
  proof
    fix h'
    show "map_option (\<lambda>x. if P x then g x else x) (vw_apiKeys (view s) h') = ((vw_apiKeys (view s))(h \<mapsto> g k)) h'"
    proof (cases "vw_apiKeys (view s) h'")
      case (Some k')
      then show ?thesis using key_id_unique [OF assms(1) assms(2) Some] assms(2,3) assms(4) [of k'] by auto
    qed (use assms(2) in auto)
  qed
  ultimately show "rel_rows akm_KeyHash apiKeyFromModel (change_rows Q f (tb_api_keys (content d))) ((vw_apiKeys (view s))(h \<mapsto> g k))"
    by simp
  show "distinct (map akm_ID (change_rows Q f (tb_api_keys (content d))))"
    using key_rows(2) [OF assms(1)] assms(6) by (simp add: map_change)
qed

lemma sim_RevokeAPIKey:
  assumes "R d s"
  shows "sim R (gorm_RevokeAPIKey gs kid pid) (store_RevokeAPIKey st kid pid) d s (=)"
proof (cases "\<exists>k \<in> ran (vw_apiKeys (view s)). key_ID k = kid \<and> key_PrincipalID k = pid")
  case False
  then have "does ok view (store_RevokeAPIKey st kid pid) s (Inl ErrNotFound) (view s)"
    using RevokeAPIKey_none [OF relD(2) [OF assms], of kid pid] relD(2) [OF assms] by (simp add: does_def)
  then show ?thesis unfolding gorm_RevokeAPIKey_def
    by (rule tab_api_keys.sim_affected [OF relD(1) [OF assms], rotated 2])
      (use False relD(3) [OF assms] key_rows(1) [OF assms] in
        \<open>auto simp: rel_rows_ran map_change apiKeyFromModel_def dest: rel_rowsD(1)\<close>)
next
  case True
  then obtain h k where k: "vw_apiKeys (view s) h = Some k" "key_ID k = kid" "key_PrincipalID k = pid"
      "does ok view (store_RevokeAPIKey st kid pid) s (Inr ()) ((view s)\<lparr>vw_apiKeys := (vw_apiKeys (view s))(h \<mapsto> k\<lparr>key_Status := ''revoked''\<rparr>)\<rparr>)"
    using RevokeAPIKey_some [OF relD(2) [OF assms]] by blast
  obtain m where m: "m \<in> set (tb_api_keys (content d))" "apiKeyFromModel m = k"
    using key_rows(1) [OF assms(1)] k(1) by (rule rel_rows_some)
  show ?thesis unfolding gorm_RevokeAPIKey_def
  proof (rule tab_api_keys.sim_affected [OF relD(1) [OF assms] _ _ k(4)])
    show "distinct (map akm_KeyHash (change_rows (\<lambda>m. akm_ID m = kid \<and> akm_PrincipalID m = pid)
        (\<lambda>m. m\<lparr>akm_Status := ''revoked''\<rparr>) (tb_api_keys (content d))))"
      using rel_rowsD(1) [OF key_rows(1) [OF assms]] by (simp add: map_change)
    show "Inr () = Inr () \<and> related reg (tb_api_keys_update (change_rows (\<lambda>m. akm_ID m = kid \<and> akm_PrincipalID m = pid)
        (\<lambda>m. m\<lparr>akm_Status := ''revoked''\<rparr>)) (content d)) ((view s)\<lparr>vw_apiKeys := (vw_apiKeys (view s))(h \<mapsto> k\<lparr>key_Status := ''revoked''\<rparr>)\<rparr>)"
      using related_key_change [OF assms k(1), of "\<lambda>k. key_ID k = kid \<and> key_PrincipalID k = pid"
          "\<lambda>m. m\<lparr>akm_Status := ''revoked''\<rparr>" "\<lambda>k. k\<lparr>key_Status := ''revoked''\<rparr>"] k(2,3)
      by (simp add: apiKeyFromModel_def)
  qed (use k(2,3) m in \<open>auto simp: apiKeyFromModel_def\<close>)
qed

lemma sim_TouchAPIKeyLastUsed:
  assumes "R d s" and "\<not> IsZero t"
  shows "sim R (gorm_TouchAPIKeyLastUsed gs kid t) (store_TouchAPIKeyLastUsed st kid t) d s (=)"
proof -
  have e: "gorm_TouchAPIKeyLastUsed gs kid t d = affected ''touch api key last used''
      (tab_Updates (db_api_keys (gs_db gs)) (\<lambda>m. akm_ID m = kid) (\<lambda>m. m\<lparr>akm_LastUsedAt := Some t\<rparr>)) d"
    using assms(2) by (simp add: gorm_TouchAPIKeyLastUsed_def op_simps)
  have "sim R (affected ''touch api key last used''
      (tab_Updates (db_api_keys (gs_db gs)) (\<lambda>m. akm_ID m = kid) (\<lambda>m. m\<lparr>akm_LastUsedAt := Some t\<rparr>))) (store_TouchAPIKeyLastUsed st kid t) d s (=)"
  proof (cases "\<exists>k \<in> ran (vw_apiKeys (view s)). key_ID k = kid")
    case False
    then have "does ok view (store_TouchAPIKeyLastUsed st kid t) s (Inl ErrNotFound) (view s)"
      using TouchAPIKey_none [OF relD(2) [OF assms(1)], of kid t] relD(2) [OF assms(1)] by (simp add: does_def)
    then show ?thesis
      by (rule tab_api_keys.sim_affected [OF relD(1) [OF assms(1)], rotated 2])
        (use False relD(3) [OF assms(1)] key_rows(1) [OF assms(1)] in
          \<open>auto simp: rel_rows_ran map_change apiKeyFromModel_def dest: rel_rowsD(1)\<close>)
  next
    case True
    then obtain h k where k: "vw_apiKeys (view s) h = Some k" "key_ID k = kid"
        "does ok view (store_TouchAPIKeyLastUsed st kid t) s (Inr ()) ((view s)\<lparr>vw_apiKeys := (vw_apiKeys (view s))(h \<mapsto> k\<lparr>key_LastUsedAt := t\<rparr>)\<rparr>)"
      using TouchAPIKey_some [OF relD(2) [OF assms(1)]] by blast
    obtain m where m: "m \<in> set (tb_api_keys (content d))" "apiKeyFromModel m = k"
      using key_rows(1) [OF assms(1)] k(1) by (rule rel_rows_some)
    show ?thesis
    proof (rule tab_api_keys.sim_affected [OF relD(1) [OF assms(1)] _ _ k(3)])
      show "distinct (map akm_KeyHash (change_rows (\<lambda>m. akm_ID m = kid) (\<lambda>m. m\<lparr>akm_LastUsedAt := Some t\<rparr>) (tb_api_keys (content d))))"
        using rel_rowsD(1) [OF key_rows(1) [OF assms(1)]] by (simp add: map_change)
      show "Inr () = Inr () \<and> related reg (tb_api_keys_update (change_rows (\<lambda>m. akm_ID m = kid) (\<lambda>m. m\<lparr>akm_LastUsedAt := Some t\<rparr>)) (content d))
          ((view s)\<lparr>vw_apiKeys := (vw_apiKeys (view s))(h \<mapsto> k\<lparr>key_LastUsedAt := t\<rparr>)\<rparr>)"
        using related_key_change [OF assms(1) k(1), of "\<lambda>k. key_ID k = kid"
            "\<lambda>m. m\<lparr>akm_LastUsedAt := Some t\<rparr>" "\<lambda>k. k\<lparr>key_LastUsedAt := t\<rparr>"] k(2)
        by (simp add: apiKeyFromModel_def)
    qed (use k(2) m in \<open>auto simp: apiKeyFromModel_def\<close>)
  qed
  then show ?thesis by (simp add: sim_def e)
qed

text \<open>Login states.\<close>

lemma related_states:
  assumes "related reg T V" and "rel_rows olm_State oidcStateFromModel rows M" and "f (tb_oidc_login_states T) = rows"
  shows "related reg (tb_oidc_login_states_update f T) (V\<lparr>vw_oidcStates := M\<rparr>)"
  using assms by (auto simp: related_def intro: rel_principals_cong)

lemma state_rows: "R d s \<Longrightarrow> rel_rows olm_State oidcStateFromModel (tb_oidc_login_states (content d)) (vw_oidcStates (view s))"
  by (simp add: sim_rel_def related_def)

lemma sim_PutOIDCLoginState:
  assumes "R d s" and "oidc_State x \<noteq> []"
  shows "sim R (gorm_PutOIDCLoginState gs x) (store_PutOIDCLoginState st x) d s (=)"
  unfolding gorm_PutOIDCLoginState_def
proof (rule sim_now [OF relD(1) [OF assms(1)]], rule tab_oidc_login_states.sim_Save [OF _ _ _ PutOIDCLoginState [OF relD(2) [OF assms(1)]]])
qed (use assms(2) in \<open>auto intro!: related_states [OF relD(3) [OF assms(1)]] rel_rows_save [OF state_rows [OF assms(1)]]
      simp: oidcStateFromModel_def\<close>)

text \<open>The transaction: the row is removed, or nothing happened.\<close>

lemma take_up:
  assumes "up d" and "distinct (map olm_State (tb_oidc_login_states (content d)))"
  obtains (none) d' where "gorm_takeOIDCLoginState gs k b d = (Inl ErrNotFound, d')" "content d' = content d" "up d'"
      "\<forall>m \<in> set (tb_oidc_login_states (content d)). \<not> login_state_row k b m"
  | (row) m d' where "gorm_takeOIDCLoginState gs k b d = (Inr (oidcStateFromModel m), d')" "up d'"
      "m \<in> set (tb_oidc_login_states (content d))" "login_state_row k b m"
      "content d' = tb_oidc_login_states_update (filter (\<lambda>m. olm_State m \<noteq> k)) (content d)"
proof -
  let ?P = "login_state_row k b" and ?tx = "db_oidc_login_states (gs_db gs)"
  let ?body = "bnd (gorm_First ?tx ?P) (\<lambda>state. bnd (tab_Delete ?tx ?P) (\<lambda>n.
      if n \<noteq> 1 then fail gorm_ErrRecordNotFound else ret (Some state)))"
  let ?t = "db_Transaction (gs_db gs) ?body d"
  obtain d0 where d0: "content d0 = content d" "up d0" "fst ?t = fst (?body d0)"
      "content (snd ?t) = (if isl (fst (?body d0)) then content d else content (snd (?body d0)))" and up: "up (snd ?t)"
    using transaction [of d ?body] assms(1) by blast
  from d0(2) show thesis
  proof (cases rule: tab_oidc_login_states.First_up [where P = ?P])
    case (none d1)
    then have "fst (?body d0) = Inl gorm_ErrRecordNotFound" by (simp add: op_simps)
    then show thesis using none d0 up
      by (intro that(1) [of "snd ?t"])
        (simp_all add: gorm_takeOIDCLoginState_def Let_def not_found_def op_simps)
  next
    case (row m d1)
    obtain d2 where d2: "tab_Delete ?tx ?P d1 = (Inr (length (filter ?P (tb_oidc_login_states (content d1)))), d2)"
        "content d2 = tb_oidc_login_states_update (filter (\<lambda>m. \<not> ?P m)) (content d1)"
      by (rule tab_oidc_login_states.Delete_up [where P = ?P, OF row(5)])
    have m: "m \<in> set (tb_oidc_login_states (content d))" "olm_State m = k" using row d0(1) by (simp_all add: login_state_row_def)
    have only: "?P m' \<longleftrightarrow> m' = m" "olm_State m' = k \<longleftrightarrow> m' = m" if "m' \<in> set (tb_oidc_login_states (content d))" for m'
      using assms(2) that m row(3) by (auto simp: distinct_map login_state_row_def dest: inj_onD)
    then have f: "filter ?P (tb_oidc_login_states (content d)) = filter (\<lambda>m'. m' = m) (tb_oidc_login_states (content d))"
        "filter (\<lambda>m'. \<not> ?P m') (tb_oidc_login_states (content d)) = filter (\<lambda>m'. olm_State m' \<noteq> k) (tb_oidc_login_states (content d))"
      by (auto intro!: filter_cong)
    have "distinct (tb_oidc_login_states (content d))" using assms(2) by (simp add: distinct_map)
    then have "length (filter (\<lambda>m'. m' = m) (tb_oidc_login_states (content d))) = 1"
      using m(1) by (rule length_filter_eq)
    then have b: "?body d0 = (Inr (Some m), d2)" using row(1,4) d0(1) d2(1) f(1) by (simp add: op_simps)
    have "tb_oidc_login_states_update (filter (\<lambda>m. \<not> ?P m)) (content d) =
        tb_oidc_login_states_update (filter (\<lambda>m. olm_State m \<noteq> k)) (content d)"
      using f(2) by (cases "content d") simp
    then show thesis using row d0 d2(2) up m b
      by (intro that(2) [of m "snd ?t"]) (simp_all add: gorm_takeOIDCLoginState_def Let_def not_found_def op_simps)
  qed
qed

lemma sim_TakeOIDCLoginState:
  assumes "R d s"
  shows "sim R (gorm_TakeOIDCLoginState gs k) (store_TakeOIDCLoginState st k) d s (=)"
proof -
  note rows = state_rows [OF assms] and does = TakeOIDCLoginState [OF relD(2) [OF assms], of k]
  from relD(1) [OF assms] rel_rowsD(1) [OF rows] show ?thesis unfolding gorm_TakeOIDCLoginState_def
  proof (cases rule: take_up [where k = k and b = None])
    case (none d')
    have n: "vw_oidcStates (view s) k = None" using none(4) by (intro rel_rows_none [OF rows]) (simp add: login_state_row_def)
    then have "(view s)\<lparr>vw_oidcStates := (vw_oidcStates (view s))(k := None)\<rparr> = view s" by (simp add: fun_upd_idem)
    with none n doesD [OF does] relD(3) [OF assms] show "sim R (gorm_takeOIDCLoginState gs k None) (store_TakeOIDCLoginState st k) d s (=)"
      by (simp add: sim_def sim_rel_def)
  next
    case (row m d')
    then have "vw_oidcStates (view s) k = Some (oidcStateFromModel m)"
      by (intro rel_rows_find [OF rows]) (simp_all add: login_state_row_def)
    with row doesD [OF does] related_states [OF relD(3) [OF assms] rel_rows_remove [OF rows, of k]]
    show "sim R (gorm_takeOIDCLoginState gs k None) (store_TakeOIDCLoginState st k) d s (=)" by (simp add: sim_def sim_rel_def)
  qed
qed

lemma sim_TakeBoundOIDCLoginState:
  assumes "R d s" and "store_TakeBoundOIDCLoginState st = Some take_bound"
  shows "sim R (gorm_TakeBoundOIDCLoginState gs k h) (take_bound k h) d s (=)"
proof -
  note rows = state_rows [OF assms(1)]
  from relD(1) [OF assms(1)] rel_rowsD(1) [OF rows] show ?thesis unfolding gorm_TakeBoundOIDCLoginState_def
  proof (cases rule: take_up [where k = k and b = "Some h"])
    case (none d')
    have "take_bound k h s = (Inl ErrNotFound, s)"
    proof (rule TakeBound_other [OF relD(2) [OF assms(1)] assms(2)])
      fix x assume "vw_oidcStates (view s) k = Some x"
      with rows obtain m where "m \<in> set (tb_oidc_login_states (content d))" "olm_State m = k" "oidcStateFromModel m = x"
        by (rule rel_rows_some)
      then show "oidc_BrowserBinding x \<noteq> h" using none(4) by (auto simp: login_state_row_def oidcStateFromModel_def)
    qed
    with none relD [OF assms(1)] show "sim R (gorm_takeOIDCLoginState gs k (Some h)) (take_bound k h) d s (=)"
      by (simp add: sim_def sim_rel_def)
  next
    case (row m d')
    then have x: "vw_oidcStates (view s) k = Some (oidcStateFromModel m)" "oidc_BrowserBinding (oidcStateFromModel m) = h"
      using rel_rows_find [OF rows] by (auto simp: login_state_row_def oidcStateFromModel_def)
    with row doesD [OF TakeBound_own [OF relD(2) [OF assms(1)] assms(2) x]]
      related_states [OF relD(3) [OF assms(1)] rel_rows_remove [OF rows, of k]]
    show "sim R (gorm_takeOIDCLoginState gs k (Some h)) (take_bound k h) d s (=)" by (simp add: sim_def sim_rel_def)
  qed
qed

text \<open>Device codes.\<close>

lemma related_codes:
  assumes "related reg T V" and "rel_rows dcm_DeviceCode deviceCodeFromModel rows M" and "distinct (map dcm_UserCode rows)"
    and "f (tb_device_codes T) = rows"
  shows "related reg (tb_device_codes_update f T) (V\<lparr>vw_deviceCodes := M\<rparr>)"
  using assms by (auto simp: related_def intro: rel_principals_cong)

lemma code_rows:
  assumes "R d s"
  shows "rel_rows dcm_DeviceCode deviceCodeFromModel (tb_device_codes (content d)) (vw_deviceCodes (view s))"
    "distinct (map dcm_UserCode (tb_device_codes (content d)))"
  using assms by (simp_all add: sim_rel_def related_def)

lemma sim_GetDeviceCode:
  assumes "R d s"
  shows "sim R (gorm_GetDeviceCode gs k) (store_GetDeviceCode st k) d s (=)"
  unfolding gorm_GetDeviceCode_def
  by (rule tab_device_codes.sim_found [OF assms])
    (use GetDeviceCode [OF relD(2) [OF assms], of k] rel_rows_none [OF code_rows(1) [OF assms], of k]
      rel_rows_find [OF code_rows(1) [OF assms]] in auto)

lemma sim_GetDeviceCodeByUserCode:
  assumes "R d s"
  shows "sim R (gorm_GetDeviceCodeByUserCode gs u) (store_GetDeviceCodeByUserCode st u) d s (=)"
  unfolding gorm_GetDeviceCodeByUserCode_def
proof (rule tab_device_codes.sim_found [OF assms])
  have ran: "ran (vw_deviceCodes (view s)) = deviceCodeFromModel ` set (tb_device_codes (content d))"
    by (rule rel_rows_ran [OF code_rows(1) [OF assms]])
  {
    assume "\<forall>m \<in> set (tb_device_codes (content d)). dcm_UserCode m \<noteq> u"
    then show "store_GetDeviceCodeByUserCode st u s = (Inl ErrNotFound, s)"
      using GetByUserCode_none [OF relD(2) [OF assms], of u] by (simp add: ran deviceCodeFromModel_def)
  next
    fix m assume m: "m \<in> set (tb_device_codes (content d))" "dcm_UserCode m = u"
    then have "\<exists>c \<in> ran (vw_deviceCodes (view s)). dev_UserCode c = u" by (auto simp: ran deviceCodeFromModel_def)
    from GetByUserCode_some [OF relD(2) [OF assms] this] obtain m' where m': "m' \<in> set (tb_device_codes (content d))"
        "dcm_UserCode m' = u" "store_GetDeviceCodeByUserCode st u s = (Inr (deviceCodeFromModel m'), s)"
      by (auto simp: ran deviceCodeFromModel_def)
    then have "m' = m" using m code_rows(2) [OF assms] by (auto simp: distinct_map dest: inj_onD)
    with m' show "\<exists>x. store_GetDeviceCodeByUserCode st u s = (Inr x, s) \<and> deviceCodeFromModel m = x" by simp
  }
qed

lemma sim_PutDeviceCode:
  assumes "R d s" and "dev_DeviceCode c \<noteq> []" and "dev_Interval c > 0" and "interval_seconds (dev_Interval c) * Second = dev_Interval c"
    and "TrimSpace (dev_Status c) \<noteq> []" and "\<not> IsZero (dev_CreatedAt c)"
    and "\<forall>k c'. vw_deviceCodes (view s) k = Some c' \<longrightarrow> dev_UserCode c' = dev_UserCode c \<longrightarrow> k = dev_DeviceCode c"
  shows "sim R (gorm_PutDeviceCode gs c) (store_PutDeviceCode st c) d s (=)"
proof -
  note rows = code_rows [OF assms(1)]
  have i: "interval_seconds (dev_Interval c) > 0"
    using assms(3,4) by (metis Second_def mult_le_0_iff not_less zero_le_numeral)
  have uc: "dcm_UserCode m = dev_UserCode c \<Longrightarrow> dcm_DeviceCode m = dev_DeviceCode c" if "m \<in> set (tb_device_codes (content d))" for m
    using assms(7) [rule_format, OF rel_rows_find [OF rows(1) that refl]] by (simp add: deviceCodeFromModel_def)
  have u: "distinct (map dcm_UserCode (save_row dcm_DeviceCode m (tb_device_codes (content d))))"
    if "dcm_DeviceCode m = dev_DeviceCode c" "dcm_UserCode m = dev_UserCode c" for m
    using rel_rowsD(1) [OF rows(1)] rows(2) uc that by (intro distinct_save_column) auto
  show ?thesis unfolding gorm_PutDeviceCode_def Let_def
    by (rule sim_now [OF relD(1) [OF assms(1)]], rule sim_given_time [OF assms(6)],
        rule tab_device_codes.sim_Save [OF _ _ _ PutDeviceCode [OF relD(2) [OF assms(1)]]])
      (use i assms(2,4,5) TrimSpace_nonempty [OF assms(5)] u in
        \<open>auto intro!: related_codes [OF relD(3) [OF assms(1)]] rel_rows_save [OF rows(1)]
          simp: deviceCodeFromModel_def defaultString_given\<close>)
qed

lemma sim_UpdateDeviceCode:
  assumes "R d s" and "interval_seconds (dev_Interval c) * Second = dev_Interval c"
    and "\<forall>c'. vw_deviceCodes (view s) (dev_DeviceCode c) = Some c' \<longrightarrow> dev_UserCode c' = dev_UserCode c \<and> dev_CreatedAt c' = dev_CreatedAt c"
  shows "sim R (gorm_UpdateDeviceCode gs c) (store_UpdateDeviceCode st c) d s (=)"
proof -
  note rows = code_rows [OF assms(1)] and does = UpdateDeviceCode [OF relD(2) [OF assms(1)], of c]
  show ?thesis unfolding gorm_UpdateDeviceCode_def
  proof (rule sim_now [OF relD(1) [OF assms(1)]], rule tab_device_codes.sim_affected [OF _ _ _ does])
    fix now d1 assume e: "content d1 = content d"
    let ?P = "\<lambda>m. dcm_DeviceCode m = dev_DeviceCode c"
    let ?f = "\<lambda>m. m\<lparr>dcm_PrincipalID := dev_PrincipalID c, dcm_ExpiresAt := timePtrOrNil (dev_ExpiresAt c),
         dcm_IntervalSec := interval_seconds (dev_Interval c), dcm_Status := dev_Status c, dcm_UpdatedAt := now\<rparr>"
    show "distinct (map dcm_UserCode (change_rows ?P ?f (tb_device_codes (content d1))))"
      using rows(2) e by (simp add: map_change)
    {
      assume "\<forall>m \<in> set (tb_device_codes (content d1)). \<not> ?P m"
      then have "vw_deviceCodes (view s) (dev_DeviceCode c) = None" unfolding e by (intro rel_rows_none [OF rows(1)]) simp
      with relD(3) [OF assms(1)] e show "exists_res (vw_deviceCodes (view s) (dev_DeviceCode c)) = Inl ErrNotFound
          \<and> related reg (content d1) ((view s)\<lparr>vw_deviceCodes := upd_at (vw_deviceCodes (view s)) (dev_DeviceCode c) (\<lambda>_. c)\<rparr>)" by simp
    next
      fix m now' assume "m \<in> set (tb_device_codes (content d1))" "?P m"
      then obtain c' where c': "vw_deviceCodes (view s) (dev_DeviceCode c) = Some c'"
        using rel_rows_find [OF rows(1)] e by simp
      have conv: "deviceCodeFromModel ((?f m)\<lparr>dcm_UpdatedAt := now'\<rparr>) = c"
        if "m \<in> set (tb_device_codes (content d))" "?P m" for m
        using rel_rows_find [OF rows(1) that] c' assms(2,3) that(2)
        by (cases c) (auto simp: deviceCodeFromModel_def)
      have "related reg (tb_device_codes_update (change_rows ?P (\<lambda>m. (?f m)\<lparr>dcm_UpdatedAt := now'\<rparr>)) (content d1))
          ((view s)\<lparr>vw_deviceCodes := upd_at (vw_deviceCodes (view s)) (dev_DeviceCode c) (\<lambda>_. c)\<rparr>)"
        unfolding e
        by (rule related_codes [OF relD(3) [OF assms(1)] _ _ refl], rule rel_rows_change_at [OF rows(1)])
          (use conv rows(2) in \<open>simp_all add: map_change\<close>)
      with c' show "exists_res (vw_deviceCodes (view s) (dev_DeviceCode c)) = Inr ()
          \<and> related reg (tb_device_codes_update (change_rows ?P (\<lambda>m. (?f m)\<lparr>dcm_UpdatedAt := now'\<rparr>)) (content d1))
            ((view s)\<lparr>vw_deviceCodes := upd_at (vw_deviceCodes (view s)) (dev_DeviceCode c) (\<lambda>_. c)\<rparr>)"
        by simp
    }
  qed simp_all
qed

end

end
