(* ===== verification/Warden_GORM_Principals.thy ===== *)
theory Warden_GORM_Principals
  imports Warden_GORM_Facts
begin

text \<open>
  The operations of the database store on principals: a principal is a row, its roles and memberships are rows of their own,
  replaced in one transaction.
\<close>

text \<open>A principal that the database stores as it is; \<open>reg\<close> is the team with an ID.\<close>

definition normal_principal :: "(string \<Rightarrow> Team) \<Rightarrow> Principal \<Rightarrow> bool" where
  "normal_principal reg p \<longleftrightarrow> p_ID p \<noteq> [] \<and> TrimSpace (p_Type p) \<noteq> [] \<and> TrimSpace (p_Status p) \<noteq> []
     \<and> distinct (p_Roles p) \<and> (\<forall>r \<in> set (p_Roles p). TrimSpace (role_Key r) \<noteq> [])
     \<and> distinct (map team_ID (p_Teams p))
     \<and> (\<forall>t \<in> set (p_Teams p). reg (team_ID t) = t \<and> TrimSpace (team_ID t) \<noteq> [] \<and> TrimSpace (team_TenantID t) \<noteq> []
         \<and> TrimSpace (team_Status t) \<noteq> [])"

lemma role_of_model [simp]: "roleFromModel (role_model pid now r) = r"
  by (simp add: roleFromModel_def role_model_def)

lemma inj_grant: "inj (\<lambda>r. grant_key (role_model pid now r))"
  by (rule injI) (auto simp: role_model_def intro!: RoleGrant.equality)

lemma sim_does:
  assumes "m d = (r, d')" and "does ok view m' s r' V" and "\<And>s'. ok s' \<Longrightarrow> view s' = V \<Longrightarrow> R d' s'" and "rel_sum (=) A r r'"
  shows "sim R m m' d s A"
  using assms by (auto simp: sim_def does_def)

context gorm_simulation
begin

lemma Now_up:
  assumes "up d"
  obtains t d' where "db_Now (gs_db gs) d = (Inr t, d')" "content d' = content d" "up d'"
  using now [of d] assms by auto

lemma related_principals:
  assumes "related reg T V" and "rel_principals reg T' M"
    and "tb_tenants T' = tb_tenants T" "tb_service_accounts T' = tb_service_accounts T"
      "tb_oidc_login_states T' = tb_oidc_login_states T" "tb_device_codes T' = tb_device_codes T" "tb_api_keys T' = tb_api_keys T"
      "tb_sessions T' = tb_sessions T" "tb_agent_runs T' = tb_agent_runs T" "tb_audit_logs T' = tb_audit_logs T"
  shows "related reg T' (V\<lparr>vw_principals := M\<rparr>)"
  using assms by (simp add: related_def)

lemma principal_rows: "R d s \<Longrightarrow> rel_principals reg (content d) (vw_principals (view s))"
  by (simp add: sim_rel_def related_def)

lemma sim_UpdatePrincipalStatus:
  assumes "R d s"
  shows "sim R (gorm_UpdatePrincipalStatus gs k status) (store_UpdatePrincipalStatus st k status) d s (=)"
proof -
  note rows = principal_rows [OF assms] and does = UpdatePrincipalStatus [OF relD(2) [OF assms], of k status]
  let ?P = "\<lambda>m. pm_ID m = k" and ?V = "(view s)\<lparr>vw_principals := upd_at (vw_principals (view s)) k (p_Status_update (\<lambda>_. status))\<rparr>"
  show ?thesis unfolding gorm_UpdatePrincipalStatus_def
  proof (rule tab_principals.sim_affected [OF relD(1) [OF assms] _ _ does])
    assume none: "\<forall>m \<in> set (tb_principals (content d)). \<not> ?P m"
    then have "row_at pm_ID k (tb_principals (content d)) = None" by (auto simp: row_at_None)
    then have "vw_principals (view s) k = None" using rel_principalsD(4) [OF rows, of k] by simp
    then show "exists_res (vw_principals (view s) k) = Inl ErrNotFound \<and> related reg (content d) ?V"
      using relD(3) [OF assms] by simp
  next
    fix m now assume m: "m \<in> set (tb_principals (content d))" "?P m"
    obtain p where "vw_principals (view s) k = Some p" by (rule rel_principals_row [OF rows m(1)]) (simp add: m(2))
    moreover have "related reg (tb_principals_update (change_rows ?P (\<lambda>m. (m\<lparr>pm_Status := status\<rparr>)\<lparr>pm_UpdatedAt := now\<rparr>)) (content d)) ?V"
    proof (rule related_principals [OF relD(3) [OF assms]])
      show "rel_principals reg (tb_principals_update (change_rows ?P (\<lambda>m. (m\<lparr>pm_Status := status\<rparr>)\<lparr>pm_UpdatedAt := now\<rparr>)) (content d))
          (upd_at (vw_principals (view s)) k (p_Status_update (\<lambda>_. status)))"
        using rel_principals_status [OF rows, where k = k and Q = "\<lambda>_. True" and status = status and P = ?P
            and f = "\<lambda>m. (m\<lparr>pm_Status := status\<rparr>)\<lparr>pm_UpdatedAt := now\<rparr>"]
        by (simp add: principalFromModels_def)
    qed simp_all
    ultimately show "exists_res (vw_principals (view s) k) = Inr ()
        \<and> related reg (tb_principals_update (change_rows ?P (\<lambda>m. (m\<lparr>pm_Status := status\<rparr>)\<lparr>pm_UpdatedAt := now\<rparr>)) (content d)) ?V"
      by simp
  qed simp_all
qed

text \<open>Reading a principal.\<close>

lemma GetPrincipal_up:
  assumes "up d" and "rel_principals reg (content d) M"
  obtains (none) d' where "gorm_GetPrincipal gs k d = (Inl ErrNotFound, d')" "M k = None" "content d' = content d" "up d'"
  | (row) p q d' where "gorm_GetPrincipal gs k d = (Inr q, d')" "M k = Some p" "same_principal q p" "content d' = content d" "up d'"
  using assms(1)
proof (cases rule: tab_principals.found_up [where P = "\<lambda>m. pm_ID m = k" and msg = "''get principal''"])
  case (none d')
  then have "row_at pm_ID k (tb_principals (content d)) = None" by (auto simp: row_at_None)
  then have "M k = None" using rel_principalsD(4) [OF assms(2), of k] by simp
  with none show thesis by (intro that(1)) (simp_all add: gorm_GetPrincipal_def Let_def op_simps)
next
  case (row m d1)
  obtain p where p: "M k = Some p" "principal_row reg (content d) m p"
    by (rule rel_principals_row [OF assms(2) row(2)]) (use row(3) in simp)
  have k: "k = p_ID p" using principal_row_ids(1) [OF p(2)] row(3) by simp
  obtain d2 roles where r: "tab_Find (db_principal_roles (gs_db gs)) (\<lambda>m. prm_PrincipalID m = k) any_order None d1 = (Inr roles, d2)"
      "up d2" "content d2 = content d1" "answers (\<lambda>m. prm_PrincipalID m = k) any_order None (tb_principal_roles (content d1)) roles"
    by (rule tab_principal_roles.Find_up [where P = "\<lambda>m. prm_PrincipalID m = k" and limit = None, OF row(5) total_any_order]) simp_all
  let ?J = "\<lambda>(team, link). ptm_TeamID link = tem_ID team \<and> ptm_PrincipalID link = k"
  let ?j = "db_JoinTeams (gs_db gs) ?J (first_primary (db_collate (gs_db gs))) d2"
  obtain teams where t: "fst ?j = Inr teams" "up (snd ?j)" "content (snd ?j) = content d2
      \<and> (\<exists>pairs. sorted_wrt (first_primary (db_collate (gs_db gs))) pairs \<and> teams = map fst pairs
        \<and> mset pairs = filter_mset ?J (mset (List.product (tb_teams (content d2)) (tb_principal_teams (content d2)))))"
    by (rule runs_ok [OF join [OF total_first_primary [OF collate]] r(2)]) simp_all
  then obtain pairs where pairs: "sorted_wrt (first_primary (db_collate (gs_db gs))) pairs" "teams = map fst pairs"
      "mset pairs = filter_mset ?J (mset (List.product (tb_teams (content d)) (tb_principal_teams (content d))))"
    using r(3) row(4) by auto
  note jt = joined_teams [OF p(2) rel_principalsD(2,3) [OF assms(2)] pairs(3) [unfolded k] pairs(1)]
  have "mset roles = mset (filter (\<lambda>m. prm_PrincipalID m = k) (tb_principal_roles (content d)))"
    using r(4) row(4) by (simp add: answers_def)
  then have roles: "mset (map roleFromModel roles) = mset (p_Roles p)"
    using p(2) by (simp add: principal_row_def k)
  have "same_principal (principalFromModels m roles teams) p"
    using p(2) roles jt pairs(2) by (simp add: same_principal_def principal_row_def principalFromModels_def)
  moreover have "gorm_GetPrincipal gs k d = (Inr (principalFromModels m roles teams), snd ?j)"
    using row(1) r(1) t(1) by (simp add: gorm_GetPrincipal_def Let_def op_simps)
  ultimately show thesis using p(1) t(2,3) r(3) row(4) by (intro that(2)) simp_all
qed

lemma sim_GetPrincipal:
  assumes "R d s"
  shows "sim R (gorm_GetPrincipal gs k) (store_GetPrincipal st k) d s same_principal"
  using relD(1) [OF assms] principal_rows [OF assms]
proof (cases rule: GetPrincipal_up [where k = k])
  case (none d')
  then show ?thesis using GetPrincipal [OF relD(2) [OF assms], of k] relD [OF assms] by (simp add: sim_def sim_rel_def)
next
  case (row p q d')
  then show ?thesis using GetPrincipal [OF relD(2) [OF assms], of k] relD [OF assms] by (simp add: sim_def sim_rel_def)
qed

text \<open>The principals of one external user.\<close>

lemma for_each_principals:
  assumes "up d" and "rel_principals reg (content d) M" and "\<forall>m \<in> set ms. M (pm_ID m) \<noteq> None"
  shows "\<exists>qs d'. for_each (\<lambda>m. gorm_GetPrincipal gs (pm_ID m)) ms d = (Inr qs, d') \<and> content d' = content d \<and> up d'
    \<and> list_all2 (\<lambda>m q. \<exists>p. M (pm_ID m) = Some p \<and> same_principal q p) ms qs"
  using assms
proof (induction ms arbitrary: d)
  case Nil
  then show ?case by (simp add: op_simps)
next
  case (Cons m ms)
  show ?case
    using Cons.prems(1,2)
  proof (cases rule: GetPrincipal_up [where k = "pm_ID m"])
    case (none d')
    with Cons.prems(3) show ?thesis by simp
  next
    case (row p q d1)
    obtain qs d' where "for_each (\<lambda>m. gorm_GetPrincipal gs (pm_ID m)) ms d1 = (Inr qs, d')" "content d' = content d1" "up d'"
        "list_all2 (\<lambda>m q. \<exists>p. M (pm_ID m) = Some p \<and> same_principal q p) ms qs"
      using Cons.IH [of d1] row Cons.prems(2,3) by auto
    with row show ?thesis by (simp add: op_simps)
  qed
qed

lemma sim_ListPrincipalsByCasdoorUser:
  assumes "R d s" and "TrimSpace u = u"
  shows "sim R (gorm_ListPrincipalsByCasdoorUser gs u) (store_ListPrincipalsByCasdoorUser st u) d s
    (\<lambda>xs ys. rel_set same_principal (set xs) (set ys))"
proof -
  note rows = principal_rows [OF assms(1)]
  obtain ps where ps: "store_ListPrincipalsByCasdoorUser st u s = (Inr ps, s)"
      "set ps = {p \<in> ran (vw_principals (view s)). p_CasdoorUserID p \<noteq> [] \<and> p_CasdoorUserID p = u}"
    using ListPrincipals [OF relD(2) [OF assms(1)]] by blast
  show ?thesis
  proof (cases "u = []")
    case True
    then have "ps = []" using ps(2) by auto
    with True ps(1) relD [OF assms(1)] assms(2) show ?thesis
      by (simp add: sim_def sim_rel_def gorm_ListPrincipalsByCasdoorUser_def Let_def op_simps rel_set_def)
  next
    case False
    let ?P = "\<lambda>m. pm_CasdoorUserID m = u" and ?ord = "\<lambda>a b. db_collate (gs_db gs) (pm_TenantID a) (pm_TenantID b)"
    have total: "total_order ?ord" using collate by (auto simp: total_order_def)
    obtain d1 ms where ms: "tab_Find (db_principals (gs_db gs)) ?P ?ord None d = (Inr ms, d1)" "up d1" "content d1 = content d"
        "answers ?P ?ord None (tb_principals (content d)) ms"
      by (rule tab_principals.Find_up [where P = ?P and limit = None, OF relD(1) [OF assms(1)] total]) simp_all
    then have "mset ms = mset (filter ?P (tb_principals (content d)))" by (simp add: answers_def)
    then have set: "set ms = {m \<in> set (tb_principals (content d)). ?P m}" by (metis set_filter set_mset_mset)
    have "vw_principals (view s) (pm_ID m) \<noteq> None" if "m \<in> set ms" for m
      using that set by (auto elim: rel_principals_row [OF rows, of m])
    then obtain qs d' where qs: "for_each (\<lambda>m. gorm_GetPrincipal gs (pm_ID m)) ms d1 = (Inr qs, d')" "content d' = content d1" "up d'"
        "list_all2 (\<lambda>m q. \<exists>p. vw_principals (view s) (pm_ID m) = Some p \<and> same_principal q p) ms qs"
      using for_each_principals [of d1 "vw_principals (view s)" ms] ms(2,3) rows by auto
    have "rel_set same_principal (set qs) (set ps)"
    proof (rule rel_setI)
      fix q assume "q \<in> set qs"
      then obtain m p where m: "m \<in> set ms" "vw_principals (view s) (pm_ID m) = Some p" "same_principal q p"
        using qs(4) by (auto simp: list_all2_conv_all_nth in_set_conv_nth) metis
      obtain p' where "vw_principals (view s) (pm_ID m) = Some p'" "principal_row reg (content d) m p'"
        by (rule rel_principals_row [OF rows]) (use m(1) set in auto)
      then have "p \<in> set ps" using m(1,2) set principal_row_ids(3) [of reg "content d" m p] False
        by (auto simp: ps(2) intro: ranI)
      with m(3) show "\<exists>p \<in> set ps. same_principal q p" by blast
    next
      fix p assume "p \<in> set ps"
      then obtain k where k: "vw_principals (view s) k = Some p" "p_CasdoorUserID p = u" by (auto simp: ps(2) ran_def)
      obtain m where m: "m \<in> set (tb_principals (content d))" "pm_ID m = k" "principal_row reg (content d) m p"
        by (rule rel_principals_some [OF rows k(1)])
      then have "m \<in> set ms" using k(2) set principal_row_ids(3) [OF m(3)] by simp
      then obtain i where i: "i < length ms" "ms ! i = m" by (auto simp: in_set_conv_nth)
      then have "i < length qs" "same_principal (qs ! i) p"
        using qs(4) m(2) k(1) by (auto simp: list_all2_conv_all_nth)
      then show "\<exists>q \<in> set qs. same_principal q p" by (intro bexI [of _ "qs ! i"]) simp_all
    qed
    with False assms(2) ms(1,3) qs ps(1) relD [OF assms(1)] show ?thesis
      by (simp add: sim_def sim_rel_def gorm_ListPrincipalsByCasdoorUser_def Let_def op_simps)
  qed
qed

lemma sim_ListDirectorySubjects:
  assumes "R d s" and "TrimSpace tid \<noteq> []" and "store_ListDirectorySubjects st = Some list_subjects"
  shows "sim R (gorm_ListDirectorySubjects gs tid) (list_subjects tid) d s (\<lambda>xs ys. set xs = set ys \<and> distinct xs \<and> distinct ys)"
proof -
  note rows = principal_rows [OF assms(1)]
  obtain us where us: "list_subjects tid s = (Inr us, s)" "distinct us" "set us = p_CasdoorUserID `
      {p \<in> ran (vw_principals (view s)). p_TenantID p = tid \<and> p_CasdoorUserID p \<noteq> [] \<and> p_Type p = PrincipalTypeUser}"
    using ListDirectorySubjects [OF relD(2) [OF assms(1)] assms(3), of tid] TrimSpace_nonempty [OF assms(2)] by blast
  let ?P = "\<lambda>m. pm_TenantID m = tid \<and> pm_CasdoorUserID m \<noteq> [] \<and> pm_Type m = PrincipalTypeUser"
  let ?q = "db_Pluck (gs_db gs) ?P pm_CasdoorUserID (db_collate (gs_db gs)) d"
  obtain r where r: "fst ?q = Inr r" "up (snd ?q)"
      "content (snd ?q) = content d \<and> distinct r \<and> set r = pm_CasdoorUserID ` {m \<in> set (tb_principals (content d)). ?P m}"
    by (rule runs_ok [OF pluck relD(1) [OF assms(1)]]) simp_all
  have "set r = set us"
  proof
    show "set r \<subseteq> set us"
    proof
      fix x assume "x \<in> set r"
      then obtain m where m: "m \<in> set (tb_principals (content d))" "?P m" "x = pm_CasdoorUserID m" using r(3) by auto
      obtain p where "vw_principals (view s) (pm_ID m) = Some p" "principal_row reg (content d) m p"
        by (rule rel_principals_row [OF rows m(1)])
      then show "x \<in> set us" using m(2,3) principal_row_ids [of reg "content d" m p]
        by (auto simp: us(3) image_iff intro!: bexI [of _ p] ranI)
    qed
    show "set us \<subseteq> set r"
    proof
      fix x assume "x \<in> set us"
      then obtain k p where p: "vw_principals (view s) k = Some p" "x = p_CasdoorUserID p" "p_TenantID p = tid"
          "p_CasdoorUserID p \<noteq> []" "p_Type p = PrincipalTypeUser" by (auto simp: us(3) ran_def)
      obtain m where "m \<in> set (tb_principals (content d))" "principal_row reg (content d) m p"
        by (rule rel_principals_some [OF rows p(1)])
      then show "x \<in> set r" using p principal_row_ids [of reg "content d" m p] r(3) by auto
    qed
  qed
  with r us(1,2) assms(2) relD [OF assms(1)] show ?thesis
    by (simp add: sim_def sim_rel_def gorm_ListDirectorySubjects_def op_simps)
qed

text \<open>Disabling a service account, and the principal of the same ID.\<close>

lemma sim_DisableServiceAccount:
  assumes "R d s"
  shows "sim R (gorm_DisableServiceAccount gs k tid) (store_DisableServiceAccount st k tid) d s (=)"
proof -
  let ?P = "\<lambda>m. sam_ID m = k \<and> sam_TenantID m = tid" and ?Q = "\<lambda>m. pm_ID m = k \<and> pm_TenantID m = tid"
  note rows = account_rows [OF assms]
  obtain now d1 where n: "db_Now (gs_db gs) d = (Inr now, d1)" "content d1 = content d" "up d1" by (rule Now_up [OF relD(1) [OF assms]])
  let ?f = "\<lambda>m. m\<lparr>sam_Status := ''disabled'', sam_UpdatedAt := now\<rparr>"
  have key: "\<And>m. sam_ID (?f m) = sam_ID m" by simp
  from n(3) key TrueI show ?thesis
  proof (cases rule: tab_service_accounts.affected_up [where P = ?P and f = ?f and msg = "''disable service account''"])
    case (none d')
    have "store_DisableServiceAccount st k tid s = (Inl ErrNotFound, s)"
    proof (rule DisableServiceAccount_none [OF relD(2) [OF assms]])
      fix a assume "vw_accounts (view s) k = Some a"
      with rows obtain m where "m \<in> set (tb_service_accounts (content d))" "sam_ID m = k" "serviceAccountFromModel m = a"
        by (rule rel_rows_some)
      then show "acc_TenantID a \<noteq> tid" using none(2) n(2) by (auto simp: serviceAccountFromModel_def)
    qed
    with none n relD [OF assms] show ?thesis
      by (simp add: sim_def sim_rel_def gorm_DisableServiceAccount_def op_simps)
  next
    case (some m now1 d2)
    then have m: "m \<in> set (tb_service_accounts (content d))" "sam_ID m = k" "sam_TenantID m = tid" by (simp_all add: n(2))
    let ?a = "serviceAccountFromModel m"
    have a: "vw_accounts (view s) k = Some ?a" "acc_TenantID ?a = tid"
      using rel_rows_find [OF rows m(1,2)] m(3) by (simp_all add: serviceAccountFromModel_def)
    obtain now2 d3 where n3: "db_Now (gs_db gs) d2 = (Inr now2, d3)" "content d3 = content d2" "up d3" by (rule Now_up [OF some(5)])
    let ?g = "\<lambda>m. m\<lparr>pm_Status := ''disabled'', pm_UpdatedAt := now2\<rparr>"
    obtain d4 now3 where u: "tab_Updates (db_principals (gs_db gs)) ?Q ?g d3 = (Inr (length (filter ?Q (tb_principals (content d3)))), d4)" "up d4"
        "content d4 = tb_principals_update (change_rows ?Q (\<lambda>m. (?g m)\<lparr>pm_UpdatedAt := now3\<rparr>)) (content d3)"
      by (rule tab_principals.Updates_up [where P = ?Q and f = ?g, OF n3(3)]) simp_all
    have run: "gorm_DisableServiceAccount gs k tid d = (Inr (), d4)"
      by (simp add: gorm_DisableServiceAccount_def op_simps n(1) some(1) n3(1) u(1))
    let ?T = "tb_service_accounts_update (change_rows ?P (\<lambda>m. (?f m)\<lparr>sam_UpdatedAt := now1\<rparr>)) (content d)"
    let ?V = "(view s)\<lparr>vw_accounts := (vw_accounts (view s))(k \<mapsto> ?a\<lparr>acc_Status := ''disabled''\<rparr>)\<rparr>"
    have sel: "?P m' \<longleftrightarrow> sam_ID m' = k" if "m' \<in> set (tb_service_accounts (content d))" for m'
      using rel_rows_find [OF rows that, of k] a m(3) by (auto simp: serviceAccountFromModel_def)
    have "change_rows ?P g (tb_service_accounts (content d)) = change_rows (\<lambda>m. sam_ID m = k) g (tb_service_accounts (content d))" for g
      using sel by (simp add: change_rows_def cong: map_cong)
    then have acc: "rel_rows sam_ID serviceAccountFromModel (change_rows ?P (\<lambda>m. (?f m)\<lparr>sam_UpdatedAt := now1\<rparr>) (tb_service_accounts (content d)))
        ((vw_accounts (view s))(k \<mapsto> ?a\<lparr>acc_Status := ''disabled''\<rparr>))"
      using rel_rows_change_at [OF rows, of "\<lambda>m. (?f m)\<lparr>sam_UpdatedAt := now1\<rparr>" k "\<lambda>x. x\<lparr>acc_Status := ''disabled''\<rparr>"] a(1)
      by (simp add: serviceAccountFromModel_def)
    have T: "related reg ?T ?V" by (rule related_accounts [OF relD(3) [OF assms] acc]) simp
    have "related reg (content d4) (?V\<lparr>vw_principals := upd_at (vw_principals (view s)) k
        (\<lambda>p. if p_TenantID p = tid then p\<lparr>p_Status := ''disabled''\<rparr> else p)\<rparr>)"
      unfolding u(3) n3(2) some(4) n(2)
    proof (rule related_principals [OF T])
      have "rel_principals reg ?T (vw_principals (view s))" using T by (simp add: related_def)
      then show "rel_principals reg (tb_principals_update (change_rows ?Q (\<lambda>m. (?g m)\<lparr>pm_UpdatedAt := now3\<rparr>)) ?T)
          (upd_at (vw_principals (view s)) k (\<lambda>p. if p_TenantID p = tid then p\<lparr>p_Status := ''disabled''\<rparr> else p))"
        by (rule rel_principals_status) (simp_all add: principalFromModels_def)
    qed simp_all
    with run u(2) doesD [OF DisableServiceAccount_some [OF relD(2) [OF assms] a]] show ?thesis
      by (simp add: sim_def sim_rel_def)
  qed
qed

text \<open>Storing a principal: the loops over its roles and its teams.\<close>

lemma create_roles_up:
  assumes "up d" and "distinct rs" and "\<forall>r \<in> set rs. TrimSpace (role_Key r) \<noteq> []"
    and "\<forall>r \<in> set rs. grant_key (role_model pid now r) \<notin> grant_key ` set (tb_principal_roles (content d))"
  shows "\<exists>us d'. for_each (create_role (gs_db gs) pid now) rs d = (Inr us, d') \<and> up d'
    \<and> content d' = tb_principal_roles_update (\<lambda>rows. rows @ map (role_model pid now) rs) (content d)"
  using assms
proof (induction rs arbitrary: d)
  case Nil
  then show ?case by (simp add: op_simps)
next
  case (Cons r rs)
  obtain d1 where d1: "tab_Create (db_principal_roles (gs_db gs)) (role_model pid now r) d = (Inr (), d1)" "up d1"
      "content d1 = tb_principal_roles_update (\<lambda>rows. rows @ [role_model pid now r]) (content d)"
    by (rule tab_principal_roles.Create_up [OF Cons.prems(1), of "role_model pid now r"]) (use Cons.prems(4) in simp_all)
  have "grant_key (role_model pid now r') \<noteq> grant_key (role_model pid now r)" if "r' \<in> set rs" for r'
    using that Cons.prems(2) injD [OF inj_grant, of pid now r' r] by auto
  then have "\<forall>r' \<in> set rs. grant_key (role_model pid now r') \<notin> grant_key ` set (tb_principal_roles (content d1))"
    using Cons.prems(4) by (auto simp: d1(3))
  from Cons.IH [OF d1(2) _ _ this] Cons.prems(2,3) obtain us d' where d': "for_each (create_role (gs_db gs) pid now) rs d1 = (Inr us, d')" "up d'"
      "content d' = tb_principal_roles_update (\<lambda>rows. rows @ map (role_model pid now) rs) (content d1)" by auto
  moreover have "create_role (gs_db gs) pid now r d = (Inr (), d1)" using d1(1) Cons.prems(3) by (simp add: create_role_def op_simps)
  ultimately show ?case using d1(3) by (simp add: op_simps comp_def)
qed

lemma save_teams_up:
  assumes "up d" and "distinct (map (\<lambda>(i, t). team_ID t) its)"
    and "\<forall>(i, t) \<in> set its. reg (team_ID t) = t \<and> TrimSpace (team_ID t) \<noteq> [] \<and> TrimSpace (team_TenantID t) \<noteq> [] \<and> TrimSpace (team_Status t) \<noteq> []"
    and "\<forall>(i, t) \<in> set its. (p_ID p, team_ID t) \<notin> link_key ` set (tb_principal_teams (content d))"
    and "distinct (map tem_ID (tb_teams (content d)))" and "\<forall>m \<in> set (tb_teams (content d)). teamFromModel m = reg (tem_ID m)"
  shows "\<exists>us d' ts. for_each (save_team (gs_db gs) p now) its d = (Inr us, d') \<and> up d'
    \<and> content d' = (content d)\<lparr>tb_teams := ts, tb_principal_teams := tb_principal_teams (content d) @
        map (\<lambda>(i, t). \<lparr>ptm_PrincipalID = p_ID p, ptm_TeamID = team_ID t, ptm_IsPrimary = (i = 0), ptm_CreatedAt = now\<rparr>) its\<rparr>
    \<and> distinct (map tem_ID ts) \<and> (\<forall>m \<in> set ts. teamFromModel m = reg (tem_ID m))
    \<and> tem_ID ` set ts = tem_ID ` set (tb_teams (content d)) \<union> (\<lambda>(i, t). team_ID t) ` set its"
  using assms
proof (induction its arbitrary: d)
  case Nil
  then show ?case by (simp add: op_simps) (metis Tables.surjective Tables.update_convs(3,4))
next
  case (Cons it its)
  obtain i t where it: "it = (i, t)" by fastforce
  note prems = Cons.prems [unfolded it]
  have t: "reg (team_ID t) = t" "TrimSpace (team_ID t) \<noteq> []" "TrimSpace (team_TenantID t) \<noteq> []" "TrimSpace (team_Status t) \<noteq> []"
    using prems(3) by auto
  let ?m = "team_model (p_TenantID p) now t" and ?T = "content d"
  let ?l = "\<lparr>ptm_PrincipalID = p_ID p, ptm_TeamID = team_ID t, ptm_IsPrimary = (i = 0), ptm_CreatedAt = now\<rparr>"
  obtain d1 now1 where d1: "tab_Save (db_teams (gs_db gs)) ?m d = (Inr (), d1)" "up d1"
      "content d1 = tb_teams_update (save_row tem_ID (?m\<lparr>tem_UpdatedAt := now1\<rparr>)) ?T"
    by (rule tab_teams.Save_up [OF prems(1), of ?m])
      (use t TrimSpace_nonempty [OF t(2)] TrimSpace_nonempty [OF t(4)] in \<open>simp_all add: team_model_def defaultString_given\<close>)
  obtain d2 where d2: "tab_Create (db_principal_teams (gs_db gs)) ?l d1 = (Inr (), d2)" "up d2"
      "content d2 = tb_principal_teams_update (\<lambda>rows. rows @ [?l]) (content d1)"
    by (rule tab_principal_teams.Create_up [OF d1(2), of ?l]) (use prems(4) in \<open>simp_all add: d1(3)\<close>)
  let ?ts = "save_row tem_ID (?m\<lparr>tem_UpdatedAt := now1\<rparr>) (tb_teams ?T)"
  have c2: "content d2 = ?T\<lparr>tb_teams := ?ts, tb_principal_teams := tb_principal_teams ?T @ [?l]\<rparr>"
    by (cases ?T) (simp add: d2(3) d1(3))
  have conv: "teamFromModel (?m\<lparr>tem_UpdatedAt := now1\<rparr>) = t" "tem_ID ?m = team_ID t"
    using t by (simp_all add: teamFromModel_def team_model_def defaultString_given)
  have ts: "distinct (map tem_ID ?ts)" "\<forall>m \<in> set ?ts. teamFromModel m = reg (tem_ID m)"
      "tem_ID ` set ?ts = insert (team_ID t) (tem_ID ` set (tb_teams ?T))"
  proof -
    show "distinct (map tem_ID ?ts)" by (rule distinct_save [OF prems(5)])
    show "\<forall>m \<in> set ?ts. teamFromModel m = reg (tem_ID m)"
      using prems(6) conv t(1) by (auto dest!: set_save)
    show "tem_ID ` set ?ts = insert (team_ID t) (tem_ID ` set (tb_teams ?T))" using conv(2) by (simp add: keys_save)
  qed
  have "\<exists>us d' ts. for_each (save_team (gs_db gs) p now) its d2 = (Inr us, d') \<and> up d'
    \<and> content d' = (content d2)\<lparr>tb_teams := ts, tb_principal_teams := tb_principal_teams (content d2) @
        map (\<lambda>(i, t). \<lparr>ptm_PrincipalID = p_ID p, ptm_TeamID = team_ID t, ptm_IsPrimary = (i = 0), ptm_CreatedAt = now\<rparr>) its\<rparr>
    \<and> distinct (map tem_ID ts) \<and> (\<forall>m \<in> set ts. teamFromModel m = reg (tem_ID m))
    \<and> tem_ID ` set ts = tem_ID ` set (tb_teams (content d2)) \<union> (\<lambda>(i, t). team_ID t) ` set its"
  proof (rule Cons.IH [OF d2(2)])
    show "distinct (map (\<lambda>(i, t). team_ID t) its)" using prems(2) by simp
    show "\<forall>(i, t) \<in> set its. reg (team_ID t) = t \<and> TrimSpace (team_ID t) \<noteq> [] \<and> TrimSpace (team_TenantID t) \<noteq> [] \<and> TrimSpace (team_Status t) \<noteq> []"
      using prems(3) by simp
    have "team_ID t \<notin> (\<lambda>x. team_ID (snd x)) ` set its" using prems(2) by (simp add: case_prod_unfold)
    moreover have "team_ID (snd x) \<in> (\<lambda>x. team_ID (snd x)) ` set its" if "x \<in> set its" for x using that by (rule imageI)
    ultimately have ne: "team_ID (snd x) \<noteq> team_ID t" if "x \<in> set its" for x using that by metis
    have "(p_ID p, team_ID (snd x)) \<notin> link_key ` set (tb_principal_teams ?T)" if "x \<in> set its" for x
      using prems(4) that by (simp add: case_prod_unfold)
    then show "\<forall>(i, t') \<in> set its. (p_ID p, team_ID t') \<notin> link_key ` set (tb_principal_teams (content d2))"
      using ne by (simp add: c2 case_prod_unfold)
    show "distinct (map tem_ID (tb_teams (content d2)))" "\<forall>m \<in> set (tb_teams (content d2)). teamFromModel m = reg (tem_ID m)"
      using ts(1,2) by (simp_all add: c2)
  qed
  then obtain us d' ts' where d': "for_each (save_team (gs_db gs) p now) its d2 = (Inr us, d')" "up d'"
    "content d' = (content d2)\<lparr>tb_teams := ts', tb_principal_teams := tb_principal_teams (content d2) @
        map (\<lambda>(i, t). \<lparr>ptm_PrincipalID = p_ID p, ptm_TeamID = team_ID t, ptm_IsPrimary = (i = 0), ptm_CreatedAt = now\<rparr>) its\<rparr>"
    "distinct (map tem_ID ts')" "\<forall>m \<in> set ts'. teamFromModel m = reg (tem_ID m)"
    "tem_ID ` set ts' = tem_ID ` set (tb_teams (content d2)) \<union> (\<lambda>(i, t). team_ID t) ` set its" by blast
  have run: "save_team (gs_db gs) p now (i, t) d = (Inr (), d2)" using t(2) d1(1) d2(1) by (simp add: save_team_def op_simps)
  show ?case
    unfolding it
  proof (intro exI conjI)
    show "for_each (save_team (gs_db gs) p now) ((i, t) # its) d = (Inr (() # us), d')"
      using run d'(1) by (simp add: op_simps)
    show "content d' = ?T\<lparr>tb_teams := ts', tb_principal_teams := tb_principal_teams ?T @
        map (\<lambda>(i, t). \<lparr>ptm_PrincipalID = p_ID p, ptm_TeamID = team_ID t, ptm_IsPrimary = (i = 0), ptm_CreatedAt = now\<rparr>) ((i, t) # its)\<rparr>"
      by (simp add: d'(3) c2)
    show "tem_ID ` set ts' = tem_ID ` set (tb_teams ?T) \<union> (\<lambda>(i, t). team_ID t) ` set ((i, t) # its)"
      using d'(6) ts(3) by (auto simp: c2)
  qed (use d' in simp_all)
qed

text \<open>The rows after the transaction.\<close>

lemma rel_principals_upsert:
  assumes "rel_principals reg T M" and "normal_principal reg p"
    and m: "pm_ID m = p_ID p" "principalFromModels m [] [] = p\<lparr>p_Roles := [], p_Teams := []\<rparr>"
    and T': "tb_principals T' = save_row pm_ID m (tb_principals T)"
      "tb_principal_roles T' = filter (\<lambda>r. prm_PrincipalID r \<noteq> p_ID p) (tb_principal_roles T) @ map (role_model (p_ID p) now) (p_Roles p)"
      "tb_principal_teams T' = filter (\<lambda>l. ptm_PrincipalID l \<noteq> p_ID p) (tb_principal_teams T) @
        map (\<lambda>(i, t). \<lparr>ptm_PrincipalID = p_ID p, ptm_TeamID = team_ID t, ptm_IsPrimary = (i = 0), ptm_CreatedAt = now\<rparr>) (enumerate 0 (p_Teams p))"
      "distinct (map tem_ID (tb_teams T'))" "\<forall>m \<in> set (tb_teams T'). teamFromModel m = reg (tem_ID m)"
      "tem_ID ` set (tb_teams T') = tem_ID ` set (tb_teams T) \<union> (\<lambda>(i, t). team_ID t) ` set (enumerate (0 :: nat) (p_Teams p))"
  shows "rel_principals reg T' (M(p_ID p \<mapsto> p))"
proof -
  have ids: "(\<lambda>(i, t). team_ID t) ` set (enumerate (0 :: nat) (p_Teams p)) = team_ID ` set (p_Teams p)"
  proof -
    have "set (p_Teams p) = snd ` set (enumerate (0 :: nat) (p_Teams p))" using map_snd_enumerate [of 0 "p_Teams p"] by (metis set_map)
    then show ?thesis by (simp add: image_image case_prod_unfold)
  qed
  have own: "filter (\<lambda>r. prm_PrincipalID r = p_ID p) (tb_principal_roles T') = map (role_model (p_ID p) now) (p_Roles p)"
    "filter (\<lambda>l. ptm_PrincipalID l = p_ID p) (tb_principal_teams T') =
      map (\<lambda>(i, t). \<lparr>ptm_PrincipalID = p_ID p, ptm_TeamID = team_ID t, ptm_IsPrimary = (i = 0), ptm_CreatedAt = now\<rparr>) (enumerate 0 (p_Teams p))"
    by (auto simp: T'(2,3) role_model_def filter_empty_conv filter_id_conv)
  have new: "principal_row reg T' m p"
    unfolding principal_row_def own
    using m assms(2) T'(6) ids
    by (auto simp: comp_def case_prod_unfold memberships_def normal_principal_def simp flip: mset_map)
  have other: "principal_row reg T' m' q" if "principal_row reg T m' q" "p_ID q \<noteq> p_ID p" for m' q
  proof -
    have keep: "filter (\<lambda>x. f x \<noteq> p_ID p \<and> f x = p_ID q) xs = filter (\<lambda>x. f x = p_ID q) xs" for f :: "'x \<Rightarrow> string" and xs
      using that(2) by (intro filter_cong) auto
    have "filter (\<lambda>l. ptm_PrincipalID l = p_ID q) (map (\<lambda>(i, t). \<lparr>ptm_PrincipalID = p_ID p, ptm_TeamID = team_ID t,
        ptm_IsPrimary = (i = 0), ptm_CreatedAt = now\<rparr>) (enumerate 0 (p_Teams p))) = []"
      "filter (\<lambda>r. prm_PrincipalID r = p_ID q) (map (role_model (p_ID p) now) (p_Roles p)) = []"
      using that(2) by (auto simp: filter_empty_conv role_model_def)
    then have "filter (\<lambda>r. prm_PrincipalID r = p_ID q) (tb_principal_roles T') = filter (\<lambda>r. prm_PrincipalID r = p_ID q) (tb_principal_roles T)"
      "filter (\<lambda>l. ptm_PrincipalID l = p_ID q) (tb_principal_teams T') = filter (\<lambda>l. ptm_PrincipalID l = p_ID q) (tb_principal_teams T)"
      by (simp_all only: T'(2,3) filter_append filter_filter keep append_Nil2)
    with that(1) T'(6) show ?thesis by (simp add: principal_row_def)
  qed
  have "rel_option (principal_row reg T') (row_at pm_ID k (tb_principals T')) ((M(p_ID p \<mapsto> p)) k)" for k
  proof (cases "k = p_ID p")
    case True
    with new show ?thesis by (simp add: T'(1) row_at_save m(1))
  next
    case False
    have r: "rel_option (principal_row reg T) (row_at pm_ID k (tb_principals T)) (M k)" by (rule rel_principalsD(4) [OF assms(1)])
    show ?thesis
    proof (cases "row_at pm_ID k (tb_principals T)")
      case None
      with r False show ?thesis by (simp add: T'(1) row_at_save m(1))
    next
      case (Some m')
      then obtain q where q: "M k = Some q" "principal_row reg T m' q" using r by (auto simp: option_rel_Some1)
      have "pm_ID m' = k" using Some row_at_Some [OF rel_principalsD(1) [OF assms(1)]] by blast
      then have "p_ID q \<noteq> p_ID p" using principal_row_ids(1) [OF q(2)] False by simp
      with Some q False other [OF q(2)] show ?thesis by (simp add: T'(1) row_at_save m(1))
    qed
  qed
  then show ?thesis using rel_principalsD(1) [OF assms(1)] T'(1,4,5) by (simp add: rel_principals_def distinct_save)
qed

lemma sim_UpsertPrincipal:
  assumes "R d s" and "normal_principal reg p"
  shows "sim R (gorm_UpsertPrincipal gs p) (store_UpsertPrincipal st p) d s (=)"
proof -
  note rows = principal_rows [OF assms(1)]
  from assms(2) have n: "p_ID p \<noteq> []" "TrimSpace (p_Type p) \<noteq> []" "TrimSpace (p_Status p) \<noteq> []" "distinct (p_Roles p)"
      "\<forall>r \<in> set (p_Roles p). TrimSpace (role_Key r) \<noteq> []" "distinct (map team_ID (p_Teams p))"
      "\<And>t. t \<in> set (p_Teams p) \<Longrightarrow> reg (team_ID t) = t \<and> TrimSpace (team_ID t) \<noteq> [] \<and> TrimSpace (team_TenantID t) \<noteq> [] \<and> TrimSpace (team_Status t) \<noteq> []"
    by (auto simp: normal_principal_def)
  obtain now d1 where d1: "db_Now (gs_db gs) d = (Inr now, d1)" "content d1 = content d" "up d1" by (rule Now_up [OF relD(1) [OF assms(1)]])
  let ?db = "gs_db gs" and ?T = "content d"
  define body where "body = bnd (wrapped ''upsert principal'' (tab_Save (db_principals ?db) (principal_model p now))) (\<lambda>_.
      bnd (wrapped ''replace principal roles'' (tab_Delete (db_principal_roles ?db) (\<lambda>m. prm_PrincipalID m = p_ID p))) (\<lambda>_.
      bnd (for_each (create_role ?db (p_ID p) now) (p_Roles p)) (\<lambda>_.
      bnd (wrapped ''replace principal teams'' (tab_Delete (db_principal_teams ?db) (\<lambda>m. ptm_PrincipalID m = p_ID p))) (\<lambda>_.
      bnd (for_each (save_team ?db p now) (enumerate 0 (p_Teams p))) (\<lambda>_. ret (None :: oidcLoginStateModel option))))))"
  obtain d0 where d0: "content d0 = content d1" "up d0" "fst (db_Transaction ?db body d1) = fst (body d0)"
      "content (snd (db_Transaction ?db body d1)) = (if isl (fst (body d0)) then content d1 else content (snd (body d0)))"
    and up: "up (snd (db_Transaction ?db body d1))"
    using transaction [of d1 body] d1(3) by blast
  obtain e1 now1 where e1: "tab_Save (db_principals ?db) (principal_model p now) d0 = (Inr (), e1)" "up e1"
      "content e1 = tb_principals_update (save_row pm_ID ((principal_model p now)\<lparr>pm_UpdatedAt := now1\<rparr>)) (content d0)"
    by (rule tab_principals.Save_up [OF d0(2), of "principal_model p now"])
      (use n(1,3) TrimSpace_nonempty [OF n(3)] in \<open>simp_all add: principal_model_def defaultString_given\<close>)
  obtain e2 c2 where e2: "tab_Delete (db_principal_roles ?db) (\<lambda>m. prm_PrincipalID m = p_ID p) e1 = (Inr c2, e2)" "up e2"
      "content e2 = tb_principal_roles_update (filter (\<lambda>m. prm_PrincipalID m \<noteq> p_ID p)) (content e1)"
    by (rule tab_principal_roles.Delete_up [where P = "\<lambda>m. prm_PrincipalID m = p_ID p", OF e1(2)])
  have "\<forall>r \<in> set (p_Roles p). grant_key (role_model (p_ID p) now r) \<notin> grant_key ` set (tb_principal_roles (content e2))"
    by (auto simp: e2(3) role_model_def)
  then obtain us e3 where e3: "for_each (create_role ?db (p_ID p) now) (p_Roles p) e2 = (Inr us, e3)" "up e3"
      "content e3 = tb_principal_roles_update (\<lambda>rows. rows @ map (role_model (p_ID p) now) (p_Roles p)) (content e2)"
    using create_roles_up [OF e2(2) n(4,5)] by blast
  obtain e4 c4 where e4: "tab_Delete (db_principal_teams ?db) (\<lambda>m. ptm_PrincipalID m = p_ID p) e3 = (Inr c4, e4)" "up e4"
      "content e4 = tb_principal_teams_update (filter (\<lambda>m. ptm_PrincipalID m \<noteq> p_ID p)) (content e3)"
    by (rule tab_principal_teams.Delete_up [where P = "\<lambda>m. ptm_PrincipalID m = p_ID p", OF e3(2)])
  have teams4: "tb_teams (content e4) = tb_teams ?T" by (simp add: e4(3) e3(3) e2(3) e1(3) d0(1) d1(2))
  have en: "map (\<lambda>(i, t). team_ID t) (enumerate (0 :: nat) (p_Teams p)) = map team_ID (p_Teams p)"
  proof -
    have "map (\<lambda>(i, t). team_ID t) xs = map team_ID (map snd xs)" for xs :: "(nat \<times> Team) list" by (simp add: case_prod_unfold)
    then show ?thesis by (simp only: map_snd_enumerate)
  qed
  have "\<exists>us d' ts. for_each (save_team ?db p now) (enumerate 0 (p_Teams p)) e4 = (Inr us, d') \<and> up d'
    \<and> content d' = (content e4)\<lparr>tb_teams := ts, tb_principal_teams := tb_principal_teams (content e4) @
        map (\<lambda>(i, t). \<lparr>ptm_PrincipalID = p_ID p, ptm_TeamID = team_ID t, ptm_IsPrimary = (i = 0), ptm_CreatedAt = now\<rparr>) (enumerate 0 (p_Teams p))\<rparr>
    \<and> distinct (map tem_ID ts) \<and> (\<forall>m \<in> set ts. teamFromModel m = reg (tem_ID m))
    \<and> tem_ID ` set ts = tem_ID ` set (tb_teams (content e4)) \<union> (\<lambda>(i, t). team_ID t) ` set (enumerate (0 :: nat) (p_Teams p))"
  proof (rule save_teams_up [OF e4(2)])
    show "distinct (map (\<lambda>(i, t). team_ID t) (enumerate 0 (p_Teams p)))" using n(6) by (simp add: en)
    show "\<forall>(i, t) \<in> set (enumerate 0 (p_Teams p)). reg (team_ID t) = t \<and> TrimSpace (team_ID t) \<noteq> []
        \<and> TrimSpace (team_TenantID t) \<noteq> [] \<and> TrimSpace (team_Status t) \<noteq> []"
      using n(7) by (auto simp: in_set_enumerate_eq)
    show "\<forall>(i, t) \<in> set (enumerate 0 (p_Teams p)). (p_ID p, team_ID t) \<notin> link_key ` set (tb_principal_teams (content e4))"
      by (auto simp: e4(3))
  qed (use rel_principalsD(2,3) [OF rows] in \<open>simp_all add: teams4\<close>)
  then obtain us' e5 ts where e5: "for_each (save_team ?db p now) (enumerate 0 (p_Teams p)) e4 = (Inr us', e5)"
      "content e5 = (content e4)\<lparr>tb_teams := ts, tb_principal_teams := tb_principal_teams (content e4) @
        map (\<lambda>(i, t). \<lparr>ptm_PrincipalID = p_ID p, ptm_TeamID = team_ID t, ptm_IsPrimary = (i = 0), ptm_CreatedAt = now\<rparr>) (enumerate 0 (p_Teams p))\<rparr>"
      "distinct (map tem_ID ts)" "\<forall>m \<in> set ts. teamFromModel m = reg (tem_ID m)"
      "tem_ID ` set ts = tem_ID ` set (tb_teams ?T) \<union> (\<lambda>(i, t). team_ID t) ` set (enumerate (0 :: nat) (p_Teams p))"
    unfolding teams4 by blast
  have b: "body d0 = (Inr None, e5)"
    by (simp add: body_def op_simps e1(1) e2(1) e3(1) e4(1) e5(1))
  let ?t = "db_Transaction ?db body d1"
  have c: "content (snd ?t) = content e5" "fst ?t = Inr None" using d0(3,4) b by simp_all
  have run: "gorm_UpsertPrincipal gs p d = (Inr (), snd ?t)"
    using c(2) by (simp add: gorm_UpsertPrincipal_def Let_def op_simps d1(1) flip: body_def)
  show ?thesis
  proof (rule sim_does [where m = "gorm_UpsertPrincipal gs p" and m' = "store_UpsertPrincipal st p" and d = d and s = s and ok = ok and view = view, OF run UpsertPrincipal [OF relD(2) [OF assms(1)], of p]])
    fix s' assume s': "ok s'" "view s' = (view s)\<lparr>vw_principals := (vw_principals (view s))(p_ID p \<mapsto> p)\<rparr>"
    have "related reg (content e5) (view s')"
      unfolding s'(2)
    proof (rule related_principals [OF relD(3) [OF assms(1)]])
      show "rel_principals reg (content e5) ((vw_principals (view s))(p_ID p \<mapsto> p))"
      proof (rule rel_principals_upsert [OF rows assms(2), where now = now and m = "(principal_model p now)\<lparr>pm_UpdatedAt := now1\<rparr>"])
        show "principalFromModels ((principal_model p now)\<lparr>pm_UpdatedAt := now1\<rparr>) [] [] = p\<lparr>p_Roles := [], p_Teams := []\<rparr>"
          using n(2,3) by (simp add: principalFromModels_def principal_model_def defaultString_given)
      qed (use e5(3-5) in \<open>simp_all add: e5(2) e4(3) e3(3) e2(3) e1(3) d0(1) d1(2) principal_model_def\<close>)
    qed (simp_all add: e5(2) e4(3) e3(3) e2(3) e1(3) d0(1) d1(2))
    then show "R (snd ?t) s'" using up s'(1) c(1) by (simp add: sim_rel_def)
  qed simp
qed

end

end
