(* ===== verification/Warden_GORM_Instance.thy ===== *)
theory Warden_GORM_Instance
  imports Warden_GORM_Principals Warden_MemoryStore
begin

text \<open>
  A database that keeps its tables as lists of rows: it satisfies the laws of theory \<open>Warden_GORM_Facts\<close>, so the
  store over it simulates the in-memory store.
\<close>

section \<open>The tables\<close>

definition rel_tenants :: "(Tables, tenantModel) gtable" where
  "rel_tenants = rel_table tb_tenants tb_tenants_update tnm_ID (\<lambda>now m. m\<lparr>tnm_UpdatedAt := now\<rparr>) (\<lambda>rows. distinct (map tnm_Slug rows))"

definition rel_principal_rows :: "(Tables, principalModel) gtable" where
  "rel_principal_rows = rel_table tb_principals tb_principals_update pm_ID (\<lambda>now m. m\<lparr>pm_UpdatedAt := now\<rparr>) (\<lambda>_. True)"

definition rel_teams :: "(Tables, teamModel) gtable" where
  "rel_teams = rel_table tb_teams tb_teams_update tem_ID (\<lambda>now m. m\<lparr>tem_UpdatedAt := now\<rparr>) (\<lambda>_. True)"

definition rel_links :: "(Tables, principalTeamModel) gtable" where
  "rel_links = rel_table tb_principal_teams tb_principal_teams_update link_key (\<lambda>now m. m) (\<lambda>_. True)"

definition rel_grants :: "(Tables, principalRoleModel) gtable" where
  "rel_grants = rel_table tb_principal_roles tb_principal_roles_update grant_key (\<lambda>now m. m) (\<lambda>_. True)"

definition rel_accounts :: "(Tables, serviceAccountModel) gtable" where
  "rel_accounts = rel_table tb_service_accounts tb_service_accounts_update sam_ID (\<lambda>now m. m\<lparr>sam_UpdatedAt := now\<rparr>) (\<lambda>_. True)"

definition rel_states :: "(Tables, oidcLoginStateModel) gtable" where
  "rel_states = rel_table tb_oidc_login_states tb_oidc_login_states_update olm_State (\<lambda>now m. m) (\<lambda>_. True)"

definition rel_codes :: "(Tables, deviceCodeModel) gtable" where
  "rel_codes = rel_table tb_device_codes tb_device_codes_update dcm_DeviceCode (\<lambda>now m. m\<lparr>dcm_UpdatedAt := now\<rparr>)
     (\<lambda>rows. distinct (map dcm_UserCode rows))"

definition rel_keys :: "(Tables, apiKeyModel) gtable" where
  "rel_keys = rel_table tb_api_keys tb_api_keys_update akm_ID (\<lambda>now m. m) (\<lambda>rows. distinct (map akm_KeyHash rows))"

definition rel_sessions :: "(Tables, sessionModel) gtable" where
  "rel_sessions = rel_table tb_sessions tb_sessions_update sem_ID (\<lambda>now m. m\<lparr>sem_UpdatedAt := now\<rparr>) (\<lambda>_. True)"

definition rel_runs :: "(Tables, agentRunModel) gtable" where
  "rel_runs = rel_table tb_agent_runs tb_agent_runs_update arm_ID (\<lambda>now m. m\<lparr>arm_UpdatedAt := now\<rparr>) (\<lambda>_. True)"

text \<open>The primary key of the audit log counts its rows.\<close>

definition rel_audits :: "(Tables, auditLogModel) gtable" where
  "rel_audits = (rel_table tb_audit_logs tb_audit_logs_update alm_ID (\<lambda>now m. m) (\<lambda>_. True))
    \<lparr>tab_Create := \<lambda>m T. (Inr (), tb_audit_logs_update (\<lambda>rows. rows @ [m\<lparr>alm_ID := length rows + 1\<rparr>]) T)\<rparr>"

interpretation rel_tenants: gorm_table "\<lambda>T. T" "\<lambda>_. True" tb_tenants tb_tenants_update tnm_ID "\<lambda>now m. m\<lparr>tnm_UpdatedAt := now\<rparr>"
    "\<lambda>m. tnm_ID m \<noteq> [] \<and> tnm_Status m \<noteq> []" "\<lambda>rows. distinct (map tnm_Slug rows)" rel_tenants
  unfolding rel_tenants_def by (rule rel_table_laws) simp_all

interpretation rel_principal_rows: gorm_table "\<lambda>T. T" "\<lambda>_. True" tb_principals tb_principals_update pm_ID "\<lambda>now m. m\<lparr>pm_UpdatedAt := now\<rparr>"
    "\<lambda>m. pm_ID m \<noteq> [] \<and> pm_Status m \<noteq> []" "\<lambda>_. True" rel_principal_rows
  unfolding rel_principal_rows_def by (rule rel_table_laws) simp_all

interpretation rel_teams: gorm_table "\<lambda>T. T" "\<lambda>_. True" tb_teams tb_teams_update tem_ID "\<lambda>now m. m\<lparr>tem_UpdatedAt := now\<rparr>"
    "\<lambda>m. tem_ID m \<noteq> [] \<and> tem_Status m \<noteq> []" "\<lambda>_. True" rel_teams
  unfolding rel_teams_def by (rule rel_table_laws) simp_all

interpretation rel_links: gorm_table "\<lambda>T. T" "\<lambda>_. True" tb_principal_teams tb_principal_teams_update link_key "\<lambda>now m. m"
    "\<lambda>m. True" "\<lambda>_. True" rel_links
  unfolding rel_links_def by (rule rel_table_laws) simp_all

interpretation rel_grants: gorm_table "\<lambda>T. T" "\<lambda>_. True" tb_principal_roles tb_principal_roles_update grant_key "\<lambda>now m. m"
    "\<lambda>m. True" "\<lambda>_. True" rel_grants
  unfolding rel_grants_def by (rule rel_table_laws) simp_all

interpretation rel_accounts: gorm_table "\<lambda>T. T" "\<lambda>_. True" tb_service_accounts tb_service_accounts_update sam_ID "\<lambda>now m. m\<lparr>sam_UpdatedAt := now\<rparr>"
    "\<lambda>m. sam_ID m \<noteq> [] \<and> sam_Status m \<noteq> []" "\<lambda>_. True" rel_accounts
  unfolding rel_accounts_def by (rule rel_table_laws) simp_all

interpretation rel_states: gorm_table "\<lambda>T. T" "\<lambda>_. True" tb_oidc_login_states tb_oidc_login_states_update olm_State "\<lambda>now m. m"
    "\<lambda>m. olm_State m \<noteq> []" "\<lambda>_. True" rel_states
  unfolding rel_states_def by (rule rel_table_laws) simp_all

interpretation rel_codes: gorm_table "\<lambda>T. T" "\<lambda>_. True" tb_device_codes tb_device_codes_update dcm_DeviceCode "\<lambda>now m. m\<lparr>dcm_UpdatedAt := now\<rparr>"
    "\<lambda>m. dcm_DeviceCode m \<noteq> [] \<and> dcm_IntervalSec m \<noteq> 0" "\<lambda>rows. distinct (map dcm_UserCode rows)" rel_codes
  unfolding rel_codes_def by (rule rel_table_laws) simp_all

interpretation rel_keys: gorm_table "\<lambda>T. T" "\<lambda>_. True" tb_api_keys tb_api_keys_update akm_ID "\<lambda>now m. m"
    "\<lambda>m. akm_ID m \<noteq> [] \<and> akm_Status m \<noteq> []" "\<lambda>rows. distinct (map akm_KeyHash rows)" rel_keys
  unfolding rel_keys_def by (rule rel_table_laws) simp_all

interpretation rel_sessions: gorm_table "\<lambda>T. T" "\<lambda>_. True" tb_sessions tb_sessions_update sem_ID "\<lambda>now m. m\<lparr>sem_UpdatedAt := now\<rparr>"
    "\<lambda>m. sem_ID m \<noteq> []" "\<lambda>_. True" rel_sessions
  unfolding rel_sessions_def by (rule rel_table_laws) simp_all

interpretation rel_runs: gorm_table "\<lambda>T. T" "\<lambda>_. True" tb_agent_runs tb_agent_runs_update arm_ID "\<lambda>now m. m\<lparr>arm_UpdatedAt := now\<rparr>"
    "\<lambda>m. arm_ID m \<noteq> [] \<and> arm_Status m \<noteq> []" "\<lambda>_. True" rel_runs
  unfolding rel_runs_def by (rule rel_table_laws) simp_all

section \<open>The database\<close>

definition rel_Transaction :: "(Tables, 'a) op \<Rightarrow> (Tables, 'a) op" where
  "rel_Transaction body T = (case body T of (Inl e, _) \<Rightarrow> (Inl e, T) | (Inr r, T') \<Rightarrow> (Inr r, T'))"

definition relational_db :: "Tables gorm_DB" where
  "relational_db =
    \<lparr>db_tenants = rel_tenants, db_principals = rel_principal_rows, db_teams = rel_teams, db_principal_teams = rel_links,
     db_principal_roles = rel_grants, db_service_accounts = rel_accounts, db_oidc_login_states = rel_states,
     db_device_codes = rel_codes, db_api_keys = rel_keys, db_sessions = rel_sessions, db_agent_runs = rel_runs,
     db_audit_logs = rel_audits,
     db_JoinTeams = (\<lambda>P ord T. (Inr (map fst (sort_by ord (filter P (List.product (tb_teams T) (tb_principal_teams T))))), T)),
     db_Pluck = (\<lambda>P f ord T. (Inr (sort_by ord (remdups (map f (filter P (tb_principals T))))), T)),
     db_collate = (\<le>), db_Transaction = rel_Transaction, db_Now = (\<lambda>T. (Inr 0, T))\<rparr>"

definition relational_store :: "Tables GORMStore" where
  "relational_store = \<lparr>gs_db = relational_db\<rparr>"

definition empty_tables :: Tables where
  "empty_tables = \<lparr>tb_tenants = [], tb_principals = [], tb_teams = [], tb_principal_teams = [], tb_principal_roles = [],
     tb_service_accounts = [], tb_oidc_login_states = [], tb_device_codes = [], tb_api_keys = [], tb_sessions = [],
     tb_agent_runs = [], tb_audit_logs = []\<rparr>"

lemma distinct_sort_by [simp]: "distinct (sort_by ord xs) \<longleftrightarrow> distinct xs"
  using mset_sort_by [of ord xs] by (metis mset_eq_imp_distinct_iff)

lemma set_sort_by [simp]: "set (sort_by ord xs) = set xs"
  using mset_sort_by [of ord xs] by (metis set_mset_mset)

lemma relational_simps [simp]:
  "db_tenants (gs_db relational_store) = rel_tenants" "db_principals (gs_db relational_store) = rel_principal_rows"
  "db_teams (gs_db relational_store) = rel_teams" "db_principal_teams (gs_db relational_store) = rel_links"
  "db_principal_roles (gs_db relational_store) = rel_grants" "db_service_accounts (gs_db relational_store) = rel_accounts"
  "db_oidc_login_states (gs_db relational_store) = rel_states" "db_device_codes (gs_db relational_store) = rel_codes"
  "db_api_keys (gs_db relational_store) = rel_keys" "db_sessions (gs_db relational_store) = rel_sessions"
  "db_agent_runs (gs_db relational_store) = rel_runs" "db_audit_logs (gs_db relational_store) = rel_audits"
  "db_collate (gs_db relational_store) = (\<le>)" "db_Transaction (gs_db relational_store) = rel_Transaction"
  "db_Now (gs_db relational_store) = (\<lambda>T. (Inr 0, T))"
  by (simp_all add: relational_store_def relational_db_def)

interpretation reldb: gorm_database relational_store "\<lambda>T. T" "\<lambda>_. True"
proof (rule gorm_database.intro, unfold relational_simps)
  show "runs (\<lambda>T. T) (\<lambda>_. True) (tab_Create rel_audits m) d True
      (\<lambda>_ T. \<exists>n. T = tb_audit_logs_update (\<lambda>rows. rows @ [m\<lparr>alm_ID := n\<rparr>]) d)" for m d
    by (auto simp: runs_def rel_audits_def intro: exI [of _ "Suc (length (tb_audit_logs d))"])
  show "runs (\<lambda>T. T) (\<lambda>_. True) (tab_Find rel_audits Pl ordl limit) d True
      (\<lambda>r T. T = d \<and> answers Pl ordl limit (tb_audit_logs d) r)"
    if "total_order ordl" "\<And>n. limit = Some n \<Longrightarrow> n \<ge> 0" for Pl ordl limit d
    using that by (simp add: runs_def rel_audits_def rel_table_def page_answers)
  show "runs (\<lambda>T. T) (\<lambda>_. True) (db_Pluck (gs_db relational_store) Pp column collation) d True
      (\<lambda>r T. T = d \<and> distinct r \<and> set r = column ` {m \<in> set (tb_principals d). Pp m})" for Pp column collation d
    by (simp add: runs_def relational_store_def relational_db_def)
  show "runs (\<lambda>T. T) (\<lambda>_. True) (db_JoinTeams (gs_db relational_store) Pj ordj) d True
      (\<lambda>r T. T = d \<and> (\<exists>pairs. sorted_wrt ordj pairs \<and> r = map fst pairs
        \<and> mset pairs = filter_mset Pj (mset (List.product (tb_teams d) (tb_principal_teams d)))))" if "total_order ordj" for Pj ordj d
    using sorted_sort_by [OF that]
    by (auto simp: runs_def relational_store_def relational_db_def
        intro!: exI [of _ "sort_by ordj (filter Pj (List.product (tb_teams d) (tb_principal_teams d)))"])
  show "total_order ((\<le>) :: string \<Rightarrow> string \<Rightarrow> bool)" by (auto simp: total_order_def)
qed (rule rel_tenants.gorm_table_axioms rel_principal_rows.gorm_table_axioms rel_teams.gorm_table_axioms rel_links.gorm_table_axioms
      rel_grants.gorm_table_axioms rel_accounts.gorm_table_axioms rel_states.gorm_table_axioms rel_codes.gorm_table_axioms
      rel_keys.gorm_table_axioms rel_sessions.gorm_table_axioms rel_runs.gorm_table_axioms
    | force simp: rel_Transaction_def IsZero_def zero_time_def split: prod.splits sum.splits)+

interpretation rel_mem: gorm_simulation relational_store "\<lambda>T. T" "\<lambda>_. True" memory_store mem_wf mem_view reg
  for reg :: "string \<Rightarrow> Team"
  by unfold_locales

lemma related_empty:
  assumes "T = empty_tables"
  shows "related reg T (mem_view NewMemoryStore)"
  by (simp add: assms related_def rel_rows_def rel_principals_def row_at_def empty_tables_def mem_view_def NewMemoryStore_def)

end
