(* ===== verification/Warden_GORM_Properties.thy ===== *)
theory Warden_GORM_Properties
  imports Warden_GORM_Instance Warden_Directory Warden_Example
begin

text \<open>
  The two implementations of the store against each other: a call of the interface as a value, what it answers, and the
  equivalence of the store in a database with the in-memory store on sequences of calls.
\<close>

section \<open>Calls of the interface\<close>

datatype store_call =
    CallUpsertTenant Tenant | CallUpsertPrincipal Principal | CallUpdatePrincipalStatus string string
  | CallGetTenant string | CallGetPrincipal string | CallListPrincipalsByCasdoorUser string
  | CallPutOIDCLoginState OIDCLoginState | CallTakeOIDCLoginState string | CallTakeBoundOIDCLoginState string string
  | CallPutDeviceCode DeviceCode | CallGetDeviceCode string | CallGetDeviceCodeByUserCode string | CallUpdateDeviceCode DeviceCode
  | CallPutSession Session | CallGetSession string | CallUpdateSessionContext string string string string
  | CallDeleteSession string | CallDeleteSessionsByPrincipal string
  | CallPutServiceAccount ServiceAccount | CallListServiceAccounts string | CallDisableServiceAccount string string
  | CallPutAPIKey APIKey | CallGetAPIKeyByHash string | CallListAPIKeys string | CallRevokeAPIKey string string
  | CallTouchAPIKeyLastUsed string time | CallPutAgentRun AgentRun | CallAppendAudit AuditEvent
  | CallListDirectorySubjects string

datatype store_answer =
    Done | TheTenant Tenant | ThePrincipal Principal | ThePrincipals "Principal list" | TheLoginState OIDCLoginState
  | TheDeviceCode DeviceCode | TheSession Session | TheServiceAccounts "ServiceAccount list" | TheAPIKey APIKey
  | TheAPIKeys "APIKey list" | TheSubjects "string list"

definition answer :: "('a \<Rightarrow> store_answer) \<Rightarrow> ('s, 'a) op \<Rightarrow> ('s, store_answer) op" where
  "answer f m = bnd m (\<lambda>x. ret (f x))"

definition optional :: "('s, 'a) op option \<Rightarrow> ('s, 'a) op" where
  "optional m = (case m of None \<Rightarrow> fail ErrInvalidInput | Some m \<Rightarrow> m)"

fun run_call :: "'s Store \<Rightarrow> store_call \<Rightarrow> ('s, store_answer) op" where
  "run_call st (CallUpsertTenant t) = answer (\<lambda>_. Done) (store_UpsertTenant st t)"
| "run_call st (CallUpsertPrincipal p) = answer (\<lambda>_. Done) (store_UpsertPrincipal st p)"
| "run_call st (CallUpdatePrincipalStatus k status) = answer (\<lambda>_. Done) (store_UpdatePrincipalStatus st k status)"
| "run_call st (CallGetTenant k) = answer TheTenant (store_GetTenant st k)"
| "run_call st (CallGetPrincipal k) = answer ThePrincipal (store_GetPrincipal st k)"
| "run_call st (CallListPrincipalsByCasdoorUser u) = answer ThePrincipals (store_ListPrincipalsByCasdoorUser st u)"
| "run_call st (CallPutOIDCLoginState x) = answer (\<lambda>_. Done) (store_PutOIDCLoginState st x)"
| "run_call st (CallTakeOIDCLoginState k) = answer TheLoginState (store_TakeOIDCLoginState st k)"
| "run_call st (CallTakeBoundOIDCLoginState k h) =
     answer TheLoginState (optional (map_option (\<lambda>f. f k h) (store_TakeBoundOIDCLoginState st)))"
| "run_call st (CallPutDeviceCode c) = answer (\<lambda>_. Done) (store_PutDeviceCode st c)"
| "run_call st (CallGetDeviceCode k) = answer TheDeviceCode (store_GetDeviceCode st k)"
| "run_call st (CallGetDeviceCodeByUserCode u) = answer TheDeviceCode (store_GetDeviceCodeByUserCode st u)"
| "run_call st (CallUpdateDeviceCode c) = answer (\<lambda>_. Done) (store_UpdateDeviceCode st c)"
| "run_call st (CallPutSession x) = answer (\<lambda>_. Done) (store_PutSession st x)"
| "run_call st (CallGetSession k) = answer TheSession (store_GetSession st k)"
| "run_call st (CallUpdateSessionContext k p t team) = answer (\<lambda>_. Done) (store_UpdateSessionContext st k p t team)"
| "run_call st (CallDeleteSession k) = answer (\<lambda>_. Done) (store_DeleteSession st k)"
| "run_call st (CallDeleteSessionsByPrincipal k) = answer (\<lambda>_. Done) (store_DeleteSessionsByPrincipal st k)"
| "run_call st (CallPutServiceAccount a) = answer (\<lambda>_. Done) (store_PutServiceAccount st a)"
| "run_call st (CallListServiceAccounts t) = answer TheServiceAccounts (store_ListServiceAccounts st t)"
| "run_call st (CallDisableServiceAccount k t) = answer (\<lambda>_. Done) (store_DisableServiceAccount st k t)"
| "run_call st (CallPutAPIKey k) = answer (\<lambda>_. Done) (store_PutAPIKey st k)"
| "run_call st (CallGetAPIKeyByHash h) = answer TheAPIKey (store_GetAPIKeyByHash st h)"
| "run_call st (CallListAPIKeys p) = answer TheAPIKeys (store_ListAPIKeys st p)"
| "run_call st (CallRevokeAPIKey k p) = answer (\<lambda>_. Done) (store_RevokeAPIKey st k p)"
| "run_call st (CallTouchAPIKeyLastUsed k t) = answer (\<lambda>_. Done) (store_TouchAPIKeyLastUsed st k t)"
| "run_call st (CallPutAgentRun x) = answer (\<lambda>_. Done) (store_PutAgentRun st x)"
| "run_call st (CallAppendAudit e) = answer (\<lambda>_. Done) (store_AppendAudit st e)"
| "run_call st (CallListDirectorySubjects t) =
     answer TheSubjects (optional (map_option (\<lambda>f. f t) (store_ListDirectorySubjects st)))"

fun run_calls :: "'s Store \<Rightarrow> store_call list \<Rightarrow> 's \<Rightarrow> store_answer res list \<times> 's" where
  "run_calls st [] s = ([], s)"
| "run_calls st (c # cs) s = (let (r, s') = run_call st c s; (rs, s'') = run_calls st cs s' in (r # rs, s''))"

text \<open>Lists are compared without their order.\<close>

fun same_answer :: "store_answer \<Rightarrow> store_answer \<Rightarrow> bool" where
  "same_answer (ThePrincipal p) (ThePrincipal q) = same_principal p q"
| "same_answer (ThePrincipals ps) (ThePrincipals qs) = rel_set same_principal (set ps) (set qs)"
| "same_answer (TheServiceAccounts xs) (TheServiceAccounts ys) = (set xs = set ys)"
| "same_answer (TheAPIKeys xs) (TheAPIKeys ys) = (set xs = set ys)"
| "same_answer (TheSubjects xs) (TheSubjects ys) = (set xs = set ys \<and> distinct xs \<and> distinct ys)"
| "same_answer a b = (a = b)"

text \<open>
  The arguments that a database stores as they are: keys are given, a column with a default is not blank, times are given,
  unique columns stay unique, and a name that is trimmed needs no trimming.
\<close>

fun normal_call :: "(string \<Rightarrow> Team) \<Rightarrow> StoreView \<Rightarrow> store_call \<Rightarrow> bool" where
  "normal_call reg V (CallUpsertTenant t) = (ten_ID t \<noteq> [] \<and> TrimSpace (ten_Status t) \<noteq> []
     \<and> (\<forall>k t'. vw_tenants V k = Some t' \<longrightarrow> ten_Slug t' = ten_Slug t \<longrightarrow> k = ten_ID t))"
| "normal_call reg V (CallUpsertPrincipal p) = normal_principal reg p"
| "normal_call reg V (CallListPrincipalsByCasdoorUser u) = (TrimSpace u = u)"
| "normal_call reg V (CallPutOIDCLoginState x) = (oidc_State x \<noteq> [])"
| "normal_call reg V (CallPutDeviceCode c) = (dev_DeviceCode c \<noteq> [] \<and> dev_Interval c > 0
     \<and> interval_seconds (dev_Interval c) * Second = dev_Interval c \<and> TrimSpace (dev_Status c) \<noteq> [] \<and> \<not> IsZero (dev_CreatedAt c)
     \<and> (\<forall>k c'. vw_deviceCodes V k = Some c' \<longrightarrow> dev_UserCode c' = dev_UserCode c \<longrightarrow> k = dev_DeviceCode c))"
| "normal_call reg V (CallUpdateDeviceCode c) = (interval_seconds (dev_Interval c) * Second = dev_Interval c
     \<and> (\<forall>c'. vw_deviceCodes V (dev_DeviceCode c) = Some c' \<longrightarrow> dev_UserCode c' = dev_UserCode c \<and> dev_CreatedAt c' = dev_CreatedAt c))"
| "normal_call reg V (CallPutSession x) = (sess_ID x \<noteq> [])"
| "normal_call reg V (CallPutServiceAccount a) = (acc_ID a \<noteq> [] \<and> TrimSpace (acc_Status a) \<noteq> [] \<and> \<not> IsZero (acc_CreatedAt a))"
| "normal_call reg V (CallListServiceAccounts t) = (TrimSpace t = t)"
| "normal_call reg V (CallPutAPIKey k) = (key_ID k \<noteq> [] \<and> TrimSpace (key_Status k) \<noteq> [] \<and> \<not> IsZero (key_CreatedAt k)
     \<and> (\<forall>h k'. vw_apiKeys V h = Some k' \<longrightarrow> (key_ID k' = key_ID k \<longleftrightarrow> h = key_KeyHash k)))"
| "normal_call reg V (CallTouchAPIKeyLastUsed k t) = (\<not> IsZero t)"
| "normal_call reg V (CallPutAgentRun x) = (run_ID x \<noteq> [] \<and> TrimSpace (run_Status x) \<noteq> [] \<and> \<not> IsZero (run_CreatedAt x))"
| "normal_call reg V (CallAppendAudit e) = (\<not> IsZero (ev_CreatedAt e))"
| "normal_call reg V (CallListDirectorySubjects t) = (TrimSpace t \<noteq> [])"
| "normal_call reg V c = True"

text \<open>Along the calls, as the in-memory store answers them.\<close>

fun normal_calls :: "(string \<Rightarrow> Team) \<Rightarrow> store_call list \<Rightarrow> MemoryStore \<Rightarrow> bool" where
  "normal_calls reg [] s \<longleftrightarrow> True"
| "normal_calls reg (c # cs) s \<longleftrightarrow> normal_call reg (mem_view s) c \<and> normal_calls reg cs (snd (run_call memory_store c s))"

section \<open>Equivalence\<close>

lemma sim_answer:
  assumes "sim R m m' d s A" and "\<And>x y. A x y \<Longrightarrow> same_answer (f x) (f y)"
  shows "sim R (answer f m) (answer f m') d s same_answer"
proof -
  obtain r e where m: "m d = (r, e)" by (cases "m d")
  obtain r' s' where m': "m' s = (r', s')" by (cases "m' s")
  from assms m m' show ?thesis
    by (cases r; cases r') (auto simp: sim_def answer_def bnd_def ret_def)
qed

lemma same_answer_refl [simp]: "same_answer Done Done" "same_answer (TheTenant t) (TheTenant t)"
  "same_answer (TheLoginState x) (TheLoginState x)" "same_answer (TheDeviceCode c) (TheDeviceCode c)"
  "same_answer (TheSession y) (TheSession y)" "same_answer (TheAPIKey k) (TheAPIKey k)"
  by simp_all

context gorm_simulation
begin

lemma sim_call:
  assumes "R d s" and "normal_call reg (view s) c"
    and "store_TakeBoundOIDCLoginState st \<noteq> None" and "store_ListDirectorySubjects st \<noteq> None"
  shows "sim R (run_call (gorm_store gs) c) (run_call st c) d s same_answer"
proof (cases c)
  case (CallTakeBoundOIDCLoginState k h)
  with assms sim_TakeBoundOIDCLoginState [OF assms(1)] show ?thesis
    by (auto simp: gorm_store_def optional_def intro!: sim_answer [where A = "(=)"])
next
  case (CallListDirectorySubjects t)
  with assms sim_ListDirectorySubjects [OF assms(1)] show ?thesis
    by (auto simp: gorm_store_def optional_def intro!: sim_answer)
qed (use assms(2) in \<open>auto simp: gorm_store_def intro!: sim_answer [OF sim_GetPrincipal [OF assms(1)]]
    sim_answer [OF sim_UpsertTenant [OF assms(1)]] sim_answer [OF sim_UpsertPrincipal [OF assms(1)]]
    sim_answer [OF sim_UpdatePrincipalStatus [OF assms(1)]] sim_answer [OF sim_GetTenant [OF assms(1)]]
    sim_answer [OF sim_ListPrincipalsByCasdoorUser [OF assms(1)]] sim_answer [OF sim_PutOIDCLoginState [OF assms(1)]]
    sim_answer [OF sim_TakeOIDCLoginState [OF assms(1)]] sim_answer [OF sim_PutDeviceCode [OF assms(1)]]
    sim_answer [OF sim_GetDeviceCode [OF assms(1)]] sim_answer [OF sim_GetDeviceCodeByUserCode [OF assms(1)]]
    sim_answer [OF sim_UpdateDeviceCode [OF assms(1)]] sim_answer [OF sim_PutSession [OF assms(1)]]
    sim_answer [OF sim_GetSession [OF assms(1)]] sim_answer [OF sim_UpdateSessionContext [OF assms(1)]]
    sim_answer [OF sim_DeleteSession [OF assms(1)]] sim_answer [OF sim_DeleteSessionsByPrincipal [OF assms(1)]]
    sim_answer [OF sim_PutServiceAccount [OF assms(1)]] sim_answer [OF sim_ListServiceAccounts [OF assms(1)]]
    sim_answer [OF sim_DisableServiceAccount [OF assms(1)]] sim_answer [OF sim_PutAPIKey [OF assms(1)]]
    sim_answer [OF sim_GetAPIKeyByHash [OF assms(1)]] sim_answer [OF sim_ListAPIKeys [OF assms(1)]]
    sim_answer [OF sim_RevokeAPIKey [OF assms(1)]] sim_answer [OF sim_TouchAPIKeyLastUsed [OF assms(1)]]
    sim_answer [OF sim_PutAgentRun [OF assms(1)]] sim_answer [OF sim_AppendAudit [OF assms(1)]]\<close>)

end

lemma run_calls_related:
  assumes "gorm_simulation gs content up memory_store mem_wf mem_view"
    and "sim_rel (related reg) content up mem_wf mem_view d s" and "normal_calls reg calls s"
  shows "list_all2 (rel_sum (=) same_answer) (fst (run_calls (gorm_store gs) calls d)) (fst (run_calls memory_store calls s))"
  using assms(2,3)
proof (induction calls arbitrary: d s)
  case (Cons c calls)
  have "sim (sim_rel (related reg) content up mem_wf mem_view) (run_call (gorm_store gs) c) (run_call memory_store c) d s same_answer"
    by (rule gorm_simulation.sim_call [OF assms(1) Cons.prems(1)]) (use Cons.prems(2) in \<open>simp_all add: memory_store_def\<close>)
  then have c: "rel_sum (=) same_answer (fst (run_call (gorm_store gs) c d)) (fst (run_call memory_store c s))"
    "sim_rel (related reg) content up mem_wf mem_view (snd (run_call (gorm_store gs) c d)) (snd (run_call memory_store c s))"
    by (simp_all add: sim_def)
  from Cons.IH [OF c(2)] Cons.prems(2) c(1) show ?case by (simp add: case_prod_unfold Let_def)
qed simp

lemma memory_simulation:
  assumes "gorm_database gs content up"
  shows "gorm_simulation gs content up memory_store mem_wf mem_view"
  by (intro gorm_simulation.intro assms mem_cred.credential_store_axioms mem_login.login_store_axioms
      mem_directory.directory_store_axioms)

text \<open>C31: The two stores cannot be told apart. On a database that satisfies the laws of GORM, is up and starts empty, every sequence
  of calls of the store interface whose arguments a database keeps unchanged is answered by the store in the database as it is by
  the in-memory store: the same errors, the same rows, the same lists up to their order. The in-memory store, over which the
  properties of the service are proved, therefore stands for both.\<close>

theorem stores_equivalent:
  assumes "gorm_database gs content up" and "up d" and "content d = empty_tables" and "normal_calls reg calls NewMemoryStore"
  shows "list_all2 (rel_sum (=) same_answer) (fst (run_calls (gorm_store gs) calls d))
    (fst (run_calls memory_store calls NewMemoryStore))"
  by (rule run_calls_related [OF memory_simulation [OF assms(1)] _ assms(4)])
    (simp add: sim_rel_def assms(2) related_empty [OF assms(3)])

text \<open>A user of two teams who signs in; another browser is refused.\<close>

definition two_teams :: "string \<Rightarrow> Team" where
  "two_teams k = \<lparr>team_ID = k, team_TenantID = ''t1'', team_CasdoorGroupID = [], team_Name = k, team_DisplayName = [],
     team_ParentTeamID = [], team_Status = ''active''\<rparr>"

definition team_user :: Principal where
  "team_user = \<lparr>p_ID = ''u1'', p_TenantID = ''t1'', p_CasdoorUserID = ''c1'', p_Username = ''ann'', p_Email = [], p_DisplayName = [],
     p_Type = ''user'', p_Status = ''active'', p_EmailVerified = True,
     p_Roles = [\<lparr>role_Key = ''admin'', role_ScopeType = ''tenant'', role_ScopeID = ''t1''\<rparr>],
     p_Teams = [two_teams ''ops'', two_teams ''dev'']\<rparr>"

definition login_state :: OIDCLoginState where
  "login_state = \<lparr>oidc_State = ''s'', oidc_BrowserBinding = ''b'', oidc_Nonce = ''n'', oidc_CodeVerifier = ''v'',
     oidc_RedirectURL = ''/'', oidc_ExpiresAt = 5\<rparr>"

definition some_calls :: "store_call list" where
  "some_calls = [CallUpsertPrincipal team_user, CallGetPrincipal ''u1'', CallPutOIDCLoginState login_state,
     CallTakeBoundOIDCLoginState ''s'' ''x'', CallTakeBoundOIDCLoginState ''s'' ''b'', CallTakeBoundOIDCLoginState ''s'' ''b'',
     CallDisableServiceAccount ''u1'' ''t1'', CallUpdatePrincipalStatus ''u1'' ''disabled'', CallListDirectorySubjects ''t1'']"

lemma some_calls_normal: "normal_calls two_teams some_calls NewMemoryStore"
  by (simp add: some_calls_def normal_principal_def team_user_def two_teams_def login_state_def) code_simp

lemma stores_equivalent_witness:
  "list_all2 (rel_sum (=) same_answer) (fst (run_calls (gorm_store relational_store) some_calls empty_tables))
    (fst (run_calls memory_store some_calls NewMemoryStore))"
  by (rule stores_equivalent [OF reldb.gorm_database_axioms TrueI refl some_calls_normal])

text \<open>The scopes of an API key survive their column, when the JSON codec gives back what it was given.\<close>

lemma scopes_column_round_trip:
  assumes "marshal scopes = Inr b" and "unmarshal b = Inr (Some scopes)" and "b \<noteq> []"
  shows "stringList_Value marshal (Some scopes) = Inr (SqlString b)" "stringList_Scan unmarshal (SqlString b) = Inr (Some scopes)"
    "stringList_Scan unmarshal (SqlBytes b) = Inr (Some scopes)"
  using assms by (simp_all add: stringList_Value_def stringList_Scan_def Let_def)

section \<open>Failed transactions\<close>

lemma isl_bnd: "(\<And>a s'. isl (fst (f a s'))) \<Longrightarrow> isl (fst (bnd m f s))"
  by (cases "fst (m s)") (auto simp: op_simps)

lemma isl_bnd_first: "isl (fst (m s)) \<Longrightarrow> isl (fst (bnd m f s))"
  by (cases "fst (m s)") (auto simp: op_simps)

lemma isl_on_err: "(\<And>e s'. isl (fst (h e s'))) \<Longrightarrow> (\<And>a s'. isl (fst (f a s'))) \<Longrightarrow> isl (fst (on_err m h f s))"
  by (cases "fst (m s)") (auto simp: op_simps)

context gorm_database
begin

lemma transaction_refused:
  assumes "fst (db_Transaction (gs_db gs) body d) = Inl e"
  shows "content (snd (db_Transaction (gs_db gs) body d)) = content d"
  using assms transaction [of d body] by (auto dest: sym [of "Inl e"])

lemma upsert_refused:
  assumes "fst (gorm_UpsertPrincipal gs p d) = Inl e"
  shows "content (snd (gorm_UpsertPrincipal gs p d)) = content d"
proof -
  obtain t d1 where n: "db_Now (gs_db gs) d = (Inr t, d1)" "content d1 = content d" using now [of d] by blast
  obtain body where b: "gorm_UpsertPrincipal gs p d = bnd (db_Transaction (gs_db gs) body) (\<lambda>_. ret ()) d1"
    by (simp add: gorm_UpsertPrincipal_def Let_def op_simps n(1))
  show ?thesis
  proof (cases "fst (db_Transaction (gs_db gs) body d1)")
    case (Inl e')
    with transaction_refused [OF Inl] n(2) show ?thesis by (simp add: b op_simps)
  next
    case (Inr r)
    with assms show ?thesis by (simp add: b op_simps)
  qed
qed

text \<open>A link that exists already, or that is made twice.\<close>

lemma save_teams_conflict:
  assumes "\<not> distinct (map team_ID (filter (\<lambda>t. TrimSpace (team_ID t) \<noteq> []) (map snd its)))
      \<or> (\<exists>t \<in> set (filter (\<lambda>t. TrimSpace (team_ID t) \<noteq> []) (map snd its)). (p_ID p, team_ID t) \<in> link_key ` set (tb_principal_teams (content d)))"
  shows "isl (fst (for_each (save_team (gs_db gs) p now) its d))"
  using assms
proof (induction its arbitrary: d)
  case (Cons it its)
  obtain i t where it: "it = (i, t)" by (cases it)
  show ?case
  proof (cases "TrimSpace (team_ID t) = []")
    case True
    with Cons.IH [of d] Cons.prems show ?thesis
      by (cases "fst (for_each (save_team (gs_db gs) p now) its d)") (auto simp: it save_team_def op_simps)
  next
    case False
    let ?m = "team_model (p_TenantID p) now t"
    let ?l = "\<lparr>ptm_PrincipalID = p_ID p, ptm_TeamID = team_ID t, ptm_IsPrimary = (i = 0), ptm_CreatedAt = now\<rparr>"
    have m: "tem_ID ?m \<noteq> [] \<and> tem_Status ?m \<noteq> []"
      using TrimSpace_nonempty [OF False] TrimSpace_nonempty [of "team_Status t"] by (auto simp: team_model_def defaultString_def)
    from tab_teams.Save [OF m, of d] show ?thesis
    proof (cases rule: runs_cases)
      case (failed e)
      with False show ?thesis by (simp add: it save_team_def op_simps)
    next
      case (ran u)
      obtain d1 where d1: "tab_Save (db_teams (gs_db gs)) ?m d = (Inr (), d1)"
        using ran(1) by (cases "tab_Save (db_teams (gs_db gs)) ?m d") auto
      have links: "tb_principal_teams (content d1) = tb_principal_teams (content d)" using ran(3) d1 by auto
      from tab_principal_teams.Create [OF TrueI, of ?l d1] show ?thesis
      proof (cases rule: runs_cases)
        case (failed e)
        with False d1 show ?thesis by (simp add: it save_team_def op_simps)
      next
        case (ran u')
        obtain d2 where d2: "tab_Create (db_principal_teams (gs_db gs)) ?l d1 = (Inr (), d2)"
          using ran(1) by (cases "tab_Create (db_principal_teams (gs_db gs)) ?l d1") auto
        have "tb_principal_teams (content d2) = tb_principal_teams (content d) @ [?l]" "link_key ?l \<notin> link_key ` set (tb_principal_teams (content d))"
          using ran(2,3) d2 links by simp_all
        then have "isl (fst (for_each (save_team (gs_db gs) p now) its d2))"
          by (intro Cons.IH) (use Cons.prems False in \<open>auto simp: it\<close>)
        then obtain e where "fst (for_each (save_team (gs_db gs) p now) its d2) = Inl e" by (auto simp: isl_def)
        then show ?thesis using False d1 d2 by (simp add: it save_team_def op_simps)
      qed
    qed
  qed
qed simp

lemma upsert_repeated_team:
  assumes "\<not> distinct (map team_ID (filter (\<lambda>t. TrimSpace (team_ID t) \<noteq> []) (p_Teams p)))"
  shows "isl (fst (gorm_UpsertPrincipal gs p d))"
proof -
  have teams: "isl (fst (for_each (save_team (gs_db gs) p now) (enumerate 0 (p_Teams p)) d))" for now d
    by (rule save_teams_conflict) (use assms in simp)
  obtain now d1 where n: "db_Now (gs_db gs) d = (Inr now, d1)" using now [of d] by blast
  obtain body where run: "gorm_UpsertPrincipal gs p d = bnd (db_Transaction (gs_db gs) body) (\<lambda>_. ret ()) d1"
    and body: "\<And>d. isl (fst (body d))"
  proof (rule that)
    show "gorm_UpsertPrincipal gs p d = bnd (db_Transaction (gs_db gs)
      (bnd (wrapped ''upsert principal'' (tab_Save (db_principals (gs_db gs)) (principal_model p now))) (\<lambda>_.
      bnd (wrapped ''replace principal roles'' (tab_Delete (db_principal_roles (gs_db gs)) (\<lambda>m. prm_PrincipalID m = p_ID p))) (\<lambda>_.
      bnd (for_each (create_role (gs_db gs) (p_ID p) now) (p_Roles p)) (\<lambda>_.
      bnd (wrapped ''replace principal teams'' (tab_Delete (db_principal_teams (gs_db gs)) (\<lambda>m. ptm_PrincipalID m = p_ID p))) (\<lambda>_.
      bnd (for_each (save_team (gs_db gs) p now) (enumerate 0 (p_Teams p))) (\<lambda>_. ret None))))))) (\<lambda>_. ret ()) d1"
      by (simp add: gorm_UpsertPrincipal_def Let_def op_simps n)
  qed (intro isl_bnd isl_bnd_first teams)
  have "isl (fst (db_Transaction (gs_db gs) body d1))" using transaction [of d1 body] body by (auto simp: isl_def)
  then show ?thesis by (auto simp: run op_simps isl_def)
qed

end

lemma listed_rows:
  assumes "runs content up m d True (\<lambda>r T. T = content d \<and> Q r)"
    and "fst (bnd (wrapped msg m) (\<lambda>ms. ret (map conv ms)) d) = Inr xs"
  shows "\<exists>rows. xs = map conv rows \<and> Q rows"
  using assms by (cases "fst (m d)") (auto simp: runs_def op_simps wrapped_def)

lemma list_limit_bounds: "0 < list_limit n" "list_limit n \<le> 500"
  by (simp_all add: list_limit_def)

lemma total_newest: "total_order (newest_first f)"
  by (auto simp: total_order_def newest_first_def)

text \<open>What a list of the administration interface may answer: \<open>r\<close> of the rows \<open>stored\<close> that satisfy \<open>P\<close>.\<close>

definition newest_rows :: "('m \<Rightarrow> time) \<Rightarrow> ('m \<Rightarrow> bool) \<Rightarrow> int \<Rightarrow> 'm list \<Rightarrow> 'm list \<Rightarrow> bool" where
  "newest_rows created P limit stored r \<longleftrightarrow> length r \<le> 500 \<and> (0 < limit \<and> limit \<le> 500 \<longrightarrow> int (length r) \<le> limit)
     \<and> sorted_wrt (\<lambda>a b. created b \<le> created a) r \<and> mset r \<subseteq># mset (filter P stored)
     \<and> (\<forall>y \<in># mset (filter P stored) - mset r.
         int (length r) = (if 0 < limit \<and> limit \<le> 500 then limit else 100) \<and> (\<forall>x \<in> set r. created y \<le> created x))"

lemma answers_newest: "answers P (newest_first f) (Some (list_limit n)) rows r \<Longrightarrow> newest_rows f P n rows r"
proof -
  assume "answers P (newest_first f) (Some (list_limit n)) rows r"
  then obtain rest where a: "sorted_wrt (newest_first f) r" "int (length r) \<le> list_limit n" "mset r + mset rest = mset (filter P rows)"
      "\<forall>y \<in> set rest. int (length r) = list_limit n \<and> (\<forall>x \<in> set r. newest_first f x y)"
    by (auto simp: answers_def)
  have "mset (filter P rows) - mset r = mset rest" using a(3) by (metis add_diff_cancel_left')
  moreover have "mset r \<subseteq># mset (filter P rows)" using a(3) by (metis mset_subset_eq_add_left)
  moreover have "sorted_wrt (\<lambda>a b. f b \<le> f a) r" using a(1) by (simp add: newest_first_def [abs_def])
  ultimately show "newest_rows f P n rows r" using a(2,4) list_limit_bounds(2) [of n]
    by (auto simp: newest_rows_def newest_first_def list_limit_def split: if_splits)
qed

lemma newest_listed:
  assumes "total_order (newest_first f) \<Longrightarrow> (\<And>k. Some (list_limit n) = Some k \<Longrightarrow> k \<ge> 0) \<Longrightarrow>
      runs content up m d True (\<lambda>r T. T = content d \<and> answers P (newest_first f) (Some (list_limit n)) stored r)"
    and "fst (bnd (wrapped msg m) (\<lambda>ms. ret (map conv ms)) d) = Inr xs"
  shows "\<exists>rows. xs = map conv rows \<and> newest_rows f P n stored rows"
proof -
  have "runs content up m d True (\<lambda>r T. T = content d \<and> answers P (newest_first f) (Some (list_limit n)) stored r)"
    by (rule assms(1) [OF total_newest]) (use list_limit_bounds(1) [of n] in simp)
  from listed_rows [OF this assms(2)] show ?thesis using answers_newest by blast
qed

context gorm_database
begin

lemmas newest_lists = newest_listed [OF tab_tenants.Find] newest_listed [OF tab_principals.Find] newest_listed [OF tab_sessions.Find]
  newest_listed [OF tab_agent_runs.Find] newest_listed [OF audit_find]

lemma lists_newest:
  "fst (gorm_ListTenants gs limit d) = Inr ts \<Longrightarrow>
    \<exists>rows. ts = map tenantFromModel rows \<and> newest_rows tnm_CreatedAt (\<lambda>_. True) limit (tb_tenants (content d)) rows"
  "fst (gorm_ListPrincipals gs tid limit d) = Inr ps \<Longrightarrow> \<exists>rows. ps = map (\<lambda>m. principalFromModels m [] []) rows
    \<and> newest_rows pm_CreatedAt (of_tenant pm_TenantID tid) limit (tb_principals (content d)) rows"
  "fst (gorm_ListSessions gs tid limit d) = Inr xs \<Longrightarrow> \<exists>rows. xs = map sessionFromGORMModel rows
    \<and> newest_rows sem_CreatedAt (of_tenant sem_TenantID tid) limit (tb_sessions (content d)) rows"
  "fst (gorm_ListAgentRuns gs tid limit d) = Inr rs \<Longrightarrow> \<exists>rows. rs = map agentRunFromModel rows
    \<and> newest_rows arm_CreatedAt (of_tenant arm_TenantID tid) limit (tb_agent_runs (content d)) rows"
  "fst (gorm_ListAuditEvents gs tid limit d) = Inr es \<Longrightarrow> \<exists>rows. es = map auditFromModel rows
    \<and> newest_rows alm_CreatedAt (of_tenant alm_TenantID tid) limit (tb_audit_logs (content d)) rows"
  unfolding gorm_ListTenants_def gorm_ListPrincipals_def gorm_ListSessions_def gorm_ListAgentRuns_def gorm_ListAuditEvents_def
  by (rule newest_lists, assumption+)+

end

text \<open>C32: The lists of the administration interface are bounded, complete and ordered. Whatever limit is asked for, an answer has at
  most 500 rows, and at most the limit when it is between 1 and 500; all are rows of the tenant that is asked for (of any tenant when
  none is), the newest first; and a row is only left out when the answer is full (the limit, or a hundred rows when the limit is out
  of range) and every row of the answer is at least as new.\<close>

theorem gorm_lists_newest:
  assumes "gorm_database gs content up"
  shows "(\<forall>xs. fst (gorm_ListTenants gs limit d) = Inr xs \<longrightarrow> (\<exists>rows. xs = map tenantFromModel rows
      \<and> newest_rows tnm_CreatedAt (\<lambda>_. True) limit (tb_tenants (content d)) rows))
    \<and> (\<forall>xs. fst (gorm_ListPrincipals gs tid limit d) = Inr xs \<longrightarrow> (\<exists>rows. xs = map (\<lambda>m. principalFromModels m [] []) rows
      \<and> newest_rows pm_CreatedAt (of_tenant pm_TenantID tid) limit (tb_principals (content d)) rows))
    \<and> (\<forall>xs. fst (gorm_ListSessions gs tid limit d) = Inr xs \<longrightarrow> (\<exists>rows. xs = map sessionFromGORMModel rows
      \<and> newest_rows sem_CreatedAt (of_tenant sem_TenantID tid) limit (tb_sessions (content d)) rows))
    \<and> (\<forall>xs. fst (gorm_ListAgentRuns gs tid limit d) = Inr xs \<longrightarrow> (\<exists>rows. xs = map agentRunFromModel rows
      \<and> newest_rows arm_CreatedAt (of_tenant arm_TenantID tid) limit (tb_agent_runs (content d)) rows))
    \<and> (\<forall>xs. fst (gorm_ListAuditEvents gs tid limit d) = Inr xs \<longrightarrow> (\<exists>rows. xs = map auditFromModel rows
      \<and> newest_rows alm_CreatedAt (of_tenant alm_TenantID tid) limit (tb_audit_logs (content d)) rows))"
  using gorm_database.lists_newest [OF assms] by (intro conjI allI impI)

text \<open>Three sessions of two tenants, the second of which is in no answer.\<close>

definition session_row :: "string \<Rightarrow> string \<Rightarrow> time \<Rightarrow> sessionModel" where
  "session_row k tid t = \<lparr>sem_ID = k, sem_PrincipalID = ''p'', sem_TenantID = tid, sem_CurrentTeamID = [], sem_AuthTime = t,
     sem_ExpiresAt = None, sem_Source = ''oidc'', sem_UserAgentHash = [], sem_CreatedAt = t, sem_UpdatedAt = t\<rparr>"

definition three_sessions :: Tables where
  "three_sessions = empty_tables\<lparr>tb_sessions := [session_row ''a'' ''t1'' 3, session_row ''b'' ''t2'' 9, session_row ''c'' ''t1'' 5]\<rparr>"

lemma listed_session: "fst (gorm_ListSessions relational_store '' t1 '' 1 three_sessions) = Inr [sessionFromGORMModel (session_row ''c'' ''t1'' 5)]"
proof -
  have "TrimSpace '' t1 '' = ''t1''" by code_simp
  then show ?thesis
    by (simp add: gorm_ListSessions_def rel_sessions_def rel_table_def op_simps three_sessions_def session_row_def list_limit_def
        of_tenant_def page_of_def sort_by_def newest_first_def)
qed

lemma gorm_lists_newest_witness:
  "fst (gorm_ListSessions relational_store '' t1 '' 1 three_sessions) = Inr [sessionFromGORMModel (session_row ''c'' ''t1'' 5)]
    \<and> (\<exists>rows. [sessionFromGORMModel (session_row ''c'' ''t1'' 5)] = map sessionFromGORMModel rows
      \<and> newest_rows sem_CreatedAt (of_tenant sem_TenantID '' t1 '') 1 (tb_sessions three_sessions) rows)"
  using gorm_lists_newest [OF reldb.gorm_database_axioms, of 1 three_sessions "'' t1 ''"] listed_session by blast


lemma same_team_refused:
  "isl (fst (gorm_UpsertPrincipal relational_store (team_user\<lparr>p_Teams := [two_teams ''ops'', two_teams ''ops'']\<rparr>) empty_tables))"
proof (rule reldb.upsert_repeated_team)
  have "TrimSpace ''ops'' = ''ops''" by code_simp
  then show "\<not> distinct (map team_ID (filter (\<lambda>t. TrimSpace (team_ID t) \<noteq> []) (p_Teams (team_user\<lparr>p_Teams := [two_teams ''ops'', two_teams ''ops'']\<rparr>))))"
    by (simp add: two_teams_def)
qed


lemma distinct_map_finer: "distinct (map f xs) \<Longrightarrow> (\<And>x y. g x = g y \<Longrightarrow> f x = f y) \<Longrightarrow> distinct (map g xs)"
  unfolding distinct_map inj_on_def by blast

text \<open>C34: A user whose answer from the directory names a group twice is never synchronised when the store is a database: the link
  between a principal and a team is a primary key, the second one is refused, and with it the principal. The in-memory store accepts
  the same principal.\<close>

theorem repeated_group_never_synced:
  assumes "gorm_database gs content up"
    and "\<not> distinct (map (\<lambda>g. TrimSpace (cg_ID g)) (filter (\<lambda>g. TrimSpace (cg_ID g) \<noteq> []) (snap_Groups snapshot)))"
  shows "(\<exists>e. fst (SyncDirectorySnapshot (gorm_store gs) svc snapshot w) = Inl e) \<and> fst (mem_UpsertPrincipal (directory_principal tid snapshot) s) = Inr ()"
proof -
  have team: "TrimSpace (StableProjectionID ''team'' xs) \<noteq> []" for xs
    using not_blank [of "CHR ''t''" "StableProjectionID ''team'' xs"]
    by (simp add: blank_def StableProjectionID_def Let_def space_bytes_def space_runes_def)
  have same: "StableProjectionID ''team'' [tid, x] = StableProjectionID ''team'' [tid, y]" if "TrimSpace x = TrimSpace y" for tid x y
    using that by (simp add: StableProjectionID_def)
  have "\<not> distinct (map team_ID (filter (\<lambda>t. TrimSpace (team_ID t) \<noteq> []) (p_Teams (directory_principal tid snapshot))))" for tid
  proof
    assume "distinct (map team_ID (filter (\<lambda>t. TrimSpace (team_ID t) \<noteq> []) (p_Teams (directory_principal tid snapshot))))"
    then have "distinct (map (\<lambda>g. StableProjectionID ''team'' [tid, cg_ID g]) (filter (\<lambda>g. TrimSpace (cg_ID g) \<noteq> []) (snap_Groups snapshot)))"
      by (simp add: directory_principal_def Let_def directoryTeams_def team filter_map comp_def)
    then have "distinct (map (\<lambda>g. TrimSpace (cg_ID g)) (filter (\<lambda>g. TrimSpace (cg_ID g) \<noteq> []) (snap_Groups snapshot)))"
      by (rule distinct_map_finer) (rule same)
    with assms(2) show False by simp
  qed
  then have upsert: "isl (fst (gorm_UpsertPrincipal gs ((directory_principal tid snapshot)\<lparr>p_Status := x\<rparr>) d))" for tid x d
    by (intro gorm_database.upsert_repeated_team [OF assms(1)]) simp
  have sync: "isl (fst (sync_principal (gorm_store gs) svc (directory_principal tid snapshot) dis ex w))" for tid dis ex w
    unfolding sync_principal_def Let_def
    by (intro isl_bnd isl_bnd_first) (simp add: on_store_def gorm_store_def upsert)
  have tenant: "isl (fst (sync_in_tenant (gorm_store gs) svc snapshot t w))" for t w
    unfolding sync_in_tenant_def Let_def by (intro isl_bnd isl_on_err) (simp_all add: sync op_simps)
  have "isl (fst (SyncDirectorySnapshot (gorm_store gs) svc snapshot w))"
    unfolding SyncDirectorySnapshot_def Let_def
    by (simp add: op_simps) (intro impI isl_on_err; simp add: tenant op_simps)
  then show ?thesis by (auto simp: isl_def mem_UpsertPrincipal_def)
qed

definition ops_twice :: CasdoorDirectorySnapshot where
  "ops_twice = \<lparr>snap_Tenant = ex_tenant,
     snap_User = \<lparr>cu_ID = ''u9'', cu_Username = ''ann'', cu_Email = [], cu_DisplayName = [], cu_EmailVerified = True, cu_Disabled = False\<rparr>,
     snap_Groups = [\<lparr>cg_ID = ''org1/ops'', cg_Name = ''ops'', cg_DisplayName = [], cg_ParentGroupID = []\<rparr>,
       \<lparr>cg_ID = ''org1/ops'', cg_Name = ''ops'', cg_DisplayName = [], cg_ParentGroupID = []\<rparr>],
     snap_Roles = []\<rparr>"

lemma repeated_group_never_synced_witness:
  "\<exists>e. fst (SyncDirectorySnapshot (gorm_store relational_store) ex_svc ops_twice
    \<lparr>w_store = empty_tables, w_policy = DefaultPolicy, w_policyVersion = [], w_registrationPolicy = ''open'', w_notifier = False,
     w_notified = [], w_mails = [], w_oidcClient = None, w_oidcRetryAfter = zero_time, w_clock = 0, w_draws = 0, w_lookups = 0,
     w_oidcCalls = 0\<rparr>) = Inl e"
proof -
  have "TrimSpace ''org1/ops'' = ''org1/ops''" by code_simp
  then show ?thesis
    by (intro repeated_group_never_synced [OF reldb.gorm_database_axioms, THEN conjunct1]) (simp add: ops_twice_def)
qed

end
