(* ===== verification/Warden_GORM_Open.thy ===== *)
theory Warden_GORM_Open
  imports Warden_GORM_Instance Go_HTTP
begin

text \<open>
  Opening the database of the store (\<open>OpenGORMStore\<close> in \<open>src/warden/gorm_store.go\<close>). What the drivers, the file system and the
  connection pool answer is the parameter \<open>gorm_env\<close>; the state is the list of the calls made to them.
\<close>

section \<open>The calls\<close>

datatype dialector = SqliteOpen string | PostgresOpen string

datatype db_call =
    MkdirAll string | OpenDB dialector | SetMaxOpenConns int | SetMaxIdleConns int | SetConnMaxLifetime duration
  | PingContext | AutoMigrate "string list" | CloseDB

record 'd gorm_env =
  env_MkdirAll :: "string \<Rightarrow> unit res"
  env_Open :: "dialector \<Rightarrow> 'd gorm_DB res"
  env_DB :: "unit res"
  env_Ping :: "unit res"
  env_AutoMigrate :: "unit res"
  env_Close :: "unit res"

definition call :: "db_call \<Rightarrow> 'a res \<Rightarrow> (db_call list, 'a) op" where
  "call c r calls = (r, calls @ [c])"

text \<open>\<open>TableName\<close> of the twelve models\<close>

definition table_names :: "string list" where
  "table_names = [''tenants'', ''principals'', ''teams'', ''principal_teams'', ''principal_roles'', ''service_accounts'',
     ''oidc_login_states'', ''device_codes'', ''api_keys'', ''sessions'', ''agent_runs'', ''audit_logs'']"

section \<open>Opening\<close>

definition filepath_Dir :: "string \<Rightarrow> string" where
  "filepath_Dir path = path_Clean (path_dir path)"

definition ensureWardenSQLiteDir :: "'d gorm_env \<Rightarrow> string \<Rightarrow> (db_call list, unit) op" where
  "ensureWardenSQLiteDir env path =
    (let dbPath = takeWhile (\<lambda>c. c \<noteq> CHR ''?'') path in
     if dbPath = [] \<or> dbPath = '':memory:'' \<or> HasPrefix dbPath ''file:'' then ret ()
     else let dir = filepath_Dir dbPath in
       if dir = ''.'' \<or> dir = [] then ret ()
       else wrapped ''create sqlite database dir'' (call (MkdirAll dir) (env_MkdirAll env dir)))"

definition openWardenGORMDB :: "'d gorm_env \<Rightarrow> string \<Rightarrow> (db_call list, 'd gorm_DB) op" where
  "openWardenGORMDB env dsn =
    (if HasPrefix dsn ''sqlite://'' then
       let path = TrimPrefix dsn ''sqlite://'' in
       bnd (ensureWardenSQLiteDir env path) (\<lambda>_.
       let path = (if \<not> ContainsChar path CHR ''?''
                   then path @ ''?_pragma=busy_timeout(5000)&_pragma=journal_mode(WAL)'' else path)
       in call (OpenDB (SqliteOpen path)) (env_Open env (SqliteOpen path)))
     else if HasPrefix dsn ''postgres://'' \<or> HasPrefix dsn ''postgresql://''
     then call (OpenDB (PostgresOpen dsn)) (env_Open env (PostgresOpen dsn))
     else fail (Errorf ''unsupported database dsn %q''))"

definition gorm_AutoMigrate :: "'d gorm_env \<Rightarrow> (db_call list, unit) op" where
  "gorm_AutoMigrate env = wrapped ''database migrate'' (call (AutoMigrate table_names) (env_AutoMigrate env))"

definition gorm_Close :: "'d gorm_env \<Rightarrow> (db_call list, unit) op" where
  "gorm_Close env = bnd (lift_res (env_DB env)) (\<lambda>_. call CloseDB (env_Close env))"

definition set_pool :: "string \<Rightarrow> (db_call list, unit) op" where
  "set_pool dsn = upd_st (\<lambda>calls. calls @
     (if HasPrefix dsn ''sqlite://'' then [SetMaxOpenConns 1, SetMaxIdleConns 1] else [SetMaxOpenConns 25, SetMaxIdleConns 10])
     @ [SetConnMaxLifetime (5 * Minute)])"

definition OpenGORMStore :: "'d gorm_env \<Rightarrow> string \<Rightarrow> (db_call list, 'd GORMStore) op" where
  "OpenGORMStore env dsn =
    bnd (openWardenGORMDB env dsn) (\<lambda>db.
    bnd (wrapped ''database handle'' (lift_res (env_DB env))) (\<lambda>_.
    bnd (set_pool dsn) (\<lambda>_.
    on_err (call PingContext (env_Ping env))
      (\<lambda>err. bnd (ignore_err (call CloseDB (env_Close env))) (\<lambda>_. fail (Wrapped ''database ping'' err)))
      (\<lambda>_. on_err (gorm_AutoMigrate env)
        (\<lambda>err. bnd (ignore_err (call CloseDB (env_Close env))) (\<lambda>_. fail err))
        (\<lambda>_. ret \<lparr>gs_db = db\<rparr>)))))"

section \<open>What is opened is checked, or closed again\<close>

lemma call_simps [op_simps]: "call c r calls = (r, calls @ [c])"
  by (simp add: call_def)

lemma snd_wrapped [simp]: "snd (wrapped msg m s) = snd (m s)"
  by (cases "fst (m s)") (auto simp: op_simps)

lemma ensure_dir_calls: "\<exists>pre. set pre \<subseteq> range MkdirAll \<and> snd (ensureWardenSQLiteDir env path calls) = calls @ pre"
proof (cases "snd (ensureWardenSQLiteDir env path calls) = calls")
  case True
  then show ?thesis by (intro exI [of _ "[]"]) simp
next
  case False
  let ?dir = "filepath_Dir (takeWhile (\<lambda>c. c \<noteq> CHR ''?'') path)"
  have "snd (ensureWardenSQLiteDir env path calls) = calls @ [MkdirAll ?dir]"
    using False by (simp add: ensureWardenSQLiteDir_def Let_def op_simps split: if_splits)
  then show ?thesis by (intro exI [of _ "[MkdirAll ?dir]"]) simp
qed

lemma openWardenGORMDB_calls:
  obtains (opened) db dial pre where "openWardenGORMDB env dsn [] = (Inr db, pre @ [OpenDB dial])" "env_Open env dial = Inr db"
      "set pre \<subseteq> range MkdirAll"
  | (refused) e pre where "openWardenGORMDB env dsn [] = (Inl e, pre)" "set pre \<subseteq> range MkdirAll \<union> range OpenDB"
proof -
  have step: thesis if "openWardenGORMDB env dsn [] = call (OpenDB dial) (env_Open env dial) pre" "set pre \<subseteq> range MkdirAll" for dial pre
  proof (cases "env_Open env dial")
    case (Inl e)
    with that show thesis by (intro refused [of e "pre @ [OpenDB dial]"]) (auto simp: op_simps)
  next
    case (Inr db)
    with that show thesis by (intro opened) (auto simp: op_simps)
  qed
  show thesis
  proof (cases "HasPrefix dsn ''sqlite://''")
    case True
    let ?m = "ensureWardenSQLiteDir env (TrimPrefix dsn ''sqlite://'') []"
    obtain pre where pre: "set pre \<subseteq> range MkdirAll" "snd ?m = pre" using ensure_dir_calls [of env _ "[]"] by fastforce
    show thesis
    proof (cases "fst ?m")
      case (Inl e)
      with True pre show thesis by (intro refused [of e pre]) (auto simp: openWardenGORMDB_def Let_def op_simps)
    next
      case (Inr u)
      with True pre show thesis by (intro step) (auto simp: openWardenGORMDB_def Let_def op_simps)
    qed
  next
    case False
    then show thesis
    proof (cases "HasPrefix dsn ''postgres://'' \<or> HasPrefix dsn ''postgresql://''")
      case True
      with False show thesis by (intro step [where pre = "[]"]) (auto simp: openWardenGORMDB_def)
    next
      case none: False
      with False show thesis by (intro refused [where pre = "[]"]) (auto simp: openWardenGORMDB_def op_simps)
    qed
  qed
qed

text \<open>
  A store is only returned when the database answered a ping and its schema was migrated, its pool is bounded and it stays open;
  when one of them fails, the handle that was opened is closed.
\<close>

theorem opened_store_checked:
  assumes "env_DB env = Inr ()"
  shows "case OpenGORMStore env dsn [] of
    (Inr s, calls) \<Rightarrow> env_Ping env = Inr () \<and> env_AutoMigrate env = Inr () \<and> CloseDB \<notin> set calls
      \<and> (\<exists>dial. OpenDB dial \<in> set calls \<and> env_Open env dial = Inr (gs_db s)) \<and> AutoMigrate table_names \<in> set calls
      \<and> SetMaxOpenConns (if HasPrefix dsn ''sqlite://'' then 1 else 25) \<in> set calls
  | (Inl e, calls) \<Rightarrow> (\<exists>n. SetMaxOpenConns n \<in> set calls) \<longrightarrow> last calls = CloseDB"
proof (cases rule: openWardenGORMDB_calls [of env dsn])
  case (opened db dial pre)
  then have "CloseDB \<notin> set pre" by auto
  with opened assms show ?thesis
    by (cases "env_Ping env"; cases "env_AutoMigrate env")
      (auto simp: OpenGORMStore_def gorm_AutoMigrate_def set_pool_def op_simps)
next
  case (refused e pre)
  then have "SetMaxOpenConns n \<notin> set pre" for n by auto
  with refused show ?thesis by (auto simp: OpenGORMStore_def op_simps)
qed

end
