(* ===== verification/Warden_CasdoorManager.thy ===== *)
theory Warden_CasdoorManager
  imports Warden_HTTP
begin

text \<open>
  \<open>src/warden/casdoor.go\<close>: the manager of a Casdoor server that runs beside the service, and the proxy in front of it. What the
  operating system, the health endpoint, the leader lock and the bootstrapper answer is given by functions of the number of the
  call. \<open>Start\<close> holds the mutex only at its beginning; the calls of several callers and the exit of the process interleave in
  the step relation \<open>casdoor_step\<close>.
\<close>

section \<open>The manager\<close>

definition CasdoorModeEmbedded :: string where "CasdoorModeEmbedded = ''embedded''"
definition CasdoorModeManagedSidecar :: string where "CasdoorModeManagedSidecar = ''managed_sidecar''"
definition CasdoorModeExternalCompat :: string where "CasdoorModeExternalCompat = ''external_compat''"

record CasdoorConfig =
  cas_Mode :: string
  cas_BaseURL :: string
  cas_IssuerURL :: string
  cas_Version :: string
  cas_AllowExternal :: bool
  cas_Command :: string
  cas_Args :: "string list"
  cas_Env :: "string list"
  cas_HealthPath :: string
  cas_StartupTimeout :: duration

text \<open>A process is the number of its start.\<close>

record ManagedCasdoorManager =
  mgr_cfg :: CasdoorConfig
  mgr_bootstrapper :: "(nat \<Rightarrow> CasdoorConfig \<Rightarrow> unit res) option"
  mgr_leader :: "(nat \<Rightarrow> bool res) option"
  mgr_cmd :: "nat option"
  mgr_started :: bool

text \<open>
  \<open>host_ticks k\<close> is how often the ticker fires in the \<open>k\<close>-th wait before \<open>select\<close> takes the timeout, which \<open>context.WithTimeout\<close>
  guarantees to come.
\<close>

record casdoor_host =
  host_exec :: "nat \<Rightarrow> unit res"
  host_kill :: "nat \<Rightarrow> unit res"
  host_request :: "string \<Rightarrow> unit res"
  host_health :: "nat \<Rightarrow> int res"
  host_ticks :: "nat \<Rightarrow> nat"
  host_timeout :: error

record casdoor_state =
  cs_mgr :: ManagedCasdoorManager
  cs_alive :: "nat list"
  cs_execs :: nat
  cs_kills :: nat
  cs_probes :: nat
  cs_waits :: nat
  cs_leads :: nat
  cs_boots :: nat

definition os_ErrProcessDone :: error where
  "os_ErrProcessDone = Errorf ''os: process already finished''"

definition NewManagedCasdoorManager ::
  "CasdoorConfig \<Rightarrow> (nat \<Rightarrow> CasdoorConfig \<Rightarrow> unit res) option \<Rightarrow> (nat \<Rightarrow> bool res) option \<Rightarrow> ManagedCasdoorManager" where
  "NewManagedCasdoorManager cfg bootstrapper leader =
    (let cfg = (if cas_Mode cfg = [] then cfg\<lparr>cas_Mode := CasdoorModeManagedSidecar\<rparr> else cfg);
         cfg = (if cas_HealthPath cfg = [] then cfg\<lparr>cas_HealthPath := ''/.well-known/openid-configuration''\<rparr> else cfg);
         cfg = (if cas_StartupTimeout cfg \<le> 0 then cfg\<lparr>cas_StartupTimeout := 30 * Second\<rparr> else cfg)
     in \<lparr>mgr_cfg = cfg, mgr_bootstrapper = bootstrapper, mgr_leader = leader, mgr_cmd = None, mgr_started = False\<rparr>)"

definition casdoor_initial :: "ManagedCasdoorManager \<Rightarrow> casdoor_state" where
  "casdoor_initial m = \<lparr>cs_mgr = m, cs_alive = [], cs_execs = 0, cs_kills = 0, cs_probes = 0, cs_waits = 0, cs_leads = 0, cs_boots = 0\<rparr>"

abbreviation set_started :: "bool \<Rightarrow> casdoor_state \<Rightarrow> casdoor_state" where
  "set_started b s \<equiv> s\<lparr>cs_mgr := (cs_mgr s)\<lparr>mgr_started := b\<rparr>\<rparr>"

abbreviation set_cmd :: "nat option \<Rightarrow> casdoor_state \<Rightarrow> casdoor_state" where
  "set_cmd c s \<equiv> s\<lparr>cs_mgr := (cs_mgr s)\<lparr>mgr_cmd := c\<rparr>\<rparr>"

definition HealthEndpoint :: "ManagedCasdoorManager \<Rightarrow> string" where
  "HealthEndpoint m =
    (let base = TrimRightChar (TrimSpace (cas_BaseURL (mgr_cfg m))) CHR ''/'' in
     if base = [] then [] else base @ ''/'' @ TrimLeftChar (cas_HealthPath (mgr_cfg m)) CHR ''/'')"

text \<open>One request to the health endpoint, and the loop of \<open>waitHealthy\<close> with the ticks that are left before the timeout.\<close>

definition probe_health :: "casdoor_host \<Rightarrow> string \<Rightarrow> (casdoor_state, bool) op" where
  "probe_health h endpoint s =
    (case host_request h endpoint of
       Inl err \<Rightarrow> (Inl err, s)
     | Inr _ \<Rightarrow> (Inr (case host_health h (cs_probes s) of Inl _ \<Rightarrow> False | Inr status \<Rightarrow> 200 \<le> status \<and> status < 500),
         s\<lparr>cs_probes := Suc (cs_probes s)\<rparr>))"

fun wait_loop :: "casdoor_host \<Rightarrow> string \<Rightarrow> nat \<Rightarrow> (casdoor_state, unit) op" where
  "wait_loop h endpoint 0 =
    bnd (probe_health h endpoint) (\<lambda>ok. if ok then ret () else fail (Wrapped ''casdoor health check %s'' (host_timeout h)))"
| "wait_loop h endpoint (Suc ticks) =
    bnd (probe_health h endpoint) (\<lambda>ok. if ok then ret () else wait_loop h endpoint ticks)"

definition waitHealthy :: "casdoor_host \<Rightarrow> (casdoor_state, unit) op" where
  "waitHealthy h s =
    (let endpoint = HealthEndpoint (cs_mgr s) in
     if endpoint = [] then (Inr (), s)
     else wait_loop h endpoint (host_ticks h (cs_waits s)) (s\<lparr>cs_waits := Suc (cs_waits s)\<rparr>))"

definition run_bootstrap :: "(nat \<Rightarrow> CasdoorConfig \<Rightarrow> unit res) \<Rightarrow> (casdoor_state, unit) op" where
  "run_bootstrap b s = (b (cs_boots s) (mgr_cfg (cs_mgr s)), s\<lparr>cs_boots := Suc (cs_boots s)\<rparr>)"

definition ask_leader :: "(nat \<Rightarrow> bool res) \<Rightarrow> (casdoor_state, bool) op" where
  "ask_leader l s = (l (cs_leads s), s\<lparr>cs_leads := Suc (cs_leads s)\<rparr>)"

definition bootstrapIfLeader :: "(casdoor_state, unit) op" where
  "bootstrapIfLeader =
    bnd (get_st cs_mgr) (\<lambda>m.
    case mgr_bootstrapper m of None \<Rightarrow> ret ()
    | Some bootstrapper \<Rightarrow>
      (case mgr_leader m of None \<Rightarrow> run_bootstrap bootstrapper
       | Some leader \<Rightarrow> bnd (ask_leader leader) (\<lambda>ok. if \<not> ok then ret () else run_bootstrap bootstrapper)))"

text \<open>\<open>m.cmd.Process.Kill()\<close>: the process is gone unless the call fails.\<close>

definition kill_process :: "casdoor_host \<Rightarrow> nat \<Rightarrow> (casdoor_state, error option) op" where
  "kill_process h p s =
    (let s' = s\<lparr>cs_kills := Suc (cs_kills s)\<rparr> in
     case host_kill h (cs_kills s) of
       Inr _ \<Rightarrow> (Inr None, s'\<lparr>cs_alive := removeAll p (cs_alive s)\<rparr>)
     | Inl err \<Rightarrow> (Inr (Some err), if errors_Is err os_ErrProcessDone then s'\<lparr>cs_alive := removeAll p (cs_alive s)\<rparr> else s'))"

definition mgr_Shutdown :: "casdoor_host \<Rightarrow> (casdoor_state, unit) op" where
  "mgr_Shutdown h =
    bnd (upd_st (set_started False)) (\<lambda>_.
    bnd (get_st (\<lambda>s. mgr_cmd (cs_mgr s))) (\<lambda>cmd.
    case cmd of None \<Rightarrow> ret ()
    | Some p \<Rightarrow>
      bnd (kill_process h p) (\<lambda>err.
      bnd (upd_st (set_cmd None)) (\<lambda>_.
      case err of None \<Rightarrow> ret ()
      | Some err \<Rightarrow> if \<not> errors_Is err os_ErrProcessDone then fail (Wrapped ''shutdown casdoor sidecar'' err) else ret ()))))"

definition start_process :: "casdoor_host \<Rightarrow> (casdoor_state, unit) op" where
  "start_process h s =
    (let k = cs_execs s; s' = s\<lparr>cs_execs := Suc k\<rparr> in
     case host_exec h k of
       Inl err \<Rightarrow> (Inl (Wrapped ''start casdoor sidecar'' err), s')
     | Inr _ \<Rightarrow> (Inr (), set_cmd (Some k) (s'\<lparr>cs_alive := k # cs_alive s\<rparr>)))"

text \<open>\<open>Start\<close> while it holds the mutex, and what it does after it has released it.\<close>

datatype after_lock = AlreadyStarted | OnlyBootstrap | Supervise

definition start_locked :: "casdoor_host \<Rightarrow> (casdoor_state, after_lock) op" where
  "start_locked h =
    bnd (get_st cs_mgr) (\<lambda>m. let cfg = mgr_cfg m in
    if mgr_started m then ret AlreadyStarted
    else if cas_Mode cfg = CasdoorModeExternalCompat then
      (if \<not> cas_AllowExternal cfg
       then fail (Errorf ''external casdoor compatibility mode must be explicitly enabled'')
       else bnd (upd_st (set_started True)) (\<lambda>_. ret OnlyBootstrap))
    else if TrimSpace (cas_Command cfg) \<noteq> [] then
      bnd (start_process h) (\<lambda>_. bnd (upd_st (set_started True)) (\<lambda>_. ret Supervise))
    else if cas_Mode cfg = CasdoorModeManagedSidecar \<and> TrimSpace (cas_BaseURL cfg) = [] then
      bnd (upd_st (set_started True)) (\<lambda>_. ret OnlyBootstrap)
    else bnd (upd_st (set_started True)) (\<lambda>_. ret Supervise))"

definition or_shutdown :: "casdoor_host \<Rightarrow> (casdoor_state, unit) op \<Rightarrow> (casdoor_state, unit) op" where
  "or_shutdown h m = on_err m (\<lambda>err. bnd (ignore_err (mgr_Shutdown h)) (\<lambda>_. fail err)) ret"

definition start_wait :: "casdoor_host \<Rightarrow> (casdoor_state, unit) op" where
  "start_wait h =
    bnd (get_st (\<lambda>s. mgr_cfg (cs_mgr s))) (\<lambda>cfg.
    if TrimSpace (cas_Command cfg) \<noteq> [] then or_shutdown h (waitHealthy h) else ret ())"

definition mgr_Start :: "casdoor_host \<Rightarrow> (casdoor_state, unit) op" where
  "mgr_Start h =
    bnd (start_locked h) (\<lambda>after. case after of
      AlreadyStarted \<Rightarrow> ret ()
    | OnlyBootstrap \<Rightarrow> bootstrapIfLeader
    | Supervise \<Rightarrow> bnd (start_wait h) (\<lambda>_. or_shutdown h bootstrapIfLeader))"

section \<open>Callers and the process interleaved\<close>

text \<open>The calls of \<open>Start\<close> that have released the mutex; \<open>Bootstrapping b\<close> shuts down on failure when \<open>b\<close>.\<close>

datatype start_thread = Waiting | Bootstrapping bool

definition bootstrap_thread :: "casdoor_host \<Rightarrow> bool \<Rightarrow> (casdoor_state, unit) op" where
  "bootstrap_thread h b = (if b then or_shutdown h bootstrapIfLeader else bootstrapIfLeader)"

inductive casdoor_step :: "casdoor_host \<Rightarrow> casdoor_state \<times> start_thread list \<Rightarrow> casdoor_state \<times> start_thread list \<Rightarrow> bool"
  for h :: casdoor_host where
  start_ends: "start_locked h s = (r, s') \<Longrightarrow> r \<noteq> Inr OnlyBootstrap \<Longrightarrow> r \<noteq> Inr Supervise \<Longrightarrow> casdoor_step h (s, ts) (s', ts)"
| start_bootstraps: "start_locked h s = (Inr OnlyBootstrap, s') \<Longrightarrow> casdoor_step h (s, ts) (s', Bootstrapping False # ts)"
| start_supervises: "start_locked h s = (Inr Supervise, s') \<Longrightarrow> casdoor_step h (s, ts) (s', Waiting # ts)"
| healthy: "start_wait h s = (Inr u, s') \<Longrightarrow> casdoor_step h (s, ts @ Waiting # ts') (s', ts @ Bootstrapping True # ts')"
| unhealthy: "start_wait h s = (Inl e, s') \<Longrightarrow> casdoor_step h (s, ts @ Waiting # ts') (s', ts @ ts')"
| bootstrapped: "bootstrap_thread h b s = (r, s') \<Longrightarrow> casdoor_step h (s, ts @ Bootstrapping b # ts') (s', ts @ ts')"
| shutdown: "mgr_Shutdown h s = (r, s') \<Longrightarrow> casdoor_step h (s, ts) (s', ts)"
| exits: "casdoor_step h (s, ts) (s\<lparr>cs_alive := removeAll p (cs_alive s)\<rparr>, ts)"

definition casdoor_reachable :: "casdoor_host \<Rightarrow> ManagedCasdoorManager \<Rightarrow> casdoor_state \<Rightarrow> start_thread list \<Rightarrow> bool" where
  "casdoor_reachable h m s ts \<longleftrightarrow> (casdoor_step h)\<^sup>*\<^sup>* (casdoor_initial m, []) (s, ts)"

text \<open>At most one process runs, and it is the one that \<open>Shutdown\<close> would kill.\<close>

definition one_process :: "casdoor_state \<Rightarrow> bool" where
  "one_process s \<longleftrightarrow> (cs_alive s = [] \<or> (\<exists>p. cs_alive s = [p] \<and> mgr_cmd (cs_mgr s) = Some p))
     \<and> (mgr_cmd (cs_mgr s) \<noteq> None \<longrightarrow> mgr_started (cs_mgr s))"

definition kills_work :: "casdoor_host \<Rightarrow> bool" where
  "kills_work h \<longleftrightarrow> (\<forall>k e. host_kill h k = Inl e \<longrightarrow> errors_Is e os_ErrProcessDone)"

lemma shutdown_stops:
  assumes "kills_work h" and "one_process s"
  shows "cs_alive (snd (mgr_Shutdown h s)) = [] \<and> mgr_cmd (cs_mgr (snd (mgr_Shutdown h s))) = None
    \<and> \<not> mgr_started (cs_mgr (snd (mgr_Shutdown h s)))"
proof (cases "mgr_cmd (cs_mgr s)")
  case None
  with assms(2) show ?thesis by (auto simp: mgr_Shutdown_def op_simps one_process_def)
next
  case (Some p)
  with assms show ?thesis
    by (cases "host_kill h (cs_kills s)")
      (auto simp: mgr_Shutdown_def kill_process_def op_simps one_process_def kills_work_def Let_def)
qed

lemma one_process_shutdown: "kills_work h \<Longrightarrow> one_process s \<Longrightarrow> one_process (snd (mgr_Shutdown h s))"
  using shutdown_stops [of h s] by (simp add: one_process_def)

lemma one_process_cong: "cs_alive s' = cs_alive s \<Longrightarrow> cs_mgr s' = cs_mgr s \<Longrightarrow> one_process s' = one_process s"
  by (simp add: one_process_def)

lemma probe_cases:
  obtains e where "probe_health h endpoint s = (Inl e, s)"
  | ok where "probe_health h endpoint s = (Inr ok, s\<lparr>cs_probes := Suc (cs_probes s)\<rparr>)"
      "ok \<Longrightarrow> \<exists>status. host_health h (cs_probes s) = Inr status \<and> 200 \<le> status \<and> status < 500"
  by (cases "host_request h endpoint"; cases "host_health h (cs_probes s)") (auto simp: probe_health_def)

lemma wait_loop_keeps: "cs_alive (snd (wait_loop h endpoint n s)) = cs_alive s \<and> cs_mgr (snd (wait_loop h endpoint n s)) = cs_mgr s"
proof (induction n arbitrary: s)
  case 0
  then show ?case by (cases rule: probe_cases [of h endpoint s]) (auto simp: op_simps)
next
  case (Suc n)
  then show ?case by (cases rule: probe_cases [of h endpoint s]) (auto simp: op_simps)
qed

lemma waitHealthy_keeps: "cs_alive (snd (waitHealthy h s)) = cs_alive s" "cs_mgr (snd (waitHealthy h s)) = cs_mgr s"
  by (simp_all add: waitHealthy_def Let_def wait_loop_keeps)

lemma bootstrap_keeps: "cs_alive (snd (bootstrapIfLeader s)) = cs_alive s \<and> cs_mgr (snd (bootstrapIfLeader s)) = cs_mgr s"
proof (cases "mgr_leader (cs_mgr s)")
  case None
  then show ?thesis by (auto simp: bootstrapIfLeader_def run_bootstrap_def op_simps split: option.split)
next
  case (Some l)
  then show ?thesis
    by (cases "l (cs_leads s)") (auto simp: bootstrapIfLeader_def run_bootstrap_def ask_leader_def op_simps split: option.split)
qed

lemma one_process_or_shutdown:
  assumes "kills_work h" and "cs_alive (snd (m s)) = cs_alive s" and "cs_mgr (snd (m s)) = cs_mgr s" and "one_process s"
  shows "one_process (snd (or_shutdown h m s))"
proof -
  have "one_process (snd (m s))" using assms(2-4) one_process_cong by blast
  then show ?thesis using one_process_shutdown [OF assms(1)] by (cases "fst (m s)") (auto simp: or_shutdown_def op_simps)
qed

lemma one_process_wait:
  assumes "kills_work h" and "one_process s"
  shows "one_process (snd (start_wait h s))"
proof -
  have "start_wait h s = (if TrimSpace (cas_Command (mgr_cfg (cs_mgr s))) \<noteq> [] then or_shutdown h (waitHealthy h) else ret ()) s"
    by (simp add: start_wait_def op_simps)
  then show ?thesis using one_process_or_shutdown [where m = "waitHealthy h" and s = s, OF assms(1) waitHealthy_keeps assms(2)] assms(2)
    by (auto simp: op_simps)
qed

lemma one_process_start:
  assumes "one_process s"
  shows "one_process (snd (start_locked h s))"
proof -
  have exec: "one_process (snd (start_process h s))" if "isl (fst (start_process h s))"
    using assms that by (auto simp: start_process_def one_process_def Let_def split: sum.splits)
  have ran: "one_process (set_started True (snd (start_process h s)))" if "\<not> mgr_started (cs_mgr s)"
    using assms that by (auto simp: start_process_def one_process_def Let_def split: sum.splits)
  show ?thesis
  proof (cases "start_process h s")
    case (Pair r s')
    with exec ran assms show ?thesis
      by (cases r) (auto simp: start_locked_def op_simps Let_def one_process_def)
  qed
qed

lemma casdoor_step_invariant:
  assumes "casdoor_step h x y" and "kills_work h" and "one_process (fst x)"
  shows "one_process (fst y)"
  using assms(1)
proof cases
  case (start_ends s r s' ts)
  then show ?thesis using one_process_start [of s h] assms(3) by simp
next
  case (start_bootstraps s s' ts)
  then show ?thesis using one_process_start [of s h] assms(3) by simp
next
  case (start_supervises s s' ts)
  then show ?thesis using one_process_start [of s h] assms(3) by simp
next
  case (healthy s u s' ts ts')
  then show ?thesis using one_process_wait [OF assms(2), of s] assms(3) by simp
next
  case (unhealthy s e s' ts ts')
  then show ?thesis using one_process_wait [OF assms(2), of s] assms(3) by simp
next
  case (bootstrapped b s r s' ts ts')
  have "one_process (snd (bootstrap_thread h b s))"
    using one_process_or_shutdown [where m = bootstrapIfLeader and s = s, OF assms(2)] bootstrap_keeps [of s]
      one_process_cong [of "snd (bootstrapIfLeader s)" s] assms(3) bootstrapped
    by (cases b) (simp_all add: bootstrap_thread_def)
  with bootstrapped show ?thesis by simp
next
  case (shutdown s r s' ts)
  then show ?thesis using one_process_shutdown [OF assms(2), of s] assms(3) by simp
next
  case (exits s ts p)
  then show ?thesis using assms(3) by (auto simp: one_process_def split: if_splits)
qed

lemma reachable_one_process:
  assumes "casdoor_reachable h m s ts" and "kills_work h" and "mgr_cmd m = None"
  shows "one_process s"
proof -
  have "(casdoor_step h)\<^sup>*\<^sup>* x y \<Longrightarrow> one_process (fst x) \<Longrightarrow> one_process (fst y)" for x y
    by (induction rule: rtranclp_induct) (auto intro: casdoor_step_invariant [OF _ assms(2)])
  from this [of "(casdoor_initial m, [])" "(s, ts)"] assms show ?thesis
    by (simp add: casdoor_reachable_def one_process_def casdoor_initial_def)
qed

section \<open>What a start establishes\<close>

lemma start_process_cases:
  obtains (failed) e where "start_process h s = (Inl e, s\<lparr>cs_execs := Suc (cs_execs s)\<rparr>)"
  | (runs) "start_process h s = (Inr (), set_cmd (Some (cs_execs s)) (s\<lparr>cs_execs := Suc (cs_execs s), cs_alive := cs_execs s # cs_alive s\<rparr>))"
  by (cases "host_exec h (cs_execs s)") (auto simp: start_process_def Let_def)

lemma or_shutdown_cases:
  obtains (ok) s' where "or_shutdown h m s = (Inr (), s')" "m s = (Inr (), s')"
  | (failed) e s' where "or_shutdown h m s = (Inl e, snd (mgr_Shutdown h s'))" "m s = (Inl e, s')"
  by (cases "m s"; cases "fst (m s)") (auto simp: or_shutdown_def op_simps)

lemma wait_loop_healthy:
  assumes "wait_loop h endpoint n s = (Inr (), s')"
  shows "\<exists>k status. host_health h k = Inr status \<and> 200 \<le> status \<and> status < 500"
  using assms
proof (induction n arbitrary: s)
  case 0
  then show ?case by (cases rule: probe_cases [of h endpoint s]) (auto simp: op_simps split: if_splits)
next
  case (Suc n)
  then show ?case by (cases rule: probe_cases [of h endpoint s]) (auto simp: op_simps split: if_splits)
qed

lemma supervised_start:
  assumes "\<not> mgr_started (cs_mgr s)" and "one_process s" and "cas_Mode (mgr_cfg (cs_mgr s)) \<noteq> CasdoorModeExternalCompat"
    and "TrimSpace (cas_Command (mgr_cfg (cs_mgr s))) \<noteq> []" and "kills_work h"
  shows "case mgr_Start h s of
     (Inr _, s') \<Rightarrow> mgr_started (cs_mgr s') \<and> mgr_cmd (cs_mgr s') = Some (cs_execs s) \<and> cs_alive s' = [cs_execs s]
       \<and> (HealthEndpoint (cs_mgr s) \<noteq> [] \<longrightarrow> (\<exists>k status. host_health h k = Inr status \<and> 200 \<le> status \<and> status < 500))
   | (Inl e, s') \<Rightarrow> \<not> mgr_started (cs_mgr s') \<and> mgr_cmd (cs_mgr s') = None \<and> cs_alive s' = []"
proof -
  have idle: "mgr_cmd (cs_mgr s) = None" "cs_alive s = []" using assms(1,2) by (auto simp: one_process_def)
  show ?thesis
  proof (cases rule: start_process_cases [of h s])
    case (failed e)
    then show ?thesis using assms(1,3,4) idle by (simp add: mgr_Start_def start_locked_def op_simps Let_def)
  next
    case runs
    let ?s = "set_started True (set_cmd (Some (cs_execs s)) (s\<lparr>cs_execs := Suc (cs_execs s), cs_alive := cs_execs s # cs_alive s\<rparr>))"
    have one: "one_process ?s" using idle by (simp add: one_process_def)
    have locked: "start_locked h s = (Inr Supervise, ?s)"
      using runs assms(1,3,4) by (simp add: start_locked_def op_simps Let_def)
    have wait: "start_wait h ?s = or_shutdown h (waitHealthy h) ?s" using assms(4) by (simp add: start_wait_def op_simps)
    show ?thesis
    proof (cases rule: or_shutdown_cases [of h "waitHealthy h" ?s])
      case (failed e s')
      have "one_process s'" using waitHealthy_keeps [of h ?s] one_process_cong [of s' ?s] one failed(2) by simp
      with shutdown_stops [OF assms(5) this] failed(1) locked wait show ?thesis by (simp add: mgr_Start_def op_simps)
    next
      case (ok s1)
      have s1: "cs_mgr s1 = cs_mgr ?s" "cs_alive s1 = cs_alive ?s" using waitHealthy_keeps [of h ?s] ok(2) by simp_all
      have health: "\<exists>k status. host_health h k = Inr status \<and> 200 \<le> status \<and> status < 500" if "HealthEndpoint (cs_mgr s) \<noteq> []"
        using ok(2) that wait_loop_healthy by (auto simp: waitHealthy_def Let_def HealthEndpoint_def split: if_splits)
      show ?thesis
      proof (cases rule: or_shutdown_cases [of h bootstrapIfLeader s1])
        case (failed e s')
        have "one_process s'" using bootstrap_keeps [of s1] s1 one_process_cong [of s' ?s] one failed(2) by simp
        with shutdown_stops [OF assms(5) this] failed(1) locked wait ok(1) show ?thesis by (simp add: mgr_Start_def op_simps)
      next
        case (ok s')
        then show ?thesis using bootstrap_keeps [of s1] s1 locked wait \<open>or_shutdown h (waitHealthy h) ?s = _\<close> idle health
          by (simp add: mgr_Start_def op_simps)
      qed
    qed
  qed
qed

end
