(* ===== verification/Warden_CasdoorProxy.thy ===== *)
theory Warden_CasdoorProxy
  imports Warden_CasdoorManager
begin

text \<open>
  The reverse proxy of \<open>src/warden/casdoor.go\<close>: which paths it forwards, and what its director makes of a request. The director of
  \<open>httputil.NewSingleHostReverseProxy\<close> is that of the standard library; sending the request is not modelled.
\<close>

record CasdoorProxy =
  px_target :: URL

record ProxyRequest =
  preq_URL :: URL
  preq_Host :: string
  preq_Header :: "string \<Rightarrow> string"
  preq_TLS :: bool

definition IsCasdoorEntrypointPath :: "string \<Rightarrow> bool" where
  "IsCasdoorEntrypointPath path \<longleftrightarrow>
     path = ''/.well-known/openid-configuration''
   \<or> HasPrefix path ''/.well-known/'' \<and> HasSuffix path ''/openid-configuration''
   \<or> path = ''/.well-known/jwks''
   \<or> HasPrefix path ''/login/oauth/''
   \<or> HasPrefix path ''/api/login/oauth/''
   \<or> path = ''/api/userinfo''
   \<or> path = ''/api/login'' \<or> HasPrefix path ''/api/login/''
   \<or> path = ''/api/signup'' \<or> HasPrefix path ''/api/signup/''
   \<or> HasPrefix path ''/api/get-application''
   \<or> HasPrefix path ''/api/device-auth''
   \<or> path = ''/api/get-account''
   \<or> HasPrefix path ''/api/get-app-login''
   \<or> path = ''/api/logout''
   \<or> HasPrefix path ''/api/verify-code/''
   \<or> HasPrefix path ''/api/send-verification-code/''
   \<or> HasPrefix path ''/login''
   \<or> HasPrefix path ''/signup''
   \<or> HasPrefix path ''/forget''
   \<or> HasPrefix path ''/cas/''
   \<or> HasPrefix path ''/static/''"

definition NewCasdoorProxy :: "string \<Rightarrow> CasdoorProxy res" where
  "NewCasdoorProxy baseURL =
    (case Parse (TrimSpace baseURL) of
       None \<Rightarrow> Inl (Errorf ''parse %q'')
     | Some target \<Rightarrow> Inr \<lparr>px_target = target\<lparr>url_Path := [], url_RawPath := []\<rparr>\<rparr>)"

text \<open>\<open>joinURLPath\<close> and \<open>rewriteRequestURL\<close> of \<open>net/http/httputil\<close>\<close>

definition joinURLPath :: "URL \<Rightarrow> URL \<Rightarrow> string \<times> string" where
  "joinURLPath a b =
    (let join = (\<lambda>x y p q. if HasSuffix x ''/'' \<and> HasPrefix y ''/'' then p @ tl q
           else if \<not> HasSuffix x ''/'' \<and> \<not> HasPrefix y ''/'' then p @ ''/'' @ q else p @ q)
     in if url_RawPath a = [] \<and> url_RawPath b = [] then (join (url_Path a) (url_Path b) (url_Path a) (url_Path b), [])
        else let apath = EscapedPath a; bpath = EscapedPath b
             in (join apath bpath (url_Path a) (url_Path b), join apath bpath apath bpath))"

definition rewriteRequestURL :: "URL \<Rightarrow> URL \<Rightarrow> URL" where
  "rewriteRequestURL target u =
    (let (path, rawPath) = joinURLPath target u
     in u\<lparr>url_Scheme := url_Scheme target, url_Host := url_Host target, url_Path := path, url_RawPath := rawPath,
          url_RawQuery := (if url_RawQuery target = [] \<or> url_RawQuery u = [] then url_RawQuery target @ url_RawQuery u
            else url_RawQuery target @ ''&'' @ url_RawQuery u)\<rparr>)"

definition casdoor_director :: "CasdoorProxy \<Rightarrow> ProxyRequest \<Rightarrow> ProxyRequest" where
  "casdoor_director p req =
    (let forwardedHost = preq_Host req;
         req = req\<lparr>preq_URL := rewriteRequestURL (px_target p) (preq_URL req)\<rparr>;
         req = req\<lparr>preq_Host := url_Host (px_target p)\<rparr>;
         req = req\<lparr>preq_Header := (preq_Header req)(''X-Forwarded-Host'' := forwardedHost)\<rparr>
     in if preq_TLS req then req\<lparr>preq_Header := (preq_Header req)(''X-Forwarded-Proto'' := ''https'')\<rparr>
        else req\<lparr>preq_Header := (preq_Header req)(''X-Forwarded-Proto'' := ''http'')\<rparr>)"

text \<open>The request is answered here (\<open>Inl\<close>) or forwarded (\<open>Inr\<close>).\<close>

definition proxy_ServeHTTP :: "CasdoorProxy option \<Rightarrow> ProxyRequest \<Rightarrow> http_response + ProxyRequest" where
  "proxy_ServeHTTP p r =
    (case p of
       None \<Rightarrow> Inl (writeJSONError 404 ''not_found'' ''not found'' no_response)
     | Some p \<Rightarrow> if \<not> IsCasdoorEntrypointPath (url_Path (preq_URL r))
         then Inl (writeJSONError 404 ''not_found'' ''not found'' no_response)
         else Inr (casdoor_director p r))"

lemma entrypoint_rooted: "IsCasdoorEntrypointPath path \<Longrightarrow> HasPrefix path ''/''"
  by (cases path) (auto simp: IsCasdoorEntrypointPath_def HasPrefix_def)

text \<open>The paths of the service itself and those of the Casdoor server are disjoint.\<close>

lemma service_path_not_forwarded:
  assumes "HasPrefix path ''/auth/'' \<or> HasPrefix path ''/iam/'' \<or> HasPrefix path ''/internal/''"
  shows "\<not> IsCasdoorEntrypointPath path"
proof -
  obtain t where "path = ''/auth/'' @ t \<or> path = ''/iam/'' @ t \<or> path = ''/internal/'' @ t" using assms by (auto simp: HasPrefix_iff)
  then show ?thesis by (elim disjE) (simp_all add: IsCasdoorEntrypointPath_def HasPrefix_def)
qed

lemma route_not_forwarded:
  assumes "IsCasdoorEntrypointPath (req_Path r)"
  shows "route st h dec r w = (Inr (writeJSONError 404 ''not_found'' ''not found'' no_response), w)"
proof -
  have no: "\<not> HasPrefix (req_Path r) ''/auth/''" "\<not> HasPrefix (req_Path r) ''/iam/''" "\<not> HasPrefix (req_Path r) ''/internal/''"
    using assms service_path_not_forwarded by blast+
  then have "req_Path r \<noteq> ''/auth/'' @ x" "req_Path r \<noteq> ''/iam/'' @ x" "req_Path r \<noteq> ''/internal/'' @ x" for x
    by (auto simp: HasPrefix_iff)
  note ne = this(1) [of "''oidc/callback''"] this(1) [of "''oidc/start''"] this(1) [of "''device/code''"] this(1) [of "''device/approve''"]
    this(1) [of "''device/token''"] this(1) [of "''logout''"] this(2) [of "''context''"] this(2) [of "''api-keys''"]
    this(2) [of "''service-accounts''"] this(2) [of "''tenants/switch''"] this(2) [of "''teams/switch''"]
    this(3) [of "''session/validate''"] this(3) [of "''internal-jwts''"] this(3) [of "''tokens/validate''"]
    this(3) [of "''agent/delegate''"] this(3) [of "''audit-events''"] this(3) [of "''directory/sync''"]
  have pre: "\<not> HasPrefix (req_Path r) ''/iam/api-keys/''" "\<not> HasPrefix (req_Path r) ''/iam/service-accounts/''"
    using no(2) by (auto simp: HasPrefix_iff)
  show ?thesis using ne pre by (simp add: route_def Let_def op_simps)
qed

lemma EscapedPath_rooted:
  assumes "HasPrefix (url_Path u) ''/''" and "url_RawPath u = [] \<or> HasPrefix (url_RawPath u) ''/''"
  shows "HasPrefix (EscapedPath u) ''/''"
proof -
  obtain t where "url_Path u = CHR ''/'' # t" using assms(1) by (auto simp: HasPrefix_iff)
  moreover have "escape encodePath (CHR ''/'' # t) = CHR ''/'' # escape encodePath t"
    by (simp add: escape_def escape_char_def shouldEscape_def is_alpha_def is_upper_def is_lower_def is_digit_def url_marks_def url_reserved_def)
  ultimately show ?thesis using assms(2) by (auto simp: EscapedPath_def HasPrefix_iff)
qed

end
