(* ===== verification/Warden_Sidecar_Properties.thy ===== *)
theory Warden_Sidecar_Properties
  imports Warden_CasdoorProxy
begin

text \<open>The properties of the manager of the Casdoor server and of the proxy in front of it, each with an instance.\<close>

section \<open>The manager\<close>

text \<open>A host on which everything succeeds, and a configuration with a command.\<close>

definition ex_host :: casdoor_host where
  "ex_host = \<lparr>host_exec = (\<lambda>_. Inr ()), host_kill = (\<lambda>_. Inr ()), host_request = (\<lambda>_. Inr ()), host_health = (\<lambda>_. Inr 200),
     host_ticks = (\<lambda>_. 0), host_timeout = Errorf ''context deadline exceeded''\<rparr>"

definition ex_sidecar :: CasdoorConfig where
  "ex_sidecar = \<lparr>cas_Mode = ''managed_sidecar'', cas_BaseURL = ''http://c'', cas_IssuerURL = [], cas_Version = [],
     cas_AllowExternal = False, cas_Command = ''casdoor'', cas_Args = [], cas_Env = [], cas_HealthPath = ''/health'',
     cas_StartupTimeout = 0\<rparr>"

definition ex_external :: CasdoorConfig where
  "ex_external = ex_sidecar\<lparr>cas_Mode := ''external_compat'', cas_AllowExternal := True, cas_Command := []\<rparr>"

lemma trim_casdoor [simp]: "TrimSpace ''casdoor'' = ''casdoor''" "TrimSpace ''http://c'' = ''http://c''"
  by code_simp+

text \<open>C36: At most one Casdoor process runs, however the calls of \<open>Start\<close> and \<open>Shutdown\<close> of several callers, their health checks and
  bootstraps, and the exit of the process interleave: it is the process the manager remembers, so that a \<open>Shutdown\<close> leaves none
  behind. (Killing a process must not fail other than because it has exited.)\<close>

theorem one_sidecar:
  assumes "kills_work h" and "casdoor_reachable h (NewManagedCasdoorManager cfg b l) s ts"
  shows "(cs_alive s = [] \<or> (\<exists>p. cs_alive s = [p] \<and> mgr_cmd (cs_mgr s) = Some p \<and> mgr_started (cs_mgr s)))
    \<and> cs_alive (snd (mgr_Shutdown h s)) = [] \<and> \<not> mgr_started (cs_mgr (snd (mgr_Shutdown h s)))"
proof -
  have "one_process s" by (rule reachable_one_process [OF assms(2,1)]) (simp add: NewManagedCasdoorManager_def Let_def)
  with shutdown_stops [OF assms(1) this] show ?thesis by (auto simp: one_process_def)
qed

lemma ex_sidecar_started:
  "start_locked ex_host (casdoor_initial (NewManagedCasdoorManager ex_sidecar None None)) = (Inr Supervise,
    set_started True (set_cmd (Some 0) ((casdoor_initial (NewManagedCasdoorManager ex_sidecar None None))\<lparr>cs_execs := 1, cs_alive := [0]\<rparr>)))"
  by (simp add: start_locked_def start_process_def op_simps Let_def casdoor_initial_def NewManagedCasdoorManager_def ex_host_def
      ex_sidecar_def CasdoorModeExternalCompat_def)

lemma one_sidecar_witness:
  "\<exists>s ts. casdoor_reachable ex_host (NewManagedCasdoorManager ex_sidecar None None) s ts \<and> cs_alive s = [0]
    \<and> cs_alive (snd (mgr_Shutdown ex_host s)) = []"
proof -
  let ?m = "NewManagedCasdoorManager ex_sidecar None None"
  let ?s = "set_started True (set_cmd (Some 0) ((casdoor_initial ?m)\<lparr>cs_execs := 1, cs_alive := [0]\<rparr>))"
  have "casdoor_reachable ex_host ?m ?s [Waiting]"
    unfolding casdoor_reachable_def by (rule r_into_rtranclp) (rule casdoor_step.start_supervises [OF ex_sidecar_started])
  moreover have "kills_work ex_host" by (simp add: kills_work_def ex_host_def)
  ultimately show ?thesis using one_sidecar [of ex_host ex_sidecar None None ?s "[Waiting]"] by fastforce
qed

text \<open>Outside the mode with a command, a bootstrap that fails is never tried again: \<open>Start\<close> reports the failure but leaves the
  manager marked as started, and every later \<open>Start\<close> returns success without calling the bootstrapper.\<close>

theorem failed_bootstrap_not_retried:
  assumes "cas_Mode cfg = CasdoorModeExternalCompat" and "cas_AllowExternal cfg" and "b 0 (mgr_cfg (NewManagedCasdoorManager cfg (Some b) None)) = Inl e"
  shows "\<exists>s. mgr_Start h (casdoor_initial (NewManagedCasdoorManager cfg (Some b) None)) = (Inl e, s) \<and> cs_boots s = 1
    \<and> mgr_Start h s = (Inr (), s)"
proof -
  let ?m = "NewManagedCasdoorManager cfg (Some b) None"
  have m: "mgr_started ?m = False" "cas_Mode (mgr_cfg ?m) = CasdoorModeExternalCompat" "cas_AllowExternal (mgr_cfg ?m)"
    "mgr_bootstrapper ?m = Some b" "mgr_leader ?m = None"
    using assms(1,2) by (auto simp: NewManagedCasdoorManager_def Let_def CasdoorModeExternalCompat_def)
  have i: "cs_mgr (casdoor_initial ?m) = ?m" "cs_boots (casdoor_initial ?m) = 0" by (simp_all add: casdoor_initial_def)
  let ?s = "(set_started True (casdoor_initial ?m))\<lparr>cs_boots := 1\<rparr>"
  have "mgr_Start h (casdoor_initial ?m) = (Inl e, ?s)"
    using m i assms(3) by (simp add: mgr_Start_def start_locked_def op_simps Let_def bootstrapIfLeader_def run_bootstrap_def)
  moreover have "mgr_Start h ?s = (Inr (), ?s)" by (simp add: mgr_Start_def start_locked_def op_simps Let_def)
  ultimately show ?thesis by (intro exI [of _ ?s]) simp
qed

lemma failed_bootstrap_not_retried_witness:
  "\<exists>s. mgr_Start ex_host (casdoor_initial (NewManagedCasdoorManager ex_external (Some (\<lambda>k _. if k = 0 then Inl ErrNotFound else Inr ())) None))
      = (Inl ErrNotFound, s) \<and> cs_boots s = 1 \<and> mgr_Start ex_host s = (Inr (), s)"
  by (rule failed_bootstrap_not_retried) (simp_all add: ex_external_def CasdoorModeExternalCompat_def)



section \<open>A start that was overtaken\<close>

text \<open>The health check answers the second caller, and fails for the first, whose context has been cancelled.\<close>

definition overtaken_host :: casdoor_host where
  "overtaken_host = ex_host\<lparr>host_health := (\<lambda>k. if k = 0 then Inr 200 else Inl (Errorf ''context canceled''))\<rparr>"

lemma bnd_False: "fst (m s) = Inr False \<Longrightarrow> bnd m f s = f False (snd (m s))"
  by (rule bnd_Inr)

text \<open>A start that was overtaken kills the process of a later one. A caller starts the server and waits for it; it is shut down and
  started again by a second caller, whose \<open>Start\<close> returns success; when the health check of the first caller now fails, its clean-up
  shuts down the second server: no process runs, though nobody called \<open>Shutdown\<close> after the successful \<open>Start\<close>.\<close>

theorem overtaken_start_kills_successor:
  "\<exists>m second s s'. casdoor_reachable overtaken_host m second [Waiting, Waiting]
    \<and> start_wait overtaken_host second = (Inr (), s) \<and> bootstrap_thread overtaken_host True s = (Inr (), s)
    \<and> casdoor_reachable overtaken_host m s [Waiting] \<and> mgr_started (cs_mgr s) \<and> cs_alive s = [1]
    \<and> start_wait overtaken_host s = (Inl (Wrapped ''casdoor health check %s'' (host_timeout overtaken_host)), s')
    \<and> casdoor_step overtaken_host (s, [Waiting]) (s', []) \<and> \<not> mgr_started (cs_mgr s') \<and> cs_alive s' = []"
proof -
  let ?h = overtaken_host
  let ?m = "NewManagedCasdoorManager ex_sidecar None None"
  let ?s1 = "snd (start_locked ?h (casdoor_initial ?m))"
  let ?s2 = "snd (mgr_Shutdown ?h ?s1)"
  let ?s3 = "snd (start_locked ?h ?s2)"
  let ?s4 = "snd (start_wait ?h ?s3)"
  let ?s5 = "snd (start_wait ?h ?s4)"
  note defs = start_locked_def start_process_def op_simps Let_def casdoor_initial_def NewManagedCasdoorManager_def overtaken_host_def
    ex_host_def ex_sidecar_def CasdoorModeExternalCompat_def mgr_Shutdown_def kill_process_def start_wait_def or_shutdown_def
    waitHealthy_def HealthEndpoint_def TrimRightChar_def TrimLeftChar_def probe_health_def bootstrapIfLeader_def bootstrap_thread_def bnd_False
  have s1: "start_locked ?h (casdoor_initial ?m) = (Inr Supervise, ?s1)" by (simp add: defs)
  have s2: "mgr_Shutdown ?h ?s1 = (Inr (), ?s2)" by (simp add: defs)
  have s3: "start_locked ?h ?s2 = (Inr Supervise, ?s3)" by (simp add: defs)
  have s4: "start_wait ?h ?s3 = (Inr (), ?s4)" by (simp add: defs)
  have b: "bootstrap_thread ?h True ?s4 = (Inr (), ?s4)" by (simp add: defs)
  have s5: "start_wait ?h ?s4 = (Inl (Wrapped ''casdoor health check %s'' (host_timeout ?h)), ?s5)" by (simp add: defs)
  have "casdoor_step ?h (casdoor_initial ?m, []) (?s1, [Waiting])" by (rule casdoor_step.start_supervises [OF s1])
  note r_into_rtranclp [of "casdoor_step ?h", OF this]
  also have "casdoor_step ?h (?s1, [Waiting]) (?s2, [Waiting])" by (rule casdoor_step.shutdown [OF s2])
  also have "casdoor_step ?h (?s2, [Waiting]) (?s3, [Waiting, Waiting])" by (rule casdoor_step.start_supervises [OF s3])
  finally have r3: "casdoor_reachable ?h ?m ?s3 [Waiting, Waiting]" by (simp only: casdoor_reachable_def)
  then have "(casdoor_step ?h)\<^sup>*\<^sup>* (casdoor_initial ?m, []) (?s3, [Waiting, Waiting])" by (simp only: casdoor_reachable_def)
  also have "casdoor_step ?h (?s3, [Waiting, Waiting]) (?s4, [Bootstrapping True, Waiting])"
    using casdoor_step.healthy [OF s4, of "[]" "[Waiting]"] by (simp only: append_Nil)
  also have "casdoor_step ?h (?s4, [Bootstrapping True, Waiting]) (?s4, [Waiting])"
    using casdoor_step.bootstrapped [OF b, of "[]" "[Waiting]"] by (simp only: append_Nil)
  finally have "casdoor_reachable ?h ?m ?s4 [Waiting]" by (simp only: casdoor_reachable_def)
  moreover have "casdoor_step ?h (?s4, [Waiting]) (?s5, [])"
    using casdoor_step.unhealthy [OF s5, of "[]" "[]"] by (simp only: append_Nil)
  moreover have "mgr_started (cs_mgr ?s4)" "cs_alive ?s4 = [1]" "\<not> mgr_started (cs_mgr ?s5)" "cs_alive ?s5 = []" by (simp_all add: defs)
  ultimately show ?thesis using r3 s4 b s5 by blast
qed

section \<open>The proxy\<close>

lemma joined_path:
  assumes "url_Path a = []" and "url_RawPath a = []" and "HasPrefix (url_Path b) ''/''" and "url_RawPath b = [] \<or> HasPrefix (url_RawPath b) ''/''"
  shows "fst (joinURLPath a b) = url_Path b"
proof -
  have "EscapedPath a = []" using assms(1,2) by (simp add: EscapedPath_def escape_def)
  then show ?thesis using assms EscapedPath_rooted [OF assms(3,4)]
    by (simp add: joinURLPath_def Let_def HasSuffix_def)
qed


definition ex_proxied :: ProxyRequest where
  "ex_proxied = \<lparr>preq_URL = empty_URL\<lparr>url_Path := ''/login/oauth/authorize''\<rparr>, preq_Host = ''saker.example'',
     preq_Header = (\<lambda>k. if k = ''X-Forwarded-Host'' then ''evil'' else []), preq_TLS = True\<rparr>"

lemma ex_target: "Parse ''http://c'' = Some (empty_URL\<lparr>url_Scheme := ''http'', url_Host := ''c''\<rparr>)"
  by code_simp


end
