(* ===== verification/Warden_Logging.thy ===== *)
theory Warden_Logging
  imports Warden_Notify
begin

text \<open>
  The deliveries that this repository has itself: the mailers of \<open>src/warden/mailer.go\<close> and the notifiers of
  \<open>src/warden/notifier.go\<close> that do nothing or write to the log. The log is the state; a nil logger is \<open>False\<close>.
\<close>

datatype log_record = LogInfo string "(string \<times> string) list"

definition logger_Info :: "string \<Rightarrow> (string \<times> string) list \<Rightarrow> (log_record list, unit) op" where
  "logger_Info msg attrs = upd_st (\<lambda>log. log @ [LogInfo msg attrs])"

definition NoopMailer_Send :: "Email \<Rightarrow> (log_record list, unit) op" where
  "NoopMailer_Send msg = ret ()"

definition LoggingMailer_Send :: "bool \<Rightarrow> Email \<Rightarrow> (log_record list, unit) op" where
  "LoggingMailer_Send logger msg =
    bnd (if logger then logger_Info ''warden email sent'' [(''to'', maskEmail (mail_To msg)), (''subject'', mail_Subject msg)] else ret ())
      (\<lambda>_. ret ())"

definition NoopSecurityNotifier_NotifySecurity :: "SecurityEvent \<Rightarrow> (log_record list, unit) op" where
  "NoopSecurityNotifier_NotifySecurity event = ret ()"

definition LoggingSecurityNotifier_NotifySecurity :: "bool \<Rightarrow> SecurityEvent \<Rightarrow> (log_record list, unit) op" where
  "LoggingSecurityNotifier_NotifySecurity logger event =
    bnd (if logger then logger_Info ''warden security event''
           [(''type'', se_Type event), (''tenant_id'', se_TenantID event), (''principal_id'', se_PrincipalID event),
            (''severity'', se_Severity event), (''title'', se_Title event)] else ret ())
      (\<lambda>_. ret ())"

text \<open>Neither fails, so the service never sees an error of a delivery.\<close>

lemma deliveries_succeed:
  "fst (LoggingMailer_Send logger msg log) = Inr ()" "fst (LoggingSecurityNotifier_NotifySecurity logger event log) = Inr ()"
  by (simp_all add: LoggingMailer_Send_def LoggingSecurityNotifier_NotifySecurity_def logger_Info_def op_simps)

lemma maskEmail_long:
  assumes "CHR ''@'' \<notin> set l" and "length l > 2" and "d \<noteq> []"
  shows "maskEmail (l @ CHR ''@'' # d) = hd l # ''***'' @ last l # CHR ''@'' # d"
proof -
  have "takeWhile (\<lambda>c. c \<noteq> CHR ''@'') (l @ CHR ''@'' # d) = l" using assms(1) by (subst takeWhile_append2) auto
  then have at: "Index_char (l @ CHR ''@'' # d) CHR ''@'' = int (length l)" by (simp add: Index_char_def)
  have "l \<noteq> []" using assms(2) by auto
  then have ends: "l ! 0 = hd l" "l ! (length l - 1) = last l" by (simp_all add: hd_conv_nth last_conv_nth)
  have some: "\<not> (int (length l) \<le> 0 \<or> int (length l) = int (length (l @ CHR ''@'' # d)) - 1)"
    using assms(2,3) \<open>l \<noteq> []\<close> by simp
  have long: "\<not> length l \<le> 2" using assms(2) by simp
  have parts: "take (nat (int (length l))) (l @ CHR ''@'' # d) = l" "drop (nat (int (length l))) (l @ CHR ''@'' # d) = CHR ''@'' # d"
    by simp_all
  have "maskEmail (l @ CHR ''@'' # d) = [l ! 0] @ ''***'' @ [l ! (length l - 1)] @ CHR ''@'' # d"
    by (simp only: maskEmail_def Let_def at some if_False parts long)
  then show ?thesis by (simp only: ends append_Cons append_Nil)
qed

text \<open>
  What is logged of an address with more than two characters before its at sign depends on the first and the last of them and on
  the domain only, and not on the body of the mail.
\<close>

theorem mail_log_hides_address:
  assumes "CHR ''@'' \<notin> set l" and "CHR ''@'' \<notin> set l'" and "length l > 2" and "length l' > 2" and "d \<noteq> []"
    and "hd l = hd l'" and "last l = last l'"
  shows "LoggingMailer_Send logger \<lparr>mail_To = l @ CHR ''@'' # d, mail_Subject = subject, mail_Body = body\<rparr>
    = LoggingMailer_Send logger \<lparr>mail_To = l' @ CHR ''@'' # d, mail_Subject = subject, mail_Body = body'\<rparr>"
  unfolding LoggingMailer_Send_def Email.simps maskEmail_long [OF assms(1,3,5)] maskEmail_long [OF assms(2,4,5)] assms(6,7) ..

end
