(* ===== verification/Spec2Isabelle.thy ===== *)
theory Spec2Isabelle
  imports Warden_Token_Properties Warden_Device_Properties Warden_Policy_Properties
    Warden_Directory_Properties Jwt_Properties Discovery_Properties
    Warden_Casdoor_Properties Warden_HTTP_Properties Warden_Reconciler Webhub_Notify
    Warden_GORM_Properties Warden_GORM_Open Warden_Sidecar_Properties Warden_Logging
begin

text \<open>
  A verification of \<open>saker-common\<close>: the internal tokens of \<open>src/internaljwt\<close>, the identity and
  authorization service of \<open>src/warden\<close>, the service discovery of \<open>src/discovery\<close> and the client of \<open>src/webhub/notify\<close>.

  \<^bold>\<open>The program.\<close> A warden service keeps tenants, principals, sessions, API keys, service accounts, device
  codes and an audit log in a store (\<open>Store\<close> in \<open>src/warden/types.go\<close>, one implementation in memory, one in
  a relational database). It projects a directory into tenants and principals, creates and validates
  sessions, administers principals, and signs short-lived internal tokens whose scopes a policy grants
  to roles. The other services verify those tokens with the same derived secret (\<open>src/internaljwt\<close>).
  A service announces itself over mDNS, Redis or Consul (\<open>src/discovery\<close>).

  \<^bold>\<open>The theories.\<close>
  \<^item> \<open>Prelude\<close>, \<open>Go_Strings\<close>, \<open>Go_Time\<close>, \<open>Go_Crypto\<close>: what the source uses of Go. Operations with state and
    errors (\<open>op\<close>, \<open>bnd\<close>, \<open>on_err\<close>), maps as association lists, \<open>strings\<close>, \<open>time\<close> (integers of nanoseconds and
    the civil calendar), base64, hex, SHA-256 and HMAC. \<open>Go_Net\<close>, \<open>Go_URL\<close>: IP addresses, \<open>net/url\<close> and query strings.
  \<^item> \<open>Jwt_Claims\<close>, \<open>Jwt_Secret\<close>, \<open>Jwt_Verifier\<close>, \<open>Jwt_Signer\<close>: \<open>src/internaljwt\<close>; \<open>Jwt_Properties\<close> its properties.
  \<^item> \<open>Warden_Types\<close>, \<open>Warden_Policy\<close>, \<open>Warden_Notify\<close>: the data, the policy, the templates and events.
    \<open>Warden_Logging\<close>: the mailer and the notifier that write to the log.
  \<^item> \<open>Warden_Store\<close>: the contract of a store, as locales over an abstract view (one partial map per table).
    \<open>Warden_MemoryStore\<close>: \<open>src/warden/memory_store.go\<close> and the interpretations of these locales on it.
  \<^item> \<open>Warden_World\<close>, \<open>Warden_Directory\<close>, \<open>Warden_Sessions\<close>, \<open>Warden_Credentials\<close>: the methods of the service
    (\<open>src/warden/service.go\<close>, \<open>directory.go\<close>, \<open>principal_admin.go\<close>), over any store.
  \<^item> \<open>Warden_OIDC\<close>, \<open>Warden_CasdoorDirectory\<close>: the identity provider's client and tokens (\<open>oidc.go\<close>, \<open>oidc_client.go\<close>)
    and the directory of a Casdoor server (\<open>casdoor_directory.go\<close>). \<open>Warden_Login\<close>: starting and completing a
    login at the provider, login states, and the reconciliation of the directory with the store.
  \<^item> \<open>Go_HTTP\<close>, \<open>Warden_HTTP\<close>: requests, answers and redirects, and the HTTP interface (\<open>src/warden/http.go\<close>): its
    guards, its dispatch and one operation per handler. \<open>Warden_HTTP_Facts\<close>: a request is a sequence of calls of
    the service (\<open>served\<close>), and what an answer can hold.
  \<^item> \<open>Warden_Reasoning\<close>, \<open>Warden_Steps\<close>: evaluation of an operation over a store with the contract, and facts
    about all methods at once; \<open>service_step\<close> is the step relation of the running service.
  \<^item> \<open>Warden_Session_Facts\<close>, \<open>Warden_Admin_Facts\<close>, \<open>Warden_Credential_Facts\<close>, \<open>Warden_Token_Facts\<close>,
    \<open>Warden_Device_Facts\<close>, \<open>Warden_Directory_Facts\<close>, \<open>Warden_Login_Facts\<close>: what the methods guarantee, for any store with the contract.
  \<^item> \<open>Warden_Example\<close> and the theories \<open>*_Properties\<close>: the properties for the in-memory store, each with an
    instance in a small concrete service.
  \<^item> \<open>Gorm_Database\<close>, \<open>Gorm_Rows\<close>: the statements of GORM, the locale of their documented laws, and lists of rows as maps.
    \<open>Warden_GORMStore\<close>: \<open>src/warden/gorm_store.go\<close>, its twelve models and every operation. \<open>Warden_GORM_Facts\<close>,
    \<open>Warden_GORM_Principals\<close>: each operation simulates the one of a store with the contract; \<open>Warden_GORM_Instance\<close>: a
    relational database of lists that satisfies the laws; \<open>Warden_GORM_Properties\<close>: the two stores are equivalent, and what
    only the database does; \<open>Warden_GORM_Open\<close>: opening, checking and closing a database.
  \<^item> \<open>Warden_CasdoorManager\<close>, \<open>Warden_CasdoorProxy\<close>: \<open>src/warden/casdoor.go\<close>, the process beside the service with the calls of
    several callers interleaved (\<open>casdoor_step\<close>), and the reverse proxy; \<open>Warden_Sidecar_Properties\<close> their properties.
  \<^item> \<open>Warden_Reconciler\<close>: the goroutine that reconciles the directory periodically (\<open>reconciler.go\<close>), with the calls of
    \<open>Start\<close> and \<open>Stop\<close> interleaved. \<open>Webhub_Notify\<close>: the notification client (\<open>src/webhub/notify/client.go\<close>).
  \<^item> \<open>Discovery_Instance\<close>, \<open>Discovery_Mdns\<close>, \<open>Discovery_Redis\<close>, \<open>Discovery_Consul\<close>, \<open>Discovery_Registration\<close>:
    \<open>src/discovery\<close>, one theory per registrar; the locale \<open>registrar\<close> is the interface \<open>Registrar\<close>, interpreted on
    all three; \<open>Discovery_Properties\<close> the properties.

  \<^bold>\<open>State.\<close> A \<open>World\<close> is the store together with the settings that can change while the service runs, the
  notifications and mails sent, and counters that say how often the clock, the random source and the
  directory have been read; \<open>svc_clock\<close>, \<open>svc_rand\<close> and the directory are functions of these counters. Each
  method of the service is one atomic operation on a \<open>World\<close>; a run of the service is a sequence of them.
  A registrar is a state of its own, the outcomes of its network calls are functions of their number.

  \<^bold>\<open>What the lemmas show.\<close> The tokens: which are accepted, that a signed one verifies, that the scopes of a
  token are exactly the requested ones that a policy grants and, for keys and agents, nothing beyond the
  key or the delegator. The store: its invariant and its growth along every run. Sessions, keys, device
  codes: when they are valid, and that revocation, disabling, expiry and consumption end them. Logins: a
  login state opens one session, for the browser it was made for; a user gone from the directory loses
  access at the next reconciliation; the directory grants only mapped roles. The HTTP interface refines the
  service, so that every property of its runs holds of the server; a session cookie is only handed to the
  browser that started the login, and its redirect stays on the server. Discovery: an independent reader recovers the instance from an mDNS packet and the
  commands from the bytes sent to Redis; normalizing is idempotent; a stopped registration is over. The reconciler
  refines the service, runs one live goroutine, and its \<open>Stop\<close> returns; the notification client reuses a token only while it is fresh.
  The store in a database answers as the in-memory store does, over which the properties of the service are stated.
  The Casdoor manager runs at most one process, and its proxy forwards only what the service does not serve itself.

  \<^bold>\<open>Parameters.\<close> JSON (\<open>json_codec\<close>), a directory other than Casdoor (\<open>DirectorySource\<close>), the answers of a Casdoor
  server (\<open>directory_fetch\<close>) and the library that verifies ID tokens and exchanges codes (\<open>OIDCLibrary\<close>) are
  functions, applied to the number of the call where an answer can change. The round-trip theorems assume of the codec that the
  claims at hand decode to themselves. GORM and the database are a record of statements (\<open>gorm_DB\<close>) with the laws of the
  locale \<open>gorm_database\<close>: a statement that fails has no effect, \<open>Save\<close> replaces the row of its primary key, unique columns
  and primary keys stay unique, a transaction that fails is rolled back, and text and instants are stored unchanged.

  \<^bold>\<open>Bounds.\<close> Times and durations are unbounded integers, except that the sum of lifetime and clock skew wraps
  at 64 bits as in the code; the round trip bounds it by 28 days. There is no fuel: all loops are over
  slices or maps and are structurally recursive, and the health check of the Casdoor server counts the ticks before its timeout.

  \<^bold>\<open>Not modelled.\<close> Concurrency inside one method (the database store does not make the device exchange
  atomic), context cancellation and the transport of HTTP: a request is what \<open>net/http\<close> hands to the
  handler, an answer holds the value that is encoded as JSON, and \<open>time.Parse\<close> is a parameter.
\<close>

end
